(* ===== verification/Prelude.thy ===== *)
theory Prelude
  imports Complex_Main
begin

text \<open>
  Shared vocabulary of the development: fallible computations with the two ways a Rust
  function can fail (an \<open>anyhow\<close> error or a panic), programs over an explicit world
  state with their Hoare-style rules, chrono time arithmetic in nanoseconds, the ASCII
  string functions the sources call, and generic lemmas on lists.
\<close>

named_theorems wp \<open>Hoare rules of programs over the world\<close>
named_theorems run_simps \<open>evaluation of programs\<close>

section \<open>Errors and fallible values\<close>

text \<open>
  \<open>Anyhow\<close> is an error value (\<open>anyhow::Error\<close>, with the fixed part of its message);
  \<open>Panic\<close> is an unwinding panic, which no \<open>Err\<close> handler of the sources catches.
\<close>

datatype error = Anyhow string | Panic string

type_synonym 'a result = "error + 'a"

definition bindR :: "'a result \<Rightarrow> ('a \<Rightarrow> 'b result) \<Rightarrow> 'b result" where
  "bindR r f = (case r of Inl e \<Rightarrow> Inl e | Inr x \<Rightarrow> f x)"

lemma bindR_simps [simp]:
  "bindR (Inl e) f = Inl e"
  "bindR (Inr x) f = f x"
  by (simp_all add: bindR_def)

lemma bindR_eq_Inr: "bindR r f = Inr y \<longleftrightarrow> (\<exists>x. r = Inr x \<and> f x = Inr y)"
  by (cases r) auto

lemma bindR_eq_Inl: "bindR r f = Inl e \<longleftrightarrow> r = Inl e \<or> (\<exists>x. r = Inr x \<and> f x = Inl e)"
  by (cases r) auto

text \<open>\<open>collect\<close> of an iterator of results into a result of a vector: the first error wins.\<close>

fun collectR :: "('a \<Rightarrow> 'b result) \<Rightarrow> 'a list \<Rightarrow> 'b list result" where
  "collectR f [] = Inr []"
| "collectR f (x # xs) =
     bindR (f x) (\<lambda>y. bindR (collectR f xs) (\<lambda>ys. Inr (y # ys)))"

lemma collectR_Inr_length: "collectR f xs = Inr ys \<Longrightarrow> length ys = length xs"
  by (induction xs arbitrary: ys) (auto simp: bindR_eq_Inr)

lemma collectR_all_Inr: "(\<And>x. x \<in> set xs \<Longrightarrow> f x = Inr (g x)) \<Longrightarrow> collectR f xs = Inr (map g xs)"
  by (induction xs) auto

lemma collectR_Inr_nth:
  "collectR f xs = Inr ys \<Longrightarrow> list_all2 (\<lambda>x y. f x = Inr y) xs ys"
  by (induction xs arbitrary: ys) (auto simp: bindR_eq_Inr)

text \<open>\<open>ok_or_else\<close> on an option.\<close>

definition ok_or :: "error \<Rightarrow> 'a option \<Rightarrow> 'a result" where
  "ok_or e x = (case x of None \<Rightarrow> Inl e | Some y \<Rightarrow> Inr y)"

lemma ok_or_simps [simp]: "ok_or e None = Inl e" "ok_or e (Some y) = Inr y"
  by (simp_all add: ok_or_def)

lemma ok_or_eq_Inr [simp]: "ok_or e x = Inr y \<longleftrightarrow> x = Some y"
  by (cases x) auto

section \<open>Programs over a world state\<close>

text \<open>
  An \<open>async fn\<close> of the sources that reads and writes the outside world is a state
  transformer with a fallible result. Errors keep the state reached so far: what was
  already sent or committed stays sent or committed.
\<close>

type_synonym ('w, 'a) prog = "'w \<Rightarrow> 'a result \<times> 'w"

definition returnE :: "'a \<Rightarrow> ('w, 'a) prog" where
  "returnE x = (\<lambda>w. (Inr x, w))"

definition failE :: "error \<Rightarrow> ('w, 'a) prog" where
  "failE e = (\<lambda>w. (Inl e, w))"

definition bindE :: "('w, 'a) prog \<Rightarrow> ('a \<Rightarrow> ('w, 'b) prog) \<Rightarrow> ('w, 'b) prog" where
  "bindE m f = (\<lambda>w. case m w of (Inl e, w') \<Rightarrow> (Inl e, w') | (Inr x, w') \<Rightarrow> f x w')"

definition liftR :: "'a result \<Rightarrow> ('w, 'a) prog" where
  "liftR r = (\<lambda>w. (r, w))"

definition askW :: "('w \<Rightarrow> 'a) \<Rightarrow> ('w, 'a) prog" where
  "askW f = (\<lambda>w. (Inr (f w), w))"

definition modifyW :: "('w \<Rightarrow> 'w) \<Rightarrow> ('w, unit) prog" where
  "modifyW f = (\<lambda>w. (Inr (), f w))"

text \<open>
  \<open>attempt m\<close> is a \<open>match\<close> on the \<open>Result\<close> of \<open>m\<close>: an error value is handed on as
  data, a panic keeps unwinding.
\<close>

definition attempt :: "('w, 'a) prog \<Rightarrow> ('w, string + 'a) prog" where
  "attempt m = (\<lambda>w. case m w of
     (Inl (Anyhow e), w') \<Rightarrow> (Inr (Inl e), w')
   | (Inl (Panic p), w') \<Rightarrow> (Inl (Panic p), w')
   | (Inr x, w') \<Rightarrow> (Inr (Inr x), w'))"

fun forE :: "'a list \<Rightarrow> ('a \<Rightarrow> ('w, unit) prog) \<Rightarrow> ('w, unit) prog" where
  "forE [] f = returnE ()"
| "forE (x # xs) f = bindE (f x) (\<lambda>_. forE xs f)"

text \<open>A loop that carries local variables from one element to the next.\<close>

fun foldE :: "('s \<Rightarrow> 'a \<Rightarrow> ('w, 's) prog) \<Rightarrow> 's \<Rightarrow> 'a list \<Rightarrow> ('w, 's) prog" where
  "foldE f s [] = returnE s"
| "foldE f s (x # xs) = bindE (f s x) (\<lambda>s'. foldE f s' xs)"

lemmas prog_defs = returnE_def failE_def bindE_def liftR_def askW_def modifyW_def attempt_def

lemma returnE_run [run_simps]: "returnE x w = (Inr x, w)" by (simp add: returnE_def)
lemma failE_run [run_simps]: "failE e w = (Inl e, w)" by (simp add: failE_def)
lemma liftR_run [run_simps]: "liftR r w = (r, w)" by (simp add: liftR_def)
lemma askW_run [run_simps]: "askW f w = (Inr (f w), w)" by (simp add: askW_def)
lemma modifyW_run [run_simps]: "modifyW f w = (Inr (), f w)" by (simp add: modifyW_def)

lemma bindE_run [run_simps]:
  "bindE m f w = (case m w of (Inl e, w') \<Rightarrow> (Inl e, w') | (Inr x, w') \<Rightarrow> f x w')"
  by (simp add: bindE_def)

lemma attempt_run [run_simps]:
  "attempt m w = (case m w of
     (Inl (Anyhow e), w') \<Rightarrow> (Inr (Inl e), w')
   | (Inl (Panic p), w') \<Rightarrow> (Inl (Panic p), w')
   | (Inr x, w') \<Rightarrow> (Inr (Inr x), w'))"
  by (simp add: attempt_def)

lemma forE_run [run_simps]:
  "forE [] f w = (Inr (), w)"
  "forE (x # xs) f w = (case f x w of (Inl e, w') \<Rightarrow> (Inl e, w') | (Inr _, w') \<Rightarrow> forE xs f w')"
  by (simp_all add: run_simps)

text \<open>
  \<open>triple P m Q E\<close>: from a world satisfying \<open>P\<close>, a normal return satisfies \<open>Q\<close> and a
  failing one \<open>E\<close>. Programs are total functions, so this is total correctness.
\<close>

definition triple ::
  "('w \<Rightarrow> bool) \<Rightarrow> ('w, 'a) prog \<Rightarrow> ('a \<Rightarrow> 'w \<Rightarrow> bool) \<Rightarrow> (error \<Rightarrow> 'w \<Rightarrow> bool) \<Rightarrow> bool" where
  "triple P m Q E \<longleftrightarrow> (\<forall>w. P w \<longrightarrow>
     (case m w of (Inl e, w') \<Rightarrow> E e w' | (Inr x, w') \<Rightarrow> Q x w'))"

abbreviation preserves :: "('w \<Rightarrow> bool) \<Rightarrow> ('w, 'a) prog \<Rightarrow> bool" where
  "preserves I m \<equiv> triple I m (\<lambda>_. I) (\<lambda>_. I)"

lemma tripleI:
  assumes "\<And>w e w'. P w \<Longrightarrow> m w = (Inl e, w') \<Longrightarrow> E e w'"
    and "\<And>w x w'. P w \<Longrightarrow> m w = (Inr x, w') \<Longrightarrow> Q x w'"
  shows "triple P m Q E"
  unfolding triple_def using assms by (auto split: prod.splits sum.splits)

lemma triple_Inr: "triple P m Q E \<Longrightarrow> P w \<Longrightarrow> m w = (Inr x, w') \<Longrightarrow> Q x w'"
  unfolding triple_def by fastforce

lemma triple_Inl: "triple P m Q E \<Longrightarrow> P w \<Longrightarrow> m w = (Inl e, w') \<Longrightarrow> E e w'"
  unfolding triple_def by fastforce

lemma preserves_snd: "preserves I m \<Longrightarrow> I w \<Longrightarrow> I (snd (m w))"
  unfolding triple_def by (cases "m w") (auto split: sum.splits)

lemma triple_weaken:
  assumes "triple P m Q E" and "\<And>w. P' w \<Longrightarrow> P w"
    and "\<And>x w. Q x w \<Longrightarrow> Q' x w" and "\<And>e w. E e w \<Longrightarrow> E' e w"
  shows "triple P' m Q' E'"
  using assms unfolding triple_def by (fastforce split: prod.splits sum.splits)

lemma triple_bindE [wp]:
  assumes "triple P m R E" and "\<And>x. triple (R x) (f x) Q E"
  shows "triple P (bindE m f) Q E"
proof (rule tripleI)
  fix w e w' assume "P w" and "bindE m f w = (Inl e, w')"
  then show "E e w'"
    using assms by (auto simp: bindE_run split: prod.splits sum.splits dest: triple_Inl triple_Inr)
next
  fix w x w' assume "P w" and "bindE m f w = (Inr x, w')"
  then show "Q x w'"
    using assms by (auto simp: bindE_run split: prod.splits sum.splits dest: triple_Inr)
qed

lemma triple_returnE [wp]: "(\<And>w. P w \<Longrightarrow> Q x w) \<Longrightarrow> triple P (returnE x) Q E"
  by (simp add: triple_def run_simps)

lemma triple_failE [wp]: "(\<And>w. P w \<Longrightarrow> E e w) \<Longrightarrow> triple P (failE e) Q E"
  by (simp add: triple_def run_simps)

lemma preserves_returnE [wp]: "preserves I (returnE x)"
  by (simp add: triple_def run_simps)

lemma preserves_failE [wp]: "preserves I (failE e)"
  by (simp add: triple_def run_simps)

lemma preserves_liftR [wp]: "preserves I (liftR r)"
  by (auto simp: triple_def run_simps split: sum.splits)

lemma preserves_askW [wp]: "preserves I (askW f)"
  by (simp add: triple_def run_simps)

lemma preserves_modifyW [wp]: "(\<And>w. I w \<Longrightarrow> I (f w)) \<Longrightarrow> preserves I (modifyW f)"
  by (simp add: triple_def run_simps)

lemma preserves_bindE [wp]:
  "preserves I m \<Longrightarrow> (\<And>x. preserves I (f x)) \<Longrightarrow> preserves I (bindE m f)"
  by (rule triple_bindE)

lemma preserves_attempt [wp]: "preserves I m \<Longrightarrow> preserves I (attempt m)"
  unfolding triple_def
  by (auto simp: run_simps split: prod.splits sum.splits error.splits)

lemma preserves_forE [wp]: "(\<And>x. x \<in> set xs \<Longrightarrow> preserves I (f x)) \<Longrightarrow> preserves I (forE xs f)"
  by (induction xs) (auto intro!: preserves_bindE preserves_returnE)

section \<open>Transition systems\<close>

text \<open>
  The concurrent tasks of the program are step relations on a shared state. \<open>reachable\<close>
  closes the initial states under any interleaving of steps; the locale is the induction
  principle every invariant of the development goes through.
\<close>

definition reachable :: "('s \<Rightarrow> bool) \<Rightarrow> ('s \<Rightarrow> 's \<Rightarrow> bool) \<Rightarrow> 's \<Rightarrow> bool" where
  "reachable init step s \<longleftrightarrow> (\<exists>s0. init s0 \<and> step\<^sup>*\<^sup>* s0 s)"

lemma reachable_init: "init s \<Longrightarrow> reachable init step s"
  unfolding reachable_def by blast

lemma reachable_step: "reachable init step s \<Longrightarrow> step s s' \<Longrightarrow> reachable init step s'"
  unfolding reachable_def by (blast intro: rtranclp.rtrancl_into_rtrancl)

locale inductive_invariant =
  fixes init :: "'s \<Rightarrow> bool" and step :: "'s \<Rightarrow> 's \<Rightarrow> bool" and inv :: "'s \<Rightarrow> bool"
  assumes init_inv: "init s \<Longrightarrow> inv s"
    and step_inv: "inv s \<Longrightarrow> step s s' \<Longrightarrow> inv s'"
begin

lemma steps_inv: "step\<^sup>*\<^sup>* s s' \<Longrightarrow> inv s \<Longrightarrow> inv s'"
  by (induction rule: rtranclp_induct) (auto intro: step_inv)

lemma reachable_inv: "reachable init step s \<Longrightarrow> inv s"
  unfolding reachable_def using init_inv steps_inv by blast

end

section \<open>Time\<close>

text \<open>
  A \<open>DateTime<Utc>\<close> is the number of nanoseconds since the epoch; a \<open>chrono::Duration\<close> is
  a number of nanoseconds. Integer division of Rust and the \<open>num_*\<close> accessors of chrono
  truncate towards zero.
\<close>

type_synonym datetime = int

definition tdiv :: "int \<Rightarrow> int \<Rightarrow> int" where
  "tdiv a b = sgn a * sgn b * (\<bar>a\<bar> div \<bar>b\<bar>)"

definition trem :: "int \<Rightarrow> int \<Rightarrow> int" where
  "trem a b = a - tdiv a b * b"

definition nanos_per_sec :: int where "nanos_per_sec = 1000000000"

definition secs :: "int \<Rightarrow> int" where "secs n = n * nanos_per_sec"

definition hours :: "int \<Rightarrow> int" where "hours n = secs (3600 * n)"

definition num_seconds :: "int \<Rightarrow> int" where "num_seconds d = tdiv d nanos_per_sec"

definition num_hours :: "int \<Rightarrow> int" where "num_hours d = tdiv (num_seconds d) 3600"

lemma tdiv_nonneg: "0 \<le> a \<Longrightarrow> 0 < b \<Longrightarrow> tdiv a b = a div b"
  by (cases "a = 0") (auto simp: tdiv_def sgn_if)

lemma trem_nonneg: "0 \<le> a \<Longrightarrow> 0 < b \<Longrightarrow> trem a b = a mod b"
  by (simp add: trem_def tdiv_nonneg minus_div_mult_eq_mod)

lemma num_seconds_nonneg: "0 \<le> d \<Longrightarrow> num_seconds d = d div nanos_per_sec"
  by (simp add: num_seconds_def tdiv_nonneg nanos_per_sec_def)

lemma num_seconds_nonpos: "d \<le> 0 \<Longrightarrow> num_seconds d \<le> 0"
  by (auto simp: num_seconds_def tdiv_def nanos_per_sec_def sgn_if)

lemma le_div_iff_mult_le:
  assumes "0 < c"
  shows "n \<le> d div c \<longleftrightarrow> n * c \<le> (d :: int)"
proof
  assume "n \<le> d div c"
  then have "n * c \<le> (d div c) * c" using assms by simp
  also have "\<dots> \<le> d" using assms by (simp flip: minus_mod_eq_div_mult)
  finally show "n * c \<le> d" .
next
  assume "n * c \<le> d"
  then have "(n * c) div c \<le> d div c" using assms by (rule zdiv_mono1)
  then show "n \<le> d div c" using assms by simp
qed

lemma num_seconds_ge:
  assumes "0 < n"
  shows "n \<le> num_seconds d \<longleftrightarrow> secs n \<le> d"
proof (cases "0 \<le> d")
  case True
  then show ?thesis
    by (simp add: num_seconds_nonneg secs_def nanos_per_sec_def le_div_iff_mult_le)
next
  case False
  then have "num_seconds d \<le> 0" by (simp add: num_seconds_nonpos)
  then show ?thesis using False assms by (auto simp: secs_def nanos_per_sec_def)
qed

lemma num_hours_nonneg: "0 \<le> d \<Longrightarrow> num_hours d = d div hours 1"
  by (simp add: num_hours_def num_seconds_nonneg tdiv_nonneg hours_def secs_def
      nanos_per_sec_def zdiv_zmult2_eq)

section \<open>Strings\<close>

text \<open>
  Rust strings are modelled by their bytes. \<open>trim\<close> removes the ASCII white space; the
  white space of other Unicode blocks is outside the model.
\<close>

definition is_white :: "char \<Rightarrow> bool" where
  "is_white c \<longleftrightarrow> of_char c \<in> {9, 10, 11, 12, 13, 32 :: nat}"

definition trim :: "string \<Rightarrow> string" where
  "trim s = rev (dropWhile is_white (rev (dropWhile is_white s)))"

definition trim_matches :: "(char \<Rightarrow> bool) \<Rightarrow> string \<Rightarrow> string" where
  "trim_matches p s = rev (dropWhile p (rev (dropWhile p s)))"

definition ascii_upper :: "char \<Rightarrow> char" where
  "ascii_upper c = (let n = of_char c :: nat in if 97 \<le> n \<and> n \<le> 122 then char_of (n - 32) else c)"

definition ascii_lower :: "char \<Rightarrow> char" where
  "ascii_lower c = (let n = of_char c :: nat in if 65 \<le> n \<and> n \<le> 90 then char_of (n + 32) else c)"

definition to_ascii_uppercase :: "string \<Rightarrow> string" where
  "to_ascii_uppercase = map ascii_upper"

definition to_ascii_lowercase :: "string \<Rightarrow> string" where
  "to_ascii_lowercase = map ascii_lower"

fun starts_with :: "string \<Rightarrow> string \<Rightarrow> bool" where
  "starts_with s [] = True"
| "starts_with [] (p # ps) = False"
| "starts_with (c # s) (p # ps) = (c = p \<and> starts_with s ps)"

lemma starts_with_iff: "starts_with s p \<longleftrightarrow> (\<exists>r. s = p @ r)"
  by (induction s p rule: starts_with.induct) auto

section \<open>Hash containers\<close>

text \<open>The order in which a hash container shows its keys.\<close>

definition iteration_order :: "('k list \<Rightarrow> 'k list) \<Rightarrow> bool" where
  "iteration_order f \<longleftrightarrow> (\<forall>ks. distinct ks \<longrightarrow> distinct (f ks) \<and> set (f ks) = set ks)"

section \<open>Lists\<close>

lemma sum_list_filter_split:
  "(\<Sum>x\<leftarrow>xs. f x) = (\<Sum>x\<leftarrow>filter p xs. f x) + (\<Sum>x\<leftarrow>filter (\<lambda>x. \<not> p x) xs. (f x :: 'b::ab_group_add))"
  by (induction xs) auto

lemma filter_unique:
  "distinct (map k xs) \<Longrightarrow> x \<in> set xs \<Longrightarrow> filter (\<lambda>y. k y = k x) xs = [x]"
proof (induction xs)
  case (Cons y ys)
  show ?case
  proof (cases "x = y")
    case True
    then show ?thesis using Cons.prems by (auto simp: filter_empty_conv image_iff)
  next
    case False
    then have "x \<in> set ys" and "k y \<noteq> k x" using Cons.prems by force+
    then show ?thesis using Cons by simp
  qed
qed simp

lemma length_le_1: "distinct xs \<Longrightarrow> (\<And>x y. x \<in> set xs \<Longrightarrow> y \<in> set xs \<Longrightarrow> x = y) \<Longrightarrow> length xs \<le> 1"
  by (metis distinct_card card_le_Suc0_iff_eq List.finite_set One_nat_def)

lemma map_if_id: "(\<And>x. x \<in> set xs \<Longrightarrow> \<not> p x) \<Longrightarrow> map (\<lambda>x. if p x then f x else x) xs = xs"
  by (induction xs) auto

end
