(* ===== verification/Decimals.thy ===== *)
theory Decimals
  imports Prelude
begin

text \<open>
  \<open>rust_decimal::Decimal\<close>. A value is the rational number it denotes (two decimals that
  compare equal denote the same number; the scale is not observable by the modelled code).
  The crate is not part of the repository: what it does with the exact result of an
  operator is the parameter \<open>rnd\<close>, the number it returns for that exact result (a decimal
  has a 96-bit mantissa and at most 28 fractional digits). An overflow of the 96-bit range
  panics in the crate; the model describes the runs without such an overflow. Division by
  zero panics and is an explicit branch. \<open>dec_rounding\<close> is the documented behaviour the
  theorems may assume; \<open>rnd28\<close>, rounding half away from zero at 28 digits, satisfies it.
\<close>

type_synonym decimal = rat

type_synonym rounding = "rat \<Rightarrow> rat"

definition dadd :: "rounding \<Rightarrow> decimal \<Rightarrow> decimal \<Rightarrow> decimal" where
  "dadd rnd a b = rnd (a + b)"

definition dsub :: "rounding \<Rightarrow> decimal \<Rightarrow> decimal \<Rightarrow> decimal" where
  "dsub rnd a b = rnd (a - b)"

definition dmul :: "rounding \<Rightarrow> decimal \<Rightarrow> decimal \<Rightarrow> decimal" where
  "dmul rnd a b = rnd (a * b)"

definition ddiv :: "rounding \<Rightarrow> decimal \<Rightarrow> decimal \<Rightarrow> decimal result" where
  "ddiv rnd a b = (if b = 0 then Inl (Panic ''Division by zero'') else Inr (rnd (a / b)))"

text \<open>\<open>Iterator::sum\<close>: a left fold from zero.\<close>

definition dsum :: "rounding \<Rightarrow> decimal list \<Rightarrow> decimal" where
  "dsum rnd xs = foldl (dadd rnd) 0 xs"

text \<open>\<open>round_dp_with_strategy(0, ToZero)\<close>, \<open>floor\<close> and \<open>ceil\<close> return whole numbers.\<close>

definition trunc :: "decimal \<Rightarrow> decimal" where
  "trunc x = (if 0 \<le> x then of_int \<lfloor>x\<rfloor> else of_int \<lceil>x\<rceil>)"

definition dfloor :: "decimal \<Rightarrow> decimal" where "dfloor x = of_int \<lfloor>x\<rfloor>"

definition dceil :: "decimal \<Rightarrow> decimal" where "dceil x = of_int \<lceil>x\<rceil>"

text \<open>The numbers a \<open>Decimal\<close> can hold.\<close>

definition representable :: "rat \<Rightarrow> bool" where
  "representable q \<longleftrightarrow> (\<exists>m::int. \<exists>e::nat. \<bar>m\<bar> < 2 ^ 96 \<and> e \<le> 28 \<and> q = of_int m / 10 ^ e)"

definition dec_rounding :: "rounding \<Rightarrow> bool" where
  "dec_rounding rnd \<longleftrightarrow>
     (\<forall>x y. x \<le> y \<longrightarrow> rnd x \<le> rnd y) \<and>
     (\<forall>x. rnd (- x) = - rnd x) \<and>
     (\<forall>x. representable x \<longrightarrow> rnd x = x)"

definition rnd28 :: rounding where
  "rnd28 x = sgn x * of_int \<lfloor>\<bar>x\<bar> * 10 ^ 28 + 1 / 2\<rfloor> / 10 ^ 28"

section \<open>Consequences of the rounding contract\<close>

lemma rounding_mono: "dec_rounding rnd \<Longrightarrow> x \<le> y \<Longrightarrow> rnd x \<le> rnd y"
  by (simp add: dec_rounding_def)

lemma rounding_neg: "dec_rounding rnd \<Longrightarrow> rnd (- x) = - rnd x"
  by (simp add: dec_rounding_def)

lemma rounding_rep: "dec_rounding rnd \<Longrightarrow> representable x \<Longrightarrow> rnd x = x"
  by (simp add: dec_rounding_def)

lemma representable_of_int: "\<bar>m\<bar> < 2 ^ 96 \<Longrightarrow> representable (of_int m)"
  unfolding representable_def by (rule exI [of _ m], rule exI [of _ 0]) simp

lemma representable_0 [simp]: "representable 0"
  using representable_of_int [of 0] by simp

lemma representable_1 [simp]: "representable 1"
  using representable_of_int [of 1] by simp

lemma rounding_0 [simp]: "dec_rounding rnd \<Longrightarrow> rnd 0 = 0"
  by (simp add: rounding_rep)

lemma rounding_nonneg: "dec_rounding rnd \<Longrightarrow> 0 \<le> x \<Longrightarrow> 0 \<le> rnd x"
  using rounding_mono [of rnd 0 x] by simp

lemma rounding_nonpos: "dec_rounding rnd \<Longrightarrow> x \<le> 0 \<Longrightarrow> rnd x \<le> 0"
  using rounding_mono [of rnd x 0] by simp

lemma rounding_le_rep: "dec_rounding rnd \<Longrightarrow> x \<le> y \<Longrightarrow> representable y \<Longrightarrow> rnd x \<le> y"
  using rounding_mono [of rnd x y] rounding_rep [of rnd y] by simp

lemma rounding_ge_rep: "dec_rounding rnd \<Longrightarrow> y \<le> x \<Longrightarrow> representable y \<Longrightarrow> y \<le> rnd x"
  using rounding_mono [of rnd y x] rounding_rep [of rnd y] by simp

lemma rounding_le_int:
  "dec_rounding rnd \<Longrightarrow> x \<le> of_int k \<Longrightarrow> \<bar>k\<bar> < 2 ^ 96 \<Longrightarrow> rnd x \<le> of_int k"
  by (rule rounding_le_rep) (simp_all add: representable_of_int)

lemma rounding_ge_int:
  "dec_rounding rnd \<Longrightarrow> of_int k \<le> x \<Longrightarrow> \<bar>k\<bar> < 2 ^ 96 \<Longrightarrow> of_int k \<le> rnd x"
  by (rule rounding_ge_rep) (simp_all add: representable_of_int)

lemma representable_uminus: "representable x \<Longrightarrow> representable (- x)"
  unfolding representable_def
  by (metis abs_minus_cancel minus_divide_left of_int_minus)

section \<open>Truncation\<close>

lemma trunc_0 [simp]: "trunc 0 = 0"
  by (simp add: trunc_def)

lemma trunc_uminus: "trunc (- x) = - trunc x"
  by (cases "x = 0") (auto simp: trunc_def ceiling_def)

lemma trunc_nonneg: "0 \<le> x \<Longrightarrow> 0 \<le> trunc x"
  by (simp add: trunc_def)

lemma trunc_nonpos: "x \<le> 0 \<Longrightarrow> trunc x \<le> 0"
  by (cases "x = 0") (auto simp: trunc_def)

lemma trunc_le: "0 \<le> x \<Longrightarrow> trunc x \<le> x"
  by (simp add: trunc_def)

lemma trunc_gt: "0 \<le> x \<Longrightarrow> x < trunc x + 1"
  unfolding trunc_def using floor_correct [of x] by simp

lemma trunc_abs_le: "\<bar>trunc x\<bar> \<le> \<bar>x\<bar>"
proof (cases "0 \<le> x")
  case True
  then show ?thesis by (simp add: trunc_le trunc_nonneg)
next
  case False
  then have "\<bar>trunc (- x)\<bar> \<le> \<bar>- x\<bar>" by (simp add: trunc_le trunc_nonneg)
  then show ?thesis by (simp add: trunc_uminus)
qed

lemma trunc_mono: "x \<le> y \<Longrightarrow> trunc x \<le> trunc y"
proof (cases "0 \<le> x \<or> y < 0")
  case True
  then show "x \<le> y \<Longrightarrow> ?thesis" by (auto simp: trunc_def floor_mono ceiling_mono)
next
  case False
  then have "trunc x \<le> 0" and "0 \<le> trunc y" by (simp_all add: trunc_nonpos trunc_nonneg)
  then show ?thesis by simp
qed

lemma trunc_whole: "trunc x \<in> \<int>"
  by (simp add: trunc_def)

lemma trunc_idem: "x \<in> \<int> \<Longrightarrow> trunc x = x"
  by (auto simp: trunc_def elim!: Ints_cases)

lemma trunc_eq_0_iff: "trunc x = 0 \<longleftrightarrow> \<bar>x\<bar> < 1"
proof (cases "0 \<le> x")
  case True
  then show ?thesis by (simp add: trunc_def floor_eq_iff)
next
  case False
  then show ?thesis by (auto simp: trunc_def ceiling_eq_iff)
qed

section \<open>The rounding contract can be met\<close>

lemma rnd28_nonneg: "0 \<le> x \<Longrightarrow> rnd28 x = of_int \<lfloor>x * 10 ^ 28 + 1 / 2\<rfloor> / 10 ^ 28"
  by (cases "x = 0") (simp_all add: rnd28_def floor_eq_iff)

lemma rnd28_uminus: "rnd28 (- x) = - rnd28 x"
  by (simp add: rnd28_def sgn_minus)

lemma rnd28_nonneg_ge: "0 \<le> x \<Longrightarrow> 0 \<le> rnd28 x"
  by (simp add: rnd28_nonneg)

lemma rnd28_mono_nonneg:
  assumes "0 \<le> x" and "x \<le> y"
  shows "rnd28 x \<le> rnd28 y"
proof -
  have "\<lfloor>x * 10 ^ 28 + 1 / 2\<rfloor> \<le> \<lfloor>y * 10 ^ 28 + 1 / 2\<rfloor>"
    using assms(2) by (intro floor_mono) simp
  then show ?thesis using assms by (simp add: rnd28_nonneg divide_right_mono)
qed

lemma rnd28_mono:
  assumes "x \<le> y"
  shows "rnd28 x \<le> rnd28 y"
proof (cases "0 \<le> x")
  case True
  then show ?thesis using assms by (rule rnd28_mono_nonneg)
next
  case x: False
  have nx: "0 \<le> rnd28 (- x)" using x by (intro rnd28_nonneg_ge) simp
  show ?thesis
  proof (cases "0 \<le> y")
    case True
    then show ?thesis using nx rnd28_nonneg_ge [of y] by (simp add: rnd28_uminus)
  next
    case False
    then have "rnd28 (- y) \<le> rnd28 (- x)" using assms by (intro rnd28_mono_nonneg) simp_all
    then show ?thesis by (simp add: rnd28_uminus)
  qed
qed

lemma rnd28_rep_nonneg:
  assumes "e \<le> 28" and "0 \<le> (m::int)"
  shows "rnd28 (of_int m / 10 ^ e) = of_int m / 10 ^ e"
proof -
  have p: "(10 :: rat) ^ 28 = 10 ^ e * 10 ^ (28 - e)"
    using assms(1) by (simp only: flip: power_add) simp
  have "of_int m / 10 ^ e * 10 ^ 28 = (of_int (m * 10 ^ (28 - e)) :: rat)"
    unfolding p by simp
  moreover have "\<lfloor>of_int k + 1 / 2 :: rat\<rfloor> = k" for k :: int
    by (simp add: floor_eq_iff)
  ultimately have "rnd28 (of_int m / 10 ^ e) = of_int (m * 10 ^ (28 - e)) / 10 ^ 28"
    using assms(2) by (subst rnd28_nonneg) (simp_all only: zero_le_divide_iff of_int_0_le_iff zero_le_power, simp_all)
  then show ?thesis unfolding p by simp
qed

lemma dec_rounding_rnd28: "dec_rounding rnd28"
  unfolding dec_rounding_def
proof (intro conjI allI impI)
  fix x assume "representable x"
  then obtain m :: int and e where x: "x = of_int m / 10 ^ e" and e: "e \<le> 28"
    by (auto simp: representable_def)
  show "rnd28 x = x"
  proof (cases "0 \<le> m")
    case True
    then show ?thesis using e by (simp add: x rnd28_rep_nonneg)
  next
    case False
    then have "rnd28 (of_int (- m) / 10 ^ e) = of_int (- m) / 10 ^ e"
      using e by (intro rnd28_rep_nonneg) simp_all
    then have "rnd28 (- x) = - x" by (simp add: x)
    then show ?thesis by (simp add: rnd28_uminus)
  qed
qed (simp_all add: rnd28_mono rnd28_uminus)

end
