(* ===== verification/Types.thy ===== *)
theory Types
  imports Decimals "HOL-Library.Word"
begin

text \<open>
  The data of \<open>crates/core/src/types.rs\<close>, \<open>strategy.rs\<close> and \<open>event.rs\<close>: enumerations
  with their snake-case names, signals, trades, candles and events. A \<open>Pair\<close> is its name, a
  \<open>Uuid\<close> a natural number, an \<open>f64\<close> field the 64 bits of the IEEE number, a \<open>HashMap\<close> a
  partial map.
\<close>

type_synonym pair = string
type_synonym uuid = nat
type_synonym f64_bits = "64 word"

section \<open>Enumerations and their names\<close>

datatype exchange = Oanda | BitflyerCfd | GmoFx

fun exchange_as_str :: "exchange \<Rightarrow> string" where
  "exchange_as_str Oanda = ''oanda''"
| "exchange_as_str BitflyerCfd = ''bitflyer_cfd''"
| "exchange_as_str GmoFx = ''gmo_fx''"

definition exchange_from_str :: "string \<Rightarrow> exchange result" where
  "exchange_from_str s =
     (if s = ''oanda'' then Inr Oanda
      else if s = ''bitflyer_cfd'' then Inr BitflyerCfd
      else if s = ''gmo_fx'' then Inr GmoFx
      else Inl (Anyhow ''unsupported exchange''))"

datatype direction = Long | Short

fun direction_as_str :: "direction \<Rightarrow> string" where
  "direction_as_str Long = ''long''"
| "direction_as_str Short = ''short''"

definition direction_from_str :: "string \<Rightarrow> direction result" where
  "direction_from_str s =
     (if s = ''long'' then Inr Long
      else if s = ''short'' then Inr Short
      else Inl (Anyhow ''unsupported direction''))"

datatype trade_status = Open | Closing | Closed

fun trade_status_as_str :: "trade_status \<Rightarrow> string" where
  "trade_status_as_str Open = ''open''"
| "trade_status_as_str Closing = ''closing''"
| "trade_status_as_str Closed = ''closed''"

definition trade_status_from_str :: "string \<Rightarrow> trade_status result" where
  "trade_status_from_str s =
     (if s = ''open'' then Inr Open
      else if s = ''closing'' then Inr Closing
      else if s = ''closed'' then Inr Closed
      else Inl (Anyhow ''unsupported trade_status''))"

datatype exit_reason =
    TpHit | SlHit | Manual | SignalReverse | StrategyMeanReached | StrategyTrailingChannel
  | StrategyTrailingMa | StrategyIndicatorReversal | StrategyTimeLimit | Reconciled | Liquidation

fun exit_reason_as_str :: "exit_reason \<Rightarrow> string" where
  "exit_reason_as_str TpHit = ''tp_hit''"
| "exit_reason_as_str SlHit = ''sl_hit''"
| "exit_reason_as_str Manual = ''manual''"
| "exit_reason_as_str SignalReverse = ''signal_reverse''"
| "exit_reason_as_str StrategyMeanReached = ''strategy_mean_reached''"
| "exit_reason_as_str StrategyTrailingChannel = ''strategy_trailing_channel''"
| "exit_reason_as_str StrategyTrailingMa = ''strategy_trailing_ma''"
| "exit_reason_as_str StrategyIndicatorReversal = ''strategy_indicator_reversal''"
| "exit_reason_as_str StrategyTimeLimit = ''strategy_time_limit''"
| "exit_reason_as_str Reconciled = ''reconciled''"
| "exit_reason_as_str Liquidation = ''liquidation''"

definition exit_reason_from_str :: "string \<Rightarrow> exit_reason result" where
  "exit_reason_from_str s =
     (if s = ''tp_hit'' then Inr TpHit
      else if s = ''sl_hit'' then Inr SlHit
      else if s = ''manual'' then Inr Manual
      else if s = ''signal_reverse'' then Inr SignalReverse
      else if s = ''strategy_mean_reached'' then Inr StrategyMeanReached
      else if s = ''strategy_trailing_channel'' then Inr StrategyTrailingChannel
      else if s = ''strategy_trailing_ma'' then Inr StrategyTrailingMa
      else if s = ''strategy_indicator_reversal'' then Inr StrategyIndicatorReversal
      else if s = ''strategy_time_limit'' then Inr StrategyTimeLimit
      else if s = ''reconciled'' then Inr Reconciled
      else if s = ''liquidation'' then Inr Liquidation
      else Inl (Anyhow ''unsupported exit_reason''))"

datatype strategy_exit_reason =
    MeanReached | TrailingChannel | TrailingMa | IndicatorReversal | TimeLimit | Custom string

fun as_tag :: "strategy_exit_reason \<Rightarrow> string" where
  "as_tag MeanReached = ''strategy_mean_reached''"
| "as_tag TrailingChannel = ''strategy_trailing_channel''"
| "as_tag TrailingMa = ''strategy_trailing_ma''"
| "as_tag IndicatorReversal = ''strategy_indicator_reversal''"
| "as_tag TimeLimit = ''strategy_time_limit''"
| "as_tag (Custom tag) = tag"

fun to_exit_reason :: "strategy_exit_reason \<Rightarrow> exit_reason" where
  "to_exit_reason MeanReached = StrategyMeanReached"
| "to_exit_reason TrailingChannel = StrategyTrailingChannel"
| "to_exit_reason TrailingMa = StrategyTrailingMa"
| "to_exit_reason IndicatorReversal = StrategyIndicatorReversal"
| "to_exit_reason TimeLimit = StrategyTimeLimit"
| "to_exit_reason (Custom _) = Manual"

section \<open>Signals, trades, candles and events\<close>

record signal =
  s_strategy_name :: string
  s_pair :: pair
  s_direction :: direction
  s_stop_loss_pct :: decimal
  s_take_profit_pct :: "decimal option"
  s_confidence :: f64_bits
  s_timestamp :: datetime
  s_allocation_pct :: decimal
  s_max_hold_until :: "datetime option"

record trade =
  t_id :: uuid
  t_account_id :: uuid
  t_strategy_name :: string
  t_pair :: pair
  t_exchange :: exchange
  t_direction :: direction
  t_entry_price :: decimal
  t_exit_price :: "decimal option"
  t_stop_loss :: decimal
  t_take_profit :: "decimal option"
  t_quantity :: decimal
  t_leverage :: decimal
  t_fees :: decimal
  t_entry_at :: datetime
  t_exit_at :: "datetime option"
  t_pnl_amount :: "decimal option"
  t_exit_reason :: "exit_reason option"
  t_status :: trade_status
  t_max_hold_until :: "datetime option"
  t_exchange_position_id :: "string option"
  t_stop_order_id :: "string option"

record candle =
  c_pair :: pair
  c_exchange :: exchange
  c_timeframe :: string
  c_open :: decimal
  c_high :: decimal
  c_low :: decimal
  c_close :: decimal
  c_volume :: "nat option"
  c_best_bid :: "decimal option"
  c_best_ask :: "decimal option"
  c_timestamp :: datetime

record price_event =
  e_pair :: pair
  e_exchange :: exchange
  e_candle :: candle
  e_indicators :: "string \<rightharpoonup> decimal"
  e_timestamp :: datetime

record exit_signal =
  x_trade_id :: uuid
  x_reason :: strategy_exit_reason
  x_close_price :: decimal

datatype trade_action = Opened | ClosedAt decimal exit_reason

record trade_event =
  te_trade :: trade
  te_action :: trade_action
  te_account_type :: "string option"

section \<open>Round trips of the names\<close>

lemmas from_str_defs =
  exchange_from_str_def direction_from_str_def trade_status_from_str_def exit_reason_from_str_def

lemma exchange_roundtrip [simp]: "exchange_from_str (exchange_as_str x) = Inr x"
  by (cases x) (simp_all add: exchange_from_str_def)

lemma direction_roundtrip [simp]: "direction_from_str (direction_as_str x) = Inr x"
  by (cases x) (simp_all add: direction_from_str_def)

lemma trade_status_roundtrip [simp]: "trade_status_from_str (trade_status_as_str x) = Inr x"
  by (cases x) (simp_all add: trade_status_from_str_def)

lemma exit_reason_roundtrip [simp]: "exit_reason_from_str (exit_reason_as_str x) = Inr x"
  by (cases x) (simp_all add: exit_reason_from_str_def)

lemma exchange_from_str_Inr: "exchange_from_str s = Inr x \<longleftrightarrow> s = exchange_as_str x"
  by (cases x) (auto simp: exchange_from_str_def split: if_splits)

lemma direction_from_str_Inr: "direction_from_str s = Inr x \<longleftrightarrow> s = direction_as_str x"
  by (cases x) (auto simp: direction_from_str_def split: if_splits)

lemma trade_status_from_str_Inr: "trade_status_from_str s = Inr x \<longleftrightarrow> s = trade_status_as_str x"
  by (cases x) (auto simp: trade_status_from_str_def split: if_splits)

lemma exit_reason_from_str_Inr: "exit_reason_from_str s = Inr x \<longleftrightarrow> s = exit_reason_as_str x"
  by (cases x) (auto simp: exit_reason_from_str_def split: if_splits)

lemma strategy_exit_reason_tag:
  "(\<forall>tag. r \<noteq> Custom tag) \<Longrightarrow> exit_reason_as_str (to_exit_reason r) = as_tag r"
  by (cases r) auto

end
