(* ===== verification/Pricing.thy ===== *)
theory Pricing
  imports Types
begin

text \<open>
  The pure money functions: margin (\<open>core/src/margin.rs\<close>), SFD (\<open>sfd.rs\<close>), swap
  (\<open>swap.rs\<close>), commission (\<open>commission.rs\<close>), the one-R test (\<open>strategy.rs\<close>), the
  price-freshness gate (\<open>executor/src/risk_gate.rs\<close>) and the position sizer
  (\<open>executor/src/position_sizer.rs\<close>).
\<close>

section \<open>Margin\<close>

record open_position =
  op_direction :: direction
  op_entry_price :: decimal
  op_current_price :: decimal
  op_quantity :: decimal
  op_leverage :: decimal

definition unrealized_pnl :: "rounding \<Rightarrow> open_position \<Rightarrow> decimal" where
  "unrealized_pnl rnd p =
     (let diff = (case op_direction p of
                    Long \<Rightarrow> dsub rnd (op_current_price p) (op_entry_price p)
                  | Short \<Rightarrow> dsub rnd (op_entry_price p) (op_current_price p))
      in dmul rnd diff (op_quantity p))"

definition required_margin :: "rounding \<Rightarrow> open_position \<Rightarrow> decimal result" where
  "required_margin rnd p =
     bindR (ddiv rnd (dmul rnd (op_entry_price p) (op_quantity p)) (op_leverage p))
       (\<lambda>x. Inr (trunc x))"

definition compute_maintenance_ratio ::
  "rounding \<Rightarrow> decimal \<Rightarrow> open_position list \<Rightarrow> decimal option result" where
  "compute_maintenance_ratio rnd current_balance positions =
     bindR (collectR (required_margin rnd) positions) (\<lambda>margins.
       let total_required = dsum rnd margins in
       if total_required = 0 then Inr None
       else
         let total_unrealized = dsum rnd (map (unrealized_pnl rnd) positions);
             equity = dadd rnd (dadd rnd current_balance total_required) total_unrealized
         in bindR (ddiv rnd equity total_required) (\<lambda>r. Inr (Some r)))"

section \<open>SFD, swap and commission\<close>

definition sfd_estimate :: "exchange \<Rightarrow> decimal \<Rightarrow> decimal \<Rightarrow> decimal" where
  "sfd_estimate exchange fill_price qty =
     (case exchange of BitflyerCfd \<Rightarrow> 0 | GmoFx \<Rightarrow> 0 | Oanda \<Rightarrow> 0)"

definition sfd_daily_rate :: "decimal \<Rightarrow> decimal" where
  "sfd_daily_rate divergence =
     (let d = \<bar>divergence\<bar> in
      if d < 5 / 100 then 0
      else if d < 10 / 100 then 25 / 10000
      else if d < 15 / 100 then 5 / 1000
      else if d < 20 / 100 then 1 / 100
      else 3 / 100)"

record sfd_context =
  fx_price :: decimal
  spot_price :: decimal
  position_notional :: decimal
  sfd_direction :: direction

definition compute_hourly_sfd :: "rounding \<Rightarrow> sfd_context \<Rightarrow> decimal result" where
  "compute_hourly_sfd rnd ctx =
     (if spot_price ctx \<le> 0 then Inr 0
      else bindR (ddiv rnd (dsub rnd (fx_price ctx) (spot_price ctx)) (spot_price ctx)) (\<lambda>divergence.
        let rate = sfd_daily_rate divergence in
        if rate = 0 then Inr 0
        else bindR (ddiv rnd (dmul rnd (position_notional ctx) rate) 24) (\<lambda>m.
          let magnitude = trunc m;
              sign_positive = (case (0 \<le> divergence, sfd_direction ctx) of
                  (True, Long) \<Rightarrow> True
                | (True, Short) \<Rightarrow> False
                | (False, Long) \<Rightarrow> False
                | (False, Short) \<Rightarrow> True)
          in Inr (if sign_positive then magnitude else - magnitude))))"

record swap_rate_entry =
  sr_long :: decimal
  sr_short :: decimal

definition GMO_FX_LOT_SIZE :: decimal where "GMO_FX_LOT_SIZE = 10000"

definition compute_daily_swap ::
  "rounding \<Rightarrow> swap_rate_entry \<Rightarrow> direction \<Rightarrow> decimal \<Rightarrow> decimal result" where
  "compute_daily_swap rnd rate direction quantity =
     (let per_lot = (case direction of Long \<Rightarrow> sr_long rate | Short \<Rightarrow> sr_short rate)
      in bindR (ddiv rnd quantity GMO_FX_LOT_SIZE) (\<lambda>lots. Inr (trunc (dmul rnd per_lot lots))))"

text \<open>Dates are day numbers; \<open>max_age_days\<close> is a \<open>u32\<close> widened to \<open>i64\<close>.\<close>

definition is_swap_rates_stale :: "int \<Rightarrow> int \<Rightarrow> nat \<Rightarrow> bool" where
  "is_swap_rates_stale updated_on today max_age_days \<longleftrightarrow> today - updated_on > int max_age_days"

datatype action = ActionOpen | ActionClose

definition commission_estimate :: "action \<Rightarrow> exchange \<Rightarrow> decimal \<Rightarrow> decimal \<Rightarrow> decimal" where
  "commission_estimate a exchange fill_price qty =
     (case exchange of BitflyerCfd \<Rightarrow> 0 | GmoFx \<Rightarrow> 0 | Oanda \<Rightarrow> 0)"

section \<open>One R, and the price-freshness gate\<close>

definition has_reached_one_r ::
  "rounding \<Rightarrow> direction \<Rightarrow> decimal \<Rightarrow> decimal \<Rightarrow> decimal \<Rightarrow> bool" where
  "has_reached_one_r rnd direction entry_price stop_loss current_price =
     (if entry_price \<le> 0 \<or> stop_loss \<le> 0 then True
      else
        let sl_on_correct_side = (case direction of
              Long \<Rightarrow> stop_loss < entry_price
            | Short \<Rightarrow> stop_loss > entry_price)
        in if \<not> sl_on_correct_side then True
           else
             let sl_distance = \<bar>dsub rnd entry_price stop_loss\<bar>;
                 unrealized = (case direction of
                     Long \<Rightarrow> dsub rnd current_price entry_price
                   | Short \<Rightarrow> dsub rnd entry_price current_price)
             in unrealized \<ge> sl_distance)"

datatype reject_reason = PriceTickStale nat

datatype gate_decision = Pass | Reject reject_reason

definition eval_price_freshness :: "nat \<Rightarrow> nat \<Rightarrow> gate_decision" where
  "eval_price_freshness price_freshness_secs age_secs =
     (if age_secs > price_freshness_secs then Reject (PriceTickStale age_secs) else Pass)"

section \<open>The position sizer\<close>

record position_sizer =
  min_order_sizes :: "pair \<rightharpoonup> decimal"
  margin_buffer :: decimal
  price_units :: "pair \<rightharpoonup> decimal"

definition sizer_new :: "(pair \<rightharpoonup> decimal) \<Rightarrow> decimal \<Rightarrow> position_sizer" where
  "sizer_new sizes buffer =
     \<lparr>min_order_sizes = sizes, margin_buffer = buffer, price_units = Map.empty\<rparr>"

definition with_price_units :: "position_sizer \<Rightarrow> (pair \<rightharpoonup> decimal) \<Rightarrow> position_sizer" where
  "with_price_units ps units = ps\<lparr>price_units := units\<rparr>"

definition unwrap_or :: "'a option \<Rightarrow> 'a \<Rightarrow> 'a" where
  "unwrap_or x d = (case x of None \<Rightarrow> d | Some v \<Rightarrow> v)"

definition round_trigger_price ::
  "rounding \<Rightarrow> position_sizer \<Rightarrow> pair \<Rightarrow> decimal \<Rightarrow> direction \<Rightarrow> decimal result" where
  "round_trigger_price rnd ps pair price direction =
     (let unit = unwrap_or (price_units ps pair) 0 in
      if unit \<le> 0 then Inr price
      else bindR (ddiv rnd price unit) (\<lambda>steps.
        let rounded = (case direction of Long \<Rightarrow> dceil steps | Short \<Rightarrow> dfloor steps)
        in Inr (dmul rnd rounded unit)))"

definition calculate_quantity ::
  "rounding \<Rightarrow> position_sizer \<Rightarrow> pair \<Rightarrow> decimal \<Rightarrow> decimal \<Rightarrow> decimal \<Rightarrow> decimal \<Rightarrow> decimal \<Rightarrow> decimal
    \<Rightarrow> decimal option result" where
  "calculate_quantity rnd ps pair balance entry_price leverage allocation_pct stop_loss_pct
       liquidation_margin_level =
     (if balance \<le> 0 \<or> entry_price \<le> 0 \<or> leverage \<le> 0 \<or> allocation_pct \<le> 0
         \<or> allocation_pct > 1 \<or> stop_loss_pct \<le> 0 \<or> liquidation_margin_level \<le> 0
      then Inr None
      else
        let y_eff = dadd rnd liquidation_margin_level (margin_buffer ps) in
        bindR (ddiv rnd 1 (dadd rnd y_eff (dmul rnd leverage stop_loss_pct))) (\<lambda>max_alloc.
        let risk_alloc = min max_alloc allocation_pct in
        bindR (ddiv rnd (dmul rnd (dmul rnd balance leverage) risk_alloc) entry_price) (\<lambda>raw_qty.
        let min_size = unwrap_or (min_order_sizes ps pair) 0 in
        if min_size > 0 then
          bindR (ddiv rnd raw_qty min_size) (\<lambda>steps.
            let truncated = dmul rnd (dfloor steps) min_size in
            if truncated < min_size then Inr None else Inr (Some truncated))
        else if raw_qty > 0 then Inr (Some raw_qty)
        else Inr None)))"

section \<open>Lemmas on margin and fees\<close>

lemmas dec_op_defs = dadd_def dsub_def dmul_def ddiv_def

text \<open>Exact arithmetic: the special case in which no operator rounds.\<close>

definition exact :: rounding where "exact x = x"

lemma exact_apply [simp]: "exact x = x" by (simp add: exact_def)

lemma dec_rounding_exact: "dec_rounding exact"
  by (simp add: dec_rounding_def)

lemma dsum_exact: "dsum exact xs = sum_list xs"
proof -
  have "foldl (dadd exact) a xs = a + sum_list xs" for a
    by (induction xs arbitrary: a) (simp_all add: dadd_def add.assoc)
  then show ?thesis by (simp add: dsum_def)
qed

lemma required_margin_Inr:
  "op_leverage p \<noteq> 0 \<Longrightarrow>
   required_margin rnd p =
     Inr (trunc (rnd (rnd (op_entry_price p * op_quantity p) / op_leverage p)))"
  by (simp add: required_margin_def dec_op_defs)

lemma required_margin_zero_leverage:
  "op_leverage p = 0 \<Longrightarrow> required_margin rnd p = Inl (Panic ''Division by zero'')"
  by (simp add: required_margin_def dec_op_defs)

lemma required_margin_nonneg:
  assumes "dec_rounding rnd" "0 \<le> op_entry_price p" "0 \<le> op_quantity p" "0 < op_leverage p"
    and "required_margin rnd p = Inr m"
  shows "0 \<le> m \<and> m \<in> \<int>"
proof -
  have "0 \<le> rnd (op_entry_price p * op_quantity p)"
    using assms(2,3) by (intro rounding_nonneg [OF assms(1)]) simp
  then have "0 \<le> rnd (rnd (op_entry_price p * op_quantity p) / op_leverage p)"
    using assms(4) by (intro rounding_nonneg [OF assms(1)]) simp
  then show ?thesis
    using assms(4,5) by (auto simp: required_margin_Inr trunc_whole trunc_nonneg)
qed

lemma sfd_daily_rate_uminus [simp]: "sfd_daily_rate (- d) = sfd_daily_rate d"
  by (simp add: sfd_daily_rate_def)

lemma sfd_daily_rate_bounds: "0 \<le> sfd_daily_rate d \<and> sfd_daily_rate d \<le> 3 / 100"
  by (simp add: sfd_daily_rate_def Let_def)

lemma sfd_daily_rate_mono: "\<bar>a\<bar> \<le> \<bar>b\<bar> \<Longrightarrow> sfd_daily_rate a \<le> sfd_daily_rate b"
  by (simp add: sfd_daily_rate_def Let_def)

lemma sfd_daily_rate_zero_iff: "sfd_daily_rate d = 0 \<longleftrightarrow> \<bar>d\<bar> < 5 / 100"
  by (simp add: sfd_daily_rate_def Let_def)

text \<open>\<open>compute_hourly_sfd\<close> never divides by zero.\<close>

lemma compute_hourly_sfd_total: "\<exists>fee. compute_hourly_sfd rnd ctx = Inr fee"
  by (auto simp: compute_hourly_sfd_def dec_op_defs Let_def)

lemma hourly_sfd_magnitude_le:
  assumes "dec_rounding rnd" and "0 \<le> n" and "0 \<le> r" and "r \<le> 3 / 100"
  shows "\<bar>trunc (rnd (rnd (n * r) / 24))\<bar> \<le> rnd (rnd (n * (3 / 100)) / 24)"
proof -
  have "rnd (n * r) \<le> rnd (n * (3 / 100))"
    using assms(2,4) by (intro rounding_mono [OF assms(1)] mult_left_mono)
  then have le: "rnd (rnd (n * r) / 24) \<le> rnd (rnd (n * (3 / 100)) / 24)"
    by (intro rounding_mono [OF assms(1)]) simp
  have "0 \<le> rnd (n * r)"
    using assms(2,3) by (intro rounding_nonneg [OF assms(1)]) simp
  then have "0 \<le> rnd (rnd (n * r) / 24)"
    by (intro rounding_nonneg [OF assms(1)]) simp
  then show ?thesis using trunc_abs_le [of "rnd (rnd (n * r) / 24)"] le by linarith
qed

end
