(* ===== verification/Sizing.thy ===== *)
theory Sizing
  imports Pricing
begin

text \<open>
  Properties of the money functions and of the position sizer: sign and bounds of the SFD
  charge, the guards of the sizer, the absence of panics, and margin safety: a position
  sized by \<open>calculate_quantity\<close> still has the configured margin level when its stop is hit.
\<close>

section \<open>Helper lemmas\<close>

text \<open>The price a stop at ratio \<open>sl\<close> from the entry triggers at (\<open>compute_stop_levels\<close>).\<close>

definition stop_price :: "rounding \<Rightarrow> direction \<Rightarrow> decimal \<Rightarrow> decimal \<Rightarrow> decimal" where
  "stop_price rnd d fill_price stop_loss_pct = (case d of
     Long \<Rightarrow> dmul rnd fill_price (dsub rnd 1 stop_loss_pct)
   | Short \<Rightarrow> dmul rnd fill_price (dadd rnd 1 stop_loss_pct))"

lemma calculate_quantity_guards:
  assumes "calculate_quantity rnd ps pair bal entry lev alloc sl liq = Inr (Some q)"
  shows "0 < bal" "0 < entry" "0 < lev" "0 < alloc" "alloc \<le> 1" "0 < sl" "0 < liq"
  using assms unfolding calculate_quantity_def by (auto split: if_splits)

lemma calculate_quantity_reject:
  "bal \<le> 0 \<or> entry \<le> 0 \<or> lev \<le> 0 \<or> alloc \<le> 0 \<or> 1 < alloc \<or> sl \<le> 0 \<or> liq \<le> 0 \<Longrightarrow>
   calculate_quantity rnd ps pair bal entry lev alloc sl liq = Inr None"
  unfolding calculate_quantity_def by (elim disjE) simp_all

lemma calculate_quantity_size:
  assumes "calculate_quantity rnd ps pair bal entry lev alloc sl liq = Inr (Some q)"
    and "unwrap_or (min_order_sizes ps pair) 0 = ms"
  shows "0 < q \<and> (0 < ms \<longrightarrow> ms \<le> q \<and> (\<exists>k::int. q = rnd (of_int k * ms)))"
  using assms calculate_quantity_guards [OF assms(1)]
  unfolding calculate_quantity_def Let_def
  by (auto simp: bindR_eq_Inr dec_op_defs dfloor_def split: if_splits)

text \<open>In exact arithmetic the sized notional is bounded by both allocation caps.\<close>

lemma floor_mult_le: "0 < m \<Longrightarrow> of_int \<lfloor>x / m\<rfloor> * m \<le> (x :: rat)"
  by (metis floor_divide_lower)

lemma floor_mult_le2: "0 < m \<Longrightarrow> of_int \<lfloor>x / (e * m)\<rfloor> * m \<le> (x :: rat) / e"
  using floor_mult_le [of m "x / e"] by (simp add: mult.commute)

lemma calculate_quantity_exact_notional:
  assumes "calculate_quantity exact ps pair bal entry lev alloc sl liq = Inr (Some q)"
    and "0 < liq + margin_buffer ps + lev * sl"
  shows "q * entry \<le> bal * lev * min (1 / (liq + margin_buffer ps + lev * sl)) alloc"
proof -
  note g = calculate_quantity_guards [OF assms(1)]
  let ?raw = "bal * lev * min (1 / (liq + margin_buffer ps + lev * sl)) alloc / entry"
  have "q \<le> ?raw"
    using assms g unfolding calculate_quantity_def Let_def
    by (auto simp: bindR_eq_Inr dec_op_defs dfloor_def floor_mult_le floor_mult_le2 split: if_splits)
  then show ?thesis using g(2) by (simp add: pos_le_divide_eq)
qed

lemma margin_budget:
  fixes bal :: rat
  assumes "0 < y + lev * sl" "0 < bal" "0 < lev" and "n \<le> bal * lev * min (1 / (y + lev * sl)) alloc"
  shows "n / lev * (y + lev * sl) \<le> bal"
proof -
  have "bal * lev * min (1 / (y + lev * sl)) alloc \<le> bal * lev * (1 / (y + lev * sl))"
    using assms(2,3) by (intro mult_left_mono) auto
  with assms(4) have "n \<le> bal * lev * (1 / (y + lev * sl))" by linarith
  then have "n / lev \<le> bal / (y + lev * sl)"
    using assms(3) by (simp add: pos_divide_le_eq mult.commute)
  then show ?thesis using assms(1) by (simp add: pos_le_divide_eq)
qed

lemma maintenance_ratio_single_exact:
  assumes "op_leverage p \<noteq> 0" and "required_margin exact p = Inr m" and "m \<noteq> 0"
  shows "compute_maintenance_ratio exact bal [p] =
    Inr (Some ((bal + m + unrealized_pnl exact p) / m))"
  using assms unfolding compute_maintenance_ratio_def
  by (simp add: dsum_exact dec_op_defs Let_def)

lemma unrealized_at_stop_exact:
  "unrealized_pnl exact \<lparr>op_direction = d, op_entry_price = entry,
      op_current_price = stop_price exact d entry sl, op_quantity = q, op_leverage = lev\<rparr>
   = - (q * entry * sl)"
  by (cases d) (simp_all add: unrealized_pnl_def stop_price_def dec_op_defs algebra_simps)

section \<open>Properties\<close>

text \<open>
  C1. Margin safety of the position sizer. If \<open>calculate_quantity\<close> grants a quantity and the
  position is opened at the sizing price (its margin is locked out of the balance), then at
  the moment its stop-loss price is reached the account's maintenance ratio, as
  \<open>compute_maintenance_ratio\<close> computes it, is still at least the liquidation level plus the
  configured buffer, for longs and shorts alike; in exact arithmetic.
\<close>

theorem sized_position_keeps_margin_at_stop:
  assumes cq: "calculate_quantity exact ps pair bal entry lev alloc sl liq = Inr (Some q)"
    and buf: "0 \<le> margin_buffer ps"
    and p: "p = \<lparr>op_direction = d, op_entry_price = entry,
        op_current_price = stop_price exact d entry sl, op_quantity = q, op_leverage = lev\<rparr>"
    and m: "required_margin exact p = Inr m"
    and r: "compute_maintenance_ratio exact (bal - m) [p] = Inr (Some r)"
  shows "liq + margin_buffer ps \<le> r"
proof -
  note g = calculate_quantity_guards [OF cq]
  let ?y = "liq + margin_buffer ps"
  have pos: "0 < ?y + lev * sl" using g buf by (simp add: add_pos_nonneg add_pos_pos)
  have q: "0 < q" using calculate_quantity_size [OF cq refl] by simp
  have lev: "op_leverage p \<noteq> 0" using p g(3) by simp
  have mt: "m = trunc (entry * q / lev)" using m g(3) by (simp add: p required_margin_Inr)
  have m0: "m \<noteq> 0"
    using r m by (auto simp: compute_maintenance_ratio_def dsum_exact)
  have nn: "0 \<le> entry * q / lev" using g q by simp
  then have mle: "m \<le> entry * q / lev" and mnn: "0 \<le> m"
    using mt by (simp_all add: trunc_le trunc_nonneg)
  then have mpos: "0 < m" using m0 by simp
  have budget: "q * entry / lev * (?y + lev * sl) \<le> bal"
    by (rule margin_budget [OF pos g(1) g(3) calculate_quantity_exact_notional [OF cq pos]])
  have "q * entry / lev * (?y + lev * sl) = ?y * (entry * q / lev) + q * entry * sl"
    using g(3) by (simp add: field_simps)
  then have "?y * (entry * q / lev) \<le> bal - q * entry * sl" using budget by linarith
  moreover have "?y * m \<le> ?y * (entry * q / lev)"
    using mle g(7) buf by (intro mult_left_mono) auto
  ultimately have "?y * m \<le> bal - q * entry * sl" by linarith
  moreover have "r = (bal - q * entry * sl) / m"
    using r maintenance_ratio_single_exact [OF lev m m0, of "bal - m"] unrealized_at_stop_exact
    by (simp add: p)
  ultimately show ?thesis using mpos by (simp add: pos_le_divide_eq)
qed

theorem sized_position_keeps_margin_at_stop_witness:
  "calculate_quantity exact (sizer_new (Map.empty(''FX_BTC_JPY'' \<mapsto> 1 / 100)) (1 / 2))
      ''FX_BTC_JPY'' 30000 1000000 2 1 (1 / 10) (1 / 2) = Inr (Some (5 / 100)) \<and>
   1 / 2 + 1 / 2 \<le> (11 / 10 :: rat)"
proof -
  let ?ps = "sizer_new (Map.empty(''FX_BTC_JPY'' \<mapsto> 1 / 100)) (1 / 2)"
  let ?p = "\<lparr>op_direction = Long, op_entry_price = 1000000,
      op_current_price = stop_price exact Long 1000000 (1 / 10), op_quantity = 5 / 100,
      op_leverage = 2\<rparr>"
  have cq: "calculate_quantity exact ?ps ''FX_BTC_JPY'' 30000 1000000 2 1 (1 / 10) (1 / 2)
      = Inr (Some (5 / 100))"
    by (simp add: calculate_quantity_def sizer_new_def dec_op_defs unwrap_or_def dfloor_def)
  have m: "required_margin exact ?p = Inr 25000"
    by (simp add: required_margin_Inr trunc_def)
  have r: "compute_maintenance_ratio exact (30000 - 25000) [?p] = Inr (Some 1)"
    using maintenance_ratio_single_exact [OF _ m, of "5000"]
    by (simp add: unrealized_at_stop_exact)
  have "1 / 2 + margin_buffer ?ps \<le> 1"
    by (rule sized_position_keeps_margin_at_stop [OF cq _ refl m r]) (simp add: sizer_new_def)
  then show ?thesis using cq by simp
qed

text \<open>
  Size discipline. Whatever the decimal rounding, a granted quantity is positive, the
  inputs passed every guard, and for a pair with a positive minimum order size the quantity is
  at least that minimum and a rounded whole multiple of it.
\<close>

theorem calculate_quantity_sound:
  assumes "calculate_quantity rnd ps pair bal entry lev alloc sl liq = Inr (Some q)"
  shows "0 < bal \<and> 0 < entry \<and> 0 < lev \<and> 0 < alloc \<and> alloc \<le> 1 \<and> 0 < sl \<and> 0 < liq \<and> 0 < q \<and>
    (\<forall>ms. min_order_sizes ps pair = Some ms \<longrightarrow> 0 < ms \<longrightarrow>
       ms \<le> q \<and> (\<exists>k::int. q = rnd (of_int k * ms)))"
  using calculate_quantity_guards [OF assms] calculate_quantity_size [OF assms]
  by (auto simp: unwrap_or_def)

theorem calculate_quantity_sound_witness:
  "1 / 100 \<le> (12 / 100 :: rat) \<and> (\<exists>k::int. 12 / 100 = exact (of_int k * (1 / 100)))"
proof -
  let ?ps = "sizer_new (Map.empty(''FX_BTC_JPY'' \<mapsto> 1 / 100)) (1 / 2)"
  have cq: "calculate_quantity exact ?ps ''FX_BTC_JPY'' 100000 1000000 2 (6 / 10) (1 / 4) (1 / 2)
      = Inr (Some (12 / 100))"
    by (simp add: calculate_quantity_def sizer_new_def dec_op_defs unwrap_or_def dfloor_def)
  show ?thesis using calculate_quantity_sound [OF cq] by (simp add: sizer_new_def)
qed

text \<open>
  No panic in sizing. With a non-negative margin buffer and a representable liquidation
  level, \<open>calculate_quantity\<close> returns on every input: none of its three divisions divides by
  zero.
\<close>

theorem calculate_quantity_no_panic:
  assumes rnd: "dec_rounding rnd" and buf: "0 \<le> margin_buffer ps" and rep: "representable liq"
  shows "\<exists>res. calculate_quantity rnd ps pair bal entry lev alloc sl liq = Inr res"
proof (cases "bal \<le> 0 \<or> entry \<le> 0 \<or> lev \<le> 0 \<or> alloc \<le> 0 \<or> 1 < alloc \<or> sl \<le> 0 \<or> liq \<le> 0")
  case True
  then show ?thesis using calculate_quantity_reject by blast
next
  case False
  have "liq \<le> rnd (liq + margin_buffer ps)"
    by (rule rounding_ge_rep [OF rnd _ rep]) (simp add: buf)
  moreover have "0 \<le> rnd (lev * sl)"
    using False by (intro rounding_nonneg [OF rnd]) simp
  ultimately have "liq \<le> rnd (rnd (liq + margin_buffer ps) + rnd (lev * sl))"
    by (intro rounding_ge_rep [OF rnd _ rep]) simp
  then have "rnd (rnd (liq + margin_buffer ps) + rnd (lev * sl)) \<noteq> 0"
    using False by auto
  then show ?thesis
    using False unfolding calculate_quantity_def Let_def by (auto simp: dec_op_defs)
qed

theorem calculate_quantity_no_panic_witness:
  "\<exists>res. calculate_quantity rnd28 (sizer_new Map.empty 0) ''USD_JPY'' 100000 150 25 1 (1 / 100) 1
     = Inr res"
  by (rule calculate_quantity_no_panic [OF dec_rounding_rnd28]) (simp_all add: sizer_new_def)

text \<open>
  C4. Trigger rounding. For a pair with a positive price unit the rounded trigger is a whole
  multiple of the unit, less than one unit away, and never looser than the requested stop: not
  below it for a long, not above it for a short (exact arithmetic).
\<close>

theorem round_trigger_price_tight:
  assumes "price_units ps pair = Some u" and "0 < u"
  shows "\<exists>k::int. round_trigger_price exact ps pair price d = Inr (of_int k * u) \<and>
    (case d of
       Long \<Rightarrow> price \<le> of_int k * u \<and> of_int k * u < price + u
     | Short \<Rightarrow> of_int k * u \<le> price \<and> price - u < of_int k * u)"
proof (cases d)
  case Long
  have "price \<le> of_int \<lceil>price / u\<rceil> * u" "of_int \<lceil>price / u\<rceil> * u < price + u"
    using assms(2) ceiling_divide_upper [of u price] ceiling_divide_lower [of u price]
    by (simp_all add: algebra_simps)
  then show ?thesis
    using assms Long
    by (auto simp: round_trigger_price_def unwrap_or_def dec_op_defs dceil_def)
next
  case Short
  have "of_int \<lfloor>price / u\<rfloor> * u \<le> price" "price - u < of_int \<lfloor>price / u\<rfloor> * u"
    using assms(2) floor_divide_upper [of u price] floor_divide_lower [of u price]
    by (simp_all add: algebra_simps)
  then show ?thesis
    using assms Short
    by (auto simp: round_trigger_price_def unwrap_or_def dec_op_defs dfloor_def)
qed

theorem round_trigger_price_tight_witness:
  "\<exists>k::int. round_trigger_price exact (with_price_units (sizer_new Map.empty 0)
      (Map.empty(''FX_BTC_JPY'' \<mapsto> 1))) ''FX_BTC_JPY'' (97 / 2) Long = Inr (of_int k * 1)"
  using round_trigger_price_tight [of "with_price_units (sizer_new Map.empty 0)
      (Map.empty(''FX_BTC_JPY'' \<mapsto> 1))" "''FX_BTC_JPY''" 1 "97 / 2" Long]
  by (auto simp: with_price_units_def)

text \<open>
  C5. The hourly SFD charge is zero-sum between the sides, whole yen, bounded by one hour of
  the top daily rate on the notional, zero while the divergence is below five percent, and never
  negative for the side that pays (a long when the FX price is not below spot).
\<close>

theorem hourly_sfd_charge:
  assumes rnd: "dec_rounding rnd" and n: "0 \<le> notional" and spot: "0 < spot"
    and l: "compute_hourly_sfd rnd \<lparr>fx_price = fx, spot_price = spot,
        position_notional = notional, sfd_direction = Long\<rparr> = Inr fl"
    and s: "compute_hourly_sfd rnd \<lparr>fx_price = fx, spot_price = spot,
        position_notional = notional, sfd_direction = Short\<rparr> = Inr fs"
  shows "fs = - fl \<and> fl \<in> \<int> \<and> \<bar>fl\<bar> \<le> rnd (rnd (notional * (3 / 100)) / 24) \<and>
    (\<bar>rnd (rnd (fx - spot) / spot)\<bar> < 5 / 100 \<longrightarrow> fl = 0) \<and> (spot \<le> fx \<longrightarrow> 0 \<le> fl)"
proof -
  define dv where "dv = rnd (rnd (fx - spot) / spot)"
  define mag where "mag = trunc (rnd (rnd (notional * sfd_daily_rate dv) / 24))"
  have fl: "fl = (if sfd_daily_rate dv = 0 then 0 else if 0 \<le> dv then mag else - mag)"
    using l spot by (auto simp: compute_hourly_sfd_def dec_op_defs Let_def dv_def mag_def)
  have fs: "fs = (if sfd_daily_rate dv = 0 then 0 else if 0 \<le> dv then - mag else mag)"
    using s spot by (auto simp: compute_hourly_sfd_def dec_op_defs Let_def dv_def mag_def)
  have bound: "\<bar>mag\<bar> \<le> rnd (rnd (notional * (3 / 100)) / 24)"
    unfolding mag_def using sfd_daily_rate_bounds by (intro hourly_sfd_magnitude_le rnd n) auto
  have "0 \<le> rnd (notional * sfd_daily_rate dv)"
    using n sfd_daily_rate_bounds by (intro rounding_nonneg [OF rnd]) simp
  then have "0 \<le> rnd (rnd (notional * sfd_daily_rate dv) / 24)"
    by (intro rounding_nonneg [OF rnd]) simp
  then have mag: "0 \<le> mag" by (simp add: mag_def trunc_nonneg)
  have "spot \<le> fx \<Longrightarrow> 0 \<le> dv"
  proof -
    assume "spot \<le> fx"
    then have "0 \<le> rnd (fx - spot)" by (intro rounding_nonneg [OF rnd]) simp
    then show "0 \<le> dv" unfolding dv_def using spot by (intro rounding_nonneg [OF rnd]) simp
  qed
  then show ?thesis
    using bound mag fl fs unfolding dv_def [symmetric]
    by (auto simp: sfd_daily_rate_zero_iff mag_def trunc_whole)
qed

theorem hourly_sfd_charge_witness:
  "compute_hourly_sfd rnd28 \<lparr>fx_price = 1100000, spot_price = 1000000,
      position_notional = 1200000, sfd_direction = Long\<rparr> = Inr 250 \<and> (-250::rat) = - 250"
proof -
  have l: "compute_hourly_sfd rnd28 \<lparr>fx_price = 1100000, spot_price = 1000000,
      position_notional = 1200000, sfd_direction = Long\<rparr> = Inr 250"
    and s: "compute_hourly_sfd rnd28 \<lparr>fx_price = 1100000, spot_price = 1000000,
      position_notional = 1200000, sfd_direction = Short\<rparr> = Inr (- 250)"
    by code_simp+
  have "(- 250 :: rat) = - 250"
    using hourly_sfd_charge [OF dec_rounding_rnd28 _ _ l s] by simp
  then show ?thesis using l by simp
qed

end
