(* ===== verification/Database.thy ===== *)
theory Database
  imports Pricing
begin

text \<open>
  The PostgreSQL state the sources work on (\<open>crates/db/src\<close>, \<open>migrations/\<close>) and the
  functions of \<open>db/src/trades\<close> and \<open>db/src/notifications.rs\<close> over it. A table is the list
  of its rows; enumerations are stored as text, as in the schema, and read back with the
  fallible conversion of \<open>trades/row.rs\<close>. Every SQL statement can fail: \<open>faults\<close> is the
  schedule of the statements that do (the head decides the next statement; an exhausted
  schedule means no further fault). A transaction that fails, its commit included, leaves the
  tables as they were. \<open>NUMERIC\<close> columns are unbounded, so SQL sums are exact; a sum computed
  in Rust goes through the decimal rounding. \<open>NOW()\<close> is the argument \<open>now\<close>.
\<close>

section \<open>Tables\<close>

record trade_row =
  r_id :: uuid
  r_strategy_name :: string
  r_pair :: string
  r_exchange :: string
  r_direction :: string
  r_entry_price :: decimal
  r_exit_price :: "decimal option"
  r_stop_loss :: decimal
  r_take_profit :: "decimal option"
  r_quantity :: decimal
  r_leverage :: decimal
  r_fees :: decimal
  r_account_id :: uuid
  r_entry_at :: datetime
  r_exit_at :: "datetime option"
  r_pnl_amount :: "decimal option"
  r_exit_reason :: "string option"
  r_status :: string
  r_max_hold_until :: "datetime option"
  r_exchange_position_id :: "string option"
  r_stop_order_id :: "string option"
  r_closing_started_at :: "datetime option"

record trading_account =
  a_id :: uuid
  a_name :: string
  a_account_type :: string
  a_exchange :: string
  a_strategy :: string
  a_initial_balance :: decimal
  a_current_balance :: decimal
  a_leverage :: decimal
  a_currency :: string
  a_created_at :: datetime
  a_active :: bool

record account_event =
  ev_account_id :: uuid
  ev_trade_id :: uuid
  ev_type :: string
  ev_amount :: decimal
  ev_balance_after :: decimal
  ev_occurred_at :: "datetime option"

record notification =
  n_kind :: string
  n_trade_id :: uuid
  n_account_id :: uuid
  n_strategy_name :: string
  n_pair :: string
  n_direction :: string
  n_price :: decimal
  n_pnl_amount :: "decimal option"
  n_exit_reason :: "string option"

record daily_summary =
  d_date :: int
  d_strategy_name :: string
  d_pair :: string
  d_account_type :: string
  d_exchange :: string
  d_account_id :: "uuid option"
  d_trade_count :: int
  d_win_count :: int
  d_total_pnl :: decimal
  d_max_drawdown :: decimal

record database =
  trades :: "trade_row list"
  accounts :: "trading_account list"
  events :: "account_event list"
  notifications :: "notification list"
  summaries :: "daily_summary list"
  strategies :: "string list"
  faults :: "bool list"

type_synonym 'a db_prog = "(database, 'a) prog"

section \<open>Statements and transactions\<close>

definition db_error :: error where "db_error = Anyhow ''database error''"

definition stmt :: "'a db_prog \<Rightarrow> 'a db_prog" where
  "stmt m = (\<lambda>db. case faults db of
       [] \<Rightarrow> m db
     | f # fs \<Rightarrow> if f then (Inl db_error, db\<lparr>faults := fs\<rparr>) else m (db\<lparr>faults := fs\<rparr>))"

definition transaction :: "'a db_prog \<Rightarrow> 'a db_prog" where
  "transaction m = (\<lambda>db.
     case bindE (stmt (returnE ())) (\<lambda>_. bindE m (\<lambda>x. bindE (stmt (returnE ())) (\<lambda>_. returnE x))) db of
       (Inr x, db') \<Rightarrow> (Inr x, db')
     | (Inl e, db') \<Rightarrow> (Inl e, db\<lparr>faults := faults db'\<rparr>))"

definition update_rows :: "('r \<Rightarrow> bool) \<Rightarrow> ('r \<Rightarrow> 'r) \<Rightarrow> 'r list \<Rightarrow> 'r list" where
  "update_rows p f rows = map (\<lambda>r. if p r then f r else r) rows"

section \<open>Rows and trades\<close>

definition trade_of_row :: "trade_row \<Rightarrow> trade result" where
  "trade_of_row r =
     bindR (exchange_from_str (r_exchange r)) (\<lambda>exchange.
     bindR (direction_from_str (r_direction r)) (\<lambda>direction.
     bindR (trade_status_from_str (r_status r)) (\<lambda>status.
     bindR (case r_exit_reason r of
              None \<Rightarrow> Inr None
            | Some s \<Rightarrow> bindR (exit_reason_from_str s) (\<lambda>x. Inr (Some x))) (\<lambda>exit_reason.
     Inr \<lparr>t_id = r_id r, t_account_id = r_account_id r, t_strategy_name = r_strategy_name r,
          t_pair = r_pair r, t_exchange = exchange, t_direction = direction,
          t_entry_price = r_entry_price r, t_exit_price = r_exit_price r,
          t_stop_loss = r_stop_loss r, t_take_profit = r_take_profit r,
          t_quantity = r_quantity r, t_leverage = r_leverage r, t_fees = r_fees r,
          t_entry_at = r_entry_at r, t_exit_at = r_exit_at r, t_pnl_amount = r_pnl_amount r,
          t_exit_reason = exit_reason, t_status = status,
          t_max_hold_until = r_max_hold_until r,
          t_exchange_position_id = r_exchange_position_id r,
          t_stop_order_id = r_stop_order_id r\<rparr>))))"

text \<open>The row \<open>insert_trade\<close> binds; \<open>closing_started_at\<close> gets its column default.\<close>

definition row_of_trade :: "trade \<Rightarrow> trade_row" where
  "row_of_trade t =
     \<lparr>r_id = t_id t, r_strategy_name = t_strategy_name t, r_pair = t_pair t,
      r_exchange = exchange_as_str (t_exchange t),
      r_direction = direction_as_str (t_direction t),
      r_entry_price = t_entry_price t, r_exit_price = t_exit_price t,
      r_stop_loss = t_stop_loss t, r_take_profit = t_take_profit t,
      r_quantity = t_quantity t, r_leverage = t_leverage t, r_fees = t_fees t,
      r_account_id = t_account_id t, r_entry_at = t_entry_at t, r_exit_at = t_exit_at t,
      r_pnl_amount = t_pnl_amount t, r_exit_reason = map_option exit_reason_as_str (t_exit_reason t),
      r_status = trade_status_as_str (t_status t), r_max_hold_until = t_max_hold_until t,
      r_exchange_position_id = t_exchange_position_id t,
      r_stop_order_id = t_stop_order_id t, r_closing_started_at = None\<rparr>"

definition insert_trade :: "trade \<Rightarrow> unit db_prog" where
  "insert_trade t = stmt (\<lambda>db.
     if t_id t \<in> set (map r_id (trades db))
        \<or> t_account_id t \<notin> set (map a_id (accounts db))
        \<or> t_strategy_name t \<notin> set (strategies db)
        \<or> t_quantity t \<le> 0
     then (Inl db_error, db)
     else (Inr (), db\<lparr>trades := trades db @ [row_of_trade t]\<rparr>))"

section \<open>Balance, margin and journal\<close>

text \<open>\<open>UPDATE trading_accounts SET current_balance = ... WHERE id = $1 RETURNING current_balance\<close>\<close>

definition update_balance_returning :: "uuid \<Rightarrow> (decimal \<Rightarrow> decimal) \<Rightarrow> decimal db_prog" where
  "update_balance_returning aid f = stmt (\<lambda>db.
     case filter (\<lambda>a. a_id a = aid) (accounts db) of
       [] \<Rightarrow> (Inl db_error, db)
     | a # _ \<Rightarrow> (Inr (f (a_current_balance a)),
         db\<lparr>accounts := update_rows (\<lambda>a. a_id a = aid)
              (\<lambda>a. a\<lparr>a_current_balance := f (a_current_balance a)\<rparr>) (accounts db)\<rparr>))"

definition insert_event ::
  "uuid \<Rightarrow> uuid \<Rightarrow> string \<Rightarrow> decimal \<Rightarrow> decimal \<Rightarrow> datetime option \<Rightarrow> unit db_prog" where
  "insert_event aid tid ty amount after occurred = stmt (\<lambda>db.
     if aid \<notin> set (map a_id (accounts db)) \<or> tid \<notin> set (map r_id (trades db))
     then (Inl db_error, db)
     else (Inr (), db\<lparr>events := events db @
        [\<lparr>ev_account_id = aid, ev_trade_id = tid, ev_type = ty, ev_amount = amount,
          ev_balance_after = after, ev_occurred_at = occurred\<rparr>]\<rparr>))"

definition lock_margin :: "uuid \<Rightarrow> uuid \<Rightarrow> decimal \<Rightarrow> unit db_prog" where
  "lock_margin aid tid margin_amount =
     bindE (update_balance_returning aid (\<lambda>b. b - margin_amount)) (\<lambda>new_balance.
     insert_event aid tid ''margin_lock'' (- margin_amount) new_balance None)"

definition release_margin :: "rounding \<Rightarrow> uuid \<Rightarrow> uuid \<Rightarrow> decimal \<Rightarrow> decimal \<Rightarrow> unit db_prog" where
  "release_margin rnd aid tid margin_return pnl_amount =
     bindE (update_balance_returning aid (\<lambda>b. b + margin_return + pnl_amount)) (\<lambda>new_balance.
     bindE (insert_event aid tid ''margin_release'' margin_return
              (dsub rnd new_balance pnl_amount) None) (\<lambda>_.
     insert_event aid tid ''trade_close'' pnl_amount new_balance None))"

definition apply_fee_inner ::
  "uuid \<Rightarrow> uuid \<Rightarrow> decimal \<Rightarrow> string \<Rightarrow> datetime option \<Rightarrow> decimal option db_prog" where
  "apply_fee_inner aid tid fee_amount event_type occurred_at =
     bindE (stmt (\<lambda>db.
         let p = (\<lambda>r. r_id r = tid \<and> r_account_id r = aid \<and> r_status r = ''open'') in
         (Inr (length (filter p (trades db))),
          db\<lparr>trades := update_rows p (\<lambda>r. r\<lparr>r_fees := r_fees r + fee_amount\<rparr>) (trades db)\<rparr>)))
     (\<lambda>rows_affected.
       if rows_affected = 0 then returnE None
       else
         bindE (update_balance_returning aid (\<lambda>b. b - fee_amount)) (\<lambda>new_balance.
         bindE (insert_event aid tid event_type (- fee_amount) new_balance occurred_at) (\<lambda>_.
         returnE (Some new_balance))))"

definition apply_overnight_fee :: "uuid \<Rightarrow> uuid \<Rightarrow> decimal \<Rightarrow> decimal option db_prog" where
  "apply_overnight_fee aid tid fee = apply_fee_inner aid tid fee ''overnight_fee'' None"

definition apply_sfd_fee :: "uuid \<Rightarrow> uuid \<Rightarrow> decimal \<Rightarrow> datetime \<Rightarrow> decimal option db_prog" where
  "apply_sfd_fee aid tid fee occurred = apply_fee_inner aid tid fee ''sfd_fee'' (Some occurred)"

definition apply_swap_fee :: "uuid \<Rightarrow> uuid \<Rightarrow> decimal \<Rightarrow> datetime \<Rightarrow> decimal option db_prog" where
  "apply_swap_fee aid tid fee occurred = apply_fee_inner aid tid fee ''swap_fee'' (Some occurred)"

definition add_fees :: "uuid \<Rightarrow> decimal \<Rightarrow> unit db_prog" where
  "add_fees tid fee_delta =
     bindE (stmt (\<lambda>db.
         (Inr (length (filter (\<lambda>r. r_id r = tid) (trades db))),
          db\<lparr>trades := update_rows (\<lambda>r. r_id r = tid)
               (\<lambda>r. r\<lparr>r_fees := r_fees r + fee_delta\<rparr>) (trades db)\<rparr>)))
     (\<lambda>n. if n = 0 then failE (Anyhow ''failed to add fees for trade: not found'') else returnE ())"

section \<open>The close lock and closing a trade\<close>

definition STALE_CLOSING_THRESHOLD_SECS :: int where "STALE_CLOSING_THRESHOLD_SECS = 300"

record close_lock_acquired =
  lock_trade :: trade
  was_stale_recovery :: bool

text \<open>The \<open>WHERE\<close> clause of \<open>acquire_close_lock\<close>.\<close>

definition lockable :: "datetime \<Rightarrow> uuid \<Rightarrow> uuid \<Rightarrow> trade_row \<Rightarrow> bool" where
  "lockable now tid aid r \<longleftrightarrow> r_id r = tid \<and> r_account_id r = aid \<and>
     (r_status r = ''open'' \<or>
      r_status r = ''closing'' \<and>
        (case r_closing_started_at r of
           None \<Rightarrow> False
         | Some started \<Rightarrow> started < now - secs STALE_CLOSING_THRESHOLD_SECS))"

definition acquire_close_lock ::
  "datetime \<Rightarrow> uuid \<Rightarrow> uuid \<Rightarrow> close_lock_acquired option db_prog" where
  "acquire_close_lock now tid aid =
     bindE (stmt (\<lambda>db.
         let lock = (\<lambda>r. r\<lparr>r_status := ''closing'', r_closing_started_at := Some now\<rparr>) in
         case filter (lockable now tid aid) (trades db) of
           [] \<Rightarrow> (Inr None, db)
         | r # _ \<Rightarrow> (Inr (Some (lock r, r_closing_started_at r)),
             db\<lparr>trades := update_rows (lockable now tid aid) lock (trades db)\<rparr>)))
     (\<lambda>row. case row of
         None \<Rightarrow> returnE None
       | Some (r, old_closing_started_at) \<Rightarrow>
           bindE (liftR (trade_of_row r)) (\<lambda>trade.
             returnE (Some \<lparr>lock_trade = trade,
                            was_stale_recovery = (old_closing_started_at \<noteq> None)\<rparr>)))"

definition release_close_lock :: "uuid \<Rightarrow> unit db_prog" where
  "release_close_lock tid = stmt (\<lambda>db.
     (Inr (), db\<lparr>trades := update_rows (\<lambda>r. r_id r = tid \<and> r_status r = ''closing'')
        (\<lambda>r. r\<lparr>r_status := ''open'', r_closing_started_at := None\<rparr>) (trades db)\<rparr>))"

definition unsettled :: "trade_row \<Rightarrow> bool" where
  "unsettled r \<longleftrightarrow> r_status r = ''open'' \<or> r_status r = ''closing''"

definition update_trade_closed ::
  "uuid \<Rightarrow> decimal \<Rightarrow> datetime \<Rightarrow> decimal \<Rightarrow> exit_reason \<Rightarrow> decimal \<Rightarrow> unit db_prog" where
  "update_trade_closed tid exit_price exit_at pnl_amount exit_reason fees =
     bindE (stmt (\<lambda>db.
         let p = (\<lambda>r. r_id r = tid \<and> unsettled r) in
         (Inr (length (filter p (trades db))),
          db\<lparr>trades := update_rows p (\<lambda>r. r\<lparr>r_exit_price := Some exit_price,
               r_exit_at := Some exit_at, r_pnl_amount := Some pnl_amount,
               r_exit_reason := Some (exit_reason_as_str exit_reason), r_fees := fees,
               r_status := ''closed'', r_closing_started_at := None\<rparr>) (trades db)\<rparr>)))
     (\<lambda>n. if n = 0 then failE (Anyhow ''failed to close trade: not found or already closed'')
          else returnE ())"

text \<open>The transaction of \<open>close_trade_reconciled\<close>, with the margin computed before it.\<close>

definition reconciled_tx ::
  "rounding \<Rightarrow> datetime \<Rightarrow> uuid \<Rightarrow> decimal \<Rightarrow> decimal \<Rightarrow> exit_reason \<Rightarrow> uuid \<Rightarrow> decimal \<Rightarrow> unit db_prog" where
  "reconciled_tx rnd exit_at tid exit_price pnl_amount exit_reason aid margin = transaction
     (bindE (stmt (\<lambda>db.
        (Inr (length (filter (\<lambda>r. r_id r = tid \<and> unsettled r) (trades db))),
         db\<lparr>trades := update_rows (\<lambda>r. r_id r = tid \<and> unsettled r)
              (\<lambda>r. r\<lparr>r_exit_price := Some exit_price, r_exit_at := Some exit_at,
                r_pnl_amount := Some pnl_amount,
                r_exit_reason := Some (exit_reason_as_str exit_reason),
                r_status := ''closed'', r_closing_started_at := None\<rparr>) (trades db)\<rparr>)))
      (\<lambda>n. if n = 0
           then failE (Anyhow ''failed to close trade: not found or already closed'')
           else release_margin rnd aid tid margin pnl_amount))"

definition close_trade_reconciled ::
  "rounding \<Rightarrow> datetime \<Rightarrow> uuid \<Rightarrow> decimal \<Rightarrow> decimal \<Rightarrow> exit_reason \<Rightarrow> unit db_prog" where
  "close_trade_reconciled rnd exit_at tid exit_price pnl_amount exit_reason =
     bindE (stmt (askW (\<lambda>db. filter (\<lambda>r. r_id r = tid \<and> unsettled r) (trades db)))) (\<lambda>rows.
     case rows of
       [] \<Rightarrow> failE (Anyhow ''failed to close trade: not found or already closed'')
     | row # _ \<Rightarrow>
         bindE (liftR (trade_of_row row)) (\<lambda>trade.
         bindE (liftR (required_margin rnd \<lparr>op_direction = t_direction trade,
                  op_entry_price = t_entry_price trade, op_current_price = t_entry_price trade,
                  op_quantity = t_quantity trade, op_leverage = t_leverage trade\<rparr>)) (\<lambda>margin.
         reconciled_tx rnd exit_at tid exit_price pnl_amount exit_reason (t_account_id trade) margin)))"

section \<open>Notifications and daily summary\<close>

definition insert_notification :: "notification \<Rightarrow> unit db_prog" where
  "insert_notification n = stmt (\<lambda>db.
     if n_account_id n \<notin> set (map a_id (accounts db)) \<or> n_trade_id n \<notin> set (map r_id (trades db))
     then (Inl db_error, db)
     else (Inr (), db\<lparr>notifications := notifications db @ [n]\<rparr>))"

definition insert_trade_opened :: "trade \<Rightarrow> unit db_prog" where
  "insert_trade_opened t = insert_notification
     \<lparr>n_kind = ''trade_opened'', n_trade_id = t_id t, n_account_id = t_account_id t,
      n_strategy_name = t_strategy_name t, n_pair = t_pair t,
      n_direction = direction_as_str (t_direction t), n_price = t_entry_price t,
      n_pnl_amount = None, n_exit_reason = None\<rparr>"

definition insert_trade_closed :: "trade \<Rightarrow> unit db_prog" where
  "insert_trade_closed t =
     bindE (liftR (ok_or (Anyhow ''invalid trade: missing exit_price'') (t_exit_price t))) (\<lambda>exit_price.
     bindE (liftR (ok_or (Anyhow ''invalid trade: missing pnl_amount'') (t_pnl_amount t))) (\<lambda>pnl_amount.
     bindE (liftR (ok_or (Anyhow ''invalid trade: missing exit_reason'') (t_exit_reason t))) (\<lambda>exit_reason.
     insert_notification
       \<lparr>n_kind = ''trade_closed'', n_trade_id = t_id t, n_account_id = t_account_id t,
        n_strategy_name = t_strategy_name t, n_pair = t_pair t,
        n_direction = direction_as_str (t_direction t), n_price = exit_price,
        n_pnl_amount = Some pnl_amount,
        n_exit_reason = Some (exit_reason_as_str exit_reason)\<rparr>)))"

definition upsert_daily_summary ::
  "int \<Rightarrow> string \<Rightarrow> string \<Rightarrow> string \<Rightarrow> string \<Rightarrow> uuid option \<Rightarrow> int \<Rightarrow> int \<Rightarrow> decimal \<Rightarrow> unit db_prog" where
  "upsert_daily_summary date strategy_name pair account_type exchange account_id
       trade_count_delta win_count_delta pnl_delta = stmt (\<lambda>db.
     let key = (\<lambda>d. d_date d = date \<and> d_strategy_name d = strategy_name \<and> d_pair d = pair
           \<and> d_account_type d = account_type \<and> d_exchange d = exchange \<and> d_account_id d = account_id) in
     (Inr (), db\<lparr>summaries :=
        (if \<exists>d \<in> set (summaries db). key d
         then update_rows key (\<lambda>d. d\<lparr>d_trade_count := d_trade_count d + trade_count_delta,
                d_win_count := d_win_count d + win_count_delta,
                d_total_pnl := d_total_pnl d + pnl_delta\<rparr>) (summaries db)
         else summaries db @ [\<lparr>d_date = date, d_strategy_name = strategy_name, d_pair = pair,
                d_account_type = account_type, d_exchange = exchange, d_account_id = account_id,
                d_trade_count = trade_count_delta, d_win_count = win_count_delta,
                d_total_pnl = pnl_delta, d_max_drawdown = 0\<rparr>])\<rparr>))"

section \<open>Reads\<close>

text \<open>\<open>ORDER BY entry_at DESC\<close>: a stable sort of the matching rows.\<close>

definition newest_first :: "trade_row list \<Rightarrow> trade_row list" where
  "newest_first rows = sort_key (\<lambda>r. - r_entry_at r) rows"

definition select_trades :: "(trade_row \<Rightarrow> bool) \<Rightarrow> trade list db_prog" where
  "select_trades p =
     bindE (stmt (askW (\<lambda>db. newest_first (filter p (trades db))))) (\<lambda>rows.
     liftR (collectR trade_of_row rows))"

definition list_open_or_closing_by_account :: "uuid \<Rightarrow> trade list db_prog" where
  "list_open_or_closing_by_account aid = select_trades (\<lambda>r. r_account_id r = aid \<and> unsettled r)"

definition get_open_trades_by_account :: "uuid \<Rightarrow> trade list db_prog" where
  "get_open_trades_by_account aid =
     select_trades (\<lambda>r. r_account_id r = aid \<and> r_status r = ''open'')"

record open_trade_with_account =
  ot_trade :: trade
  ot_account_name :: "string option"
  ot_account_type :: "string option"

definition find_account :: "uuid \<Rightarrow> database \<Rightarrow> trading_account option" where
  "find_account aid db = find (\<lambda>a. a_id a = aid) (accounts db)"

definition with_account :: "database \<Rightarrow> trade_row \<Rightarrow> open_trade_with_account result" where
  "with_account db r =
     bindR (trade_of_row r) (\<lambda>t. Inr
       \<lparr>ot_trade = t,
        ot_account_name = map_option a_name (find_account (r_account_id r) db),
        ot_account_type = map_option a_account_type (find_account (r_account_id r) db)\<rparr>)"

definition get_open_trade_with_account :: "uuid \<Rightarrow> open_trade_with_account option db_prog" where
  "get_open_trade_with_account tid =
     bindE (stmt (askW (\<lambda>db. (filter (\<lambda>r. r_id r = tid \<and> r_status r = ''open'') (trades db), db))))
     (\<lambda>(rows, db). case rows of
         [] \<Rightarrow> returnE None
       | r # _ \<Rightarrow> bindE (liftR (with_account db r)) (\<lambda>x. returnE (Some x)))"

definition list_open_with_account_name :: "open_trade_with_account list db_prog" where
  "list_open_with_account_name =
     bindE (stmt (askW (\<lambda>db. (newest_first (filter (\<lambda>r. r_status r = ''open'') (trades db)), db))))
     (\<lambda>(rows, db). liftR (collectR (with_account db) rows))"

definition get_account :: "uuid \<Rightarrow> trading_account option db_prog" where
  "get_account aid = stmt (askW (find_account aid))"

end
