(* ===== verification/Accounts.thy ===== *)
theory Accounts
  imports Database
begin

text \<open>
  Trading accounts: \<open>db/src/trading_accounts/creation.rs\<close> and \<open>management.rs\<close>. The table
  constraints of the migrations (non-negative initial balance, leverage at least one, the
  JPY minimum, the strategy reference, one active live account per exchange, restricted
  deletion) are the failure conditions of the statements.
\<close>

section \<open>Validation\<close>

definition MIN_INITIAL_BALANCE_JPY :: decimal where "MIN_INITIAL_BALANCE_JPY = 10000"

definition normalize_currency :: "string \<Rightarrow> string" where
  "normalize_currency currency =
     to_ascii_uppercase (trim_matches (\<lambda>c. of_char c \<in> {32, 9, 10, 13 :: nat}) currency)"

definition validate_initial_balance :: "string \<Rightarrow> decimal \<Rightarrow> unit result" where
  "validate_initial_balance currency initial_balance =
     (if normalize_currency currency = ''JPY'' \<and> initial_balance < MIN_INITIAL_BALANCE_JPY
      then Inl (Anyhow ''invalid initial_balance'') else Inr ())"

definition validate_leverage_for_exchange :: "exchange \<Rightarrow> decimal \<Rightarrow> unit result" where
  "validate_leverage_for_exchange exchange leverage =
     (let check = (\<lambda>cap. if leverage > cap
                         then Inl (Anyhow ''invalid leverage: exceeds regulatory cap'') else Inr ())
      in case exchange of BitflyerCfd \<Rightarrow> check 2 | GmoFx \<Rightarrow> check 25 | Oanda \<Rightarrow> Inr ())"

section \<open>Creation\<close>

record create_request =
  cr_name :: string
  cr_exchange :: string
  cr_initial_balance :: decimal
  cr_leverage :: decimal
  cr_strategy :: string
  cr_account_type :: string
  cr_currency :: string

definition is_exchange_char :: "char \<Rightarrow> bool" where
  "is_exchange_char c \<longleftrightarrow>
     (let n = of_char c :: nat in 97 \<le> n \<and> n \<le> 122 \<or> 48 \<le> n \<and> n \<le> 57 \<or> n = 95)"

definition live_conflict :: error where
  "live_conflict = Anyhow ''live account already exists for exchange''"

definition live_active :: "string \<Rightarrow> trading_account \<Rightarrow> bool" where
  "live_active exchange a \<longleftrightarrow>
     a_exchange a = exchange \<and> a_account_type a = ''live'' \<and> a_active a"

definition reject_if_live_account_exists_for_exchange :: "string \<Rightarrow> unit db_prog" where
  "reject_if_live_account_exists_for_exchange exchange =
     bindE (stmt (askW (\<lambda>db. \<exists>a \<in> set (accounts db). live_active exchange a))) (\<lambda>existing.
     if existing then failE live_conflict else returnE ())"

text \<open>
  The table constraints on one row, and \<open>INSERT\<close>/\<open>UPDATE\<close> checked against them;
  \<open>translate_unique_violation\<close> turns a violation of the unique index into the conflict
  message.
\<close>

definition account_row_ok :: "database \<Rightarrow> trading_account \<Rightarrow> bool" where
  "account_row_ok db a \<longleftrightarrow> 0 \<le> a_initial_balance a \<and> 1 \<le> a_leverage a
     \<and> (a_currency a = ''JPY'' \<longrightarrow> 10000 \<le> a_initial_balance a)
     \<and> (a_account_type a = ''paper'' \<or> a_account_type a = ''live'')
     \<and> a_strategy a \<in> set (strategies db)"

definition insert_account :: "trading_account \<Rightarrow> trading_account db_prog" where
  "insert_account a = stmt (\<lambda>db.
     if a_id a \<in> set (map a_id (accounts db)) \<or> \<not> account_row_ok db a then (Inl db_error, db)
     else if live_active (a_exchange a) a \<and> (\<exists>b \<in> set (accounts db). live_active (a_exchange a) b)
     then (Inl live_conflict, db)
     else (Inr a, db\<lparr>accounts := accounts db @ [a]\<rparr>))"

definition create_account ::
  "uuid \<Rightarrow> datetime \<Rightarrow> create_request \<Rightarrow> trading_account db_prog" where
  "create_account new_id now req =
     (if cr_account_type req \<noteq> ''paper'' \<and> cr_account_type req \<noteq> ''live''
      then failE (Anyhow ''invalid account_type'')
      else
        let exchange = to_ascii_lowercase (trim (cr_exchange req)) in
        if exchange = [] \<or> \<not> list_all is_exchange_char exchange
        then failE (Anyhow ''invalid exchange'')
        else
        bindE (liftR (exchange_from_str exchange)) (\<lambda>exchange_enum.
        bindE (if cr_account_type req = ''live''
               then reject_if_live_account_exists_for_exchange exchange else returnE ()) (\<lambda>_.
        let currency = normalize_currency (cr_currency req) in
        bindE (liftR (validate_initial_balance currency (cr_initial_balance req))) (\<lambda>_.
        bindE (liftR (validate_leverage_for_exchange exchange_enum (cr_leverage req))) (\<lambda>_.
        let initial_balance = (if currency = ''JPY'' then trunc (cr_initial_balance req)
                               else cr_initial_balance req)
        in insert_account
             \<lparr>a_id = new_id, a_name = cr_name req, a_account_type = cr_account_type req,
              a_exchange = exchange, a_strategy = cr_strategy req,
              a_initial_balance = initial_balance, a_current_balance = initial_balance,
              a_leverage = cr_leverage req, a_currency = currency, a_created_at = now,
              a_active = True\<rparr>)))))"

section \<open>Management\<close>

definition oldest_first :: "trading_account list \<Rightarrow> trading_account list" where
  "oldest_first = sort_key a_created_at"

definition list_all_accounts :: "trading_account list db_prog" where
  "list_all_accounts = stmt (askW (\<lambda>db. oldest_first (accounts db)))"

definition list_active :: "trading_account list db_prog" where
  "list_active = stmt (askW (\<lambda>db. oldest_first (filter a_active (accounts db))))"

definition has_unsettled :: "uuid \<Rightarrow> database \<Rightarrow> bool" where
  "has_unsettled aid db \<longleftrightarrow> (\<exists>r \<in> set (trades db). r_account_id r = aid \<and> unsettled r)"

definition list_active_or_with_open_trades :: "trading_account list db_prog" where
  "list_active_or_with_open_trades = stmt (askW (\<lambda>db.
     oldest_first (filter (\<lambda>a. a_active a \<or> has_unsettled (a_id a) db) (accounts db))))"

definition update_balance :: "uuid \<Rightarrow> decimal \<Rightarrow> unit db_prog" where
  "update_balance aid new_balance =
     bindE (stmt (\<lambda>db. (Inr (length (filter (\<lambda>a. a_id a = aid) (accounts db))),
         db\<lparr>accounts := update_rows (\<lambda>a. a_id a = aid)
              (\<lambda>a. a\<lparr>a_current_balance := new_balance\<rparr>) (accounts db)\<rparr>)))
     (\<lambda>n. if n = 0 then failE (Anyhow ''failed to update balance for account: not found'')
          else returnE ())"

record update_request =
  ur_name :: "string option"
  ur_leverage :: "decimal option"
  ur_strategy :: "string option"
  ur_active :: "bool option"

definition reject_if_other_live_account_active :: "string \<Rightarrow> uuid \<Rightarrow> unit db_prog" where
  "reject_if_other_live_account_active exchange aid =
     bindE (stmt (askW (\<lambda>db. \<exists>a \<in> set (accounts db). live_active exchange a \<and> a_id a \<noteq> aid)))
     (\<lambda>existing. if existing then failE live_conflict else returnE ())"

text \<open>\<open>COALESCE\<close> of the request with the stored row.\<close>

definition merge_account :: "update_request \<Rightarrow> trading_account \<Rightarrow> trading_account" where
  "merge_account req a = a\<lparr>a_name := unwrap_or (ur_name req) (a_name a),
     a_leverage := unwrap_or (ur_leverage req) (a_leverage a),
     a_strategy := unwrap_or (ur_strategy req) (a_strategy a),
     a_active := unwrap_or (ur_active req) (a_active a)\<rparr>"

definition deactivation_guard :: "update_request \<Rightarrow> database \<Rightarrow> trading_account \<Rightarrow> bool" where
  "deactivation_guard req db a \<longleftrightarrow>
     ur_active req \<noteq> Some False \<or> \<not> a_active a \<or> \<not> has_unsettled (a_id a) db"

definition update_account_row :: "uuid \<Rightarrow> update_request \<Rightarrow> trading_account option db_prog" where
  "update_account_row aid req = stmt (\<lambda>db.
     case filter (\<lambda>a. a_id a = aid \<and> deactivation_guard req db a) (accounts db) of
       [] \<Rightarrow> (Inr None, db)
     | a # _ \<Rightarrow>
         let a' = merge_account req a in
         if \<not> account_row_ok db a' then (Inl db_error, db)
         else if live_active (a_exchange a') a'
              \<and> (\<exists>b \<in> set (accounts db). live_active (a_exchange a') b \<and> a_id b \<noteq> aid)
         then (Inl live_conflict, db)
         else (Inr (Some a'),
           db\<lparr>accounts := update_rows (\<lambda>a. a_id a = aid) (merge_account req) (accounts db)\<rparr>))"

text \<open>
  The result is \<open>Inl (account, count)\<close> for \<open>UpdateAccountError::OpenTrades\<close>; the other
  failures are error results.
\<close>

definition update_account ::
  "uuid \<Rightarrow> update_request \<Rightarrow> ((uuid \<times> nat) + trading_account option) db_prog" where
  "update_account aid req =
     bindE (if ur_leverage req \<noteq> None \<or> ur_active req \<noteq> None then get_account aid
            else returnE None) (\<lambda>existing.
     bindE (case (ur_leverage req, existing) of
              (Some new_leverage, Some account) \<Rightarrow>
                bindE (liftR (exchange_from_str (a_exchange account))) (\<lambda>ex.
                  liftR (validate_leverage_for_exchange ex new_leverage))
            | _ \<Rightarrow> returnE ()) (\<lambda>_.
     bindE (case (ur_active req, existing) of
              (Some True, Some account) \<Rightarrow>
                if a_account_type account = ''live''
                then reject_if_other_live_account_active (a_exchange account) aid
                else returnE ()
            | _ \<Rightarrow> returnE ()) (\<lambda>_.
     bindE (update_account_row aid req) (\<lambda>row.
     case row of
       Some r \<Rightarrow> returnE (Inr (Some r))
     | None \<Rightarrow>
         (case (existing, ur_active req) of
            (None, _) \<Rightarrow> returnE (Inr None)
          | (Some _, Some False) \<Rightarrow>
              bindE (list_open_or_closing_by_account aid) (\<lambda>us.
                returnE (Inl (aid, length us)))
          | (Some _, _) \<Rightarrow> returnE (Inr None))))))"

definition delete_account :: "uuid \<Rightarrow> bool db_prog" where
  "delete_account aid = stmt (\<lambda>db.
     if (\<exists>a \<in> set (accounts db). a_id a = aid)
        \<and> ((\<exists>r \<in> set (trades db). r_account_id r = aid) \<or> (\<exists>e \<in> set (events db). ev_account_id e = aid))
     then (Inl db_error, db)
     else (Inr (\<exists>a \<in> set (accounts db). a_id a = aid),
           db\<lparr>accounts := filter (\<lambda>a. a_id a \<noteq> aid) (accounts db)\<rparr>))"

definition sum_pnl :: "trade_row list \<Rightarrow> decimal" where
  "sum_pnl rows = (\<Sum>r\<leftarrow>rows. case r_pnl_amount r of None \<Rightarrow> 0 | Some p \<Rightarrow> p)"

definition sum_fees :: "trade_row list \<Rightarrow> decimal" where
  "sum_fees rows = (\<Sum>r\<leftarrow>rows. r_fees r)"

definition settled_of :: "uuid \<Rightarrow> database \<Rightarrow> trade_row list" where
  "settled_of aid db = filter (\<lambda>r. r_account_id r = aid \<and> r_status r = ''closed'') (trades db)"

definition recalculate_balance :: "rounding \<Rightarrow> uuid \<Rightarrow> decimal db_prog" where
  "recalculate_balance rnd aid =
     bindE (stmt (askW (\<lambda>db. length (filter (\<lambda>r. r_account_id r = aid \<and> unsettled r) (trades db)))))
     (\<lambda>active_count.
     if active_count > 0
     then failE (Anyhow ''failed to recalculate balance for account: open/closing trade(s) exist'')
     else
     bindE (stmt (askW (find_account aid))) (\<lambda>acc.
     bindE (liftR (ok_or (Anyhow ''failed to recalculate balance for account: account not found'')
              (map_option a_initial_balance acc))) (\<lambda>initial_balance.
     bindE (stmt (askW (\<lambda>db. (sum_pnl (settled_of aid db), sum_fees (settled_of aid db)))))
     (\<lambda>(total_pnl, total_fees).
     let new_balance = dsub rnd (dadd rnd initial_balance total_pnl) total_fees in
     bindE (update_balance aid new_balance) (\<lambda>_.
     returnE new_balance)))))"

text \<open>\<open>recalculate_all_balances\<close> is one SQL statement, so its sums are exact.\<close>

definition recalculated :: "database \<Rightarrow> trading_account \<Rightarrow> decimal" where
  "recalculated db a =
     a_initial_balance a + sum_pnl (settled_of (a_id a) db) - sum_fees (settled_of (a_id a) db)"

definition recalculate_all_balances :: "(uuid \<times> decimal) list db_prog" where
  "recalculate_all_balances = stmt (\<lambda>db.
     let idle = (\<lambda>a. \<not> has_unsettled (a_id a) db) in
     (Inr (sort_key fst (map (\<lambda>a. (a_id a, recalculated db a)) (filter idle (accounts db)))),
      db\<lparr>accounts := update_rows idle (\<lambda>a. a\<lparr>a_current_balance := recalculated db a\<rparr>)
           (accounts db)\<rparr>))"

end
