(* ===== verification/Transactions.thy ===== *)
theory Transactions
  imports Database
begin

text \<open>
  The database transactions that the trader and the fee jobs issue, each as one program.
\<close>

section \<open>The transactions of the trader and of the fee jobs\<close>

text \<open>The transaction of \<open>persist_open_trade\<close> (\<open>order_executor/execute.rs\<close>).\<close>

definition persist_open_tx :: "uuid \<Rightarrow> trade \<Rightarrow> decimal \<Rightarrow> unit db_prog" where
  "persist_open_tx aid t margin = transaction
     (bindE (insert_trade t) (\<lambda>_.
      bindE (lock_margin aid (t_id t) margin) (\<lambda>_.
      insert_trade_opened t)))"

text \<open>The transaction of \<open>persist_closed_trade\<close> (\<open>order_executor/close_position.rs\<close>).\<close>

definition persist_closed_tx ::
  "rounding \<Rightarrow> uuid \<Rightarrow> trade \<Rightarrow> decimal \<Rightarrow> decimal \<Rightarrow> decimal \<Rightarrow> datetime \<Rightarrow> exit_reason \<Rightarrow> unit db_prog" where
  "persist_closed_tx rnd aid c margin pnl_amount exit_price exit_at exit_reason = transaction
     (bindE (update_trade_closed (t_id c) exit_price exit_at pnl_amount exit_reason (t_fees c)) (\<lambda>_.
      bindE (release_margin rnd aid (t_id c) margin pnl_amount) (\<lambda>_.
      insert_trade_closed c)))"

text \<open>The transaction of the fee jobs (\<open>apply_fee\<close> of \<open>overnight.rs\<close> and \<open>sfd_accrual.rs\<close>).\<close>

definition charge_fee_tx ::
  "uuid \<Rightarrow> uuid \<Rightarrow> decimal \<Rightarrow> string \<Rightarrow> datetime option \<Rightarrow> decimal option db_prog" where
  "charge_fee_tx aid tid fee event_type occurred =
     transaction (apply_fee_inner aid tid fee event_type occurred)"

end
