(* ===== verification/Ledger.thy ===== *)
theory Ledger
  imports Accounts Transactions
begin

text \<open>
  The account ledger. The transactions of the trader, the fee jobs and the reconciler are
  steps on the database that may interleave in any order and fail at any statement; the
  ledger invariant ties every balance to the trades and to the journal of account events.
\<close>

section \<open>The ledger invariant\<close>

definition row_margin :: "rounding \<Rightarrow> trade_row \<Rightarrow> decimal" where
  "row_margin rnd r = trunc (rnd (rnd (r_entry_price r * r_quantity r) / r_leverage r))"

text \<open>What a trade has moved on the balance of its account, fees apart.\<close>

definition position_value :: "rounding \<Rightarrow> trade_row \<Rightarrow> decimal" where
  "position_value rnd r =
     (if unsettled r then - row_margin rnd r else unwrap_or (r_pnl_amount r) 0)"

definition pv_sum :: "rounding \<Rightarrow> trade_row list \<Rightarrow> uuid \<Rightarrow> decimal" where
  "pv_sum rnd rows aid = (\<Sum>r\<leftarrow>filter (\<lambda>r. r_account_id r = aid) rows. position_value rnd r)"

definition is_fee_event :: "account_event \<Rightarrow> bool" where
  "is_fee_event e \<longleftrightarrow> ev_type e \<in> {''overnight_fee'', ''sfd_fee'', ''swap_fee''}"

definition fee_sum :: "account_event list \<Rightarrow> uuid \<Rightarrow> decimal" where
  "fee_sum evs aid = (\<Sum>e\<leftarrow>filter (\<lambda>e. ev_account_id e = aid \<and> is_fee_event e) evs. ev_amount e)"

definition journal_sum :: "account_event list \<Rightarrow> uuid \<Rightarrow> decimal" where
  "journal_sum evs aid = (\<Sum>e\<leftarrow>filter (\<lambda>e. ev_account_id e = aid) evs. ev_amount e)"

definition wf_row :: "trade_row \<Rightarrow> bool" where
  "wf_row r \<longleftrightarrow> r_leverage r \<noteq> 0 \<and> r_status r \<in> {''open'', ''closing'', ''closed''} \<and>
     (r_closing_started_at r \<noteq> None \<longleftrightarrow> r_status r = ''closing'') \<and>
     (\<exists>t. trade_of_row r = Inr t)"

definition wf_db :: "database \<Rightarrow> bool" where
  "wf_db db \<longleftrightarrow> distinct (map r_id (trades db)) \<and> distinct (map a_id (accounts db)) \<and>
     (\<forall>r \<in> set (trades db). wf_row r \<and> r_account_id r \<in> set (map a_id (accounts db))) \<and>
     (\<forall>e \<in> set (events db). ev_account_id e \<in> set (map a_id (accounts db)))"

definition ledger_ok :: "rounding \<Rightarrow> database \<Rightarrow> bool" where
  "ledger_ok rnd db \<longleftrightarrow> (\<forall>a \<in> set (accounts db).
     a_current_balance a =
       a_initial_balance a + pv_sum rnd (trades db) (a_id a) + fee_sum (events db) (a_id a) \<and>
     a_current_balance a = a_initial_balance a + journal_sum (events db) (a_id a))"

definition ledger_inv :: "rounding \<Rightarrow> database \<Rightarrow> bool" where
  "ledger_inv rnd db \<longleftrightarrow> wf_db db \<and> ledger_ok rnd db"

section \<open>Statements and transactions: generic rules\<close>

lemma faults_self: "faults db = fs \<Longrightarrow> db\<lparr>faults := fs\<rparr> = db"
  by (cases db) simp

text \<open>Without faults a statement is its effect, and a transaction its body.\<close>

lemma stmt_ok: "faults db = [] \<Longrightarrow> stmt m db = m db"
  by (simp add: stmt_def)

lemma transaction_ok:
  assumes "faults db = []" and "m db = (Inr x, db')" and "faults db' = []"
  shows "transaction m db = (Inr x, db')"
  using assms by (simp add: transaction_def stmt_ok run_simps)

lemma stmt_Inr:
  "stmt m db = (Inr x, db') \<Longrightarrow> \<exists>fs. m (db\<lparr>faults := fs\<rparr>) = (Inr x, db')"
proof (cases "faults db")
  case Nil
  then show "stmt m db = (Inr x, db') \<Longrightarrow> ?thesis"
    by (intro exI [of _ "[]"]) (simp add: stmt_def faults_self)
qed (auto simp: stmt_def split: if_splits)

lemma stmt_Inl:
  "stmt m db = (Inl e, db') \<Longrightarrow>
   (\<exists>fs. db' = db\<lparr>faults := fs\<rparr>) \<or> (\<exists>fs. m (db\<lparr>faults := fs\<rparr>) = (Inl e, db'))"
proof (cases "faults db")
  case Nil
  then show "stmt m db = (Inl e, db') \<Longrightarrow> ?thesis"
    by (intro disjI2 exI [of _ "[]"]) (simp add: stmt_def faults_self)
qed (auto simp: stmt_def split: if_splits)

text \<open>A predicate on the tables does not read the fault schedule.\<close>

definition on_tables :: "(database \<Rightarrow> bool) \<Rightarrow> bool" where
  "on_tables I \<longleftrightarrow> (\<forall>db fs. I (db\<lparr>faults := fs\<rparr>) = I db)"

lemma triple_stmt:
  assumes I: "on_tables P" and E: "\<And>e fs db. P db \<Longrightarrow> E e (db\<lparr>faults := fs\<rparr>)"
    and m: "triple P m Q E"
  shows "triple P (stmt m) Q E"
proof (rule tripleI)
  fix w e w' assume "P w" and s: "stmt m w = (Inl e, w')"
  from stmt_Inl [OF s] show "E e w'"
  proof (elim disjE exE)
    fix fs assume "w' = w\<lparr>faults := fs\<rparr>"
    then show ?thesis using E \<open>P w\<close> by simp
  next
    fix fs assume "m (w\<lparr>faults := fs\<rparr>) = (Inl e, w')"
    moreover have "P (w\<lparr>faults := fs\<rparr>)" using I \<open>P w\<close> by (simp add: on_tables_def)
    ultimately show ?thesis using triple_Inl [OF m] by blast
  qed
next
  fix w x w' assume "P w" and "stmt m w = (Inr x, w')"
  then show "Q x w'" using stmt_Inr triple_Inr [OF m] I by (metis on_tables_def)
qed

lemma preserves_stmt: "on_tables I \<Longrightarrow> preserves I m \<Longrightarrow> preserves I (stmt m)"
  by (rule triple_stmt) (auto simp: on_tables_def)

lemma transaction_Inr:
  assumes "transaction m db = (Inr x, db')"
  shows "\<exists>fs db'' fs'. m (db\<lparr>faults := fs\<rparr>) = (Inr x, db'') \<and> db' = db''\<lparr>faults := fs'\<rparr>"
proof -
  have "bindE (stmt (returnE ())) (\<lambda>_. bindE m (\<lambda>x. bindE (stmt (returnE ())) (\<lambda>_. returnE x))) db
      = (Inr x, db')"
    using assms by (auto simp: transaction_def split: prod.splits sum.splits)
  then obtain d1 d2 y where a: "stmt (returnE ()) db = (Inr (), d1)" and b: "m d1 = (Inr y, d2)"
    and c: "stmt (returnE ()) d2 = (Inr (), db')" and "x = y"
    by (auto simp: run_simps split: prod.splits sum.splits)
  from stmt_Inr [OF a] stmt_Inr [OF c] show ?thesis
    using b \<open>x = y\<close> by (auto simp: run_simps)
qed

lemma transaction_Inl: "transaction m db = (Inl e, db') \<Longrightarrow> \<exists>fs. db' = db\<lparr>faults := fs\<rparr>"
  by (auto simp: transaction_def split: prod.splits sum.splits)

text \<open>Atomicity: an invariant of the tables is kept as soon as the successful body keeps it.\<close>

lemma triple_transaction:
  assumes I: "on_tables P" and Q: "\<And>x. on_tables (Q x)"
    and m: "\<And>db x db'. P db \<Longrightarrow> m db = (Inr x, db') \<Longrightarrow> Q x db'"
  shows "triple P (transaction m) Q (\<lambda>_. P)"
proof (rule tripleI)
  fix w e w' assume "P w" and "transaction m w = (Inl e, w')"
  then show "P w'" using I by (auto simp: on_tables_def dest!: transaction_Inl)
next
  fix w x w' assume "P w" and t: "transaction m w = (Inr x, w')"
  from transaction_Inr [OF t] obtain fs d fs'
    where d: "m (w\<lparr>faults := fs\<rparr>) = (Inr x, d)" and w': "w' = d\<lparr>faults := fs'\<rparr>" by blast
  have "P (w\<lparr>faults := fs\<rparr>)" using I \<open>P w\<close> by (simp add: on_tables_def)
  then have "Q x d" using m d by blast
  then show "Q x w'" using Q by (simp add: w' on_tables_def)
qed

lemma ledger_inv_cong:
  "trades db' = trades db \<Longrightarrow> accounts db' = accounts db \<Longrightarrow> events db' = events db \<Longrightarrow>
   ledger_inv rnd db' = ledger_inv rnd db"
  unfolding ledger_inv_def wf_db_def ledger_ok_def by presburger

lemma on_tables_ledger_inv: "on_tables (ledger_inv rnd)"
  by (simp add: on_tables_def ledger_inv_def wf_db_def ledger_ok_def)

section \<open>Updating one row of a table\<close>

lemma map_update_rows: "(\<And>r. k (f r) = k r) \<Longrightarrow> map k (update_rows p f rows) = map k rows"
  by (simp add: update_rows_def comp_def)

lemma set_update_rows: "set (update_rows p f rows) = (\<lambda>r. if p r then f r else r) ` set rows"
  by (simp add: update_rows_def)

lemma in_update_rowsE:
  assumes "r' \<in> set (update_rows p f rows)"
  obtains r where "r \<in> set rows" "r' = (if p r then f r else r)"
  using assms by (force simp: update_rows_def)

lemma update_rows_Cons:
  "update_rows p f (r # rows) = (if p r then f r else r) # update_rows p f rows"
  by (simp add: update_rows_def)

lemma update_rows_id: "filter p rows = [] \<Longrightarrow> update_rows p f rows = rows"
  by (simp add: update_rows_def filter_empty_conv map_if_id)

lemma sum_update_rows:
  fixes g :: "'r \<Rightarrow> rat"
  assumes "filter p rows = [r0]" and "\<And>r. q (f r) = q r"
  shows "(\<Sum>r\<leftarrow>filter q (update_rows p f rows). g r) =
    (\<Sum>r\<leftarrow>filter q rows. g r) + (if q r0 then g (f r0) - g r0 else 0)"
  using assms(1)
proof (induction rows)
  case (Cons r rows)
  show ?case
  proof (cases "p r")
    case True
    then have "r = r0" and "filter p rows = []" using Cons.prems by auto
    then show ?thesis using True assms(2) by (simp add: update_rows_Cons update_rows_id)
  next
    case False
    then show ?thesis using Cons by (simp add: update_rows_Cons)
  qed
qed simp

lemma filter_key_and:
  assumes "distinct (map k xs)" and "x \<in> set xs" and "k x = i" and "p x"
  shows "filter (\<lambda>y. k y = i \<and> p y) xs = [x]"
proof -
  have "filter (\<lambda>y. k y = i \<and> p y) xs = filter p (filter (\<lambda>y. k y = k x) xs)"
    using assms(3) by (simp add: conj_commute)
  then show ?thesis using filter_unique [OF assms(1,2)] assms(4) by simp
qed

lemma filter_key_nonempty:
  assumes "distinct (map k xs)" and "filter (\<lambda>y. k y = i \<and> p y) xs \<noteq> []"
  obtains x where "x \<in> set xs" "k x = i" "p x" "filter (\<lambda>y. k y = i \<and> p y) xs = [x]"
proof -
  obtain x where "x \<in> set xs" "k x = i" "p x"
    using assms(2) by (auto simp: filter_empty_conv)
  then show ?thesis using that filter_key_and [OF assms(1)] by blast
qed

section \<open>Effects of the statements\<close>

lemma update_balance_returning_Inr:
  assumes "update_balance_returning aid f db = (Inr x, db')"
  shows "\<exists>a fs. a \<in> set (accounts db) \<and> a_id a = aid \<and> x = f (a_current_balance a) \<and>
    db' = db\<lparr>faults := fs, accounts := update_rows (\<lambda>a. a_id a = aid)
      (\<lambda>a. a\<lparr>a_current_balance := f (a_current_balance a)\<rparr>) (accounts db)\<rparr>"
proof (cases "filter (\<lambda>a. a_id a = aid) (accounts db)")
  case Nil
  then show ?thesis
    using assms unfolding update_balance_returning_def by (auto dest!: stmt_Inr)
next
  case (Cons a as)
  then have a: "a \<in> set (accounts db) \<and> a_id a = aid"
    by (auto simp: filter_eq_Cons_iff)
  from stmt_Inr [OF assms [unfolded update_balance_returning_def]] Cons
  show ?thesis by (intro exI [of _ a]) (use a in auto)
qed

lemma insert_event_Inr:
  "insert_event aid tid ty amount after occ db = (Inr x, db') \<Longrightarrow>
   aid \<in> set (map a_id (accounts db)) \<and> tid \<in> set (map r_id (trades db)) \<and>
   (\<exists>fs. db' = db\<lparr>faults := fs, events := events db @ [\<lparr>ev_account_id = aid, ev_trade_id = tid,
       ev_type = ty, ev_amount = amount, ev_balance_after = after, ev_occurred_at = occ\<rparr>]\<rparr>)"
  unfolding insert_event_def by (auto dest!: stmt_Inr split: if_splits)

lemma insert_notification_Inr:
  "insert_notification n db = (Inr x, db') \<Longrightarrow>
   \<exists>fs. db' = db\<lparr>faults := fs, notifications := notifications db @ [n]\<rparr>"
  unfolding insert_notification_def by (auto dest!: stmt_Inr split: if_splits)

lemma insert_trade_closed_Inr:
  "insert_trade_closed c db = (Inr x, db') \<Longrightarrow>
   trades db' = trades db \<and> accounts db' = accounts db \<and> events db' = events db"
  unfolding insert_trade_closed_def
  by (auto simp: run_simps split: prod.splits sum.splits dest!: insert_notification_Inr)

text \<open>
  A posting: one account moves by \<open>d\<close> and the journal grows by \<open>es\<close>; the trades stay.
\<close>

definition posted :: "uuid \<Rightarrow> decimal \<Rightarrow> account_event list \<Rightarrow> database \<Rightarrow> database \<Rightarrow> bool" where
  "posted aid d es db db' \<longleftrightarrow> aid \<in> set (map a_id (accounts db)) \<and> trades db' = trades db \<and>
     accounts db' = update_rows (\<lambda>a. a_id a = aid)
       (\<lambda>a. a\<lparr>a_current_balance := a_current_balance a + d\<rparr>) (accounts db) \<and>
     events db' = events db @ es"

lemma lock_margin_Inr:
  assumes "lock_margin aid tid m db = (Inr x, db')"
  shows "\<exists>after. posted aid (- m) [\<lparr>ev_account_id = aid, ev_trade_id = tid,
    ev_type = ''margin_lock'', ev_amount = - m, ev_balance_after = after, ev_occurred_at = None\<rparr>] db db'"
  using assms unfolding lock_margin_def posted_def
  by (auto simp: run_simps split: prod.splits sum.splits
      dest!: update_balance_returning_Inr insert_event_Inr)

lemma release_margin_Inr:
  assumes "release_margin rnd aid tid m p db = (Inr x, db')"
  shows "\<exists>after1 after2. posted aid (m + p)
    [\<lparr>ev_account_id = aid, ev_trade_id = tid, ev_type = ''margin_release'', ev_amount = m,
      ev_balance_after = after1, ev_occurred_at = None\<rparr>,
     \<lparr>ev_account_id = aid, ev_trade_id = tid, ev_type = ''trade_close'', ev_amount = p,
      ev_balance_after = after2, ev_occurred_at = None\<rparr>] db db'"
  using assms unfolding release_margin_def posted_def
  by (auto simp: run_simps add.assoc split: prod.splits sum.splits
      dest!: update_balance_returning_Inr insert_event_Inr)

lemma insert_trade_Inr:
  "insert_trade t db = (Inr x, db') \<Longrightarrow>
   t_id t \<notin> set (map r_id (trades db)) \<and> t_account_id t \<in> set (map a_id (accounts db)) \<and>
   0 < t_quantity t \<and> (\<exists>fs. db' = db\<lparr>faults := fs, trades := trades db @ [row_of_trade t]\<rparr>)"
  unfolding insert_trade_def by (auto dest!: stmt_Inr split: if_splits)

section \<open>Rows keep their identity\<close>

lemma trade_of_row_row_of_trade [simp]: "trade_of_row (row_of_trade t) = Inr t"
  by (cases "t_exit_reason t") (simp_all add: trade_of_row_def row_of_trade_def)

lemma trade_of_row_Inr_iff:
  "(\<exists>t. trade_of_row r = Inr t) \<longleftrightarrow>
   (\<exists>x. r_exchange r = exchange_as_str x) \<and> (\<exists>d. r_direction r = direction_as_str d) \<and>
   (\<exists>s. r_status r = trade_status_as_str s) \<and>
   (\<forall>e. r_exit_reason r = Some e \<longrightarrow> (\<exists>x. e = exit_reason_as_str x))"
  unfolding trade_of_row_def
  by (cases "r_exit_reason r")
    (simp_all add: bindR_eq_Inr exchange_from_str_Inr direction_from_str_Inr
      trade_status_from_str_Inr exit_reason_from_str_Inr, blast+)

lemma status_names:
  "(\<exists>s. x = trade_status_as_str s) \<longleftrightarrow> x = ''open'' \<or> x = ''closing'' \<or> x = ''closed''"
  by (metis trade_status.exhaust trade_status_as_str.simps)

lemma trade_of_row_fields:
  assumes "trade_of_row r = Inr t"
  shows "t_id t = r_id r" "t_account_id t = r_account_id r" "t_entry_price t = r_entry_price r"
    "t_quantity t = r_quantity r" "t_leverage t = r_leverage r" "t_fees t = r_fees r"
    "r_status r = trade_status_as_str (t_status t)" "t_stop_order_id t = r_stop_order_id r"
    "r_direction r = direction_as_str (t_direction t)" "t_pair t = r_pair r"
    "t_exchange_position_id t = r_exchange_position_id r"
  using assms unfolding trade_of_row_def
  by (auto simp: bindR_eq_Inr trade_status_from_str_Inr direction_from_str_Inr)

section \<open>The ledger equation under a posting\<close>

lemma sum_append_filter: "(\<Sum>e\<leftarrow>filter p (xs @ ys). g e) = (\<Sum>e\<leftarrow>filter p xs. g e) + (\<Sum>e\<leftarrow>filter p ys. (g e :: rat))"
  by simp

lemma fee_sum_append: "fee_sum (evs @ es) aid = fee_sum evs aid + fee_sum es aid"
  by (simp add: fee_sum_def)

lemma journal_sum_append: "journal_sum (evs @ es) aid = journal_sum evs aid + journal_sum es aid"
  by (simp add: journal_sum_def)

lemma sums_other_account:
  "\<forall>e \<in> set es. ev_account_id e = aid \<Longrightarrow> b \<noteq> aid \<Longrightarrow> fee_sum es b = 0 \<and> journal_sum es b = 0"
  by (auto simp: fee_sum_def journal_sum_def filter_empty_conv intro!: arg_cong [where f = sum_list])

lemma ledger_ok_posting:
  assumes L: "ledger_ok rnd db"
    and acc: "accounts db' = update_rows (\<lambda>a. a_id a = aid)
       (\<lambda>a. a\<lparr>a_current_balance := a_current_balance a + d\<rparr>) (accounts db)"
    and ev: "events db' = events db @ es" and es: "\<forall>e \<in> set es. ev_account_id e = aid"
    and jr: "journal_sum es aid = d"
    and pv: "pv_sum rnd (trades db') aid = pv_sum rnd (trades db) aid + (d - fee_sum es aid)"
    and pvo: "\<And>b. b \<noteq> aid \<Longrightarrow> pv_sum rnd (trades db') b = pv_sum rnd (trades db) b"
  shows "ledger_ok rnd db'"
  unfolding ledger_ok_def
proof
  fix a' assume "a' \<in> set (accounts db')"
  then obtain a where a: "a \<in> set (accounts db)"
    and a': "a' = (if a_id a = aid then a\<lparr>a_current_balance := a_current_balance a + d\<rparr> else a)"
    by (auto simp: acc set_update_rows)
  have eqs: "a_current_balance a =
      a_initial_balance a + pv_sum rnd (trades db) (a_id a) + fee_sum (events db) (a_id a)"
    "a_current_balance a = a_initial_balance a + journal_sum (events db) (a_id a)"
    using L a by (auto simp: ledger_ok_def)
  show "a_current_balance a' =
       a_initial_balance a' + pv_sum rnd (trades db') (a_id a') + fee_sum (events db') (a_id a') \<and>
     a_current_balance a' = a_initial_balance a' + journal_sum (events db') (a_id a')"
  proof (cases "a_id a = aid")
    case True
    then have "a_current_balance a' = a_current_balance a + d" "a_initial_balance a' = a_initial_balance a"
      "a_id a' = aid" by (simp_all add: a')
    then show ?thesis using eqs True jr pv
      by (simp add: ev fee_sum_append journal_sum_append)
  next
    case False
    then have "a' = a" by (simp add: a')
    then show ?thesis using eqs False pvo sums_other_account [OF es]
      by (simp add: ev fee_sum_append journal_sum_append)
  qed
qed

lemma wf_db_accounts_update:
  assumes "wf_db db" and "accounts db' = update_rows p f (accounts db)" and "\<And>a. a_id (f a) = a_id a"
    and "trades db' = trades db" and "events db' = events db @ es"
    and "\<forall>e \<in> set es. ev_account_id e \<in> set (map a_id (accounts db))"
  shows "wf_db db'"
proof -
  have ids: "map a_id (accounts db') = map a_id (accounts db)"
    using assms(2,3) by (simp add: map_update_rows)
  show ?thesis using assms(1,4,5,6) unfolding wf_db_def ids by auto
qed

lemma pv_sum_append:
  "pv_sum rnd (rows @ [r]) b = pv_sum rnd rows b + (if r_account_id r = b then position_value rnd r else 0)"
  by (simp add: pv_sum_def)

lemma pv_sum_update:
  assumes "filter p rows = [r0]" and "\<And>r. r_account_id (f r) = r_account_id r"
  shows "pv_sum rnd (update_rows p f rows) b = pv_sum rnd rows b +
    (if r_account_id r0 = b then position_value rnd (f r0) - position_value rnd r0 else 0)"
  unfolding pv_sum_def using sum_update_rows [OF assms(1), of "\<lambda>r. r_account_id r = b" f] assms(2)
  by simp

section \<open>Every transaction keeps the ledger\<close>

lemma position_value_open: "unsettled r \<Longrightarrow> position_value rnd r = - row_margin rnd r"
  by (simp add: position_value_def)

lemma position_value_closed:
  "\<not> unsettled r \<Longrightarrow> r_pnl_amount r = Some p \<Longrightarrow> position_value rnd r = p"
  by (simp add: position_value_def unwrap_or_def)

lemma wf_row_row_of_trade:
  "t_status t = Open \<Longrightarrow> t_leverage t \<noteq> 0 \<Longrightarrow> wf_row (row_of_trade t)"
  unfolding wf_row_def by simp (simp add: row_of_trade_def)

lemma wf_db_insert_trade:
  assumes "wf_db db" and "insert_trade t db = (Inr x, db')" and "wf_row (row_of_trade t)"
  shows "wf_db db'"
  using assms insert_trade_Inr [OF assms(2)]
  by (auto simp: wf_db_def row_of_trade_def)

lemma ledger_inv_posting_simple:
  assumes "wf_db db1" and "posted aid d es db1 db2" and "\<forall>e \<in> set es. ev_account_id e = aid"
  shows "wf_db db2"
  by (rule wf_db_accounts_update [OF assms(1), where p = "\<lambda>a. a_id a = aid" and es = es
      and f = "\<lambda>a. a\<lparr>a_current_balance := a_current_balance a + d\<rparr>"])
    (use assms(2,3) in \<open>auto simp: posted_def\<close>)

lemma ledger_inv_posted:
  assumes L: "ledger_ok rnd db" and wf: "wf_db d1" and post: "posted aid d es d1 d2"
    and same: "accounts d1 = accounts db" "events d1 = events db"
    and es: "\<forall>e \<in> set es. ev_account_id e = aid" and jr: "journal_sum es aid = d"
    and pv: "\<And>b. pv_sum rnd (trades d1) b =
      pv_sum rnd (trades db) b + (if b = aid then d - fee_sum es aid else 0)"
  shows "ledger_inv rnd d2"
  unfolding ledger_inv_def
proof
  show "wf_db d2" using wf post es by (rule ledger_inv_posting_simple)
  show "ledger_ok rnd d2"
    by (rule ledger_ok_posting [OF L, where aid = aid and d = d and es = es])
      (use post same es jr pv in \<open>auto simp: posted_def\<close>)
qed

lemma persist_open_tx_preserves:
  assumes t: "t_account_id t = aid" "t_status t = Open" "t_leverage t \<noteq> 0"
    and m: "margin = row_margin rnd (row_of_trade t)"
  shows "preserves (ledger_inv rnd) (persist_open_tx aid t margin)"
  unfolding persist_open_tx_def
proof (rule triple_transaction [OF on_tables_ledger_inv on_tables_ledger_inv])
  fix db x db'
  assume inv: "ledger_inv rnd db" and run: "bindE (insert_trade t) (\<lambda>_.
      bindE (lock_margin aid (t_id t) margin) (\<lambda>_. insert_trade_opened t)) db = (Inr x, db')"
  then obtain d1 d2 where 1: "insert_trade t db = (Inr (), d1)"
    and 2: "lock_margin aid (t_id t) margin d1 = (Inr (), d2)"
    and 3: "insert_trade_opened t d2 = (Inr x, db')"
    by (auto simp: run_simps split: prod.splits sum.splits)
  from lock_margin_Inr [OF 2] obtain after where post: "posted aid (- margin)
    [\<lparr>ev_account_id = aid, ev_trade_id = t_id t, ev_type = ''margin_lock'', ev_amount = - margin,
      ev_balance_after = after, ev_occurred_at = None\<rparr>] d1 d2" ..
  have tabs: "trades db' = trades d2 \<and> accounts db' = accounts d2 \<and> events db' = events d2"
    using insert_notification_Inr [OF 3 [unfolded insert_trade_opened_def]] by auto
  have wf1: "wf_db d1"
    using inv 1 t by (auto simp: ledger_inv_def intro: wf_db_insert_trade wf_row_row_of_trade)
  have us: "unsettled (row_of_trade t)" using t by (simp add: unsettled_def row_of_trade_def)
  have acc: "r_account_id (row_of_trade t) = aid" using t by (simp add: row_of_trade_def)
  have "ledger_inv rnd d2"
    by (rule ledger_inv_posted [OF _ wf1 post, where db = db])
      (use inv insert_trade_Inr [OF 1] us acc m in
        \<open>auto simp: ledger_inv_def journal_sum_def fee_sum_def is_fee_event_def pv_sum_append
          position_value_open\<close>)
  then show "ledger_inv rnd db'" using tabs ledger_inv_cong by blast
qed

text \<open>Closing the one unsettled row of a trade and releasing its margin.\<close>

lemma close_and_release_keeps_ledger:
  assumes inv: "ledger_inv rnd db"
    and ne: "filter (\<lambda>r. r_id r = tid \<and> unsettled r) (trades db) \<noteq> []"
    and own: "\<And>r. r \<in> set (trades db) \<Longrightarrow> r_id r = tid \<Longrightarrow> r_account_id r = aid \<and> m = row_margin rnd r"
    and f: "\<And>r. r_id (f r) = r_id r" "\<And>r. r_account_id (f r) = r_account_id r"
      "\<And>r. \<not> unsettled (f r)" "\<And>r. r_pnl_amount (f r) = Some p" "\<And>r. wf_row r \<Longrightarrow> wf_row (f r)"
    and d1: "trades d1 = update_rows (\<lambda>r. r_id r = tid \<and> unsettled r) f (trades db)"
      "accounts d1 = accounts db" "events d1 = events db"
    and rel: "release_margin rnd aid tid m p d1 = (Inr x, d2)"
  shows "ledger_inv rnd d2"
proof -
  from release_margin_Inr [OF rel] obtain after1 after2 where post: "posted aid (m + p)
    [\<lparr>ev_account_id = aid, ev_trade_id = tid, ev_type = ''margin_release'', ev_amount = m,
      ev_balance_after = after1, ev_occurred_at = None\<rparr>,
     \<lparr>ev_account_id = aid, ev_trade_id = tid, ev_type = ''trade_close'', ev_amount = p,
      ev_balance_after = after2, ev_occurred_at = None\<rparr>] d1 d2" by blast
  have dist: "distinct (map r_id (trades db))" using inv by (simp add: ledger_inv_def wf_db_def)
  obtain r0 where r0: "r0 \<in> set (trades db)" "r_id r0 = tid" "unsettled r0"
    and single: "filter (\<lambda>r. r_id r = tid \<and> unsettled r) (trades db) = [r0]"
    using filter_key_nonempty [OF dist ne] by blast
  have "wf_db db" using inv by (simp add: ledger_inv_def)
  then have wf1: "wf_db d1"
    using f(1,2,5) by (auto simp: wf_db_def d1 map_update_rows set_update_rows)
  have pv: "pv_sum rnd (trades d1) b = pv_sum rnd (trades db) b + (if b = aid then m + p else 0)" for b
    using own [OF r0(1,2)] f r0(3)
    by (auto simp: d1 pv_sum_update [OF single f(2)] position_value_open position_value_closed)
  show ?thesis
    by (rule ledger_inv_posted [OF _ wf1 post, where db = db])
      (use inv d1 pv in \<open>auto simp: ledger_inv_def journal_sum_def fee_sum_def is_fee_event_def\<close>)
qed

lemma wf_row_closed:
  assumes "wf_row r"
  shows "wf_row (r\<lparr>r_exit_price := ep, r_exit_at := ea, r_pnl_amount := p,
      r_exit_reason := Some (exit_reason_as_str x), r_fees := fees, r_status := ''closed'',
      r_closing_started_at := None\<rparr>)"
    and "wf_row (r\<lparr>r_exit_price := ep, r_exit_at := ea, r_pnl_amount := p,
      r_exit_reason := Some (exit_reason_as_str x), r_status := ''closed'',
      r_closing_started_at := None\<rparr>)"
  using assms unfolding wf_row_def trade_of_row_Inr_iff status_names by auto

lemma update_trade_closed_Inr:
  "update_trade_closed tid ep ea p x fees db = (Inr u, db') \<Longrightarrow>
   filter (\<lambda>r. r_id r = tid \<and> unsettled r) (trades db) \<noteq> [] \<and>
   trades db' = update_rows (\<lambda>r. r_id r = tid \<and> unsettled r) (\<lambda>r. r\<lparr>r_exit_price := Some ep,
     r_exit_at := Some ea, r_pnl_amount := Some p, r_exit_reason := Some (exit_reason_as_str x),
     r_fees := fees, r_status := ''closed'', r_closing_started_at := None\<rparr>) (trades db) \<and>
   accounts db' = accounts db \<and> events db' = events db"
  unfolding update_trade_closed_def
  by (auto simp: run_simps Let_def split: prod.splits sum.splits if_splits dest!: stmt_Inr)

definition owns_margin :: "rounding \<Rightarrow> uuid \<Rightarrow> uuid \<Rightarrow> decimal \<Rightarrow> database \<Rightarrow> bool" where
  "owns_margin rnd aid tid m db \<longleftrightarrow>
     (\<forall>r \<in> set (trades db). r_id r = tid \<longrightarrow> r_account_id r = aid \<and> m = row_margin rnd r)"

lemma on_tables_owns: "on_tables (\<lambda>db. ledger_inv rnd db \<and> owns_margin rnd aid tid m db)"
  using on_tables_ledger_inv [of rnd] by (simp add: on_tables_def owns_margin_def)

lemma persist_closed_tx_preserves:
  "triple (\<lambda>db. ledger_inv rnd db \<and> owns_margin rnd aid (t_id c) margin db)
     (persist_closed_tx rnd aid c margin pnl ep ea x) (\<lambda>_. ledger_inv rnd) (\<lambda>_. ledger_inv rnd)"
proof (rule triple_weaken)
  show "triple (\<lambda>db. ledger_inv rnd db \<and> owns_margin rnd aid (t_id c) margin db)
     (persist_closed_tx rnd aid c margin pnl ep ea x) (\<lambda>_. ledger_inv rnd)
     (\<lambda>_ db. ledger_inv rnd db \<and> owns_margin rnd aid (t_id c) margin db)"
    unfolding persist_closed_tx_def
  proof (rule triple_transaction [OF on_tables_owns on_tables_ledger_inv])
    fix db y db'
    assume pre: "ledger_inv rnd db \<and> owns_margin rnd aid (t_id c) margin db"
      and run: "bindE (update_trade_closed (t_id c) ep ea pnl x (t_fees c)) (\<lambda>_.
        bindE (release_margin rnd aid (t_id c) margin pnl) (\<lambda>_. insert_trade_closed c)) db = (Inr y, db')"
    then obtain d1 d2 where 1: "update_trade_closed (t_id c) ep ea pnl x (t_fees c) db = (Inr (), d1)"
      and 2: "release_margin rnd aid (t_id c) margin pnl d1 = (Inr (), d2)"
      and 3: "insert_trade_closed c d2 = (Inr y, db')"
      by (auto simp: run_simps split: prod.splits sum.splits)
    have "ledger_inv rnd d2"
      by (rule close_and_release_keeps_ledger [OF _ _ _ _ _ _ _ _ _ _ _ 2, where db = db])
        (use pre update_trade_closed_Inr [OF 1] in
          \<open>auto simp: unsettled_def owns_margin_def wf_row_closed\<close>)
    then show "ledger_inv rnd db'"
      using insert_trade_closed_Inr [OF 3] ledger_inv_cong by blast
  qed
qed auto

end
