(* ===== verification/Ledger_Steps.thy ===== *)
theory Ledger_Steps
  imports Ledger
begin

text \<open>
  The ledger as a transition system. Every database operation that touches balances, trades
  or accounts keeps the ledger invariant; the operations may interleave in any order and
  each statement may fail. A close is split where the code yields: the lock is taken in one
  step and the trade read with it (a snapshot, possibly held by several closers at once) is
  settled in a later one.
\<close>

section \<open>Small steps on rows\<close>

lemma preserves_transaction:
  assumes "on_tables I" and "preserves I m"
  shows "preserves I (transaction m)"
  by (rule triple_transaction [OF assms(1) assms(1)]) (use triple_Inr [OF assms(2)] in blast)

lemma preserves_conj: "preserves I m \<Longrightarrow> preserves J m \<Longrightarrow> preserves (\<lambda>w. I w \<and> J w) m"
  unfolding triple_def by (auto split: prod.splits sum.splits)

lemma preserves_read: "on_tables I \<Longrightarrow> preserves I (stmt (askW f))"
  by (intro preserves_stmt preserves_askW)

lemma preserves_if: "preserves I a \<Longrightarrow> preserves I b \<Longrightarrow> preserves I (if c then a else b)"
  by simp

lemma pv_sum_touch:
  assumes "\<And>r. r \<in> set rows \<Longrightarrow> p r \<Longrightarrow>
    r_account_id (f r) = r_account_id r \<and> position_value rnd (f r) = position_value rnd r"
  shows "pv_sum rnd (update_rows p f rows) b = pv_sum rnd rows b"
  using assms by (induction rows) (auto simp: pv_sum_def update_rows_def)

lemma wf_db_touch:
  assumes "wf_db db" and "\<And>r. r \<in> set (trades db) \<Longrightarrow> p r \<Longrightarrow> wf_row (f r)"
    and "\<And>r. r_id (f r) = r_id r \<and> r_account_id (f r) = r_account_id r"
  shows "wf_db (db\<lparr>trades := update_rows p f (trades db)\<rparr>)"
  using assms by (auto simp: wf_db_def map_update_rows set_update_rows)

lemma ledger_inv_touch:
  assumes "ledger_inv rnd db" and "\<And>r. wf_row r \<Longrightarrow> p r \<Longrightarrow> wf_row (f r)"
    and "\<And>r. r_id (f r) = r_id r \<and> r_account_id (f r) = r_account_id r"
    and "\<And>r. p r \<Longrightarrow> position_value rnd (f r) = position_value rnd r"
  shows "ledger_inv rnd (db\<lparr>trades := update_rows p f (trades db)\<rparr>)"
proof -
  have "wf_db (db\<lparr>trades := update_rows p f (trades db)\<rparr>)"
    using assms(1-3) by (intro wf_db_touch) (auto simp: ledger_inv_def wf_db_def)
  moreover have "pv_sum rnd (update_rows p f (trades db)) b = pv_sum rnd (trades db) b" for b
    using assms(3,4) by (intro pv_sum_touch) auto
  ultimately show ?thesis using assms(1) unfolding ledger_inv_def ledger_ok_def by auto
qed

lemma wf_row_status:
  assumes "wf_row r"
  shows "wf_row (r\<lparr>r_status := ''closing'', r_closing_started_at := Some n\<rparr>)"
    and "wf_row (r\<lparr>r_status := ''open'', r_closing_started_at := None\<rparr>)"
    and "wf_row (r\<lparr>r_fees := x\<rparr>)"
  using assms unfolding wf_row_def trade_of_row_Inr_iff status_names by auto

lemma position_value_status:
  "unsettled r \<Longrightarrow> position_value rnd (r\<lparr>r_status := ''closing'', r_closing_started_at := n\<rparr>) = position_value rnd r"
  "unsettled r \<Longrightarrow> position_value rnd (r\<lparr>r_status := ''open'', r_closing_started_at := n\<rparr>) = position_value rnd r"
  "position_value rnd (r\<lparr>r_fees := x\<rparr>) = position_value rnd r"
  by (simp_all add: position_value_def unsettled_def row_margin_def)

section \<open>The lock, the fees and the reconciler keep the ledger\<close>

lemma lockable_unsettled: "lockable now tid aid r \<Longrightarrow> unsettled r"
  by (auto simp: lockable_def unsettled_def)

lemma acquire_close_lock_preserves: "preserves (ledger_inv rnd) (acquire_close_lock now tid aid)"
  unfolding acquire_close_lock_def
proof (intro preserves_bindE preserves_stmt [OF on_tables_ledger_inv])
  show "preserves (ledger_inv rnd) (\<lambda>db.
         let lock = (\<lambda>r. r\<lparr>r_status := ''closing'', r_closing_started_at := Some now\<rparr>) in
         case filter (lockable now tid aid) (trades db) of
           [] \<Rightarrow> (Inr None, db)
         | r # _ \<Rightarrow> (Inr (Some (lock r, r_closing_started_at r)),
             db\<lparr>trades := update_rows (lockable now tid aid) lock (trades db)\<rparr>))"
    unfolding triple_def
    by (auto simp: Let_def split: list.splits intro!: ledger_inv_touch wf_row_status
        position_value_status lockable_unsettled)
qed (auto split: option.splits intro!: wp)

lemma release_close_lock_preserves: "preserves (ledger_inv rnd) (release_close_lock tid)"
  unfolding release_close_lock_def
  by (intro preserves_stmt [OF on_tables_ledger_inv])
    (auto simp: triple_def unsettled_def intro!: ledger_inv_touch wf_row_status position_value_status)

lemma add_fees_preserves: "preserves (ledger_inv rnd) (add_fees tid d)"
  unfolding add_fees_def
  by (intro preserves_bindE preserves_stmt [OF on_tables_ledger_inv])
    (auto simp: triple_def run_simps position_value_status intro!: ledger_inv_touch wf_row_status)

lemma apply_fee_inner_keeps_ledger:
  assumes inv: "ledger_inv rnd db" and ty: "ty \<in> {''overnight_fee'', ''sfd_fee'', ''swap_fee''}"
    and run: "apply_fee_inner aid tid fee ty occ db = (Inr x, db')"
  shows "ledger_inv rnd db'"
proof -
  let ?p = "\<lambda>r. r_id r = tid \<and> r_account_id r = aid \<and> r_status r = ''open''"
  let ?f = "\<lambda>r. r\<lparr>r_fees := r_fees r + fee\<rparr>"
  from run obtain n d1 where 1: "stmt (\<lambda>db. (Inr (length (filter ?p (trades db))),
      db\<lparr>trades := update_rows ?p ?f (trades db)\<rparr>)) db = (Inr n, d1)"
    and 2: "(if n = 0 then returnE None else
         bindE (update_balance_returning aid (\<lambda>b. b - fee)) (\<lambda>new_balance.
         bindE (insert_event aid tid ty (- fee) new_balance occ) (\<lambda>_.
         returnE (Some new_balance)))) d1 = (Inr x, db')"
    by (auto simp: apply_fee_inner_def bindE_run Let_def split: prod.splits sum.splits)
  from stmt_Inr [OF 1] obtain fs where d1: "d1 = db\<lparr>faults := fs, trades := update_rows ?p ?f (trades db)\<rparr>"
    by auto
  have "ledger_inv rnd (db\<lparr>faults := fs\<rparr>)" using inv on_tables_ledger_inv by (simp add: on_tables_def)
  then have inv1: "ledger_inv rnd d1"
    using ledger_inv_touch [of rnd "db\<lparr>faults := fs\<rparr>" ?p ?f]
    by (simp add: d1 wf_row_status position_value_status)
  show ?thesis
  proof (cases "n = 0")
    case True
    then show ?thesis using 2 inv1 by (simp add: run_simps)
  next
    case False
    then obtain after where post: "posted aid (- fee) [\<lparr>ev_account_id = aid, ev_trade_id = tid,
        ev_type = ty, ev_amount = - fee, ev_balance_after = after, ev_occurred_at = occ\<rparr>] d1 db'"
      using 2 unfolding posted_def
      by (auto simp: run_simps split: prod.splits sum.splits
          dest!: update_balance_returning_Inr insert_event_Inr)
    show ?thesis
      by (rule ledger_inv_posted [OF _ _ post, where db = d1])
        (use inv1 ty in \<open>auto simp: ledger_inv_def journal_sum_def fee_sum_def is_fee_event_def\<close>)
  qed
qed

lemma charge_fee_tx_preserves:
  assumes "ty \<in> {''overnight_fee'', ''sfd_fee'', ''swap_fee''}"
  shows "preserves (ledger_inv rnd) (charge_fee_tx aid tid fee ty occ)"
  unfolding charge_fee_tx_def
  by (rule triple_transaction [OF on_tables_ledger_inv on_tables_ledger_inv])
    (rule apply_fee_inner_keeps_ledger [OF _ assms])


lemma required_margin_row:
  assumes "required_margin rnd \<lparr>op_direction = d, op_entry_price = r_entry_price r,
      op_current_price = c, op_quantity = r_quantity r, op_leverage = r_leverage r\<rparr> = Inr m"
  shows "m = row_margin rnd r \<and> r_leverage r \<noteq> 0"
  using assms unfolding required_margin_def row_margin_def
  by (auto simp: dec_op_defs bindR_eq_Inr split: if_splits)


lemma owns_margin_row:
  assumes "wf_db db" and "r \<in> set (trades db)"
  shows "owns_margin rnd (r_account_id r) (r_id r) (row_margin rnd r) db"
  using assms unfolding owns_margin_def wf_db_def by (auto simp: distinct_map dest: inj_onD)

lemma settle_tx:
  assumes f: "\<And>r. r_id (f r) = r_id r" "\<And>r. r_account_id (f r) = r_account_id r"
      "\<And>r. \<not> unsettled (f r)" "\<And>r. r_pnl_amount (f r) = Some p" "\<And>r. wf_row r \<Longrightarrow> wf_row (f r)"
  shows "triple (\<lambda>db. ledger_inv rnd db \<and> owns_margin rnd aid tid m db)
    (transaction (bindE (stmt (\<lambda>db.
        (Inr (length (filter (\<lambda>r. r_id r = tid \<and> unsettled r) (trades db))),
         db\<lparr>trades := update_rows (\<lambda>r. r_id r = tid \<and> unsettled r) f (trades db)\<rparr>)))
      (\<lambda>n. if n = 0 then failE e else release_margin rnd aid tid m p)))
    (\<lambda>_. ledger_inv rnd) (\<lambda>_ db. ledger_inv rnd db \<and> owns_margin rnd aid tid m db)"
proof (rule triple_transaction [OF on_tables_owns on_tables_ledger_inv])
  fix db y db'
  assume pre: "ledger_inv rnd db \<and> owns_margin rnd aid tid m db"
  assume "bindE (stmt (\<lambda>db. (Inr (length (filter (\<lambda>r. r_id r = tid \<and> unsettled r) (trades db))),
         db\<lparr>trades := update_rows (\<lambda>r. r_id r = tid \<and> unsettled r) f (trades db)\<rparr>)))
      (\<lambda>n. if n = 0 then failE e else release_margin rnd aid tid m p) db = (Inr y, db')"
  then obtain n d1 where 1: "stmt (\<lambda>db. (Inr (length (filter (\<lambda>r. r_id r = tid \<and> unsettled r) (trades db))),
         db\<lparr>trades := update_rows (\<lambda>r. r_id r = tid \<and> unsettled r) f (trades db)\<rparr>)) db = (Inr n, d1)"
    and "n \<noteq> 0" and 2: "release_margin rnd aid tid m p d1 = (Inr y, db')"
    by (auto simp: run_simps split: prod.splits sum.splits if_splits)
  show "ledger_inv rnd db'"
    by (rule close_and_release_keeps_ledger [OF _ _ _ f _ _ _ 2, where db = db])
      (use pre stmt_Inr [OF 1] \<open>n \<noteq> 0\<close> in \<open>auto simp: owns_margin_def\<close>)
qed

lemma reconciled_tx_triple:
  "triple (\<lambda>db. ledger_inv rnd db \<and> owns_margin rnd aid tid m db)
     (reconciled_tx rnd ea tid ep p x aid m) (\<lambda>_. ledger_inv rnd)
     (\<lambda>_ db. ledger_inv rnd db \<and> owns_margin rnd aid tid m db)"
  unfolding reconciled_tx_def
  by (rule settle_tx) (auto simp: unsettled_def wf_row_closed)

lemma close_trade_reconciled_preserves:
  "preserves (ledger_inv rnd) (close_trade_reconciled rnd ea tid ep p x)"
  unfolding close_trade_reconciled_def
proof (rule triple_bindE)
  let ?R = "\<lambda>rows db. ledger_inv rnd db \<and>
    (\<forall>r \<in> set rows. r_id r = tid \<and> owns_margin rnd (r_account_id r) tid (row_margin rnd r) db)"
  show "triple (ledger_inv rnd) (stmt (askW (\<lambda>db. filter (\<lambda>r. r_id r = tid \<and> unsettled r) (trades db))))
      ?R (\<lambda>_. ledger_inv rnd)"
    using on_tables_ledger_inv [of rnd]
    by (intro triple_stmt) (auto simp: triple_def run_simps on_tables_def ledger_inv_def
        intro: owns_margin_row)
  fix rows
  show "triple (?R rows) (case rows of
       [] \<Rightarrow> failE (Anyhow ''failed to close trade: not found or already closed'')
     | row # _ \<Rightarrow>
         bindE (liftR (trade_of_row row)) (\<lambda>trade.
         bindE (liftR (required_margin rnd \<lparr>op_direction = t_direction trade,
                  op_entry_price = t_entry_price trade, op_current_price = t_entry_price trade,
                  op_quantity = t_quantity trade, op_leverage = t_leverage trade\<rparr>)) (\<lambda>margin.
         reconciled_tx rnd ea tid ep p x (t_account_id trade) margin)))
     (\<lambda>_. ledger_inv rnd) (\<lambda>_. ledger_inv rnd)"
  proof (cases rows)
    case (Cons row rest)
    have "triple (?R rows) (reconciled_tx rnd ea tid ep p x (t_account_id trade) margin)
        (\<lambda>_. ledger_inv rnd) (\<lambda>_. ledger_inv rnd)"
      if t: "trade_of_row row = Inr trade" and m: "required_margin rnd \<lparr>op_direction = t_direction trade,
                  op_entry_price = t_entry_price trade, op_current_price = t_entry_price trade,
                  op_quantity = t_quantity trade, op_leverage = t_leverage trade\<rparr> = Inr margin"
      for trade margin
      by (rule triple_weaken [OF reconciled_tx_triple])
        (use Cons trade_of_row_fields [OF t] required_margin_row [of rnd _ row _ margin] m in auto)
    then show ?thesis unfolding Cons
      by (auto simp: triple_def run_simps split: sum.splits)
  qed (auto intro!: wp)
qed

end
