(* ===== verification/Ledger_System.thy ===== *)
theory Ledger_System
  imports Ledger_Steps
begin

text \<open>
  All database operations of the running program as one transition system, with the
  invariants of its reachable states.
\<close>

section \<open>Account operations keep the ledger\<close>

lemma sums_unknown_account:
  assumes "wf_db db" and "aid \<notin> set (map a_id (accounts db))"
  shows "pv_sum rnd (trades db) aid = 0" "fee_sum (events db) aid = 0" "journal_sum (events db) aid = 0"
proof -
  have "\<forall>r \<in> set (trades db). r_account_id r \<noteq> aid" "\<forall>e \<in> set (events db). ev_account_id e \<noteq> aid"
    using assms by (auto simp: wf_db_def)
  then show "pv_sum rnd (trades db) aid = 0" "fee_sum (events db) aid = 0" "journal_sum (events db) aid = 0"
    by (simp_all add: pv_sum_def fee_sum_def journal_sum_def cong: filter_cong)
qed

lemma ledger_inv_new_account:
  assumes "ledger_inv rnd db" and "a_id a \<notin> set (map a_id (accounts db))"
    and "a_current_balance a = a_initial_balance a"
  shows "ledger_inv rnd (db\<lparr>accounts := accounts db @ [a]\<rparr>)"
proof -
  have "wf_db db" using assms(1) by (simp add: ledger_inv_def)
  note sums = sums_unknown_account [OF this assms(2)]
  show ?thesis
    using assms sums unfolding ledger_inv_def ledger_ok_def wf_db_def by auto
qed

lemma insert_account_preserves:
  "a_current_balance a = a_initial_balance a \<Longrightarrow> preserves (ledger_inv rnd) (insert_account a)"
  unfolding insert_account_def
  by (intro preserves_stmt [OF on_tables_ledger_inv])
    (auto simp: triple_def intro!: ledger_inv_new_account)

lemma create_account_preserves: "preserves (ledger_inv rnd) (create_account new_id now req)"
  unfolding create_account_def Let_def reject_if_live_account_exists_for_exchange_def
  by (intro preserves_if preserves_bindE preserves_read preserves_failE preserves_returnE
      preserves_liftR on_tables_ledger_inv insert_account_preserves) simp_all

lemma merge_account_keeps [simp]:
  "a_id (merge_account req a) = a_id a" "a_initial_balance (merge_account req a) = a_initial_balance a"
  "a_current_balance (merge_account req a) = a_current_balance a"
  "a_exchange (merge_account req a) = a_exchange a"
  "a_account_type (merge_account req a) = a_account_type a"
  by (simp_all add: merge_account_def)

lemma ledger_inv_merge:
  assumes "ledger_inv rnd db"
  shows "ledger_inv rnd (db\<lparr>accounts := update_rows p (merge_account req) (accounts db)\<rparr>)"
proof -
  have ids: "map a_id (update_rows p (merge_account req) (accounts db)) = map a_id (accounts db)"
    by (simp add: map_update_rows)
  then have "wf_db (db\<lparr>accounts := update_rows p (merge_account req) (accounts db)\<rparr>)"
    using assms by (simp add: ledger_inv_def wf_db_def del: set_map)
  then show ?thesis
    using assms unfolding ledger_inv_def ledger_ok_def by (auto simp: set_update_rows)
qed

lemma update_account_row_preserves: "preserves (ledger_inv rnd) (update_account_row aid req)"
  unfolding update_account_row_def
  by (intro preserves_stmt [OF on_tables_ledger_inv])
    (auto simp: triple_def Let_def split: list.splits intro: ledger_inv_merge)

lemma select_trades_preserves: "on_tables I \<Longrightarrow> preserves I (select_trades p)"
  unfolding select_trades_def by (intro preserves_bindE preserves_read preserves_liftR)

text \<open>\<open>update_account\<close> changes the tables in its one \<open>UPDATE\<close> only.\<close>

lemma update_account_preserves_gen:
  assumes "on_tables I" and "preserves I (update_account_row aid req)"
  shows "preserves I (update_account aid req)"
  unfolding update_account_def reject_if_other_live_account_active_def get_account_def
    list_open_or_closing_by_account_def
  by (auto intro!: preserves_bindE preserves_read [OF assms(1)] assms(2) preserves_liftR
      preserves_returnE preserves_failE select_trades_preserves [OF assms(1)]
      split: option.splits bool.splits)

lemma update_account_preserves: "preserves (ledger_inv rnd) (update_account aid req)"
  by (intro update_account_preserves_gen on_tables_ledger_inv update_account_row_preserves)

lemma ledger_inv_delete:
  assumes "ledger_inv rnd db" and "\<forall>r \<in> set (trades db). r_account_id r \<noteq> aid"
    and "\<forall>e \<in> set (events db). ev_account_id e \<noteq> aid"
  shows "ledger_inv rnd (db\<lparr>accounts := filter (\<lambda>a. a_id a \<noteq> aid) (accounts db)\<rparr>)"
proof -
  have ids: "set (map a_id (filter (\<lambda>a. a_id a \<noteq> aid) (accounts db))) = set (map a_id (accounts db)) - {aid}"
    by auto
  have "wf_db db" using assms(1) by (simp add: ledger_inv_def)
  then have "wf_db (db\<lparr>accounts := filter (\<lambda>a. a_id a \<noteq> aid) (accounts db)\<rparr>)"
    using assms(2,3) unfolding wf_db_def by (simp add: ids distinct_map_filter del: set_map)
  then show ?thesis using assms(1) unfolding ledger_inv_def ledger_ok_def by auto
qed

lemma filter_id_unknown: "aid \<notin> a_id ` set as \<Longrightarrow> filter (\<lambda>a. a_id a \<noteq> aid) as = as"
  by (auto simp: filter_id_conv)

lemma delete_account_preserves: "preserves (ledger_inv rnd) (delete_account aid)"
  unfolding delete_account_def
proof (intro preserves_stmt [OF on_tables_ledger_inv] tripleI)
  fix db :: database and e db'
  assume "ledger_inv rnd db" and "(if (\<exists>a \<in> set (accounts db). a_id a = aid)
        \<and> ((\<exists>r \<in> set (trades db). r_account_id r = aid) \<or> (\<exists>e \<in> set (events db). ev_account_id e = aid))
     then (Inl db_error, db)
     else (Inr (\<exists>a \<in> set (accounts db). a_id a = aid),
           db\<lparr>accounts := filter (\<lambda>a. a_id a \<noteq> aid) (accounts db)\<rparr>)) = (Inl e, db')"
  then show "ledger_inv rnd db'" by (auto split: if_splits)
next
  fix db :: database and x db'
  assume inv: "ledger_inv rnd db" and "(if (\<exists>a \<in> set (accounts db). a_id a = aid)
        \<and> ((\<exists>r \<in> set (trades db). r_account_id r = aid) \<or> (\<exists>e \<in> set (events db). ev_account_id e = aid))
     then (Inl db_error, db)
     else (Inr (\<exists>a \<in> set (accounts db). a_id a = aid),
           db\<lparr>accounts := filter (\<lambda>a. a_id a \<noteq> aid) (accounts db)\<rparr>)) = (Inr x, db')"
  then have db': "db' = db\<lparr>accounts := filter (\<lambda>a. a_id a \<noteq> aid) (accounts db)\<rparr>"
    and c: "aid \<notin> a_id ` set (accounts db) \<or>
      (\<forall>r \<in> set (trades db). r_account_id r \<noteq> aid) \<and> (\<forall>e \<in> set (events db). ev_account_id e \<noteq> aid)"
    by (auto split: if_splits)
  show "ledger_inv rnd db'"
    using c inv by (auto simp: db' filter_id_unknown intro: ledger_inv_delete)
qed

section \<open>Snapshots of trades stay valid\<close>

text \<open>
  What settling uses of a trade (account, entry, quantity, leverage) never changes in its
  row, so a snapshot read under the close lock can be settled later, whatever happens between.
\<close>

definition static_row :: "trade_row \<Rightarrow> uuid \<times> uuid \<times> decimal \<times> decimal \<times> decimal" where
  "static_row r = (r_id r, r_account_id r, r_entry_price r, r_quantity r, r_leverage r)"

definition static_trade :: "trade \<Rightarrow> uuid \<times> uuid \<times> decimal \<times> decimal \<times> decimal" where
  "static_trade t = (t_id t, t_account_id t, t_entry_price t, t_quantity t, t_leverage t)"

definition snapshots_ok :: "trade list \<Rightarrow> database \<Rightarrow> bool" where
  "snapshots_ok ts db \<longleftrightarrow> static_trade ` set ts \<subseteq> static_row ` set (trades db)"

lemma on_tables_snapshots: "on_tables (snapshots_ok ts)"
  by (simp add: on_tables_def snapshots_ok_def)

lemma snapshots_update_rows:
  assumes "snapshots_ok ts db" and "\<And>r. static_row (f r) = static_row r"
  shows "snapshots_ok ts (db\<lparr>trades := update_rows p f (trades db)\<rparr>)"
proof -
  have "static_row ` set (update_rows p f (trades db)) = (\<lambda>r. static_row (if p r then f r else r)) ` set (trades db)"
    by (simp only: set_update_rows image_image)
  also have "\<dots> = static_row ` set (trades db)"
    by (rule image_cong) (simp_all add: assms(2))
  finally show ?thesis using assms(1) by (simp add: snapshots_ok_def)
qed

lemma static_trade_of_row: "trade_of_row r = Inr t \<Longrightarrow> static_trade t = static_row r"
  by (simp add: static_trade_def static_row_def trade_of_row_fields)


lemma snapshots_trades_eq: "snapshots_ok ts db \<Longrightarrow> trades db' = trades db \<Longrightarrow> snapshots_ok ts db'"
  by (simp add: snapshots_ok_def)

lemma snapshots_grow: "snapshots_ok ts db \<Longrightarrow> trades db' = trades db @ rs \<Longrightarrow> snapshots_ok ts db'"
  by (auto simp: snapshots_ok_def)

lemma snapshots_stmt_update:
  assumes "\<And>r. static_row (f r) = static_row r"
  shows "preserves (snapshots_ok ts) (stmt (\<lambda>db. (Inr (g db), db\<lparr>trades := update_rows p f (trades db)\<rparr>)))"
  by (intro preserves_stmt [OF on_tables_snapshots])
    (simp add: triple_def snapshots_update_rows assms)

lemma snapshots_stmt_other:
  assumes "\<And>db. trades (snd (m db)) = trades db"
  shows "preserves (snapshots_ok ts) (stmt m)"
proof (intro preserves_stmt [OF on_tables_snapshots] tripleI)
  fix w x w' assume "snapshots_ok ts w" and "m w = (Inl x, w')"
  then show "snapshots_ok ts w'" using assms [of w] by (simp add: snapshots_ok_def)
next
  fix w x w' assume "snapshots_ok ts w" and "m w = (Inr x, w')"
  then show "snapshots_ok ts w'" using assms [of w] by (simp add: snapshots_ok_def)
qed

lemma snapshots_postings:
  "preserves (snapshots_ok ts) (update_balance_returning aid f)"
  "preserves (snapshots_ok ts) (insert_event aid tid ty amt after occ)"
  "preserves (snapshots_ok ts) (insert_notification n)"
  unfolding update_balance_returning_def insert_event_def insert_notification_def
  by (intro snapshots_stmt_other; auto split: list.splits)+

lemma snapshots_insert_trade: "preserves (snapshots_ok ts) (insert_trade t)"
  unfolding insert_trade_def
  by (intro preserves_stmt [OF on_tables_snapshots]) (auto simp: triple_def intro: snapshots_grow)

lemma snapshots_accounts:
  "preserves (snapshots_ok ts) (insert_account a)"
  "preserves (snapshots_ok ts) (update_account_row aid req)"
  "preserves (snapshots_ok ts) (delete_account aid)"
  unfolding insert_account_def update_account_row_def delete_account_def
  by (intro snapshots_stmt_other; auto simp: Let_def split: list.splits)+

lemmas snapshots_wp = preserves_bindE preserves_returnE preserves_failE preserves_liftR
  preserves_if preserves_transaction [OF on_tables_snapshots] preserves_read [OF on_tables_snapshots]
  snapshots_stmt_update snapshots_postings snapshots_insert_trade snapshots_accounts

lemma snapshots_transactions:
  "preserves (snapshots_ok ts) (persist_open_tx aid t m)"
  "preserves (snapshots_ok ts) (persist_closed_tx rnd aid c m pnl ep ea x)"
  "preserves (snapshots_ok ts) (charge_fee_tx aid tid fee ty occ)"
  "preserves (snapshots_ok ts) (reconciled_tx rnd ea tid ep pnl x aid m)"
  "preserves (snapshots_ok ts) (add_fees tid d)"
  "preserves (snapshots_ok ts) (release_close_lock tid)"
  "preserves (snapshots_ok ts) (create_account new_id now req)"
  "preserves (snapshots_ok ts) (update_account aid' req')"
proof -
  show "preserves (snapshots_ok ts) (persist_open_tx aid t m)"
    unfolding persist_open_tx_def lock_margin_def insert_trade_opened_def by (intro snapshots_wp)
  show "preserves (snapshots_ok ts) (persist_closed_tx rnd aid c m pnl ep ea x)"
    unfolding persist_closed_tx_def update_trade_closed_def release_margin_def
      insert_trade_closed_def Let_def
    by (intro snapshots_wp) (simp add: static_row_def)
  show "preserves (snapshots_ok ts) (charge_fee_tx aid tid fee ty occ)"
    unfolding charge_fee_tx_def apply_fee_inner_def Let_def
    by (intro snapshots_wp) (simp add: static_row_def)
  show "preserves (snapshots_ok ts) (reconciled_tx rnd ea tid ep pnl x aid m)"
    unfolding reconciled_tx_def release_margin_def
    by (intro snapshots_wp) (simp add: static_row_def)
  show "preserves (snapshots_ok ts) (add_fees tid d)"
    unfolding add_fees_def by (intro snapshots_wp) (simp add: static_row_def)
  show "preserves (snapshots_ok ts) (release_close_lock tid)"
    unfolding release_close_lock_def by (intro snapshots_wp) (simp add: static_row_def)
  show "preserves (snapshots_ok ts) (create_account new_id now req)"
    unfolding create_account_def Let_def reject_if_live_account_exists_for_exchange_def
    by (intro snapshots_wp)
  show "preserves (snapshots_ok ts) (update_account aid' req')"
    by (intro update_account_preserves_gen on_tables_snapshots snapshots_accounts)
qed


lemma owns_margin_snapshot:
  assumes wf: "wf_db db" and sn: "snapshots_ok ts db" "t \<in> set ts"
    and m: "required_margin rnd \<lparr>op_direction = t_direction t, op_entry_price = t_entry_price t,
      op_current_price = c, op_quantity = t_quantity t, op_leverage = t_leverage t\<rparr> = Inr m"
  shows "owns_margin rnd (t_account_id t) (t_id t) m db"
proof -
  obtain r where r: "r \<in> set (trades db)" "static_row r = static_trade t"
    using sn by (force simp: snapshots_ok_def)
  then have eqs: "t_id t = r_id r" "t_account_id t = r_account_id r" "t_entry_price t = r_entry_price r"
    "t_quantity t = r_quantity r" "t_leverage t = r_leverage r"
    by (auto simp: static_row_def static_trade_def)
  have "m = row_margin rnd r"
    using required_margin_row [of rnd "t_direction t" r c m] m by (simp add: eqs)
  then show ?thesis using owns_margin_row [OF wf r(1), of rnd] by (simp add: eqs)
qed

section \<open>The transition system\<close>

record ledger_state =
  ldb :: database
  snapshots :: "trade list"

abbreviation entry_position :: "trade \<Rightarrow> open_position" where
  "entry_position t \<equiv> \<lparr>op_direction = t_direction t, op_entry_price = t_entry_price t,
     op_current_price = t_entry_price t, op_quantity = t_quantity t, op_leverage = t_leverage t\<rparr>"

definition ledger_init :: "ledger_state \<Rightarrow> bool" where
  "ledger_init s \<longleftrightarrow> trades (ldb s) = [] \<and> accounts (ldb s) = [] \<and> events (ldb s) = [] \<and> snapshots s = []"

text \<open>
  \<open>environment\<close> covers the tables no ledger operation reads (notifications, summaries,
  strategies) and a fresh fault schedule.
\<close>

inductive ledger_step :: "rounding \<Rightarrow> ledger_state \<Rightarrow> ledger_state \<Rightarrow> bool" for rnd where
  environment: "trades db' = trades (ldb s) \<Longrightarrow> accounts db' = accounts (ldb s) \<Longrightarrow>
     events db' = events (ldb s) \<Longrightarrow> ledger_step rnd s (s\<lparr>ldb := db'\<rparr>)"
| open_trade: "t_status t = Open \<Longrightarrow> required_margin rnd (entry_position t) = Inr m \<Longrightarrow>
     ledger_step rnd s (s\<lparr>ldb := snd (persist_open_tx (t_account_id t) t m (ldb s))\<rparr>)"
| take_lock: "acquire_close_lock now tid aid (ldb s) = (res, db') \<Longrightarrow>
     ledger_step rnd s \<lparr>ldb = db', snapshots =
       (case res of Inr (Some l) \<Rightarrow> lock_trade l # snapshots s | _ \<Rightarrow> snapshots s)\<rparr>"
| drop_lock: "ledger_step rnd s (s\<lparr>ldb := snd (release_close_lock tid (ldb s))\<rparr>)"
| settle: "t \<in> set (snapshots s) \<Longrightarrow> t_id c = t_id t \<Longrightarrow>
     required_margin rnd (entry_position t) = Inr m \<Longrightarrow>
     ledger_step rnd s (s\<lparr>ldb := snd (persist_closed_tx rnd (t_account_id t) c m pnl ep ea x (ldb s))\<rparr>)"
| charge: "ty \<in> {''overnight_fee'', ''sfd_fee'', ''swap_fee''} \<Longrightarrow>
     ledger_step rnd s (s\<lparr>ldb := snd (charge_fee_tx aid tid fee ty occ (ldb s))\<rparr>)"
| reconcile_read: "r \<in> set (trades (ldb s)) \<Longrightarrow> trade_of_row r = Inr t \<Longrightarrow>
     ledger_step rnd s (s\<lparr>snapshots := t # snapshots s\<rparr>)"
| reconcile_commit: "t \<in> set (snapshots s) \<Longrightarrow> required_margin rnd (entry_position t) = Inr m \<Longrightarrow>
     ledger_step rnd s (s\<lparr>ldb := snd (reconciled_tx rnd ea (t_id t) ep pnl x (t_account_id t) m (ldb s))\<rparr>)"
| book_fees: "ledger_step rnd s (s\<lparr>ldb := snd (add_fees tid d (ldb s))\<rparr>)"
| create: "ledger_step rnd s (s\<lparr>ldb := snd (create_account new_id now cr (ldb s))\<rparr>)"
| change: "ledger_step rnd s (s\<lparr>ldb := snd (update_account aid ur (ldb s))\<rparr>)"
| remove: "ledger_step rnd s (s\<lparr>ldb := snd (delete_account aid (ldb s))\<rparr>)"

definition system_inv :: "rounding \<Rightarrow> ledger_state \<Rightarrow> bool" where
  "system_inv rnd s \<longleftrightarrow> ledger_inv rnd (ldb s) \<and> snapshots_ok (snapshots s) (ldb s)"

lemma system_inv_op:
  assumes "system_inv rnd s" and "preserves (ledger_inv rnd) m"
    and "preserves (snapshots_ok (snapshots s)) m"
  shows "system_inv rnd (s\<lparr>ldb := snd (m (ldb s))\<rparr>)"
  using assms by (auto simp: system_inv_def intro: preserves_snd)

lemma triple_snd: "triple P m (\<lambda>_. I) (\<lambda>_. I) \<Longrightarrow> P w \<Longrightarrow> I (snd (m w))"
  unfolding triple_def by (cases "m w") (auto split: sum.splits)

lemma acquire_close_lock_snapshot:
  assumes "acquire_close_lock now tid aid db = (res, db')"
  shows "snapshots_ok ts db \<Longrightarrow> snapshots_ok ts db'"
    and "res = Inr (Some l) \<Longrightarrow> static_trade (lock_trade l) \<in> static_row ` set (trades db')"
proof -
  let ?lock = "\<lambda>r. r\<lparr>r_status := ''closing'', r_closing_started_at := Some now\<rparr>"
  have st: "static_row (?lock r) = static_row r" for r by (simp add: static_row_def)
  have "preserves (snapshots_ok ts) (acquire_close_lock now tid aid)"
    unfolding acquire_close_lock_def Let_def
    by (intro preserves_bindE preserves_stmt [OF on_tables_snapshots])
      (auto simp: triple_def run_simps st split: list.splits option.splits sum.splits
        intro!: snapshots_update_rows)
  then show "snapshots_ok ts db \<Longrightarrow> snapshots_ok ts db'"
    using assms preserves_snd by fastforce
  assume "res = Inr (Some l)"
  then obtain r where "filter (lockable now tid aid) (trades db) \<noteq> []"
    and r: "r = hd (filter (lockable now tid aid) (trades db))"
    and t: "trade_of_row (?lock r) = Inr (lock_trade l)"
    and db': "trades db' = update_rows (lockable now tid aid) ?lock (trades db)"
    using assms unfolding acquire_close_lock_def
    by (auto simp: run_simps Let_def split: prod.splits sum.splits list.splits option.splits
        dest!: stmt_Inr)
  then have "r \<in> set (filter (lockable now tid aid) (trades db))" using r by (metis list.set_sel(1))
  then have "r \<in> set (trades db)" "lockable now tid aid r" by auto
  then have "?lock r \<in> set (trades db')" by (auto simp: db' set_update_rows)
  then show "static_trade (lock_trade l) \<in> static_row ` set (trades db')"
    using static_trade_of_row [OF t] by blast
qed

lemma system_inv_step:
  assumes inv: "system_inv rnd s" and "ledger_step rnd s s'"
  shows "system_inv rnd s'"
  using assms(2)
proof cases
  case (environment db')
  then show ?thesis using inv ledger_inv_cong [of db' "ldb s" rnd] snapshots_trades_eq
    by (auto simp: system_inv_def)
next
  case (open_trade t m)
  then have "m = row_margin rnd (row_of_trade t)" "t_leverage t \<noteq> 0"
    using required_margin_row [of rnd "t_direction t" "row_of_trade t" "t_entry_price t" m]
    by (simp_all add: row_of_trade_def)
  then show ?thesis
    using open_trade inv by (auto intro!: system_inv_op persist_open_tx_preserves snapshots_transactions)
next
  case (take_lock now tid aid res db')
  have "ledger_inv rnd db'"
    using inv take_lock preserves_snd [OF acquire_close_lock_preserves, of rnd "ldb s" now tid aid]
    by (simp add: system_inv_def)
  then show ?thesis
    using inv acquire_close_lock_snapshot [OF take_lock(2)] take_lock(1)
    by (auto simp: system_inv_def snapshots_ok_def split: sum.splits option.splits)
next
  case (settle t c m pnl ep ea x)
  then have "ledger_inv rnd (ldb s) \<and> owns_margin rnd (t_account_id t) (t_id c) m (ldb s)"
    using inv owns_margin_snapshot [of "ldb s" "snapshots s" t rnd _ m]
    by (auto simp: system_inv_def ledger_inv_def)
  then show ?thesis
    using inv settle triple_snd [OF persist_closed_tx_preserves]
      preserves_snd [OF snapshots_transactions(2)]
    by (simp add: system_inv_def)
next
  case (reconcile_commit t m ea ep pnl x)
  then have "ledger_inv rnd (ldb s) \<and> owns_margin rnd (t_account_id t) (t_id t) m (ldb s)"
    using inv owns_margin_snapshot [of "ldb s" "snapshots s" t rnd _ m]
    by (auto simp: system_inv_def ledger_inv_def)
  then show ?thesis
    using inv reconcile_commit triple_snd [OF triple_weaken [OF reconciled_tx_triple]]
      preserves_snd [OF snapshots_transactions(4)]
    by (simp add: system_inv_def)
next
  case (reconcile_read r t)
  then show ?thesis
    using inv static_trade_of_row [of r t] by (auto simp: system_inv_def snapshots_ok_def)
qed (use inv in \<open>auto intro!: system_inv_op snapshots_transactions snapshots_accounts
      release_close_lock_preserves charge_fee_tx_preserves add_fees_preserves
      create_account_preserves update_account_preserves delete_account_preserves\<close>)

interpretation ledger: inductive_invariant ledger_init "ledger_step rnd" "system_inv rnd" for rnd
proof unfold_locales
  fix s assume "ledger_init s"
  then show "system_inv rnd s"
    by (simp add: ledger_init_def system_inv_def ledger_inv_def wf_db_def ledger_ok_def snapshots_ok_def)
qed (rule system_inv_step)

end
