(* ===== verification/Settlement.thy ===== *)
theory Settlement
  imports Ledger_System
begin

text \<open>
  Settlement happens exactly once: in every reachable state of the ledger each trade has
  locked its margin once, and has released it and booked its result once if it is closed and
  never otherwise. The proofs compare the journal of one trade with the status of its row.
\<close>

section \<open>The journal of one trade\<close>

definition booked :: "string \<Rightarrow> uuid \<Rightarrow> account_event list \<Rightarrow> nat" where
  "booked ty tid evs = length (filter (\<lambda>e. ev_type e = ty \<and> ev_trade_id e = tid) evs)"

lemma booked_append [simp]: "booked ty tid (xs @ ys) = booked ty tid xs + booked ty tid ys"
  by (simp add: booked_def)

lemma booked_Nil [simp]: "booked ty tid [] = 0"
  by (simp add: booked_def)

lemma booked_Cons [simp]:
  "booked ty tid (e # es) = (if ev_type e = ty \<and> ev_trade_id e = tid then 1 else 0) + booked ty tid es"
  by (simp add: booked_def)

definition row_booked :: "account_event list \<Rightarrow> trade_row \<Rightarrow> bool" where
  "row_booked evs r \<longleftrightarrow> booked ''margin_lock'' (r_id r) evs = 1 \<and>
     booked ''margin_release'' (r_id r) evs = (if unsettled r then 0 else 1) \<and>
     booked ''trade_close'' (r_id r) evs = (if unsettled r then 0 else 1)"

definition booked_once :: "database \<Rightarrow> bool" where
  "booked_once db \<longleftrightarrow> distinct (map r_id (trades db)) \<and>
     (\<forall>e \<in> set (events db). ev_trade_id e \<in> set (map r_id (trades db))) \<and>
     (\<forall>r \<in> set (trades db). row_booked (events db) r)"

lemma booked_once_cong:
  "trades db' = trades db \<Longrightarrow> events db' = events db \<Longrightarrow> booked_once db' = booked_once db"
  by (simp add: booked_once_def)

lemma on_tables_booked: "on_tables booked_once"
  by (simp add: on_tables_def booked_once_def)

lemma booked_unknown:
  "booked_once db \<Longrightarrow> tid \<notin> set (map r_id (trades db)) \<Longrightarrow> booked ty tid (events db) = 0"
  by (auto simp: booked_def booked_once_def filter_empty_conv)

lemma booked_once_touch:
  assumes "booked_once db"
    and "\<And>r. r_id (f r) = r_id r \<and> (p r \<longrightarrow> unsettled (f r) = unsettled r)"
  shows "booked_once (db\<lparr>trades := update_rows p f (trades db)\<rparr>)"
  using assms by (auto simp: booked_once_def map_update_rows set_update_rows row_booked_def)

section \<open>Every operation books exactly once\<close>

lemma booked_stmt_update:
  assumes "\<And>r. r_id (f r) = r_id r \<and> (p r \<longrightarrow> unsettled (f r) = unsettled r)"
  shows "preserves booked_once (stmt (\<lambda>db. (Inr (g db), db\<lparr>trades := update_rows p f (trades db)\<rparr>)))"
  by (intro preserves_stmt [OF on_tables_booked]) (simp add: triple_def booked_once_touch assms)

lemma booked_stmt_other:
  assumes "\<And>db. trades (snd (m db)) = trades db \<and> events (snd (m db)) = events db"
  shows "preserves booked_once (stmt m)"
proof (intro preserves_stmt [OF on_tables_booked] tripleI)
  fix w x w' assume "booked_once w" and "m w = (Inl x, w')"
  then show "booked_once w'" using assms [of w] booked_once_cong [of w' w] by simp
next
  fix w x w' assume "booked_once w" and "m w = (Inr x, w')"
  then show "booked_once w'" using assms [of w] booked_once_cong [of w' w] by simp
qed

lemma booked_accounts:
  "preserves booked_once (insert_account a)"
  "preserves booked_once (update_account_row aid req)"
  "preserves booked_once (delete_account aid)"
  unfolding insert_account_def update_account_row_def delete_account_def
  by (intro booked_stmt_other; auto simp: Let_def split: list.splits)+

lemmas booked_wp = preserves_bindE preserves_returnE preserves_failE preserves_liftR
  preserves_if preserves_read [OF on_tables_booked] booked_stmt_update booked_accounts

lemma persist_open_tx_books: "t_status t = Open \<Longrightarrow> preserves booked_once (persist_open_tx aid t m)"
  unfolding persist_open_tx_def
proof (rule triple_transaction [OF on_tables_booked on_tables_booked])
  fix db x db'
  assume st: "t_status t = Open" and inv: "booked_once db"
    and "bindE (insert_trade t) (\<lambda>_. bindE (lock_margin aid (t_id t) m) (\<lambda>_. insert_trade_opened t)) db
      = (Inr x, db')"
  then obtain d1 d2 where 1: "insert_trade t db = (Inr (), d1)"
    and 2: "lock_margin aid (t_id t) m d1 = (Inr (), d2)"
    and 3: "insert_trade_opened t d2 = (Inr x, db')"
    by (auto simp: run_simps split: prod.splits sum.splits)
  have d1: "t_id t \<notin> set (map r_id (trades db))" "trades d1 = trades db @ [row_of_trade t]"
    "events d1 = events db"
    using insert_trade_Inr [OF 1] by auto
  obtain after where ev: "trades db' = trades d1" "events db' = events d1 @ [\<lparr>ev_account_id = aid,
      ev_trade_id = t_id t, ev_type = ''margin_lock'', ev_amount = - m, ev_balance_after = after,
      ev_occurred_at = None\<rparr>]"
    using lock_margin_Inr [OF 2] insert_notification_Inr [OF 3 [unfolded insert_trade_opened_def]]
    by (auto simp: posted_def)
  have ids: "r_id (row_of_trade t) = t_id t" "unsettled (row_of_trade t)"
    using st by (simp_all add: row_of_trade_def unsettled_def)
  show "booked_once db'"
    using inv d1 booked_unknown [OF inv d1(1)]
    by (auto simp: booked_once_def ev row_booked_def ids)
qed

text \<open>Settling: the row becomes settled and both release events are booked, in one transaction.\<close>

lemma booked_once_settle:
  assumes inv: "booked_once db"
    and ne: "filter (\<lambda>r. r_id r = tid \<and> unsettled r) (trades db) \<noteq> []"
    and f: "\<And>r. r_id (f r) = r_id r \<and> \<not> unsettled (f r)"
    and d1: "trades d1 = update_rows (\<lambda>r. r_id r = tid \<and> unsettled r) f (trades db)" "events d1 = events db"
    and rel: "release_margin rnd aid tid m p d1 = (Inr x, d2)"
  shows "booked_once d2"
proof -
  obtain a1 a2 where tr: "trades d2 = trades d1" and ev: "events d2 = events db @
    [\<lparr>ev_account_id = aid, ev_trade_id = tid, ev_type = ''margin_release'', ev_amount = m,
      ev_balance_after = a1, ev_occurred_at = None\<rparr>,
     \<lparr>ev_account_id = aid, ev_trade_id = tid, ev_type = ''trade_close'', ev_amount = p,
      ev_balance_after = a2, ev_occurred_at = None\<rparr>]"
    using release_margin_Inr [OF rel] d1(2) by (auto simp: posted_def)
  have dist: "distinct (map r_id (trades db))" using inv by (simp add: booked_once_def)
  obtain r0 where r0: "r0 \<in> set (trades db)" "r_id r0 = tid" "unsettled r0"
    using filter_key_nonempty [OF dist ne] by blast
  have uniq: "r = r0" if "r \<in> set (trades db)" "r_id r = tid" for r
    using dist r0 that by (auto simp: distinct_map dest: inj_onD)
  have "row_booked (events d2) r'" if mem: "r' \<in> set (trades d2)" for r'
  proof -
    obtain r where r: "r \<in> set (trades db)"
      and r': "r' = (if r_id r = tid \<and> unsettled r then f r else r)"
      using in_update_rowsE [OF mem [unfolded tr d1]] by metis
    then have old: "row_booked (events db) r" using inv by (simp add: booked_once_def)
    show ?thesis
    proof (cases "r_id r = tid")
      case True
      then have "r' = f r" "unsettled r" using uniq [OF r] r0 r' by auto
      then show ?thesis using old f True by (simp add: row_booked_def ev)
    next
      case False
      then show ?thesis using old r' by (simp add: row_booked_def ev)
    qed
  qed
  moreover have "map r_id (trades d2) = map r_id (trades db)" using f by (simp add: tr d1 map_update_rows)
  moreover have "tid \<in> set (map r_id (trades db))" using r0 by force
  ultimately show ?thesis using inv by (auto simp: booked_once_def ev simp del: set_map)
qed


lemma settle_tx_books:
  "preserves booked_once (persist_closed_tx rnd aid c m pnl ep ea x)"
  "preserves booked_once (reconciled_tx rnd ea tid ep pnl x aid m)"
proof -
  show "preserves booked_once (persist_closed_tx rnd aid c m pnl ep ea x)"
    unfolding persist_closed_tx_def
  proof (rule triple_transaction [OF on_tables_booked on_tables_booked])
    fix db y db'
    assume inv: "booked_once db"
      and "bindE (update_trade_closed (t_id c) ep ea pnl x (t_fees c)) (\<lambda>_.
        bindE (release_margin rnd aid (t_id c) m pnl) (\<lambda>_. insert_trade_closed c)) db = (Inr y, db')"
    then obtain d1 d2 where 1: "update_trade_closed (t_id c) ep ea pnl x (t_fees c) db = (Inr (), d1)"
      and 2: "release_margin rnd aid (t_id c) m pnl d1 = (Inr (), d2)"
      and 3: "insert_trade_closed c d2 = (Inr y, db')"
      by (auto simp: run_simps split: prod.splits sum.splits)
    note u = update_trade_closed_Inr [OF 1]
    have "booked_once d2"
      by (rule booked_once_settle [OF inv _ _ _ _ 2]) (use u in \<open>auto simp: unsettled_def\<close>)
    then show "booked_once db'" using insert_trade_closed_Inr [OF 3] booked_once_cong by blast
  qed
  show "preserves booked_once (reconciled_tx rnd ea tid ep pnl x aid m)"
    unfolding reconciled_tx_def
  proof (rule triple_transaction [OF on_tables_booked on_tables_booked])
    fix db y db'
    let ?p = "\<lambda>r. r_id r = tid \<and> unsettled r"
    let ?f = "\<lambda>r. r\<lparr>r_exit_price := Some ep, r_exit_at := Some ea, r_pnl_amount := Some pnl,
      r_exit_reason := Some (exit_reason_as_str x), r_status := ''closed'', r_closing_started_at := None\<rparr>"
    assume inv: "booked_once db"
      and "bindE (stmt (\<lambda>db. (Inr (length (filter ?p (trades db))),
          db\<lparr>trades := update_rows ?p ?f (trades db)\<rparr>)))
        (\<lambda>n. if n = 0 then failE (Anyhow ''failed to close trade: not found or already closed'')
             else release_margin rnd aid tid m pnl) db = (Inr y, db')"
    then obtain n d1 where 1: "stmt (\<lambda>db. (Inr (length (filter ?p (trades db))),
          db\<lparr>trades := update_rows ?p ?f (trades db)\<rparr>)) db = (Inr n, d1)" and "n \<noteq> 0"
      and 2: "release_margin rnd aid tid m pnl d1 = (Inr y, db')"
      by (auto simp: run_simps split: prod.splits sum.splits if_splits)
    show "booked_once db'"
      by (rule booked_once_settle [OF inv _ _ _ _ 2, where f = ?f])
        (use stmt_Inr [OF 1] \<open>n \<noteq> 0\<close> in \<open>auto simp: unsettled_def\<close>)
  qed
qed

lemma apply_fee_inner_books:
  assumes inv: "booked_once db" and ty: "ty \<in> {''overnight_fee'', ''sfd_fee'', ''swap_fee''}"
    and run: "apply_fee_inner aid tid fee ty occ db = (Inr x, db')"
  shows "booked_once db'"
proof -
  let ?p = "\<lambda>r. r_id r = tid \<and> r_account_id r = aid \<and> r_status r = ''open''"
  let ?f = "\<lambda>r. r\<lparr>r_fees := r_fees r + fee\<rparr>"
  from run obtain n d1 where 1: "stmt (\<lambda>db. (Inr (length (filter ?p (trades db))),
      db\<lparr>trades := update_rows ?p ?f (trades db)\<rparr>)) db = (Inr n, d1)"
    and 2: "(if n = 0 then returnE None else
         bindE (update_balance_returning aid (\<lambda>b. b - fee)) (\<lambda>new_balance.
         bindE (insert_event aid tid ty (- fee) new_balance occ) (\<lambda>_.
         returnE (Some new_balance)))) d1 = (Inr x, db')"
    by (auto simp: apply_fee_inner_def bindE_run Let_def split: prod.splits sum.splits)
  have "preserves booked_once (stmt (\<lambda>db. (Inr (length (filter ?p (trades db))),
      db\<lparr>trades := update_rows ?p ?f (trades db)\<rparr>)))"
    by (rule booked_stmt_update) (simp add: unsettled_def)
  from triple_Inr [OF this inv 1] have inv1: "booked_once d1" .
  have "db' = d1 \<or> trades db' = trades d1 \<and> (\<exists>e. events db' = events d1 @ [e] \<and> ev_type e = ty
      \<and> ev_trade_id e \<in> set (map r_id (trades d1)))"
    using 2 by (auto simp: run_simps split: prod.splits sum.splits if_splits
        dest!: update_balance_returning_Inr insert_event_Inr)
  then show ?thesis using inv1 ty by (auto simp: booked_once_def row_booked_def)
qed

lemma other_ops_book:
  "preserves booked_once (release_close_lock tid)"
  "preserves booked_once (add_fees tid d)"
  "preserves booked_once (acquire_close_lock now tid aid)"
  "preserves booked_once (create_account new_id now' req)"
  "preserves booked_once (update_account aid' req')"
proof -
  show "preserves booked_once (release_close_lock tid)"
    unfolding release_close_lock_def by (intro booked_wp) (auto simp: unsettled_def)
  show "preserves booked_once (add_fees tid d)"
    unfolding add_fees_def by (intro booked_wp) (auto simp: unsettled_def)
  show "preserves booked_once (acquire_close_lock now tid aid)"
    unfolding acquire_close_lock_def Let_def
    by (intro preserves_bindE preserves_stmt [OF on_tables_booked])
      (auto simp: triple_def run_simps unsettled_def lockable_def split: list.splits option.splits sum.splits
        intro!: booked_once_touch)
  show "preserves booked_once (create_account new_id now' req)"
    unfolding create_account_def Let_def reject_if_live_account_exists_for_exchange_def
    by (intro booked_wp)
  show "preserves booked_once (update_account aid' req')"
    by (intro update_account_preserves_gen on_tables_booked booked_accounts)
qed

lemma charge_fee_tx_books:
  "ty \<in> {''overnight_fee'', ''sfd_fee'', ''swap_fee''} \<Longrightarrow>
   preserves booked_once (charge_fee_tx aid tid fee ty occ)"
  unfolding charge_fee_tx_def
  by (rule triple_transaction [OF on_tables_booked on_tables_booked]) (rule apply_fee_inner_books)

interpretation settlement: inductive_invariant ledger_init "ledger_step rnd" "\<lambda>s. booked_once (ldb s)" for rnd
proof unfold_locales
  fix s assume "ledger_init s"
  then show "booked_once (ldb s)" by (simp add: ledger_init_def booked_once_def)
next
  fix s s' assume inv: "booked_once (ldb s)" and "ledger_step rnd s s'"
  from this(2) show "booked_once (ldb s')"
  proof cases
    case (environment db')
    then show ?thesis using inv booked_once_cong [of db' "ldb s"] by simp
  next
    case (take_lock now tid aid res db')
    then show ?thesis using inv preserves_snd [OF other_ops_book(3), of "ldb s" now tid aid] by simp
  qed (use inv in \<open>auto intro!: preserves_snd [OF persist_open_tx_books] preserves_snd [OF settle_tx_books(1)]
      preserves_snd [OF settle_tx_books(2)] preserves_snd [OF charge_fee_tx_books]
      preserves_snd [OF other_ops_book(1)] preserves_snd [OF other_ops_book(2)]
      preserves_snd [OF other_ops_book(4)] preserves_snd [OF other_ops_book(5)]
      preserves_snd [OF booked_accounts(3)]\<close>)
qed

end
