(* ===== verification/Ledger_Theorems.thy ===== *)
theory Ledger_Theorems
  imports Settlement
begin

text \<open>
  The theorems on the ledger: the balance equation, exactly-once settlement, the close lock,
  one active live account per exchange, the deactivation guard and recalculation.
\<close>

section \<open>A concrete run\<close>

definition demo_db :: database where
  "demo_db = \<lparr>trades = [], accounts = [], events = [], notifications = [], summaries = [],
     strategies = [''s''], faults = []\<rparr>"

definition demo_request :: create_request where
  "demo_request = \<lparr>cr_name = ''demo'', cr_exchange = ''gmo_fx'', cr_initial_balance = 100000,
     cr_leverage = 10, cr_strategy = ''s'', cr_account_type = ''paper'', cr_currency = ''JPY''\<rparr>"

definition demo_trade :: trade where
  "demo_trade = \<lparr>t_id = 7, t_account_id = 1, t_strategy_name = ''s'', t_pair = ''USD_JPY'',
     t_exchange = GmoFx, t_direction = Long, t_entry_price = 150, t_exit_price = None,
     t_stop_loss = 147, t_take_profit = None, t_quantity = 1000, t_leverage = 10, t_fees = 0,
     t_entry_at = 0, t_exit_at = None, t_pnl_amount = None, t_exit_reason = None,
     t_status = Open, t_max_hold_until = None, t_exchange_position_id = None,
     t_stop_order_id = None\<rparr>"

definition demo_open :: ledger_state where
  "demo_open = \<lparr>ldb = snd (persist_open_tx 1 demo_trade 15000
      (snd (create_account 1 0 demo_request demo_db))), snapshots = []\<rparr>"

definition demo_locked :: ledger_state where
  "demo_locked = \<lparr>ldb = snd (acquire_close_lock 0 7 1 (ldb demo_open)),
     snapshots = [demo_trade\<lparr>t_status := Closing\<rparr>]\<rparr>"

definition demo_closed :: ledger_state where
  "demo_closed = demo_locked\<lparr>ldb := snd (persist_closed_tx exact 1
     (demo_trade\<lparr>t_exit_price := Some 151, t_pnl_amount := Some 1000, t_exit_reason := Some TpHit\<rparr>)
     15000 1000 151 0 TpHit (ldb demo_locked))\<rparr>"

lemmas demo_defs = demo_db_def demo_request_def demo_trade_def

lemma demo_margin: "required_margin exact (entry_position demo_trade) = Inr 15000"
  by (simp add: demo_trade_def required_margin_def dec_op_defs trunc_def)

lemma demo_open_reachable: "reachable ledger_init (ledger_step exact) demo_open"
proof -
  let ?s0 = "\<lparr>ldb = demo_db, snapshots = []\<rparr>"
  let ?s1 = "?s0\<lparr>ldb := snd (create_account 1 0 demo_request (ldb ?s0))\<rparr>"
  have "reachable ledger_init (ledger_step exact) ?s0"
    by (rule reachable_init) (simp add: ledger_init_def demo_db_def)
  then have 1: "reachable ledger_init (ledger_step exact) ?s1"
    by (rule reachable_step) (rule ledger_step.create)
  have "t_account_id demo_trade = 1" "t_status demo_trade = Open" by (simp_all add: demo_trade_def)
  then have "ledger_step exact ?s1 demo_open"
    using ledger_step.open_trade [of demo_trade exact 15000 ?s1] demo_margin
    by (simp add: demo_open_def)
  with 1 show ?thesis by (rule reachable_step)
qed

lemma demo_locked_reachable: "reachable ledger_init (ledger_step exact) demo_locked"
proof -
  have "fst (acquire_close_lock 0 7 1 (ldb demo_open)) =
      Inr (Some \<lparr>lock_trade = demo_trade\<lparr>t_status := Closing\<rparr>, was_stale_recovery = False\<rparr>)"
    by code_simp
  moreover have "snapshots demo_open = []" by (simp add: demo_open_def)
  ultimately have "ledger_step exact demo_open demo_locked"
    using ledger_step.take_lock [of 0 7 1 demo_open _ _ exact]
    by (cases "acquire_close_lock 0 7 1 (ldb demo_open)") (simp add: demo_locked_def)
  with demo_open_reachable show ?thesis by (rule reachable_step)
qed

lemma demo_closed_reachable: "reachable ledger_init (ledger_step exact) demo_closed"
proof -
  let ?t = "demo_trade\<lparr>t_status := Closing\<rparr>"
  have m: "?t \<in> set (snapshots demo_locked)" "t_account_id ?t = 1" "t_id ?t = 7"
    "required_margin exact (entry_position ?t) = Inr 15000"
    using demo_margin by (simp_all add: demo_locked_def) (simp_all add: demo_trade_def)
  have "ledger_step exact demo_locked demo_closed"
    using ledger_step.settle [of ?t demo_locked "demo_trade\<lparr>t_exit_price := Some 151,
        t_pnl_amount := Some 1000, t_exit_reason := Some TpHit\<rparr>" exact 15000 1000 151 0 TpHit] m
    by (simp add: demo_closed_def)
  with demo_locked_reachable show ?thesis by (rule reachable_step)
qed

section \<open>The balance equation\<close>

text \<open>
  C6. In every reachable state, whatever the interleaving of opening, closing, fee, reconciling
  and account operations and wherever statements fail, the running balance of an account is
  its initial balance, less the margins of its open and closing trades, plus the booked results
  of its closed trades, plus the fee entries of the journal; and it is the initial balance plus
  the sum of all its journal entries.
\<close>

theorem ledger_balance_equation:
  assumes "reachable ledger_init (ledger_step rnd) s" and "a \<in> set (accounts (ldb s))"
  shows "a_current_balance a = a_initial_balance a
      + pv_sum rnd (trades (ldb s)) (a_id a) + fee_sum (events (ldb s)) (a_id a)
    \<and> a_current_balance a = a_initial_balance a + journal_sum (events (ldb s)) (a_id a)"
  using ledger.reachable_inv [OF assms(1)] assms(2)
  by (auto simp: system_inv_def ledger_inv_def ledger_ok_def)

theorem ledger_balance_equation_witness:
  "(let a = hd (accounts (ldb demo_closed)) in
     a_current_balance a = a_initial_balance a
      + pv_sum exact (trades (ldb demo_closed)) (a_id a) + fee_sum (events (ldb demo_closed)) (a_id a)
    \<and> a_current_balance a = a_initial_balance a + journal_sum (events (ldb demo_closed)) (a_id a)
    \<and> a_initial_balance a = 100000 \<and> a_current_balance a = 101000)"
proof -
  have "map (\<lambda>a. (a_initial_balance a, a_current_balance a)) (accounts (ldb demo_closed)) = [(100000, 101000)]"
    by code_simp
  then obtain a where a: "accounts (ldb demo_closed) = [a]" "a_initial_balance a = 100000"
    "a_current_balance a = 101000"
    by auto
  then have "a \<in> set (accounts (ldb demo_closed))" by simp
  from ledger_balance_equation [OF demo_closed_reachable this] a show ?thesis by (simp add: Let_def)
qed

section \<open>Settlement\<close>

text \<open>
  C7. In every reachable state each trade has locked its margin exactly once, and has released
  it and booked its result exactly once if it is closed and not at all while it is open or closing.
\<close>

theorem settled_exactly_once:
  assumes "reachable ledger_init (ledger_step rnd) s" and "r \<in> set (trades (ldb s))"
  shows "booked ''margin_lock'' (r_id r) (events (ldb s)) = 1
    \<and> booked ''margin_release'' (r_id r) (events (ldb s)) = (if r_status r = ''closed'' then 1 else 0)
    \<and> booked ''trade_close'' (r_id r) (events (ldb s)) = (if r_status r = ''closed'' then 1 else 0)"
proof -
  have "row_booked (events (ldb s)) r"
    using settlement.reachable_inv [OF assms(1)] assms(2) by (simp add: booked_once_def)
  moreover have "wf_row r"
    using ledger.reachable_inv [OF assms(1)] assms(2)
    by (simp add: system_inv_def ledger_inv_def wf_db_def)
  ultimately show ?thesis by (auto simp: row_booked_def wf_row_def unsettled_def)
qed

theorem settled_exactly_once_witness:
  "(let r = hd (trades (ldb demo_closed)) in
     booked ''margin_lock'' (r_id r) (events (ldb demo_closed)) = 1
    \<and> booked ''margin_release'' (r_id r) (events (ldb demo_closed)) = 1
    \<and> booked ''trade_close'' (r_id r) (events (ldb demo_closed)) = 1)"
proof -
  have "map r_status (trades (ldb demo_closed)) = [''closed'']" by code_simp
  then obtain r where r: "trades (ldb demo_closed) = [r]" "r_status r = ''closed''" by auto
  then have "r \<in> set (trades (ldb demo_closed))" by simp
  from settled_exactly_once [OF demo_closed_reachable this] r show ?thesis by (simp add: Let_def)
qed

lemma settle_closed_fails:
  assumes "\<forall>r \<in> set (trades db). r_id r = tid \<longrightarrow> \<not> unsettled r"
  shows "\<exists>e d. update_trade_closed tid ep ea pnl x fees db = (Inl e, d)"
proof -
  have f: "filter (\<lambda>r. r_id r = tid \<and> unsettled r) (trades db) = []"
    using assms by (auto simp: filter_empty_conv)
  show ?thesis
    unfolding update_trade_closed_def stmt_def
    by (cases "faults db") (auto simp: run_simps Let_def f)
qed

lemma transaction_body_fails:
  assumes "\<And>fs. \<exists>e d. m (db\<lparr>faults := fs\<rparr>) = (Inl e, d)"
  shows "\<exists>e fs. transaction m db = (Inl e, db\<lparr>faults := fs\<rparr>)"
proof (cases "transaction m db")
  case (Pair r d)
  show ?thesis
  proof (cases r)
    case (Inl e)
    then show ?thesis using Pair transaction_Inl [of m db e d] by blast
  next
    case (Inr x)
    then obtain fs d' where "m (db\<lparr>faults := fs\<rparr>) = (Inr x, d')"
      using transaction_Inr [of m db x d] Pair by blast
    then show ?thesis using assms [of fs] by auto
  qed
qed

text \<open>
  C8. Once a trade is closed, every further attempt to settle it, by a closer that still holds
  a snapshot or by the reconciler, fails and leaves every table as it was.
\<close>

theorem closed_trade_stays_settled:
  assumes "reachable ledger_init (ledger_step rnd) s"
    and r: "r \<in> set (trades (ldb s))" "r_status r = ''closed''" and c: "t_id c = r_id r"
  shows "(\<exists>e fs. persist_closed_tx rnd aid c m pnl ep ea x (ldb s) = (Inl e, (ldb s)\<lparr>faults := fs\<rparr>))
    \<and> (\<exists>e fs. reconciled_tx rnd ea (r_id r) ep pnl x aid m (ldb s) = (Inl e, (ldb s)\<lparr>faults := fs\<rparr>))"
proof -
  have "distinct (map r_id (trades (ldb s)))"
    using ledger.reachable_inv [OF assms(1)] by (simp add: system_inv_def ledger_inv_def wf_db_def)
  moreover have not_closed: "\<not> unsettled r" using r(2) by (simp add: unsettled_def)
  ultimately have only: "\<forall>r' \<in> set (trades (ldb s)). r_id r' = r_id r \<longrightarrow> \<not> unsettled r'"
    using r by (metis distinct_map inj_onD not_closed)
  then have f: "filter (\<lambda>q. r_id q = r_id r \<and> unsettled q) (trades (ldb s)) = []"
    by (auto simp: filter_empty_conv)
  have "\<exists>e d. bindE (update_trade_closed (t_id c) ep ea pnl x (t_fees c)) (\<lambda>_.
      bindE (release_margin rnd aid (t_id c) m pnl) (\<lambda>_. insert_trade_closed c)) ((ldb s)\<lparr>faults := fs\<rparr>)
      = (Inl e, d)" for fs
    using settle_closed_fails [of "(ldb s)\<lparr>faults := fs\<rparr>" "t_id c" ep ea pnl x "t_fees c"] only c
    by (auto simp: run_simps)
  moreover have "\<exists>e d. bindE (stmt (\<lambda>db. (Inr (length (filter (\<lambda>q. r_id q = r_id r \<and> unsettled q) (trades db))),
        db\<lparr>trades := update_rows (\<lambda>q. r_id q = r_id r \<and> unsettled q) f (trades db)\<rparr>)))
      (\<lambda>n. if n = 0 then failE e0 else release_margin rnd aid (r_id r) m pnl) ((ldb s)\<lparr>faults := fs\<rparr>)
      = (Inl e, d)" for fs f e0
    by (cases fs) (auto simp: run_simps stmt_def f)
  ultimately show ?thesis
    unfolding persist_closed_tx_def reconciled_tx_def by (intro conjI transaction_body_fails)
qed

theorem closed_trade_stays_settled_witness:
  "\<exists>e fs. persist_closed_tx exact 1 demo_trade 15000 1000 151 0 TpHit (ldb demo_closed)
     = (Inl e, (ldb demo_closed)\<lparr>faults := fs\<rparr>)"
proof -
  have "map (\<lambda>r. (r_id r, r_status r)) (trades (ldb demo_closed)) = [(7, ''closed'')]" by code_simp
  then obtain r where "r \<in> set (trades (ldb demo_closed))" "r_status r = ''closed''" "r_id r = 7"
    by auto
  moreover have "t_id demo_trade = 7" by (simp add: demo_trade_def)
  ultimately show ?thesis using closed_trade_stays_settled [OF demo_closed_reachable] by metis
qed


section \<open>The close lock\<close>

lemma acquire_result:
  assumes dist: "distinct (map r_id (trades db))"
    and run: "acquire_close_lock now tid aid db = (Inr (Some l), db')"
  obtains r where "r \<in> set (trades db)" "lockable now tid aid r"
    "was_stale_recovery l \<longleftrightarrow> r_closing_started_at r \<noteq> None"
    "static_trade (lock_trade l) = static_row r"
    "trades db' = update_rows (\<lambda>q. r_id q = tid)
       (\<lambda>q. q\<lparr>r_status := ''closing'', r_closing_started_at := Some now\<rparr>) (trades db)"
    "trade_of_row (r\<lparr>r_status := ''closing'', r_closing_started_at := Some now\<rparr>) = Inr (lock_trade l)"
    "accounts db' = accounts db"
proof -
  let ?lock = "\<lambda>r. r\<lparr>r_status := ''closing'', r_closing_started_at := Some now\<rparr>"
  obtain r rs where f: "filter (lockable now tid aid) (trades db) = r # rs"
    and t: "trade_of_row (?lock r) = Inr (lock_trade l)"
    and w: "was_stale_recovery l \<longleftrightarrow> r_closing_started_at r \<noteq> None"
    and db': "trades db' = update_rows (lockable now tid aid) ?lock (trades db)" "accounts db' = accounts db"
    using run unfolding acquire_close_lock_def
    by (auto simp: run_simps Let_def split: prod.splits sum.splits list.splits option.splits
        dest!: stmt_Inr)
  have "r \<in> set (filter (lockable now tid aid) (trades db))" by (simp add: f)
  then have r: "r \<in> set (trades db)" "lockable now tid aid r" by auto
  have only: "lockable now tid aid q \<longleftrightarrow> r_id q = tid" if "q \<in> set (trades db)" for q
    using that r dist by (metis (no_types, lifting) distinct_map inj_onD lockable_def)
  have "update_rows (lockable now tid aid) ?lock (trades db) = update_rows (\<lambda>q. r_id q = tid) ?lock (trades db)"
    unfolding update_rows_def by (rule map_cong) (simp_all add: only)
  then show ?thesis
    using that [OF r w] static_trade_of_row [OF t] db' t by (simp add: static_row_def)
qed



text \<open>
  A closer is told that it recovers a stale lock exactly when the trade had been closing
  for more than 300 seconds; it is then locked anew from the current time.
\<close>

theorem close_lock_stale_recovery:
  assumes "reachable ledger_init (ledger_step rnd) s"
    and "acquire_close_lock now tid aid (ldb s) = (Inr (Some l), db')"
  shows "\<exists>r \<in> set (trades (ldb s)). r_id r = tid \<and> r_account_id r = aid
    \<and> static_trade (lock_trade l) = static_row r
    \<and> (if was_stale_recovery l
       then r_status r = ''closing'' \<and> (\<exists>t0. r_closing_started_at r = Some t0 \<and> t0 + secs 300 < now)
       else r_status r = ''open'')
    \<and> (\<exists>r' \<in> set (trades db'). r_id r' = tid \<and> r_status r' = ''closing'' \<and> r_closing_started_at r' = Some now)"
proof -
  have wf: "wf_db (ldb s)"
    using ledger.reachable_inv [OF assms(1)] by (simp add: system_inv_def ledger_inv_def)
  then have dist: "distinct (map r_id (trades (ldb s)))" by (simp add: wf_db_def)
  obtain r where r: "r \<in> set (trades (ldb s))" "lockable now tid aid r"
    and w: "was_stale_recovery l \<longleftrightarrow> r_closing_started_at r \<noteq> None"
    and t: "static_trade (lock_trade l) = static_row r"
    and u: "trades db' = update_rows (\<lambda>q. r_id q = tid)
       (\<lambda>q. q\<lparr>r_status := ''closing'', r_closing_started_at := Some now\<rparr>) (trades (ldb s))"
    using acquire_result [OF dist assms(2)] by metis
  have "wf_row r" using wf r(1) by (simp add: wf_db_def)
  then have "r_closing_started_at r \<noteq> None \<longleftrightarrow> r_status r = ''closing''" by (simp add: wf_row_def)
  moreover have "r\<lparr>r_status := ''closing'', r_closing_started_at := Some now\<rparr> \<in> set (trades db')"
    using r unfolding u update_rows_def by (force simp: lockable_def)
  ultimately show ?thesis
    using r w t by (intro bexI [of _ r] conjI bexI [of _ "r\<lparr>r_status := ''closing'', r_closing_started_at := Some now\<rparr>"])
      (auto simp: lockable_def STALE_CLOSING_THRESHOLD_SECS_def split: option.splits)
qed

theorem close_lock_stale_recovery_witness:
  "\<exists>r \<in> set (trades (ldb demo_open)). r_id r = 7 \<and> r_status r = ''open''"
proof -
  have l: "fst (acquire_close_lock 0 7 1 (ldb demo_open)) =
      Inr (Some \<lparr>lock_trade = demo_trade\<lparr>t_status := Closing\<rparr>, was_stale_recovery = False\<rparr>)"
    by code_simp
  then have "acquire_close_lock 0 7 1 (ldb demo_open) =
     (Inr (Some \<lparr>lock_trade = demo_trade\<lparr>t_status := Closing\<rparr>, was_stale_recovery = False\<rparr>), ldb demo_locked)"
    by (simp add: demo_locked_def prod_eq_iff)
  from close_lock_stale_recovery [OF demo_open_reachable this] show ?thesis by auto
qed

end
