(* ===== verification/Account_Theorems.thy ===== *)
theory Account_Theorems
  imports Ledger_Theorems
begin

text \<open>
  The theorems on trading accounts: at most one active live account per exchange, the guard
  on deactivation, and what a recalculation of balances does to the ledger.
\<close>

section \<open>One active live account per exchange\<close>

definition live_unique :: "database \<Rightarrow> bool" where
  "live_unique db \<longleftrightarrow> (\<forall>a \<in> set (accounts db). \<forall>b \<in> set (accounts db). \<forall>ex.
     live_active ex a \<and> live_active ex b \<longrightarrow> a_id a = a_id b)"

lemma on_tables_live: "on_tables live_unique"
  by (simp add: on_tables_def live_unique_def)

lemma live_unique_same:
  assumes "live_unique db"
    and "\<And>a'. a' \<in> set (accounts db') \<Longrightarrow>
      \<exists>a \<in> set (accounts db). a_id a = a_id a' \<and> (\<forall>ex. live_active ex a' \<longrightarrow> live_active ex a)"
  shows "live_unique db'"
  using assms unfolding live_unique_def by metis

lemma live_stmt_other:
  assumes "\<And>db. accounts (snd (m db)) = accounts db"
  shows "preserves live_unique (stmt m)"
proof (intro preserves_stmt [OF on_tables_live] tripleI)
  fix w x w' assume "live_unique w" and "m w = (Inl x, w')"
  then show "live_unique w'" using assms [of w] by (simp add: live_unique_def)
next
  fix w x w' assume "live_unique w" and "m w = (Inr x, w')"
  then show "live_unique w'" using assms [of w] by (simp add: live_unique_def)
qed

lemma update_balance_returning_live: "preserves live_unique (update_balance_returning aid f)"
  unfolding update_balance_returning_def
proof (intro preserves_stmt [OF on_tables_live])
  have "live_unique (db\<lparr>accounts := update_rows (\<lambda>a. a_id a = aid)
      (\<lambda>a. a\<lparr>a_current_balance := f (a_current_balance a)\<rparr>) (accounts db)\<rparr>)" if "live_unique db" for db
    by (rule live_unique_same [OF that])
      (auto simp: live_active_def elim!: in_update_rowsE split: if_splits)
  then show "preserves live_unique (\<lambda>db. case filter (\<lambda>a. a_id a = aid) (accounts db) of
       [] \<Rightarrow> (Inl db_error, db)
     | a # _ \<Rightarrow> (Inr (f (a_current_balance a)),
         db\<lparr>accounts := update_rows (\<lambda>a. a_id a = aid)
              (\<lambda>a. a\<lparr>a_current_balance := f (a_current_balance a)\<rparr>) (accounts db)\<rparr>))"
    by (auto simp: triple_def split: list.splits)
qed

lemma live_postings:
  "preserves live_unique (insert_event aid tid ty amt after occ)"
  "preserves live_unique (insert_notification n)"
  "preserves live_unique (insert_trade t)"
  "preserves live_unique (stmt (\<lambda>db. (Inr (g db), db\<lparr>trades := update_rows p h (trades db)\<rparr>)))"
  "preserves live_unique (release_close_lock tid)"
  unfolding insert_event_def insert_notification_def insert_trade_def release_close_lock_def
  by (intro live_stmt_other; auto)+

lemma live_active_exchange: "live_active ex a \<Longrightarrow> ex = a_exchange a"
  by (simp add: live_active_def)

lemma live_unique_append:
  assumes "live_unique db"
    and "live_active (a_exchange a) a \<Longrightarrow> \<forall>b \<in> set (accounts db). \<not> live_active (a_exchange a) b"
  shows "live_unique (db\<lparr>accounts := accounts db @ [a]\<rparr>)"
  unfolding live_unique_def
proof (intro ballI allI impI)
  fix b c ex
  assume "b \<in> set (accounts (db\<lparr>accounts := accounts db @ [a]\<rparr>))"
    and "c \<in> set (accounts (db\<lparr>accounts := accounts db @ [a]\<rparr>))"
    and live: "live_active ex b \<and> live_active ex c"
  then consider "b = a \<and> c = a" | "b = a \<and> c \<in> set (accounts db)"
    | "c = a \<and> b \<in> set (accounts db)" | "b \<in> set (accounts db) \<and> c \<in> set (accounts db)" by auto
  then show "a_id b = a_id c"
    using live assms live_active_exchange [of ex a] by cases (auto simp: live_unique_def)
qed

lemma insert_account_live: "preserves live_unique (insert_account a)"
  unfolding insert_account_def
  by (intro preserves_stmt [OF on_tables_live]) (auto simp: triple_def intro!: live_unique_append)

text \<open>The update touches one row only, so it needs the primary key as well.\<close>

definition live_inv :: "database \<Rightarrow> bool" where
  "live_inv db \<longleftrightarrow> live_unique db \<and> distinct (map a_id (accounts db))"

lemma on_tables_live_inv: "on_tables live_inv"
  by (simp add: on_tables_def live_inv_def live_unique_def)

lemma live_unique_merge:
  assumes inv: "live_inv db" and a: "a \<in> set (accounts db)" "a_id a = aid"
    and guard: "live_active (a_exchange a) (merge_account req a) \<Longrightarrow>
      \<forall>b \<in> set (accounts db). live_active (a_exchange a) b \<longrightarrow> a_id b = aid"
  shows "live_unique (db\<lparr>accounts := update_rows (\<lambda>a. a_id a = aid) (merge_account req) (accounts db)\<rparr>)"
    (is "live_unique ?db'")
  unfolding live_unique_def
proof (intro ballI allI impI)
  have uniq: "q = a" if "q \<in> set (accounts db)" "a_id q = aid" for q
    using inv a that by (metis distinct_map inj_onD live_inv_def)
  have cases: "b = merge_account req a \<or> b \<in> set (accounts db) \<and> a_id b \<noteq> aid"
    if "b \<in> set (accounts ?db')" for b
    using that uniq by (auto elim!: in_update_rowsE split: if_splits)
  fix b c ex
  assume "b \<in> set (accounts ?db')" and "c \<in> set (accounts ?db')"
    and live: "live_active ex b \<and> live_active ex c"
  then have bc: "b = merge_account req a \<or> b \<in> set (accounts db) \<and> a_id b \<noteq> aid"
    "c = merge_account req a \<or> c \<in> set (accounts db) \<and> a_id c \<noteq> aid" using cases by blast+
  have ex: "live_active ex (merge_account req a) \<Longrightarrow> ex = a_exchange a"
    using live_active_exchange by fastforce
  show "a_id b = a_id c"
    using bc live guard ex inv by (auto simp: live_inv_def live_unique_def)
qed

lemma update_account_row_live: "preserves live_inv (update_account_row aid req)"
proof (unfold update_account_row_def, intro preserves_stmt [OF on_tables_live_inv] tripleI)
  fix db x db'
  assume inv: "live_inv db" and run: "(case filter (\<lambda>a. a_id a = aid \<and> deactivation_guard req db a) (accounts db) of
       [] \<Rightarrow> (Inr None, db)
     | a # _ \<Rightarrow>
         let a' = merge_account req a in
         if \<not> account_row_ok db a' then (Inl db_error, db)
         else if live_active (a_exchange a') a'
              \<and> (\<exists>b \<in> set (accounts db). live_active (a_exchange a') b \<and> a_id b \<noteq> aid)
         then (Inl live_conflict, db)
         else (Inr (Some a'),
           db\<lparr>accounts := update_rows (\<lambda>a. a_id a = aid) (merge_account req) (accounts db)\<rparr>)) = (Inr x, db')"
  show "live_inv db'"
  proof (cases "filter (\<lambda>a. a_id a = aid \<and> deactivation_guard req db a) (accounts db)")
    case Nil
    then show ?thesis using run inv by simp
  next
    case (Cons a as)
    then have "a \<in> set (filter (\<lambda>a. a_id a = aid \<and> deactivation_guard req db a) (accounts db))" by simp
    then have a: "a \<in> set (accounts db)" "a_id a = aid" by auto
    have db': "db' = db\<lparr>accounts := update_rows (\<lambda>a. a_id a = aid) (merge_account req) (accounts db)\<rparr>"
      and g: "live_active (a_exchange a) (merge_account req a) \<Longrightarrow>
        \<forall>b \<in> set (accounts db). live_active (a_exchange a) b \<longrightarrow> a_id b = aid"
      using run Cons by (auto simp: Let_def split: if_splits)
    show ?thesis
      using live_unique_merge [OF inv a g] inv by (simp add: live_inv_def db' map_update_rows)
  qed
qed (auto simp: Let_def split: list.splits if_splits)


lemmas live_wp = preserves_bindE preserves_returnE preserves_failE preserves_liftR
  preserves_if preserves_transaction [OF on_tables_live] preserves_read [OF on_tables_live]
  live_postings update_balance_returning_live insert_account_live

lemma delete_account_live: "preserves live_unique (delete_account aid)"
  unfolding delete_account_def
  by (intro preserves_stmt [OF on_tables_live]) (auto simp: triple_def live_unique_def)

lemma live_transactions:
  "preserves live_unique (persist_open_tx aid t m)"
  "preserves live_unique (persist_closed_tx rnd aid c m pnl ep ea x)"
  "preserves live_unique (charge_fee_tx aid tid fee ty occ)"
  "preserves live_unique (reconciled_tx rnd ea tid ep pnl x aid m)"
  "preserves live_unique (add_fees tid d)"
  "preserves live_unique (create_account new_id now req)"
  "preserves live_unique (acquire_close_lock now' tid aid)"
proof -
  show "preserves live_unique (persist_open_tx aid t m)"
    unfolding persist_open_tx_def lock_margin_def insert_trade_opened_def by (intro live_wp)
  show "preserves live_unique (persist_closed_tx rnd aid c m pnl ep ea x)"
    unfolding persist_closed_tx_def update_trade_closed_def release_margin_def
      insert_trade_closed_def Let_def by (intro live_wp)
  show "preserves live_unique (charge_fee_tx aid tid fee ty occ)"
    unfolding charge_fee_tx_def apply_fee_inner_def Let_def by (intro live_wp)
  show "preserves live_unique (reconciled_tx rnd ea tid ep pnl x aid m)"
    unfolding reconciled_tx_def release_margin_def by (intro live_wp)
  show "preserves live_unique (add_fees tid d)"
    unfolding add_fees_def by (intro live_wp)
  show "preserves live_unique (create_account new_id now req)"
    unfolding create_account_def Let_def reject_if_live_account_exists_for_exchange_def
    by (intro live_wp)
  show "preserves live_unique (acquire_close_lock now' tid aid)"
    unfolding acquire_close_lock_def Let_def
    by (intro preserves_bindE live_stmt_other)
      (auto intro!: preserves_returnE preserves_liftR preserves_bindE split: list.splits option.splits)
qed

definition account_inv :: "rounding \<Rightarrow> ledger_state \<Rightarrow> bool" where
  "account_inv rnd s \<longleftrightarrow> system_inv rnd s \<and> live_unique (ldb s)"

lemma account_inv_step:
  assumes inv: "account_inv rnd s" and step: "ledger_step rnd s s'"
  shows "live_unique (ldb s')"
proof -
  have l: "live_unique (ldb s)" using inv by (simp add: account_inv_def)
  have li: "live_inv (ldb s)"
    using inv by (simp add: account_inv_def system_inv_def ledger_inv_def wf_db_def live_inv_def)
  from step show ?thesis
  proof cases
    case (environment db')
    then show ?thesis using l by (simp add: live_unique_def)
  next
    case (take_lock now tid aid res db')
    then show ?thesis using l preserves_snd [OF live_transactions(7), of "ldb s" now tid aid] by simp
  next
    case (change aid ur)
    have "preserves live_inv (update_account aid ur)"
      by (intro update_account_preserves_gen on_tables_live_inv update_account_row_live)
    from preserves_snd [OF this li] change show ?thesis by (simp add: live_inv_def)
  qed (use l in \<open>auto intro!: preserves_snd [OF live_transactions(1)] preserves_snd [OF live_transactions(2)]
      preserves_snd [OF live_transactions(3)] preserves_snd [OF live_transactions(4)]
      preserves_snd [OF live_transactions(5)] preserves_snd [OF live_transactions(6)]
      preserves_snd [OF live_postings(5)] preserves_snd [OF delete_account_live]\<close>)
qed

interpretation account: inductive_invariant ledger_init "ledger_step rnd" "account_inv rnd" for rnd
proof unfold_locales
  fix s assume "ledger_init s"
  then show "account_inv rnd s"
    using ledger.init_inv by (simp add: account_inv_def live_unique_def ledger_init_def)
next
  fix s s' assume "account_inv rnd s" and "ledger_step rnd s s'"
  then show "account_inv rnd s'"
    using account_inv_step ledger.step_inv unfolding account_inv_def by blast
qed

text \<open>
  C11. In every reachable state an exchange has at most one active live account, whatever the
  order in which accounts are created, activated, deactivated and deleted.
\<close>

theorem one_live_account_per_exchange:
  assumes "reachable ledger_init (ledger_step rnd) s"
  shows "length (filter (live_active ex) (accounts (ldb s))) \<le> 1"
proof -
  have inv: "live_unique (ldb s)" "distinct (map a_id (accounts (ldb s)))"
    using account.reachable_inv [OF assms]
    by (auto simp: account_inv_def system_inv_def ledger_inv_def wf_db_def)
  have "distinct (map a_id (filter (live_active ex) (accounts (ldb s))))"
    using inv(2) by (simp add: distinct_map_filter)
  then have "length (map a_id (filter (live_active ex) (accounts (ldb s)))) \<le> 1"
    by (rule length_le_1) (use inv(1) in \<open>auto simp: live_unique_def\<close>)
  then show ?thesis by simp
qed

definition demo_live :: ledger_state where
  "demo_live = \<lparr>ldb = snd (create_account 1 0 (demo_request\<lparr>cr_account_type := ''live''\<rparr>) demo_db),
     snapshots = []\<rparr>"

theorem one_live_account_per_exchange_witness:
  "length (filter (live_active ''gmo_fx'') (accounts (ldb demo_live))) = 1
   \<and> fst (create_account 2 0 (demo_request\<lparr>cr_account_type := ''live''\<rparr>) (ldb demo_live)) = Inl live_conflict"
proof -
  have "reachable ledger_init (ledger_step exact) \<lparr>ldb = demo_db, snapshots = []\<rparr>"
    by (rule reachable_init) (simp add: ledger_init_def demo_db_def)
  then have "reachable ledger_init (ledger_step exact) demo_live"
    using ledger_step.create [of exact "\<lparr>ldb = demo_db, snapshots = []\<rparr>" 1 0]
    by (auto simp: demo_live_def intro: reachable_step)
  from one_live_account_per_exchange [OF this, of "''gmo_fx''"]
  have "length (filter (live_active ''gmo_fx'') (accounts (ldb demo_live))) \<le> 1" .
  moreover have "accounts (ldb demo_live) \<noteq> [] \<and> live_active ''gmo_fx'' (hd (accounts (ldb demo_live)))
     \<and> fst (create_account 2 0 (demo_request\<lparr>cr_account_type := ''live''\<rparr>) (ldb demo_live)) = Inl live_conflict"
    by code_simp
  ultimately show ?thesis by (cases "accounts (ldb demo_live)") auto
qed


section \<open>Deactivation\<close>

lemma stmt_no_fault: "faults db = [] \<Longrightarrow> stmt m db = m db"
  by (simp add: stmt_def)

lemma find_unique:
  assumes "distinct (map k xs)" and "x \<in> set xs"
  shows "find (\<lambda>y. k y = k x) xs = Some x"
  using assms by (induction xs) force+

text \<open>
  An active account with open or closing trades cannot be deactivated: the request is
  answered with the number of those trades and nothing is changed.
\<close>

theorem deactivation_blocked:
  assumes "reachable ledger_init (ledger_step rnd) s" and "faults (ldb s) = []"
    and "a \<in> set (accounts (ldb s))" and "a_active a" and "has_unsettled (a_id a) (ldb s)"
    and "ur_active req = Some False" and "ur_leverage req = None"
  shows "update_account (a_id a) req (ldb s) =
    (Inr (Inl (a_id a, length (filter (\<lambda>r. r_account_id r = a_id a \<and> unsettled r) (trades (ldb s))))), ldb s)"
proof -
  have wf: "wf_db (ldb s)"
    using ledger.reachable_inv [OF assms(1)] by (simp add: system_inv_def ledger_inv_def)
  then have dist: "distinct (map a_id (accounts (ldb s)))" by (simp add: wf_db_def)
  have get: "get_account (a_id a) (ldb s) = (Inr (Some a), ldb s)"
    using find_unique [OF dist assms(3)] assms(2)
    by (simp add: get_account_def stmt_no_fault run_simps find_account_def)
  have "filter (\<lambda>b. a_id b = a_id a \<and> deactivation_guard req (ldb s) b) (accounts (ldb s)) = []"
    using assms(4-6) dist assms(3)
    by (auto simp: filter_empty_conv deactivation_guard_def distinct_map dest: inj_onD)
  then have row: "update_account_row (a_id a) req (ldb s) = (Inr None, ldb s)"
    using assms(2) by (simp add: update_account_row_def stmt_no_fault)
  let ?rows = "newest_first (filter (\<lambda>r. r_account_id r = a_id a \<and> unsettled r) (trades (ldb s)))"
  have "\<exists>t. trade_of_row r = Inr t" if "r \<in> set ?rows" for r
    using that wf by (auto simp: newest_first_def wf_db_def wf_row_def)
  then obtain g where "\<And>r. r \<in> set ?rows \<Longrightarrow> trade_of_row r = Inr (g r)" by metis
  then have "collectR trade_of_row ?rows = Inr (map g ?rows)" by (rule collectR_all_Inr)
  then have list: "list_open_or_closing_by_account (a_id a) (ldb s) = (Inr (map g ?rows), ldb s)"
    using assms(2)
    by (simp add: list_open_or_closing_by_account_def select_trades_def run_simps stmt_no_fault)
  show ?thesis
    using assms(6,7) by (simp add: update_account_def run_simps get row list newest_first_def)
qed

theorem deactivation_blocked_witness:
  "fst (update_account 1 \<lparr>ur_name = None, ur_leverage = None, ur_strategy = None, ur_active = Some False\<rparr>
     (ldb demo_open)) = Inr (Inl (1, 1))"
proof -
  let ?req = "\<lparr>ur_name = None, ur_leverage = None, ur_strategy = None, ur_active = Some False\<rparr>"
  have c: "map (\<lambda>a. (a_id a, a_active a)) (accounts (ldb demo_open)) = [(1, True)]
      \<and> faults (ldb demo_open) = [] \<and> has_unsettled 1 (ldb demo_open)
      \<and> length (filter (\<lambda>r. r_account_id r = 1 \<and> unsettled r) (trades (ldb demo_open))) = 1" by code_simp
  then obtain a where a: "a \<in> set (accounts (ldb demo_open))" "a_active a" "a_id a = 1" by auto
  have "has_unsettled (a_id a) (ldb demo_open)" "faults (ldb demo_open) = []" using c a by simp_all
  from deactivation_blocked [OF demo_open_reachable this(2) a(1,2) this(1), of ?req] c a(3)
  show ?thesis by simp
qed

section \<open>Recalculation\<close>

lemma pv_sum_settled:
  assumes "wf_db db" and "\<not> has_unsettled aid db"
  shows "pv_sum rnd (trades db) aid = sum_pnl (settled_of aid db)"
proof -
  have st: "r_status r = ''closed'' \<and> \<not> unsettled r" if "r \<in> set (trades db)" "r_account_id r = aid" for r
    using assms that by (auto simp: wf_db_def wf_row_def has_unsettled_def unsettled_def)
  have "filter (\<lambda>r. r_account_id r = aid) (trades db) = settled_of aid db"
    unfolding settled_of_def using st by (auto intro: filter_cong)
  moreover have "map (position_value rnd) (filter (\<lambda>r. r_account_id r = aid) (trades db)) =
      map (\<lambda>r. case r_pnl_amount r of None \<Rightarrow> 0 | Some p \<Rightarrow> p) (filter (\<lambda>r. r_account_id r = aid) (trades db))"
    using st by (auto simp: position_value_def unwrap_or_def split: option.splits)
  ultimately show ?thesis unfolding pv_sum_def sum_pnl_def by (simp only:)
qed

lemma sub_of_ledger: "(c :: rat) = i + p + f \<Longrightarrow> i + p - x = c - (x + f)"
  by simp



end
