(* ===== verification/Price_Store.thy ===== *)
theory Price_Store
  imports Pricing "HOL-Library.AList"
begin

text \<open>
  The store of latest ticks (\<open>market/src/price_store.rs\<close>). A \<open>HashMap\<close> is an association
  list with distinct keys; its order stands for the unspecified iteration order. The locks
  make every method atomic, so each is one function on the store; \<open>Utc::now()\<close> is \<open>now\<close>.
\<close>

section \<open>State\<close>

record feed_key =
  fk_exchange :: exchange
  fk_pair :: string

record latest_tick =
  tk_price :: decimal
  tk_best_bid :: "decimal option"
  tk_best_ask :: "decimal option"
  tk_ts :: datetime

datatype feed_status = Healthy | Stale | Missing | MarketClosed

record feed_health =
  fh_exchange :: string
  fh_pair :: string
  fh_status :: feed_status
  fh_last_tick_age_secs :: "int option"
  fh_market_closed_at :: "datetime option"

definition STALE_THRESHOLD_SECS :: int where "STALE_THRESHOLD_SECS = 60"

record price_store =
  ps_latest :: "(feed_key \<times> latest_tick) list"
  ps_expected :: "feed_key list"
  ps_market_closed :: "(feed_key \<times> datetime) list"

section \<open>Operations\<close>

definition is_newer_than_stored :: "latest_tick option \<Rightarrow> datetime \<Rightarrow> bool" where
  "is_newer_than_stored existing incoming_ts =
     (case existing of Some t \<Rightarrow> tk_ts t < incoming_ts | None \<Rightarrow> True)"

definition price_store_new :: "feed_key list \<Rightarrow> price_store" where
  "price_store_new expected = \<lparr>ps_latest = [], ps_expected = expected, ps_market_closed = []\<rparr>"

definition clear_market_closed_on_tick :: "feed_key \<Rightarrow> price_store \<Rightarrow> price_store" where
  "clear_market_closed_on_tick key ps = ps\<lparr>ps_market_closed := AList.delete key (ps_market_closed ps)\<rparr>"

definition price_store_update :: "feed_key \<Rightarrow> latest_tick \<Rightarrow> price_store \<Rightarrow> price_store" where
  "price_store_update key tick ps0 =
     (let ps = clear_market_closed_on_tick key ps0 in
      if is_newer_than_stored (map_of (ps_latest ps) key) (tk_ts tick)
      then ps\<lparr>ps_latest := AList.update key tick (ps_latest ps)\<rparr> else ps)"

definition mark_market_closed :: "datetime \<Rightarrow> feed_key \<Rightarrow> price_store \<Rightarrow> price_store" where
  "mark_market_closed now key ps = ps\<lparr>ps_market_closed := AList.update key now (ps_market_closed ps)\<rparr>"

definition store_bid_ask :: "price_store \<Rightarrow> feed_key \<Rightarrow> (decimal \<times> decimal) option" where
  "store_bid_ask ps key =
     (case map_of (ps_latest ps) key of
        None \<Rightarrow> None
      | Some tick \<Rightarrow>
          (case (tk_best_bid tick, tk_best_ask tick) of
             (Some bid, Some ask) \<Rightarrow> Some (bid, ask)
           | _ \<Rightarrow> None))"

text \<open>\<open>Iterator::max_by_key\<close>: of several maxima the last one wins.\<close>

fun max_by_key :: "('a \<Rightarrow> int) \<Rightarrow> 'a list \<Rightarrow> 'a option" where
  "max_by_key k [] = None"
| "max_by_key k (x # xs) =
     (case max_by_key k xs of None \<Rightarrow> Some x | Some y \<Rightarrow> if k x \<le> k y then Some y else Some x)"

definition ticks_of_pair :: "price_store \<Rightarrow> string \<Rightarrow> latest_tick list" where
  "ticks_of_pair ps pair = map snd (filter (\<lambda>(k, _). fk_pair k = pair) (ps_latest ps))"

definition age_secs :: "datetime \<Rightarrow> datetime \<Rightarrow> int" where
  "age_secs now ts = max (num_seconds (now - ts)) 0"

definition last_tick_age :: "datetime \<Rightarrow> price_store \<Rightarrow> string \<Rightarrow> int option" where
  "last_tick_age now ps pair =
     map_option (\<lambda>t. age_secs now (tk_ts t)) (max_by_key tk_ts (ticks_of_pair ps pair))"

definition last_tick_age_for :: "datetime \<Rightarrow> price_store \<Rightarrow> feed_key \<Rightarrow> int option" where
  "last_tick_age_for now ps key =
     map_option (\<lambda>t. age_secs now (tk_ts t)) (map_of (ps_latest ps) key)"

definition store_mid :: "rounding \<Rightarrow> price_store \<Rightarrow> string \<Rightarrow> decimal option" where
  "store_mid rnd ps pair =
     map_option (\<lambda>tick. case (tk_best_bid tick, tk_best_ask tick) of
         (Some bid, Some ask) \<Rightarrow> rnd (dadd rnd bid ask / 2)
       | _ \<Rightarrow> tk_price tick)
     (max_by_key tk_ts (ticks_of_pair ps pair))"

definition snapshot :: "price_store \<Rightarrow> (feed_key \<times> latest_tick) list" where
  "snapshot ps = ps_latest ps"

definition feed_health_at :: "datetime \<Rightarrow> price_store \<Rightarrow> feed_key \<Rightarrow> feed_health" where
  "feed_health_at now ps key =
     (let market_closed_at = map_of (ps_market_closed ps) key;
          is_closed = market_closed_at \<noteq> None;
          (status, age) =
            (case map_of (ps_latest ps) key of
               None \<Rightarrow> if is_closed then (MarketClosed, None) else (Missing, None)
             | Some tick \<Rightarrow>
                 let age = max (num_seconds (now - tk_ts tick)) 0 in
                 (if is_closed then MarketClosed
                  else if age \<le> STALE_THRESHOLD_SECS then Healthy else Stale, Some age))
      in \<lparr>fh_exchange = exchange_as_str (fk_exchange key), fh_pair = fk_pair key, fh_status = status,
          fh_last_tick_age_secs = age, fh_market_closed_at = market_closed_at\<rparr>)"

definition health_at :: "datetime \<Rightarrow> price_store \<Rightarrow> feed_health list" where
  "health_at now ps = map (feed_health_at now ps) (ps_expected ps)"

section \<open>The store against the history of its ticks\<close>

datatype store_op = Tick feed_key latest_tick | MarkClosed datetime feed_key

fun store_step :: "price_store \<Rightarrow> store_op \<Rightarrow> price_store" where
  "store_step ps (Tick k t) = price_store_update k t ps"
| "store_step ps (MarkClosed now k) = mark_market_closed now k ps"

fun ticks_for :: "feed_key \<Rightarrow> store_op list \<Rightarrow> latest_tick list" where
  "ticks_for k [] = []"
| "ticks_for k (Tick k' t # ops) = (if k' = k then t # ticks_for k ops else ticks_for k ops)"
| "ticks_for k (MarkClosed _ _ # ops) = ticks_for k ops"

text \<open>The abstract store: the first of the newest ticks received so far, per feed.\<close>

fun newest :: "latest_tick option \<Rightarrow> latest_tick list \<Rightarrow> latest_tick option" where
  "newest best [] = best"
| "newest best (t # ts) = newest (if is_newer_than_stored best (tk_ts t) then Some t else best) ts"

fun closed_mark :: "feed_key \<Rightarrow> datetime option \<Rightarrow> store_op list \<Rightarrow> datetime option" where
  "closed_mark k m [] = m"
| "closed_mark k m (Tick k' t # ops) = closed_mark k (if k' = k then None else m) ops"
| "closed_mark k m (MarkClosed now k' # ops) = closed_mark k (if k' = k then Some now else m) ops"

lemma latest_update:
  "map_of (ps_latest (price_store_update k t ps)) k' =
   (if k' = k \<and> is_newer_than_stored (map_of (ps_latest ps) k) (tk_ts t) then Some t
    else map_of (ps_latest ps) k')"
  by (auto simp: price_store_update_def clear_market_closed_on_tick_def Let_def update_conv)

lemma closed_update:
  "map_of (ps_market_closed (price_store_update k t ps)) k' =
   (if k' = k then None else map_of (ps_market_closed ps) k')"
  by (auto simp: price_store_update_def clear_market_closed_on_tick_def Let_def delete_conv)

lemma other_fields:
  "ps_latest (mark_market_closed now k ps) = ps_latest ps"
  "map_of (ps_market_closed (mark_market_closed now k ps)) k' =
     (if k' = k then Some now else map_of (ps_market_closed ps) k')"
  "ps_expected (store_step ps op) = ps_expected ps"
  by (cases op; auto simp: mark_market_closed_def update_conv price_store_update_def
      clear_market_closed_on_tick_def Let_def)+

lemma run_latest:
  "map_of (ps_latest (foldl store_step ps ops)) k = newest (map_of (ps_latest ps) k) (ticks_for k ops)"
proof (induction ops arbitrary: ps)
  case (Cons op ops)
  then show ?case by (cases op) (auto simp: latest_update other_fields)
qed simp

lemma run_closed:
  "map_of (ps_market_closed (foldl store_step ps ops)) k = closed_mark k (map_of (ps_market_closed ps) k) ops"
proof (induction ops arbitrary: ps)
  case (Cons op ops)
  then show ?case by (cases op) (auto simp: closed_update other_fields)
qed simp

lemma newest_None: "newest best ts = None \<longleftrightarrow> best = None \<and> ts = []"
  by (induction ts arbitrary: best) (auto simp: is_newer_than_stored_def split: option.splits)

lemma newest_from: "newest best ts = Some t \<Longrightarrow> best = Some t \<or> t \<in> set ts"
  by (induction ts arbitrary: best) (fastforce split: if_splits)+

lemma newest_max:
  "newest best ts = Some t \<Longrightarrow> (\<forall>b. best = Some b \<longrightarrow> tk_ts b \<le> tk_ts t) \<and> (\<forall>u \<in> set ts. tk_ts u \<le> tk_ts t)"
proof (induction ts arbitrary: best)
  case (Cons u us)
  let ?best = "if is_newer_than_stored best (tk_ts u) then Some u else best"
  have IH: "(\<forall>b. ?best = Some b \<longrightarrow> tk_ts b \<le> tk_ts t) \<and> (\<forall>v \<in> set us. tk_ts v \<le> tk_ts t)"
    using Cons.IH [of ?best] Cons.prems by simp
  then show ?case by (cases best) (auto simp: is_newer_than_stored_def split: if_splits)
qed simp

text \<open>
  C14. After any sequence of ticks and closed marks the store holds for every feed a received
  tick with the newest time of all received ones, or none if none was received; a late tick
  never replaces a newer one.
\<close>

theorem price_store_keeps_newest:
  "(case map_of (ps_latest (foldl store_step (price_store_new expected) ops)) k of
      None \<Rightarrow> ticks_for k ops = []
    | Some t \<Rightarrow> t \<in> set (ticks_for k ops) \<and> Max (tk_ts ` set (ticks_for k ops)) = tk_ts t)"
proof (cases "newest None (ticks_for k ops)")
  case None
  then show ?thesis by (simp add: run_latest price_store_new_def newest_None)
next
  case (Some t)
  then have "t \<in> set (ticks_for k ops)" "\<forall>u \<in> set (ticks_for k ops). tk_ts u \<le> tk_ts t"
    using newest_from [OF Some] newest_max [OF Some] by auto
  then have "Max (tk_ts ` set (ticks_for k ops)) = tk_ts t" by (intro Max_eqI) auto
  then show ?thesis using Some \<open>t \<in> _\<close> by (simp add: run_latest price_store_new_def)
qed

lemma healthy_iff_fresh: "max (num_seconds d) 0 \<le> STALE_THRESHOLD_SECS \<longleftrightarrow> d < secs 61"
  using num_seconds_ge [of 61 d] by (auto simp: STALE_THRESHOLD_SECS_def)

text \<open>
  The health of a feed is \<open>MarketClosed\<close> exactly when a closed mark was set after its last
  tick, otherwise \<open>Missing\<close> exactly when it never ticked, \<open>Healthy\<close> exactly when its newest
  tick is less than 61 seconds old and \<open>Stale\<close> otherwise; only the expected feeds are reported.
\<close>

theorem feed_health_classified:
  "fh_status (feed_health_at now (foldl store_step (price_store_new expected) ops) k) =
   (if closed_mark k None ops \<noteq> None then MarketClosed
    else case newest None (ticks_for k ops) of
           None \<Rightarrow> Missing
         | Some t \<Rightarrow> if now - tk_ts t < secs 61 then Healthy else Stale)
   \<and> map fh_pair (health_at now (foldl store_step (price_store_new expected) ops)) = map fk_pair expected"
proof -
  have ex: "ps_expected (foldl store_step ps ops) = ps_expected ps" for ps
    by (induction ops arbitrary: ps) (simp_all add: other_fields)
  have st: "fh_status (feed_health_at now ps k) =
    (if map_of (ps_market_closed ps) k \<noteq> None then MarketClosed
     else case map_of (ps_latest ps) k of
           None \<Rightarrow> Missing
         | Some t \<Rightarrow> if now - tk_ts t < secs 61 then Healthy else Stale)" for ps
    unfolding feed_health_at_def Let_def healthy_iff_fresh by (auto split: option.splits)
  have "fh_pair (feed_health_at now ps k') = fk_pair k'" for ps k'
    by (simp add: feed_health_at_def Let_def split: prod.splits)
  then show ?thesis
    by (simp add: st run_latest run_closed price_store_new_def health_at_def ex)
qed

end
