(* ===== verification/Exchange_Api.thy ===== *)
theory Exchange_Api
  imports Database Price_Store
begin

text \<open>
  The exchange interface (\<open>market/src/exchange_api.rs\<close> with the data of
  \<open>bitflyer_private/types.rs\<close>), the notification events, and the world the asynchronous code
  runs in. The exchange, the clocks, the source of identifiers and the other tasks of the
  process are outside the modelled code: they are the fields of \<open>exchange_api\<close> and
  \<open>environment\<close>, functions on an arbitrary outside state. Every call is written to a log
  with its outcome. At every await point the environment may move on and the other tasks may
  change the database.
\<close>

section \<open>Data of the exchange\<close>

datatype child_order_type = Market | Limit

datatype side = Buy | Sell

datatype time_in_force = Gtc | Ioc | Fok

record send_child_order_request =
  rq_product_code :: string
  rq_child_order_type :: child_order_type
  rq_side :: side
  rq_size :: decimal
  rq_price :: "decimal option"
  rq_minute_to_expire :: "nat option"
  rq_time_in_force :: "time_in_force option"
  rq_close_position_id :: "string option"

datatype child_order_state = Active | Completed | Canceled | Expired | Rejected

record child_order =
  co_id :: nat
  co_child_order_id :: string
  co_product_code :: string
  co_side :: string
  co_child_order_type :: string
  co_price :: decimal
  co_average_price :: decimal
  co_size :: decimal
  co_child_order_state :: child_order_state
  co_expire_date :: string
  co_child_order_date :: string
  co_child_order_acceptance_id :: string
  co_outstanding_size :: decimal
  co_cancel_size :: decimal
  co_executed_size :: decimal
  co_total_commission :: decimal

record execution =
  xc_id :: nat
  xc_child_order_id :: string
  xc_side :: string
  xc_price :: decimal
  xc_size :: decimal
  xc_commission :: decimal
  xc_exec_date :: string
  xc_child_order_acceptance_id :: string

record exchange_position =
  xp_product_code :: string
  xp_side :: string
  xp_price :: decimal
  xp_size :: decimal
  xp_commission :: decimal
  xp_swap_point_accumulate :: decimal
  xp_require_collateral :: decimal
  xp_open_date :: string
  xp_leverage :: decimal
  xp_pnl :: decimal
  xp_sfd :: decimal

record collateral =
  cl_collateral :: decimal
  cl_open_position_pnl :: decimal
  cl_require_collateral :: decimal
  cl_keep_rate :: decimal

datatype stop_order_status = StopActive | StopExecuted decimal decimal | StopGone

section \<open>Average of fills\<close>

definition fold_fills ::
  "rounding \<Rightarrow> decimal \<times> decimal \<times> decimal \<Rightarrow> decimal \<times> decimal \<times> decimal \<Rightarrow> decimal \<times> decimal \<times> decimal" where
  "fold_fills rnd = (\<lambda>(s, n, f) (price, size, fee).
     (dadd rnd s size, dadd rnd n (dmul rnd price size), dadd rnd f fee))"

definition weighted_avg_fills ::
  "rounding \<Rightarrow> (decimal \<times> decimal \<times> decimal) list \<Rightarrow> (decimal \<times> decimal \<times> decimal) result" where
  "weighted_avg_fills rnd fills =
     (let (total_size, total_notional, total_fee) = foldl (fold_fills rnd) (0, 0, 0) fills in
      if total_size = 0 then Inl (Anyhow ''invalid fills: total size is zero'')
      else bindR (ddiv rnd total_notional total_size) (\<lambda>avg. Inr (avg, total_size, total_fee)))"

section \<open>The trait\<close>

type_synonym ('x, 'a) outcall = "'x \<Rightarrow> (string + 'a) \<times> 'x"

record 'x exchange_api =
  api_send_child_order :: "send_child_order_request \<Rightarrow> ('x, string) outcall"
  api_get_child_orders :: "string \<Rightarrow> string \<Rightarrow> ('x, child_order list) outcall"
  api_get_executions :: "string \<Rightarrow> string \<Rightarrow> ('x, execution list) outcall"
  api_get_positions :: "string \<Rightarrow> ('x, exchange_position list) outcall"
  api_get_collateral :: "('x, collateral) outcall"
  api_cancel_child_order :: "string \<Rightarrow> string \<Rightarrow> ('x, unit) outcall"
  api_resolve_position_id :: "string \<Rightarrow> datetime \<Rightarrow> side \<Rightarrow> decimal \<Rightarrow> ('x, string option) outcall"
  api_requires_close_position_id :: bool
  api_fetch_close_sfd :: "string \<Rightarrow> ('x, decimal) outcall"
  api_place_stop_order :: "string \<Rightarrow> side \<Rightarrow> decimal \<Rightarrow> decimal \<Rightarrow> string option \<Rightarrow> ('x, string) outcall"
  api_cancel_stop_order :: "string \<Rightarrow> string \<Rightarrow> ('x, unit) outcall"
  api_stop_order_status :: "string \<Rightarrow> string \<Rightarrow> ('x, stop_order_status) outcall"

definition unsupported :: "string \<Rightarrow> ('x, 'a) outcall" where
  "unsupported op = (\<lambda>x. (Inl (''unsupported operation: '' @ op), x))"

text \<open>\<open>NullExchangeApi\<close>, with the default methods of the trait.\<close>

definition null_exchange_api :: "'x exchange_api" where
  "null_exchange_api =
     \<lparr>api_send_child_order = (\<lambda>_. unsupported ''send_child_order''),
      api_get_child_orders = (\<lambda>_ _. unsupported ''get_child_orders''),
      api_get_executions = (\<lambda>_ _. unsupported ''get_executions''),
      api_get_positions = (\<lambda>_. unsupported ''get_positions''),
      api_get_collateral = unsupported ''get_collateral'',
      api_cancel_child_order = (\<lambda>_ _. unsupported ''cancel_child_order''),
      api_resolve_position_id = (\<lambda>_ _ _ _ x. (Inr None, x)),
      api_requires_close_position_id = False,
      api_fetch_close_sfd = (\<lambda>_ x. (Inr 0, x)),
      api_place_stop_order = (\<lambda>_ _ _ _ _. unsupported ''place_stop_order''),
      api_cancel_stop_order = (\<lambda>_ _. unsupported ''cancel_stop_order''),
      api_stop_order_status = (\<lambda>_ _. unsupported ''stop_order_status'')\<rparr>"

section \<open>Notification events\<close>

datatype notify_event =
    OrderFilled string exchange uuid pair direction decimal decimal datetime
  | OrderFailed string exchange string pair string
  | PositionClosed string exchange uuid decimal string
  | SystemAlert string string exchange string
  | ProcessAlert string string

section \<open>The world\<close>

text \<open>The log of exchange calls, each with what the exchange answered.\<close>

datatype api_call =
    SentOrder send_child_order_request "string option"
  | ReadOrders string string
  | ReadExecutions string string
  | ReadPositions string
  | ReadCollateral
  | CanceledOrder string string bool
  | ResolvedPosition string side decimal
  | ReadSfd string
  | PlacedStop string side decimal decimal "string option" "string option"
  | CanceledStop string string bool
  | ReadStop string string "stop_order_status option"

text \<open>
  What the running tasks hand on: trade events sent on the trade channel, and the spawned tasks
  that record the opening of a trade.
\<close>

datatype runtime_event =
    TradeSent trade_event
  | TradeOpenRecording trade "string \<rightharpoonup> decimal" decimal

text \<open>
  \<open>env_trade_channel\<close> tells whether the receiver of the trade channel is still there;
  \<open>env_uuid_text\<close> is the printed form of an identifier.
\<close>

record 'x environment =
  env_utc_now :: "'x \<Rightarrow> datetime"
  env_instant :: "'x \<Rightarrow> int"
  env_sleep :: "int \<Rightarrow> 'x \<Rightarrow> 'x"
  env_new_uuid :: "'x \<Rightarrow> uuid \<times> 'x"
  env_prices :: "'x \<Rightarrow> price_store"
  env_tasks :: "'x \<Rightarrow> database \<Rightarrow> 'x \<times> database"
  env_trade_channel :: "'x \<Rightarrow> bool"
  env_uuid_text :: "uuid \<Rightarrow> string"

record 'x world =
  w_db :: database
  w_out :: 'x
  w_calls :: "api_call list"
  w_notes :: "notify_event list"
  w_events :: "runtime_event list"

type_synonym ('x, 'a) io = "('x world, 'a) prog"

text \<open>Other tasks run at an await point.\<close>

definition let_tasks_run :: "'x environment \<Rightarrow> 'x world \<Rightarrow> 'x world" where
  "let_tasks_run env w =
     (let (x, db) = env_tasks env (w_out w) (w_db w) in w\<lparr>w_out := x, w_db := db\<rparr>)"

definition ok_value :: "string + 'a \<Rightarrow> 'a option" where
  "ok_value r = (case r of Inl _ \<Rightarrow> None | Inr v \<Rightarrow> Some v)"

definition is_ok :: "string + 'a \<Rightarrow> bool" where
  "is_ok r = (case r of Inl _ \<Rightarrow> False | Inr _ \<Rightarrow> True)"

definition call :: "'x environment \<Rightarrow> (string + 'a \<Rightarrow> api_call) \<Rightarrow> ('x, 'a) outcall \<Rightarrow> ('x, 'a) io" where
  "call env entry f = (\<lambda>w. case f (w_out w) of (r, x) \<Rightarrow>
     (case r of Inl e \<Rightarrow> Inl (Anyhow e) | Inr v \<Rightarrow> Inr v,
      let_tasks_run env (w\<lparr>w_out := x, w_calls := w_calls w @ [entry r]\<rparr>)))"

definition sleep :: "'x environment \<Rightarrow> int \<Rightarrow> ('x, unit) io" where
  "sleep env d = (\<lambda>w. (Inr (), let_tasks_run env (w\<lparr>w_out := env_sleep env d (w_out w)\<rparr>)))"

definition dbE :: "'x environment \<Rightarrow> 'a db_prog \<Rightarrow> ('x, 'a) io" where
  "dbE env m = (\<lambda>w. case m (w_db w) of (r, db) \<Rightarrow> (r, let_tasks_run env (w\<lparr>w_db := db\<rparr>)))"

definition utc_now :: "'x environment \<Rightarrow> ('x, datetime) io" where
  "utc_now env = askW (\<lambda>w. env_utc_now env (w_out w))"

definition new_uuid :: "'x environment \<Rightarrow> ('x, uuid) io" where
  "new_uuid env = (\<lambda>w. case env_new_uuid env (w_out w) of (i, x) \<Rightarrow> (Inr i, w\<lparr>w_out := x\<rparr>))"

definition spawn_notification :: "notify_event \<Rightarrow> ('x, unit) io" where
  "spawn_notification ev = modifyW (\<lambda>w. w\<lparr>w_notes := w_notes w @ [ev]\<rparr>)"

definition send_trade_event :: "'x environment \<Rightarrow> trade_event \<Rightarrow> ('x, unit) io" where
  "send_trade_event env ev = (\<lambda>w.
     if env_trade_channel env (w_out w)
     then (Inr (), let_tasks_run env (w\<lparr>w_events := w_events w @ [TradeSent ev]\<rparr>))
     else (Inl (Anyhow ''channel closed''), w))"

definition spawn_trade_open_recording :: "trade \<Rightarrow> (string \<rightharpoonup> decimal) \<Rightarrow> decimal \<Rightarrow> ('x, unit) io" where
  "spawn_trade_open_recording t indicators allocation_pct =
     modifyW (\<lambda>w. w\<lparr>w_events := w_events w @ [TradeOpenRecording t indicators allocation_pct]\<rparr>)"

end
