(* ===== verification/Trader.thy ===== *)
theory Trader
  imports Exchange_Api Transactions
begin

text \<open>
  The trader (\<open>executor/src/trader.rs\<close> and \<open>executor/src/trader/\<close>): it opens and closes the
  trades of one account on one exchange. Error values carry the fixed part of the message.
  The polling loop has fuel computed from the timeout; \<open>Trader_Poll\<close> shows that it is enough.
\<close>

section \<open>The trader\<close>

record 'x trader =
  tr_exchange :: exchange
  tr_account_id :: uuid
  tr_account_name :: string
  tr_api :: "'x exchange_api"
  tr_position_sizer :: position_sizer
  tr_liquidation_margin_level :: decimal
  tr_dry_run :: bool
  tr_poll_timeout :: int

definition milliseconds :: "int \<Rightarrow> int" where "milliseconds n = n * 1000000"

definition DEFAULT_POLL_TIMEOUT :: int where "DEFAULT_POLL_TIMEOUT = secs 5"

definition trader_new ::
  "exchange \<Rightarrow> uuid \<Rightarrow> string \<Rightarrow> 'x exchange_api \<Rightarrow> position_sizer \<Rightarrow> decimal \<Rightarrow> bool \<Rightarrow> 'x trader" where
  "trader_new ex aid name api sizer level dry =
     \<lparr>tr_exchange = ex, tr_account_id = aid, tr_account_name = name, tr_api = api,
      tr_position_sizer = sizer, tr_liquidation_margin_level = level, tr_dry_run = dry,
      tr_poll_timeout = DEFAULT_POLL_TIMEOUT\<rparr>"

definition with_poll_timeout :: "'x trader \<Rightarrow> int \<Rightarrow> 'x trader" where
  "with_poll_timeout tr timeout = tr\<lparr>tr_poll_timeout := timeout\<rparr>"

fun opening_side :: "direction \<Rightarrow> side" where
  "opening_side Long = Buy"
| "opening_side Short = Sell"

fun closing_side :: "direction \<Rightarrow> side" where
  "closing_side Long = Sell"
| "closing_side Short = Buy"

definition order_failed_event :: "'x trader \<Rightarrow> string \<Rightarrow> pair \<Rightarrow> string \<Rightarrow> notify_event" where
  "order_failed_event tr strategy_name pair reason =
     OrderFailed (tr_account_name tr) (tr_exchange tr) strategy_name pair reason"

definition latest_bid_ask :: "'x environment \<Rightarrow> 'x trader \<Rightarrow> pair \<Rightarrow> ('x, decimal \<times> decimal) io" where
  "latest_bid_ask env tr pair =
     bindE (askW (\<lambda>w. store_bid_ask (env_prices env (w_out w))
                \<lparr>fk_exchange = tr_exchange tr, fk_pair = pair\<rparr>)) (\<lambda>q.
     liftR (ok_or (Anyhow ''failed to get bid/ask: no price available'') q))"

section \<open>Opening: fills\<close>

type_synonym fill = "decimal \<times> decimal \<times> decimal"

definition POLL_EXECUTIONS_INITIAL_DELAY :: int where
  "POLL_EXECUTIONS_INITIAL_DELAY = milliseconds 100"
definition POLL_EXECUTIONS_MAX_DELAY :: int where
  "POLL_EXECUTIONS_MAX_DELAY = milliseconds 1600"
definition EXECUTIONS_RECONCILE_DELAY :: int where
  "EXECUTIONS_RECONCILE_DELAY = milliseconds 500"

definition aggregate_executions :: "rounding \<Rightarrow> execution list \<Rightarrow> fill result" where
  "aggregate_executions rnd execs =
     weighted_avg_fills rnd (map (\<lambda>e. (xc_price e, xc_size e, xc_commission e)) execs)"

definition get_executions :: "'x environment \<Rightarrow> 'x trader \<Rightarrow> string \<Rightarrow> string \<Rightarrow> ('x, execution list) io" where
  "get_executions env tr pair order_id =
     call env (\<lambda>_. ReadExecutions pair order_id) (api_get_executions (tr_api tr) pair order_id)"

definition get_child_orders :: "'x environment \<Rightarrow> 'x trader \<Rightarrow> string \<Rightarrow> string \<Rightarrow> ('x, child_order list) io" where
  "get_child_orders env tr pair order_id =
     call env (\<lambda>_. ReadOrders pair order_id) (api_get_child_orders (tr_api tr) pair order_id)"

definition send_child_order :: "'x environment \<Rightarrow> 'x trader \<Rightarrow> send_child_order_request \<Rightarrow> ('x, string) io" where
  "send_child_order env tr req =
     call env (\<lambda>r. SentOrder req (ok_value r)) (api_send_child_order (tr_api tr) req)"

definition cancel_child_order :: "'x environment \<Rightarrow> 'x trader \<Rightarrow> string \<Rightarrow> string \<Rightarrow> ('x, unit) io" where
  "cancel_child_order env tr pair order_id =
     call env (\<lambda>r. CanceledOrder pair order_id (is_ok r)) (api_cancel_child_order (tr_api tr) pair order_id)"

definition stop_order_status_of ::
  "'x environment \<Rightarrow> 'x trader \<Rightarrow> string \<Rightarrow> string \<Rightarrow> ('x, stop_order_status) io" where
  "stop_order_status_of env tr pair stop_id =
     call env (\<lambda>r. ReadStop pair stop_id (ok_value r)) (api_stop_order_status (tr_api tr) pair stop_id)"

definition cancel_stop_order :: "'x environment \<Rightarrow> 'x trader \<Rightarrow> string \<Rightarrow> string \<Rightarrow> ('x, unit) io" where
  "cancel_stop_order env tr pair stop_id =
     call env (\<lambda>r. CanceledStop pair stop_id (is_ok r)) (api_cancel_stop_order (tr_api tr) pair stop_id)"

text \<open>The result is the text of the error that the callers embed in their own.\<close>

definition cleanup_unfilled_order ::
  "'x environment \<Rightarrow> 'x trader \<Rightarrow> string \<Rightarrow> string \<Rightarrow> string \<Rightarrow> ('x, string) io" where
  "cleanup_unfilled_order env tr pair order_id context =
     bindE (attempt (get_child_orders env tr pair order_id)) (\<lambda>r.
     case r of
       Inl e \<Rightarrow> returnE (context @ '': failed to get child orders; may be orphan'')
     | Inr orders \<Rightarrow>
         (let state = (case orders of [] \<Rightarrow> None | o1 # _ \<Rightarrow> Some (co_child_order_state o1)) in
          case state of
            Some Completed \<Rightarrow> returnE (context @ '': state=Completed; manual reconciliation required'')
          | Some Canceled \<Rightarrow> returnE (context @ '': not filled, no cleanup needed'')
          | Some Expired \<Rightarrow> returnE (context @ '': not filled, no cleanup needed'')
          | Some Rejected \<Rightarrow> returnE (context @ '': not filled, no cleanup needed'')
          | _ \<Rightarrow>
              bindE (attempt (cancel_child_order env tr pair order_id)) (\<lambda>c.
              case c of
                Inr _ \<Rightarrow> returnE (context @ '': cancel requested'')
              | Inl e \<Rightarrow> returnE (context @ '': failed to cancel order; manual intervention required''))))"

text \<open>
  The loop of \<open>poll_executions\<close>. Running out of fuel is a panic of the model only.
\<close>

definition poll_out_of_fuel :: error where "poll_out_of_fuel = Panic ''poll_executions: out of fuel''"

fun poll_loop ::
  "nat \<Rightarrow> rounding \<Rightarrow> 'x environment \<Rightarrow> 'x trader \<Rightarrow> string \<Rightarrow> string \<Rightarrow> int \<Rightarrow> int \<Rightarrow> int \<Rightarrow> ('x, fill) io" where
  "poll_loop 0 rnd env tr acceptance_id pair timeout start delay = failE poll_out_of_fuel"
| "poll_loop (Suc n) rnd env tr acceptance_id pair timeout start delay =
     bindE (askW (\<lambda>w. env_instant env (w_out w))) (\<lambda>now.
     if now - start > timeout then failE (Anyhow ''failed to poll executions: timed out'')
     else
     bindE (get_executions env tr pair acceptance_id) (\<lambda>execs.
     let continue = bindE (sleep env delay) (\<lambda>_.
           poll_loop n rnd env tr acceptance_id pair timeout start
             (min (delay * 2) POLL_EXECUTIONS_MAX_DELAY)) in
     if execs \<noteq> []
     then (case aggregate_executions rnd execs of
             Inr outcome \<Rightarrow> returnE outcome
           | Inl (Panic p) \<Rightarrow> failE (Panic p)
           | Inl (Anyhow _) \<Rightarrow> continue)
     else continue))"

definition poll_fuel :: "int \<Rightarrow> nat" where
  "poll_fuel timeout = nat (timeout div POLL_EXECUTIONS_INITIAL_DELAY) + 2"

definition poll_executions ::
  "rounding \<Rightarrow> 'x environment \<Rightarrow> 'x trader \<Rightarrow> string \<Rightarrow> string \<Rightarrow> int \<Rightarrow> ('x, fill) io" where
  "poll_executions rnd env tr acceptance_id pair timeout =
     bindE (askW (\<lambda>w. env_instant env (w_out w))) (\<lambda>start.
     poll_loop (poll_fuel timeout) rnd env tr acceptance_id pair timeout start
       POLL_EXECUTIONS_INITIAL_DELAY)"

definition signal_to_send_child_order :: "signal \<Rightarrow> decimal \<Rightarrow> send_child_order_request" where
  "signal_to_send_child_order sig quantity =
     \<lparr>rq_product_code = s_pair sig, rq_child_order_type = Market,
      rq_side = opening_side (s_direction sig), rq_size = quantity, rq_price = None,
      rq_minute_to_expire = None, rq_time_in_force = None, rq_close_position_id = None\<rparr>"

definition fail_open :: "('x, string) io \<Rightarrow> ('x, fill) io" where
  "fail_open cleanup = bindE cleanup (\<lambda>cleanup_err.
     failE (Anyhow (''failed to open order; cleanup: '' @ cleanup_err)))"

definition finalize_reconciled_fill ::
  "rounding \<Rightarrow> 'x environment \<Rightarrow> 'x trader \<Rightarrow> string \<Rightarrow> string \<Rightarrow> execution list \<Rightarrow> ('x, fill) io" where
  "finalize_reconciled_fill rnd env tr pair order_id execs =
     (case aggregate_executions rnd execs of
        Inr outcome \<Rightarrow> returnE outcome
      | Inl (Panic p) \<Rightarrow> failE (Panic p)
      | Inl (Anyhow _) \<Rightarrow>
          fail_open (cleanup_unfilled_order env tr pair order_id ''failed to aggregate executions''))"

definition reconcile_from_child_order ::
  "rounding \<Rightarrow> 'x environment \<Rightarrow> 'x trader \<Rightarrow> string \<Rightarrow> string \<Rightarrow> child_order \<Rightarrow> ('x, fill) io" where
  "reconcile_from_child_order rnd env tr pair order_id ord =
     (case co_child_order_state ord of
        Completed \<Rightarrow>
          bindE (sleep env EXECUTIONS_RECONCILE_DELAY) (\<lambda>_.
          bindE (attempt (get_executions env tr pair order_id)) (\<lambda>r.
          let from_order =
                (if co_average_price ord > 0 \<and> co_executed_size ord > 0
                 then returnE (co_average_price ord, co_executed_size ord, 0)
                 else failE (Anyhow ''invalid order: state=Completed but no execution data available''))
          in case r of
               Inr execs \<Rightarrow> if execs \<noteq> [] then liftR (aggregate_executions rnd execs) else from_order
             | Inl _ \<Rightarrow> from_order))
      | Active \<Rightarrow>
          fail_open (cleanup_unfilled_order env tr pair order_id
            ''invalid order: no executions and still active'')
      | _ \<Rightarrow> failE (Anyhow ''invalid order: not filled''))"

definition reconcile_via_child_order_lookup ::
  "rounding \<Rightarrow> 'x environment \<Rightarrow> 'x trader \<Rightarrow> string \<Rightarrow> string \<Rightarrow> ('x, fill) io" where
  "reconcile_via_child_order_lookup rnd env tr pair order_id =
     bindE (attempt (get_child_orders env tr pair order_id)) (\<lambda>r.
     case r of
       Inr (o1 # _) \<Rightarrow> reconcile_from_child_order rnd env tr pair order_id o1
     | Inr [] \<Rightarrow>
         fail_open (cleanup_unfilled_order env tr pair order_id
           ''invalid order: no executions and no order record found'')
     | Inl _ \<Rightarrow>
         fail_open (cleanup_unfilled_order env tr pair order_id ''failed to get child orders''))"

definition reconcile_unpolled_open ::
  "rounding \<Rightarrow> 'x environment \<Rightarrow> 'x trader \<Rightarrow> string \<Rightarrow> string \<Rightarrow> ('x, fill) io" where
  "reconcile_unpolled_open rnd env tr pair order_id =
     bindE (attempt (get_executions env tr pair order_id)) (\<lambda>r.
     case r of
       Inr execs \<Rightarrow>
         if execs \<noteq> [] then finalize_reconciled_fill rnd env tr pair order_id execs
         else reconcile_via_child_order_lookup rnd env tr pair order_id
     | Inl _ \<Rightarrow>
         fail_open (cleanup_unfilled_order env tr pair order_id ''failed to get executions''))"

definition fill_open_live ::
  "rounding \<Rightarrow> 'x environment \<Rightarrow> 'x trader \<Rightarrow> signal \<Rightarrow> decimal \<Rightarrow> ('x, fill) io" where
  "fill_open_live rnd env tr sig quantity =
     bindE (send_child_order env tr (signal_to_send_child_order sig quantity)) (\<lambda>order_id.
     bindE (attempt (poll_executions rnd env tr order_id (s_pair sig) (tr_poll_timeout tr))) (\<lambda>r.
     case r of
       Inr outcome \<Rightarrow> returnE outcome
     | Inl poll_err \<Rightarrow>
         bindE (sleep env EXECUTIONS_RECONCILE_DELAY) (\<lambda>_.
         reconcile_unpolled_open rnd env tr (s_pair sig) order_id)))"

definition fill_open ::
  "rounding \<Rightarrow> 'x environment \<Rightarrow> 'x trader \<Rightarrow> signal \<Rightarrow> decimal \<Rightarrow> ('x, fill) io" where
  "fill_open rnd env tr sig quantity =
     (if tr_dry_run tr
      then bindE (latest_bid_ask env tr (s_pair sig)) (\<lambda>(bid, ask).
        let price = (case s_direction sig of Long \<Rightarrow> ask | Short \<Rightarrow> bid) in
        returnE (price, quantity, commission_estimate ActionOpen (tr_exchange tr) price quantity))
      else fill_open_live rnd env tr sig quantity)"

text \<open>The retry loop of \<open>resolve_position_id_with_retry\<close>; the argument is \<open>MAX_ATTEMPTS - attempt\<close>.\<close>

fun resolve_attempts ::
  "nat \<Rightarrow> 'x environment \<Rightarrow> 'x trader \<Rightarrow> string \<Rightarrow> datetime \<Rightarrow> side \<Rightarrow> decimal \<Rightarrow> ('x, string option) io" where
  "resolve_attempts remaining env tr product_code after expected_side expected_size =
     bindE (attempt (call env (\<lambda>_. ResolvedPosition product_code expected_side expected_size)
       (api_resolve_position_id (tr_api tr) product_code after expected_side expected_size))) (\<lambda>r.
     case r of
       Inr (Some pid) \<Rightarrow> returnE (Some pid)
     | _ \<Rightarrow>
         (case remaining of
            0 \<Rightarrow> returnE None
          | Suc n \<Rightarrow> bindE (sleep env (milliseconds 500)) (\<lambda>_.
              resolve_attempts n env tr product_code after expected_side expected_size)))"

definition resolve_position_id_with_retry ::
  "'x environment \<Rightarrow> 'x trader \<Rightarrow> string \<Rightarrow> datetime \<Rightarrow> side \<Rightarrow> decimal \<Rightarrow> ('x, string option) io" where
  "resolve_position_id_with_retry = resolve_attempts 2"


section \<open>Closing: fills\<close>

definition exchange_side_to_direction :: "string \<Rightarrow> direction option" where
  "exchange_side_to_direction sd =
     (let u = to_ascii_uppercase (trim sd) in
      if u = ''BUY'' then Some Long else if u = ''SELL'' then Some Short else None)"

definition stop_guard_before_close ::
  "'x environment \<Rightarrow> 'x trader \<Rightarrow> trade \<Rightarrow> ('x, (decimal \<times> decimal) option) io" where
  "stop_guard_before_close env tr t =
     (case t_stop_order_id t of
        None \<Rightarrow> returnE None
      | Some stop_id \<Rightarrow>
          bindE (attempt (stop_order_status_of env tr (t_pair t) stop_id)) (\<lambda>r.
          case r of
            Inr (StopExecuted price commission) \<Rightarrow> returnE (Some (price, commission))
          | Inr StopActive \<Rightarrow>
              bindE (attempt (cancel_stop_order env tr (t_pair t) stop_id)) (\<lambda>c.
              case c of
                Inr _ \<Rightarrow> returnE None
              | Inl _ \<Rightarrow>
                  bindE (attempt (stop_order_status_of env tr (t_pair t) stop_id)) (\<lambda>r2.
                  case r2 of
                    Inr (StopExecuted price commission) \<Rightarrow> returnE (Some (price, commission))
                  | Inr StopGone \<Rightarrow> returnE None
                  | _ \<Rightarrow> failE (Anyhow ''failed to cancel stop order; aborting close to avoid double-close'')))
          | Inr StopGone \<Rightarrow> returnE None
          | Inl _ \<Rightarrow> failE (Anyhow ''failed to get stop order status; aborting close'')))"

definition ensure_close_position_id_present :: "'x trader \<Rightarrow> trade \<Rightarrow> unit result" where
  "ensure_close_position_id_present tr t =
     (if api_requires_close_position_id (tr_api tr) \<and> t_exchange_position_id t = None
      then Inl (Anyhow ''invalid trade: exchange_position_id is required but missing'')
      else Inr ())"

definition close_request :: "trade \<Rightarrow> decimal \<Rightarrow> send_child_order_request" where
  "close_request t sz =
     \<lparr>rq_product_code = t_pair t, rq_child_order_type = Market,
      rq_side = closing_side (t_direction t), rq_size = sz, rq_price = None,
      rq_minute_to_expire = None, rq_time_in_force = None,
      rq_close_position_id = t_exchange_position_id t\<rparr>"

definition fill_close_live ::
  "rounding \<Rightarrow> 'x environment \<Rightarrow> 'x trader \<Rightarrow> trade \<Rightarrow> decimal \<Rightarrow> ('x, decimal \<times> decimal) io" where
  "fill_close_live rnd env tr t sz =
     bindE (stop_guard_before_close env tr t) (\<lambda>guard.
     case guard of
       Some fill \<Rightarrow> returnE fill
     | None \<Rightarrow>
         bindE (liftR (ensure_close_position_id_present tr t)) (\<lambda>_.
         bindE (send_child_order env tr (close_request t sz)) (\<lambda>acceptance_id.
         bindE (poll_executions rnd env tr acceptance_id (t_pair t) (tr_poll_timeout tr))
           (\<lambda>(price, _, commission). returnE (price, commission)))))"

definition fill_close ::
  "rounding \<Rightarrow> 'x environment \<Rightarrow> 'x trader \<Rightarrow> trade \<Rightarrow> ('x, decimal \<times> decimal) io" where
  "fill_close rnd env tr t =
     (if tr_dry_run tr
      then bindE (latest_bid_ask env tr (t_pair t)) (\<lambda>(bid, ask).
        let price = (case t_direction t of Long \<Rightarrow> bid | Short \<Rightarrow> ask) in
        returnE (price, commission_estimate ActionClose (tr_exchange tr) price (t_quantity t)))
      else fill_close_live rnd env tr t (t_quantity t))"

definition fill_close_size ::
  "rounding \<Rightarrow> 'x environment \<Rightarrow> 'x trader \<Rightarrow> trade \<Rightarrow> decimal \<Rightarrow> ('x, decimal \<times> decimal) io" where
  "fill_close_size rnd env tr t sz =
     (if tr_dry_run tr then fill_close rnd env tr t else fill_close_live rnd env tr t sz)"

text \<open>The loop over the positions of the product, with its running total.\<close>

fun sum_positions :: "rounding \<Rightarrow> trade \<Rightarrow> exchange_position list \<Rightarrow> decimal \<Rightarrow> decimal result" where
  "sum_positions rnd t [] acc = Inr acc"
| "sum_positions rnd t (p # ps) acc =
     (case exchange_side_to_direction (xp_side p) of
        Some d \<Rightarrow>
          if d = t_direction t then sum_positions rnd t ps (dadd rnd acc (xp_size p))
          else Inl (Anyhow ''invalid position: opposite side; manual intervention required'')
      | None \<Rightarrow> Inl (Anyhow ''unsupported side; manual intervention required''))"

definition sum_exchange_position_size ::
  "rounding \<Rightarrow> 'x environment \<Rightarrow> 'x trader \<Rightarrow> trade \<Rightarrow> ('x, decimal \<times> bool) io" where
  "sum_exchange_position_size rnd env tr t =
     bindE (call env (\<lambda>_. ReadPositions (t_pair t)) (api_get_positions (tr_api tr) (t_pair t))) (\<lambda>positions.
     let ps = filter (\<lambda>p. xp_product_code p = t_pair t \<and> xp_size p > 0) positions in
     bindE (liftR (sum_positions rnd t ps 0)) (\<lambda>total.
     returnE (total, ps \<noteq> [])))"

definition resolve_stale_exit_price :: "rounding \<Rightarrow> 'x environment \<Rightarrow> 'x trader \<Rightarrow> trade \<Rightarrow> ('x, decimal) io" where
  "resolve_stale_exit_price rnd env tr t =
     bindE (askW (\<lambda>w. store_bid_ask (env_prices env (w_out w))
                \<lparr>fk_exchange = tr_exchange tr, fk_pair = t_pair t\<rparr>)) (\<lambda>q.
     case q of
       Some (bid, ask) \<Rightarrow> returnE (rnd (dadd rnd bid ask / 2))
     | None \<Rightarrow> returnE (t_entry_price t))"

definition recover_exit_when_already_closed ::
  "rounding \<Rightarrow> 'x environment \<Rightarrow> 'x trader \<Rightarrow> trade \<Rightarrow> ('x, decimal \<times> decimal \<times> bool) io" where
  "recover_exit_when_already_closed rnd env tr t =
     bindE (resolve_stale_exit_price rnd env tr t) (\<lambda>price. returnE (price, 0, True))"

definition recover_exit_when_full_size ::
  "rounding \<Rightarrow> 'x environment \<Rightarrow> 'x trader \<Rightarrow> trade \<Rightarrow> ('x, decimal \<times> decimal \<times> bool) io" where
  "recover_exit_when_full_size rnd env tr t =
     bindE (fill_close rnd env tr t) (\<lambda>(price, commission). returnE (price, commission, False))"

definition recover_exit_when_partial_size ::
  "rounding \<Rightarrow> 'x environment \<Rightarrow> 'x trader \<Rightarrow> trade \<Rightarrow> decimal \<Rightarrow> ('x, decimal \<times> decimal \<times> bool) io" where
  "recover_exit_when_partial_size rnd env tr t sz =
     bindE (fill_close_size rnd env tr t sz) (\<lambda>(price, commission). returnE (price, commission, True))"

definition fill_close_with_stale_recovery ::
  "rounding \<Rightarrow> 'x environment \<Rightarrow> 'x trader \<Rightarrow> trade \<Rightarrow> ('x, decimal \<times> decimal \<times> bool) io" where
  "fill_close_with_stale_recovery rnd env tr t =
     bindE (sum_exchange_position_size rnd env tr t) (\<lambda>(total_exchange_size, has_any_for_product).
     if \<not> has_any_for_product then recover_exit_when_already_closed rnd env tr t
     else if total_exchange_size = t_quantity t then recover_exit_when_full_size rnd env tr t
     else if total_exchange_size < t_quantity t
     then recover_exit_when_partial_size rnd env tr t total_exchange_size
     else failE (Anyhow ''invalid position: exchange size exceeds trade quantity''))"

definition snapshot_live_sfd_before_close :: "'x environment \<Rightarrow> 'x trader \<Rightarrow> trade \<Rightarrow> ('x, decimal) io" where
  "snapshot_live_sfd_before_close env tr t =
     bindE (attempt (call env (\<lambda>_. ReadSfd (t_pair t)) (api_fetch_close_sfd (tr_api tr) (t_pair t)))) (\<lambda>r.
     case r of Inr v \<Rightarrow> returnE v | Inl _ \<Rightarrow> returnE 0)"

section \<open>Opening a trade\<close>

definition truncate_yen :: "decimal \<Rightarrow> decimal" where
  "truncate_yen amount = trunc amount"

definition prepare_entry ::
  "rounding \<Rightarrow> 'x environment \<Rightarrow> 'x trader \<Rightarrow> signal \<Rightarrow> ('x, decimal \<times> decimal \<times> datetime) io" where
  "prepare_entry rnd env tr sig =
     bindE (dbE env (get_account (tr_account_id tr))) (\<lambda>acc.
     bindE (liftR (ok_or (Anyhow ''failed to load trading account: not found'') acc)) (\<lambda>account.
     let balance = a_current_balance account; leverage = a_leverage account in
     if leverage \<le> 0 then failE (Anyhow ''invalid account: non-positive leverage'')
     else
     bindE (latest_bid_ask env tr (s_pair sig)) (\<lambda>(bid, ask).
     let hint_price = (case s_direction sig of Long \<Rightarrow> ask | Short \<Rightarrow> bid) in
     bindE (liftR (calculate_quantity rnd (tr_position_sizer tr) (s_pair sig) balance hint_price
              leverage (s_allocation_pct sig) (s_stop_loss_pct sig) (tr_liquidation_margin_level tr)))
       (\<lambda>q.
     bindE (liftR (ok_or (Anyhow ''invalid quantity: balance too small to open minimum order'') q))
       (\<lambda>quantity.
     bindE (utc_now env) (\<lambda>now.
     returnE (leverage, quantity, now - secs 1)))))))"

definition compute_stop_levels :: "rounding \<Rightarrow> signal \<Rightarrow> decimal \<Rightarrow> decimal \<times> decimal option" where
  "compute_stop_levels rnd sig fill_price =
     (case s_direction sig of
        Long \<Rightarrow> (dmul rnd fill_price (dsub rnd 1 (s_stop_loss_pct sig)),
                 map_option (\<lambda>pct. dmul rnd fill_price (dadd rnd 1 pct)) (s_take_profit_pct sig))
      | Short \<Rightarrow> (dmul rnd fill_price (dadd rnd 1 (s_stop_loss_pct sig)),
                  map_option (\<lambda>pct. dmul rnd fill_price (dsub rnd 1 pct)) (s_take_profit_pct sig)))"

definition resolve_exchange_position_id ::
  "'x environment \<Rightarrow> 'x trader \<Rightarrow> signal \<Rightarrow> datetime \<Rightarrow> decimal \<Rightarrow> ('x, string option) io" where
  "resolve_exchange_position_id env tr sig position_cutoff actual_qty =
     bindE (if tr_dry_run tr \<or> \<not> api_requires_close_position_id (tr_api tr) then returnE None
            else resolve_position_id_with_retry env tr (s_pair sig) position_cutoff
                   (opening_side (s_direction sig)) actual_qty) (\<lambda>exchange_position_id.
     bindE (if \<not> tr_dry_run tr \<and> api_requires_close_position_id (tr_api tr) \<and> exchange_position_id = None
            then spawn_notification (order_failed_event tr (s_strategy_name sig) (s_pair sig)
                   ''failed to resolve exchange_position_id after retries'')
            else returnE ()) (\<lambda>_.
     returnE exchange_position_id))"

definition place_protective_stop_order ::
  "rounding \<Rightarrow> 'x environment \<Rightarrow> 'x trader \<Rightarrow> signal \<Rightarrow> decimal \<Rightarrow> decimal \<Rightarrow> string option \<Rightarrow> ('x, string option) io" where
  "place_protective_stop_order rnd env tr sig actual_qty stop_loss exchange_position_id =
     (if tr_dry_run tr then returnE None
      else
      let close_side = closing_side (s_direction sig) in
      bindE (liftR (round_trigger_price rnd (tr_position_sizer tr) (s_pair sig) stop_loss (s_direction sig)))
        (\<lambda>trigger.
      bindE (attempt (call env
          (\<lambda>r. PlacedStop (s_pair sig) close_side actual_qty trigger exchange_position_id (ok_value r))
          (api_place_stop_order (tr_api tr) (s_pair sig) close_side actual_qty trigger exchange_position_id)))
        (\<lambda>r.
      case r of
        Inr i \<Rightarrow> returnE (Some i)
      | Inl _ \<Rightarrow>
          bindE (spawn_notification (order_failed_event tr (s_strategy_name sig) (s_pair sig)
            ''failed to place exchange-side stop order'')) (\<lambda>_. returnE None))))"


definition persist_open_trade ::
  "'x environment \<Rightarrow> 'x trader \<Rightarrow> trade \<Rightarrow> decimal \<Rightarrow> ('x, unit) io" where
  "persist_open_trade env tr t margin =
     bindE (attempt (dbE env (persist_open_tx (tr_account_id tr) t margin))) (\<lambda>r.
     case r of
       Inr _ \<Rightarrow> returnE ()
     | Inl e \<Rightarrow>
         bindE (if tr_dry_run tr then returnE ()
                else spawn_notification (order_failed_event tr (t_strategy_name t) (t_pair t)
                  ''failed to commit trade open; orphan position requires manual reconciliation'')) (\<lambda>_.
         failE (Anyhow e)))"

definition notify_order_filled :: "'x trader \<Rightarrow> trade \<Rightarrow> decimal \<Rightarrow> decimal \<Rightarrow> datetime \<Rightarrow> ('x, unit) io" where
  "notify_order_filled tr t actual_qty fill_price entry_at =
     spawn_notification (OrderFilled (tr_account_name tr) (tr_exchange tr) (t_id t) (t_pair t)
       (t_direction t) actual_qty fill_price entry_at)"

text \<open>\<open>OrderExecutor::execute\<close>.\<close>

definition execute :: "rounding \<Rightarrow> 'x environment \<Rightarrow> 'x trader \<Rightarrow> signal \<Rightarrow> ('x, trade) io" where
  "execute rnd env tr sig =
     bindE (prepare_entry rnd env tr sig) (\<lambda>(leverage, quantity, position_cutoff).
     bindE (fill_open rnd env tr sig quantity) (\<lambda>(fill_price, actual_qty, open_commission).
     let (stop_loss, take_profit) = compute_stop_levels rnd sig fill_price in
     bindE (utc_now env) (\<lambda>entry_at.
     bindE (liftR (ddiv rnd (dmul rnd fill_price actual_qty) leverage)) (\<lambda>m.
     let margin = truncate_yen m in
     bindE (resolve_exchange_position_id env tr sig position_cutoff actual_qty) (\<lambda>exchange_position_id.
     bindE (place_protective_stop_order rnd env tr sig actual_qty stop_loss exchange_position_id)
       (\<lambda>stop_order_id.
     bindE (new_uuid env) (\<lambda>new_id.
     let t = \<lparr>t_id = new_id, t_account_id = tr_account_id tr, t_strategy_name = s_strategy_name sig,
              t_pair = s_pair sig, t_exchange = tr_exchange tr, t_direction = s_direction sig,
              t_entry_price = fill_price, t_exit_price = None, t_stop_loss = stop_loss,
              t_take_profit = take_profit, t_quantity = actual_qty, t_leverage = leverage,
              t_fees = open_commission, t_entry_at = entry_at, t_exit_at = None,
              t_pnl_amount = None, t_exit_reason = None, t_status = Open,
              t_max_hold_until = s_max_hold_until sig,
              t_exchange_position_id = exchange_position_id, t_stop_order_id = stop_order_id\<rparr> in
     bindE (persist_open_trade env tr t margin) (\<lambda>_.
     bindE (notify_order_filled tr t actual_qty fill_price entry_at) (\<lambda>_.
     returnE t)))))))))"

section \<open>Closing a trade\<close>

text \<open>\<open>Uuid::parse_str\<close> is applied to the printed form of an identifier; the model passes the identifier.\<close>

definition load_trade_for_close ::
  "'x environment \<Rightarrow> 'x trader \<Rightarrow> uuid \<Rightarrow> ('x, trade \<times> bool) io" where
  "load_trade_for_close env tr tid =
     bindE (utc_now env) (\<lambda>now.
     bindE (dbE env (acquire_close_lock now tid (tr_account_id tr))) (\<lambda>lock.
     bindE (liftR (ok_or (Anyhow ''invalid trade: not in open state'') lock)) (\<lambda>l.
     returnE (lock_trade l, was_stale_recovery l))))"

definition close_and_release_lock_on_error ::
  "rounding \<Rightarrow> 'x environment \<Rightarrow> 'x trader \<Rightarrow> uuid \<Rightarrow> trade \<Rightarrow> bool \<Rightarrow> ('x, decimal \<times> decimal \<times> bool) io" where
  "close_and_release_lock_on_error rnd env tr tid t stale =
     bindE (attempt (if \<not> tr_dry_run tr \<and> stale then fill_close_with_stale_recovery rnd env tr t
                     else bindE (fill_close rnd env tr t) (\<lambda>(price, commission).
                       returnE (price, commission, False)))) (\<lambda>r.
     case r of
       Inr x \<Rightarrow> returnE x
     | Inl e \<Rightarrow>
         bindE (attempt (dbE env (release_close_lock tid))) (\<lambda>_. failE (Anyhow e)))"

definition handle_close_persist_failure :: "'x trader \<Rightarrow> trade \<Rightarrow> ('x, unit) io" where
  "handle_close_persist_failure tr c =
     (if tr_dry_run tr then returnE ()
      else spawn_notification (order_failed_event tr (t_strategy_name c) (t_pair c)
        ''failed to commit trade close; trade stuck in closing status''))"

definition persist_closed_trade ::
  "rounding \<Rightarrow> 'x environment \<Rightarrow> 'x trader \<Rightarrow> trade \<Rightarrow> decimal \<Rightarrow> decimal \<Rightarrow> decimal \<Rightarrow> datetime
    \<Rightarrow> exit_reason \<Rightarrow> ('x, unit) io" where
  "persist_closed_trade rnd env tr c margin pnl_amount exit_price exit_at exit_reason =
     bindE (attempt (dbE env (persist_closed_tx rnd (tr_account_id tr) c margin pnl_amount
              exit_price exit_at exit_reason))) (\<lambda>r.
     case r of
       Inr _ \<Rightarrow> returnE ()
     | Inl e \<Rightarrow> bindE (handle_close_persist_failure tr c) (\<lambda>_. failE (Anyhow e)))"

definition notify_close_result :: "'x trader \<Rightarrow> trade \<Rightarrow> decimal \<Rightarrow> exit_reason \<Rightarrow> bool \<Rightarrow> ('x, unit) io" where
  "notify_close_result tr c pnl_amount exit_reason stale_approximate =
     bindE (spawn_notification (PositionClosed (tr_account_name tr) (tr_exchange tr) (t_id c)
              pnl_amount (exit_reason_as_str exit_reason))) (\<lambda>_.
     if stale_approximate
     then spawn_notification (order_failed_event tr (t_strategy_name c) (t_pair c)
            ''invalid close: stale-recovery reconciliation used an approximation'')
     else returnE ())"

definition closed_copy ::
  "rounding \<Rightarrow> trade \<Rightarrow> decimal \<Rightarrow> decimal \<Rightarrow> decimal \<Rightarrow> decimal \<Rightarrow> datetime \<Rightarrow> exit_reason \<Rightarrow> trade" where
  "closed_copy rnd t exit_price close_commission sfd_accrued pnl_amount exit_at exit_reason =
     t\<lparr>t_exit_price := Some exit_price,
       t_fees := dadd rnd (dadd rnd (t_fees t) close_commission) sfd_accrued,
       t_exit_at := Some exit_at, t_pnl_amount := Some pnl_amount,
       t_exit_reason := Some exit_reason, t_status := Closed\<rparr>"

definition trade_pnl :: "rounding \<Rightarrow> trade \<Rightarrow> decimal \<Rightarrow> decimal" where
  "trade_pnl rnd t exit_price =
     (let price_diff = (case t_direction t of
            Long \<Rightarrow> dsub rnd exit_price (t_entry_price t)
          | Short \<Rightarrow> dsub rnd (t_entry_price t) exit_price)
      in truncate_yen (dmul rnd price_diff (t_quantity t)))"

text \<open>\<open>OrderExecutor::close_position\<close>.\<close>

definition close_position ::
  "rounding \<Rightarrow> 'x environment \<Rightarrow> 'x trader \<Rightarrow> uuid \<Rightarrow> exit_reason \<Rightarrow> ('x, trade) io" where
  "close_position rnd env tr tid exit_reason =
     bindE (load_trade_for_close env tr tid) (\<lambda>(t, stale).
     bindE (if tr_dry_run tr then returnE None
            else bindE (snapshot_live_sfd_before_close env tr t) (\<lambda>v. returnE (Some v))) (\<lambda>live_sfd_snapshot.
     bindE (close_and_release_lock_on_error rnd env tr tid t stale)
       (\<lambda>(exit_price, close_commission, stale_approximate).
     let sfd_accrued = unwrap_or live_sfd_snapshot
           (sfd_estimate (tr_exchange tr) exit_price (t_quantity t));
         pnl_amount = trade_pnl rnd t exit_price in
     bindE (utc_now env) (\<lambda>exit_at.
     let c = closed_copy rnd t exit_price close_commission sfd_accrued pnl_amount exit_at exit_reason in
     bindE (liftR (ddiv rnd (dmul rnd (t_entry_price t) (t_quantity t)) (t_leverage t))) (\<lambda>m.
     bindE (persist_closed_trade rnd env tr c (truncate_yen m) pnl_amount exit_price exit_at exit_reason) (\<lambda>_.
     bindE (notify_close_result tr c pnl_amount exit_reason stale_approximate) (\<lambda>_.
     returnE c)))))))"

definition open_positions :: "'x environment \<Rightarrow> 'x trader \<Rightarrow> ('x, trade list) io" where
  "open_positions env tr = dbE env (get_open_trades_by_account (tr_account_id tr))"

end
