(* ===== verification/Call_Log.thy ===== *)
theory Call_Log
  imports Trader
begin

text \<open>
  Reasoning about the log of exchange calls. \<open>logs R m\<close>: every run of \<open>m\<close> only appends to
  the log, and what it appends satisfies \<open>R\<close> together with the result. \<open>only p m\<close>: every
  appended entry satisfies \<open>p\<close>.
\<close>

definition logs :: "('a result \<Rightarrow> api_call list \<Rightarrow> bool) \<Rightarrow> ('x, 'a) io \<Rightarrow> bool" where
  "logs R m \<longleftrightarrow> (\<forall>w r w'. m w = (r, w') \<longrightarrow> (\<exists>new. w_calls w' = w_calls w @ new \<and> R r new))"

definition only :: "(api_call \<Rightarrow> bool) \<Rightarrow> ('x, 'a) io \<Rightarrow> bool" where
  "only p m \<longleftrightarrow> logs (\<lambda>_ new. list_all p new) m"

lemma logsD: "logs R m \<Longrightarrow> m w = (r, w') \<Longrightarrow> \<exists>new. w_calls w' = w_calls w @ new \<and> R r new"
  by (simp add: logs_def)

lemma logs_weaken: "logs R m \<Longrightarrow> (\<And>r new. R r new \<Longrightarrow> S r new) \<Longrightarrow> logs S m"
  unfolding logs_def by blast

lemma logs_bind:
  assumes "logs R m" and "\<And>e a. R (Inl e) a \<Longrightarrow> S (Inl e) a"
    and "\<And>x a. R (Inr x) a \<Longrightarrow> logs (\<lambda>r b. S r (a @ b)) (f x)"
  shows "logs S (bindE m f)"
  unfolding logs_def
proof (intro allI impI)
  fix w r w' assume run: "bindE m f w = (r, w')"
  obtain r1 w1 where m: "m w = (r1, w1)" by fastforce
  from logsD [OF assms(1) m] obtain a where a: "w_calls w1 = w_calls w @ a" "R r1 a" by blast
  show "\<exists>new. w_calls w' = w_calls w @ new \<and> S r new"
  proof (cases r1)
    case (Inl e)
    then show ?thesis using run m a assms(2) by (auto simp: run_simps)
  next
    case (Inr x)
    then have "f x w1 = (r, w')" using run m by (simp add: run_simps)
    from logsD [OF assms(3) this] a Inr obtain b where "w_calls w' = w_calls w1 @ b" "S r (a @ b)"
      by metis
    then show ?thesis using a by auto
  qed
qed

lemma logs_return: "S (Inr x) [] \<Longrightarrow> logs S (returnE x)"
  by (simp add: logs_def run_simps)

lemma logs_fail: "S (Inl e) [] \<Longrightarrow> logs S (failE e)"
  by (simp add: logs_def run_simps)

lemma logs_lift: "S r [] \<Longrightarrow> logs S (liftR r)"
  by (simp add: logs_def run_simps)

lemma calls_let_tasks_run [simp]: "w_calls (let_tasks_run env w) = w_calls w"
  by (simp add: let_tasks_run_def split: prod.splits)

lemma logs_call:
  "logs (\<lambda>r new. \<exists>out. new = [entry out] \<and>
      r = (case out of Inl e \<Rightarrow> Inl (Anyhow e) | Inr v \<Rightarrow> Inr v)) (call env entry f)"
  by (auto simp: logs_def call_def split: prod.splits)

lemma logs_attempt:
  assumes "logs R m"
  shows "logs (\<lambda>r new. case r of
      Inr (Inr x) \<Rightarrow> R (Inr x) new
    | Inr (Inl e) \<Rightarrow> R (Inl (Anyhow e)) new
    | Inl (Panic p) \<Rightarrow> R (Inl (Panic p)) new
    | Inl (Anyhow _) \<Rightarrow> False) (attempt m)"
  unfolding logs_def
proof (intro allI impI)
  fix w r w' assume run: "attempt m w = (r, w')"
  obtain r1 w1 where m: "m w = (r1, w1)" by fastforce
  from logsD [OF assms m] obtain a where "w_calls w1 = w_calls w @ a" "R r1 a" by blast
  then show "\<exists>new. w_calls w' = w_calls w @ new \<and> (case r of
      Inr (Inr x) \<Rightarrow> R (Inr x) new
    | Inr (Inl e) \<Rightarrow> R (Inl (Anyhow e)) new
    | Inl (Panic p) \<Rightarrow> R (Inl (Panic p)) new
    | Inl (Anyhow _) \<Rightarrow> False)"
    using run m by (intro exI [of _ a]) (auto simp: run_simps split: sum.splits error.splits)
qed

section \<open>Programs whose entries all satisfy a predicate\<close>

named_theorems only_rules

lemma only_bind [only_rules]: "only p m \<Longrightarrow> (\<And>x. only p (f x)) \<Longrightarrow> only p (bindE m f)"
  unfolding only_def by (rule logs_bind [where R = "\<lambda>_. list_all p"]) (auto elim: logs_weaken)

lemma only_attempt [only_rules]: "only p m \<Longrightarrow> only p (attempt m)"
  unfolding only_def
  by (erule logs_weaken [OF logs_attempt]) (auto split: sum.splits error.splits)

lemma only_pure [only_rules]:
  "only p (returnE x)" "only p (failE e)" "only p (liftR r)" "only p (askW g)" "only p (utc_now env)"
  "only p (sleep env d)" "only p (dbE env q)" "only p (spawn_notification ev)" "only p (new_uuid env)"
  by (auto simp: only_def logs_def run_simps utc_now_def sleep_def dbE_def spawn_notification_def
      new_uuid_def split: prod.splits)

lemma only_call [only_rules]: "(\<And>out. p (entry out)) \<Longrightarrow> only p (call env entry f)"
  unfolding only_def by (rule logs_weaken [OF logs_call]) auto

lemma only_if [only_rules]: "(c \<Longrightarrow> only p a) \<Longrightarrow> (\<not> c \<Longrightarrow> only p b) \<Longrightarrow> only p (if c then a else b)"
  by simp

lemma only_sum [only_rules]:
  "(\<And>a. r = Inl a \<Longrightarrow> only p (f a)) \<Longrightarrow> (\<And>b. r = Inr b \<Longrightarrow> only p (g b)) \<Longrightarrow>
   only p (case r of Inl a \<Rightarrow> f a | Inr b \<Rightarrow> g b)"
  by (cases r) auto

lemma only_option [only_rules]:
  "(x = None \<Longrightarrow> only p f) \<Longrightarrow> (\<And>v. x = Some v \<Longrightarrow> only p (g v)) \<Longrightarrow>
   only p (case x of None \<Rightarrow> f | Some v \<Rightarrow> g v)"
  by (cases x) auto

lemma only_list [only_rules]:
  "only p f \<Longrightarrow> (\<And>y ys. only p (g y ys)) \<Longrightarrow> only p (case xs of [] \<Rightarrow> f | y # ys \<Rightarrow> g y ys)"
  by (cases xs) auto

lemma only_error [only_rules]:
  "(\<And>s. only p (f s)) \<Longrightarrow> (\<And>s. only p (g s)) \<Longrightarrow>
   only p (case e of Anyhow s \<Rightarrow> f s | Panic s \<Rightarrow> g s)"
  by (cases e) auto

lemma only_state [only_rules]:
  "only p a \<Longrightarrow> only p b \<Longrightarrow> only p c \<Longrightarrow> only p d \<Longrightarrow> only p e \<Longrightarrow>
   only p (case s of Active \<Rightarrow> a | Completed \<Rightarrow> b | Canceled \<Rightarrow> c | Expired \<Rightarrow> d | Rejected \<Rightarrow> e)"
  by (cases s) auto

lemma only_stop [only_rules]:
  "only p a \<Longrightarrow> (\<And>x y. only p (b x y)) \<Longrightarrow> only p c \<Longrightarrow>
   only p (case s of StopActive \<Rightarrow> a | StopExecuted x y \<Rightarrow> b x y | StopGone \<Rightarrow> c)"
  by (cases s) auto

lemma only_prod [only_rules]: "(\<And>a b. x = (a, b) \<Longrightarrow> only p (f a b)) \<Longrightarrow> only p (case x of (a, b) \<Rightarrow> f a b)"
  by (cases x) auto

lemma only_latest_bid_ask [only_rules]: "only p (latest_bid_ask env tr pair)"
  unfolding latest_bid_ask_def by (intro only_rules)

section \<open>Orders and stops in the log\<close>

fun is_order :: "api_call \<Rightarrow> bool" where
  "is_order (SentOrder _ _) = True"
| "is_order _ = False"

fun is_stop_placement :: "api_call \<Rightarrow> bool" where
  "is_stop_placement (PlacedStop _ _ _ _ _ _) = True"
| "is_stop_placement _ = False"

abbreviation harmless :: "api_call \<Rightarrow> bool" where
  "harmless c \<equiv> \<not> is_order c \<and> \<not> is_stop_placement c"

lemma harmless_cleanup [only_rules]: "only harmless (cleanup_unfilled_order env tr pair oid ctx)"
  unfolding cleanup_unfilled_order_def get_child_orders_def cancel_child_order_def Let_def
  by (intro only_rules) simp_all

lemma harmless_get_executions [only_rules]: "only harmless (get_executions env tr pair oid)"
  unfolding get_executions_def by (intro only_rules) simp_all

lemma harmless_poll_loop [only_rules]:
  "only harmless (poll_loop n rnd env tr oid pair timeout start delay)"
proof (induction n arbitrary: delay)
  case (Suc n)
  then show ?case unfolding poll_loop.simps Let_def by (intro only_rules)
qed (simp add: only_rules)

lemma harmless_poll [only_rules]: "only harmless (poll_executions rnd env tr oid pair timeout)"
  unfolding poll_executions_def by (intro only_rules)

lemma harmless_reconcile [only_rules]: "only harmless (reconcile_unpolled_open rnd env tr pair oid)"
  unfolding reconcile_unpolled_open_def finalize_reconciled_fill_def fail_open_def
    reconcile_via_child_order_lookup_def reconcile_from_child_order_def get_child_orders_def Let_def
  by (intro only_rules) simp_all

lemma harmless_resolve [only_rules]:
  "only harmless (resolve_attempts n env tr code after sd sz)"
proof (induction n)
  case 0
  show ?case by (subst resolve_attempts.simps, simp only: nat.case) (intro only_rules; simp)
next
  case (Suc n)
  show ?case by (subst resolve_attempts.simps, simp only: nat.case) (intro only_rules Suc; simp)
qed

end
