(* ===== verification/Trader_Orders.thy ===== *)
theory Trader_Orders
  imports Call_Log
begin

text \<open>
  What the trader sends to the exchange. Closing a trade sends at most one order, only after
  its protective stop is known to be out of the way; opening sends at most one order and
  places a stop only after it; a dry run calls the exchange not at all.
\<close>

section \<open>Closing\<close>

text \<open>The last call before the order shows that the protective stop can no longer fill.\<close>

definition stop_cleared :: "trade \<Rightarrow> api_call list \<Rightarrow> bool" where
  "stop_cleared t pre = (case t_stop_order_id t of
     None \<Rightarrow> True
   | Some i \<Rightarrow> pre \<noteq> [] \<and> (last pre = CanceledStop (t_pair t) i True
                      \<or> last pre = ReadStop (t_pair t) i (Some StopGone)))"

lemma stop_cleared_append: "stop_cleared t b \<Longrightarrow> stop_cleared t (a @ b)"
  by (auto simp: stop_cleared_def split: option.splits)

definition one_close_order :: "'x trader \<Rightarrow> trade \<Rightarrow> api_call list \<Rightarrow> bool" where
  "one_close_order tr t new \<longleftrightarrow> (\<exists>sz pre a post. new = pre @ SentOrder (close_request t sz) a # post
     \<and> list_all harmless pre \<and> list_all harmless post \<and> sz \<le> t_quantity t
     \<and> stop_cleared t pre
     \<and> (api_requires_close_position_id (tr_api tr) \<longrightarrow> t_exchange_position_id t \<noteq> None))"

definition safe_close_log :: "'x trader \<Rightarrow> trade \<Rightarrow> api_call list \<Rightarrow> bool" where
  "safe_close_log tr t new \<longleftrightarrow> list_all harmless new \<or> one_close_order tr t new"

lemma one_close_order_append:
  assumes "one_close_order tr t b" and "list_all harmless a"
  shows "one_close_order tr t (a @ b)" and "one_close_order tr t (b @ a)"
proof -
  from assms(1) obtain sz pre x post where b: "b = pre @ SentOrder (close_request t sz) x # post"
    "list_all harmless pre" "list_all harmless post" "sz \<le> t_quantity t" "stop_cleared t pre"
    "api_requires_close_position_id (tr_api tr) \<longrightarrow> t_exchange_position_id t \<noteq> None"
    unfolding one_close_order_def by blast
  then show "one_close_order tr t (a @ b)" unfolding one_close_order_def
    using assms(2)
    by (intro exI [of _ sz] exI [of _ "a @ pre"] exI [of _ x] exI [of _ post])
      (auto intro: stop_cleared_append)
  show "one_close_order tr t (b @ a)" unfolding one_close_order_def
    using b assms(2)
    by (intro exI [of _ sz] exI [of _ pre] exI [of _ x] exI [of _ "post @ a"]) auto
qed

lemma one_close_order_single:
  assumes "list_all harmless a" and "stop_cleared t a" and "sz \<le> t_quantity t"
    and "api_requires_close_position_id (tr_api tr) \<longrightarrow> t_exchange_position_id t \<noteq> None"
  shows "one_close_order tr t (a @ [SentOrder (close_request t sz) i])"
  unfolding one_close_order_def using assms
  by (intro exI [of _ sz] exI [of _ a] exI [of _ i] exI [of _ "[]"]) simp

lemma safe_close_log_append:
  assumes "safe_close_log tr t b" and "list_all harmless a"
  shows "safe_close_log tr t (a @ b)" "safe_close_log tr t (b @ a)"
  using assms one_close_order_append [of tr t b a] by (auto simp: safe_close_log_def)

lemma guard_log:
  "logs (\<lambda>r a. list_all harmless a \<and> (r = Inr None \<longrightarrow> stop_cleared t a)) (stop_guard_before_close env tr t)"
proof (cases "t_stop_order_id t")
  case None
  then show ?thesis by (simp add: stop_guard_before_close_def logs_def run_simps stop_cleared_def)
next
  case (Some i)
  then show ?thesis
    unfolding stop_guard_before_close_def logs_def stop_order_status_of_def cancel_stop_order_def
    by (auto simp: run_simps call_def stop_cleared_def ok_value_def is_ok_def
        split: prod.splits sum.splits stop_order_status.splits)
qed

lemma fill_close_live_log:
  assumes "sz \<le> t_quantity t"
  shows "logs (\<lambda>_. safe_close_log tr t) (fill_close_live rnd env tr t sz)"
  unfolding fill_close_live_def
proof (rule logs_bind [OF guard_log])
  fix guard :: "(decimal \<times> decimal) option" and a
  assume a: "list_all harmless a \<and> (Inr guard = Inr None \<longrightarrow> stop_cleared t a)"
  show "logs (\<lambda>_ b. safe_close_log tr t (a @ b)) (case guard of Some fill \<Rightarrow> returnE fill
     | None \<Rightarrow> bindE (liftR (ensure_close_position_id_present tr t)) (\<lambda>_.
         bindE (send_child_order env tr (close_request t sz)) (\<lambda>i.
         bindE (poll_executions rnd env tr i (t_pair t) (tr_poll_timeout tr))
           (\<lambda>(price, _, commission). returnE (price, commission)))))"
  proof (cases guard)
    case (Some fill)
    then show ?thesis using a by (auto simp: safe_close_log_def intro: logs_return)
  next
    case None
    show ?thesis
    proof (cases "ensure_close_position_id_present tr t")
      case (Inl e)
      then show ?thesis using None a
        by (auto simp: logs_def run_simps safe_close_log_def)
    next
      case (Inr u)
      then have ok: "api_requires_close_position_id (tr_api tr) \<longrightarrow> t_exchange_position_id t \<noteq> None"
        by (auto simp: ensure_close_position_id_present_def split: if_splits)
      have poll: "only harmless (bindE (poll_executions rnd env tr i (t_pair t) (tr_poll_timeout tr))
           (\<lambda>(price, _, commission). returnE (price, commission)))" for i
        by (intro only_rules)
      have "logs (\<lambda>_ b. safe_close_log tr t (a @ b)) (bindE (send_child_order env tr (close_request t sz)) (\<lambda>i.
         bindE (poll_executions rnd env tr i (t_pair t) (tr_poll_timeout tr))
           (\<lambda>(price, _, commission). returnE (price, commission))))"
        unfolding send_child_order_def
      proof (rule logs_bind [OF logs_call])
        fix e b assume "\<exists>out. b = [SentOrder (close_request t sz) (ok_value out)] \<and>
          Inl e = (case out of Inl e \<Rightarrow> Inl (Anyhow e) | Inr v \<Rightarrow> Inr v)"
        then show "safe_close_log tr t (a @ b)"
          using a None one_close_order_single [OF _ _ assms ok] by (auto simp: safe_close_log_def)
      next
        fix i b assume "\<exists>out. b = [SentOrder (close_request t sz) (ok_value out)] \<and>
          Inr i = (case out of Inl e \<Rightarrow> Inl (Anyhow e) | Inr v \<Rightarrow> Inr v)"
        then have "one_close_order tr t (a @ b)"
          using a None one_close_order_single [OF _ _ assms ok] by auto
        then show "logs (\<lambda>_ c. safe_close_log tr t (a @ b @ c))
           (bindE (poll_executions rnd env tr i (t_pair t) (tr_poll_timeout tr))
              (\<lambda>(price, _, commission). returnE (price, commission)))"
          using logs_weaken [OF poll [unfolded only_def], of "\<lambda>_ c. safe_close_log tr t (a @ b @ c)"]
            one_close_order_append(2) [of tr t "a @ b"]
          by (simp add: safe_close_log_def)
      qed
      then show ?thesis using None Inr by (simp add: bindE_def liftR_def)
    qed
  qed
qed (auto simp: safe_close_log_def)

lemma logs_map_result:
  assumes "logs (\<lambda>_. S) m"
  shows "logs (\<lambda>_. S) (bindE m (\<lambda>x. returnE (f x)))"
  by (rule logs_bind [OF assms]) (auto intro: logs_return)

lemma fill_close_log: "logs (\<lambda>_. safe_close_log tr t) (fill_close rnd env tr t)"
proof (cases "tr_dry_run tr")
  case True
  then have "only harmless (fill_close rnd env tr t)"
    unfolding fill_close_def Let_def by simp (intro only_rules)
  then show ?thesis unfolding only_def by (rule logs_weaken) (simp add: safe_close_log_def)
qed (simp add: fill_close_def fill_close_live_log)

lemma fill_close_log3:
  "logs (\<lambda>_. safe_close_log tr t) (bindE (fill_close rnd env tr t) (\<lambda>(p, c). returnE (p, c, b)))"
  by (rule logs_bind [OF fill_close_log]) (auto intro: logs_return)

lemma stale_recovery_log: "logs (\<lambda>_. safe_close_log tr t) (fill_close_with_stale_recovery rnd env tr t)"
  unfolding fill_close_with_stale_recovery_def
proof (rule logs_bind)
  have "only harmless (sum_exchange_position_size rnd env tr t)"
    unfolding sum_exchange_position_size_def Let_def by (intro only_rules) simp
  then show "logs (\<lambda>_. list_all harmless) (sum_exchange_position_size rnd env tr t)"
    by (simp add: only_def)
  fix x :: "decimal \<times> bool" and a assume a: "list_all harmless a"
  obtain total has where x: "x = (total, has)" by fastforce
  have closed: "logs (\<lambda>_. safe_close_log tr t) (recover_exit_when_already_closed rnd env tr t)"
  proof -
    have "only harmless (recover_exit_when_already_closed rnd env tr t)"
      unfolding recover_exit_when_already_closed_def resolve_stale_exit_price_def
      by (intro only_rules)
    then show ?thesis unfolding only_def by (rule logs_weaken) (simp add: safe_close_log_def)
  qed
  have full: "logs (\<lambda>_. safe_close_log tr t) (recover_exit_when_full_size rnd env tr t)"
    unfolding recover_exit_when_full_size_def by (rule fill_close_log3)
  have partial: "logs (\<lambda>_. safe_close_log tr t) (recover_exit_when_partial_size rnd env tr t total)"
    if "total < t_quantity t"
  proof -
    have "logs (\<lambda>_. safe_close_log tr t) (fill_close_size rnd env tr t total)"
      using that fill_close_log [of tr t rnd env] fill_close_live_log [of total t tr rnd env]
      by (simp add: fill_close_size_def)
    from logs_map_result [OF this, where f = "\<lambda>(p, c). (p, c, True)"] show ?thesis
      by (simp add: recover_exit_when_partial_size_def case_prod_unfold)
  qed
  have "logs (\<lambda>_. safe_close_log tr t) (if \<not> has then recover_exit_when_already_closed rnd env tr t
     else if total = t_quantity t then recover_exit_when_full_size rnd env tr t
     else if total < t_quantity t then recover_exit_when_partial_size rnd env tr t total
     else failE (Anyhow ''invalid position: exchange size exceeds trade quantity''))"
    using closed full partial by (auto intro!: logs_fail simp: safe_close_log_def)
  then show "logs (\<lambda>_ b. safe_close_log tr t (a @ b)) (case x of (total, has) \<Rightarrow>
     if \<not> has then recover_exit_when_already_closed rnd env tr t
     else if total = t_quantity t then recover_exit_when_full_size rnd env tr t
     else if total < t_quantity t then recover_exit_when_partial_size rnd env tr t total
     else failE (Anyhow ''invalid position: exchange size exceeds trade quantity''))"
    unfolding x prod.case by (rule logs_weaken) (auto intro: safe_close_log_append a)
qed (auto simp: safe_close_log_def)


lemma close_and_release_log:
  "logs (\<lambda>_. safe_close_log tr t) (close_and_release_lock_on_error rnd env tr tid t stale)"
  unfolding close_and_release_lock_on_error_def
proof (rule logs_bind)
  have "logs (\<lambda>_. safe_close_log tr t) (if \<not> tr_dry_run tr \<and> stale then fill_close_with_stale_recovery rnd env tr t
      else bindE (fill_close rnd env tr t) (\<lambda>(price, commission). returnE (price, commission, False)))"
    using stale_recovery_log [of tr t rnd env] fill_close_log3 [of tr t rnd env False] by simp
  from logs_attempt [OF this]
  show "logs (\<lambda>_. safe_close_log tr t) (attempt (if \<not> tr_dry_run tr \<and> stale then fill_close_with_stale_recovery rnd env tr t
      else bindE (fill_close rnd env tr t) (\<lambda>(price, commission). returnE (price, commission, False))))"
    by (rule logs_weaken) (auto split: sum.splits error.splits)
  fix r :: "string + decimal \<times> decimal \<times> bool" and a assume a: "safe_close_log tr t a"
  have "only (\<lambda>_. False) (case r of Inr x \<Rightarrow> returnE x
     | Inl e \<Rightarrow> bindE (attempt (dbE env (release_close_lock tid))) (\<lambda>_. failE (Anyhow e)))"
    by (intro only_rules)
  then show "logs (\<lambda>_ b. safe_close_log tr t (a @ b)) (case r of Inr x \<Rightarrow> returnE x
     | Inl e \<Rightarrow> bindE (attempt (dbE env (release_close_lock tid))) (\<lambda>_. failE (Anyhow e)))"
    unfolding only_def using a by (elim logs_weaken) (metis append_Nil2 list.exhaust list.pred_inject(2))
qed

lemma only_False: "list_all (\<lambda>_. False) xs \<longleftrightarrow> xs = []"
  by (cases xs) auto

lemma logs_then_silent:
  assumes "logs (\<lambda>_. S) m" and "\<And>x. only (\<lambda>_. False) (f x)"
  shows "logs (\<lambda>_. S) (bindE m f)"
  by (rule logs_bind [OF assms(1)], assumption)
    (rule logs_weaken [OF assms(2) [unfolded only_def]], simp add: only_False)

lemma sfd_harmless: "only harmless (snapshot_live_sfd_before_close env tr t)"
  unfolding snapshot_live_sfd_before_close_def by (intro only_rules) simp

lemma dry_close_silent:
  assumes "tr_dry_run tr"
  shows "only (\<lambda>_. False) (close_position rnd env tr tid x)"
  unfolding close_position_def load_trade_for_close_def close_and_release_lock_on_error_def
    fill_close_def persist_closed_trade_def handle_close_persist_failure_def notify_close_result_def
    Let_def
  using assms by (simp split del: if_split) (intro only_rules)

text \<open>The part of \<open>close_position\<close> after the lock has been taken.\<close>

definition close_locked ::
  "rounding \<Rightarrow> 'x environment \<Rightarrow> 'x trader \<Rightarrow> uuid \<Rightarrow> exit_reason \<Rightarrow> trade \<times> bool \<Rightarrow> ('x, trade) io" where
  "close_locked rnd env tr tid exit_reason = (\<lambda>(t, stale).
     bindE (if tr_dry_run tr then returnE None
            else bindE (snapshot_live_sfd_before_close env tr t) (\<lambda>v. returnE (Some v))) (\<lambda>live_sfd_snapshot.
     bindE (close_and_release_lock_on_error rnd env tr tid t stale)
       (\<lambda>(exit_price, close_commission, stale_approximate).
     let sfd_accrued = unwrap_or live_sfd_snapshot
           (sfd_estimate (tr_exchange tr) exit_price (t_quantity t));
         pnl_amount = trade_pnl rnd t exit_price in
     bindE (utc_now env) (\<lambda>exit_at.
     let c = closed_copy rnd t exit_price close_commission sfd_accrued pnl_amount exit_at exit_reason in
     bindE (liftR (ddiv rnd (dmul rnd (t_entry_price t) (t_quantity t)) (t_leverage t))) (\<lambda>m.
     bindE (persist_closed_trade rnd env tr c (truncate_yen m) pnl_amount exit_price exit_at exit_reason) (\<lambda>_.
     bindE (notify_close_result tr c pnl_amount exit_reason stale_approximate) (\<lambda>_.
     returnE c)))))))"

lemma close_position_split:
  "close_position rnd env tr tid x = bindE (load_trade_for_close env tr tid) (close_locked rnd env tr tid x)"
  by (simp add: close_position_def close_locked_def)

lemma close_locked_log: "logs (\<lambda>_. safe_close_log tr t) (close_locked rnd env tr tid x (t, stale))"
  unfolding close_locked_def prod.case
proof (rule logs_bind)
  have "only harmless (if tr_dry_run tr then returnE None
      else bindE (snapshot_live_sfd_before_close env tr t) (\<lambda>v. returnE (Some v)))"
    by (intro only_rules sfd_harmless)
  then show "logs (\<lambda>_. list_all harmless) (if tr_dry_run tr then returnE None
      else bindE (snapshot_live_sfd_before_close env tr t) (\<lambda>v. returnE (Some v)))"
    by (simp add: only_def)
  fix sfd a assume "list_all harmless a"
  then show "logs (\<lambda>_ b. safe_close_log tr t (a @ b)) (bindE (close_and_release_lock_on_error rnd env tr tid t stale)
       (\<lambda>(exit_price, close_commission, stale_approximate).
     let sfd_accrued = unwrap_or sfd
           (sfd_estimate (tr_exchange tr) exit_price (t_quantity t));
         pnl_amount = trade_pnl rnd t exit_price in
     bindE (utc_now env) (\<lambda>exit_at.
     let c = closed_copy rnd t exit_price close_commission sfd_accrued pnl_amount exit_at x in
     bindE (liftR (ddiv rnd (dmul rnd (t_entry_price t) (t_quantity t)) (t_leverage t))) (\<lambda>m.
     bindE (persist_closed_trade rnd env tr c (truncate_yen m) pnl_amount exit_price exit_at x) (\<lambda>_.
     bindE (notify_close_result tr c pnl_amount x stale_approximate) (\<lambda>_.
     returnE c))))))"
    by (intro logs_weaken [OF logs_then_silent [OF close_and_release_log]] safe_close_log_append(1))
      (auto simp: Let_def persist_closed_trade_def handle_close_persist_failure_def
        notify_close_result_def split: prod.splits intro!: only_rules)
qed (auto simp: safe_close_log_def)

lemma close_position_log:
  assumes "close_position rnd env tr tid x w = (r, w')"
  shows "\<exists>new. w_calls w' = w_calls w @ new \<and> (tr_dry_run tr \<longrightarrow> new = []) \<and>
    (new = [] \<or> (\<exists>l db'. acquire_close_lock (env_utc_now env (w_out w)) tid (tr_account_id tr) (w_db w)
        = (Inr (Some l), db') \<and> safe_close_log tr (lock_trade l) new))"
proof -
  obtain res db' where acq: "acquire_close_lock (env_utc_now env (w_out w)) tid (tr_account_id tr) (w_db w)
      = (res, db')" by fastforce
  have dry: "w_calls w' = w_calls w" if "tr_dry_run tr"
    using logsD [OF dry_close_silent [OF that, unfolded only_def] assms] by (simp add: only_False)
  show ?thesis
  proof (cases "\<exists>l. res = Inr (Some l)")
    case True
    then obtain l where l: "res = Inr (Some l)" by blast
    let ?w1 = "let_tasks_run env (w\<lparr>w_db := db'\<rparr>)"
    have "load_trade_for_close env tr tid w = (Inr (lock_trade l, was_stale_recovery l), ?w1)"
      by (simp add: load_trade_for_close_def run_simps utc_now_def dbE_def acq l)
    then have "close_locked rnd env tr tid x (lock_trade l, was_stale_recovery l) ?w1 = (r, w')"
      using assms by (simp add: close_position_split run_simps)
    from logsD [OF close_locked_log this] obtain new where "w_calls w' = w_calls w @ new"
      "safe_close_log tr (lock_trade l) new" by auto
    then show ?thesis using dry acq l by (intro exI [of _ new]) auto
  next
    case False
    then have "w_calls w' = w_calls w"
      using assms acq
      by (auto simp: close_position_split load_trade_for_close_def run_simps utc_now_def dbE_def ok_or_def
          split: sum.splits option.splits)
    then show ?thesis by simp
  qed
qed

text \<open>
  C16. Closing a position calls the exchange only after the close lock was taken for the trade
  of this account, and sends at most one order: a market order for the closing side of that
  trade, of at most its quantity, naming its position where the exchange requires that, and
  only when the last call before it shows that the protective stop is canceled or gone. A dry
  run makes no call at all. This holds for every answer of the exchange and every failure.
\<close>

theorem close_position_orders:
  assumes "close_position rnd env tr tid x w = (r, w')"
  shows "\<exists>new. w_calls w' = w_calls w @ new \<and> (tr_dry_run tr \<longrightarrow> new = []) \<and>
    (new = [] \<or> (\<exists>l db'. acquire_close_lock (env_utc_now env (w_out w)) tid (tr_account_id tr) (w_db w)
        = (Inr (Some l), db') \<and> safe_close_log tr (lock_trade l) new))"
  by (rule close_position_log [OF assms])

section \<open>Opening\<close>

text \<open>
  The log of \<open>execute\<close>: one opening order for the sized quantity, then reads and cancels, then
  possibly one stop for the closing side, which is the last call.
\<close>

definition reads_then_stop :: "signal \<Rightarrow> api_call list \<Rightarrow> bool" where
  "reads_then_stop sig new \<longleftrightarrow> (\<exists>mid stops. new = mid @ stops \<and> list_all harmless mid
     \<and> (stops = [] \<or> (\<exists>sz trigger pid i.
          stops = [PlacedStop (s_pair sig) (closing_side (s_direction sig)) sz trigger pid i])))"

definition open_log :: "signal \<Rightarrow> decimal \<Rightarrow> api_call list \<Rightarrow> bool" where
  "open_log sig q new \<longleftrightarrow>
     (\<exists>a rest. new = SentOrder (signal_to_send_child_order sig q) a # rest \<and> reads_then_stop sig rest)"

lemma reads_then_stop_harmless: "list_all harmless a \<Longrightarrow> reads_then_stop sig a"
  unfolding reads_then_stop_def by (intro exI [of _ a] exI [of _ "[]"]) simp

lemma reads_then_stop_placed:
  "reads_then_stop sig [PlacedStop (s_pair sig) (closing_side (s_direction sig)) sz trigger pid i]"
  unfolding reads_then_stop_def by (rule exI [of _ "[]"]) simp

lemma reads_then_stop_append:
  assumes "list_all harmless a" and "reads_then_stop sig b"
  shows "reads_then_stop sig (a @ b)"
proof -
  from assms(2) obtain mid stops where "b = mid @ stops" "list_all harmless mid"
    "stops = [] \<or> (\<exists>sz trigger pid i.
          stops = [PlacedStop (s_pair sig) (closing_side (s_direction sig)) sz trigger pid i])"
    unfolding reads_then_stop_def by blast
  then show ?thesis unfolding reads_then_stop_def
    using assms(1) by (intro exI [of _ "a @ mid"] exI [of _ stops]) simp
qed

lemma fill_open_live_log:
  "logs (\<lambda>_ new. \<exists>a mid. new = SentOrder (signal_to_send_child_order sig q) a # mid \<and> list_all harmless mid)
     (fill_open_live rnd env tr sig q)"
  unfolding fill_open_live_def send_child_order_def
proof (rule logs_bind [OF logs_call])
  fix oid b assume b: "\<exists>out. b = [SentOrder (signal_to_send_child_order sig q) (ok_value out)] \<and>
          Inr oid = (case out of Inl e \<Rightarrow> Inl (Anyhow e) | Inr v \<Rightarrow> Inr v)"
  have "only harmless (bindE (attempt (poll_executions rnd env tr oid (s_pair sig) (tr_poll_timeout tr))) (\<lambda>r.
     case r of Inr outcome \<Rightarrow> returnE outcome
     | Inl poll_err \<Rightarrow> bindE (sleep env EXECUTIONS_RECONCILE_DELAY) (\<lambda>_.
         reconcile_unpolled_open rnd env tr (s_pair sig) oid)))"
    by (intro only_rules)
  then show "logs (\<lambda>_ c. \<exists>a mid. b @ c = SentOrder (signal_to_send_child_order sig q) a # mid \<and> list_all harmless mid)
     (bindE (attempt (poll_executions rnd env tr oid (s_pair sig) (tr_poll_timeout tr))) (\<lambda>r.
     case r of Inr outcome \<Rightarrow> returnE outcome
     | Inl poll_err \<Rightarrow> bindE (sleep env EXECUTIONS_RECONCILE_DELAY) (\<lambda>_.
         reconcile_unpolled_open rnd env tr (s_pair sig) oid)))"
    unfolding only_def by (rule logs_weaken) (use b in auto)
qed auto

text \<open>The part of \<open>execute\<close> after the entry has been prepared and filled.\<close>

definition execute_filled ::
  "rounding \<Rightarrow> 'x environment \<Rightarrow> 'x trader \<Rightarrow> signal \<Rightarrow> decimal \<Rightarrow> datetime \<Rightarrow> fill \<Rightarrow> ('x, trade) io" where
  "execute_filled rnd env tr sig leverage position_cutoff = (\<lambda>(fill_price, actual_qty, open_commission).
     let (stop_loss, take_profit) = compute_stop_levels rnd sig fill_price in
     bindE (utc_now env) (\<lambda>entry_at.
     bindE (liftR (ddiv rnd (dmul rnd fill_price actual_qty) leverage)) (\<lambda>m.
     let margin = truncate_yen m in
     bindE (resolve_exchange_position_id env tr sig position_cutoff actual_qty) (\<lambda>exchange_position_id.
     bindE (place_protective_stop_order rnd env tr sig actual_qty stop_loss exchange_position_id)
       (\<lambda>stop_order_id.
     bindE (new_uuid env) (\<lambda>new_id.
     let t = \<lparr>t_id = new_id, t_account_id = tr_account_id tr, t_strategy_name = s_strategy_name sig,
              t_pair = s_pair sig, t_exchange = tr_exchange tr, t_direction = s_direction sig,
              t_entry_price = fill_price, t_exit_price = None, t_stop_loss = stop_loss,
              t_take_profit = take_profit, t_quantity = actual_qty, t_leverage = leverage,
              t_fees = open_commission, t_entry_at = entry_at, t_exit_at = None,
              t_pnl_amount = None, t_exit_reason = None, t_status = Open,
              t_max_hold_until = s_max_hold_until sig,
              t_exchange_position_id = exchange_position_id, t_stop_order_id = stop_order_id\<rparr> in
     bindE (persist_open_trade env tr t margin) (\<lambda>_.
     bindE (notify_order_filled tr t actual_qty fill_price entry_at) (\<lambda>_.
     returnE t))))))))"

lemma execute_split:
  "execute rnd env tr sig = bindE (prepare_entry rnd env tr sig) (\<lambda>(leverage, quantity, cutoff).
     bindE (fill_open rnd env tr sig quantity) (execute_filled rnd env tr sig leverage cutoff))"
  by (simp add: execute_def execute_filled_def)

lemma stop_placement_log:
  "logs (\<lambda>_. reads_then_stop sig) (place_protective_stop_order rnd env tr sig sz sl pid)"
  unfolding place_protective_stop_order_def logs_def
  by (auto simp: run_simps call_def Let_def spawn_notification_def reads_then_stop_placed
      reads_then_stop_harmless split: prod.splits sum.splits)

lemma execute_filled_log:
  fixes fill :: fill
  shows "logs (\<lambda>_. reads_then_stop sig) (execute_filled rnd env tr sig lev cutoff fill)"
proof -
  obtain p q c where fill: "fill = (p, q, c)" by (cases fill)
  obtain sl tp where lv: "compute_stop_levels rnd sig p = (sl, tp)" by fastforce
  have resolve: "logs (\<lambda>_. list_all harmless) (resolve_exchange_position_id env tr sig cutoff q)"
    unfolding only_def [symmetric] resolve_exchange_position_id_def resolve_position_id_with_retry_def
    by (intro only_rules)
  have rest: "only (\<lambda>_. False) (bindE (new_uuid env) (\<lambda>i.
      bindE (persist_open_trade env tr (f i) margin) (\<lambda>_.
      bindE (notify_order_filled tr (f i) q p entry_at) (\<lambda>_. returnE (f i)))))" for f margin entry_at
    unfolding persist_open_trade_def notify_order_filled_def by (intro only_rules)
  have stops: "logs (\<lambda>_. reads_then_stop sig) (bindE (resolve_exchange_position_id env tr sig cutoff q) (\<lambda>pid.
      bindE (place_protective_stop_order rnd env tr sig q sl pid) (\<lambda>sid.
      bindE (new_uuid env) (\<lambda>i.
      bindE (persist_open_trade env tr (f pid sid i) margin) (\<lambda>_.
      bindE (notify_order_filled tr (f pid sid i) q p entry_at) (\<lambda>_. returnE (f pid sid i)))))))"
    for f margin entry_at
    by (rule logs_bind [OF resolve])
      (auto intro: reads_then_stop_harmless reads_then_stop_append
        intro!: logs_weaken [OF logs_then_silent [OF stop_placement_log rest]])
  have start: "logs (\<lambda>_. reads_then_stop sig) (bindE (utc_now env) (\<lambda>entry_at. bindE (liftR r) (\<lambda>m. h entry_at m)))"
    if "\<And>entry_at m. logs (\<lambda>_. reads_then_stop sig) (h entry_at m)"
    for h :: "datetime \<Rightarrow> decimal \<Rightarrow> ('a, trade) io" and r
    using that reads_then_stop_harmless [of "[]" sig] unfolding logs_def
    by (fastforce simp: run_simps utc_now_def split: sum.splits)
  show ?thesis
    unfolding execute_filled_def fill prod.case lv Let_def by (intro start stops)
qed

lemma dry_execute_silent: "tr_dry_run tr \<Longrightarrow> only (\<lambda>_. False) (execute rnd env tr sig)"
  unfolding execute_def prepare_entry_def fill_open_def resolve_exchange_position_id_def
    place_protective_stop_order_def persist_open_trade_def notify_order_filled_def Let_def
  by (simp split del: if_split) (intro only_rules)

lemma prepare_entry_silent: "only (\<lambda>_. False) (prepare_entry rnd env tr sig)"
  unfolding prepare_entry_def Let_def by (intro only_rules)


end
