(* ===== verification/Awaiting.thy ===== *)
theory Awaiting
  imports Trader
begin

text \<open>
  What holds along every run of the exchange side of the trader, whatever the exchange
  answers: the locale fixes a relation between the world before and after that calls, sleeps,
  notifications and new identifiers respect, and shows that all fills respect it. Its
  instances are the growing call log, the database left alone by a quiet process, and
  (in \<open>Trader_Refinement\<close>) the ledger changed by its steps only.
\<close>

definition along :: "('x world \<Rightarrow> 'x world \<Rightarrow> bool) \<Rightarrow> ('x, 'a) io \<Rightarrow> bool" where
  "along R m \<longleftrightarrow> (\<forall>w. R w (snd (m w)))"

lemma alongD: "along R m \<Longrightarrow> m w = (r, w') \<Longrightarrow> R w w'"
  unfolding along_def by (metis snd_conv)

locale awaiting =
  fixes env :: "'x environment" and R :: "'x world \<Rightarrow> 'x world \<Rightarrow> bool"
  assumes refl_R: "R w w"
    and trans_R: "R w w1 \<Longrightarrow> R w1 w2 \<Longrightarrow> R w w2"
    and called_R: "R w (let_tasks_run env (w\<lparr>w_out := x, w_calls := w_calls w @ [c]\<rparr>))"
    and slept_R: "R w (let_tasks_run env (w\<lparr>w_out := x\<rparr>))"
    and noted_R: "R w (w\<lparr>w_notes := ns\<rparr>)"
    and outside_R: "R w (w\<lparr>w_out := x\<rparr>)"
begin

lemma r_bind: "along R m \<Longrightarrow> (\<And>x. along R (f x)) \<Longrightarrow> along R (bindE m f)"
  unfolding along_def
  by (auto simp: run_simps split: prod.splits sum.splits) (metis snd_conv trans_R)+

lemma r_attempt: "along R m \<Longrightarrow> along R (attempt m)"
  unfolding along_def
  by (auto simp: run_simps split: prod.splits sum.splits error.splits) (metis snd_conv)+

lemma r_pure:
  "along R (returnE v)" "along R (failE e)" "along R (liftR r)" "along R (askW g)"
  "along R (utc_now env)" "along R (spawn_notification ev)" "along R (new_uuid env)"
  by (auto simp: along_def run_simps utc_now_def spawn_notification_def new_uuid_def refl_R
      noted_R outside_R split: prod.splits)

lemma r_call: "along R (call env entry f)"
  by (auto simp: along_def call_def called_R split: prod.splits)

lemma r_sleep: "along R (sleep env d)"
  by (auto simp: along_def sleep_def slept_R)

lemma r_cases:
  "(c \<Longrightarrow> along R a) \<Longrightarrow> (\<not> c \<Longrightarrow> along R b) \<Longrightarrow> along R (if c then a else b)"
  "(\<And>v. along R (h v)) \<Longrightarrow> (\<And>v. along R (g v)) \<Longrightarrow> along R (case s of Inl v \<Rightarrow> h v | Inr v \<Rightarrow> g v)"
  "along R n \<Longrightarrow> (\<And>v. along R (k v)) \<Longrightarrow> along R (case x of None \<Rightarrow> n | Some v \<Rightarrow> k v)"
  "along R n \<Longrightarrow> (\<And>y ys. along R (l y ys)) \<Longrightarrow> along R (case xs of [] \<Rightarrow> n | y # ys \<Rightarrow> l y ys)"
  "(\<And>m. along R (p m)) \<Longrightarrow> (\<And>m. along R (q m)) \<Longrightarrow>
   along R (case e of Anyhow m \<Rightarrow> p m | Panic m \<Rightarrow> q m)"
  "(\<And>u v. along R (d u v)) \<Longrightarrow> along R (case y of (u, v) \<Rightarrow> d u v)"
  "along R a1 \<Longrightarrow> along R a2 \<Longrightarrow> along R a3 \<Longrightarrow> along R a4 \<Longrightarrow> along R a5 \<Longrightarrow>
   along R (case os of Active \<Rightarrow> a1 | Completed \<Rightarrow> a2 | Canceled \<Rightarrow> a3 | Expired \<Rightarrow> a4 | Rejected \<Rightarrow> a5)"
  "along R b1 \<Longrightarrow> (\<And>u v. along R (b2 u v)) \<Longrightarrow> along R b3 \<Longrightarrow>
   along R (case st of StopActive \<Rightarrow> b1 | StopExecuted u v \<Rightarrow> b2 u v | StopGone \<Rightarrow> b3)"
  by (simp_all split: sum.splits option.splits list.splits error.splits prod.splits
      child_order_state.splits stop_order_status.splits)

lemmas r_rules = r_bind r_attempt r_pure r_call r_sleep r_cases

lemma along_bid_ask: "along R (latest_bid_ask env tr pair)"
  unfolding latest_bid_ask_def by (intro r_rules)

lemma along_poll: "along R (poll_executions rnd env tr oid pair timeout)"
proof -
  have "along R (poll_loop n rnd env tr oid pair timeout start delay)" for n start delay
  proof (induction n arbitrary: delay)
    case (Suc n)
    then show ?case unfolding poll_loop.simps Let_def get_executions_def by (intro r_rules)
  qed (simp add: r_pure)
  then show ?thesis unfolding poll_executions_def by (intro r_rules)
qed

lemma along_fill_open: "along R (fill_open rnd env tr sig q)"
  unfolding fill_open_def fill_open_live_def reconcile_unpolled_open_def finalize_reconciled_fill_def
    fail_open_def reconcile_via_child_order_lookup_def reconcile_from_child_order_def
    cleanup_unfilled_order_def get_child_orders_def get_executions_def cancel_child_order_def
    send_child_order_def Let_def
  by (intro r_rules along_poll along_bid_ask)

lemma along_resolve: "along R (resolve_exchange_position_id env tr sig cutoff q)"
proof -
  have "along R (resolve_attempts n env tr code after sd sz)" for n code after sd sz
  proof (induction n)
    case 0
    show ?case by (subst resolve_attempts.simps, simp only: nat.case) (intro r_rules)
  next
    case (Suc n)
    show ?case by (subst resolve_attempts.simps, simp only: nat.case) (intro r_rules Suc)
  qed
  then show ?thesis
    unfolding resolve_exchange_position_id_def resolve_position_id_with_retry_def
    by (intro r_rules)
qed

lemma along_place_stop: "along R (place_protective_stop_order rnd env tr sig q sl pid)"
  unfolding place_protective_stop_order_def Let_def by (intro r_rules)

lemma along_fill_close_live: "along R (fill_close_live rnd env tr t sz)"
  unfolding fill_close_live_def stop_guard_before_close_def stop_order_status_of_def
    cancel_stop_order_def send_child_order_def
  by (intro r_rules along_poll)

lemma along_fill_close: "along R (fill_close rnd env tr t)"
  unfolding fill_close_def Let_def by (intro r_rules along_bid_ask along_fill_close_live)

lemma along_stale_recovery: "along R (fill_close_with_stale_recovery rnd env tr t)"
  unfolding fill_close_with_stale_recovery_def sum_exchange_position_size_def
    recover_exit_when_already_closed_def recover_exit_when_full_size_def
    recover_exit_when_partial_size_def resolve_stale_exit_price_def fill_close_size_def Let_def
  by (intro r_rules along_fill_close along_fill_close_live)

lemma along_sfd: "along R (snapshot_live_sfd_before_close env tr t)"
  unfolding snapshot_live_sfd_before_close_def by (intro r_rules)

lemma along_notify_close: "along R (notify_close_result tr c pnl x b)"
  unfolding notify_close_result_def by (intro r_rules)

end

section \<open>The log only grows\<close>

interpretation call_log: awaiting env "\<lambda>w w'. \<exists>new. w_calls w' = w_calls w @ new" for env
  by unfold_locales (auto simp: let_tasks_run_def split: prod.splits)

section \<open>A quiet process\<close>

text \<open>No other task touches the database while the program runs.\<close>

definition quiet :: "'x environment \<Rightarrow> bool" where
  "quiet env \<longleftrightarrow> (\<forall>x db. snd (env_tasks env x db) = db)"

definition same_db :: "'x world \<Rightarrow> 'x world \<Rightarrow> bool" where
  "same_db w w' \<longleftrightarrow> w_db w' = w_db w"

lemma quiet_tasks: "quiet env \<Longrightarrow> w_db (let_tasks_run env w) = w_db w"
  by (cases "env_tasks env (w_out w) (w_db w)") (auto simp: let_tasks_run_def quiet_def, metis snd_conv)

lemma quiet_awaiting: "quiet env \<Longrightarrow> awaiting env same_db"
  by unfold_locales (auto simp: same_db_def quiet_tasks)

end
