(* ===== verification/Trader_Refinement.thy ===== *)
theory Trader_Refinement
  imports Trader_Orders Awaiting Ledger_System
begin

text \<open>
  The trader refines the ledger: every run of \<open>execute\<close> and \<open>close_position\<close>, interleaved with
  whatever the other tasks do at its await points, is a sequence of steps of the ledger
  transition system. The theorems on its reachable states therefore hold for the program.
\<close>

section \<open>Runs as ledger steps\<close>

definition ledger_run :: "rounding \<Rightarrow> database \<Rightarrow> trade list \<Rightarrow> database \<Rightarrow> trade list \<Rightarrow> bool" where
  "ledger_run rnd db ts db' ts' \<longleftrightarrow>
     (ledger_step rnd)\<^sup>*\<^sup>* \<lparr>ldb = db, snapshots = ts\<rparr> \<lparr>ldb = db', snapshots = ts'\<rparr> \<and> set ts \<subseteq> set ts'"

lemma ledger_run_refl: "ledger_run rnd db ts db ts"
  by (simp add: ledger_run_def)

lemma ledger_run_trans:
  "ledger_run rnd db ts db1 ts1 \<Longrightarrow> ledger_run rnd db1 ts1 db2 ts2 \<Longrightarrow> ledger_run rnd db ts db2 ts2"
  unfolding ledger_run_def by (auto intro: rtranclp_trans)

lemma ledger_run_step:
  "ledger_step rnd \<lparr>ldb = db, snapshots = ts\<rparr> \<lparr>ldb = db', snapshots = ts'\<rparr> \<Longrightarrow> set ts \<subseteq> set ts' \<Longrightarrow>
   ledger_run rnd db ts db' ts'"
  by (simp add: ledger_run_def r_into_rtranclp)

lemma ledger_run_op:
  assumes "\<And>s. ldb s = db \<Longrightarrow> snapshots s = ts \<Longrightarrow> ledger_step rnd s (s\<lparr>ldb := db'\<rparr>)"
  shows "ledger_run rnd db ts db' ts"
  by (rule ledger_run_step) (use assms [of "\<lparr>ldb = db, snapshots = ts\<rparr>"] in auto)

lemma ledger_run_tables:
  "trades db' = trades db \<Longrightarrow> accounts db' = accounts db \<Longrightarrow> events db' = events db \<Longrightarrow>
   ledger_run rnd db ts db' ts"
  by (rule ledger_run_op) (rule ledger_step.environment, simp_all)

text \<open>The other tasks of the process work on the ledger by its steps only.\<close>

definition tasks_are_steps :: "rounding \<Rightarrow> 'x environment \<Rightarrow> bool" where
  "tasks_are_steps rnd env \<longleftrightarrow> (\<forall>x db ts. \<exists>ts'. ledger_run rnd db ts (snd (env_tasks env x db)) ts')"

definition refines ::
  "rounding \<Rightarrow> (trade list \<Rightarrow> bool) \<Rightarrow> ('x, 'a) io \<Rightarrow> ('a \<Rightarrow> trade list \<Rightarrow> bool) \<Rightarrow> bool" where
  "refines rnd P m Q \<longleftrightarrow> (\<forall>w ts r w'. P ts \<longrightarrow> m w = (r, w') \<longrightarrow>
     (\<exists>ts'. ledger_run rnd (w_db w) ts (w_db w') ts' \<and> (\<forall>x. r = Inr x \<longrightarrow> Q x ts')))"

abbreviation keeps :: "rounding \<Rightarrow> ('x, 'a) io \<Rightarrow> bool" where
  "keeps rnd m \<equiv> refines rnd (\<lambda>_. True) m (\<lambda>_ _. True)"

named_theorems keeps_rules

lemma refinesD:
  assumes "refines rnd P m Q" and "P ts" and "m w = (r, w')"
  obtains ts' where "ledger_run rnd (w_db w) ts (w_db w') ts'" "\<And>x. r = Inr x \<Longrightarrow> Q x ts'"
  using assms unfolding refines_def by fast

lemma refinesI:
  assumes "\<And>w ts r w'. P ts \<Longrightarrow> m w = (r, w') \<Longrightarrow>
    \<exists>ts'. ledger_run rnd (w_db w) ts (w_db w') ts' \<and> (\<forall>x. r = Inr x \<longrightarrow> Q x ts')"
  shows "refines rnd P m Q"
  using assms unfolding refines_def by fast

lemma refines_weaken:
  "refines rnd P m Q \<Longrightarrow> (\<And>ts. P' ts \<Longrightarrow> P ts) \<Longrightarrow> (\<And>x ts. Q x ts \<Longrightarrow> Q' x ts) \<Longrightarrow> refines rnd P' m Q'"
  unfolding refines_def by meson

lemma refines_bind:
  assumes "refines rnd P m Q" and "\<And>x. refines rnd (Q x) (f x) R"
  shows "refines rnd P (bindE m f) R"
  unfolding refines_def
proof (intro allI impI)
  fix w ts r w' assume "P ts" and run: "bindE m f w = (r, w')"
  obtain r1 w1 where m: "m w = (r1, w1)" by fastforce
  then obtain ts1 where 1: "ledger_run rnd (w_db w) ts (w_db w1) ts1" "\<And>x. r1 = Inr x \<Longrightarrow> Q x ts1"
    using refinesD [OF assms(1) \<open>P ts\<close>] by metis
  show "\<exists>ts'. ledger_run rnd (w_db w) ts (w_db w') ts' \<and> (\<forall>x. r = Inr x \<longrightarrow> R x ts')"
  proof (cases r1)
    case (Inl e)
    then show ?thesis using run m 1 by (auto simp: run_simps)
  next
    case (Inr x)
    then have "f x w1 = (r, w')" "Q x ts1" using run m 1 by (simp_all add: run_simps)
    then obtain ts2 where "ledger_run rnd (w_db w1) ts1 (w_db w') ts2" "\<And>x. r = Inr x \<Longrightarrow> R x ts2"
      using refinesD [OF assms(2) [of x]] by metis
    then show ?thesis using ledger_run_trans [OF 1(1)] by blast
  qed
qed

text \<open>A snapshot once held stays held.\<close>

lemma refines_frame:
  assumes "keeps rnd m"
  shows "refines rnd (\<lambda>ts. t \<in> set ts) m (\<lambda>_ ts. t \<in> set ts)"
  using assms unfolding refines_def ledger_run_def by blast

lemma keeps_bind [keeps_rules]: "keeps rnd m \<Longrightarrow> (\<And>x. keeps rnd (f x)) \<Longrightarrow> keeps rnd (bindE m f)"
  by (rule refines_bind)

lemma keeps_attempt [keeps_rules]: "keeps rnd m \<Longrightarrow> keeps rnd (attempt m)"
  unfolding refines_def by (fastforce simp: run_simps split: prod.splits sum.splits error.splits)

lemma keeps_pure [keeps_rules]:
  "keeps rnd (returnE x)" "keeps rnd (failE e)" "keeps rnd (liftR r)" "keeps rnd (askW g)"
  "keeps rnd (utc_now env)" "keeps rnd (spawn_notification ev)" "keeps rnd (new_uuid env)"
  by (auto simp: refines_def run_simps utc_now_def spawn_notification_def new_uuid_def
      split: prod.splits intro: ledger_run_refl)

lemma run_let_tasks:
  assumes "tasks_are_steps rnd env"
  shows "\<exists>ts'. ledger_run rnd (w_db w) ts (w_db (let_tasks_run env w)) ts'"
proof -
  have "w_db (let_tasks_run env w) = snd (env_tasks env (w_out w) (w_db w))"
    by (simp add: let_tasks_run_def split: prod.splits)
  then show ?thesis using assms unfolding tasks_are_steps_def by simp
qed

lemma keeps_then_tasks:
  assumes "tasks_are_steps rnd env" and "\<And>w. w_db (h w) = w_db w"
  shows "keeps rnd (\<lambda>w. (g w, let_tasks_run env (h w)))"
proof (rule refinesI)
  fix w ts r w' assume "(g w, let_tasks_run env (h w)) = (r, w')"
  then show "\<exists>ts'. ledger_run rnd (w_db w) ts (w_db w') ts' \<and> (\<forall>x. r = Inr x \<longrightarrow> True)"
    using run_let_tasks [OF assms(1), of "h w" ts] assms(2) [of w] by auto
qed

lemma keeps_call [keeps_rules]: "tasks_are_steps rnd env \<Longrightarrow> keeps rnd (call env entry f)"
  using keeps_then_tasks [of rnd env "\<lambda>w. w\<lparr>w_out := snd (f (w_out w)), w_calls := w_calls w @ [entry (fst (f (w_out w)))]\<rparr>"
      "\<lambda>w. case fst (f (w_out w)) of Inl e \<Rightarrow> Inl (Anyhow e) | Inr v \<Rightarrow> Inr v"]
  by (simp add: call_def case_prod_unfold)

lemma keeps_sleep [keeps_rules]: "tasks_are_steps rnd env \<Longrightarrow> keeps rnd (sleep env d)"
  unfolding sleep_def by (rule keeps_then_tasks) simp_all

lemma refines_dbE:
  assumes "tasks_are_steps rnd env"
    and "\<And>db ts r db'. P ts \<Longrightarrow> m db = (r, db') \<Longrightarrow>
      \<exists>ts'. ledger_run rnd db ts db' ts' \<and> (\<forall>x. r = Inr x \<longrightarrow> Q x ts')"
    and mono: "\<And>x ts ts'. Q x ts \<Longrightarrow> set ts \<subseteq> set ts' \<Longrightarrow> Q x ts'"
  shows "refines rnd P (dbE env m) Q"
  unfolding refines_def
proof (intro allI impI)
  fix w ts r w' assume "P ts" and run: "dbE env m w = (r, w')"
  obtain db' where m: "m (w_db w) = (r, db')" and w': "w' = let_tasks_run env (w\<lparr>w_db := db'\<rparr>)"
    using run by (auto simp: dbE_def split: prod.splits)
  obtain ts1 where 1: "ledger_run rnd (w_db w) ts db' ts1" "\<forall>x. r = Inr x \<longrightarrow> Q x ts1"
    using assms(2) [OF \<open>P ts\<close> m] by blast
  obtain ts2 where 2: "ledger_run rnd db' ts1 (w_db w') ts2"
    using run_let_tasks [OF assms(1), of "w\<lparr>w_db := db'\<rparr>" ts1] by (auto simp: w')
  show "\<exists>ts'. ledger_run rnd (w_db w) ts (w_db w') ts' \<and> (\<forall>x. r = Inr x \<longrightarrow> Q x ts')"
    using ledger_run_trans [OF 1(1) 2] 1(2) 2 mono by (auto simp: ledger_run_def)
qed

lemma keeps_dbE:
  assumes "tasks_are_steps rnd env" and "\<And>db ts. ledger_run rnd db ts (snd (m db)) ts"
  shows "keeps rnd (dbE env m)"
  by (rule refines_dbE [OF assms(1)]) (use assms(2) in \<open>auto, metis snd_conv\<close>)

lemma keeps_cases [keeps_rules]:
  "(c \<Longrightarrow> keeps rnd a) \<Longrightarrow> (\<not> c \<Longrightarrow> keeps rnd b) \<Longrightarrow> keeps rnd (if c then a else b)"
  "(\<And>v. keeps rnd (h v)) \<Longrightarrow> (\<And>v. keeps rnd (g v)) \<Longrightarrow> keeps rnd (case s of Inl v \<Rightarrow> h v | Inr v \<Rightarrow> g v)"
  "keeps rnd n \<Longrightarrow> (\<And>v. keeps rnd (k v)) \<Longrightarrow> keeps rnd (case x of None \<Rightarrow> n | Some v \<Rightarrow> k v)"
  "keeps rnd n \<Longrightarrow> (\<And>y ys. keeps rnd (l y ys)) \<Longrightarrow> keeps rnd (case xs of [] \<Rightarrow> n | y # ys \<Rightarrow> l y ys)"
  "(\<And>m. keeps rnd (p m)) \<Longrightarrow> (\<And>m. keeps rnd (q m)) \<Longrightarrow> keeps rnd (case e of Anyhow m \<Rightarrow> p m | Panic m \<Rightarrow> q m)"
  "(\<And>u v. keeps rnd (d u v)) \<Longrightarrow> keeps rnd (case y of (u, v) \<Rightarrow> d u v)"
  by (simp_all split: sum.splits option.splits list.splits error.splits prod.splits)

section \<open>The trader keeps the ledger\<close>

text \<open>The ledger instance of the relations along which the exchange side runs.\<close>

definition kept :: "rounding \<Rightarrow> 'x world \<Rightarrow> 'x world \<Rightarrow> bool" where
  "kept rnd w w' \<longleftrightarrow> (\<forall>ts. \<exists>ts'. ledger_run rnd (w_db w) ts (w_db w') ts')"

lemma keeps_along: "along (kept rnd) m \<Longrightarrow> keeps rnd m"
  unfolding along_def kept_def refines_def by (metis snd_conv)

lemma kept_awaiting:
  assumes "tasks_are_steps rnd env"
  shows "awaiting env (kept rnd)"
proof
  fix w :: "'a world" and w1 w2 x c ns
  show "kept rnd w w" using ledger_run_refl by (auto simp: kept_def)
  show "kept rnd w w1 \<Longrightarrow> kept rnd w1 w2 \<Longrightarrow> kept rnd w w2"
    unfolding kept_def using ledger_run_trans by blast
  show "kept rnd w (let_tasks_run env (w\<lparr>w_out := x, w_calls := w_calls w @ [c]\<rparr>))"
    using run_let_tasks [OF assms, of "w\<lparr>w_out := x, w_calls := w_calls w @ [c]\<rparr>"] by (simp add: kept_def)
  show "kept rnd w (let_tasks_run env (w\<lparr>w_out := x\<rparr>))"
    using run_let_tasks [OF assms, of "w\<lparr>w_out := x\<rparr>"] by (simp add: kept_def)
  show "kept rnd w (w\<lparr>w_notes := ns\<rparr>)" "kept rnd w (w\<lparr>w_out := x\<rparr>)"
    using ledger_run_refl by (auto simp: kept_def)
qed

lemma keeps_exchange_side [keeps_rules]:
  assumes "tasks_are_steps rnd env"
  shows "keeps rnd (latest_bid_ask env tr pair)"
    and "keeps rnd (fill_open rnd' env tr sig q)"
    and "keeps rnd (resolve_exchange_position_id env tr sig cutoff q)"
    and "keeps rnd (place_protective_stop_order rnd' env tr sig q sl pid)"
    and "keeps rnd (fill_close rnd' env tr t)"
    and "keeps rnd (fill_close_with_stale_recovery rnd' env tr t)"
    and "keeps rnd (snapshot_live_sfd_before_close env tr t)"
proof -
  note a = kept_awaiting [OF assms]
  show "keeps rnd (latest_bid_ask env tr pair)" "keeps rnd (fill_open rnd' env tr sig q)"
    "keeps rnd (resolve_exchange_position_id env tr sig cutoff q)"
    "keeps rnd (place_protective_stop_order rnd' env tr sig q sl pid)"
    "keeps rnd (fill_close rnd' env tr t)" "keeps rnd (fill_close_with_stale_recovery rnd' env tr t)"
    "keeps rnd (snapshot_live_sfd_before_close env tr t)"
    by (rule keeps_along, rule awaiting.along_bid_ask [OF a] awaiting.along_fill_open [OF a]
        awaiting.along_resolve [OF a] awaiting.along_place_stop [OF a] awaiting.along_fill_close [OF a]
        awaiting.along_stale_recovery [OF a] awaiting.along_sfd [OF a])+
qed

lemma read_tables:
  "trades (snd (stmt (askW f) db)) = trades db" "accounts (snd (stmt (askW f) db)) = accounts db"
  "events (snd (stmt (askW f) db)) = events db"
  by (auto simp: stmt_def run_simps split: list.splits)

lemma keeps_prepare [keeps_rules]:
  "tasks_are_steps rnd env \<Longrightarrow> keeps rnd (prepare_entry rnd' env tr sig)"
  unfolding prepare_entry_def Let_def get_account_def
  by (intro keeps_rules keeps_dbE ledger_run_tables read_tables)

lemma keeps_persist_open:
  assumes "tasks_are_steps rnd env" and "t_status t = Open" and "t_account_id t = tr_account_id tr"
    and "required_margin rnd (entry_position t) = Inr m"
  shows "keeps rnd (persist_open_trade env tr t m)"
proof -
  have "keeps rnd (dbE env (persist_open_tx (tr_account_id tr) t m))"
  proof (rule keeps_dbE [OF assms(1)])
    fix db ts
    show "ledger_run rnd db ts (snd (persist_open_tx (tr_account_id tr) t m db)) ts"
      using ledger_step.open_trade [OF assms(2,4)] assms(3) by (intro ledger_run_op) auto
  qed
  then show ?thesis unfolding persist_open_trade_def by (intro keeps_rules)
qed

lemma refines_liftR: "refines rnd P (liftR r) (\<lambda>x ts. P ts \<and> r = Inr x)"
  by (auto simp: refines_def run_simps intro: ledger_run_refl)

lemma keeps_bind_liftR:
  assumes "\<And>x. r = Inr x \<Longrightarrow> keeps rnd (f x)"
  shows "keeps rnd (bindE (liftR r) f)"
  using assms by (cases r) (auto simp: refines_def run_simps intro: ledger_run_refl)

lemma keeps_execute:
  assumes "tasks_are_steps rnd env"
  shows "keeps rnd (execute rnd env tr sig)"
  unfolding execute_def Let_def
  by (intro keeps_rules assms keeps_bind_liftR keeps_persist_open)
    (auto simp: required_margin_def truncate_yen_def notify_order_filled_def intro: keeps_rules)


lemma acquire_identity:
  assumes "acquire_close_lock now tid aid db = (Inr (Some l), db')"
  shows "t_id (lock_trade l) = tid \<and> t_account_id (lock_trade l) = aid"
proof -
  obtain r rs where f: "filter (lockable now tid aid) (trades db) = r # rs"
    and t: "trade_of_row (r\<lparr>r_status := ''closing'', r_closing_started_at := Some now\<rparr>) = Inr (lock_trade l)"
    using assms unfolding acquire_close_lock_def
    by (auto simp: run_simps Let_def split: prod.splits sum.splits list.splits option.splits
        dest!: stmt_Inr)
  have "r \<in> set (filter (lockable now tid aid) (trades db))" by (simp add: f)
  then have "lockable now tid aid r" by simp
  then show ?thesis using trade_of_row_fields [OF t] by (simp add: lockable_def)
qed

lemma refines_load:
  assumes "tasks_are_steps rnd env"
  shows "refines rnd (\<lambda>_. True) (load_trade_for_close env tr tid)
     (\<lambda>(t, _) ts. t \<in> set ts \<and> t_id t = tid \<and> t_account_id t = tr_account_id tr)"
proof -
  let ?Q = "\<lambda>lock ts. \<forall>l. lock = Some l \<longrightarrow> lock_trade l \<in> set ts \<and> t_id (lock_trade l) = tid
      \<and> t_account_id (lock_trade l) = tr_account_id tr"
  have acq: "refines rnd (\<lambda>_. True) (dbE env (acquire_close_lock now tid (tr_account_id tr))) ?Q" for now
  proof (rule refines_dbE [OF assms])
    fix db ts r db' assume run: "acquire_close_lock now tid (tr_account_id tr) db = (r, db')"
    let ?ts = "case r of Inr (Some l) \<Rightarrow> lock_trade l # ts | _ \<Rightarrow> ts"
    have "ledger_step rnd \<lparr>ldb = db, snapshots = ts\<rparr> \<lparr>ldb = db', snapshots = ?ts\<rparr>"
      using ledger_step.take_lock [of now tid "tr_account_id tr" "\<lparr>ldb = db, snapshots = ts\<rparr>" r db' rnd] run
      by (simp cong: sum.case_cong option.case_cong)
    then have "ledger_run rnd db ts db' ?ts"
      by (rule ledger_run_step) (auto split: sum.splits option.splits)
    moreover have "\<forall>x. r = Inr x \<longrightarrow> ?Q x ?ts" using acquire_identity run by auto
    ultimately show "\<exists>ts'. ledger_run rnd db ts db' ts' \<and> (\<forall>x. r = Inr x \<longrightarrow> ?Q x ts')" by blast
  qed auto
  show ?thesis
    unfolding load_trade_for_close_def
  proof (rule refines_bind [OF keeps_pure(5)], rule refines_bind [OF acq], rule refines_bind [OF refines_liftR])
    fix lock l
    show "refines rnd (\<lambda>ts. ?Q lock ts \<and> ok_or (Anyhow ''invalid trade: not in open state'') lock = Inr l)
       (returnE (lock_trade l, was_stale_recovery l))
       (\<lambda>(t, _) ts. t \<in> set ts \<and> t_id t = tid \<and> t_account_id t = tr_account_id tr)"
      by (auto simp: refines_def run_simps intro: ledger_run_refl)
  qed
qed

lemma keeps_close_and_release [keeps_rules]:
  assumes "tasks_are_steps rnd env"
  shows "keeps rnd (close_and_release_lock_on_error rnd' env tr tid t stale)"
proof -
  have "keeps rnd (dbE env (release_close_lock tid))"
    by (intro keeps_dbE assms ledger_run_op) (auto intro: ledger_step.drop_lock)
  then show ?thesis
    unfolding close_and_release_lock_on_error_def by (intro keeps_rules assms)
qed

lemma refines_persist_closed:
  assumes "tasks_are_steps rnd env" and "t_id c = t_id t" and "t_account_id t = tr_account_id tr"
    and "required_margin rnd (entry_position t) = Inr m"
  shows "refines rnd (\<lambda>ts. t \<in> set ts) (persist_closed_trade rnd env tr c m pnl ep ea x) (\<lambda>_ _. True)"
proof -
  let ?m = "dbE env (persist_closed_tx rnd (tr_account_id tr) c m pnl ep ea x)"
  have "refines rnd (\<lambda>ts. t \<in> set ts) ?m (\<lambda>_ _. True)"
  proof (rule refines_dbE [OF assms(1)])
    fix db ts r db'
    assume t: "t \<in> set ts" and run: "persist_closed_tx rnd (tr_account_id tr) c m pnl ep ea x db = (r, db')"
    have "ledger_run rnd db ts (snd (persist_closed_tx rnd (tr_account_id tr) c m pnl ep ea x db)) ts"
      using t ledger_step.settle [OF _ assms(2,4)] assms(3) by (intro ledger_run_op) auto
    then show "\<exists>ts'. ledger_run rnd db ts db' ts' \<and> (\<forall>x. r = Inr x \<longrightarrow> True)" using run by auto
  qed simp
  then have "refines rnd (\<lambda>ts. t \<in> set ts) (attempt ?m) (\<lambda>_ _. True)"
    unfolding refines_def by (fastforce simp: run_simps split: prod.splits sum.splits error.splits)
  then show ?thesis
    unfolding persist_closed_trade_def
    by (rule refines_bind) (auto simp: handle_close_persist_failure_def intro!: keeps_rules)
qed

lemma refines_close_locked:
  assumes env: "tasks_are_steps rnd env" and t: "t_account_id t = tr_account_id tr"
  shows "refines rnd (\<lambda>ts. t \<in> set ts) (close_locked rnd env tr tid x (t, stale)) (\<lambda>_ _. True)"
  unfolding close_locked_def prod.case
proof (rule refines_bind [OF refines_frame])
  show "keeps rnd (if tr_dry_run tr then returnE None
      else bindE (snapshot_live_sfd_before_close env tr t) (\<lambda>v. returnE (Some v)))"
    by (intro keeps_rules env)
  have persist: "refines rnd (\<lambda>ts. t \<in> set ts) (bindE (liftR (ddiv rnd (dmul rnd (t_entry_price t) (t_quantity t)) (t_leverage t))) (\<lambda>m.
     bindE (persist_closed_trade rnd env tr c (truncate_yen m) pnl ep ea x) (\<lambda>_.
     bindE (notify_close_result tr c pnl x b) (\<lambda>_. returnE c)))) (\<lambda>_ _. True)"
    if c: "t_id c = t_id t" for c pnl ep ea b
  proof (cases "ddiv rnd (dmul rnd (t_entry_price t) (t_quantity t)) (t_leverage t)")
    case (Inl e)
    then show ?thesis by (auto simp: refines_def run_simps intro: ledger_run_refl)
  next
    case (Inr m)
    then have "required_margin rnd (entry_position t) = Inr (truncate_yen m)"
      by (simp add: required_margin_def truncate_yen_def)
    note p = refines_persist_closed [OF env c t this, of pnl ep ea x]
    have "refines rnd (\<lambda>ts. t \<in> set ts) (bindE (persist_closed_trade rnd env tr c (truncate_yen m) pnl ep ea x) (\<lambda>_.
       bindE (notify_close_result tr c pnl x b) (\<lambda>_. returnE c))) (\<lambda>_ _. True)"
      by (rule refines_bind [OF p]) (auto simp: notify_close_result_def intro!: keeps_rules)
    then show ?thesis using Inr by (simp add: bindE_def liftR_def)
  qed
  fix sfd
  show "refines rnd (\<lambda>ts. t \<in> set ts) (bindE (close_and_release_lock_on_error rnd env tr tid t stale)
       (\<lambda>(exit_price, close_commission, stale_approximate).
     let sfd_accrued = unwrap_or sfd (sfd_estimate (tr_exchange tr) exit_price (t_quantity t));
         pnl_amount = trade_pnl rnd t exit_price in
     bindE (utc_now env) (\<lambda>exit_at.
     let c = closed_copy rnd t exit_price close_commission sfd_accrued pnl_amount exit_at x in
     bindE (liftR (ddiv rnd (dmul rnd (t_entry_price t) (t_quantity t)) (t_leverage t))) (\<lambda>m.
     bindE (persist_closed_trade rnd env tr c (truncate_yen m) pnl_amount exit_price exit_at x) (\<lambda>_.
     bindE (notify_close_result tr c pnl_amount x stale_approximate) (\<lambda>_.
     returnE c)))))) (\<lambda>_ _. True)"
    by (rule refines_bind [OF refines_frame [OF keeps_close_and_release [OF env]]])
      (auto simp: Let_def closed_copy_def split: prod.splits
        intro!: refines_bind [OF refines_frame [OF keeps_pure(5)]] persist)
qed

lemma keeps_close_position:
  assumes "tasks_are_steps rnd env"
  shows "keeps rnd (close_position rnd env tr tid x)"
  unfolding close_position_split
proof (rule refines_bind [OF refines_load [OF assms]])
  fix p :: "trade \<times> bool"
  obtain t stale where p: "p = (t, stale)" by fastforce
  show "refines rnd (case p of (t, _) \<Rightarrow> \<lambda>ts. t \<in> set ts \<and> t_id t = tid \<and> t_account_id t = tr_account_id tr)
     (close_locked rnd env tr tid x p) (\<lambda>_ _. True)"
  proof (cases "t_account_id t = tr_account_id tr")
    case True
    show ?thesis unfolding p prod.case
      by (rule refines_weaken [OF refines_close_locked [OF assms True]]) auto
  qed (simp add: p refines_def)
qed


section \<open>The program stays within the reachable ledger states\<close>

lemma keeps_reachable:
  assumes "keeps rnd m" and "reachable ledger_init (ledger_step rnd) \<lparr>ldb = w_db w, snapshots = ts\<rparr>"
  shows "\<exists>ts'. reachable ledger_init (ledger_step rnd) \<lparr>ldb = w_db (snd (m w)), snapshots = ts'\<rparr>"
proof -
  obtain r w' where run: "m w = (r, w')" by fastforce
  obtain ts' where "ledger_run rnd (w_db w) ts (w_db w') ts'"
    using refinesD [OF assms(1) _ run, of ts] by auto
  then show ?thesis
    using assms(2) run unfolding reachable_def ledger_run_def by (auto intro: rtranclp_trans)
qed

text \<open>
  C18. Refinement: when the other tasks of the process change the ledger only by its steps,
  every run of \<open>execute\<close> and of \<open>close_position\<close>, with any answers of the exchange, any
  interleaving and any database failure, leads from a reachable ledger state to a reachable
  ledger state.
\<close>

theorem trader_refines_ledger:
  assumes "tasks_are_steps rnd env"
    and "reachable ledger_init (ledger_step rnd) \<lparr>ldb = w_db w, snapshots = ts\<rparr>"
  shows "(\<exists>ts'. reachable ledger_init (ledger_step rnd)
            \<lparr>ldb = w_db (snd (execute rnd env tr sig w)), snapshots = ts'\<rparr>)
    \<and> (\<exists>ts'. reachable ledger_init (ledger_step rnd)
            \<lparr>ldb = w_db (snd (close_position rnd env tr tid x w)), snapshots = ts'\<rparr>)"
  using keeps_reachable [OF keeps_execute [OF assms(1)] assms(2)]
    keeps_reachable [OF keeps_close_position [OF assms(1)] assms(2)] by blast

end
