(* ===== verification/Trader_Close.thy ===== *)
theory Trader_Close
  imports Trader_Refinement Ledger_Theorems
begin

text \<open>
  What a close does to the database when no other task interferes: on success the row, the
  balance and the returned trade agree; when the fill fails the close lock is given back.
\<close>

section \<open>The exchange side leaves the database alone\<close>

lemma quiet_dbE: "quiet env \<Longrightarrow> dbE env m w = (r, w') \<Longrightarrow> m (w_db w) = (r, w_db w')"
  by (auto simp: dbE_def quiet_tasks split: prod.splits)

lemma quiet_attempt_same:
  assumes "along same_db m" and "attempt m w = (r, w')"
  shows "w_db w' = w_db w"
proof -
  obtain r1 w1 where m: "m w = (r1, w1)" by fastforce
  have "w' = w1" using assms(2) m by (auto simp: run_simps split: sum.splits error.splits)
  then show ?thesis using alongD [OF assms(1) m] by (simp add: same_db_def)
qed

lemma quiet_fill:
  assumes "quiet env"
  shows "along same_db (if \<not> tr_dry_run tr \<and> stale then fill_close_with_stale_recovery rnd env tr t
      else bindE (fill_close rnd env tr t) (\<lambda>(price, commission). returnE (price, commission, False)))"
proof -
  note a = quiet_awaiting [OF assms]
  show ?thesis
    by (intro awaiting.r_cases [OF a] awaiting.r_bind [OF a] awaiting.r_pure [OF a]
        awaiting.along_stale_recovery [OF a] awaiting.along_fill_close [OF a])
qed

lemma close_and_release_success:
  assumes "quiet env" and "close_and_release_lock_on_error rnd env tr tid t stale w = (Inr y, w')"
  shows "w_db w' = w_db w"
proof -
  let ?m = "if \<not> tr_dry_run tr \<and> stale then fill_close_with_stale_recovery rnd env tr t
      else bindE (fill_close rnd env tr t) (\<lambda>(price, commission). returnE (price, commission, False))"
  obtain r1 w1 where m: "attempt ?m w = (r1, w1)" by fastforce
  have "w' = w1" using assms(2) m unfolding close_and_release_lock_on_error_def
    by (auto simp: bindE_run returnE_run failE_run split: prod.splits sum.splits)
  then show ?thesis using quiet_attempt_same [OF quiet_fill [OF assms(1)] m] by simp
qed


section \<open>A successful close\<close>

lemma close_locked_success:
  assumes q: "quiet env" and run: "close_locked rnd env tr tid x (t, stale) w = (Inr c, w')"
  shows "\<exists>ep comm sfd ea m. c = closed_copy rnd t ep comm sfd (trade_pnl rnd t ep) ea x
    \<and> ddiv rnd (dmul rnd (t_entry_price t) (t_quantity t)) (t_leverage t) = Inr m
    \<and> persist_closed_tx rnd (tr_account_id tr) c (truncate_yen m) (trade_pnl rnd t ep) ep ea x (w_db w)
        = (Inr (), w_db w')"
proof -
  note a = quiet_awaiting [OF q]
  let ?sfd = "if tr_dry_run tr then returnE None
            else bindE (snapshot_live_sfd_before_close env tr t) (\<lambda>v. returnE (Some v))"
  obtain s w1 where 1: "?sfd w = (Inr s, w1)"
    and run1: "bindE (close_and_release_lock_on_error rnd env tr tid t stale)
       (\<lambda>(exit_price, close_commission, stale_approximate).
     let sfd_accrued = unwrap_or s (sfd_estimate (tr_exchange tr) exit_price (t_quantity t));
         pnl_amount = trade_pnl rnd t exit_price in
     bindE (utc_now env) (\<lambda>exit_at.
     let c = closed_copy rnd t exit_price close_commission sfd_accrued pnl_amount exit_at x in
     bindE (liftR (ddiv rnd (dmul rnd (t_entry_price t) (t_quantity t)) (t_leverage t))) (\<lambda>m.
     bindE (persist_closed_trade rnd env tr c (truncate_yen m) pnl_amount exit_price exit_at x) (\<lambda>_.
     bindE (notify_close_result tr c pnl_amount x stale_approximate) (\<lambda>_.
     returnE c))))) w1 = (Inr c, w')"
    using run unfolding close_locked_def prod.case
    by (subst (asm) bindE_run) (auto split: prod.splits sum.splits)
  have "along same_db ?sfd"
    by (intro awaiting.r_cases [OF a] awaiting.r_bind [OF a] awaiting.r_pure [OF a] awaiting.along_sfd [OF a])
  from alongD [OF this 1] have db1: "w_db w1 = w_db w" by (simp add: same_db_def)
  obtain ep comm b w2 where 2: "close_and_release_lock_on_error rnd env tr tid t stale w1 = (Inr (ep, comm, b), w2)"
    using run1 by (auto simp: bindE_run split: prod.splits sum.splits)
  have db2: "w_db w2 = w_db w" using close_and_release_success [OF q 2] db1 by simp
  let ?c = "closed_copy rnd t ep comm (unwrap_or s (sfd_estimate (tr_exchange tr) ep (t_quantity t)))
      (trade_pnl rnd t ep) (env_utc_now env (w_out w2)) x"
  obtain m where m: "ddiv rnd (dmul rnd (t_entry_price t) (t_quantity t)) (t_leverage t) = Inr m"
    and rest: "bindE (persist_closed_trade rnd env tr ?c (truncate_yen m) (trade_pnl rnd t ep) ep (env_utc_now env (w_out w2)) x) (\<lambda>_.
     bindE (notify_close_result tr ?c (trade_pnl rnd t ep) x b) (\<lambda>_. returnE ?c)) w2 = (Inr c, w')"
    using run1 2 by (auto simp: bindE_run [of "close_and_release_lock_on_error rnd env tr tid t stale"]
        Let_def utc_now_def run_simps split: sum.splits)
  obtain w3 where 3: "persist_closed_trade rnd env tr ?c (truncate_yen m) (trade_pnl rnd t ep) ep
      (env_utc_now env (w_out w2)) x w2 = (Inr (), w3)"
    and 4: "bindE (notify_close_result tr ?c (trade_pnl rnd t ep) x b) (\<lambda>_. returnE ?c) w3 = (Inr c, w')"
    using rest by (subst (asm) bindE_run) (auto split: prod.splits sum.splits)
  have c: "c = ?c" using 4 by (auto simp: bindE_run returnE_run split: prod.splits sum.splits)
  have "along same_db (bindE (notify_close_result tr ?c (trade_pnl rnd t ep) x b) (\<lambda>_. returnE ?c))"
    by (intro awaiting.r_bind [OF a] awaiting.r_pure [OF a] awaiting.along_notify_close [OF a])
  from alongD [OF this 4] have db3: "w_db w' = w_db w3" by (simp add: same_db_def)
  have "dbE env (persist_closed_tx rnd (tr_account_id tr) ?c (truncate_yen m) (trade_pnl rnd t ep) ep
      (env_utc_now env (w_out w2)) x) w2 = (Inr (), w3)"
    using 3 unfolding persist_closed_trade_def handle_close_persist_failure_def
    by (auto simp: run_simps split: prod.splits sum.splits error.splits if_splits)
  from quiet_dbE [OF q this] db2 db3 m c show ?thesis by metis
qed

lemma persist_closed_tx_Inr:
  assumes "persist_closed_tx rnd aid c m pnl ep ea x db = (Inr y, db')"
  shows "filter (\<lambda>r. r_id r = t_id c \<and> unsettled r) (trades db) \<noteq> []
    \<and> trades db' = update_rows (\<lambda>r. r_id r = t_id c \<and> unsettled r)
       (\<lambda>r. r\<lparr>r_exit_price := Some ep, r_exit_at := Some ea, r_pnl_amount := Some pnl,
         r_exit_reason := Some (exit_reason_as_str x), r_fees := t_fees c, r_status := ''closed'',
         r_closing_started_at := None\<rparr>) (trades db)
    \<and> accounts db' = update_rows (\<lambda>a. a_id a = aid)
       (\<lambda>a. a\<lparr>a_current_balance := a_current_balance a + (m + pnl)\<rparr>) (accounts db)"
proof -
  from transaction_Inr [OF assms [unfolded persist_closed_tx_def]] obtain fs d fs'
    where "bindE (update_trade_closed (t_id c) ep ea pnl x (t_fees c)) (\<lambda>_.
        bindE (release_margin rnd aid (t_id c) m pnl) (\<lambda>_. insert_trade_closed c)) (db\<lparr>faults := fs\<rparr>) = (Inr y, d)"
      and db': "db' = d\<lparr>faults := fs'\<rparr>" by blast
  then obtain d1 d2 where 1: "update_trade_closed (t_id c) ep ea pnl x (t_fees c) (db\<lparr>faults := fs\<rparr>) = (Inr (), d1)"
    and 2: "release_margin rnd aid (t_id c) m pnl d1 = (Inr (), d2)"
    and 3: "insert_trade_closed c d2 = (Inr y, d)"
    by (auto simp: run_simps split: prod.splits sum.splits)
  show ?thesis
    using update_trade_closed_Inr [OF 1] release_margin_Inr [OF 2] insert_trade_closed_Inr [OF 3]
    by (auto simp: db' posted_def)
qed


lemma trade_of_closed_row:
  assumes "trade_of_row r = Inr t"
  shows "trade_of_row (r\<lparr>r_exit_price := Some ep, r_exit_at := Some ea, r_pnl_amount := Some pnl,
      r_exit_reason := Some (exit_reason_as_str x), r_fees := fees, r_status := ''closed'',
      r_closing_started_at := None\<rparr>)
    = Inr (t\<lparr>t_exit_price := Some ep, t_fees := fees, t_exit_at := Some ea, t_pnl_amount := Some pnl,
        t_exit_reason := Some x, t_status := Closed\<rparr>)"
proof -
  have "trade_status_from_str ''closed'' = Inr Closed"
    using trade_status_roundtrip [of Closed] by simp
  then show ?thesis using assms unfolding trade_of_row_def by (auto simp: bindR_eq_Inr)
qed

lemma updated_row: "r \<in> set rows \<Longrightarrow> p r \<Longrightarrow> f r \<in> set (update_rows p f rows)"
  by (auto simp: set_update_rows)

lemma loaded_row:
  assumes "quiet env" and "distinct (map r_id (trades (w_db w)))"
    and "load_trade_for_close env tr tid w = (Inr (t, stale), w1)"
  obtains r now where "r \<in> set (trades (w_db w))" and "lockable now tid (tr_account_id tr) r"
    and "trades (w_db w1) = update_rows (\<lambda>q. r_id q = tid)
        (\<lambda>q. q\<lparr>r_status := ''closing'', r_closing_started_at := Some now\<rparr>) (trades (w_db w))"
    and "trade_of_row (r\<lparr>r_status := ''closing'', r_closing_started_at := Some now\<rparr>) = Inr t"
    and "accounts (w_db w1) = accounts (w_db w)"
proof -
  obtain l where acq: "acquire_close_lock (env_utc_now env (w_out w)) tid (tr_account_id tr) (w_db w)
      = (Inr (Some l), w_db w1)" and t: "t = lock_trade l"
    using assms(3) unfolding load_trade_for_close_def
    by (auto simp: run_simps utc_now_def dbE_def quiet_tasks [OF assms(1)] split: prod.splits sum.splits)
  show ?thesis using acquire_result [OF assms(2) acq] t that by metis
qed

text \<open>The settled row reads back as the closed trade.\<close>

lemma settled_row:
  assumes "persist_closed_tx rnd aid c m pnl ep ea x db = (Inr (), db')"
    and c: "c = closed_copy rnd t ep comm sfd pnl ea x" and t: "trade_of_row q = Inr t"
    and q: "q \<in> set (trades db)" "unsettled q"
  shows "\<exists>r' \<in> set (trades db'). r_id r' = r_id q \<and> trade_of_row r' = Inr c"
proof -
  let ?settle = "\<lambda>q. q\<lparr>r_exit_price := Some ep, r_exit_at := Some ea, r_pnl_amount := Some pnl,
      r_exit_reason := Some (exit_reason_as_str x), r_fees := t_fees c, r_status := ''closed'',
      r_closing_started_at := None\<rparr>"
  have "r_id q = t_id c \<and> unsettled q"
    using q(2) trade_of_row_fields [OF t] by (simp add: c closed_copy_def)
  from updated_row [where p = "\<lambda>q. r_id q = t_id c \<and> unsettled q" and f = ?settle, OF q(1) this]
  have "?settle q \<in> set (trades db')" using persist_closed_tx_Inr [OF assms(1)] by argo
  moreover have "trade_of_row (?settle q) = Inr c"
    using trade_of_closed_row [OF t] by (simp add: c closed_copy_def)
  ultimately show ?thesis by (intro bexI [of _ "?settle q"]) simp_all
qed

text \<open>
  C22. A successful close settles the trade: its row, open or closing before, is closed and reads
  back as exactly the returned trade; the booked result is the truncated price difference times
  the quantity; and the balance of the account grew by the margin locked for it plus that result.
\<close>

theorem close_position_settles:
  assumes "quiet env" and "reachable ledger_init (ledger_step rnd) \<lparr>ldb = w_db w, snapshots = ts\<rparr>"
    and "close_position rnd env tr tid x w = (Inr c, w')"
  shows "\<exists>r \<in> set (trades (w_db w)). r_id r = tid \<and> unsettled r \<and> r_account_id r = tr_account_id tr
    \<and> (\<exists>r' \<in> set (trades (w_db w')). r_id r' = tid \<and> trade_of_row r' = Inr c)
    \<and> t_status c = Closed \<and> t_exit_reason c = Some x
    \<and> (\<exists>p. t_exit_price c = Some p \<and> t_pnl_amount c = Some (trade_pnl rnd c p)
        \<and> accounts (w_db w') = update_rows (\<lambda>a. a_id a = tr_account_id tr)
            (\<lambda>a. a\<lparr>a_current_balance := a_current_balance a + (row_margin rnd r + trade_pnl rnd c p)\<rparr>)
            (accounts (w_db w)))"
proof -
  have dist: "distinct (map r_id (trades (w_db w)))"
    using ledger.reachable_inv [OF assms(2)] by (simp add: system_inv_def ledger_inv_def wf_db_def)
  obtain t stale w1 where load: "load_trade_for_close env tr tid w = (Inr (t, stale), w1)"
    and run: "close_locked rnd env tr tid x (t, stale) w1 = (Inr c, w')"
    using assms(3) unfolding close_position_split by (auto simp: bindE_run split: prod.splits sum.splits)
  obtain r now where r: "r \<in> set (trades (w_db w))" "lockable now tid (tr_account_id tr) r"
    and db1: "trades (w_db w1) = update_rows (\<lambda>q. r_id q = tid)
        (\<lambda>q. q\<lparr>r_status := ''closing'', r_closing_started_at := Some now\<rparr>) (trades (w_db w))"
    and tr: "trade_of_row (r\<lparr>r_status := ''closing'', r_closing_started_at := Some now\<rparr>) = Inr t"
    and acc1: "accounts (w_db w1) = accounts (w_db w)"
    by (rule loaded_row [OF assms(1) dist load])
  obtain ep comm sfd ea m where c: "c = closed_copy rnd t ep comm sfd (trade_pnl rnd t ep) ea x"
    and m: "ddiv rnd (dmul rnd (t_entry_price t) (t_quantity t)) (t_leverage t) = Inr m"
    and tx: "persist_closed_tx rnd (tr_account_id tr) c (truncate_yen m) (trade_pnl rnd t ep) ep ea x (w_db w1)
        = (Inr (), w_db w')"
    using close_locked_success [OF assms(1) run] by blast
  have pnl: "trade_pnl rnd c ep = trade_pnl rnd t ep"
    by (cases "t_direction t") (simp_all add: c closed_copy_def trade_pnl_def)
  have margin: "truncate_yen m = row_margin rnd r"
    using m trade_of_row_fields [OF tr]
    by (auto simp: row_margin_def truncate_yen_def ddiv_def dmul_def split: if_splits)
  let ?lock = "\<lambda>q. q\<lparr>r_status := ''closing'', r_closing_started_at := Some now\<rparr>"
  have "?lock r \<in> set (trades (w_db w1))"
    using r unfolding db1 by (auto simp: lockable_def intro: updated_row)
  from settled_row [OF tx c tr this] r(2)
  have "\<exists>r' \<in> set (trades (w_db w')). r_id r' = tid \<and> trade_of_row r' = Inr c"
    by (simp add: lockable_def unsettled_def)
  moreover have "t_status c = Closed" "t_exit_reason c = Some x" "t_exit_price c = Some ep"
    "t_pnl_amount c = Some (trade_pnl rnd c ep)"
    using pnl by (simp_all add: c closed_copy_def)
  moreover have "accounts (w_db w') = update_rows (\<lambda>a. a_id a = tr_account_id tr)
      (\<lambda>a. a\<lparr>a_current_balance := a_current_balance a + (row_margin rnd r + trade_pnl rnd c ep)\<rparr>) (accounts (w_db w))"
    using persist_closed_tx_Inr [OF tx] by (simp add: acc1 margin pnl)
  moreover have "r_id r = tid" "unsettled r" "r_account_id r = tr_account_id tr"
    using r(2) lockable_unsettled by (auto simp: lockable_def)
  ultimately show ?thesis using r(1) by blast
qed

end
