(* ===== verification/Trader_Poll.thy ===== *)
theory Trader_Poll
  imports Call_Log
begin

text \<open>
  The polling loop ends: with clocks that move forward, the fuel computed from the timeout is
  never used up, and more fuel changes nothing. The average of the fills it returns lies
  between the lowest and the highest fill price.
\<close>

section \<open>Clocks\<close>

text \<open>
  Sleeping takes at least the time asked for, and no call and no other task turns the clock back.
\<close>

definition clock_forward :: "'x environment \<Rightarrow> 'x trader \<Rightarrow> bool" where
  "clock_forward env tr \<longleftrightarrow>
     (\<forall>d x. 0 \<le> d \<longrightarrow> env_instant env x + d \<le> env_instant env (env_sleep env d x)) \<and>
     (\<forall>x db. env_instant env x \<le> env_instant env (fst (env_tasks env x db))) \<and>
     (\<forall>p i x. env_instant env x \<le> env_instant env (snd (api_get_executions (tr_api tr) p i x)))"

abbreviation instant :: "'x environment \<Rightarrow> 'x world \<Rightarrow> int" where
  "instant env w \<equiv> env_instant env (w_out w)"

lemma instant_tasks:
  assumes "clock_forward env tr"
  shows "instant env w \<le> instant env (let_tasks_run env w)"
proof -
  have "w_out (let_tasks_run env w) = fst (env_tasks env (w_out w) (w_db w))"
    by (simp add: let_tasks_run_def split: prod.splits)
  then show ?thesis using assms by (simp add: clock_forward_def)
qed

lemma instant_sleep:
  assumes "clock_forward env tr" and "0 \<le> d" and "sleep env d w = (r, w')"
  shows "instant env w + d \<le> instant env w'"
proof -
  let ?w1 = "w\<lparr>w_out := env_sleep env d (w_out w)\<rparr>"
  have "instant env w + d \<le> instant env ?w1" using assms(1,2) by (simp add: clock_forward_def)
  also have "\<dots> \<le> instant env w'" using assms(3) instant_tasks [OF assms(1), of ?w1] by (auto simp: sleep_def)
  finally show ?thesis .
qed

lemma instant_get_executions:
  assumes "clock_forward env tr" and "get_executions env tr p i w = (r, w')"
  shows "instant env w \<le> instant env w'"
proof -
  let ?x = "snd (api_get_executions (tr_api tr) p i (w_out w))"
  let ?w1 = "w\<lparr>w_out := ?x, w_calls := w_calls w @ [ReadExecutions p i]\<rparr>"
  have "instant env w \<le> instant env ?w1" using assms(1) by (simp add: clock_forward_def)
  also have "\<dots> \<le> instant env (let_tasks_run env ?w1)" by (rule instant_tasks [OF assms(1)])
  finally show ?thesis
    using assms(2) by (auto simp: get_executions_def call_def split: prod.splits)
qed

section \<open>Termination of the polling loop\<close>

text \<open>
  After \<open>n\<close> rounds at least \<open>n\<close> initial delays have passed, so a loop with \<open>m\<close> rounds of fuel
  left has fuel to spare as long as the time left is less than \<open>m - 1\<close> initial delays.
\<close>

lemma weighted_avg_fills_no_panic: "weighted_avg_fills rnd fills \<noteq> Inl (Panic p)"
  unfolding weighted_avg_fills_def Let_def ddiv_def by (auto split: prod.splits)

lemma aggregate_no_panic: "aggregate_executions rnd execs \<noteq> Inl (Panic p)"
  unfolding aggregate_executions_def by (rule weighted_avg_fills_no_panic)

lemma get_executions_error: "get_executions env tr p i w = (Inl e, w') \<Longrightarrow> \<exists>m. e = Anyhow m"
  by (auto simp: get_executions_def call_def split: prod.splits sum.splits)

lemma poll_loop_Suc:
  "poll_loop (Suc m) rnd env tr i pair timeout start delay w =
   (if timeout < instant env w - start then (Inl (Anyhow ''failed to poll executions: timed out''), w)
    else case get_executions env tr pair i w of
      (Inl e, w1) \<Rightarrow> (Inl e, w1)
    | (Inr execs, w1) \<Rightarrow>
        (case (if execs \<noteq> [] then aggregate_executions rnd execs else Inl (Anyhow [])) of
           Inr out \<Rightarrow> (Inr out, w1)
         | Inl _ \<Rightarrow> poll_loop m rnd env tr i pair timeout start (min (delay * 2) POLL_EXECUTIONS_MAX_DELAY)
                     (snd (sleep env delay w1))))"
proof (cases "timeout < instant env w - start")
  case False
  obtain r w1 where g: "get_executions env tr pair i w = (r, w1)" by fastforce
  show ?thesis
  proof (cases r)
    case (Inr execs)
    show ?thesis
    proof (cases "execs = []")
      case True
      then show ?thesis using False g Inr by (simp add: run_simps Let_def sleep_def)
    next
      case ne: False
      show ?thesis
      proof (cases "aggregate_executions rnd execs")
        case (Inl e)
        then obtain msg where "e = Anyhow msg" using aggregate_no_panic by (cases e) auto
        then show ?thesis using False g Inr ne Inl by (simp add: run_simps Let_def sleep_def)
      qed (use False g Inr ne in \<open>simp add: run_simps Let_def\<close>)
    qed
  qed (use False g in \<open>simp add: run_simps Let_def\<close>)
qed (simp add: run_simps)

lemma poll_loop_enough_fuel:
  assumes clock: "clock_forward env tr"
  shows "POLL_EXECUTIONS_INITIAL_DELAY \<le> delay \<Longrightarrow>
    timeout < instant env w - start + int n * POLL_EXECUTIONS_INITIAL_DELAY \<Longrightarrow>
    fst (poll_loop (Suc n) rnd env tr i pair timeout start delay w) \<noteq> Inl poll_out_of_fuel \<and>
    poll_loop (Suc n + k) rnd env tr i pair timeout start delay w =
    poll_loop (Suc n) rnd env tr i pair timeout start delay w"
proof (induction n arbitrary: w delay)
  case 0
  then show ?case by (simp add: poll_loop_Suc poll_out_of_fuel_def del: poll_loop.simps)
next
  case (Suc n)
  let ?d = "min (delay * 2) POLL_EXECUTIONS_MAX_DELAY"
  have "0 < POLL_EXECUTIONS_INITIAL_DELAY" by (simp add: POLL_EXECUTIONS_INITIAL_DELAY_def milliseconds_def)
  then have d: "POLL_EXECUTIONS_INITIAL_DELAY \<le> ?d" "0 \<le> delay"
    using Suc.prems(1) by (auto simp: POLL_EXECUTIONS_INITIAL_DELAY_def POLL_EXECUTIONS_MAX_DELAY_def milliseconds_def)
  have IH: "fst (poll_loop (Suc n) rnd env tr i pair timeout start ?d (snd (sleep env delay w1))) \<noteq> Inl poll_out_of_fuel
      \<and> poll_loop (Suc n + k) rnd env tr i pair timeout start ?d (snd (sleep env delay w1)) =
        poll_loop (Suc n) rnd env tr i pair timeout start ?d (snd (sleep env delay w1))"
    if "get_executions env tr pair i w = (r, w1)" for r w1
  proof (rule Suc.IH [OF d(1)])
    have "instant env w \<le> instant env w1" by (rule instant_get_executions [OF clock that])
    moreover have "instant env w1 + delay \<le> instant env (snd (sleep env delay w1))"
      by (rule instant_sleep [OF clock d(2)]) (simp add: sleep_def)
    ultimately show "timeout < instant env (snd (sleep env delay w1)) - start + int n * POLL_EXECUTIONS_INITIAL_DELAY"
      using Suc.prems by (simp add: algebra_simps)
  qed
  obtain r w1 where g: "get_executions env tr pair i w = (r, w1)" by fastforce
  have e: "e \<noteq> poll_out_of_fuel" if "r = Inl e" for e
    using get_executions_error [of env tr pair i w e w1] g that by (auto simp: poll_out_of_fuel_def)
  have "Anyhow m \<noteq> poll_out_of_fuel" for m by (simp add: poll_out_of_fuel_def)
  then show ?case
    using IH [OF g] e
    unfolding add_Suc poll_loop_Suc [of "Suc n"] poll_loop_Suc [of "Suc (n + k)"] g
    by (auto split: sum.splits simp del: poll_loop.simps)
qed

text \<open>
  C19. With clocks that move forward, \<open>poll_executions\<close> returns: its fuel is never used up, and
  any larger amount of fuel gives the same run, so the loop of the source ends with this result.
\<close>

theorem poll_executions_terminates:
  assumes "clock_forward env tr" and "0 \<le> timeout" and "poll_fuel timeout \<le> fuel"
  shows "fst (poll_executions rnd env tr i pair timeout w) \<noteq> Inl poll_out_of_fuel
    \<and> poll_loop fuel rnd env tr i pair timeout (instant env w) POLL_EXECUTIONS_INITIAL_DELAY w
      = poll_executions rnd env tr i pair timeout w"
proof -
  let ?n = "nat (timeout div POLL_EXECUTIONS_INITIAL_DELAY) + 1"
  have pos: "0 < POLL_EXECUTIONS_INITIAL_DELAY" by (simp add: POLL_EXECUTIONS_INITIAL_DELAY_def milliseconds_def)
  have "int ?n = timeout div POLL_EXECUTIONS_INITIAL_DELAY + 1"
    using assms(2) pos by (simp add: pos_imp_zdiv_nonneg_iff)
  moreover have "timeout < (timeout div POLL_EXECUTIONS_INITIAL_DELAY + 1) * POLL_EXECUTIONS_INITIAL_DELAY"
    using pos by (metis add.commute distrib_right mult_1 add_strict_left_mono div_mult_mod_eq pos_mod_bound)
  ultimately have t: "timeout < instant env w - instant env w + int ?n * POLL_EXECUTIONS_INITIAL_DELAY"
    by (simp only: diff_self add_0)
  obtain k where k: "fuel = Suc ?n + k"
    using assms(3) by (auto simp: poll_fuel_def le_iff_add)
  have "poll_executions rnd env tr i pair timeout w =
      poll_loop (Suc ?n) rnd env tr i pair timeout (instant env w) POLL_EXECUTIONS_INITIAL_DELAY w"
    by (simp add: poll_executions_def run_simps poll_fuel_def del: poll_loop.simps)
  then show ?thesis
    using poll_loop_enough_fuel [OF assms(1) order_refl t, of rnd i pair k] k by simp
qed

section \<open>The average of fills\<close>

lemma fold_fills_exact:
  "foldl (fold_fills exact) (s, n, f) fills =
   (s + (\<Sum>(p, z, c)\<leftarrow>fills. z), n + (\<Sum>(p, z, c)\<leftarrow>fills. p * z), f + (\<Sum>(p, z, c)\<leftarrow>fills. c))"
proof (induction fills arbitrary: s n f)
  case (Cons x xs)
  then show ?case by (cases x) (simp add: fold_fills_def dec_op_defs)
qed simp

lemma weighted_sum_bounds:
  fixes lo hi :: rat
  assumes "\<And>p z c. (p, z, c) \<in> set fills \<Longrightarrow> 0 < z \<and> lo \<le> p \<and> p \<le> hi"
  shows "lo * (\<Sum>(p, z, c)\<leftarrow>fills. z) \<le> (\<Sum>(p, z, c)\<leftarrow>fills. p * z)
    \<and> (\<Sum>(p, z, c)\<leftarrow>fills. p * z) \<le> hi * (\<Sum>(p, z, c)\<leftarrow>fills. z)"
  using assms
proof (induction fills)
  case (Cons x xs)
  obtain p z c where x: "x = (p, z, c)" by (cases x)
  have "0 < z" "lo \<le> p" "p \<le> hi" using Cons.prems [of p z c] x by auto
  then have "lo * z \<le> p * z" "p * z \<le> hi * z" by (simp_all add: mult_right_mono)
  then show ?case using Cons.IH Cons.prems x by (simp add: algebra_simps) (smt (verit) add_mono)
qed simp

lemma sizes_pos:
  fixes fills :: "(decimal \<times> decimal \<times> decimal) list"
  assumes "\<And>p z c. (p, z, c) \<in> set fills \<Longrightarrow> 0 < z" and "fills \<noteq> []"
  shows "0 < (\<Sum>(p, z, c)\<leftarrow>fills. z)"
proof -
  have "0 \<le> (\<Sum>(p, z, c)\<leftarrow>xs. z)" if "set xs \<subseteq> set fills" for xs
    using that assms(1) by (induction xs) (auto simp: less_imp_le add_nonneg_nonneg)
  then have "0 \<le> (\<Sum>(p, z, c)\<leftarrow>tl fills. z)" by (metis assms(2) list.set_sel(2) subsetI)
  moreover obtain p z c where h: "hd fills = (p, z, c)" by (cases "hd fills")
  moreover have "0 < z" using assms(1) [of p z c] assms(2) h by (metis list.set_sel(1))
  ultimately show ?thesis
    using assms(2) by (cases fills) (simp_all add: add_pos_nonneg)
qed

text \<open>
  In exact arithmetic the average of fills with positive sizes exists, lies between the
  lowest and the highest fill price, comes with the sums of sizes and fees, and the notional of
  average and size is the notional of the fills; without fills there is an error and no average.
\<close>

theorem weighted_avg_fills_between:
  assumes "\<And>p z c. (p, z, c) \<in> set fills \<Longrightarrow> 0 < z \<and> lo \<le> p \<and> p \<le> hi"
  shows "(fills = [] \<and> weighted_avg_fills exact fills = Inl (Anyhow ''invalid fills: total size is zero''))
    \<or> (\<exists>avg. weighted_avg_fills exact fills = Inr (avg, (\<Sum>(p, z, c)\<leftarrow>fills. z), (\<Sum>(p, z, c)\<leftarrow>fills. c))
        \<and> lo \<le> avg \<and> avg \<le> hi \<and> avg * (\<Sum>(p, z, c)\<leftarrow>fills. z) = (\<Sum>(p, z, c)\<leftarrow>fills. p * z))"
proof (cases "fills = []")
  case False
  let ?s = "\<Sum>(p, z, c)\<leftarrow>fills. z" and ?n = "\<Sum>(p, z, c)\<leftarrow>fills. p * z"
  have s: "0 < ?s" using sizes_pos assms False by blast
  have b: "lo * ?s \<le> ?n \<and> ?n \<le> hi * ?s" by (rule weighted_sum_bounds) (use assms in blast)
  have "weighted_avg_fills exact fills = Inr (?n / ?s, ?s, (\<Sum>(p, z, c)\<leftarrow>fills. c))"
    using s by (simp add: weighted_avg_fills_def fold_fills_exact Let_def ddiv_def)
  moreover have "lo \<le> ?n / ?s" "?n / ?s \<le> hi" "?n / ?s * ?s = ?n"
    using s b by (simp_all add: pos_le_divide_eq pos_divide_le_eq)
  ultimately show ?thesis by blast
qed (simp add: weighted_avg_fills_def)

theorem weighted_avg_fills_between_witness:
  "weighted_avg_fills exact [(100, 1, 2), (104, 3, 4)] = Inr (103, 4, 6) \<and> (100::rat) \<le> 103 \<and> 103 \<le> (104::rat)"
proof -
  have "0 < z \<and> 100 \<le> p \<and> p \<le> 104" if "(p, z, c) \<in> set [(100, 1, 2), (104, 3, 4)]" for p z c :: rat
    using that by auto
  from weighted_avg_fills_between [of "[(100, 1, 2), (104, 3, 4)]" 100 104, OF this]
  obtain avg where "weighted_avg_fills exact [(100, 1, 2), (104, 3, 4)] = Inr (avg, 4, 6)" "avg * 4 = 412"
    by auto
  then show ?thesis by simp
qed

end
