(* ===== verification/Trader_Theorems.thy ===== *)
theory Trader_Theorems
  imports Trader_Close Trader_Poll
begin

text \<open>
  A concrete exchange and runs of the trader against it, as witnesses of the theorems on the
  trader; and what a close does to the database when no other task interferes.
\<close>

section \<open>A concrete exchange\<close>

text \<open>
  The outside state is the clock. The exchange accepts every order, fills market orders at
  once, and reports every stop as active until it is canceled.
\<close>

definition demo_env :: "int environment" where
  "demo_env = \<lparr>env_utc_now = (\<lambda>x. x), env_instant = (\<lambda>x. x), env_sleep = (\<lambda>d x. x + d),
     env_new_uuid = (\<lambda>x. (7, x)),
     env_prices = (\<lambda>_. price_store_update \<lparr>fk_exchange = GmoFx, fk_pair = ''USD_JPY''\<rparr>
        \<lparr>tk_price = 150, tk_best_bid = Some 149, tk_best_ask = Some 150, tk_ts = 0\<rparr>
        (price_store_new [])),
     env_tasks = (\<lambda>x db. (x, db)),
     env_trade_channel = (\<lambda>_. True), env_uuid_text = (\<lambda>_. ''id'')\<rparr>"

definition demo_execution :: execution where
  "demo_execution = \<lparr>xc_id = 1, xc_child_order_id = ''c'', xc_side = ''SELL'', xc_price = 151,
     xc_size = 1000, xc_commission = 0, xc_exec_date = [], xc_child_order_acceptance_id = ''o''\<rparr>"

definition demo_api :: "int exchange_api" where
  "demo_api = null_exchange_api
     \<lparr>api_send_child_order := (\<lambda>_ x. (Inr ''o'', x + 1)),
      api_get_executions := (\<lambda>_ _ x. (Inr [demo_execution], x + 1)),
      api_place_stop_order := (\<lambda>_ _ _ _ _ x. (Inr ''s'', x + 1)),
      api_cancel_stop_order := (\<lambda>_ _ x. (Inr (), x + 1)),
      api_stop_order_status := (\<lambda>_ _ x. (Inr StopActive, x + 1))\<rparr>"

definition demo_sizer :: position_sizer where
  "demo_sizer = sizer_new [''USD_JPY'' \<mapsto> 1000] 0"

definition demo_trader :: "int trader" where
  "demo_trader = with_poll_timeout (trader_new GmoFx 1 ''demo'' demo_api demo_sizer (1/2) False) 0"

definition demo_signal :: signal where
  "demo_signal = \<lparr>s_strategy_name = ''s'', s_pair = ''USD_JPY'', s_direction = Long,
     s_stop_loss_pct = 1/50, s_take_profit_pct = None, s_confidence = 0, s_timestamp = 0,
     s_allocation_pct = 1/5, s_max_hold_until = None\<rparr>"

definition demo_world :: "database \<Rightarrow> int world" where
  "demo_world db = \<lparr>w_db = db, w_out = 0, w_calls = [], w_notes = [], w_events = []\<rparr>"

text \<open>The account of \<open>demo_open\<close> without a trade, and with one that has a stop order.\<close>

definition demo_account_db :: database where
  "demo_account_db = snd (create_account 1 0 demo_request demo_db)"

definition demo_stop_db :: database where
  "demo_stop_db = snd (persist_open_tx 1 (demo_trade\<lparr>t_stop_order_id := Some ''s''\<rparr>) 15000 demo_account_db)"

lemma demo_env_time [simp]: "env_utc_now demo_env x = x" "env_tasks demo_env x db = (x, db)"
  by (simp_all add: demo_env_def)

lemma demo_clock: "clock_forward demo_env demo_trader"
  by (simp add: clock_forward_def demo_env_def demo_trader_def trader_new_def with_poll_timeout_def demo_api_def null_exchange_api_def)

lemma demo_tasks: "tasks_are_steps rnd demo_env"
  by (auto simp: tasks_are_steps_def demo_env_def intro: ledger_run_refl)


lemma eval_congs:
  "w = w' \<Longrightarrow> bindE m f w = bindE m f w'"
  "w = w' \<Longrightarrow> attempt q w = attempt q w'"
  "v = v' \<Longrightarrow> dbE env d v = dbE env d v'"
  by simp_all

lemmas eval_run = run_simps utc_now_def dbE_def call_def let_tasks_run_def spawn_notification_def Let_def

lemmas eval_demo = demo_env_def demo_api_def demo_trader_def trader_new_def with_poll_timeout_def
  null_exchange_api_def demo_world_def demo_execution_def

lemma demo_stop_lock:
  "fst (acquire_close_lock 0 7 1 demo_stop_db) = Inr (Some \<lparr>lock_trade =
     demo_trade\<lparr>t_stop_order_id := Some ''s'', t_status := Closing\<rparr>, was_stale_recovery = False\<rparr>)"
  by code_simp

definition demo_stop_locked :: database where
  "demo_stop_locked = snd (acquire_close_lock 0 7 1 demo_stop_db)"

lemma demo_stop_acquire: "acquire_close_lock 0 7 1 demo_stop_db = (Inr (Some \<lparr>lock_trade =
     demo_trade\<lparr>t_stop_order_id := Some ''s'', t_status := Closing\<rparr>, was_stale_recovery = False\<rparr>), demo_stop_locked)"
  using demo_stop_lock by (simp add: demo_stop_locked_def prod_eq_iff)

abbreviation demo_stop_trade :: trade where
  "demo_stop_trade \<equiv> demo_trade\<lparr>t_stop_order_id := Some ''s'', t_status := Closing\<rparr>"

lemma demo_load:
  "load_trade_for_close demo_env demo_trader 7 (demo_world demo_stop_db) =
   (Inr (demo_stop_trade, False), demo_world demo_stop_locked)"
  by (simp add: load_trade_for_close_def eval_run eval_demo demo_stop_acquire [unfolded One_nat_def]
      cong: eval_congs)

definition demo_close_calls :: "api_call list" where
  "demo_close_calls = [ReadSfd ''USD_JPY'', ReadStop ''USD_JPY'' ''s'' (Some StopActive),
     CanceledStop ''USD_JPY'' ''s'' True, SentOrder (close_request demo_stop_trade 1000) (Some ''o''),
     ReadExecutions ''USD_JPY'' ''o'']"

definition demo_closed_trade :: trade where
  "demo_closed_trade = closed_copy exact demo_stop_trade 151 0 0 1000 4 TpHit"

definition demo_stop_closed :: database where
  "demo_stop_closed = snd (persist_closed_tx exact 1 demo_closed_trade 15000 1000 151 4 TpHit demo_stop_locked)"

lemma demo_settle: "persist_closed_tx exact 1 demo_closed_trade 15000 1000 151 4 TpHit demo_stop_locked
    = (Inr (), demo_stop_closed)"
proof -
  have "fst (persist_closed_tx exact 1 demo_closed_trade 15000 1000 151 4 TpHit demo_stop_locked) = Inr ()"
    by code_simp
  then show ?thesis by (simp add: demo_stop_closed_def prod_eq_iff)
qed

lemma demo_fill:
  "close_and_release_lock_on_error exact demo_env demo_trader 7 demo_stop_trade False
      ((demo_world demo_stop_locked)\<lparr>w_calls := [ReadSfd ''USD_JPY'']\<rparr>) =
   (Inr (151, 0, False), (demo_world demo_stop_locked)\<lparr>w_out := 4, w_calls := demo_close_calls\<rparr>)"
  by (simp add: close_and_release_lock_on_error_def fill_close_def fill_close_live_def
     stop_guard_before_close_def stop_order_status_of_def cancel_stop_order_def send_child_order_def
     ensure_close_position_id_present_def poll_executions_def poll_fuel_def POLL_EXECUTIONS_INITIAL_DELAY_def
     milliseconds_def poll_loop_Suc numeral_2_eq_2 get_executions_def aggregate_executions_def
     weighted_avg_fills_def fold_fills_def dec_op_defs demo_close_calls_def close_request_def
     ok_value_def is_ok_def demo_trade_def eval_run eval_demo del: poll_loop.simps cong: eval_congs)

lemma demo_close:
  "close_position exact demo_env demo_trader 7 TpHit (demo_world demo_stop_db) =
   (Inr demo_closed_trade, \<lparr>w_db = demo_stop_closed, w_out = 4, w_calls = demo_close_calls,
      w_notes = [PositionClosed ''demo'' GmoFx 7 1000 ''tp_hit''], w_events = []\<rparr>)"
proof -
  have sfd: "snapshot_live_sfd_before_close demo_env demo_trader demo_stop_trade (demo_world demo_stop_locked)
      = (Inr 0, (demo_world demo_stop_locked)\<lparr>w_calls := [ReadSfd ''USD_JPY'']\<rparr>)"
    by (simp add: snapshot_live_sfd_before_close_def eval_run eval_demo demo_trade_def cong: eval_congs)
  have pnl: "trade_pnl exact demo_stop_trade 151 = 1000"
    by (simp add: trade_pnl_def demo_trade_def truncate_yen_def trunc_def dec_op_defs)
  have margin: "ddiv exact (dmul exact (t_entry_price demo_trade) (t_quantity demo_trade))
      (t_leverage demo_trade) = Inr 15000" "truncate_yen 15000 = 15000"
    by (simp_all add: demo_trade_def dec_op_defs truncate_yen_def trunc_def)
  have "\<not> tr_dry_run demo_trader" "tr_account_id demo_trader = 1" "tr_exchange demo_trader = GmoFx"
    "tr_account_name demo_trader = ''demo''" by (simp_all add: eval_demo)
  note tr = this
  have c: "closed_copy exact demo_stop_trade 151 0 0 1000 4 TpHit = demo_closed_trade" "t_id demo_closed_trade = 7"
    by (simp_all add: demo_closed_trade_def) (simp add: closed_copy_def demo_trade_def)
  show ?thesis
    unfolding close_position_split
    by (simp add: eval_run demo_load [unfolded demo_world_def] close_locked_def sfd [unfolded demo_world_def, simplified]
        demo_fill [unfolded demo_world_def, simplified] demo_world_def demo_env_time pnl margin c tr unwrap_or_def
        persist_closed_trade_def notify_close_result_def demo_settle [unfolded One_nat_def]
        cong: eval_congs)
qed


section \<open>Witnesses\<close>

theorem close_position_orders_witness:
  "safe_close_log demo_trader demo_stop_trade demo_close_calls
   \<and> length (filter is_order demo_close_calls) = 1"
proof -
  from close_position_orders [OF demo_close]
  have "\<exists>l db'. acquire_close_lock 0 7 1 demo_stop_db = (Inr (Some l), db')
      \<and> safe_close_log demo_trader (lock_trade l) demo_close_calls"
    by (auto simp: demo_world_def demo_env_time eval_demo demo_close_calls_def)
  then have "safe_close_log demo_trader demo_stop_trade demo_close_calls"
    using demo_stop_acquire by auto
  then show ?thesis by (simp add: demo_close_calls_def)
qed


lemma demo_account_reachable:
  "reachable ledger_init (ledger_step exact) \<lparr>ldb = demo_account_db, snapshots = []\<rparr>"
proof -
  let ?s0 = "\<lparr>ldb = demo_db, snapshots = []\<rparr>"
  have "reachable ledger_init (ledger_step exact) ?s0"
    by (rule reachable_init) (simp add: ledger_init_def demo_db_def)
  then have "reachable ledger_init (ledger_step exact)
      (?s0\<lparr>ldb := snd (create_account 1 0 demo_request (ldb ?s0))\<rparr>)"
    by (rule reachable_step) (rule ledger_step.create)
  then show ?thesis by (simp add: demo_account_db_def)
qed

lemma demo_stop_reachable:
  "reachable ledger_init (ledger_step exact) \<lparr>ldb = demo_stop_db, snapshots = []\<rparr>"
proof -
  let ?t = "demo_trade\<lparr>t_stop_order_id := Some ''s''\<rparr>"
  let ?s = "\<lparr>ldb = demo_account_db, snapshots = []\<rparr>"
  have "t_account_id ?t = 1" "t_status ?t = Open" "required_margin exact (entry_position ?t) = Inr 15000"
    using demo_margin by (simp_all add: demo_trade_def)
  then have "ledger_step exact ?s \<lparr>ldb = demo_stop_db, snapshots = []\<rparr>"
    using ledger_step.open_trade [of ?t exact 15000 ?s] by (simp add: demo_stop_db_def)
  with demo_account_reachable show ?thesis by (rule reachable_step)
qed

theorem trader_refines_ledger_witness:
  "\<exists>ts'. reachable ledger_init (ledger_step exact) \<lparr>ldb = demo_stop_closed, snapshots = ts'\<rparr>"
proof -
  have "reachable ledger_init (ledger_step exact) \<lparr>ldb = w_db (demo_world demo_stop_db), snapshots = []\<rparr>"
    using demo_stop_reachable by (simp add: demo_world_def)
  from trader_refines_ledger [OF demo_tasks this, of demo_trader demo_signal 7 TpHit]
  show ?thesis using demo_close by simp
qed

theorem poll_executions_terminates_witness:
  "fst (poll_executions exact demo_env demo_trader ''o'' ''USD_JPY'' (secs 5) (demo_world demo_db)) \<noteq> Inl poll_out_of_fuel"
  using poll_executions_terminates [OF demo_clock _ order_refl, of "secs 5" exact "''o''" "''USD_JPY''" "demo_world demo_db"]
  by (simp add: secs_def nanos_per_sec_def)


lemma demo_quiet: "quiet demo_env"
  by (simp add: quiet_def demo_env_def)

text \<open>The same exchange with positions that can no longer be closed.\<close>

definition broken_trader :: "int trader" where
  "broken_trader = demo_trader\<lparr>tr_api := null_exchange_api\<rparr>"


theorem close_position_settles_witness:
  "\<exists>r' \<in> set (trades demo_stop_closed). r_id r' = 7 \<and> trade_of_row r' = Inr demo_closed_trade"
proof -
  have "reachable ledger_init (ledger_step exact) \<lparr>ldb = w_db (demo_world demo_stop_db), snapshots = []\<rparr>"
    using demo_stop_reachable by (simp add: demo_world_def)
  from close_position_settles [OF demo_quiet this demo_close] show ?thesis by auto
qed

end
