(* ===== verification/Indicators.thy ===== *)
theory Indicators
  imports Pricing
begin

text \<open>
  The technical indicators of \<open>market/src/indicators.rs\<close>. A slice is a list; a function
  that returns an \<open>Option\<close> and can also panic gives an \<open>option result\<close>. The square root
  of the Bollinger bands goes through \<open>f64\<close> (\<open>to_f64\<close>, \<open>sqrt\<close>, \<open>from_f64\<close>): the composed
  conversion is the parameter \<open>sqrt64\<close>, \<open>None\<close> where a conversion has no result.
\<close>

section \<open>Options inside computations that may panic\<close>

text \<open>The \<open>?\<close> operator on an option.\<close>

definition bindO :: "'a option result \<Rightarrow> ('a \<Rightarrow> 'b option result) \<Rightarrow> 'b option result" where
  "bindO r f = bindR r (\<lambda>x. case x of None \<Rightarrow> Inr None | Some y \<Rightarrow> f y)"

definition someR :: "'a result \<Rightarrow> 'a option result" where
  "someR r = bindR r (\<lambda>x. Inr (Some x))"

lemma bindO_simps [simp]:
  "bindO (Inl e) f = Inl e"
  "bindO (Inr None) f = Inr None"
  "bindO (Inr (Some x)) f = f x"
  by (simp_all add: bindO_def)

lemma bindO_eq_Some: "bindO r f = Inr (Some y) \<longleftrightarrow> (\<exists>x. r = Inr (Some x) \<and> f x = Inr (Some y))"
  by (auto simp: bindO_def bindR_eq_Inr split: option.splits)

lemma someR_simps [simp]: "someR (Inl e) = Inl e" "someR (Inr x) = Inr (Some x)"
  by (simp_all add: someR_def)

lemma someR_eq_Some: "someR r = Inr (Some y) \<longleftrightarrow> r = Inr y"
  by (cases r) auto

text \<open>A loop over a list whose body may panic.\<close>

fun foldR :: "('s \<Rightarrow> 'a \<Rightarrow> 's result) \<Rightarrow> 's \<Rightarrow> 'a list \<Rightarrow> 's result" where
  "foldR f s [] = Inr s"
| "foldR f s (x # xs) = bindR (f s x) (\<lambda>s'. foldR f s' xs)"

lemma foldR_invariant:
  assumes "foldR f s xs = Inr s'" and "P s"
    and "\<And>s x s'. P s \<Longrightarrow> x \<in> set xs \<Longrightarrow> f s x = Inr s' \<Longrightarrow> P s'"
  shows "P s'"
  using assms
proof (induction xs arbitrary: s)
  case (Cons x xs)
  from Cons.prems(1) obtain s1 where s1: "f s x = Inr s1" "foldR f s1 xs = Inr s'"
    by (auto simp: bindR_eq_Inr)
  show ?case by (rule Cons.IH [OF s1(2)]) (use Cons.prems s1(1) in auto)
qed simp

lemma foldR_total:
  assumes "P s" and "\<And>s x. P s \<Longrightarrow> x \<in> set xs \<Longrightarrow> \<exists>s'. f s x = Inr s' \<and> P s'"
  shows "\<exists>s'. foldR f s xs = Inr s' \<and> P s'"
  using assms
proof (induction xs arbitrary: s)
  case (Cons x xs)
  then obtain s1 where "f s x = Inr s1" "P s1" by fastforce
  then show ?case using Cons.IH [of s1] Cons.prems by auto
qed simp

section \<open>Slices\<close>

text \<open>The last \<open>n\<close> elements, \<open>xs[xs.len() - n..]\<close>, for \<open>n\<close> at most the length.\<close>

definition last_n :: "nat \<Rightarrow> 'a list \<Rightarrow> 'a list" where
  "last_n n xs = drop (length xs - n) xs"

fun minimum :: "'a::linorder list \<Rightarrow> 'a option" where
  "minimum [] = None"
| "minimum (x # xs) = Some (foldl min x xs)"

fun maximum :: "'a::linorder list \<Rightarrow> 'a option" where
  "maximum [] = None"
| "maximum (x # xs) = Some (foldl max x xs)"

lemma length_last_n [simp]: "n \<le> length xs \<Longrightarrow> length (last_n n xs) = n"
  by (simp add: last_n_def)

lemma set_last_n: "set (last_n n xs) \<subseteq> set xs"
  by (simp add: last_n_def set_drop_subset)

lemma foldl_min: "foldl min x xs = Min (set (x # xs))"
  by (metis Min.set_eq_fold fold_simps(2) foldl_conv_fold min.commute ext)

lemma foldl_max: "foldl max x xs = Max (set (x # xs))"
  by (metis Max.set_eq_fold fold_simps(2) foldl_conv_fold max.commute ext)

lemma minimum_eq: "minimum xs = (if xs = [] then None else Some (Min (set xs)))"
  by (cases xs) (simp_all only: minimum.simps foldl_min, simp_all)

lemma maximum_eq: "maximum xs = (if xs = [] then None else Some (Max (set xs)))"
  by (cases xs) (simp_all only: maximum.simps foldl_max, simp_all)

section \<open>Averages\<close>

definition sma :: "rounding \<Rightarrow> decimal list \<Rightarrow> nat \<Rightarrow> decimal option result" where
  "sma rnd prices period =
     (if length prices < period then Inr None
      else someR (ddiv rnd (dsum rnd (last_n period prices)) (of_nat period)))"

definition ema :: "rounding \<Rightarrow> decimal list \<Rightarrow> nat \<Rightarrow> decimal option result" where
  "ema rnd prices period =
     (if length prices < period then Inr None
      else
        bindR (ddiv rnd 2 (of_nat (period + 1))) (\<lambda>multiplier.
        bindO (sma rnd (take period prices) period) (\<lambda>seed.
        Inr (Some (foldl (\<lambda>e price. dadd rnd (dmul rnd (dsub rnd price e) multiplier) e)
                     seed (drop period prices))))))"

definition changes :: "rounding \<Rightarrow> decimal list \<Rightarrow> decimal list" where
  "changes rnd prices = map2 (\<lambda>a b. dsub rnd b a) prices (tl prices)"

definition gains_losses :: "rounding \<Rightarrow> decimal list \<Rightarrow> decimal \<times> decimal" where
  "gains_losses rnd cs = foldl (\<lambda>(gain, loss) c.
     if c > 0 then (dadd rnd gain c, loss) else (gain, dadd rnd loss \<bar>c\<bar>)) (0, 0) cs"

definition rsi :: "rounding \<Rightarrow> decimal list \<Rightarrow> nat \<Rightarrow> decimal option result" where
  "rsi rnd prices period =
     (if length prices < period + 1 then Inr None
      else
        let (gain, loss) = gains_losses rnd (last_n period (changes rnd prices)) in
        bindR (ddiv rnd gain (of_nat period)) (\<lambda>avg_gain.
        bindR (ddiv rnd loss (of_nat period)) (\<lambda>avg_loss.
        if avg_loss = 0 then Inr (Some 100)
        else
          bindR (ddiv rnd avg_gain avg_loss) (\<lambda>rs.
          bindR (ddiv rnd 100 (dadd rnd 1 rs)) (\<lambda>q.
          Inr (Some (dsub rnd 100 q)))))))"

definition bollinger_bands ::
  "rounding \<Rightarrow> (decimal \<Rightarrow> decimal option) \<Rightarrow> decimal list \<Rightarrow> nat \<Rightarrow> decimal
    \<Rightarrow> (decimal \<times> decimal \<times> decimal) option result" where
  "bollinger_bands rnd sqrt64 prices period std_dev_mult =
     bindO (sma rnd prices period) (\<lambda>middle.
     let squares = map (\<lambda>p. let diff = dsub rnd p middle in dmul rnd diff diff) (last_n period prices)
     in bindR (ddiv rnd (dsum rnd squares) (of_nat period)) (\<lambda>variance.
     case sqrt64 variance of
       None \<Rightarrow> Inr None
     | Some std_dev \<Rightarrow>
         let band = dmul rnd std_dev std_dev_mult in
         Inr (Some (dsub rnd middle band, middle, dadd rnd middle band))))"

section \<open>Ranges\<close>

definition true_range :: "rounding \<Rightarrow> decimal list \<Rightarrow> decimal list \<Rightarrow> decimal list \<Rightarrow> nat \<Rightarrow> decimal" where
  "true_range rnd highs lows closes i =
     max (max (dsub rnd (highs ! i) (lows ! i)) \<bar>dsub rnd (highs ! i) (closes ! (i - 1))\<bar>)
         \<bar>dsub rnd (lows ! i) (closes ! (i - 1))\<bar>"

text \<open>Wilder smoothing: \<open>value = (value * (n - 1) + x) / n\<close> for every \<open>x\<close>.\<close>

definition wilder :: "rounding \<Rightarrow> decimal \<Rightarrow> decimal \<Rightarrow> decimal list \<Rightarrow> decimal result" where
  "wilder rnd n seed xs = foldR (\<lambda>v x. ddiv rnd (dadd rnd (dmul rnd v (dsub rnd n 1)) x) n) seed xs"

definition atr ::
  "rounding \<Rightarrow> decimal list \<Rightarrow> decimal list \<Rightarrow> decimal list \<Rightarrow> nat \<Rightarrow> decimal option result" where
  "atr rnd highs lows closes period =
     (if length highs \<noteq> length lows \<or> length lows \<noteq> length closes then Inr None
      else if length highs < period + 1 then Inr None
      else
        let trs = map (true_range rnd highs lows closes) [1..<length highs] in
        bindR (ddiv rnd (dsum rnd (take period trs)) (of_nat period)) (\<lambda>seed.
        someR (wilder rnd (of_nat period) seed (drop period trs))))"

definition donchian_channel ::
  "decimal list \<Rightarrow> decimal list \<Rightarrow> nat \<Rightarrow> bool \<Rightarrow> (decimal \<times> decimal) option" where
  "donchian_channel highs lows period include_current =
     (if length highs \<noteq> length lows then None
      else if highs = [] then None
      else
        let stop = (if include_current then length highs else length highs - 1) in
        if stop < period then None
        else
          case minimum (last_n period (take stop lows)) of
            None \<Rightarrow> None
          | Some lower \<Rightarrow>
              (case maximum (last_n period (take stop highs)) of
                 None \<Rightarrow> None
               | Some upper \<Rightarrow> Some (lower, upper)))"

definition keltner_channels ::
  "rounding \<Rightarrow> decimal list \<Rightarrow> decimal list \<Rightarrow> decimal list \<Rightarrow> nat \<Rightarrow> decimal
    \<Rightarrow> (decimal \<times> decimal \<times> decimal) option result" where
  "keltner_channels rnd highs lows closes period atr_mult =
     bindO (ema rnd closes period) (\<lambda>middle.
     bindO (atr rnd highs lows closes period) (\<lambda>atr_val.
     let band = dmul rnd atr_val atr_mult in
     Inr (Some (dsub rnd middle band, middle, dadd rnd middle band))))"

section \<open>The directional index\<close>

definition plus_dm :: "rounding \<Rightarrow> decimal list \<Rightarrow> decimal list \<Rightarrow> nat \<Rightarrow> decimal" where
  "plus_dm rnd highs lows i =
     (let high_diff = dsub rnd (highs ! i) (highs ! (i - 1));
          low_diff = dsub rnd (lows ! (i - 1)) (lows ! i)
      in if high_diff > low_diff \<and> high_diff > 0 then high_diff else 0)"

definition minus_dm :: "rounding \<Rightarrow> decimal list \<Rightarrow> decimal list \<Rightarrow> nat \<Rightarrow> decimal" where
  "minus_dm rnd highs lows i =
     (let high_diff = dsub rnd (highs ! i) (highs ! (i - 1));
          low_diff = dsub rnd (lows ! (i - 1)) (lows ! i)
      in if low_diff > high_diff \<and> low_diff > 0 then low_diff else 0)"

record dx_state =
  smooth_plus :: decimal
  smooth_minus :: decimal
  smooth_tr :: decimal
  dx_vals :: "decimal list"

definition smooth :: "rounding \<Rightarrow> decimal \<Rightarrow> decimal \<Rightarrow> decimal \<Rightarrow> decimal result" where
  "smooth rnd p s x = bindR (ddiv rnd s p) (\<lambda>q. Inr (dadd rnd (dsub rnd s q) x))"

text \<open>The value pushed to \<open>dx_vals\<close>, or none when the smoothed range is zero.\<close>

definition dx_of :: "rounding \<Rightarrow> decimal \<Rightarrow> decimal \<Rightarrow> decimal \<Rightarrow> decimal list result" where
  "dx_of rnd sp sm st =
     (if st = 0 then Inr []
      else
        bindR (ddiv rnd sp st) (\<lambda>qp.
        bindR (ddiv rnd sm st) (\<lambda>qm.
        let plus_di = dmul rnd qp 100; minus_di = dmul rnd qm 100;
            di_sum = dadd rnd plus_di minus_di
        in if di_sum = 0 then Inr [0]
           else bindR (ddiv rnd \<bar>dsub rnd plus_di minus_di\<bar> di_sum) (\<lambda>q. Inr [dmul rnd q 100]))))"

definition dx_step ::
  "rounding \<Rightarrow> decimal \<Rightarrow> dx_state \<Rightarrow> decimal \<times> decimal \<times> decimal \<Rightarrow> dx_state result" where
  "dx_step rnd p s x =
     (case x of (dmp, dmm, tr) \<Rightarrow>
        bindR (smooth rnd p (smooth_plus s) dmp) (\<lambda>sp.
        bindR (smooth rnd p (smooth_minus s) dmm) (\<lambda>sm.
        bindR (smooth rnd p (smooth_tr s) tr) (\<lambda>st.
        bindR (dx_of rnd sp sm st) (\<lambda>dx.
        Inr \<lparr>smooth_plus = sp, smooth_minus = sm, smooth_tr = st, dx_vals = dx_vals s @ dx\<rparr>)))))"

definition adx ::
  "rounding \<Rightarrow> decimal list \<Rightarrow> decimal list \<Rightarrow> decimal list \<Rightarrow> nat \<Rightarrow> decimal option result" where
  "adx rnd highs lows closes period =
     (if length highs < period * 2 + 1 \<or> length lows < period * 2 + 1 \<or> length closes < period * 2 + 1
      then Inr None
      else if length lows < length highs \<or> length closes < length highs - 1
      then Inl (Panic ''index out of bounds'')
      else
        let is = [1..<length highs];
            plus = map (plus_dm rnd highs lows) is;
            minus = map (minus_dm rnd highs lows) is;
            trs = map (true_range rnd highs lows closes) is;
            p = of_nat period;
            s0 = \<lparr>smooth_plus = dsum rnd (take period plus),
                  smooth_minus = dsum rnd (take period minus),
                  smooth_tr = dsum rnd (take period trs), dx_vals = []\<rparr>
        in if length plus < period * 2 then Inr None
        else
          bindR (foldR (dx_step rnd p) s0 (drop period (zip plus (zip minus trs)))) (\<lambda>s.
          if length (dx_vals s) < period then Inr None
          else
            bindR (ddiv rnd (dsum rnd (take period (dx_vals s))) p) (\<lambda>first_adx.
            someR (wilder rnd p first_adx (drop period (dx_vals s))))))"

section \<open>The indicators attached to a price event\<close>

definition put :: "string \<Rightarrow> decimal option \<Rightarrow> (string \<rightharpoonup> decimal) \<Rightarrow> (string \<rightharpoonup> decimal)" where
  "put k x m = (case x of None \<Rightarrow> m | Some v \<Rightarrow> m(k \<mapsto> v))"

definition bb_width_pct :: "rounding \<Rightarrow> (decimal \<times> decimal \<times> decimal) option \<Rightarrow> decimal option result" where
  "bb_width_pct rnd bands =
     (case bands of
        None \<Rightarrow> Inr None
      | Some (bb_lo, bb_mid, bb_up) \<Rightarrow>
          if bb_mid > 0
          then bindR (ddiv rnd (dsub rnd bb_up bb_lo) bb_mid) (\<lambda>q. Inr (Some (dmul rnd q 100)))
          else Inr None)"

definition atr_percentile ::
  "rounding \<Rightarrow> decimal list \<Rightarrow> decimal list \<Rightarrow> decimal list \<Rightarrow> decimal \<Rightarrow> decimal option result" where
  "atr_percentile rnd highs lows closes current_atr =
     (let lookback = min 50 (length closes) in
      if lookback < 15 then Inr None
      else
        bindR (foldR (\<lambda>(below, n) i.
            if i < 14 then Inr (below, n)
            else
              bindR (atr rnd (take (Suc i) highs) (take (Suc i) lows) (take (Suc i) closes) 14) (\<lambda>a.
              case a of
                None \<Rightarrow> Inr (below, n)
              | Some past_atr \<Rightarrow> Inr (if past_atr < current_atr then below + 1 else below, n + 1)))
          (0 :: nat, 0 :: nat) [length closes - lookback..<length closes]) (\<lambda>(below, n).
        if n = 0 then Inr None
        else bindR (ddiv rnd (of_nat below) (of_nat n)) (\<lambda>q. Inr (Some (dmul rnd q 100)))))"

definition indicator_map ::
  "rounding \<Rightarrow> (decimal \<Rightarrow> decimal option) \<Rightarrow> decimal list \<Rightarrow> decimal list \<Rightarrow> decimal list
    \<Rightarrow> (string \<rightharpoonup> decimal) result" where
  "indicator_map rnd sqrt64 closes highs lows =
     bindR (sma rnd closes 20) (\<lambda>sma_20.
     bindR (sma rnd closes 50) (\<lambda>sma_50.
     bindR (rsi rnd closes 14) (\<lambda>rsi_14.
     bindR (atr rnd highs lows closes 14) (\<lambda>atr_14.
     bindR (adx rnd highs lows closes 14) (\<lambda>adx_14.
     bindR (bollinger_bands rnd sqrt64 closes 20 2) (\<lambda>bands.
     bindR (bb_width_pct rnd bands) (\<lambda>width.
     bindR (case atr_14 of None \<Rightarrow> Inr None
            | Some a \<Rightarrow> atr_percentile rnd highs lows closes a) (\<lambda>pct.
     Inr (put ''atr_percentile'' pct (put ''bb_width_pct'' width (put ''adx_14'' adx_14
       (put ''atr_14'' atr_14 (put ''rsi_14'' rsi_14 (put ''sma_50'' sma_50
       (put ''sma_20'' sma_20 Map.empty)))))))))))))))"

end
