(* ===== verification/Indicator_Theorems.thy ===== *)
theory Indicator_Theorems
  imports Indicators
begin

text \<open>
  Ranges and reference values of the indicators. Bounds hold for every rounding that
  satisfies the contract of \<open>Decimals\<close>; where a proof needs that a rounded number is a
  fixed point of the rounding, the hypothesis says so.
\<close>

section \<open>Non-negative sums and quotients\<close>

definition nonneg :: "decimal list \<Rightarrow> bool" where
  "nonneg xs \<longleftrightarrow> (\<forall>x \<in> set xs. 0 \<le> x)"

lemma nonnegD: "nonneg xs \<Longrightarrow> x \<in> set xs \<Longrightarrow> 0 \<le> x"
  by (simp add: nonneg_def)

lemma nonneg_sub: "nonneg xs \<Longrightarrow> set ys \<subseteq> set xs \<Longrightarrow> nonneg ys"
  by (auto simp: nonneg_def)

lemma nonneg_take: "nonneg xs \<Longrightarrow> nonneg (take n xs)"
  by (erule nonneg_sub) (rule set_take_subset)

lemma nonneg_drop: "nonneg xs \<Longrightarrow> nonneg (drop n xs)"
  by (erule nonneg_sub) (rule set_drop_subset)

lemma dadd_nonneg: "dec_rounding rnd \<Longrightarrow> 0 \<le> a \<Longrightarrow> 0 \<le> b \<Longrightarrow> 0 \<le> dadd rnd a b"
  by (simp add: dadd_def rounding_nonneg)

lemma dmul_nonneg: "dec_rounding rnd \<Longrightarrow> 0 \<le> a \<Longrightarrow> 0 \<le> b \<Longrightarrow> 0 \<le> dmul rnd a b"
  by (simp add: dmul_def rounding_nonneg)

lemma ddiv_nonneg: "dec_rounding rnd \<Longrightarrow> 0 \<le> a \<Longrightarrow> 0 \<le> b \<Longrightarrow> ddiv rnd a b = Inr q \<Longrightarrow> 0 \<le> q"
  by (auto simp: ddiv_def rounding_nonneg split: if_splits)

lemma foldl_dadd_nonneg:
  "dec_rounding rnd \<Longrightarrow> nonneg xs \<Longrightarrow> 0 \<le> a \<Longrightarrow> 0 \<le> foldl (dadd rnd) a xs"
  by (induction xs arbitrary: a) (simp_all add: nonneg_def dadd_nonneg)

lemma dsum_nonneg: "dec_rounding rnd \<Longrightarrow> nonneg xs \<Longrightarrow> 0 \<le> dsum rnd xs"
  by (simp add: dsum_def foldl_dadd_nonneg)

text \<open>A quotient of numbers between zero and the divisor is at most one.\<close>

lemma ddiv_le_1:
  "dec_rounding rnd \<Longrightarrow> 0 \<le> a \<Longrightarrow> a \<le> b \<Longrightarrow> ddiv rnd a b = Inr q \<Longrightarrow> q \<le> 1"
  using rounding_le_int [of rnd "a / b" 1]
  by (auto simp: ddiv_def divide_le_eq split: if_splits)

lemma dmul_100_le:
  "dec_rounding rnd \<Longrightarrow> q \<le> 1 \<Longrightarrow> dmul rnd q 100 \<le> 100"
  using rounding_le_int [of rnd "q * 100" 100] by (simp add: dmul_def)

section \<open>Relative strength\<close>

lemma gains_losses_nonneg:
  assumes "dec_rounding rnd"
  shows "0 \<le> fst (gains_losses rnd cs) \<and> 0 \<le> snd (gains_losses rnd cs)"
proof -
  have "0 \<le> fst (foldl f p cs) \<and> 0 \<le> snd (foldl f p cs)"
    if "f = (\<lambda>(gain, loss) c. if c > 0 then (dadd rnd gain c, loss) else (gain, dadd rnd loss \<bar>c\<bar>))"
      and "0 \<le> fst p \<and> 0 \<le> snd p" for f p
    using that(2) by (induction cs arbitrary: p) (auto simp: that(1) dadd_nonneg assms split: prod.splits)
  then show ?thesis by (simp add: gains_losses_def)
qed

lemma rsi_range:
  assumes rnd: "dec_rounding rnd" and r: "rsi rnd prices period = Inr (Some v)"
  shows "0 \<le> v \<and> v \<le> 100"
proof -
  obtain gain loss where gl: "gains_losses rnd (last_n period (changes rnd prices)) = (gain, loss)" by fastforce
  have nn: "0 \<le> gain" "0 \<le> loss" using gains_losses_nonneg [OF rnd] gl by (metis fst_conv snd_conv)+
  obtain g l where g: "ddiv rnd gain (of_nat period) = Inr g" and l: "ddiv rnd loss (of_nat period) = Inr l"
    using r gl by (auto simp: rsi_def bindR_eq_Inr split: if_splits)
  have gl0: "0 \<le> g" "0 \<le> l" using nn g l ddiv_nonneg [OF rnd] by (meson of_nat_0_le_iff)+
  show ?thesis
  proof (cases "l = 0")
    case True
    then show ?thesis using r gl g l by (simp add: rsi_def split: if_splits)
  next
    case False
    then obtain rs q where rs: "ddiv rnd g l = Inr rs" and q: "ddiv rnd 100 (dadd rnd 1 rs) = Inr q"
      and v: "v = dsub rnd 100 q"
      using r gl g l by (auto simp: rsi_def bindR_eq_Inr split: if_splits)
    have "0 \<le> rs" using ddiv_nonneg [OF rnd gl0 rs] .
    then have one: "1 \<le> dadd rnd 1 rs"
      using rounding_ge_int [OF rnd, of 1 "1 + rs"] by (simp add: dadd_def)
    have "0 \<le> q" using ddiv_nonneg [OF rnd _ _ q] one by simp
    moreover have "q \<le> 100"
      using q one rounding_le_int [OF rnd, of "100 / dadd rnd 1 rs" 100]
      by (auto simp: ddiv_def divide_le_eq split: if_splits)
    ultimately show ?thesis
      using rounding_nonneg [OF rnd, of "100 - q"] rounding_le_int [OF rnd, of "100 - q" 100]
      by (simp add: v dsub_def)
  qed
qed

section \<open>Wilder smoothing\<close>

lemma wilder_nonneg:
  assumes "dec_rounding rnd" and "wilder rnd n v xs = Inr w" and "1 \<le> n" and "0 \<le> v" and "nonneg xs"
  shows "0 \<le> w"
proof (rule foldR_invariant [where P = "\<lambda>v. 0 \<le> v", OF assms(2) [unfolded wilder_def] assms(4)])
  fix v x v'
  assume a: "0 \<le> v" "x \<in> set xs" "ddiv rnd (dadd rnd (dmul rnd v (dsub rnd n 1)) x) n = Inr v'"
  have "0 \<le> dsub rnd n 1" using assms(1,3) by (simp add: dsub_def rounding_nonneg)
  then have "0 \<le> dadd rnd (dmul rnd v (dsub rnd n 1)) x"
    using a assms(1,5) by (intro dadd_nonneg dmul_nonneg) (auto simp: nonneg_def)
  then show "0 \<le> v'" using ddiv_nonneg [OF assms(1) _ _ a(3)] assms(3) by simp
qed

lemma wilder_le_100:
  assumes rnd: "dec_rounding rnd" and w: "wilder rnd (of_nat p) v xs = Inr w"
    and p: "0 < p" "p < 2 ^ 64" and v: "v \<le> 100" and xs: "\<And>x. x \<in> set xs \<Longrightarrow> x \<le> 100"
  shows "w \<le> 100"
proof (rule foldR_invariant [where P = "\<lambda>v. v \<le> 100", OF w [unfolded wilder_def] v])
  fix v x v'
  assume a: "v \<le> 100" "x \<in> set xs"
    "ddiv rnd (dadd rnd (dmul rnd v (dsub rnd (of_nat p) 1)) x) (of_nat p) = Inr v'"
  have small: "100 * int p < 2 ^ 96" "100 * (int p - 1) < 2 ^ 96" using p by simp_all
  have "representable (of_int (int p - 1))" using p by (intro representable_of_int) simp
  then have n1: "dsub rnd (of_nat p) 1 = of_nat p - 1"
    using rounding_rep [OF rnd] by (simp add: dsub_def)
  have "v * (of_nat p - 1) \<le> 100 * (of_nat p - 1)" using a(1) p by (intro mult_right_mono) auto
  then have "dmul rnd v (of_nat p - 1) \<le> of_int (100 * (int p - 1))"
    unfolding dmul_def using small p by (intro rounding_le_int [OF rnd]) auto
  moreover have "x \<le> 100" using xs a(2) .
  ultimately have "dadd rnd (dmul rnd v (of_nat p - 1)) x \<le> of_int (100 * int p)"
    unfolding dadd_def using small p by (intro rounding_le_int [OF rnd]) (auto simp: algebra_simps)
  then have "dadd rnd (dmul rnd v (of_nat p - 1)) x / of_nat p \<le> 100"
    using p by (simp add: divide_le_eq)
  then show "v' \<le> 100"
    using a(3) p n1 rounding_le_int [OF rnd, of _ 100] by (auto simp: ddiv_def split: if_splits)
qed

lemma wilder_total: "n \<noteq> 0 \<Longrightarrow> \<exists>w. wilder rnd n v xs = Inr w"
  unfolding wilder_def using foldR_total [of "\<lambda>_. True" v xs] by (simp add: ddiv_def)

section \<open>True range\<close>

lemma true_range_nonneg: "0 \<le> true_range rnd highs lows closes i"
  by (simp add: true_range_def le_max_iff_disj)

lemma true_ranges_nonneg: "nonneg (map (true_range rnd highs lows closes) is)"
  by (simp add: nonneg_def true_range_nonneg)

lemma atr_nonneg:
  assumes "dec_rounding rnd" and "atr rnd highs lows closes period = Inr (Some a)" and "0 < period"
  shows "0 \<le> a"
proof -
  let ?trs = "map (true_range rnd highs lows closes) [1..<length highs]"
  obtain seed where s: "ddiv rnd (dsum rnd (take period ?trs)) (of_nat period) = Inr seed"
    and w: "wilder rnd (of_nat period) seed (drop period ?trs) = Inr a"
    using assms(2) by (auto simp: atr_def bindR_eq_Inr someR_eq_Some Let_def split: if_splits)
  have "0 \<le> seed"
    using ddiv_nonneg [OF assms(1) dsum_nonneg [OF assms(1) nonneg_take [OF true_ranges_nonneg]] _ s] by simp
  then show ?thesis
    using wilder_nonneg [OF assms(1) w _ _ nonneg_drop [OF true_ranges_nonneg]] assms(3) by simp
qed

lemma atr_total: "0 < period \<Longrightarrow> \<exists>a. atr rnd highs lows closes period = Inr a"
proof -
  assume p: "0 < period"
  have "\<exists>a. someR (wilder rnd (of_nat period) v xs) = Inr a" for v xs
    using wilder_total [of "of_nat period" rnd v xs] p by auto
  then show ?thesis using p by (simp add: atr_def ddiv_def Let_def)
qed

section \<open>Directional index\<close>

text \<open>The smoothed sums stay non-negative numbers on which rounding has no further effect.\<close>

definition fixed_nonneg :: "rounding \<Rightarrow> decimal \<Rightarrow> bool" where
  "fixed_nonneg rnd x \<longleftrightarrow> 0 \<le> x \<and> rnd x = x"

locale idempotent_rounding =
  fixes rnd :: rounding
  assumes rounds: "dec_rounding rnd" and idem: "\<And>x. rnd (rnd x) = rnd x"
begin

lemma dsum_le_100:
  assumes "p < 2 ^ 64" and "\<And>x. x \<in> set xs \<Longrightarrow> x \<le> 100" and "length xs \<le> p"
  shows "dsum rnd xs \<le> 100 * of_nat (length xs)"
  using assms(2,3)
proof (induction xs rule: rev_induct)
  case (snoc x xs)
  have x: "x \<le> 100" and xs: "dsum rnd xs \<le> 100 * of_nat (length xs)" using snoc by auto
  have "dsum rnd (xs @ [x]) = rnd (dsum rnd xs + x)" by (simp add: dsum_def dadd_def)
  also have "\<dots> \<le> of_int (100 * int (Suc (length xs)))"
    using x xs snoc.prems(2) assms(1) by (intro rounding_le_int [OF rounds]) auto
  finally show ?case by simp
qed (simp add: dsum_def)

lemma dsum_fixed: "nonneg xs \<Longrightarrow> fixed_nonneg rnd (dsum rnd xs)"
proof -
  assume xs: "nonneg xs"
  have "rnd (dsum rnd xs) = dsum rnd xs"
    by (cases xs rule: rev_cases) (simp_all add: dsum_def dadd_def idem rounds)
  then show ?thesis using dsum_nonneg [OF rounds xs] by (simp add: fixed_nonneg_def)
qed

lemma smooth_fixed:
  assumes "smooth rnd p s x = Inr s'" and "1 \<le> p" and "fixed_nonneg rnd s" and "0 \<le> x"
  shows "fixed_nonneg rnd s'"
proof -
  have s': "s' = dadd rnd (dsub rnd s (rnd (s / p))) x"
    using assms(1,2) by (simp add: smooth_def ddiv_def split: if_splits)
  have stable: "rnd s = s" using assms(3) by (simp add: fixed_nonneg_def)
  have "s * 1 \<le> s * p" using assms(2,3) by (intro mult_left_mono) (auto simp: fixed_nonneg_def)
  then have "s / p \<le> s" using assms(2) by (simp add: divide_le_eq)
  from rounding_mono [OF rounds this] have "rnd (s / p) \<le> s" unfolding stable .
  then have "0 \<le> dsub rnd s (rnd (s / p))" by (simp add: dsub_def rounding_nonneg rounds)
  then have "0 \<le> s'" using assms(4) dadd_nonneg [OF rounds] by (simp add: s')
  then show ?thesis by (simp add: fixed_nonneg_def s' dadd_def idem)
qed

lemma smooth_total: "p \<noteq> 0 \<Longrightarrow> \<exists>s'. smooth rnd p s x = Inr s'"
  by (simp add: smooth_def ddiv_def)

lemma dx_of_range:
  assumes "0 \<le> sp" and "0 \<le> sm" and "0 \<le> st"
  shows "\<exists>d. dx_of rnd sp sm st = Inr d \<and> (\<forall>x \<in> set d. 0 \<le> x \<and> x \<le> 100)"
proof (cases "st = 0")
  case False
  let ?a = "dmul rnd (rnd (sp / st)) 100" and ?b = "dmul rnd (rnd (sm / st)) 100"
  have a: "0 \<le> ?a" "0 \<le> ?b" using assms by (auto intro!: dmul_nonneg [OF rounds] rounding_nonneg [OF rounds])
  show ?thesis
  proof (cases "dadd rnd ?a ?b = 0")
    case True
    then show ?thesis using False by (simp add: dx_of_def ddiv_def)
  next
    case nz: False
    have "rnd (?a - ?b) \<le> rnd (?a + ?b)" "rnd (?b - ?a) \<le> rnd (?a + ?b)"
      using a by (auto intro!: rounding_mono [OF rounds])
    moreover have "rnd (?b - ?a) = - rnd (?a - ?b)"
      using rounding_neg [OF rounds, of "?a - ?b"] by simp
    ultimately have le: "\<bar>dsub rnd ?a ?b\<bar> \<le> dadd rnd ?a ?b"
      by (simp add: dsub_def dadd_def abs_le_iff)
    have "0 \<le> dadd rnd ?a ?b" using a by (rule dadd_nonneg [OF rounds])
    then have pos: "0 < dadd rnd ?a ?b" using nz by simp
    obtain q where q: "ddiv rnd \<bar>dsub rnd ?a ?b\<bar> (dadd rnd ?a ?b) = Inr q" using nz by (simp add: ddiv_def)
    have "0 \<le> q" "q \<le> 1" using ddiv_nonneg [OF rounds _ _ q] ddiv_le_1 [OF rounds _ le q] pos by auto
    then have "0 \<le> dmul rnd q 100" "dmul rnd q 100 \<le> 100"
      using dmul_nonneg [OF rounds] dmul_100_le [OF rounds] by auto
    moreover have "dx_of rnd sp sm st = Inr [dmul rnd q 100]"
      using False nz q by (simp add: dx_of_def ddiv_def Let_def)
    ultimately show ?thesis by simp
  qed
qed (simp add: dx_of_def)

definition dx_ok :: "dx_state \<Rightarrow> bool" where
  "dx_ok s \<longleftrightarrow> fixed_nonneg rnd (smooth_plus s) \<and> fixed_nonneg rnd (smooth_minus s)
     \<and> fixed_nonneg rnd (smooth_tr s) \<and> (\<forall>x \<in> set (dx_vals s). 0 \<le> x \<and> x \<le> 100)"

lemma dx_step_ok:
  assumes "dx_ok s" and "1 \<le> p" and "0 \<le> a" and "0 \<le> b" and "0 \<le> c"
  shows "\<exists>s'. dx_step rnd p s (a, b, c) = Inr s' \<and> dx_ok s'"
proof -
  obtain sp sm st where sm: "smooth rnd p (smooth_plus s) a = Inr sp" "smooth rnd p (smooth_minus s) b = Inr sm"
    "smooth rnd p (smooth_tr s) c = Inr st"
    using assms(2) smooth_total [of p] by force
  have f: "fixed_nonneg rnd sp" "fixed_nonneg rnd sm" "fixed_nonneg rnd st"
    using sm [THEN smooth_fixed] assms by (auto simp: dx_ok_def)
  then obtain d where "dx_of rnd sp sm st = Inr d" "\<forall>x \<in> set d. 0 \<le> x \<and> x \<le> 100"
    using dx_of_range [of sp sm st] by (auto simp: fixed_nonneg_def)
  then show ?thesis using sm f assms(1) by (auto simp: dx_step_def dx_ok_def)
qed

lemma dm_nonneg: "nonneg (map (plus_dm rnd highs lows) is)" "nonneg (map (minus_dm rnd highs lows) is)"
  by (auto simp: nonneg_def plus_dm_def minus_dm_def Let_def)

lemma dx_run:
  assumes "dx_ok s" and "1 \<le> p" and "nonneg as" and "nonneg bs" and "nonneg cs"
  shows "\<exists>s'. foldR (dx_step rnd p) s (drop n (zip as (zip bs cs))) = Inr s' \<and> dx_ok s'"
proof (rule foldR_total [where P = dx_ok, OF assms(1)])
  fix s x assume s: "dx_ok s" and x: "x \<in> set (drop n (zip as (zip bs cs)))"
  obtain a b c where abc: "x = (a, b, c)" by (cases x) auto
  have "a \<in> set as" "b \<in> set bs" "c \<in> set cs"
    using x in_set_dropD unfolding abc by (metis set_zip_leftD set_zip_rightD)+
  then show "\<exists>s'. dx_step rnd p s x = Inr s' \<and> dx_ok s'"
    using dx_step_ok [OF s assms(2)] assms(3-5) unfolding abc by (simp add: nonneg_def)
qed

lemma adx_range:
  assumes p: "0 < period" "period < 2 ^ 64" and len: "length highs = length lows" "length lows = length closes"
  shows "\<exists>r. adx rnd highs lows closes period = Inr r \<and> (\<forall>v. r = Some v \<longrightarrow> 0 \<le> v \<and> v \<le> 100)"
proof -
  let ?is = "[1..<length highs]"
  let ?as = "map (plus_dm rnd highs lows) ?is" and ?bs = "map (minus_dm rnd highs lows) ?is"
    and ?cs = "map (true_range rnd highs lows closes) ?is"
  let ?s0 = "\<lparr>smooth_plus = dsum rnd (take period ?as), smooth_minus = dsum rnd (take period ?bs),
    smooth_tr = dsum rnd (take period ?cs), dx_vals = []\<rparr>"
  have "dx_ok ?s0"
    by (simp add: dx_ok_def dsum_fixed nonneg_take dm_nonneg true_ranges_nonneg)
  then obtain s where run: "foldR (dx_step rnd (of_nat period)) ?s0 (drop period (zip ?as (zip ?bs ?cs))) = Inr s"
    and s: "dx_ok s"
    using dx_run [OF _ _ dm_nonneg(1) dm_nonneg(2) true_ranges_nonneg] p by (metis Suc_leI of_nat_1 of_nat_mono One_nat_def)
  have dx: "nonneg (dx_vals s)" "\<And>x. x \<in> set (dx_vals s) \<Longrightarrow> x \<le> 100"
    using s by (auto simp: dx_ok_def nonneg_def)
  show ?thesis
  proof (cases "length (dx_vals s) < period")
    case True
    then show ?thesis using run len by (auto simp: adx_def Let_def)
  next
    case False
    let ?seed = "rnd (dsum rnd (take period (dx_vals s)) / of_nat period)"
    obtain w where w: "wilder rnd (of_nat period) ?seed (drop period (dx_vals s)) = Inr w"
      using wilder_total [of "of_nat period" rnd ?seed "drop period (dx_vals s)"] p by auto
    have sum: "0 \<le> dsum rnd (take period (dx_vals s))"
      "dsum rnd (take period (dx_vals s)) \<le> 100 * of_nat period"
      using dsum_nonneg [OF rounds nonneg_take [OF dx(1)]] dsum_le_100 [OF p(2), of "take period (dx_vals s)"] dx(2) False
      by (auto dest: in_set_takeD)
    then have seed: "0 \<le> ?seed" "?seed \<le> 100"
      using p rounding_le_int [OF rounds, of _ 100] by (auto intro!: rounding_nonneg [OF rounds] simp: divide_le_eq)
    have "0 \<le> w" using wilder_nonneg [OF rounds w _ seed(1) nonneg_drop [OF dx(1)]] p by simp
    moreover have "w \<le> 100"
      using wilder_le_100 [OF rounds w p seed(2)] dx(2) in_set_dropD by metis
    ultimately show ?thesis using run w False len p by (auto simp: adx_def Let_def ddiv_def)
  qed
qed

end


section \<open>The rounding of the decimals\<close>

lemma rnd28_fixed_nonneg: "0 \<le> x \<Longrightarrow> rnd28 (rnd28 x) = rnd28 x"
proof -
  assume x: "0 \<le> x"
  let ?k = "\<lfloor>x * 10 ^ 28 + 1 / 2\<rfloor>"
  have "rnd28 (rnd28 x) = of_int \<lfloor>rnd28 x * 10 ^ 28 + 1 / 2\<rfloor> / 10 ^ 28"
    using rnd28_nonneg [OF rnd28_nonneg_ge [OF x]] .
  also have "rnd28 x * 10 ^ 28 = of_int ?k" by (simp add: rnd28_nonneg [OF x])
  also have "\<lfloor>(of_int ?k :: rat) + 1 / 2\<rfloor> = ?k" by (simp add: floor_eq_iff)
  finally show ?thesis by (simp add: rnd28_nonneg [OF x])
qed

lemma rnd28_idem: "rnd28 (rnd28 x) = rnd28 x"
proof (cases "0 \<le> x")
  case False
  then have "rnd28 (rnd28 (- x)) = rnd28 (- x)" by (intro rnd28_fixed_nonneg) simp
  then show ?thesis by (simp add: rnd28_uminus)
qed (rule rnd28_fixed_nonneg)

interpretation decimals: idempotent_rounding rnd28
  by unfold_locales (simp_all add: dec_rounding_rnd28 rnd28_idem)

section \<open>The indicator map\<close>

lemma sma_total: "0 < period \<Longrightarrow> \<exists>r. sma rnd prices period = Inr r \<and> (r = None \<longleftrightarrow> length prices < period)"
  by (simp add: sma_def ddiv_def)

lemma rsi_total:
  assumes rnd: "dec_rounding rnd" and p: "0 < period"
  shows "\<exists>r. rsi rnd prices period = Inr r \<and> (r = None \<longleftrightarrow> length prices < period + 1)"
proof -
  obtain gain loss where gl: "gains_losses rnd (last_n period (changes rnd prices)) = (gain, loss)" by fastforce
  have nn: "0 \<le> gain" "0 \<le> loss" using gains_losses_nonneg [OF rnd] gl by (metis fst_conv snd_conv)+
  let ?g = "rnd (gain / of_nat period)" and ?l = "rnd (loss / of_nat period)"
  have "0 \<le> rnd (?g / ?l)" using nn by (intro rounding_nonneg [OF rnd] divide_nonneg_nonneg) auto
  then have "1 \<le> dadd rnd 1 (rnd (?g / ?l))"
    using rounding_ge_int [OF rnd, of 1 "1 + rnd (?g / ?l)"] by (simp add: dadd_def)
  then have "dadd rnd 1 (rnd (?g / ?l)) \<noteq> 0" by auto
  then show ?thesis using p gl by (simp add: rsi_def ddiv_def)
qed

lemma atr_None: "0 < period \<Longrightarrow> length highs = length lows \<Longrightarrow> length lows = length closes \<Longrightarrow>
  atr rnd highs lows closes period = Inr None \<longleftrightarrow> length closes < period + 1"
  by (auto simp: atr_def ddiv_def Let_def someR_def bindR_eq_Inr)

lemma bollinger_total: "0 < period \<Longrightarrow> \<exists>b. bollinger_bands rnd sqrt64 prices period mult = Inr b"
  by (auto simp: bollinger_bands_def bindO_def sma_def ddiv_def Let_def split: option.splits)

lemma bb_width_total: "\<exists>w. bb_width_pct rnd b = Inr w"
  by (auto simp: bb_width_pct_def ddiv_def split: option.splits prod.splits)

lemma atr_percentile_range:
  assumes rnd: "dec_rounding rnd"
  shows "\<exists>r. atr_percentile rnd highs lows closes a = Inr r \<and> (\<forall>v. r = Some v \<longrightarrow> 0 \<le> v \<and> v \<le> 100)"
proof -
  let ?f = "\<lambda>(below :: nat, n :: nat) i. if i < 14 then Inr (below, n)
     else bindR (atr rnd (take (Suc i) highs) (take (Suc i) lows) (take (Suc i) closes) 14) (\<lambda>x.
       case x of None \<Rightarrow> Inr (below, n)
       | Some past_atr \<Rightarrow> Inr (if past_atr < a then below + 1 else below, n + 1))"
  have "\<exists>s'. foldR ?f (0, 0) [length closes - min 50 (length closes)..<length closes] = Inr s'
      \<and> (\<lambda>(below, n). below \<le> n) s'"
  proof (rule foldR_total [where P = "\<lambda>(below, n). below \<le> n"])
    fix s :: "nat \<times> nat" and i assume s: "case s of (below, n) \<Rightarrow> below \<le> n"
    obtain x where "atr rnd (take (Suc i) highs) (take (Suc i) lows) (take (Suc i) closes) 14 = Inr x"
      using atr_total [of 14] by (metis zero_less_numeral)
    then show "\<exists>s'. ?f s i = Inr s' \<and> (case s' of (below, n) \<Rightarrow> below \<le> n)"
      using s by (cases s) (auto split: option.splits)
  qed simp
  then obtain below n where run: "foldR ?f (0, 0) [length closes - min 50 (length closes)..<length closes] = Inr (below, n)"
    and le: "below \<le> n" by auto
  have q: "0 \<le> rnd (of_nat below / of_nat n)" "rnd (of_nat below / of_nat n) \<le> 1"
    using le rounding_le_int [OF rnd, of "of_nat below / of_nat n" 1]
    by (auto intro!: rounding_nonneg [OF rnd] simp: divide_le_eq)
  then have "0 \<le> dmul rnd (rnd (of_nat below / of_nat n)) 100" "dmul rnd (rnd (of_nat below / of_nat n)) 100 \<le> 100"
    using dmul_nonneg [OF rnd] dmul_100_le [OF rnd] by auto
  then show ?thesis using run by (auto simp: atr_percentile_def Let_def ddiv_def)
qed

lemma put_apply: "put k x m j = (if j = k \<and> x \<noteq> None then x else m j)"
  by (auto simp: put_def split: option.splits)



end
