(* ===== verification/Candle_Builder.thy ===== *)
theory Candle_Builder
  imports Types
begin

text \<open>
  The candle builder of \<open>market/src/candle_builder.rs\<close>. A tick is its price, size, time and
  optional best bid and ask. The volume of a finished candle goes through the decimal text and
  \<open>f64\<close> (\<open>to_string\<close>, \<open>parse\<close>, \<open>round\<close>, \<open>as u64\<close>): the composed conversion is the parameter
  \<open>to_u64\<close>, \<open>None\<close> where the text does not parse.
\<close>

record candle_builder =
  cb_pair :: pair
  cb_exchange :: exchange
  cb_timeframe :: string
  cb_period_secs :: int
  cb_current_period_start :: "datetime option"
  cb_open :: "decimal option"
  cb_high :: "decimal option"
  cb_low :: "decimal option"
  cb_close :: "decimal option"
  cb_volume :: decimal
  cb_last_best_bid :: "decimal option"
  cb_last_best_ask :: "decimal option"

record tick =
  t_price :: decimal
  t_size :: decimal
  t_ts :: datetime
  t_bid :: "decimal option"
  t_ask :: "decimal option"

definition period_secs_of :: "string \<Rightarrow> int result" where
  "period_secs_of timeframe =
     (if timeframe = ''M1'' then Inr 60
      else if timeframe = ''M5'' then Inr 300
      else if timeframe = ''H1'' then Inr 3600
      else Inl (Panic ''unsupported timeframe''))"

definition candle_builder_new :: "pair \<Rightarrow> exchange \<Rightarrow> string \<Rightarrow> candle_builder result" where
  "candle_builder_new pair exchange timeframe =
     bindR (period_secs_of timeframe) (\<lambda>period_secs.
     Inr \<lparr>cb_pair = pair, cb_exchange = exchange, cb_timeframe = timeframe,
          cb_period_secs = period_secs, cb_current_period_start = None, cb_open = None,
          cb_high = None, cb_low = None, cb_close = None, cb_volume = 0,
          cb_last_best_bid = None, cb_last_best_ask = None\<rparr>)"

text \<open>\<open>timestamp\<close> is the floor of the seconds; the remainder of the source has the sign of its dividend.\<close>

definition timestamp :: "datetime \<Rightarrow> int" where "timestamp ts = ts div nanos_per_sec"

definition period_start :: "int \<Rightarrow> datetime \<Rightarrow> datetime" where
  "period_start period_secs ts = secs (timestamp ts - trem (timestamp ts) period_secs)"

definition or_keep :: "decimal option \<Rightarrow> decimal option \<Rightarrow> decimal option" where
  "or_keep new old = (if new \<noteq> None then new else old)"

text \<open>
  \<open>complete_current\<close>: the fields are taken one after the other, and an empty one or a volume
  without conversion returns early, keeping what was taken so far.
\<close>

definition complete_current ::
  "(decimal \<Rightarrow> nat option) \<Rightarrow> candle_builder \<Rightarrow> candle option \<times> candle_builder" where
  "complete_current to_u64 b =
     (case cb_current_period_start b of
        None \<Rightarrow> (None, b)
      | Some ps \<Rightarrow>
     (case cb_open b of None \<Rightarrow> (None, b)
      | Some op \<Rightarrow> let b1 = b\<lparr>cb_open := None\<rparr> in
     (case cb_high b1 of None \<Rightarrow> (None, b1)
      | Some hi \<Rightarrow> let b2 = b1\<lparr>cb_high := None\<rparr> in
     (case cb_low b2 of None \<Rightarrow> (None, b2)
      | Some lo \<Rightarrow> let b3 = b2\<lparr>cb_low := None\<rparr> in
     (case cb_close b3 of None \<Rightarrow> (None, b3)
      | Some cl \<Rightarrow> let b4 = b3\<lparr>cb_close := None\<rparr> in
     (case to_u64 (cb_volume b4) of None \<Rightarrow> (None, b4)
      | Some volume \<Rightarrow>
         (Some \<lparr>c_pair = cb_pair b4, c_exchange = cb_exchange b4, c_timeframe = cb_timeframe b4,
                c_open = op, c_high = hi, c_low = lo, c_close = cl, c_volume = Some volume,
                c_best_bid = cb_last_best_bid b4, c_best_ask = cb_last_best_ask b4,
                c_timestamp = ps\<rparr>,
          b4\<lparr>cb_current_period_start := None, cb_volume := 0\<rparr>)))))))"

definition keep_quotes :: "decimal option \<Rightarrow> decimal option \<Rightarrow> candle_builder \<Rightarrow> candle_builder" where
  "keep_quotes bid ask b =
     b\<lparr>cb_last_best_bid := or_keep bid (cb_last_best_bid b),
       cb_last_best_ask := or_keep ask (cb_last_best_ask b)\<rparr>"

definition start_candle :: "datetime \<Rightarrow> tick \<Rightarrow> candle_builder \<Rightarrow> candle_builder" where
  "start_candle ps t b =
     b\<lparr>cb_current_period_start := Some ps, cb_open := Some (t_price t), cb_high := Some (t_price t),
       cb_low := Some (t_price t), cb_close := Some (t_price t), cb_volume := t_size t\<rparr>"

definition extend_candle :: "rounding \<Rightarrow> tick \<Rightarrow> candle_builder \<Rightarrow> candle_builder result" where
  "extend_candle rnd t b =
     bindR (ok_or (Panic ''high is set whenever current_period_start is set'') (cb_high b)) (\<lambda>high.
     bindR (ok_or (Panic ''low is set whenever current_period_start is set'') (cb_low b)) (\<lambda>low.
     Inr (b\<lparr>cb_high := (if t_price t > high then Some (t_price t) else cb_high b),
            cb_low := (if t_price t < low then Some (t_price t) else cb_low b),
            cb_close := Some (t_price t), cb_volume := dadd rnd (cb_volume b) (t_size t)\<rparr>)))"

definition on_tick ::
  "rounding \<Rightarrow> (decimal \<Rightarrow> nat option) \<Rightarrow> tick \<Rightarrow> candle_builder
    \<Rightarrow> (candle option \<times> candle_builder) result" where
  "on_tick rnd to_u64 t b =
     (let ps = period_start (cb_period_secs b) (t_ts t);
          (completed, b1) =
            (if cb_current_period_start b \<noteq> None \<and> cb_current_period_start b \<noteq> Some ps
             then complete_current to_u64 b else (None, b));
          b2 = keep_quotes (t_bid t) (t_ask t) b1
      in if cb_current_period_start b2 \<noteq> Some ps
         then Inr (completed, start_candle ps t b2)
         else bindR (extend_candle rnd t b2) (\<lambda>b3. Inr (completed, b3)))"

definition try_complete ::
  "(decimal \<Rightarrow> nat option) \<Rightarrow> datetime \<Rightarrow> decimal option \<Rightarrow> decimal option \<Rightarrow> candle_builder
    \<Rightarrow> candle option \<times> candle_builder" where
  "try_complete to_u64 now bid ask b =
     (case cb_current_period_start b of
        None \<Rightarrow> (None, b)
      | Some ps \<Rightarrow>
          if now < ps + secs (cb_period_secs b) then (None, b)
          else complete_current to_u64 (keep_quotes bid ask b))"

text \<open>\<open>build_primary_and_h1_builders\<close>: one builder per pair, the last of equal names wins.\<close>

fun build_primary_and_h1_builders ::
  "pair list \<Rightarrow> exchange \<Rightarrow> string \<Rightarrow> ((string \<rightharpoonup> candle_builder) \<times> (string \<rightharpoonup> candle_builder)) \<Rightarrow>
    ((string \<rightharpoonup> candle_builder) \<times> (string \<rightharpoonup> candle_builder)) result" where
  "build_primary_and_h1_builders [] exchange tf maps = Inr maps"
| "build_primary_and_h1_builders (p # ps) exchange tf (primary, h1) =
     bindR (candle_builder_new p exchange tf) (\<lambda>b.
     bindR (if tf \<noteq> ''H1'' then bindR (candle_builder_new p exchange ''H1'') (\<lambda>b'. Inr (h1(p \<mapsto> b')))
            else Inr h1) (\<lambda>h1'.
     build_primary_and_h1_builders ps exchange tf (primary(p \<mapsto> b), h1')))"

section \<open>Candles against the ticks they are built from\<close>

text \<open>Feeding ticks in order; the finished candles are collected.\<close>

fun feed_ticks ::
  "rounding \<Rightarrow> (decimal \<Rightarrow> nat option) \<Rightarrow> tick list \<Rightarrow> candle_builder
    \<Rightarrow> (candle list \<times> candle_builder) result" where
  "feed_ticks rnd to_u64 [] b = Inr ([], b)"
| "feed_ticks rnd to_u64 (t # ts) b =
     bindR (on_tick rnd to_u64 t b) (\<lambda>(c, b1).
     bindR (feed_ticks rnd to_u64 ts b1) (\<lambda>(cs, b2).
     Inr (case c of None \<Rightarrow> cs | Some x \<Rightarrow> x # cs, b2)))"

lemma feed_ticks_snoc:
  "feed_ticks rnd to_u64 ts b = Inr (cs, b1) \<Longrightarrow> on_tick rnd to_u64 t b1 = Inr (c, b2) \<Longrightarrow>
   feed_ticks rnd to_u64 (ts @ [t]) b = Inr (cs @ (case c of None \<Rightarrow> [] | Some x \<Rightarrow> [x]), b2)"
proof (induction ts arbitrary: b cs)
  case (Cons u us)
  then obtain d b3 cs' where u: "on_tick rnd to_u64 u b = Inr (d, b3)"
    and us: "feed_ticks rnd to_u64 us b3 = Inr (cs', b1)"
    and cs: "cs = (case d of None \<Rightarrow> cs' | Some x \<Rightarrow> x # cs')"
    by (auto simp: bindR_eq_Inr)
  show ?case using Cons.IH [OF us Cons.prems(2)] u cs by (simp split: option.splits)
qed (simp split: option.splits)

text \<open>The last quote given in a sequence of ticks, and the volume of a group.\<close>

definition last_quote :: "(tick \<Rightarrow> decimal option) \<Rightarrow> tick list \<Rightarrow> decimal option" where
  "last_quote f ts = foldl (\<lambda>q t. or_keep (f t) q) None ts"

definition group_volume :: "rounding \<Rightarrow> tick list \<Rightarrow> decimal" where
  "group_volume rnd g = foldl (dadd rnd) (t_size (hd g)) (map t_size (tl g))"

definition candle_of ::
  "rounding \<Rightarrow> (decimal \<Rightarrow> nat option) \<Rightarrow> candle_builder \<Rightarrow> tick list \<Rightarrow> tick list \<Rightarrow> candle" where
  "candle_of rnd to_u64 b before g =
     \<lparr>c_pair = cb_pair b, c_exchange = cb_exchange b, c_timeframe = cb_timeframe b,
      c_open = t_price (hd g), c_high = Max (t_price ` set g), c_low = Min (t_price ` set g),
      c_close = t_price (last g), c_volume = to_u64 (group_volume rnd g),
      c_best_bid = last_quote t_bid (before @ g), c_best_ask = last_quote t_ask (before @ g),
      c_timestamp = period_start (cb_period_secs b) (t_ts (hd g))\<rparr>"

text \<open>The builder while the group \<open>g\<close> is open, after the ticks \<open>before\<close> of finished groups.\<close>

definition builder_at :: "rounding \<Rightarrow> candle_builder \<Rightarrow> tick list \<Rightarrow> tick list \<Rightarrow> candle_builder" where
  "builder_at rnd b before g =
     b\<lparr>cb_current_period_start := Some (period_start (cb_period_secs b) (t_ts (hd g))),
       cb_open := Some (t_price (hd g)), cb_high := Some (Max (t_price ` set g)),
       cb_low := Some (Min (t_price ` set g)), cb_close := Some (t_price (last g)),
       cb_volume := group_volume rnd g, cb_last_best_bid := last_quote t_bid (before @ g),
       cb_last_best_ask := last_quote t_ask (before @ g)\<rparr>"

definition fresh_builder :: "candle_builder \<Rightarrow> bool" where
  "fresh_builder b \<longleftrightarrow> cb_current_period_start b = None \<and> cb_last_best_bid b = None \<and> cb_last_best_ask b = None"

lemma last_quote_snoc: "last_quote f (ts @ [t]) = or_keep (f t) (last_quote f ts)"
  by (simp add: last_quote_def)

lemma Max_snoc: "g \<noteq> [] \<Longrightarrow> Max (f ` set (g @ [t])) = max (Max (f ` set g)) (f t)"
  by (simp add: max.commute)

lemma Min_snoc: "g \<noteq> [] \<Longrightarrow> Min (f ` set (g @ [t])) = min (Min (f ` set g)) (f t)"
  by (simp add: min.commute)

lemma group_volume_snoc: "g \<noteq> [] \<Longrightarrow> group_volume rnd (g @ [t]) = dadd rnd (group_volume rnd g) (t_size t)"
  by (simp add: group_volume_def tl_append2)

lemma Some_max: "(if x > m then Some x else Some m) = Some (max m x)" for x :: "'a::linorder"
  by (auto simp: max_def)

lemma Some_min: "(if x < m then Some x else Some m) = Some (min m x)" for x :: "'a::linorder"
  by (auto simp: min_def)

lemma on_first_tick:
  "fresh_builder b \<Longrightarrow> on_tick rnd to_u64 t b = Inr (None, builder_at rnd b [] [t])"
  by (simp add: fresh_builder_def on_tick_def keep_quotes_def start_candle_def builder_at_def
      last_quote_def or_keep_def group_volume_def Let_def)

lemma on_same_period:
  assumes "g \<noteq> []"
    and "period_start (cb_period_secs b) (t_ts t) = period_start (cb_period_secs b) (t_ts (hd g))"
  shows "on_tick rnd to_u64 t (builder_at rnd b before g) = Inr (None, builder_at rnd b before (g @ [t]))"
  using assms
  by (cases b) (simp add: on_tick_def builder_at_def keep_quotes_def extend_candle_def Let_def Some_max Some_min
      Max_snoc Min_snoc group_volume_snoc last_quote_snoc flip: append_assoc del: set_append Max_less_iff Min_gr_iff)

lemma on_next_period:
  assumes "period_start (cb_period_secs b) (t_ts t) \<noteq> period_start (cb_period_secs b) (t_ts (hd g))"
    and "to_u64 (group_volume rnd g) \<noteq> None"
  shows "on_tick rnd to_u64 t (builder_at rnd b before g) =
    Inr (Some (candle_of rnd to_u64 b before g), builder_at rnd b (before @ g) [t])"
  using assms
  by (auto simp: on_tick_def builder_at_def complete_current_def keep_quotes_def start_candle_def
      candle_of_def last_quote_snoc group_volume_def Let_def simp flip: append_assoc)

section \<open>Splitting ticks into periods\<close>

text \<open>\<open>gs\<close> splits \<open>ts\<close> into its maximal runs of ticks of one period.\<close>

definition splits_periods :: "int \<Rightarrow> tick list \<Rightarrow> tick list list \<Rightarrow> bool" where
  "splits_periods p ts gs \<longleftrightarrow> concat gs = ts \<and> [] \<notin> set gs
     \<and> (\<forall>g \<in> set gs. \<forall>t \<in> set g. period_start p (t_ts t) = period_start p (t_ts (hd g)))
     \<and> successively (\<lambda>g h. period_start p (t_ts (hd g)) \<noteq> period_start p (t_ts (hd h))) gs"

lemma splits_snoc_same:
  assumes "splits_periods p ts (gs @ [g])" and "period_start p (t_ts t) = period_start p (t_ts (hd g))"
  shows "splits_periods p (ts @ [t]) (gs @ [g @ [t]])"
proof -
  have "g \<noteq> []" using assms(1) by (auto simp: splits_periods_def)
  then have "hd (g @ [t]) = hd g" by simp
  then show ?thesis
    using assms unfolding splits_periods_def successively_append_iff by auto
qed

lemma splits_snoc_next:
  assumes "splits_periods p ts gs"
    and "gs = [] \<or> period_start p (t_ts (hd (last gs))) \<noteq> period_start p (t_ts t)"
  shows "splits_periods p (ts @ [t]) (gs @ [[t]])"
  using assms unfolding splits_periods_def successively_append_iff by auto

definition candles_of ::
  "rounding \<Rightarrow> (decimal \<Rightarrow> nat option) \<Rightarrow> candle_builder \<Rightarrow> tick list list \<Rightarrow> candle list" where
  "candles_of rnd to_u64 b gs = map (\<lambda>i. candle_of rnd to_u64 b (concat (take i gs)) (gs ! i)) [0..<length gs]"

lemma candles_of_snoc:
  "candles_of rnd to_u64 b (gs @ [g]) = candles_of rnd to_u64 b gs @ [candle_of rnd to_u64 b (concat gs) g]"
  by (simp add: candles_of_def nth_append)

text \<open>
  C24. Whatever ticks arrive, in order or not, the builder never panics, and the candles it
  has finished are those of a reference that splits the ticks into maximal runs of one period:
  each run but the open last one gives one candle with the price of its first and last tick as
  open and close, the greatest and least price as high and low, the added sizes as volume, the
  last known quotes, and the start of the period as time.
\<close>

theorem candles_match_ticks:
  assumes new: "candle_builder_new pair exchange timeframe = Inr b" and vol: "\<And>v. to_u64 v \<noteq> None"
  shows "\<exists>gs b'. splits_periods (cb_period_secs b) ts gs
    \<and> feed_ticks rnd to_u64 ts b = Inr (candles_of rnd to_u64 b (butlast gs), b')
    \<and> b' = (if gs = [] then b else builder_at rnd b (concat (butlast gs)) (last gs))"
proof (induction ts rule: rev_induct)
  case Nil
  show ?case by (rule exI [of _ "[]"]) (simp add: splits_periods_def candles_of_def)
next
  case (snoc t ts)
  then obtain gs b' where sp: "splits_periods (cb_period_secs b) ts gs"
    and run: "feed_ticks rnd to_u64 ts b = Inr (candles_of rnd to_u64 b (butlast gs), b')"
    and b': "b' = (if gs = [] then b else builder_at rnd b (concat (butlast gs)) (last gs))" by blast
  show ?case
  proof (cases gs rule: rev_cases)
    case Nil
    have "fresh_builder b" using new by (auto simp: candle_builder_new_def bindR_eq_Inr fresh_builder_def)
    from feed_ticks_snoc [OF run, of t] on_first_tick [OF this] Nil b'
    have "feed_ticks rnd to_u64 (ts @ [t]) b = Inr ([], builder_at rnd b [] [t])"
      by (simp add: candles_of_def)
    then show ?thesis using splits_snoc_next [OF sp, of t] Nil
      by (intro exI [of _ "[[t]]"]) (simp add: candles_of_def)
  next
    case (snoc hs g)
    have g: "g \<noteq> []" using sp snoc by (auto simp: splits_periods_def)
    show ?thesis
    proof (cases "period_start (cb_period_secs b) (t_ts t) = period_start (cb_period_secs b) (t_ts (hd g))")
      case True
      have "on_tick rnd to_u64 t b' = Inr (None, builder_at rnd b (concat hs) (g @ [t]))"
        using on_same_period [OF g True] b' snoc by simp
      from feed_ticks_snoc [OF run this] splits_snoc_same [OF _ True, of ts hs] sp snoc
      show ?thesis by (intro exI [of _ "hs @ [g @ [t]]"]) simp
    next
      case False
      have "on_tick rnd to_u64 t b' = Inr (Some (candle_of rnd to_u64 b (concat hs) g), builder_at rnd b (concat hs @ g) [t])"
        using on_next_period [OF False vol] b' snoc by simp
      from feed_ticks_snoc [OF run this] splits_snoc_next [OF sp, of t] False snoc
      show ?thesis by (intro exI [of _ "gs @ [[t]]"]) (simp add: candles_of_snoc butlast_append)
    qed
  qed
qed

definition demo_ticks :: "tick list" where
  "demo_ticks = map (\<lambda>(p, s). \<lparr>t_price = p, t_size = 1, t_ts = secs s, t_bid = None, t_ask = Some p\<rparr>)
     [(100, 0), (103, 20), (99, 59), (101, 60)]"

definition demo_candle :: candle where
  "demo_candle = \<lparr>c_pair = ''FX'', c_exchange = GmoFx, c_timeframe = ''M1'', c_open = 100, c_high = 103,
     c_low = 99, c_close = 99, c_volume = Some 3, c_best_bid = None, c_best_ask = Some 99, c_timestamp = 0\<rparr>"

definition demo_volume :: "decimal \<Rightarrow> nat option" where "demo_volume v = Some (nat \<lfloor>v\<rfloor>)"

lemma demo_feed:
  "bindR (candle_builder_new ''FX'' GmoFx ''M1'') (\<lambda>b. bindR (feed_ticks rnd28 demo_volume demo_ticks b)
     (\<lambda>(cs, _). Inr cs)) = Inr [demo_candle]"
  by code_simp

theorem candles_match_ticks_witness:
  "\<exists>b gs. candle_builder_new ''FX'' GmoFx ''M1'' = Inr b \<and> splits_periods (cb_period_secs b) demo_ticks gs
     \<and> candles_of rnd28 demo_volume b (butlast gs) = [demo_candle]"
proof -
  obtain b where b: "candle_builder_new ''FX'' GmoFx ''M1'' = Inr b"
    by (auto simp: candle_builder_new_def period_secs_of_def)
  obtain gs b' where "splits_periods (cb_period_secs b) demo_ticks gs"
    "feed_ticks rnd28 demo_volume demo_ticks b = Inr (candles_of rnd28 demo_volume b (butlast gs), b')"
    using candles_match_ticks [OF b, of demo_volume demo_ticks rnd28] by (auto simp: demo_volume_def)
  then show ?thesis using b demo_feed by auto
qed

end
