(* ===== verification/Strategies.thy ===== *)
theory Strategies
  imports Indicators Candle_Builder
begin

text \<open>
  The trading strategies of \<open>crates/strategy\<close>. The history of a pair is the list of its
  candles, oldest first. A strategy method returns its result with the new state; a panic is
  the division of a stop distance by a zero price. \<open>f64\<close> confidences are their bits. The
  square root of the Bollinger bands is the parameter \<open>sqrt64\<close> of \<open>Indicators\<close>.
\<close>

section \<open>Shared parts\<close>

text \<open>\<open>candle_history.rs\<close>; the loop that pops the front leaves the newest \<open>max_len\<close> candles.\<close>

definition push_candle :: "candle list \<Rightarrow> candle \<Rightarrow> nat \<Rightarrow> candle list" where
  "push_candle history c max_len = last_n (min max_len (length history + 1)) (history @ [c])"

definition highs :: "candle list \<Rightarrow> decimal list" where "highs h = map c_high h"

definition lows :: "candle list \<Rightarrow> decimal list" where "lows h = map c_low h"

definition closes :: "candle list \<Rightarrow> decimal list" where "closes h = map c_close h"

type_synonym histories = "string \<rightharpoonup> candle list"

definition history_of :: "histories \<Rightarrow> string \<Rightarrow> candle list" where
  "history_of hs k = (case hs k of None \<Rightarrow> [] | Some h \<Rightarrow> h)"

definition push_history :: "nat \<Rightarrow> string \<Rightarrow> candle \<Rightarrow> histories \<Rightarrow> histories" where
  "push_history max_len k c hs = hs(k \<mapsto> push_candle (history_of hs k) c max_len)"

text \<open>\<open>stop_loss.rs\<close>, and the stop distance \<open>(atr * mult / entry).min(cap)\<close>.\<close>

definition lacks_tradable_volatility :: "decimal \<Rightarrow> bool" where
  "lacks_tradable_volatility stop_loss_pct \<longleftrightarrow> stop_loss_pct \<le> 0"

definition stop_distance :: "rounding \<Rightarrow> decimal \<Rightarrow> decimal \<Rightarrow> decimal \<Rightarrow> decimal \<Rightarrow> decimal result" where
  "stop_distance rnd atr_val mult entry cap =
     bindR (ddiv rnd (dmul rnd atr_val mult) entry) (\<lambda>x. Inr (min x cap))"

definition make_signal ::
  "string \<Rightarrow> price_event \<Rightarrow> direction \<Rightarrow> decimal \<Rightarrow> f64_bits \<Rightarrow> decimal \<Rightarrow> datetime option \<Rightarrow> signal" where
  "make_signal name e d stop_loss_pct confidence allocation_pct hold =
     \<lparr>s_strategy_name = name, s_pair = e_pair e, s_direction = d, s_stop_loss_pct = stop_loss_pct,
      s_take_profit_pct = None, s_confidence = confidence, s_timestamp = e_timestamp e,
      s_allocation_pct = allocation_pct, s_max_hold_until = hold\<rparr>"

definition make_exit :: "trade \<Rightarrow> strategy_exit_reason \<Rightarrow> decimal \<Rightarrow> exit_signal" where
  "make_exit p reason close = \<lparr>x_trade_id = t_id p, x_reason = reason, x_close_price = close\<rparr>"

section \<open>Donchian baseline\<close>

definition min_history_len_for_entry :: "nat \<Rightarrow> nat \<Rightarrow> nat \<Rightarrow> nat" where
  "min_history_len_for_entry entry_channel atr_baseline_bars atr_period =
     entry_channel + atr_baseline_bars + atr_period + 1"

definition min_history_len_for_baseline_atr :: "nat \<Rightarrow> nat \<Rightarrow> nat" where
  "min_history_len_for_baseline_atr atr_baseline_bars atr_period = atr_baseline_bars + atr_period + 2"

definition channel_excluding_current_bar ::
  "decimal list \<Rightarrow> decimal list \<Rightarrow> nat \<Rightarrow> (decimal \<times> decimal) option" where
  "channel_excluding_current_bar hs ls channel = donchian_channel hs ls channel False"

definition baseline_atr_excluding_current_bar ::
  "rounding \<Rightarrow> candle list \<Rightarrow> nat \<Rightarrow> nat \<Rightarrow> decimal option result" where
  "baseline_atr_excluding_current_bar rnd history atr_baseline_bars atr_period =
     (if length history < min_history_len_for_baseline_atr atr_baseline_bars atr_period then Inr None
      else
        let latest_prior = length history - 2;
            start = latest_prior + 1 - atr_baseline_bars
        in bindR (foldR (\<lambda>(sum, n) i.
             if i < atr_period + 1 then Inr (sum, n)
             else
               bindR (atr rnd (take (Suc i) (highs history)) (take (Suc i) (lows history))
                        (take (Suc i) (closes history)) atr_period) (\<lambda>v.
               case v of None \<Rightarrow> Inr (sum, n) | Some a \<Rightarrow> Inr (dadd rnd sum a, n + 1)))
             (0, 0 :: nat) [start..<Suc latest_prior]) (\<lambda>(sum, n).
           if n = 0 then Inr None else someR (ddiv rnd sum (of_nat n))))"

section \<open>Donchian trend with fixed channels\<close>

record donchian =
  dt_name :: string
  dt_pairs :: "pair list"
  dt_history :: histories

definition donchian_new :: "string \<Rightarrow> pair list \<Rightarrow> donchian" where
  "donchian_new name pairs = \<lparr>dt_name = name, dt_pairs = pairs, dt_history = Map.empty\<rparr>"

definition dt_push_candle :: "string \<Rightarrow> candle \<Rightarrow> donchian \<Rightarrow> donchian" where
  "dt_push_candle k c st = st\<lparr>dt_history := push_history 200 k c (dt_history st)\<rparr>"

definition donchian_decide ::
  "rounding \<Rightarrow> string \<Rightarrow> candle list \<Rightarrow> price_event \<Rightarrow> signal option result" where
  "donchian_decide rnd name history e =
     (if length history < min_history_len_for_entry 20 20 14 then Inr None
      else
        bindO (Inr (channel_excluding_current_bar (highs history) (lows history) 20))
          (\<lambda>(channel_low, channel_high).
        bindO (atr rnd (highs history) (lows history) (closes history) 14) (\<lambda>atr_val.
        bindO (baseline_atr_excluding_current_bar rnd history 20 14) (\<lambda>baseline.
        if atr_val \<le> baseline then Inr None
        else
          let entry = c_close (e_candle e) in
          bindR (stop_distance rnd atr_val 3 entry (5 / 100)) (\<lambda>stop_loss_pct.
          if lacks_tradable_volatility stop_loss_pct then Inr None
          else if entry > channel_high
          then Inr (Some (make_signal name e Long stop_loss_pct 0x3FE3333333333333 1 None))
          else if entry < channel_low
          then Inr (Some (make_signal name e Short stop_loss_pct 0x3FE3333333333333 1 None))
          else Inr None)))))"

definition donchian_on_price ::
  "rounding \<Rightarrow> donchian \<Rightarrow> price_event \<Rightarrow> signal option result \<times> donchian" where
  "donchian_on_price rnd st e =
     (if c_timeframe (e_candle e) \<noteq> ''H1'' then (Inr None, st)
      else if e_pair e \<notin> set (dt_pairs st) then (Inr None, st)
      else
        let st' = dt_push_candle (e_pair e) (e_candle e) st in
        (donchian_decide rnd (dt_name st') (history_of (dt_history st') (e_pair e)) e, st'))"

definition donchian_warmup :: "price_event list \<Rightarrow> donchian \<Rightarrow> donchian" where
  "donchian_warmup events st = foldl (\<lambda>st e.
     if c_timeframe (e_candle e) \<noteq> ''H1'' then st
     else if e_pair e \<notin> set (dt_pairs st) then st
     else dt_push_candle (e_pair e) (e_candle e) st) st events"

definition trailing_exit ::
  "rounding \<Rightarrow> string \<Rightarrow> price_event \<Rightarrow> decimal \<Rightarrow> decimal \<Rightarrow> trade \<Rightarrow> exit_signal option" where
  "trailing_exit rnd name e exit_low exit_high p =
     (let close = c_close (e_candle e) in
      if t_strategy_name p \<noteq> name then None
      else if t_pair p \<noteq> e_pair e then None
      else if \<not> has_reached_one_r rnd (t_direction p) (t_entry_price p) (t_stop_loss p) close then None
      else if (case t_direction p of Long \<Rightarrow> close < exit_low | Short \<Rightarrow> close > exit_high)
      then Some (make_exit p TrailingChannel close) else None)"

definition donchian_on_open_positions ::
  "rounding \<Rightarrow> donchian \<Rightarrow> trade list \<Rightarrow> price_event \<Rightarrow> exit_signal list" where
  "donchian_on_open_positions rnd st positions e =
     (if c_timeframe (e_candle e) \<noteq> ''H1'' then []
      else case dt_history st (e_pair e) of
        None \<Rightarrow> []
      | Some history \<Rightarrow>
          (case channel_excluding_current_bar (highs history) (lows history) 10 of
             None \<Rightarrow> []
           | Some (exit_low, exit_high) \<Rightarrow>
               List.map_filter (trailing_exit rnd (dt_name st) e exit_low exit_high) positions))"

section \<open>Donchian trend with channels from parameters\<close>

record donchian_evolve =
  de_name :: string
  de_pairs :: "pair list"
  de_entry_channel :: nat
  de_exit_channel :: nat
  de_atr_baseline_bars :: nat
  de_history :: histories

definition clamp :: "nat \<Rightarrow> nat \<Rightarrow> nat \<Rightarrow> nat" where
  "clamp lo hi x = (if x < lo then lo else if x > hi then hi else x)"

text \<open>\<open>param_u64\<close> is \<open>params[key].as_u64()\<close> on the JSON value given to the constructor.\<close>

definition donchian_evolve_new :: "string \<Rightarrow> pair list \<Rightarrow> (string \<Rightarrow> nat option) \<Rightarrow> donchian_evolve" where
  "donchian_evolve_new name pairs param_u64 =
     \<lparr>de_name = name, de_pairs = pairs,
      de_entry_channel = clamp 10 30 (unwrap_or (param_u64 ''entry_channel'') 20),
      de_exit_channel = clamp 5 15 (unwrap_or (param_u64 ''exit_channel'') 10),
      de_atr_baseline_bars = clamp 20 100 (unwrap_or (param_u64 ''atr_baseline_bars'') 20),
      de_history = Map.empty\<rparr>"

definition de_push_candle :: "string \<Rightarrow> candle \<Rightarrow> donchian_evolve \<Rightarrow> donchian_evolve" where
  "de_push_candle k c st = st\<lparr>de_history := push_history 200 k c (de_history st)\<rparr>"

definition donchian_evolve_decide ::
  "rounding \<Rightarrow> donchian_evolve \<Rightarrow> candle list \<Rightarrow> price_event \<Rightarrow> signal option result" where
  "donchian_evolve_decide rnd st history e =
     (if length history < min_history_len_for_entry (de_entry_channel st) (de_atr_baseline_bars st) 14
      then Inr None
      else
        bindO (Inr (channel_excluding_current_bar (highs history) (lows history) (de_entry_channel st)))
          (\<lambda>(channel_low, channel_high).
        bindO (atr rnd (highs history) (lows history) (closes history) 14) (\<lambda>atr_val.
        bindO (baseline_atr_excluding_current_bar rnd history (de_atr_baseline_bars st) 14) (\<lambda>baseline.
        if atr_val \<le> baseline then Inr None
        else
          let entry = c_close (e_candle e) in
          bindR (stop_distance rnd atr_val 3 entry (5 / 100)) (\<lambda>stop_loss_pct.
          if lacks_tradable_volatility stop_loss_pct then Inr None
          else if entry > channel_high
          then Inr (Some (make_signal (de_name st) e Long stop_loss_pct 0x3FE3333333333333 1 None))
          else if entry < channel_low
          then Inr (Some (make_signal (de_name st) e Short stop_loss_pct 0x3FE3333333333333 1 None))
          else Inr None)))))"

definition donchian_evolve_on_price ::
  "rounding \<Rightarrow> donchian_evolve \<Rightarrow> price_event \<Rightarrow> signal option result \<times> donchian_evolve" where
  "donchian_evolve_on_price rnd st e =
     (if c_timeframe (e_candle e) \<noteq> ''H1'' then (Inr None, st)
      else if e_pair e \<notin> set (de_pairs st) then (Inr None, st)
      else
        let st' = de_push_candle (e_pair e) (e_candle e) st in
        (donchian_evolve_decide rnd st' (history_of (de_history st') (e_pair e)) e, st'))"

definition donchian_evolve_warmup :: "price_event list \<Rightarrow> donchian_evolve \<Rightarrow> donchian_evolve" where
  "donchian_evolve_warmup events st = foldl (\<lambda>st e.
     if c_timeframe (e_candle e) \<noteq> ''H1'' then st
     else if e_pair e \<notin> set (de_pairs st) then st
     else de_push_candle (e_pair e) (e_candle e) st) st events"

definition donchian_evolve_on_open_positions ::
  "rounding \<Rightarrow> donchian_evolve \<Rightarrow> trade list \<Rightarrow> price_event \<Rightarrow> exit_signal list" where
  "donchian_evolve_on_open_positions rnd st positions e =
     (if c_timeframe (e_candle e) \<noteq> ''H1'' then []
      else case de_history st (e_pair e) of
        None \<Rightarrow> []
      | Some history \<Rightarrow>
          (case channel_excluding_current_bar (highs history) (lows history) (de_exit_channel st) of
             None \<Rightarrow> []
           | Some (exit_low, exit_high) \<Rightarrow>
               List.map_filter (trailing_exit rnd (de_name st) e exit_low exit_high) positions))"

section \<open>Mean reversion on Bollinger bands\<close>

record bb_mean_revert =
  bb_name :: string
  bb_pairs :: "pair list"
  bb_history :: histories

definition bb_new :: "string \<Rightarrow> pair list \<Rightarrow> bb_mean_revert" where
  "bb_new name pairs = \<lparr>bb_name = name, bb_pairs = pairs, bb_history = Map.empty\<rparr>"

definition bb_push_candle :: "string \<Rightarrow> candle \<Rightarrow> bb_mean_revert \<Rightarrow> bb_mean_revert" where
  "bb_push_candle k c st = st\<lparr>bb_history := push_history 200 k c (bb_history st)\<rparr>"

definition min_history_len_for_signal :: nat where
  "min_history_len_for_signal = max (max 20 (14 + 1)) (14 + 1) + 1"

definition bb_decide ::
  "rounding \<Rightarrow> (decimal \<Rightarrow> decimal option) \<Rightarrow> string \<Rightarrow> candle list \<Rightarrow> price_event \<Rightarrow> signal option result" where
  "bb_decide rnd sqrt64 name history e =
     (if length history < min_history_len_for_signal then Inr None
      else
        bindO (bollinger_bands rnd sqrt64 (closes history) 20 (5 / 2)) (\<lambda>(lower, _, upper).
        bindO (rsi rnd (closes history) 14) (\<lambda>rsi_val.
        bindO (atr rnd (highs history) (lows history) (closes history) 14) (\<lambda>atr_val.
        let entry = c_close (e_candle e) in
        bindR (stop_distance rnd atr_val (3 / 2) entry (3 / 100)) (\<lambda>stop_loss_pct.
        if lacks_tradable_volatility stop_loss_pct then Inr None
        else
          let prev = history ! (length history - 2); curr = history ! (length history - 1) in
          if entry < lower \<and> rsi_val < 25 \<and> c_low curr < c_low prev
          then Inr (Some (make_signal name e Long stop_loss_pct 0x3FE4CCCCCCCCCCCD 1
                            (Some (e_timestamp e + hours 24))))
          else if entry > upper \<and> rsi_val > 75 \<and> c_high curr > c_high prev
          then Inr (Some (make_signal name e Short stop_loss_pct 0x3FE4CCCCCCCCCCCD 1
                            (Some (e_timestamp e + hours 24))))
          else Inr None)))))"

definition bb_on_price ::
  "rounding \<Rightarrow> (decimal \<Rightarrow> decimal option) \<Rightarrow> bb_mean_revert \<Rightarrow> price_event
    \<Rightarrow> signal option result \<times> bb_mean_revert" where
  "bb_on_price rnd sqrt64 st e =
     (if c_timeframe (e_candle e) \<noteq> ''M5'' then (Inr None, st)
      else if e_pair e \<notin> set (bb_pairs st) then (Inr None, st)
      else
        let st' = bb_push_candle (e_pair e) (e_candle e) st in
        (bb_decide rnd sqrt64 (bb_name st') (history_of (bb_history st') (e_pair e)) e, st'))"

definition bb_warmup :: "price_event list \<Rightarrow> bb_mean_revert \<Rightarrow> bb_mean_revert" where
  "bb_warmup events st = foldl (\<lambda>st e.
     if c_timeframe (e_candle e) \<noteq> ''M5'' then st
     else if e_pair e \<notin> set (bb_pairs st) then st
     else bb_push_candle (e_pair e) (e_candle e) st) st events"

definition mean_exit :: "rounding \<Rightarrow> string \<Rightarrow> price_event \<Rightarrow> decimal \<Rightarrow> trade \<Rightarrow> exit_signal option" where
  "mean_exit rnd name e middle p =
     (let close = c_close (e_candle e) in
      if t_strategy_name p \<noteq> name then None
      else if t_pair p \<noteq> e_pair e then None
      else if \<not> has_reached_one_r rnd (t_direction p) (t_entry_price p) (t_stop_loss p) close then None
      else if (case t_direction p of Long \<Rightarrow> close \<ge> middle | Short \<Rightarrow> close \<le> middle)
      then Some (make_exit p MeanReached close) else None)"

definition bb_on_open_positions ::
  "rounding \<Rightarrow> bb_mean_revert \<Rightarrow> trade list \<Rightarrow> price_event \<Rightarrow> exit_signal list result" where
  "bb_on_open_positions rnd st positions e =
     (if c_timeframe (e_candle e) \<noteq> ''M5'' then Inr []
      else case bb_history st (e_pair e) of
        None \<Rightarrow> Inr []
      | Some history \<Rightarrow>
          if history = [] then Inr []
          else
            bindR (sma rnd (closes history) 20) (\<lambda>m.
            case m of
              None \<Rightarrow> Inr []
            | Some middle \<Rightarrow> Inr (List.map_filter (mean_exit rnd (bb_name st) e middle) positions)))"

end
