(* ===== verification/Squeeze_Fx.thy ===== *)
theory Squeeze_Fx
  imports Strategies
begin

text \<open>
  The strategies of \<open>strategy/src/squeeze_momentum.rs\<close> and \<open>strategy/src/fx_new.rs\<close>. The sums of
  \<open>u64\<close> volumes are natural numbers.
\<close>

section \<open>Breakout after a squeeze\<close>

record squeeze =
  sq_name :: string
  sq_pairs :: "pair list"
  sq_history :: histories
  sq_count :: "string \<rightharpoonup> nat"

definition squeeze_new :: "string \<Rightarrow> pair list \<Rightarrow> squeeze" where
  "squeeze_new name pairs = \<lparr>sq_name = name, sq_pairs = pairs, sq_history = Map.empty, sq_count = Map.empty\<rparr>"

definition sq_push_candle :: "string \<Rightarrow> candle \<Rightarrow> squeeze \<Rightarrow> squeeze" where
  "sq_push_candle k c st = st\<lparr>sq_history := push_history 200 k c (sq_history st)\<rparr>"

definition record_squeeze_bar :: "string \<Rightarrow> bool \<Rightarrow> (string \<rightharpoonup> nat) \<Rightarrow> (string \<rightharpoonup> nat)" where
  "record_squeeze_bar k in_squeeze counts =
     counts(k \<mapsto> (if in_squeeze then unwrap_or (counts k) 0 + 1 else 0))"

definition floor_to_hour :: "datetime \<Rightarrow> datetime" where
  "floor_to_hour ts = ts - ts mod hours 1"

definition is_in_squeeze ::
  "rounding \<Rightarrow> (decimal \<Rightarrow> decimal option) \<Rightarrow> candle list \<Rightarrow> bool option result" where
  "is_in_squeeze rnd sqrt64 history =
     bindO (bollinger_bands rnd sqrt64 (closes history) 20 2) (\<lambda>(bb_lo, _, bb_up).
     bindO (keltner_channels rnd (highs history) (lows history) (closes history) 20 (3 / 2))
       (\<lambda>(kc_lo, _, kc_up). Inr (Some (bb_lo \<ge> kc_lo \<and> bb_up \<le> kc_up))))"

definition squeeze_signal ::
  "rounding \<Rightarrow> string \<Rightarrow> candle list \<Rightarrow> price_event \<Rightarrow> signal option result" where
  "squeeze_signal rnd name history e =
     (let cs = closes history in
      bindO (sma rnd cs 20) (\<lambda>sma20.
      let mom_curr = dsub rnd (cs ! (length cs - 1)) sma20 in
      bindO (sma rnd (take (length cs - 1) cs) 20) (\<lambda>sma20_prev.
      let mom_prev = dsub rnd (cs ! (length cs - 2)) sma20_prev; entry = c_close (e_candle e) in
      bindO (atr rnd (highs history) (lows history) cs 14) (\<lambda>atr_val.
      bindR (stop_distance rnd atr_val (5 / 2) entry (5 / 100)) (\<lambda>stop_loss_pct.
      if lacks_tradable_volatility stop_loss_pct then Inr None
      else if mom_curr > 0 \<and> mom_curr > mom_prev
      then Inr (Some (make_signal name e Long stop_loss_pct 0x3FE199999999999A 1
                        (Some (e_timestamp e + hours 48))))
      else if mom_curr < 0 \<and> mom_curr < mom_prev
      then Inr (Some (make_signal name e Short stop_loss_pct 0x3FE199999999999A 1
                        (Some (e_timestamp e + hours 48))))
      else Inr None)))))"

definition squeeze_min_history :: nat where
  "squeeze_min_history = max (max (max (max 20 20) (14 + 1)) 22) (5 + 1) + 2"

definition squeeze_on_price ::
  "rounding \<Rightarrow> (decimal \<Rightarrow> decimal option) \<Rightarrow> squeeze \<Rightarrow> price_event \<Rightarrow> signal option result \<times> squeeze" where
  "squeeze_on_price rnd sqrt64 st e =
     (if c_timeframe (e_candle e) \<noteq> ''H1'' then (Inr None, st)
      else if e_pair e \<notin> set (sq_pairs st) then (Inr None, st)
      else
        let k = e_pair e;
            st1 = sq_push_candle k (e_candle e) st;
            history = history_of (sq_history st1) k
        in if length history < squeeze_min_history then (Inr None, st1)
        else case is_in_squeeze rnd sqrt64 history of
          Inl err \<Rightarrow> (Inl err, st1)
        | Inr None \<Rightarrow> (Inr None, st1)
        | Inr (Some in_squeeze) \<Rightarrow>
            let prev_count = unwrap_or (sq_count st1 k) 0;
                st2 = st1\<lparr>sq_count := record_squeeze_bar k in_squeeze (sq_count st1)\<rparr>
            in if \<not> (\<not> in_squeeze \<and> prev_count \<ge> 3) then (Inr None, st2)
               else (squeeze_signal rnd (sq_name st2) history e, st2))"

definition squeeze_warmup_step ::
  "rounding \<Rightarrow> (decimal \<Rightarrow> decimal option) \<Rightarrow> squeeze \<Rightarrow> price_event \<Rightarrow> squeeze result" where
  "squeeze_warmup_step rnd sqrt64 st e =
     (if c_timeframe (e_candle e) \<noteq> ''H1'' then Inr st
      else if e_pair e \<notin> set (sq_pairs st) then Inr st
      else
        let st1 = sq_push_candle (e_pair e) (e_candle e) st in
        bindR (is_in_squeeze rnd sqrt64 (history_of (sq_history st1) (e_pair e))) (\<lambda>r.
        case r of
          None \<Rightarrow> Inr st1
        | Some in_squeeze \<Rightarrow> Inr (st1\<lparr>sq_count := record_squeeze_bar (e_pair e) in_squeeze (sq_count st1)\<rparr>)))"

definition squeeze_warmup ::
  "rounding \<Rightarrow> (decimal \<Rightarrow> decimal option) \<Rightarrow> price_event list \<Rightarrow> squeeze \<Rightarrow> squeeze result" where
  "squeeze_warmup rnd sqrt64 events st = foldR (squeeze_warmup_step rnd sqrt64) st events"

definition exit_check_inputs ::
  "rounding \<Rightarrow> squeeze \<Rightarrow> price_event \<Rightarrow> (candle list \<times> decimal \<times> decimal \<times> decimal) option result" where
  "exit_check_inputs rnd st e =
     (if c_timeframe (e_candle e) \<noteq> ''H1'' then Inr None
      else case sq_history st (e_pair e) of
        None \<Rightarrow> Inr None
      | Some history \<Rightarrow>
          bindO (atr rnd (highs history) (lows history) (closes history) 14) (\<lambda>atr_val.
          if atr_val \<le> 0 then Inr None
          else if length history < 22 then Inr None
          else
            let close = c_close (e_candle e);
                highest_high = unwrap_or (maximum (last_n 22 (highs history))) close;
                lowest_low = unwrap_or (minimum (last_n 22 (lows history))) close
            in Inr (Some (history, highest_high, lowest_low, dmul rnd atr_val 3))))"

definition exit_signal_for_position ::
  "rounding \<Rightarrow> price_event \<Rightarrow> candle list \<Rightarrow> decimal \<Rightarrow> decimal \<Rightarrow> decimal \<Rightarrow> string \<Rightarrow> trade
    \<Rightarrow> exit_signal option" where
  "exit_signal_for_position rnd e history highest_high lowest_low chandelier_offset name p =
     (let close = c_close (e_candle e);
          entry_hour = floor_to_hour (t_entry_at p);
          bars_held = length (filter (\<lambda>c. c_timestamp c \<ge> entry_hour) history) - 1
      in if t_strategy_name p \<noteq> name then None
      else if t_pair p \<noteq> e_pair e then None
      else if bars_held < 3 then None
      else if \<not> has_reached_one_r rnd (t_direction p) (t_entry_price p) (t_stop_loss p) close then None
      else if \<not> (case t_direction p of
                  Long \<Rightarrow> close < dsub rnd highest_high chandelier_offset
                | Short \<Rightarrow> close > dadd rnd lowest_low chandelier_offset) then None
      else Some (make_exit p TrailingMa close))"

definition squeeze_on_open_positions ::
  "rounding \<Rightarrow> squeeze \<Rightarrow> trade list \<Rightarrow> price_event \<Rightarrow> exit_signal list result" where
  "squeeze_on_open_positions rnd st positions e =
     bindR (exit_check_inputs rnd st e) (\<lambda>i.
     case i of
       None \<Rightarrow> Inr []
     | Some (history, highest_high, lowest_low, offset) \<Rightarrow>
         Inr (List.map_filter
           (exit_signal_for_position rnd e history highest_high lowest_low offset (sq_name st)) positions))"

section \<open>Breakout of the M15 channel along the H1 trend\<close>

record fx_new =
  fx_name :: string
  fx_pairs :: "pair list"
  fx_m5_pending :: histories
  fx_m15 :: histories
  fx_h1 :: histories

definition fx_new_new :: "string \<Rightarrow> pair list \<Rightarrow> fx_new" where
  "fx_new_new name pairs = \<lparr>fx_name = name, fx_pairs = pairs, fx_m5_pending = Map.empty,
     fx_m15 = Map.empty, fx_h1 = Map.empty\<rparr>"

definition FX_HISTORY_LEN :: nat where "FX_HISTORY_LEN = 96 * 5"

definition M15_SECONDS :: int where "M15_SECONDS = 15 * 60"

definition fx_accepts :: "fx_new \<Rightarrow> price_event \<Rightarrow> bool" where
  "fx_accepts st e \<longleftrightarrow> e_exchange e = GmoFx \<and> e_pair e \<in> set (fx_pairs st)"

definition is_valid_candle :: "candle \<Rightarrow> bool" where
  "is_valid_candle c \<longleftrightarrow> c_open c > 0 \<and> c_high c > 0 \<and> c_low c > 0 \<and> c_close c > 0"

definition push_h1 :: "price_event \<Rightarrow> fx_new \<Rightarrow> fx_new" where
  "push_h1 e st =
     (if \<not> is_valid_candle (e_candle e) then st
      else st\<lparr>fx_h1 := push_history FX_HISTORY_LEN (e_pair e) (e_candle e) (fx_h1 st)\<rparr>)"

definition m15_bucket :: "datetime \<Rightarrow> int" where
  "m15_bucket ts = timestamp ts - timestamp ts mod M15_SECONDS"

text \<open>The candle of a sorted pending list of three.\<close>

definition m15_candle :: "int \<Rightarrow> candle list \<Rightarrow> candle" where
  "m15_candle bucket pending =
     \<lparr>c_pair = c_pair (hd pending), c_exchange = c_exchange (hd pending), c_timeframe = ''M15'',
      c_open = c_open (hd pending), c_high = the (maximum (map c_high pending)),
      c_low = the (minimum (map c_low pending)), c_close = c_close (last pending),
      c_volume = Some (sum_list (map (\<lambda>c. unwrap_or (c_volume c) 0) pending)),
      c_best_bid = c_best_bid (last pending), c_best_ask = c_best_ask (last pending),
      c_timestamp = secs bucket\<rparr>"

definition aggregate_m15 :: "price_event \<Rightarrow> fx_new \<Rightarrow> candle option \<times> fx_new" where
  "aggregate_m15 e st =
     (let bucket = m15_bucket (c_timestamp (e_candle e));
          pending0 = history_of (fx_m5_pending st) (e_pair e);
          pending = (if pending0 \<noteq> [] \<and> m15_bucket (c_timestamp (hd pending0)) \<noteq> bucket
                     then [] else pending0);
          store = (\<lambda>p. st\<lparr>fx_m5_pending := (fx_m5_pending st)(e_pair e \<mapsto> p)\<rparr>)
      in if c_timestamp (e_candle e) \<in> c_timestamp ` set pending then (None, store pending)
         else
           let p = sort_key c_timestamp (pending @ [e_candle e]) in
           if length p \<noteq> 3 then (None, store p)
           else (Some (m15_candle bucket p), store []))"

definition h1_direction :: "rounding \<Rightarrow> fx_new \<Rightarrow> pair \<Rightarrow> direction option result" where
  "h1_direction rnd st p =
     bindO (Inr (fx_h1 st p)) (\<lambda>h.
     bindO (sma rnd (closes h) 20) (\<lambda>fast.
     bindO (sma rnd (closes h) 50) (\<lambda>slow.
     Inr (if fast > slow then Some Long else if fast < slow then Some Short else None))))"

definition allocation_for :: "rounding \<Rightarrow> decimal \<Rightarrow> decimal result" where
  "allocation_for rnd stop_loss_pct =
     bindR (ddiv rnd (1 / 100) (dmul rnd 10 stop_loss_pct)) (\<lambda>x. Inr (min x 1))"

definition m15_end :: "candle \<Rightarrow> datetime" where "m15_end c = c_timestamp c + secs (15 * 60)"

definition reached_one_r :: "rounding \<Rightarrow> trade \<Rightarrow> candle list \<Rightarrow> candle \<Rightarrow> bool" where
  "reached_one_r rnd t history current =
     (let one_r = (case t_direction t of
            Long \<Rightarrow> dsub rnd (t_entry_price t) (t_stop_loss t)
          | Short \<Rightarrow> dsub rnd (t_stop_loss t) (t_entry_price t))
      in if one_r \<le> 0 then False
      else
        let target = (case t_direction t of
              Long \<Rightarrow> dadd rnd (t_entry_price t) one_r
            | Short \<Rightarrow> dsub rnd (t_entry_price t) one_r)
        in \<exists>c \<in> set (filter (\<lambda>c. m15_end c > t_entry_at t) history @ [current]).
             (case t_direction t of Long \<Rightarrow> c_high c \<ge> target | Short \<Rightarrow> c_low c \<le> target))"

definition fx_baseline :: "rounding \<Rightarrow> candle list \<Rightarrow> (decimal \<times> decimal) result" where
  "fx_baseline rnd history =
     (let prior_end = length history - 1; start = prior_end - (20 + 14);
          part = (\<lambda>xs i. take (i - start) (drop start xs))
      in foldR (\<lambda>(sum, n) i.
           bindR (atr rnd (part (highs history) i) (part (lows history) i) (part (closes history) i) 14) (\<lambda>v.
           case v of None \<Rightarrow> Inr (sum, n) | Some a \<Rightarrow> Inr (dadd rnd sum a, dadd rnd n 1)))
         (0, 0) [start + 14 + 1..<Suc prior_end])"

definition fx_decide :: "rounding \<Rightarrow> fx_new \<Rightarrow> price_event \<Rightarrow> candle \<Rightarrow> signal option result" where
  "fx_decide rnd st e c =
     (let history = history_of (fx_m15 st) (e_pair e) in
      if length history < 16 + 20 + 14 + 1 then Inr None
      else
        bindO (Inr (donchian_channel (highs history) (lows history) 16 False)) (\<lambda>(channel_low, channel_high).
        bindO (atr rnd (highs history) (lows history) (closes history) 14) (\<lambda>atr_val.
        bindR (fx_baseline rnd history) (\<lambda>(atr_sum, atr_count).
        if atr_count = 0 then Inr None
        else
          bindR (ddiv rnd atr_sum atr_count) (\<lambda>baseline.
          if atr_val \<le> baseline then Inr None
          else
            bindO (h1_direction rnd st (e_pair e)) (\<lambda>d.
            let entry = c_close c in
            if \<not> (case d of Long \<Rightarrow> entry > channel_high | Short \<Rightarrow> entry < channel_low) then Inr None
            else
              bindR (stop_distance rnd atr_val 2 entry (2 / 100)) (\<lambda>stop_loss_pct.
              if stop_loss_pct \<le> 0 then Inr None
              else
                bindR (allocation_for rnd stop_loss_pct) (\<lambda>allocation_pct.
                Inr (Some ((make_signal (fx_name st) e d stop_loss_pct 0x3FE4CCCCCCCCCCCD allocation_pct None)
                       \<lparr>s_timestamp := c_timestamp c\<rparr>))))))))))"

definition fx_push_m15 :: "price_event \<Rightarrow> candle \<Rightarrow> fx_new \<Rightarrow> fx_new" where
  "fx_push_m15 e c st = st\<lparr>fx_m15 := push_history FX_HISTORY_LEN (e_pair e) c (fx_m15 st)\<rparr>"

definition fx_on_price :: "rounding \<Rightarrow> fx_new \<Rightarrow> price_event \<Rightarrow> signal option result \<times> fx_new" where
  "fx_on_price rnd st e =
     (if \<not> fx_accepts st e then (Inr None, st)
      else if c_timeframe (e_candle e) = ''H1'' then (Inr None, push_h1 e st)
      else if c_timeframe (e_candle e) \<noteq> ''M5'' then (Inr None, st)
      else if \<not> is_valid_candle (e_candle e) then (Inr None, st)
      else case aggregate_m15 e st of
        (None, st1) \<Rightarrow> (Inr None, st1)
      | (Some c, st1) \<Rightarrow>
          if \<not> is_valid_candle c then (Inr None, st1)
          else let st2 = fx_push_m15 e c st1 in (fx_decide rnd st2 e c, st2))"

definition fx_warmup_step :: "fx_new \<Rightarrow> price_event \<Rightarrow> fx_new" where
  "fx_warmup_step st e =
     (if \<not> fx_accepts st e then st
      else if c_timeframe (e_candle e) = ''H1'' then push_h1 e st
      else if c_timeframe (e_candle e) = ''M5'' \<and> \<not> is_valid_candle (e_candle e) then st
      else if c_timeframe (e_candle e) = ''M5''
      then (case aggregate_m15 e st of
              (None, st1) \<Rightarrow> st1
            | (Some c, st1) \<Rightarrow> if is_valid_candle c then fx_push_m15 e c st1 else st1)
      else st)"

definition fx_warmup :: "price_event list \<Rightarrow> fx_new \<Rightarrow> fx_new" where
  "fx_warmup events st = foldl fx_warmup_step st events"

definition fx_on_open_positions ::
  "rounding \<Rightarrow> fx_new \<Rightarrow> trade list \<Rightarrow> price_event \<Rightarrow> exit_signal list" where
  "fx_on_open_positions rnd st positions e =
     (if c_timeframe (e_candle e) \<noteq> ''M5'' \<or> \<not> fx_accepts st e then []
      else if \<not> is_valid_candle (e_candle e) then []
      else case fx_m15 st (e_pair e) of
        None \<Rightarrow> []
      | Some history \<Rightarrow>
          let ended = filter (\<lambda>c. m15_end c \<le> c_timestamp (e_candle e)) history in
          (case donchian_channel (highs ended) (lows ended) 8 True of
             None \<Rightarrow> []
           | Some (exit_low, exit_high) \<Rightarrow>
               let close = c_close (e_candle e) in
               map (\<lambda>p. make_exit p TrailingChannel close)
                 (filter (\<lambda>p. case t_direction p of Long \<Rightarrow> close < exit_low | Short \<Rightarrow> close > exit_high)
                   (filter (\<lambda>p. reached_one_r rnd p history (e_candle e))
                     (filter (\<lambda>p. t_strategy_name p = fx_name st \<and> t_pair p = e_pair e) positions)))))"

end
