(* ===== verification/Strategy_Engine.thy ===== *)
theory Strategy_Engine
  imports Squeeze_Fx
begin

text \<open>
  The strategy engine of \<open>strategy/src/engine.rs\<close> and the contract between it and the
  strategies. The methods of \<open>dyn Strategy\<close> are a record of operations; the engine is written
  for any such record, the locale \<open>strategy\<close> states what it relies on, and every strategy of
  the crate, and their sum, interprets it. \<open>on_macro_update\<close> has an empty body in all of them.
\<close>

section \<open>The engine\<close>

record 'st strategy_ops =
  op_name :: "'st \<Rightarrow> string"
  op_on_price :: "'st \<Rightarrow> price_event \<Rightarrow> signal option result \<times> 'st"
  op_warmup :: "price_event list \<Rightarrow> 'st \<Rightarrow> 'st result"
  op_on_open_positions :: "'st \<Rightarrow> trade list \<Rightarrow> price_event \<Rightarrow> exit_signal list result"

record 'st strategy_slot =
  slot_strategy :: 'st
  slot_mode :: string

record signal_event =
  se_signal :: signal
  se_indicators :: "string \<rightharpoonup> decimal"

text \<open>\<open>eng_sent\<close> are the send calls on the signal channel; a closed channel drops them.\<close>

record 'st strategy_engine =
  eng_slots :: "'st strategy_slot list"
  eng_sent :: "signal_event list"

definition engine_new :: "'st strategy_engine" where
  "engine_new = \<lparr>eng_slots = [], eng_sent = []\<rparr>"

definition add_strategy :: "'st \<Rightarrow> string \<Rightarrow> 'st strategy_engine \<Rightarrow> 'st strategy_engine" where
  "add_strategy st mode eng = eng\<lparr>eng_slots := eng_slots eng @ [\<lparr>slot_strategy = st, slot_mode = mode\<rparr>]\<rparr>"

definition registered_names :: "'st strategy_ops \<Rightarrow> 'st strategy_engine \<Rightarrow> string list" where
  "registered_names ops eng = map (\<lambda>s. op_name ops (slot_strategy s)) (eng_slots eng)"

definition engine_warmup ::
  "'st strategy_ops \<Rightarrow> price_event list \<Rightarrow> 'st strategy_engine \<Rightarrow> 'st strategy_engine result" where
  "engine_warmup ops events eng =
     bindR (collectR (\<lambda>s. bindR (op_warmup ops events (slot_strategy s))
              (\<lambda>st. Inr (s\<lparr>slot_strategy := st\<rparr>))) (eng_slots eng)) (\<lambda>slots.
     Inr (eng\<lparr>eng_slots := slots\<rparr>))"

definition dispatch_signal ::
  "'st strategy_ops \<Rightarrow> price_event \<Rightarrow> 'st \<Rightarrow> (signal_event list \<times> 'st) result" where
  "dispatch_signal ops e st =
     (case op_on_price ops st e of (r, st') \<Rightarrow>
        bindR r (\<lambda>sig.
        Inr (case sig of None \<Rightarrow> [] | Some s \<Rightarrow> [\<lparr>se_signal = s, se_indicators = e_indicators e\<rparr>], st')))"

fun on_price_slots ::
  "'st strategy_ops \<Rightarrow> price_event \<Rightarrow> 'st strategy_slot list \<Rightarrow> ('st strategy_slot list \<times> signal_event list) result" where
  "on_price_slots ops e [] = Inr ([], [])"
| "on_price_slots ops e (s # slots) =
     (if slot_mode s = ''disabled''
      then bindR (on_price_slots ops e slots) (\<lambda>(slots', sent). Inr (s # slots', sent))
      else
        bindR (dispatch_signal ops e (slot_strategy s)) (\<lambda>(sig, st).
        bindR (on_price_slots ops e slots) (\<lambda>(slots', sent).
        Inr (s\<lparr>slot_strategy := st\<rparr> # slots', sig @ sent))))"

definition engine_on_price ::
  "'st strategy_ops \<Rightarrow> price_event \<Rightarrow> 'st strategy_engine \<Rightarrow> 'st strategy_engine result" where
  "engine_on_price ops e eng =
     bindR (on_price_slots ops e (eng_slots eng)) (\<lambda>(slots, sent).
     Inr \<lparr>eng_slots = slots, eng_sent = eng_sent eng @ sent\<rparr>)"

fun positions_slots ::
  "'st strategy_ops \<Rightarrow> price_event \<Rightarrow> (string \<rightharpoonup> trade list) \<Rightarrow> 'st strategy_slot list
    \<Rightarrow> ('st strategy_slot list \<times> signal_event list \<times> exit_signal list) result" where
  "positions_slots ops e by_strategy [] = Inr ([], [], [])"
| "positions_slots ops e by_strategy (s # slots) =
     (if slot_mode s = ''disabled''
      then bindR (positions_slots ops e by_strategy slots) (\<lambda>(slots', sent, exits).
             Inr (s # slots', sent, exits))
      else
        bindR (dispatch_signal ops e (slot_strategy s)) (\<lambda>(sig, st).
        bindR (op_on_open_positions ops st (unwrap_or (by_strategy (op_name ops st)) []) e) (\<lambda>xs.
        bindR (positions_slots ops e by_strategy slots) (\<lambda>(slots', sent, exits).
        Inr (s\<lparr>slot_strategy := st\<rparr> # slots', sig @ sent, xs @ exits)))))"

definition on_price_with_positions ::
  "'st strategy_ops \<Rightarrow> price_event \<Rightarrow> (string \<rightharpoonup> trade list) \<Rightarrow> 'st strategy_engine
    \<Rightarrow> (exit_signal list \<times> 'st strategy_engine) result" where
  "on_price_with_positions ops e by_strategy eng =
     bindR (positions_slots ops e by_strategy (eng_slots eng)) (\<lambda>(slots, sent, exits).
     Inr (exits, \<lparr>eng_slots = slots, eng_sent = eng_sent eng @ sent\<rparr>))"

section \<open>The contract of a strategy\<close>

text \<open>What a signal and an exit request of the strategy \<open>name\<close> at the event \<open>e\<close> look like.\<close>

definition signal_ok :: "string \<Rightarrow> price_event \<Rightarrow> signal \<Rightarrow> bool" where
  "signal_ok name e sig \<longleftrightarrow> s_strategy_name sig = name \<and> s_pair sig = e_pair e
     \<and> 0 < s_stop_loss_pct sig \<and> s_stop_loss_pct sig \<le> 5 / 100 \<and> s_allocation_pct sig \<le> 1
     \<and> s_take_profit_pct sig = None"

definition exit_ok :: "string \<Rightarrow> price_event \<Rightarrow> trade \<Rightarrow> exit_signal \<Rightarrow> bool" where
  "exit_ok name e p x \<longleftrightarrow> x_trade_id x = t_id p \<and> t_strategy_name p = name \<and> t_pair p = e_pair e
     \<and> x_close_price x = c_close (e_candle e) \<and> to_exit_reason (x_reason x) \<noteq> Manual"

locale strategy =
  fixes ops :: "'st strategy_ops" and inv :: "'st \<Rightarrow> bool"
  assumes name_kept: "op_name ops (snd (op_on_price ops st e)) = op_name ops st"
    and name_warm: "op_warmup ops es st = Inr st' \<Longrightarrow> op_name ops st' = op_name ops st"
    and inv_kept: "inv st \<Longrightarrow> inv (snd (op_on_price ops st e))"
    and inv_warm: "inv st \<Longrightarrow> op_warmup ops es st = Inr st' \<Longrightarrow> inv st'"
    and signals: "fst (op_on_price ops st e) = Inr (Some sig) \<Longrightarrow> signal_ok (op_name ops st) e sig"
    and exits: "op_on_open_positions ops st ps e = Inr xs \<Longrightarrow> x \<in> set xs \<Longrightarrow>
      \<exists>p \<in> set ps. exit_ok (op_name ops st) e p x"
begin

abbreviation slot_name :: "'st strategy_slot \<Rightarrow> string" where
  "slot_name s \<equiv> op_name ops (slot_strategy s)"

lemma dispatch_result:
  assumes "dispatch_signal ops e st = Inr (sig, st')"
  shows "op_name ops st' = op_name ops st" and "inv st \<Longrightarrow> inv st'"
    and "\<forall>s \<in> set sig. signal_ok (op_name ops st) e (se_signal s) \<and> se_indicators s = e_indicators e"
proof -
  obtain r where r: "op_on_price ops st e = (Inr r, st')"
    and sig: "sig = (case r of None \<Rightarrow> [] | Some s \<Rightarrow> [\<lparr>se_signal = s, se_indicators = e_indicators e\<rparr>])"
    using assms by (auto simp: dispatch_signal_def bindR_eq_Inr split: prod.splits)
  show "op_name ops st' = op_name ops st" "inv st \<Longrightarrow> inv st'"
    using name_kept [of st e] inv_kept [of st e] r by simp_all
  show "\<forall>s \<in> set sig. signal_ok (op_name ops st) e (se_signal s) \<and> se_indicators s = e_indicators e"
    using signals [of st e] r sig by (simp split: option.splits)
qed

lemma positions_slots_result:
  assumes "positions_slots ops e by_strategy slots = Inr (slots', sent, exits)"
  shows "map slot_name slots' = map slot_name slots" and "map slot_mode slots' = map slot_mode slots"
    and "\<forall>s \<in> set slots. inv (slot_strategy s) \<Longrightarrow> \<forall>s \<in> set slots'. inv (slot_strategy s)"
    and "\<forall>m \<in> set sent. \<exists>s \<in> set slots. slot_mode s \<noteq> ''disabled'' \<and> signal_ok (slot_name s) e (se_signal m)"
    and "\<forall>x \<in> set exits. \<exists>s \<in> set slots. slot_mode s \<noteq> ''disabled'' \<and>
           (\<exists>p \<in> set (unwrap_or (by_strategy (slot_name s)) []). exit_ok (slot_name s) e p x)"
  using assms
proof (induction slots arbitrary: slots' sent exits)
  case (Cons s slots)
  {
    case 1
    then show ?case using Cons.IH(1) dispatch_result(1) by (fastforce simp: bindR_eq_Inr split: if_splits)
  next
    case 2
    then show ?case using Cons.IH(2) by (fastforce simp: bindR_eq_Inr split: if_splits)
  next
    case 3
    then show ?case using Cons.IH(3) dispatch_result(2) by (fastforce simp: bindR_eq_Inr split: if_splits)
  next
    case 4
    then show ?case using Cons.IH(4) dispatch_result(3) by (fastforce simp: bindR_eq_Inr split: if_splits)
  next
    case 5
    show ?case
    proof (cases "slot_mode s = ''disabled''")
      case True
      then show ?thesis using 5 Cons.IH(5) by (fastforce simp: bindR_eq_Inr)
    next
      case False
      then obtain sig st xs slots1 sent1 exits1 where d: "dispatch_signal ops e (slot_strategy s) = Inr (sig, st)"
        and xs: "op_on_open_positions ops st (unwrap_or (by_strategy (op_name ops st)) []) e = Inr xs"
        and rest: "positions_slots ops e by_strategy slots = Inr (slots1, sent1, exits1)"
        and ex: "exits = xs @ exits1"
        using 5 by (auto simp: bindR_eq_Inr)
      have "\<forall>x \<in> set xs. \<exists>p \<in> set (unwrap_or (by_strategy (slot_name s)) []). exit_ok (slot_name s) e p x"
        using exits [OF xs] dispatch_result(1) [OF d] by simp
      then show ?thesis using Cons.IH(5) [OF rest] False ex by auto
    qed
  }
qed auto

lemma on_price_slots_result:
  assumes "on_price_slots ops e slots = Inr (slots', sent)"
  shows "map slot_name slots' = map slot_name slots \<and> map slot_mode slots' = map slot_mode slots
    \<and> ((\<forall>s \<in> set slots. inv (slot_strategy s)) \<longrightarrow> (\<forall>s \<in> set slots'. inv (slot_strategy s)))
    \<and> (\<forall>m \<in> set sent. \<exists>s \<in> set slots. slot_mode s \<noteq> ''disabled'' \<and> signal_ok (slot_name s) e (se_signal m))"
  using assms
proof (induction slots arbitrary: slots' sent)
  case (Cons s slots)
  show ?case
  proof (cases "slot_mode s = ''disabled''")
    case True
    then show ?thesis using Cons by (fastforce simp: bindR_eq_Inr)
  next
    case False
    then obtain sig st slots1 sent1 where d: "dispatch_signal ops e (slot_strategy s) = Inr (sig, st)"
      and rest: "on_price_slots ops e slots = Inr (slots1, sent1)"
      and eq: "slots' = s\<lparr>slot_strategy := st\<rparr> # slots1" "sent = sig @ sent1"
      using Cons.prems by (auto simp: bindR_eq_Inr)
    show ?thesis using Cons.IH [OF rest] dispatch_result [OF d] False by (auto simp: eq)
  qed
qed auto

end

end
