(* ===== verification/Strategy_Contracts.thy ===== *)
theory Strategy_Contracts
  imports Strategy_Engine
begin

text \<open>
  Every strategy satisfies the contract of the engine; \<open>any_strategy\<close> is the sum of them that
  the running engine holds. Histories are bounded, and the M5 candles that wait for
  aggregation are at most two of one M15 period, in the order of their times.
\<close>

section \<open>Operation records\<close>

definition donchian_ops :: "rounding \<Rightarrow> donchian strategy_ops" where
  "donchian_ops rnd = \<lparr>op_name = dt_name, op_on_price = donchian_on_price rnd,
     op_warmup = (\<lambda>es st. Inr (donchian_warmup es st)),
     op_on_open_positions = (\<lambda>st ps e. Inr (donchian_on_open_positions rnd st ps e))\<rparr>"

definition evolve_ops :: "rounding \<Rightarrow> donchian_evolve strategy_ops" where
  "evolve_ops rnd = \<lparr>op_name = de_name, op_on_price = donchian_evolve_on_price rnd,
     op_warmup = (\<lambda>es st. Inr (donchian_evolve_warmup es st)),
     op_on_open_positions = (\<lambda>st ps e. Inr (donchian_evolve_on_open_positions rnd st ps e))\<rparr>"

definition bb_ops :: "rounding \<Rightarrow> (decimal \<Rightarrow> decimal option) \<Rightarrow> bb_mean_revert strategy_ops" where
  "bb_ops rnd sqrt64 = \<lparr>op_name = bb_name, op_on_price = bb_on_price rnd sqrt64,
     op_warmup = (\<lambda>es st. Inr (bb_warmup es st)), op_on_open_positions = bb_on_open_positions rnd\<rparr>"

definition squeeze_ops :: "rounding \<Rightarrow> (decimal \<Rightarrow> decimal option) \<Rightarrow> squeeze strategy_ops" where
  "squeeze_ops rnd sqrt64 = \<lparr>op_name = sq_name, op_on_price = squeeze_on_price rnd sqrt64,
     op_warmup = squeeze_warmup rnd sqrt64, op_on_open_positions = squeeze_on_open_positions rnd\<rparr>"

definition fx_ops :: "rounding \<Rightarrow> fx_new strategy_ops" where
  "fx_ops rnd = \<lparr>op_name = fx_name, op_on_price = fx_on_price rnd,
     op_warmup = (\<lambda>es st. Inr (fx_warmup es st)),
     op_on_open_positions = (\<lambda>st ps e. Inr (fx_on_open_positions rnd st ps e))\<rparr>"

lemmas ops_defs = donchian_ops_def evolve_ops_def bb_ops_def squeeze_ops_def fx_ops_def

section \<open>Bounded histories\<close>

definition bounded :: "nat \<Rightarrow> histories \<Rightarrow> bool" where
  "bounded n hs \<longleftrightarrow> (\<forall>k h. hs k = Some h \<longrightarrow> length h \<le> n)"

lemma bounded_empty [simp]: "bounded n Map.empty"
  by (simp add: bounded_def)

lemma bounded_push [simp]: "bounded n hs \<Longrightarrow> bounded n (push_history n k c hs)"
  by (auto simp: bounded_def push_history_def push_candle_def)

section \<open>Signals\<close>

lemma stop_distance_le: "stop_distance rnd a m entry cap = Inr x \<Longrightarrow> x \<le> cap"
  by (auto simp: stop_distance_def bindR_eq_Inr)

lemma make_signal_ok:
  "signal_ok name e (make_signal name e d sl conf alloc hold) \<longleftrightarrow> 0 < sl \<and> sl \<le> 5 / 100 \<and> alloc \<le> 1"
  by (simp add: signal_ok_def make_signal_def)

lemma make_exit_ok:
  "t_strategy_name p = name \<Longrightarrow> t_pair p = e_pair e \<Longrightarrow> to_exit_reason r \<noteq> Manual \<Longrightarrow>
   exit_ok name e p (make_exit p r (c_close (e_candle e)))"
  by (simp add: exit_ok_def make_exit_def)

lemma stop_capped: "stop_distance rnd a m entry cap = Inr x \<Longrightarrow> \<not> lacks_tradable_volatility x \<Longrightarrow> cap \<le> 5 / 100
   \<Longrightarrow> 0 < x \<and> x \<le> 5 / 100"
  using stop_distance_le by (force simp: lacks_tradable_volatility_def)

lemma donchian_decide_ok:
  "donchian_decide rnd name h e = Inr (Some sig) \<Longrightarrow> signal_ok name e sig"
  using stop_capped
  by (fastforce simp: donchian_decide_def bindO_eq_Some bindR_eq_Inr Let_def make_signal_ok split: if_splits)

lemma evolve_decide_ok:
  "donchian_evolve_decide rnd st h e = Inr (Some sig) \<Longrightarrow> signal_ok (de_name st) e sig"
  using stop_capped
  by (fastforce simp: donchian_evolve_decide_def bindO_eq_Some bindR_eq_Inr Let_def make_signal_ok split: if_splits)

lemma bb_decide_ok:
  "bb_decide rnd sqrt64 name h e = Inr (Some sig) \<Longrightarrow> signal_ok name e sig"
  using stop_capped
  by (fastforce simp: bb_decide_def bindO_eq_Some bindR_eq_Inr Let_def make_signal_ok split: if_splits)

lemma squeeze_signal_ok:
  "squeeze_signal rnd name h e = Inr (Some sig) \<Longrightarrow> signal_ok name e sig"
  using stop_capped
  by (fastforce simp: squeeze_signal_def bindO_eq_Some bindR_eq_Inr Let_def make_signal_ok split: if_splits)

lemma fx_decide_ok:
  assumes "fx_decide rnd st e c = Inr (Some sig)"
  shows "signal_ok (fx_name st) e sig"
proof -
  obtain a d sl alloc where sl: "stop_distance rnd a 2 (c_close c) (2 / 100) = Inr sl" "\<not> sl \<le> 0"
    and alloc: "allocation_for rnd sl = Inr alloc"
    and sig: "sig = (make_signal (fx_name st) e d sl 0x3FE4CCCCCCCCCCCD alloc None)\<lparr>s_timestamp := c_timestamp c\<rparr>"
    using assms by (auto simp: fx_decide_def bindO_eq_Some bindR_eq_Inr Let_def split: if_splits)
  have "alloc \<le> 1" using alloc by (auto simp: allocation_for_def bindR_eq_Inr)
  then show ?thesis using sl stop_distance_le [OF sl(1)] by (simp add: sig signal_ok_def make_signal_def)
qed

section \<open>Exits\<close>

lemma map_filter_member: "x \<in> set (List.map_filter f ps) \<longleftrightarrow> (\<exists>p \<in> set ps. f p = Some x)"
  by (induction ps) (auto simp: List.map_filter_simps split: option.splits)

lemma trailing_exit_ok: "trailing_exit rnd name e lo hi p = Some x \<Longrightarrow> exit_ok name e p x"
  by (auto simp: trailing_exit_def Let_def intro!: make_exit_ok split: if_splits)

lemma mean_exit_ok: "mean_exit rnd name e m p = Some x \<Longrightarrow> exit_ok name e p x"
  by (auto simp: mean_exit_def Let_def intro!: make_exit_ok split: if_splits)

lemma exit_signal_ok: "exit_signal_for_position rnd e h hi lo off name p = Some x \<Longrightarrow> exit_ok name e p x"
  by (auto simp: exit_signal_for_position_def Let_def intro!: make_exit_ok split: if_splits)

section \<open>The Donchian strategies\<close>

lemma donchian_warmup_kept:
  "dt_name (donchian_warmup es st) = dt_name st \<and> (bounded 200 (dt_history st) \<longrightarrow> bounded 200 (dt_history (donchian_warmup es st)))"
  unfolding donchian_warmup_def
  by (induction es arbitrary: st) (auto simp: dt_push_candle_def)

interpretation donchian: strategy "donchian_ops rnd" "\<lambda>st. bounded 200 (dt_history st)" for rnd
proof
  fix st :: donchian and e sig
  assume "fst (op_on_price (donchian_ops rnd) st e) = Inr (Some sig)"
  then show "signal_ok (op_name (donchian_ops rnd) st) e sig"
    using donchian_decide_ok by (fastforce simp: ops_defs donchian_on_price_def dt_push_candle_def Let_def split: if_splits)
next
  fix st :: donchian and ps e xs x
  assume "op_on_open_positions (donchian_ops rnd) st ps e = Inr xs" "x \<in> set xs"
  then show "\<exists>p\<in>set ps. exit_ok (op_name (donchian_ops rnd) st) e p x"
    using trailing_exit_ok
    by (fastforce simp: ops_defs donchian_on_open_positions_def map_filter_member split: if_splits option.splits)
qed (auto simp: ops_defs donchian_on_price_def dt_push_candle_def donchian_warmup_kept Let_def)

lemma evolve_warmup_kept:
  "de_name (donchian_evolve_warmup es st) = de_name st \<and> (bounded 200 (de_history st) \<longrightarrow> bounded 200 (de_history (donchian_evolve_warmup es st)))"
  unfolding donchian_evolve_warmup_def
  by (induction es arbitrary: st) (auto simp: de_push_candle_def)

interpretation evolve: strategy "evolve_ops rnd" "\<lambda>st. bounded 200 (de_history st)" for rnd
proof
  fix st :: donchian_evolve and e sig
  assume "fst (op_on_price (evolve_ops rnd) st e) = Inr (Some sig)"
  then show "signal_ok (op_name (evolve_ops rnd) st) e sig"
    using evolve_decide_ok by (fastforce simp: ops_defs donchian_evolve_on_price_def de_push_candle_def Let_def split: if_splits)
next
  fix st :: donchian_evolve and ps e xs x
  assume "op_on_open_positions (evolve_ops rnd) st ps e = Inr xs" "x \<in> set xs"
  then show "\<exists>p\<in>set ps. exit_ok (op_name (evolve_ops rnd) st) e p x"
    using trailing_exit_ok
    by (fastforce simp: ops_defs donchian_evolve_on_open_positions_def map_filter_member split: if_splits option.splits)
qed (auto simp: ops_defs donchian_evolve_on_price_def de_push_candle_def evolve_warmup_kept Let_def)

section \<open>Mean reversion and squeeze\<close>

lemma bb_warmup_kept:
  "bb_name (bb_warmup es st) = bb_name st \<and> (bounded 200 (bb_history st) \<longrightarrow> bounded 200 (bb_history (bb_warmup es st)))"
  unfolding bb_warmup_def
  by (induction es arbitrary: st) (auto simp: bb_push_candle_def)

interpretation bb: strategy "bb_ops rnd sqrt64" "\<lambda>st. bounded 200 (bb_history st)" for rnd sqrt64
proof
  fix st :: bb_mean_revert and e sig
  assume "fst (op_on_price (bb_ops rnd sqrt64) st e) = Inr (Some sig)"
  then show "signal_ok (op_name (bb_ops rnd sqrt64) st) e sig"
    using bb_decide_ok by (fastforce simp: ops_defs bb_on_price_def bb_push_candle_def Let_def split: if_splits)
next
  fix st :: bb_mean_revert and ps e xs x
  assume "op_on_open_positions (bb_ops rnd sqrt64) st ps e = Inr xs" "x \<in> set xs"
  then show "\<exists>p\<in>set ps. exit_ok (op_name (bb_ops rnd sqrt64) st) e p x"
    using mean_exit_ok
    by (fastforce simp: ops_defs bb_on_open_positions_def map_filter_member bindR_eq_Inr split: if_splits option.splits)
qed (auto simp: ops_defs bb_on_price_def bb_push_candle_def bb_warmup_kept Let_def)

lemma squeeze_step_kept:
  "squeeze_warmup_step rnd sqrt64 st e = Inr st' \<Longrightarrow>
   sq_name st' = sq_name st \<and> (bounded 200 (sq_history st) \<longrightarrow> bounded 200 (sq_history st'))"
proof (cases "c_timeframe (e_candle e) \<noteq> ''H1'' \<or> e_pair e \<notin> set (sq_pairs st)")
  case False
  define st1 where "st1 = sq_push_candle (e_pair e) (e_candle e) st"
  have st1: "sq_name st1 = sq_name st" "bounded 200 (sq_history st) \<Longrightarrow> bounded 200 (sq_history st1)"
    by (simp_all add: st1_def sq_push_candle_def)
  assume "squeeze_warmup_step rnd sqrt64 st e = Inr st'"
  then have "st' = st1 \<or> (\<exists>c. st' = st1\<lparr>sq_count := c\<rparr>)"
    using False unfolding squeeze_warmup_step_def Let_def st1_def [symmetric]
    by (auto simp: bindR_eq_Inr split: option.splits)
  then show ?thesis using st1 by auto
qed (auto simp: squeeze_warmup_step_def split: if_splits)

lemma squeeze_warmup_kept:
  "squeeze_warmup rnd sqrt64 es st = Inr st' \<Longrightarrow>
   sq_name st' = sq_name st \<and> (bounded 200 (sq_history st) \<longrightarrow> bounded 200 (sq_history st'))"
  unfolding squeeze_warmup_def
proof (induction es arbitrary: st)
  case (Cons e es)
  then show ?case using squeeze_step_kept by (fastforce simp: bindR_eq_Inr)
qed simp

lemma squeeze_on_price_kept:
  "sq_name (snd (squeeze_on_price rnd sqrt64 st e)) = sq_name st
   \<and> (bounded 200 (sq_history st) \<longrightarrow> bounded 200 (sq_history (snd (squeeze_on_price rnd sqrt64 st e))))"
proof -
  define st1 where "st1 = sq_push_candle (e_pair e) (e_candle e) st"
  define h where "h = history_of (sq_history st1) (e_pair e)"
  have st1: "sq_name st1 = sq_name st" "bounded 200 (sq_history st) \<Longrightarrow> bounded 200 (sq_history st1)"
    by (simp_all add: st1_def sq_push_candle_def)
  have "snd (squeeze_on_price rnd sqrt64 st e) = (if c_timeframe (e_candle e) \<noteq> ''H1'' then st
      else if e_pair e \<notin> set (sq_pairs st) then st
      else if length h < squeeze_min_history then st1
      else case is_in_squeeze rnd sqrt64 h of
        Inr (Some in_squeeze) \<Rightarrow> st1\<lparr>sq_count := record_squeeze_bar (e_pair e) in_squeeze (sq_count st1)\<rparr>
      | _ \<Rightarrow> st1)"
    unfolding squeeze_on_price_def Let_def h_def st1_def by (simp split: sum.split option.split)
  then show ?thesis using st1 by (simp split: sum.split option.split)
qed

interpretation squeeze: strategy "squeeze_ops rnd sqrt64" "\<lambda>st. bounded 200 (sq_history st)" for rnd sqrt64
proof
  fix st :: squeeze and e sig
  assume "fst (op_on_price (squeeze_ops rnd sqrt64) st e) = Inr (Some sig)"
  then show "signal_ok (op_name (squeeze_ops rnd sqrt64) st) e sig"
    using squeeze_signal_ok
    by (fastforce simp: ops_defs squeeze_on_price_def sq_push_candle_def Let_def split: if_splits sum.splits option.splits)
next
  fix st :: squeeze and ps e xs x
  assume "op_on_open_positions (squeeze_ops rnd sqrt64) st ps e = Inr xs" "x \<in> set xs"
  then show "\<exists>p\<in>set ps. exit_ok (op_name (squeeze_ops rnd sqrt64) st) e p x"
    using exit_signal_ok
    by (fastforce simp: ops_defs squeeze_on_open_positions_def map_filter_member bindR_eq_Inr split: option.splits)
qed (auto simp: ops_defs squeeze_warmup_kept squeeze_on_price_kept)

section \<open>The M15 breakout\<close>

definition waiting_ok :: "candle list \<Rightarrow> bool" where
  "waiting_ok h \<longleftrightarrow> length h \<le> 2 \<and> sorted (map c_timestamp h) \<and> distinct (map c_timestamp h)
     \<and> (\<forall>c \<in> set h. m15_bucket (c_timestamp c) = m15_bucket (c_timestamp (hd h)))"

definition pending_ok :: "histories \<Rightarrow> bool" where
  "pending_ok hs \<longleftrightarrow> (\<forall>k h. hs k = Some h \<longrightarrow> waiting_ok h)"

lemma pending_ok_upd: "pending_ok hs \<Longrightarrow> waiting_ok h \<Longrightarrow> pending_ok (hs(k \<mapsto> h))"
  by (simp add: pending_ok_def)

lemma pending_ok_history: "pending_ok hs \<Longrightarrow> waiting_ok (history_of hs k)"
  by (auto simp: pending_ok_def history_of_def waiting_ok_def split: option.split)

lemma waiting_okI:
  "length h \<le> 2 \<Longrightarrow> sorted (map c_timestamp h) \<Longrightarrow> distinct (map c_timestamp h) \<Longrightarrow>
   (\<forall>c \<in> set h. m15_bucket (c_timestamp c) = b) \<Longrightarrow> waiting_ok h"
  by (cases h) (auto simp: waiting_ok_def)

definition fx_inv :: "fx_new \<Rightarrow> bool" where
  "fx_inv st \<longleftrightarrow> bounded FX_HISTORY_LEN (fx_m15 st) \<and> bounded FX_HISTORY_LEN (fx_h1 st) \<and> pending_ok (fx_m5_pending st)"

text \<open>The list that waits after one more candle of the period, and the candle it completes.\<close>

lemma aggregate_m15_cases:
  assumes "pending_ok (fx_m5_pending st)" and "aggregate_m15 e st = (r, st')"
  shows "pending_ok (fx_m5_pending st')" and "fx_name st' = fx_name st" and "fx_pairs st' = fx_pairs st"
    and "fx_m15 st' = fx_m15 st" and "fx_h1 st' = fx_h1 st"
    and "\<And>c. r = Some c \<Longrightarrow> \<exists>p. length p = 3 \<and> sorted (map c_timestamp p) \<and> distinct (map c_timestamp p)
      \<and> (\<forall>d \<in> set p. m15_bucket (c_timestamp d) = m15_bucket (c_timestamp (e_candle e)))
      \<and> e_candle e \<in> set p \<and> c = m15_candle (m15_bucket (c_timestamp (e_candle e))) p"
proof -
  let ?c = "e_candle e"
  define b where "b = m15_bucket (c_timestamp (e_candle e))"
  let ?h0 = "history_of (fx_m5_pending st) (e_pair e)"
  define h where "h = (if ?h0 \<noteq> [] \<and> m15_bucket (c_timestamp (hd ?h0)) \<noteq> b then [] else ?h0)"
  define p where "p = sort_key c_timestamp (h @ [?c])"
  have h0: "length ?h0 \<le> 2 \<and> sorted (map c_timestamp ?h0) \<and> distinct (map c_timestamp ?h0)
      \<and> (\<forall>c \<in> set ?h0. m15_bucket (c_timestamp c) = m15_bucket (c_timestamp (hd ?h0)))"
    using pending_ok_history [OF assms(1), of "e_pair e"] unfolding waiting_ok_def .
  have h: "length h \<le> 2" "sorted (map c_timestamp h)" "distinct (map c_timestamp h)"
    "\<forall>c \<in> set h. m15_bucket (c_timestamp c) = b"
  proof -
    have "h = [] \<or> (h = ?h0 \<and> m15_bucket (c_timestamp (hd ?h0)) = b)" by (auto simp: h_def)
    then show "length h \<le> 2" "sorted (map c_timestamp h)" "distinct (map c_timestamp h)"
      "\<forall>c \<in> set h. m15_bucket (c_timestamp c) = b"
      using h0 by (auto simp del: Ball_def)
  qed
  have run: "(r, st') = (if c_timestamp ?c \<in> c_timestamp ` set h
      then (None, st\<lparr>fx_m5_pending := (fx_m5_pending st)(e_pair e \<mapsto> h)\<rparr>)
      else if length p \<noteq> 3 then (None, st\<lparr>fx_m5_pending := (fx_m5_pending st)(e_pair e \<mapsto> p)\<rparr>)
      else (Some (m15_candle b p), st\<lparr>fx_m5_pending := (fx_m5_pending st)(e_pair e \<mapsto> [])\<rparr>))"
    unfolding assms(2) [symmetric] by (simp only: aggregate_m15_def Let_def h_def p_def b_def)
  have p: "length p = length h + 1" "sorted (map c_timestamp p)" "set p = insert ?c (set h)"
    by (simp_all add: p_def)
  have dist: "distinct (map c_timestamp p)" if "c_timestamp ?c \<notin> c_timestamp ` set h"
  proof -
    have "distinct (map c_timestamp (h @ [?c]))" using h(3) that by simp
    then show ?thesis unfolding p_def distinct_map distinct_sort set_sort .
  qed
  have bucket: "\<forall>c \<in> set p. m15_bucket (c_timestamp c) = b" using h(4) p(3) by (auto simp: b_def)
  have upd: "pending_ok ((fx_m5_pending st)(e_pair e \<mapsto> q))"
    if "length q \<le> 2" "sorted (map c_timestamp q)" "distinct (map c_timestamp q)"
      "\<forall>c \<in> set q. m15_bucket (c_timestamp c) = b" for q
    using pending_ok_upd [OF assms(1) waiting_okI [OF that]] .
  show "pending_ok (fx_m5_pending st')"
    using run upd [OF h] upd [OF _ p(2) dist bucket] upd [of "[]"] p(1) h(1) by (auto split: if_splits)
  show "fx_name st' = fx_name st" "fx_pairs st' = fx_pairs st" "fx_m15 st' = fx_m15 st" "fx_h1 st' = fx_h1 st"
    using run by (auto split: if_splits)
  show "\<exists>p. length p = 3 \<and> sorted (map c_timestamp p) \<and> distinct (map c_timestamp p)
      \<and> (\<forall>d \<in> set p. m15_bucket (c_timestamp d) = m15_bucket (c_timestamp ?c))
      \<and> ?c \<in> set p \<and> c = m15_candle (m15_bucket (c_timestamp ?c)) p"
    if "r = Some c" for c
    using run that p dist bucket unfolding b_def [symmetric]
    by (intro exI [of _ p]) (auto split: if_splits)
qed

lemma push_h1_kept: "fx_name (push_h1 e st) = fx_name st" "fx_inv st \<Longrightarrow> fx_inv (push_h1 e st)"
  by (auto simp: push_h1_def fx_inv_def)

lemma push_m15_kept: "fx_name (fx_push_m15 e c st) = fx_name st" "fx_inv st \<Longrightarrow> fx_inv (fx_push_m15 e c st)"
  by (auto simp: fx_push_m15_def fx_inv_def)

lemma aggregate_kept:
  "fx_name (snd (aggregate_m15 e st)) = fx_name st"
  "fx_inv st \<Longrightarrow> fx_inv (snd (aggregate_m15 e st))"
proof -
  show "fx_name (snd (aggregate_m15 e st)) = fx_name st"
    by (simp add: aggregate_m15_def Let_def)
  show "fx_inv (snd (aggregate_m15 e st))" if "fx_inv st"
    using aggregate_m15_cases [of st e "fst (aggregate_m15 e st)" "snd (aggregate_m15 e st)"] that
    by (simp add: fx_inv_def)
qed

lemma fx_on_price_kept:
  "fx_name (snd (fx_on_price rnd st e)) = fx_name st"
  "fx_inv st \<Longrightarrow> fx_inv (snd (fx_on_price rnd st e))"
  by (simp_all add: fx_on_price_def Let_def case_prod_beta push_h1_kept push_m15_kept aggregate_kept
      split: option.split)

lemma fx_warmup_step_kept:
  "fx_name (fx_warmup_step st e) = fx_name st"
  "fx_inv st \<Longrightarrow> fx_inv (fx_warmup_step st e)"
  by (simp_all add: fx_warmup_step_def case_prod_beta push_h1_kept push_m15_kept aggregate_kept
      split: option.split)

lemma fx_warmup_kept: "fx_name (fx_warmup es st) = fx_name st \<and> (fx_inv st \<longrightarrow> fx_inv (fx_warmup es st))"
  unfolding fx_warmup_def by (induction es arbitrary: st) (simp_all add: fx_warmup_step_kept)

lemma fx_signal_ok:
  assumes "fst (fx_on_price rnd st e) = Inr (Some sig)"
  shows "signal_ok (fx_name st) e sig"
proof -
  obtain c st1 where agg: "aggregate_m15 e st = (Some c, st1)"
    and d: "fx_decide rnd (fx_push_m15 e c st1) e c = Inr (Some sig)"
    using assms by (auto simp: fx_on_price_def Let_def split: if_splits prod.splits option.splits)
  show ?thesis using fx_decide_ok [OF d] aggregate_kept(1) [of e st] agg by (simp add: push_m15_kept)
qed

lemma fx_exits_ok: "x \<in> set (fx_on_open_positions rnd st ps e) \<Longrightarrow> \<exists>p \<in> set ps. exit_ok (fx_name st) e p x"
  by (force simp: fx_on_open_positions_def Let_def intro: make_exit_ok split: if_splits option.splits prod.splits)

interpretation fx: strategy "fx_ops rnd" fx_inv for rnd
  by unfold_locales (auto simp: ops_defs fx_on_price_kept fx_warmup_kept fx_signal_ok dest: fx_exits_ok)

end
