(* ===== verification/Strategy_Theorems.thy ===== *)
theory Strategy_Theorems
  imports Strategy_Contracts
begin

text \<open>
  The properties of the strategies and their engine: what the engine can send, the
  equivalence of the two Donchian strategies, and the M15 candles and risk of the FX strategy.
\<close>

section \<open>The strategies the engine holds\<close>

datatype any_strategy =
    BbMeanRevert bb_mean_revert | DonchianTrend donchian | DonchianEvolve donchian_evolve
  | SqueezeMomentum squeeze | FxNew fx_new

fun any_name :: "any_strategy \<Rightarrow> string" where
  "any_name (BbMeanRevert s) = bb_name s"
| "any_name (DonchianTrend s) = dt_name s"
| "any_name (DonchianEvolve s) = de_name s"
| "any_name (SqueezeMomentum s) = sq_name s"
| "any_name (FxNew s) = fx_name s"

fun any_on_price ::
  "rounding \<Rightarrow> (decimal \<Rightarrow> decimal option) \<Rightarrow> any_strategy \<Rightarrow> price_event \<Rightarrow> signal option result \<times> any_strategy" where
  "any_on_price rnd sqrt64 (BbMeanRevert s) e = map_prod id BbMeanRevert (bb_on_price rnd sqrt64 s e)"
| "any_on_price rnd sqrt64 (DonchianTrend s) e = map_prod id DonchianTrend (donchian_on_price rnd s e)"
| "any_on_price rnd sqrt64 (DonchianEvolve s) e = map_prod id DonchianEvolve (donchian_evolve_on_price rnd s e)"
| "any_on_price rnd sqrt64 (SqueezeMomentum s) e = map_prod id SqueezeMomentum (squeeze_on_price rnd sqrt64 s e)"
| "any_on_price rnd sqrt64 (FxNew s) e = map_prod id FxNew (fx_on_price rnd s e)"

fun any_warmup ::
  "rounding \<Rightarrow> (decimal \<Rightarrow> decimal option) \<Rightarrow> price_event list \<Rightarrow> any_strategy \<Rightarrow> any_strategy result" where
  "any_warmup rnd sqrt64 es (BbMeanRevert s) = Inr (BbMeanRevert (bb_warmup es s))"
| "any_warmup rnd sqrt64 es (DonchianTrend s) = Inr (DonchianTrend (donchian_warmup es s))"
| "any_warmup rnd sqrt64 es (DonchianEvolve s) = Inr (DonchianEvolve (donchian_evolve_warmup es s))"
| "any_warmup rnd sqrt64 es (SqueezeMomentum s) =
     bindR (squeeze_warmup rnd sqrt64 es s) (\<lambda>s'. Inr (SqueezeMomentum s'))"
| "any_warmup rnd sqrt64 es (FxNew s) = Inr (FxNew (fx_warmup es s))"

fun any_on_open_positions ::
  "rounding \<Rightarrow> any_strategy \<Rightarrow> trade list \<Rightarrow> price_event \<Rightarrow> exit_signal list result" where
  "any_on_open_positions rnd (BbMeanRevert s) ps e = bb_on_open_positions rnd s ps e"
| "any_on_open_positions rnd (DonchianTrend s) ps e = Inr (donchian_on_open_positions rnd s ps e)"
| "any_on_open_positions rnd (DonchianEvolve s) ps e = Inr (donchian_evolve_on_open_positions rnd s ps e)"
| "any_on_open_positions rnd (SqueezeMomentum s) ps e = squeeze_on_open_positions rnd s ps e"
| "any_on_open_positions rnd (FxNew s) ps e = Inr (fx_on_open_positions rnd s ps e)"

definition any_ops :: "rounding \<Rightarrow> (decimal \<Rightarrow> decimal option) \<Rightarrow> any_strategy strategy_ops" where
  "any_ops rnd sqrt64 = \<lparr>op_name = any_name, op_on_price = any_on_price rnd sqrt64,
     op_warmup = any_warmup rnd sqrt64, op_on_open_positions = any_on_open_positions rnd\<rparr>"

fun any_inv :: "any_strategy \<Rightarrow> bool" where
  "any_inv (BbMeanRevert s) = bounded 200 (bb_history s)"
| "any_inv (DonchianTrend s) = bounded 200 (dt_history s)"
| "any_inv (DonchianEvolve s) = bounded 200 (de_history s)"
| "any_inv (SqueezeMomentum s) = bounded 200 (sq_history s)"
| "any_inv (FxNew s) = fx_inv s"

lemmas any_simps = any_ops_def ops_defs

interpretation any: strategy "any_ops rnd sqrt64" any_inv for rnd sqrt64
proof
  fix st e show "op_name (any_ops rnd sqrt64) (snd (op_on_price (any_ops rnd sqrt64) st e)) = op_name (any_ops rnd sqrt64) st"
    using bb.name_kept donchian.name_kept evolve.name_kept squeeze.name_kept fx.name_kept
    by (cases st) (simp_all add: any_simps)
next
  fix es st st' assume "op_warmup (any_ops rnd sqrt64) es st = Inr st'"
  then show "op_name (any_ops rnd sqrt64) st' = op_name (any_ops rnd sqrt64) st"
    using bb.name_warm donchian.name_warm evolve.name_warm squeeze.name_warm fx.name_warm
    by (cases st) (auto simp: any_simps bindR_eq_Inr)
next
  fix st e assume "any_inv st"
  then show "any_inv (snd (op_on_price (any_ops rnd sqrt64) st e))"
    using bb.inv_kept donchian.inv_kept evolve.inv_kept squeeze.inv_kept fx.inv_kept
    by (cases st) (simp_all add: any_simps)
next
  fix st es st' assume "any_inv st" "op_warmup (any_ops rnd sqrt64) es st = Inr st'"
  then show "any_inv st'"
    using bb.inv_warm donchian.inv_warm evolve.inv_warm squeeze.inv_warm fx.inv_warm
    by (cases st) (auto simp: any_simps bindR_eq_Inr)
next
  fix st e sig assume "fst (op_on_price (any_ops rnd sqrt64) st e) = Inr (Some sig)"
  then show "signal_ok (op_name (any_ops rnd sqrt64) st) e sig"
    using bb.signals donchian.signals evolve.signals squeeze.signals fx.signals
    by (cases st) (simp_all add: any_simps)
next
  fix st ps e xs x assume "op_on_open_positions (any_ops rnd sqrt64) st ps e = Inr xs" "x \<in> set xs"
  then show "\<exists>p\<in>set ps. exit_ok (op_name (any_ops rnd sqrt64) st) e p x"
    using bb.exits donchian.exits evolve.exits squeeze.exits fx.exits
    by (cases st) (simp_all add: any_simps)
qed

section \<open>What the engine sends\<close>

text \<open>A run of the engine over the events of the price channel with the positions at each.\<close>

fun engine_run ::
  "'st strategy_ops \<Rightarrow> (price_event \<times> (string \<rightharpoonup> trade list)) list \<Rightarrow> 'st strategy_engine
    \<Rightarrow> (exit_signal list \<times> 'st strategy_engine) result" where
  "engine_run ops [] eng = Inr ([], eng)"
| "engine_run ops ((e, positions) # inputs) eng =
     bindR (on_price_with_positions ops e positions eng) (\<lambda>(xs, eng1).
     bindR (engine_run ops inputs eng1) (\<lambda>(ys, eng2). Inr (xs @ ys, eng2)))"

text \<open>The enabled strategies of an engine, by name.\<close>

definition enabled_names :: "'st strategy_ops \<Rightarrow> 'st strategy_engine \<Rightarrow> string set" where
  "enabled_names ops eng =
     {op_name ops (slot_strategy s) | s. s \<in> set (eng_slots eng) \<and> slot_mode s \<noteq> ''disabled''}"

lemma enabled_names_eq:
  assumes "map (\<lambda>s. op_name ops (slot_strategy s)) (eng_slots eng') = map (\<lambda>s. op_name ops (slot_strategy s)) (eng_slots eng)"
    and "map slot_mode (eng_slots eng') = map slot_mode (eng_slots eng)"
  shows "enabled_names ops eng' = enabled_names ops eng"
proof -
  have "enabled_names ops g = fst ` {p \<in> set (zip (map (\<lambda>s. op_name ops (slot_strategy s)) (eng_slots g))
      (map slot_mode (eng_slots g))). snd p \<noteq> ''disabled''}" for g
    unfolding enabled_names_def zip_map_map zip_same_conv_map by force
  then show ?thesis using assms by simp
qed

text \<open>
  C25. Over any sequence of price events the running engine sends a signal only for an enabled
  strategy and the pair of the event at hand, with a stop distance above zero and at most five
  percent and an allocation of at most the whole balance. It asks to close only a position it
  was given of that enabled strategy and of the pair of the event, at the closing price of the
  event. The enabled strategies stay the same.
\<close>

theorem engine_sends_sound:
  assumes "engine_run (any_ops rnd sqrt64) inputs eng = Inr (xs, eng')"
  shows "\<exists>new. eng_sent eng' = eng_sent eng @ new
    \<and> (\<forall>m \<in> set new. \<exists>(e, positions) \<in> set inputs. \<exists>n \<in> enabled_names (any_ops rnd sqrt64) eng. signal_ok n e (se_signal m))
    \<and> (\<forall>x \<in> set xs. \<exists>(e, positions) \<in> set inputs. \<exists>n \<in> enabled_names (any_ops rnd sqrt64) eng.
          \<exists>p \<in> set (unwrap_or (positions n) []). exit_ok n e p x)
    \<and> enabled_names (any_ops rnd sqrt64) eng' = enabled_names (any_ops rnd sqrt64) eng"
  using assms
proof (induction inputs arbitrary: eng xs)
  case (Cons i inputs)
  obtain e positions where i: "i = (e, positions)" by fastforce
  let ?ops = "any_ops rnd sqrt64"
  from Cons.prems obtain ys zs eng1 where first: "on_price_with_positions ?ops e positions eng = Inr (ys, eng1)"
    and rest: "engine_run ?ops inputs eng1 = Inr (zs, eng')" and xs: "xs = ys @ zs"
    by (auto simp: i bindR_eq_Inr)
  from first obtain slots sent where ps: "positions_slots ?ops e positions (eng_slots eng) = Inr (slots, sent, ys)"
    and eng1: "eng1 = \<lparr>eng_slots = slots, eng_sent = eng_sent eng @ sent\<rparr>"
    by (auto simp: on_price_with_positions_def bindR_eq_Inr)
  note r = any.positions_slots_result [OF ps]
  have same: "enabled_names ?ops eng1 = enabled_names ?ops eng"
    using r(1,2) by (intro enabled_names_eq) (simp_all add: eng1)
  obtain new where new: "eng_sent eng' = eng_sent eng1 @ new"
    "\<forall>m \<in> set new. \<exists>(e, positions) \<in> set inputs. \<exists>n \<in> enabled_names ?ops eng. signal_ok n e (se_signal m)"
    "\<forall>x \<in> set zs. \<exists>(e, positions) \<in> set inputs. \<exists>n \<in> enabled_names ?ops eng.
        \<exists>p \<in> set (unwrap_or (positions n) []). exit_ok n e p x"
    "enabled_names ?ops eng' = enabled_names ?ops eng"
    using Cons.IH [OF rest] unfolding same by blast
  have head: "\<forall>m \<in> set sent. \<exists>n \<in> enabled_names ?ops eng. signal_ok n e (se_signal m)"
    "\<forall>x \<in> set ys. \<exists>n \<in> enabled_names ?ops eng. \<exists>p \<in> set (unwrap_or (positions n) []). exit_ok n e p x"
    using r(4,5) unfolding enabled_names_def by fast+
  show ?case
    using new head by (intro exI [of _ "sent @ new"]) (auto simp: i eng1 xs)
qed simp

section \<open>The two Donchian strategies\<close>

text \<open>\<open>DonchianTrendEvolveV1\<close> in the state that corresponds to one of \<open>DonchianTrendV1\<close>.\<close>

definition evolve_of :: "donchian \<Rightarrow> donchian_evolve" where
  "evolve_of st = \<lparr>de_name = dt_name st, de_pairs = dt_pairs st, de_entry_channel = 20, de_exit_channel = 10,
     de_atr_baseline_bars = 20, de_history = dt_history st\<rparr>"

lemma evolve_of_fields:
  "de_name (evolve_of st) = dt_name st" "de_pairs (evolve_of st) = dt_pairs st"
  "de_entry_channel (evolve_of st) = 20" "de_exit_channel (evolve_of st) = 10"
  "de_atr_baseline_bars (evolve_of st) = 20" "de_history (evolve_of st) = dt_history st"
  by (simp_all add: evolve_of_def)

lemma evolve_of_push: "evolve_of (dt_push_candle k c st) = de_push_candle k c (evolve_of st)"
  by (simp add: evolve_of_def dt_push_candle_def de_push_candle_def)

lemma evolve_of_on_price:
  "donchian_evolve_on_price rnd (evolve_of st) e = map_prod id evolve_of (donchian_on_price rnd st e)"
proof -
  have "donchian_evolve_decide rnd (evolve_of st) h e = donchian_decide rnd (dt_name st) h e" for st h
    by (simp only: donchian_evolve_decide_def donchian_decide_def evolve_of_fields)
  then show ?thesis
    unfolding donchian_evolve_on_price_def donchian_on_price_def Let_def evolve_of_push [symmetric]
    by (simp add: evolve_of_fields)
qed

lemma evolve_of_warmup: "donchian_evolve_warmup es (evolve_of st) = evolve_of (donchian_warmup es st)"
  unfolding donchian_evolve_warmup_def donchian_warmup_def
proof (induction es arbitrary: st)
  case (Cons e es)
  have "de_pairs (evolve_of st) = dt_pairs st" by (simp add: evolve_of_def)
  then show ?case using Cons.IH by (simp flip: evolve_of_push)
qed simp

text \<open>A run of a strategy: warm-up, price events and position checks in any order.\<close>

datatype strategy_call = WarmUp "price_event list" | OnPrice price_event | OnPositions "trade list" price_event

datatype strategy_answer = Warmed | Decided "signal option result" | Exits "exit_signal list result"

fun strategy_run :: "'st strategy_ops \<Rightarrow> strategy_call list \<Rightarrow> 'st \<Rightarrow> strategy_answer list" where
  "strategy_run ops [] st = []"
| "strategy_run ops (WarmUp es # cs) st =
     (case op_warmup ops es st of Inl err \<Rightarrow> [] | Inr st' \<Rightarrow> Warmed # strategy_run ops cs st')"
| "strategy_run ops (OnPrice e # cs) st =
     (case op_on_price ops st e of (r, st') \<Rightarrow> Decided r # (if isl r then [] else strategy_run ops cs st'))"
| "strategy_run ops (OnPositions ps e # cs) st =
     Exits (op_on_open_positions ops st ps e) # strategy_run ops cs st"

text \<open>
  Created without parameters, \<open>DonchianTrendEvolveV1\<close> is \<open>DonchianTrendV1\<close>: for the same
  name and pairs, both give the same answer to every call of every sequence of warm-ups, price
  events and position checks, up to a panic, which both have at the same call.
\<close>

theorem evolve_defaults_equivalent:
  "strategy_run (evolve_ops rnd) calls (donchian_evolve_new name pairs (\<lambda>_. None))
   = strategy_run (donchian_ops rnd) calls (donchian_new name pairs)"
proof -
  have exits: "donchian_evolve_on_open_positions rnd (evolve_of st) ps e = donchian_on_open_positions rnd st ps e" for st ps e
    by (simp only: donchian_evolve_on_open_positions_def donchian_on_open_positions_def evolve_of_fields)
  have "strategy_run (evolve_ops rnd) calls (evolve_of st) = strategy_run (donchian_ops rnd) calls st" for st
  proof (induction calls arbitrary: st)
    case (Cons c calls)
    then show ?case
      by (cases c) (simp_all add: ops_defs evolve_of_warmup evolve_of_on_price exits split: prod.split)
  qed simp
  moreover have "donchian_evolve_new name pairs (\<lambda>_. None) = evolve_of (donchian_new name pairs)"
    by (simp add: donchian_evolve_new_def donchian_new_def evolve_of_def clamp_def unwrap_or_def)
  ultimately show ?thesis by simp
qed

section \<open>The FX strategy\<close>

text \<open>The states of the FX strategy after a warm-up and any price events.\<close>

definition fx_after :: "rounding \<Rightarrow> string \<Rightarrow> pair list \<Rightarrow> price_event list \<Rightarrow> price_event list \<Rightarrow> fx_new" where
  "fx_after rnd name pairs past events =
     foldl (\<lambda>st e. snd (fx_on_price rnd st e)) (fx_warmup past (fx_new_new name pairs)) events"

lemma fx_after_inv: "fx_inv (fx_after rnd name pairs past events)"
proof -
  have "fx_inv (foldl (\<lambda>st e. snd (fx_on_price rnd st e)) st events)" if "fx_inv st" for st
    using that by (induction events arbitrary: st) (simp_all add: fx_on_price_kept)
  moreover have "fx_inv (fx_new_new name pairs)"
    by (simp add: fx_inv_def fx_new_new_def pending_ok_def)
  ultimately show ?thesis unfolding fx_after_def using fx_warmup_kept by blast
qed

lemma three_sorted:
  fixes ts :: "'a::linorder list"
  assumes "length ts = 3" and "sorted ts" and "distinct ts"
  shows "\<exists>a b d. ts = [a, b, d] \<and> a < b \<and> b < d"
proof -
  obtain a b d where "ts = [a, b, d]" using assms(1) by (auto simp: numeral_3_eq_3 length_Suc_conv)
  then show ?thesis using assms by auto
qed

text \<open>
  C27. In every state the FX strategy can reach, an M5 event completes an M15 candle only from
  three M5 candles of one fifteen-minute period with increasing times, one of them the candle
  of the event. Its open is the open of the first, its close and quotes those of the last, its
  high and low the greatest high and the least low, its volume the sum, its time the start of
  the period. In the same states no history exceeds 480 candles and no two candles of a period
  wait with the same time.
\<close>

theorem fx_m15_candle:
  assumes "aggregate_m15 e (fx_after rnd name pairs past events) = (r, st')"
  shows "fx_inv st' \<and> (\<forall>c. r = Some c \<longrightarrow> (\<exists>x y z.
      c_timestamp x < c_timestamp y \<and> c_timestamp y < c_timestamp z \<and> e_candle e \<in> {x, y, z}
      \<and> (\<forall>d \<in> {x, y, z}. m15_bucket (c_timestamp d) = m15_bucket (c_timestamp (e_candle e)))
      \<and> c_open c = c_open x \<and> c_close c = c_close z
      \<and> c_high c = Max {c_high x, c_high y, c_high z} \<and> c_low c = Min {c_low x, c_low y, c_low z}
      \<and> c_best_bid c = c_best_bid z \<and> c_best_ask c = c_best_ask z
      \<and> c_volume c = Some (unwrap_or (c_volume x) 0 + unwrap_or (c_volume y) 0 + unwrap_or (c_volume z) 0)
      \<and> c_timestamp c = secs (m15_bucket (c_timestamp (e_candle e)))))"
proof -
  let ?st = "fx_after rnd name pairs past events"
  have inv: "fx_inv ?st" by (rule fx_after_inv)
  then have pending: "pending_ok (fx_m5_pending ?st)" by (simp add: fx_inv_def)
  have "fx_inv st'" using aggregate_kept(2) [OF inv, of e] assms by simp
  moreover have "\<exists>x y z. c_timestamp x < c_timestamp y \<and> c_timestamp y < c_timestamp z \<and> e_candle e \<in> {x, y, z}
      \<and> (\<forall>d \<in> {x, y, z}. m15_bucket (c_timestamp d) = m15_bucket (c_timestamp (e_candle e)))
      \<and> c = m15_candle (m15_bucket (c_timestamp (e_candle e))) [x, y, z]" if rc: "r = Some c" for c
  proof -
    obtain p where p: "length p = 3" "sorted (map c_timestamp p)" "distinct (map c_timestamp p)"
      "\<forall>d \<in> set p. m15_bucket (c_timestamp d) = m15_bucket (c_timestamp (e_candle e))" "e_candle e \<in> set p"
      "c = m15_candle (m15_bucket (c_timestamp (e_candle e))) p"
      using aggregate_m15_cases(6) [OF pending assms rc] by blast
    obtain x y z where xyz: "p = [x, y, z]" using p(1) by (auto simp: numeral_3_eq_3 length_Suc_conv)
    have "c_timestamp x < c_timestamp y \<and> c_timestamp y < c_timestamp z"
      using three_sorted [OF _ p(2,3)] p(1) by (auto simp: xyz)
    then show ?thesis using p(4-6) unfolding xyz by (intro exI [of _ x] exI [of _ y] exI [of _ z]) simp
  qed
  moreover have "c_high (m15_candle b [x, y, z]) = Max {c_high x, c_high y, c_high z}"
    "c_low (m15_candle b [x, y, z]) = Min {c_low x, c_low y, c_low z}" for b x y z
    by (simp_all only: m15_candle_def candle.simps maximum_eq minimum_eq, simp_all)
  ultimately show ?thesis by (fastforce simp: m15_candle_def)
qed

lemma fx_decide_sizes:
  assumes "fx_decide exact st e c = Inr (Some sig)"
  shows "s_allocation_pct sig = min (1 / 100 / (10 * s_stop_loss_pct sig)) 1 \<and> 0 < s_stop_loss_pct sig
    \<and> s_stop_loss_pct sig \<le> 2 / 100"
  using assms stop_distance_le
  by (fastforce simp: fx_decide_def bindO_eq_Some bindR_eq_Inr Let_def allocation_for_def make_signal_def
      ddiv_def dmul_def split: if_splits)

text \<open>
  C28. In exact arithmetic a signal of the FX strategy risks at most one percent of the balance:
  the allocation times the assumed leverage of ten times the stop distance is at most one
  percent, and exactly one percent unless the allocation is the whole balance. The stop
  distance is positive and at most two percent.
\<close>

theorem fx_risk_bound:
  assumes "fst (fx_on_price exact st e) = Inr (Some sig)"
  shows "s_allocation_pct sig * 10 * s_stop_loss_pct sig \<le> 1 / 100
    \<and> (s_allocation_pct sig = 1 \<or> s_allocation_pct sig * 10 * s_stop_loss_pct sig = 1 / 100)
    \<and> 0 < s_allocation_pct sig \<and> 0 < s_stop_loss_pct sig \<and> s_stop_loss_pct sig \<le> 2 / 100"
proof -
  obtain c st1 where "fx_decide exact (fx_push_m15 e c st1) e c = Inr (Some sig)"
    using assms by (auto simp: fx_on_price_def Let_def split: if_splits prod.splits option.splits)
  note d = fx_decide_sizes [OF this]
  let ?s = "s_stop_loss_pct sig" and ?a = "s_allocation_pct sig"
  have s: "0 < ?s" using d by simp
  then have one: "1 / 100 / (10 * ?s) * (10 * ?s) = 1 / 100" by (intro nonzero_eq_divide_eq [THEN iffD1]) auto
  have "?a * (10 * ?s) \<le> 1 / 100 / (10 * ?s) * (10 * ?s)"
    using d s by (intro mult_right_mono) auto
  then have "?a * 10 * ?s \<le> 1 / 100" unfolding one mult.assoc .
  moreover have "?a = 1 \<or> ?a * 10 * ?s = 1 / 100" using d one by (auto simp: min_def mult.assoc)
  moreover have "0 < ?a" using d s by simp
  ultimately show ?thesis using d by simp
qed

section \<open>Instances\<close>

definition demo_m5 :: "int \<Rightarrow> decimal \<Rightarrow> decimal \<Rightarrow> price_event" where
  "demo_m5 i low close = \<lparr>e_pair = ''USD_JPY'', e_exchange = GmoFx,
     e_candle = \<lparr>c_pair = ''USD_JPY'', c_exchange = GmoFx, c_timeframe = ''M5'', c_open = 100, c_high = 101,
       c_low = low, c_close = close, c_volume = Some 2, c_best_bid = None, c_best_ask = None,
       c_timestamp = secs (300 * i)\<rparr>,
     e_indicators = Map.empty, e_timestamp = secs (300 * (i + 1))\<rparr>"

definition demo_inputs :: "(price_event \<times> (string \<rightharpoonup> trade list)) list" where
  "demo_inputs = map (\<lambda>i. (demo_m5 i 99 100, Map.empty)) [0..20] @ [(demo_m5 21 89 90, Map.empty)]"

definition demo_engine :: "any_strategy strategy_engine" where
  "demo_engine = add_strategy (BbMeanRevert (bb_new ''bb'' [''USD_JPY''])) ''live'' engine_new"

definition demo_bands :: "decimal \<Rightarrow> decimal option" where "demo_bands v = Some 1"

lemma demo_engine_sends:
  "map_sum id (\<lambda>(xs, eng). (xs, map se_signal (eng_sent eng))) (engine_run (any_ops exact demo_bands) demo_inputs demo_engine)
   = Inr ([], [make_signal ''bb'' (demo_m5 21 89 90) Long (3 / 100) 0x3FE4CCCCCCCCCCCD 1 (Some (secs 6600 + hours 24))])"
  by code_simp

theorem engine_sends_sound_witness:
  "\<exists>eng'. engine_run (any_ops exact demo_bands) demo_inputs demo_engine = Inr ([], eng')
     \<and> length (eng_sent eng') = 1
     \<and> (\<forall>m \<in> set (eng_sent eng'). \<exists>(e, positions) \<in> set demo_inputs. signal_ok ''bb'' e (se_signal m))"
proof -
  obtain eng' where run: "engine_run (any_ops exact demo_bands) demo_inputs demo_engine = Inr ([], eng')"
    and sent: "length (eng_sent eng') = 1"
    using demo_engine_sends
    by (cases "engine_run (any_ops exact demo_bands) demo_inputs demo_engine") auto
  have "enabled_names (any_ops exact demo_bands) demo_engine = {''bb''}"
    by (auto simp: enabled_names_def demo_engine_def add_strategy_def engine_new_def any_ops_def bb_new_def)
  moreover have "eng_sent demo_engine = []" by (simp add: demo_engine_def add_strategy_def engine_new_def)
  ultimately show ?thesis using engine_sends_sound [OF run] run sent by auto
qed

definition demo_fx :: fx_new where
  "demo_fx = fx_after exact ''fx'' [''USD_JPY''] [demo_m5 0 99 100] [demo_m5 1 98 100]"

lemma demo_fx_completes:
  "\<exists>c. fst (aggregate_m15 (demo_m5 2 97 90) demo_fx) = Some c \<and> c_low c = 97 \<and> c_close c = 90"
proof -
  have "map_option (\<lambda>c. (c_low c, c_close c)) (fst (aggregate_m15 (demo_m5 2 97 90) demo_fx)) = Some (97, 90)"
    by code_simp
  then show ?thesis by auto
qed

theorem fx_m15_candle_witness:
  "\<exists>c. fst (aggregate_m15 (demo_m5 2 97 90) demo_fx) = Some c \<and> c_timestamp c = 0"
proof -
  obtain c st' where run: "aggregate_m15 (demo_m5 2 97 90) demo_fx = (Some c, st')"
    using demo_fx_completes by (metis prod.collapse)
  have "m15_bucket (c_timestamp (e_candle (demo_m5 2 97 90))) = 0" by code_simp
  then show ?thesis
    using fx_m15_candle [OF run [unfolded demo_fx_def]] run by (auto simp: secs_def)
qed

text \<open>Fifty quiet M15 candles, a rising H1 series, and an M5 candle that breaks out upwards.\<close>

definition demo_candles :: "string \<Rightarrow> decimal list \<Rightarrow> candle list" where
  "demo_candles tf = map (\<lambda>p. \<lparr>c_pair = ''USD_JPY'', c_exchange = GmoFx, c_timeframe = tf, c_open = p,
     c_high = p + 1, c_low = p - 1, c_close = p, c_volume = None, c_best_bid = None, c_best_ask = None,
     c_timestamp = 0\<rparr>)"

definition demo_breakout :: fx_new where
  "demo_breakout = (fx_after exact ''fx'' [''USD_JPY''] [demo_m5 0 99 100] [demo_m5 1 99 100])
     \<lparr>fx_m15 := [''USD_JPY'' \<mapsto> demo_candles ''M15'' (replicate 50 98)],
      fx_h1 := [''USD_JPY'' \<mapsto> demo_candles ''H1'' (map of_nat [50..<100])]\<rparr>"

lemma demo_breakout_signal:
  "map_sum id (map_option s_direction) (fst (fx_on_price exact demo_breakout (demo_m5 2 95 100))) = Inr (Some Long)"
  by code_simp

theorem fx_risk_bound_witness:
  "\<exists>sig. fst (fx_on_price exact demo_breakout (demo_m5 2 95 100)) = Inr (Some sig)
     \<and> s_allocation_pct sig * 10 * s_stop_loss_pct sig \<le> 1 / 100"
proof -
  obtain sig where "fst (fx_on_price exact demo_breakout (demo_m5 2 95 100)) = Inr (Some sig)"
    using demo_breakout_signal
    by (cases "fst (fx_on_price exact demo_breakout (demo_m5 2 95 100))") auto
  then show ?thesis using fx_risk_bound by blast
qed

end
