(* ===== verification/Roundtrips.thy ===== *)
theory Roundtrips
  imports Database
begin

text \<open>
  The names under which enumerations and trades are stored, as codecs: reading the written
  form gives the value back, and nothing else reads as that value.
\<close>

section \<open>Codecs\<close>

locale string_codec =
  fixes as_str :: "'a \<Rightarrow> string" and from_str :: "string \<Rightarrow> 'a result"
  assumes decodes: "from_str s = Inr x \<longleftrightarrow> s = as_str x"
begin

lemma roundtrip: "from_str (as_str x) = Inr x"
  by (simp add: decodes)

lemma as_str_inj: "as_str x = as_str y \<longleftrightarrow> x = y"
  by (metis roundtrip sum.inject(2))

lemma rejects: "s \<notin> range as_str \<longleftrightarrow> (\<exists>e. from_str s = Inl e)"
proof (cases "from_str s")
  case (Inr x)
  then have "s \<in> range as_str" by (auto simp: decodes)
  then show ?thesis using Inr by auto
next
  case (Inl e)
  then have "s \<noteq> as_str x" for x using roundtrip [of x] by auto
  then show ?thesis using Inl by auto
qed

text \<open>Reading an optional column.\<close>

lemma optional_decodes:
  "(case m of None \<Rightarrow> Inr None | Some s \<Rightarrow> bindR (from_str s) (\<lambda>y. Inr (Some y))) = Inr x
   \<longleftrightarrow> m = map_option as_str x"
  by (cases m; cases x) (auto simp: bindR_eq_Inr decodes)

lemma optional_rejects:
  "(\<exists>e. (case m of None \<Rightarrow> Inr None | Some s \<Rightarrow> bindR (from_str s) (\<lambda>y. Inr (Some y))) = Inl e)
   \<longleftrightarrow> m \<notin> range (map_option as_str)"
proof -
  have "Some s \<in> range (map_option as_str) \<longleftrightarrow> s \<in> range as_str" for s
  proof
    assume "Some s \<in> range (map_option as_str)"
    then obtain x where "Some s = map_option as_str x" by (rule rangeE)
    then show "s \<in> range as_str" by (cases x) simp_all
  next
    assume "s \<in> range as_str"
    then obtain x where "s = as_str x" by (rule rangeE)
    then show "Some s \<in> range (map_option as_str)" by (intro range_eqI [of _ _ "Some x"]) simp
  qed
  moreover have "None \<in> range (map_option as_str)" by (rule range_eqI [of _ _ None]) simp
  ultimately have "m \<notin> range (map_option as_str) \<longleftrightarrow> (\<exists>s. m = Some s \<and> s \<notin> range as_str)"
    by (cases m) auto
  then show ?thesis using rejects by (cases m) (auto simp: bindR_eq_Inl)
qed

end

interpretation exchange_codec: string_codec exchange_as_str exchange_from_str
  by unfold_locales (rule exchange_from_str_Inr)

interpretation direction_codec: string_codec direction_as_str direction_from_str
  by unfold_locales (rule direction_from_str_Inr)

interpretation status_codec: string_codec trade_status_as_str trade_status_from_str
  by unfold_locales (rule trade_status_from_str_Inr)

interpretation reason_codec: string_codec exit_reason_as_str exit_reason_from_str
  by unfold_locales (rule exit_reason_from_str_Inr)

section \<open>Trade rows\<close>


end
