(* ===== verification/Config.thy ===== *)
theory Config
  imports Pricing
begin

text \<open>
  The application configuration (\<open>core/src/config.rs\<close>) with its validation, the resolution of
  feeds, flags and sizing tables from it (\<open>app/src/bootstrap/\<close>) and the swap freshness alert.
  The TOML parser is outside the model: the records are its results. A map that the code
  iterates is an association list in its (unspecified) iteration order. \<open>NaiveDate::parse_from_str\<close>
  is the parameter \<open>parse_ymd\<close>; dates are day numbers.
\<close>

section \<open>The records\<close>

record feed_watchdog_config =
  fw_enabled :: bool
  fw_check_interval_secs :: nat
  fw_suspend_gap_secs :: nat
  fw_stale_after_secs :: nat
  fw_realert_interval_secs :: nat
  fw_exclude_exchanges :: "string list"
  fw_notify_retry_attempts :: nat
  fw_notify_retry_initial_secs :: nat

record gmo_fx_swap_config =
  sw_rates :: "(string \<times> swap_rate_entry) list"
  sw_updated_on :: "string option"
  sw_max_age_days :: nat

record gmo_fx_config =
  gf_swap :: gmo_fx_swap_config

record oanda_config =
  oc_api_url :: string
  oc_account_id :: string

record vegapunk_config =
  vc_endpoint :: string
  vc_schema :: string

record database_config =
  dc_url :: string

record monitor_config =
  mc_interval_secs :: nat
  mc_backfill_days :: "nat option"

record pairs_config =
  pc_fx :: "string list"
  pc_crypto :: "string list option"
  pc_active :: "string list"

text \<open>A \<open>toml::Value\<close>, with the one kind the sources read.\<close>

datatype toml_value = TomlInteger int | TomlOther

record strategy_config =
  sg_name :: string
  sg_enabled :: bool
  sg_mode :: string
  sg_pairs :: "string list"
  sg_params :: "string \<rightharpoonup> toml_value"

record macro_analyst_config =
  ma_enabled :: bool
  ma_calendar_interval_secs :: nat
  ma_news_interval_secs :: nat
  ma_news_sources :: "string list"

record gemini_config =
  gc_model :: string
  gc_api_url :: string

record bitflyer_config =
  bc_ws_url :: string
  bc_api_url :: string
  bc_api_key :: "string option"
  bc_api_secret :: "string option"

record pair_config =
  pf_price_unit :: decimal
  pf_min_order_size :: decimal

record exchange_margin_config =
  em_liquidation_margin_level :: decimal

record position_sizing_config =
  ps_method :: string
  ps_risk_rate :: decimal

record risk_config =
  rk_price_freshness_secs :: nat
  rk_sizing_margin_buffer :: decimal

record live_config =
  lv_enabled :: bool
  lv_dry_run :: bool

record app_config =
  cf_oanda :: "oanda_config option"
  cf_bitflyer :: "bitflyer_config option"
  cf_vegapunk :: vegapunk_config
  cf_database :: database_config
  cf_monitor :: monitor_config
  cf_pairs :: pairs_config
  cf_pair_config :: "string \<rightharpoonup> pair_config"
  cf_position_sizing :: "position_sizing_config option"
  cf_strategies :: "strategy_config list"
  cf_macro_analyst :: "macro_analyst_config option"
  cf_gemini :: "gemini_config option"
  cf_live :: "live_config option"
  cf_risk :: "risk_config option"
  cf_exchange_margin :: "(string \<times> exchange_margin_config) list"
  cf_gmo_fx :: gmo_fx_config
  cf_feed_watchdog :: feed_watchdog_config

section \<open>Defaults\<close>

definition MAX_NOTIFY_RETRY_ATTEMPTS :: nat where "MAX_NOTIFY_RETRY_ATTEMPTS = 10"

definition NOTIFY_SEND_TIMEOUT_SECS :: nat where "NOTIFY_SEND_TIMEOUT_SECS = 10"

definition feed_watchdog_default :: feed_watchdog_config where
  "feed_watchdog_default =
     \<lparr>fw_enabled = True, fw_check_interval_secs = 60, fw_suspend_gap_secs = 300,
      fw_stale_after_secs = 900, fw_realert_interval_secs = 3600,
      fw_exclude_exchanges = [''oanda''], fw_notify_retry_attempts = 5,
      fw_notify_retry_initial_secs = 30\<rparr>"

definition gmo_fx_swap_default :: gmo_fx_swap_config where
  "gmo_fx_swap_default = \<lparr>sw_rates = [], sw_updated_on = None, sw_max_age_days = 35\<rparr>"

definition gmo_fx_default :: gmo_fx_config where
  "gmo_fx_default = \<lparr>gf_swap = gmo_fx_swap_default\<rparr>"

definition risk_default :: risk_config where
  "risk_default = \<lparr>rk_price_freshness_secs = 60, rk_sizing_margin_buffer = 10 / 100\<rparr>"

section \<open>Validation\<close>

definition ensure :: "bool \<Rightarrow> string \<Rightarrow> unit result" where
  "ensure ok message = (if ok then Inr () else Inl (Anyhow message))"

lemma ensure_eq [simp]: "ensure ok m = Inr u \<longleftrightarrow> ok"
  by (simp add: ensure_def)

fun forR :: "('a \<Rightarrow> unit result) \<Rightarrow> 'a list \<Rightarrow> unit result" where
  "forR f [] = Inr ()"
| "forR f (x # xs) = bindR (f x) (\<lambda>_. forR f xs)"

lemma forR_eq_Inr [simp]: "forR f xs = Inr u \<longleftrightarrow> (\<forall>x \<in> set xs. f x = Inr ())"
  by (induction xs) (auto simp: bindR_eq_Inr)

text \<open>The total wait of the retries and the time of the sends; the exponent is at most 10.\<close>

definition total_wait_secs :: "feed_watchdog_config \<Rightarrow> nat" where
  "total_wait_secs c = (2 ^ fw_notify_retry_attempts c - 1) * fw_notify_retry_initial_secs c"

definition worst_case_secs :: "feed_watchdog_config \<Rightarrow> nat" where
  "worst_case_secs c =
     (fw_notify_retry_attempts c + 1) * NOTIFY_SEND_TIMEOUT_SECS + total_wait_secs c"

definition feed_watchdog_validate :: "feed_watchdog_config \<Rightarrow> unit result" where
  "feed_watchdog_validate c =
     bindR (ensure (fw_check_interval_secs c \<noteq> 0) ''feed_watchdog.check_interval_secs must be >= 1'') (\<lambda>_.
     bindR (ensure (fw_suspend_gap_secs c \<noteq> 0) ''feed_watchdog.suspend_gap_secs must be >= 1'') (\<lambda>_.
     bindR (ensure (fw_stale_after_secs c \<noteq> 0) ''feed_watchdog.stale_after_secs must be >= 1'') (\<lambda>_.
     bindR (ensure (fw_realert_interval_secs c \<noteq> 0) ''feed_watchdog.realert_interval_secs must be >= 1'') (\<lambda>_.
     bindR (ensure (fw_notify_retry_initial_secs c \<noteq> 0) ''feed_watchdog.notify_retry_initial_secs must be >= 1'') (\<lambda>_.
     bindR (ensure (\<not> fw_suspend_gap_secs c \<le> fw_check_interval_secs c)
       ''feed_watchdog.suspend_gap_secs must be > check_interval_secs'') (\<lambda>_.
     bindR (ensure (\<not> fw_stale_after_secs c < fw_check_interval_secs c)
       ''feed_watchdog.stale_after_secs must be >= check_interval_secs'') (\<lambda>_.
     bindR (forR (\<lambda>ex. bindR (exchange_from_str ex) (\<lambda>_. Inr ())) (fw_exclude_exchanges c)) (\<lambda>_.
     bindR (ensure (\<not> fw_notify_retry_attempts c > MAX_NOTIFY_RETRY_ATTEMPTS)
       ''feed_watchdog.notify_retry_attempts must be <= 10'') (\<lambda>_.
     ensure (\<not> worst_case_secs c \<ge> fw_realert_interval_secs c)
       ''feed_watchdog.realert_interval_secs must be > worst-case notify time'')))))))))"

definition parsed_updated_on :: "(string \<Rightarrow> int option) \<Rightarrow> gmo_fx_swap_config \<Rightarrow> int option result" where
  "parsed_updated_on parse_ymd c =
     (case sw_updated_on c of
        None \<Rightarrow> Inr None
      | Some s \<Rightarrow> bindR (ok_or (Anyhow ''gmo_fx.swap.updated_on must be YYYY-MM-DD'') (parse_ymd s))
          (\<lambda>d. Inr (Some d)))"

definition gmo_fx_swap_validate :: "(string \<Rightarrow> int option) \<Rightarrow> gmo_fx_swap_config \<Rightarrow> unit result" where
  "gmo_fx_swap_validate parse_ymd c =
     bindR (parsed_updated_on parse_ymd c) (\<lambda>parsed.
     bindR (ensure (\<not> (sw_rates c \<noteq> [] \<and> parsed = None))
       ''gmo_fx.swap.updated_on required when rates are set'') (\<lambda>_.
     ensure (sw_max_age_days c \<noteq> 0) ''gmo_fx.swap.max_age_days must be > 0''))"

definition risk_validate :: "risk_config \<Rightarrow> unit result" where
  "risk_validate c =
     bindR (ensure (rk_price_freshness_secs c \<noteq> 0) ''risk.price_freshness_secs must be > 0'') (\<lambda>_.
     ensure (\<not> rk_sizing_margin_buffer c < 0) ''risk.sizing_margin_buffer must be >= 0'')"

definition live_validate :: "live_config \<Rightarrow> unit result" where
  "live_validate c = Inr ()"

definition ends_with :: "string \<Rightarrow> string \<Rightarrow> bool" where
  "ends_with s suffix = starts_with (rev s) (rev suffix)"

definition ensure_jpy_quote :: "string list \<Rightarrow> unit result" where
  "ensure_jpy_quote pairs =
     forR (\<lambda>p. ensure (ends_with p ''_JPY'') ''pair must be quoted in JPY'') pairs"

definition app_config_validate :: "(string \<Rightarrow> int option) \<Rightarrow> app_config \<Rightarrow> unit result" where
  "app_config_validate parse_ymd c =
     bindR (case cf_live c of None \<Rightarrow> Inr () | Some l \<Rightarrow> live_validate l) (\<lambda>_.
     bindR (case cf_risk c of None \<Rightarrow> Inr () | Some r \<Rightarrow> risk_validate r) (\<lambda>_.
     bindR (ensure_jpy_quote (pc_fx (cf_pairs c))) (\<lambda>_.
     bindR (case pc_crypto (cf_pairs c) of None \<Rightarrow> Inr () | Some ps \<Rightarrow> ensure_jpy_quote ps) (\<lambda>_.
     bindR (ensure_jpy_quote (pc_active (cf_pairs c))) (\<lambda>_.
     bindR (forR (\<lambda>s. ensure_jpy_quote (sg_pairs s)) (cf_strategies c)) (\<lambda>_.
     bindR (gmo_fx_swap_validate parse_ymd (gf_swap (cf_gmo_fx c))) (\<lambda>_.
     feed_watchdog_validate (cf_feed_watchdog c))))))))"

section \<open>Swap freshness\<close>

definition swap_rates_empty_alert :: string where
  "swap_rates_empty_alert = ''[gmo_fx.swap.rates] is EMPTY''"

definition swap_rates_stale_alert :: string where
  "swap_rates_stale_alert = ''[gmo_fx.swap.rates] last verified too long ago''"

definition swap_freshness_alert ::
  "(string \<Rightarrow> int option) \<Rightarrow> gmo_fx_swap_config \<Rightarrow> int \<Rightarrow> bool \<Rightarrow> string option" where
  "swap_freshness_alert parse_ymd c today has_gmo_paper_accounts =
     (if sw_rates c = []
      then if has_gmo_paper_accounts then Some swap_rates_empty_alert else None
      else case parsed_updated_on parse_ymd c of
             Inr (Some updated_on) \<Rightarrow>
               if is_swap_rates_stale updated_on today (sw_max_age_days c)
               then Some swap_rates_stale_alert else None
           | _ \<Rightarrow> None)"

section \<open>What the bootstrap derives from the configuration\<close>

definition trimmed_non_empty :: "string \<Rightarrow> string option" where
  "trimmed_non_empty value = (let trimmed = trim value in if trimmed = [] then None else Some trimmed)"

text \<open>The environment variables are the argument \<open>env_var\<close>.\<close>

definition env_trimmed :: "(string \<rightharpoonup> string) \<Rightarrow> string \<Rightarrow> string option" where
  "env_trimmed env_var name = (case env_var name of None \<Rightarrow> None | Some v \<Rightarrow> trimmed_non_empty v)"

definition resolve_oanda_account_id :: "(string \<rightharpoonup> string) \<Rightarrow> app_config \<Rightarrow> string option" where
  "resolve_oanda_account_id env_var c =
     (case env_trimmed env_var ''OANDA_ACCOUNT_ID'' of
        Some v \<Rightarrow> Some v
      | None \<Rightarrow> (case cf_oanda c of None \<Rightarrow> None | Some o1 \<Rightarrow> trimmed_non_empty (oc_account_id o1)))"

definition resolve_oanda_api_key :: "(string \<rightharpoonup> string) \<Rightarrow> string option" where
  "resolve_oanda_api_key env_var = env_trimmed env_var ''OANDA_API_KEY''"

definition parse_live_dry_run_override :: "string option \<Rightarrow> bool \<Rightarrow> bool" where
  "parse_live_dry_run_override raw config_dry_run =
     (case raw of
        None \<Rightarrow> config_dry_run
      | Some r \<Rightarrow>
          let v = to_ascii_lowercase (trim r) in
          if v \<in> {''1'', ''true'', ''yes'', ''on''} then True
          else if v \<in> {''0'', ''false'', ''no'', ''off''} then False
          else config_dry_run)"

record live_flags =
  lf_forces_dry_run :: bool
  lf_enabled :: bool

definition resolve_live_flags :: "(string \<rightharpoonup> string) \<Rightarrow> app_config \<Rightarrow> live_flags" where
  "resolve_live_flags env_var c =
     (let live_cfg_dry_run = (case cf_live c of None \<Rightarrow> False | Some l \<Rightarrow> lv_dry_run l) in
      \<lparr>lf_forces_dry_run = parse_live_dry_run_override (env_var ''LIVE_DRY_RUN'') live_cfg_dry_run,
       lf_enabled = (case cf_live c of None \<Rightarrow> False | Some l \<Rightarrow> lv_enabled l)\<rparr>)"

definition collect_pair_decimals ::
  "(string \<rightharpoonup> pair_config) \<Rightarrow> (pair_config \<Rightarrow> decimal) \<Rightarrow> (pair \<rightharpoonup> decimal)" where
  "collect_pair_decimals pair_configs pick = (\<lambda>k. map_option pick (pair_configs k))"

definition build_position_sizer :: "(string \<rightharpoonup> pair_config) \<Rightarrow> decimal \<Rightarrow> position_sizer" where
  "build_position_sizer pair_configs sizing_margin_buffer =
     with_price_units (sizer_new (collect_pair_decimals pair_configs pf_min_order_size) sizing_margin_buffer)
       (collect_pair_decimals pair_configs pf_price_unit)"

definition resolve_configured_crypto_pairs :: "app_config \<Rightarrow> pair list" where
  "resolve_configured_crypto_pairs c = (case pc_crypto (cf_pairs c) of None \<Rightarrow> [] | Some ps \<Rightarrow> ps)"

definition resolve_configured_fx_pairs :: "app_config \<Rightarrow> pair list" where
  "resolve_configured_fx_pairs c =
     (if pc_active (cf_pairs c) \<noteq> [] then pc_active (cf_pairs c) else pc_fx (cf_pairs c))"

definition has_enabled_fx_strategy :: "strategy_config list \<Rightarrow> bool" where
  "has_enabled_fx_strategy = list_ex (\<lambda>s. sg_enabled s \<and> starts_with (sg_name s) ''swing_llm'')"

definition find_missing_from_catalog :: "string list \<Rightarrow> string list \<Rightarrow> string list" where
  "find_missing_from_catalog registered catalog = filter (\<lambda>n. n \<notin> set catalog) registered"

lemma ends_with_iff: "ends_with s p \<longleftrightarrow> (\<exists>r. s = r @ p)"
  unfolding ends_with_def starts_with_iff
  by (metis rev_append rev_rev_ident)

end
