(* ===== verification/Startup.thy ===== *)
theory Startup
  imports Config Accounts Exchange_Api
begin

text \<open>
  The start of the process (\<open>app/src/startup.rs\<close>, \<open>bootstrap/\<close>), the resolution of accounts and
  exchanges shared by the running tasks (\<open>runtime.rs\<close>) and the market regime
  (\<open>regime.rs\<close>). The main result is that the liquidation level the monitors look up at run time
  exists and is positive for every account known at startup.
\<close>

section \<open>Liquidation levels\<close>

fun parse_account_exchanges :: "trading_account list \<Rightarrow> exchange list result" where
  "parse_account_exchanges [] = Inr []"
| "parse_account_exchanges (a # as) =
     (case exchange_from_str (a_exchange a) of
        Inr ex \<Rightarrow> bindR (parse_account_exchanges as) (\<lambda>exs. Inr (ex # exs))
      | Inl _ \<Rightarrow> Inl (Anyhow ''failed to parse exchange for trading_accounts row''))"

fun insert_margin_levels ::
  "(string \<times> exchange_margin_config) list \<Rightarrow> (exchange \<rightharpoonup> decimal) \<Rightarrow> (exchange \<rightharpoonup> decimal) result" where
  "insert_margin_levels [] m = Inr m"
| "insert_margin_levels ((k, c) # rest) m =
     (case exchange_from_str k of
        Inr ex \<Rightarrow> insert_margin_levels rest (m(ex \<mapsto> em_liquidation_margin_level c))
      | Inl _ \<Rightarrow> Inl (Anyhow ''invalid option exchange_margin''))"

definition reject_non_positive_margin_for_exchanges_in_use :: "(exchange \<times> decimal) list \<Rightarrow> unit result" where
  "reject_non_positive_margin_for_exchanges_in_use in_use =
     forR (\<lambda>(ex, v). ensure (\<not> v \<le> 0) ''liquidation_margin_level must be positive'') in_use"

definition resolve_exchange_liquidation_levels ::
  "trading_account list \<Rightarrow> app_config \<Rightarrow> (exchange \<rightharpoonup> decimal) result" where
  "resolve_exchange_liquidation_levels accts config =
     bindR (parse_account_exchanges accts) (\<lambda>exs.
     let required = remdups exs in
     bindR (insert_margin_levels (cf_exchange_margin config) Map.empty) (\<lambda>m.
     let missing = filter (\<lambda>ex. m ex = None) required;
         in_use = concat (map (\<lambda>ex. case m ex of None \<Rightarrow> [] | Some v \<Rightarrow> [(ex, v)]) required) in
     bindR (ensure (missing = []) ''invalid option exchange_margin: missing for active accounts'') (\<lambda>_.
     bindR (reject_non_positive_margin_for_exchanges_in_use in_use) (\<lambda>_.
     Inr m))))"

definition liquidation_level_or_log :: "(exchange \<rightharpoonup> decimal) \<Rightarrow> exchange \<Rightarrow> decimal option" where
  "liquidation_level_or_log m ex =
     (case m ex of None \<Rightarrow> None | Some y \<Rightarrow> if y > 0 then Some y else None)"

lemma parse_account_exchanges_Inr:
  "parse_account_exchanges as = Inr exs \<Longrightarrow> a \<in> set as \<Longrightarrow>
   \<exists>ex \<in> set exs. exchange_from_str (a_exchange a) = Inr ex"
  by (induction as arbitrary: exs) (auto simp: bindR_eq_Inr split: sum.splits)

text \<open>
  C30. A configuration accepted at startup serves every account: the exchange of each account
  parses, and the level that the running tasks later look up for it exists and is positive, so
  no close and no dispatch of such an account is skipped for want of a level.
\<close>

theorem startup_levels_serve_accounts:
  assumes "resolve_exchange_liquidation_levels accts config = Inr levels" and "a \<in> set accts"
  shows "\<exists>ex level. exchange_from_str (a_exchange a) = Inr ex
    \<and> liquidation_level_or_log levels ex = Some level \<and> 0 < level"
proof -
  obtain exs where exs: "parse_account_exchanges accts = Inr exs"
    and missing: "filter (\<lambda>ex. levels ex = None) (remdups exs) = []"
    and pos: "reject_non_positive_margin_for_exchanges_in_use
      (concat (map (\<lambda>ex. case levels ex of None \<Rightarrow> [] | Some v \<Rightarrow> [(ex, v)]) (remdups exs))) = Inr ()"
    using assms(1) by (auto simp: resolve_exchange_liquidation_levels_def bindR_eq_Inr Let_def)
  obtain ex where ex: "ex \<in> set exs" "exchange_from_str (a_exchange a) = Inr ex"
    using parse_account_exchanges_Inr [OF exs assms(2)] by blast
  then obtain v where v: "levels ex = Some v" using missing by (auto simp: filter_empty_conv)
  have "\<not> v \<le> 0"
    using pos ex(1) v by (force simp: reject_non_positive_margin_for_exchanges_in_use_def)
  then show ?thesis using ex v by (auto simp: liquidation_level_or_log_def)
qed

section \<open>Strategy and account checks\<close>

definition GMO_FX_LEVERAGE :: decimal where "GMO_FX_LEVERAGE = 10"

definition FX_NEW_EXCHANGE :: exchange where "FX_NEW_EXCHANGE = GmoFx"

datatype fx_new_mismatch_kind =
    LeverageMismatch decimal decimal
  | ExchangeMismatch exchange

record fx_new_account_mismatch =
  mm_account_name :: string
  mm_account_exchange :: string
  mm_kind :: fx_new_mismatch_kind

definition is_fx_new_strategy :: "string \<Rightarrow> bool" where
  "is_fx_new_strategy name = starts_with name ''fx_new''"

definition account_mismatches :: "trading_account \<Rightarrow> fx_new_account_mismatch list" where
  "account_mismatches a =
     (if a_leverage a \<noteq> GMO_FX_LEVERAGE
      then [\<lparr>mm_account_name = a_name a, mm_account_exchange = a_exchange a,
             mm_kind = LeverageMismatch (a_leverage a) GMO_FX_LEVERAGE\<rparr>] else [])
     @ (if exchange_from_str (a_exchange a) \<noteq> Inr FX_NEW_EXCHANGE
        then [\<lparr>mm_account_name = a_name a, mm_account_exchange = a_exchange a,
               mm_kind = ExchangeMismatch FX_NEW_EXCHANGE\<rparr>] else [])"

definition check_fx_new_account_assumptions :: "trading_account list \<Rightarrow> fx_new_account_mismatch list" where
  "check_fx_new_account_assumptions accts =
     concat (map account_mismatches (filter (\<lambda>a. a_active a \<and> is_fx_new_strategy (a_strategy a)) accts))"

definition fx_new_dispatch_allowed :: "string \<Rightarrow> exchange \<Rightarrow> bool" where
  "fx_new_dispatch_allowed strategy account_exchange \<longleftrightarrow>
     \<not> is_fx_new_strategy strategy \<or> account_exchange = FX_NEW_EXCHANGE"

definition effective_dry_run :: "string \<Rightarrow> bool \<Rightarrow> bool" where
  "effective_dry_run account_type live_forces_dry_run \<longleftrightarrow>
     account_type = ''paper'' \<or> live_forces_dry_run"

text \<open>The alerts for the mismatches; the bodies carry the fixed part of their text.\<close>

definition resolve_notify_exchange :: "string \<Rightarrow> exchange" where
  "resolve_notify_exchange s = (case exchange_from_str s of Inr ex \<Rightarrow> ex | Inl _ \<Rightarrow> FX_NEW_EXCHANGE)"

definition mismatch_alert :: "fx_new_account_mismatch \<Rightarrow> notify_event" where
  "mismatch_alert m =
     (let ex = resolve_notify_exchange (mm_account_exchange m) in
      case mm_kind m of
        LeverageMismatch got expected \<Rightarrow>
          SystemAlert ''fx_new leverage mismatch'' (mm_account_name m) ex
            ''risk sizing is wrong for this account until leverage is corrected''
      | ExchangeMismatch expected \<Rightarrow>
          SystemAlert ''fx_new exchange mismatch'' (mm_account_name m) ex
            ''no order will be placed for the account until the exchange is corrected'')"

definition alert_mismatches :: "trading_account list \<Rightarrow> ('x, unit) io" where
  "alert_mismatches accts =
     forE (check_fx_new_account_assumptions accts) (\<lambda>m. spawn_notification (mismatch_alert m))"

definition has_gmo_paper_account :: "trading_account list \<Rightarrow> bool" where
  "has_gmo_paper_account = list_ex (\<lambda>a. a_exchange a = ''gmo_fx'' \<and> a_account_type a = ''paper'')"

definition is_registered :: "string list \<Rightarrow> string \<Rightarrow> bool" where
  "is_registered registered strategy = (strategy \<in> set registered)"

record account_setup =
  as_db_accounts :: "trading_account list"
  as_live :: live_flags
  as_liquidation_levels :: "exchange \<rightharpoonup> decimal"
  as_position_sizer :: position_sizer
  as_price_freshness_secs :: nat

definition load_accounts :: "'x environment \<Rightarrow> ('x, trading_account list) io" where
  "load_accounts env =
     bindE (attempt (dbE env list_active_or_with_open_trades)) (\<lambda>r.
     case r of Inr v \<Rightarrow> returnE v
     | Inl e \<Rightarrow> failE (Anyhow ''failed to list trading accounts at startup; refusing to start''))"

definition resolve_account_setup ::
  "'x environment \<Rightarrow> (string \<rightharpoonup> string) \<Rightarrow> app_config \<Rightarrow> ('x, account_setup) io" where
  "resolve_account_setup env env_var config =
     bindE (load_accounts env) (\<lambda>accts.
     bindE (liftR (resolve_exchange_liquidation_levels accts config)) (\<lambda>levels.
     bindE (alert_mismatches accts) (\<lambda>_.
     let risk = (case cf_risk config of None \<Rightarrow> risk_default | Some r \<Rightarrow> r) in
     returnE \<lparr>as_db_accounts = accts, as_live = resolve_live_flags env_var config,
       as_liquidation_levels = levels,
       as_position_sizer = build_position_sizer (cf_pair_config config) (rk_sizing_margin_buffer risk),
       as_price_freshness_secs = rk_price_freshness_secs risk\<rparr>)))"

section \<open>Expected feeds\<close>

definition push_expected_feeds :: "feed_key list \<Rightarrow> exchange \<Rightarrow> pair list \<Rightarrow> feed_key list" where
  "push_expected_feeds feeds ex pairs =
     feeds @ map (\<lambda>p. \<lparr>fk_exchange = ex, fk_pair = p\<rparr>) pairs"

fun group_pairs_by_exchange :: "feed_key list \<Rightarrow> (exchange \<rightharpoonup> string set) \<Rightarrow> (exchange \<rightharpoonup> string set)" where
  "group_pairs_by_exchange [] m = m"
| "group_pairs_by_exchange (k # ks) m =
     group_pairs_by_exchange ks
       (m(fk_exchange k \<mapsto> insert (fk_pair k) (case m (fk_exchange k) of None \<Rightarrow> {} | Some s \<Rightarrow> s)))"

section \<open>Accounts of trades\<close>

text \<open>The printed form of an identifier is the argument \<open>uuid_text\<close>.\<close>

record trade_account =
  ta_account_type :: string
  ta_account_name :: string

definition name_or_id :: "(uuid \<Rightarrow> string) \<Rightarrow> string option \<Rightarrow> uuid \<Rightarrow> string" where
  "name_or_id uuid_text name aid = (case name of Some n \<Rightarrow> n | None \<Rightarrow> uuid_text aid)"

definition resolve_trade_account :: "(uuid \<Rightarrow> string) \<Rightarrow> open_trade_with_account \<Rightarrow> trade_account option" where
  "resolve_trade_account uuid_text owned =
     (case ot_account_type owned of
        None \<Rightarrow> None
      | Some ty \<Rightarrow> Some \<lparr>ta_account_type = ty,
          ta_account_name = name_or_id uuid_text (ot_account_name owned) (t_account_id (ot_trade owned))\<rparr>)"

definition resolve_account_exchange :: "trading_account \<Rightarrow> exchange option" where
  "resolve_account_exchange a =
     (case exchange_from_str (a_exchange a) of Inr ex \<Rightarrow> Some ex | Inl _ \<Rightarrow> None)"

section \<open>Market regime\<close>

datatype market_regime = Trend | Range | HighVol | EventWindow

fun regime_as_str :: "market_regime \<Rightarrow> string" where
  "regime_as_str Trend = ''trend''"
| "regime_as_str Range = ''range''"
| "regime_as_str HighVol = ''high_vol''"
| "regime_as_str EventWindow = ''event_window''"

definition classify_regime :: "(string \<rightharpoonup> decimal) \<Rightarrow> market_regime" where
  "classify_regime indicators =
     (case (indicators ''atr_percentile'', indicators ''adx_14'') of
        (pct, adx) \<Rightarrow>
          if (case pct of Some p \<Rightarrow> p > 80 | None \<Rightarrow> False) then HighVol
          else if (case adx of Some a \<Rightarrow> a > 25 | None \<Rightarrow> False) then Trend
          else Range)"

lemma regime_never_event_window: "classify_regime ind \<noteq> EventWindow"
  by (simp add: classify_regime_def)

section \<open>A run of the startup resolution\<close>

definition demo_margins :: "(string \<times> exchange_margin_config) list" where
  "demo_margins = [(''gmo_fx'', \<lparr>em_liquidation_margin_level = 1\<rparr>), (''oanda'', \<lparr>em_liquidation_margin_level = 0\<rparr>)]"

definition demo_config :: app_config where
  "demo_config =
     \<lparr>cf_oanda = None, cf_bitflyer = None, cf_vegapunk = \<lparr>vc_endpoint = [], vc_schema = []\<rparr>,
      cf_database = \<lparr>dc_url = []\<rparr>, cf_monitor = \<lparr>mc_interval_secs = 60, mc_backfill_days = None\<rparr>,
      cf_pairs = \<lparr>pc_fx = [''USD_JPY''], pc_crypto = None, pc_active = []\<rparr>, cf_pair_config = Map.empty,
      cf_position_sizing = None, cf_strategies = [], cf_macro_analyst = None, cf_gemini = None,
      cf_live = None, cf_risk = None, cf_exchange_margin = demo_margins, cf_gmo_fx = gmo_fx_default,
      cf_feed_watchdog = feed_watchdog_default\<rparr>"

definition demo_gmo_account :: trading_account where
  "demo_gmo_account = \<lparr>a_id = 1, a_name = ''demo'', a_account_type = ''paper'', a_exchange = ''gmo_fx'',
     a_strategy = ''s'', a_initial_balance = 100000, a_current_balance = 100000, a_leverage = 10,
     a_currency = ''JPY'', a_created_at = 0, a_active = True\<rparr>"

theorem startup_levels_serve_accounts_witness:
  "\<exists>levels. resolve_exchange_liquidation_levels [demo_gmo_account] demo_config = Inr levels
     \<and> (\<exists>ex level. exchange_from_str (a_exchange demo_gmo_account) = Inr ex
        \<and> liquidation_level_or_log levels ex = Some level \<and> 0 < level)"
proof -
  have "resolve_exchange_liquidation_levels [demo_gmo_account] demo_config = Inr [GmoFx \<mapsto> 1, Oanda \<mapsto> 0]"
    by (simp add: resolve_exchange_liquidation_levels_def demo_gmo_account_def demo_config_def demo_margins_def
        exchange_from_str_def reject_non_positive_margin_for_exchanges_in_use_def ensure_def)
  from startup_levels_serve_accounts [OF this, of demo_gmo_account] this show ?thesis by auto
qed

end
