(* ===== verification/Margin_Monitor.thy ===== *)
theory Margin_Monitor
  imports Startup Trader
begin

text \<open>
  Detection of the accounts to force-close and of the margin alerts (\<open>app/src/positions.rs\<close>,
  \<open>liquidation.rs\<close>, \<open>margin_alert.rs\<close>), called for every price event by the position monitor.
  The buckets of trades per account are a \<open>HashMap\<close>: the order in which it is iterated is
  \<open>lc_bucket_order\<close>. The cache of prices lives for one call.
\<close>

section \<open>Positions at their close side\<close>

type_synonym price_cache = "feed_key \<rightharpoonup> (decimal \<times> decimal) option"

definition feed_key_of :: "trade \<Rightarrow> feed_key" where
  "feed_key_of t = \<lparr>fk_exchange = t_exchange t, fk_pair = t_pair t\<rparr>"

definition cached_bid_ask ::
  "'x environment \<Rightarrow> feed_key \<Rightarrow> price_cache \<Rightarrow> ('x, (decimal \<times> decimal) option \<times> price_cache) io" where
  "cached_bid_ask env key cache =
     (case cache key of
        Some v \<Rightarrow> returnE (v, cache)
      | None \<Rightarrow> bindE (askW (\<lambda>w. store_bid_ask (env_prices env (w_out w)) key)) (\<lambda>v.
          returnE (v, cache(key \<mapsto> v))))"

definition close_side_position :: "trade \<Rightarrow> decimal \<times> decimal \<Rightarrow> open_position" where
  "close_side_position t q =
     \<lparr>op_direction = t_direction t, op_entry_price = t_entry_price t,
      op_current_price = (case t_direction t of Long \<Rightarrow> fst q | Short \<Rightarrow> snd q),
      op_quantity = t_quantity t, op_leverage = t_leverage t\<rparr>"

fun build_close_side_positions ::
  "'x environment \<Rightarrow> trade list \<Rightarrow> price_cache \<Rightarrow> ('x, open_position list option \<times> price_cache) io" where
  "build_close_side_positions env [] cache = returnE (Some [], cache)"
| "build_close_side_positions env (t # ts) cache =
     bindE (cached_bid_ask env (feed_key_of t) cache) (\<lambda>(bid_ask, cache).
     case bid_ask of
       None \<Rightarrow> returnE (None, cache)
     | Some q \<Rightarrow>
         bindE (build_close_side_positions env ts cache) (\<lambda>(ps, cache).
         returnE (map_option (\<lambda>ps. close_side_position t q # ps) ps, cache)))"

section \<open>Liquidation targets\<close>

record liquidation_context =
  lc_exchange_liquidation_levels :: "exchange \<rightharpoonup> decimal"
  lc_live_forces_dry_run :: bool
  lc_bucket_order :: "uuid list \<Rightarrow> uuid list"

definition is_below_liquidation_threshold :: "decimal \<Rightarrow> decimal \<Rightarrow> bool" where
  "is_below_liquidation_threshold ratio threshold \<longleftrightarrow> ratio < threshold"

type_synonym buckets = "uuid \<rightharpoonup> open_trade_with_account list"

definition push_bucket :: "buckets \<Rightarrow> open_trade_with_account \<Rightarrow> buckets" where
  "push_bucket m owned =
     (let aid = t_account_id (ot_trade owned) in
      m(aid \<mapsto> (case m aid of None \<Rightarrow> [] | Some b \<Rightarrow> b) @ [owned]))"

definition group_open_trades_by_account :: "open_trade_with_account list \<Rightarrow> exchange \<Rightarrow> buckets" where
  "group_open_trades_by_account open_trades ex =
     foldl push_bucket Map.empty (filter (\<lambda>t. t_exchange (ot_trade t) = ex) open_trades)"

text \<open>The entries of the map in its iteration order.\<close>

definition bucket_entries ::
  "liquidation_context \<Rightarrow> open_trade_with_account list \<Rightarrow> exchange
    \<Rightarrow> (uuid \<times> open_trade_with_account list) list" where
  "bucket_entries lc open_trades ex =
     (let m = group_open_trades_by_account open_trades ex;
          ids = remdups (map (\<lambda>t. t_account_id (ot_trade t))
                  (filter (\<lambda>t. t_exchange (ot_trade t) = ex) open_trades))
      in concat (map (\<lambda>aid. case m aid of None \<Rightarrow> [] | Some b \<Rightarrow> [(aid, b)]) (lc_bucket_order lc ids)))"

definition is_dry_run_bucket :: "open_trade_with_account list \<Rightarrow> bool \<Rightarrow> bool" where
  "is_dry_run_bucket trades_in_account live_forces_dry_run =
     (let account_type = (case trades_in_account of [] \<Rightarrow> None | t # _ \<Rightarrow> ot_account_type t) in
      effective_dry_run (unwrap_or account_type ''paper'') live_forces_dry_run)"

definition liquidation_ratio_for_account ::
  "rounding \<Rightarrow> 'x environment \<Rightarrow> uuid \<Rightarrow> open_trade_with_account list \<Rightarrow> price_cache
    \<Rightarrow> ('x, decimal option \<times> price_cache) io" where
  "liquidation_ratio_for_account rnd env aid trades_in_account cache =
     bindE (attempt (dbE env (get_account aid))) (\<lambda>r.
     case r of
       Inl _ \<Rightarrow> returnE (None, cache)
     | Inr None \<Rightarrow> returnE (None, cache)
     | Inr (Some account) \<Rightarrow>
         bindE (build_close_side_positions env (map ot_trade trades_in_account) cache) (\<lambda>(ps, cache).
         case ps of
           None \<Rightarrow> returnE (None, cache)
         | Some positions \<Rightarrow>
             bindE (liftR (compute_maintenance_ratio rnd (a_current_balance account) positions)) (\<lambda>ratio.
             returnE (ratio, cache))))"

definition detect_bucket ::
  "rounding \<Rightarrow> 'x environment \<Rightarrow> liquidation_context \<Rightarrow> decimal
    \<Rightarrow> price_cache \<times> (uuid \<times> uuid list) list \<Rightarrow> uuid \<times> open_trade_with_account list
    \<Rightarrow> ('x, price_cache \<times> (uuid \<times> uuid list) list) io" where
  "detect_bucket rnd env lc threshold = (\<lambda>(cache, results) (aid, trades_in_account).
     if \<not> is_dry_run_bucket trades_in_account (lc_live_forces_dry_run lc) then returnE (cache, results)
     else
     bindE (liquidation_ratio_for_account rnd env aid trades_in_account cache) (\<lambda>(r, cache).
     case r of
       None \<Rightarrow> returnE (cache, results)
     | Some ratio \<Rightarrow>
         if is_below_liquidation_threshold ratio threshold
         then returnE (cache, results @ [(aid, map (\<lambda>t. t_id (ot_trade t)) trades_in_account)])
         else returnE (cache, results)))"

definition detect_liquidation_targets ::
  "rounding \<Rightarrow> 'x environment \<Rightarrow> liquidation_context \<Rightarrow> open_trade_with_account list \<Rightarrow> price_event
    \<Rightarrow> ('x, (uuid \<times> uuid list) list) io" where
  "detect_liquidation_targets rnd env lc open_trades e =
     (case lc_exchange_liquidation_levels lc (e_exchange e) of
        None \<Rightarrow> returnE []
      | Some threshold \<Rightarrow>
          bindE (foldE (detect_bucket rnd env lc threshold) (Map.empty, [])
            (bucket_entries lc open_trades (e_exchange e))) (\<lambda>(_, results). returnE results))"

section \<open>Margin alerts\<close>

definition CRITICAL_MAINTENANCE_RATIO_MULTIPLIER :: decimal where
  "CRITICAL_MAINTENANCE_RATIO_MULTIPLIER = 11 / 10"
definition WARN_MAINTENANCE_RATIO_MULTIPLIER :: decimal where
  "WARN_MAINTENANCE_RATIO_MULTIPLIER = 13 / 10"

datatype alert_level = Warn | Critical

fun alert_level_as_str :: "alert_level \<Rightarrow> string" where
  "alert_level_as_str Warn = ''warn''"
| "alert_level_as_str Critical = ''critical''"

record margin_alert =
  al_account_id :: uuid
  al_account_name :: string
  al_ratio :: decimal
  al_threshold :: decimal
  al_level :: alert_level

definition classify_alert_level :: "rounding \<Rightarrow> decimal \<Rightarrow> decimal \<Rightarrow> alert_level option" where
  "classify_alert_level rnd ratio liquidation_level =
     (let critical = dmul rnd liquidation_level CRITICAL_MAINTENANCE_RATIO_MULTIPLIER;
          warn = dmul rnd liquidation_level WARN_MAINTENANCE_RATIO_MULTIPLIER
      in if ratio < critical then Some Critical else if ratio < warn then Some Warn else None)"

definition build_margin_alert ::
  "rounding \<Rightarrow> 'x environment \<Rightarrow> uuid \<Rightarrow> open_trade_with_account list \<Rightarrow> decimal \<Rightarrow> decimal
    \<Rightarrow> margin_alert option" where
  "build_margin_alert rnd env aid trades_in_account ratio threshold =
     (case classify_alert_level rnd ratio threshold of
        None \<Rightarrow> None
      | Some level \<Rightarrow>
          let name = (case trades_in_account of [] \<Rightarrow> None | t # _ \<Rightarrow> ot_account_name t) in
          Some \<lparr>al_account_id = aid, al_account_name = name_or_id (env_uuid_text env) name aid,
                al_ratio = ratio, al_threshold = threshold, al_level = level\<rparr>)"

text \<open>The function of \<open>margin_alert.rs\<close> repeats the body of \<open>liquidation_ratio_for_account\<close>.\<close>

definition maintenance_ratio_for_account ::
  "rounding \<Rightarrow> 'x environment \<Rightarrow> uuid \<Rightarrow> open_trade_with_account list \<Rightarrow> price_cache
    \<Rightarrow> ('x, decimal option \<times> price_cache) io" where
  "maintenance_ratio_for_account = liquidation_ratio_for_account"

definition alert_bucket ::
  "rounding \<Rightarrow> 'x environment \<Rightarrow> liquidation_context \<Rightarrow> decimal
    \<Rightarrow> price_cache \<times> margin_alert list \<Rightarrow> uuid \<times> open_trade_with_account list
    \<Rightarrow> ('x, price_cache \<times> margin_alert list) io" where
  "alert_bucket rnd env lc threshold = (\<lambda>(cache, results) (aid, trades_in_account).
     if is_dry_run_bucket trades_in_account (lc_live_forces_dry_run lc) then returnE (cache, results)
     else
     bindE (maintenance_ratio_for_account rnd env aid trades_in_account cache) (\<lambda>(r, cache).
     case r of
       None \<Rightarrow> returnE (cache, results)
     | Some ratio \<Rightarrow>
         (case build_margin_alert rnd env aid trades_in_account ratio threshold of
            None \<Rightarrow> returnE (cache, results)
          | Some alert \<Rightarrow> returnE (cache, results @ [alert]))))"

definition detect_margin_alerts ::
  "rounding \<Rightarrow> 'x environment \<Rightarrow> liquidation_context \<Rightarrow> open_trade_with_account list \<Rightarrow> price_event
    \<Rightarrow> ('x, margin_alert list) io" where
  "detect_margin_alerts rnd env lc open_trades e =
     (case lc_exchange_liquidation_levels lc (e_exchange e) of
        None \<Rightarrow> returnE []
      | Some threshold \<Rightarrow>
          bindE (foldE (alert_bucket rnd env lc threshold) (Map.empty, [])
            (bucket_entries lc open_trades (e_exchange e))) (\<lambda>(_, results). returnE results))"

end
