(* ===== verification/Monitors.thy ===== *)
theory Monitors
  imports Margin_Monitor
begin

text \<open>
  The tasks that close trades: the closer (\<open>app/src/closer.rs\<close>), the position monitor run for
  every price event (\<open>runtime/crypto_monitor.rs\<close>), the executor of strategy exits
  (\<open>runtime/exit_executor.rs\<close>) and the detection of executed stop orders (\<open>stop_fill.rs\<close>).
  Log lines are not modelled; a failure that the code only logs is a normal return here.
\<close>

section \<open>Closing a trade\<close>

record 'x close_context =
  cx_apis :: "exchange \<rightharpoonup> 'x exchange_api"
  cx_position_sizer :: position_sizer
  cx_liquidation_levels :: "exchange \<rightharpoonup> decimal"

definition resolve_close_api :: "'x close_context \<Rightarrow> trade \<Rightarrow> bool \<Rightarrow> 'x exchange_api option" where
  "resolve_close_api cx t dry_run =
     (case cx_apis cx (t_exchange t) of
        Some a \<Rightarrow> Some a
      | None \<Rightarrow> if \<not> dry_run then None else Some null_exchange_api)"

definition publish_closed_trade ::
  "'x environment \<Rightarrow> trade \<Rightarrow> decimal \<Rightarrow> exit_reason \<Rightarrow> string \<Rightarrow> ('x, unit) io" where
  "publish_closed_trade env closed_trade current_price exit_reason account_type =
     (let exit_price = unwrap_or (t_exit_price closed_trade) current_price in
      bindE (attempt (send_trade_event env
        \<lparr>te_trade = closed_trade, te_action = ClosedAt exit_price exit_reason,
         te_account_type = Some account_type\<rparr>)) (\<lambda>_. returnE ()))"

definition close_trade ::
  "rounding \<Rightarrow> 'x environment \<Rightarrow> 'x close_context \<Rightarrow> trade \<Rightarrow> string \<Rightarrow> string \<Rightarrow> bool \<Rightarrow> exit_reason
    \<Rightarrow> decimal \<Rightarrow> ('x, unit) io" where
  "close_trade rnd env cx t account_name account_type dry_run exit_reason current_price =
     (case resolve_close_api cx t dry_run of
        None \<Rightarrow> returnE ()
      | Some api \<Rightarrow>
          (case liquidation_level_or_log (cx_liquidation_levels cx) (t_exchange t) of
             None \<Rightarrow> returnE ()
           | Some level \<Rightarrow>
               let tr = trader_new (t_exchange t) (t_account_id t) account_name api
                     (cx_position_sizer cx) level dry_run in
               bindE (attempt (close_position rnd env tr (t_id t) exit_reason)) (\<lambda>r.
               case r of
                 Inr closed_trade \<Rightarrow> publish_closed_trade env closed_trade current_price exit_reason account_type
               | Inl _ \<Rightarrow> returnE ())))"

section \<open>The position monitor\<close>

type_synonym margin_alert_cooldowns = "uuid \<times> string \<rightharpoonup> int"

definition MARGIN_ALERT_COOLDOWN :: int where "MARGIN_ALERT_COOLDOWN = secs 1800"

definition close_one_target ::
  "rounding \<Rightarrow> 'x environment \<Rightarrow> 'x close_context \<Rightarrow> open_trade_with_account list \<Rightarrow> decimal \<Rightarrow> uuid
    \<Rightarrow> uuid \<Rightarrow> ('x, unit) io" where
  "close_one_target rnd env cx open_trades current_price account_id trade_id =
     (case find (\<lambda>t. t_id (ot_trade t) = trade_id) open_trades of
        None \<Rightarrow> returnE ()
      | Some owned \<Rightarrow>
          close_trade rnd env cx (ot_trade owned)
            (name_or_id (env_uuid_text env) (ot_account_name owned) account_id)
            (unwrap_or (ot_account_type owned) ''paper'') True Liquidation current_price)"

definition close_liquidation_targets ::
  "rounding \<Rightarrow> 'x environment \<Rightarrow> 'x close_context \<Rightarrow> liquidation_context \<Rightarrow> open_trade_with_account list
    \<Rightarrow> price_event \<Rightarrow> decimal \<Rightarrow> ('x, unit) io" where
  "close_liquidation_targets rnd env cx lc open_trades e current_price =
     bindE (detect_liquidation_targets rnd env lc open_trades e) (\<lambda>liq_targets.
     forE liq_targets (\<lambda>(account_id, trade_ids).
       forE trade_ids (close_one_target rnd env cx open_trades current_price account_id)))"

text \<open>The body of the alert carries the fixed part of its text.\<close>

definition margin_alert_event :: "price_event \<Rightarrow> margin_alert \<Rightarrow> notify_event" where
  "margin_alert_event e alert =
     SystemAlert (''margin '' @ alert_level_as_str (al_level alert)) (al_account_name alert) (e_exchange e)
       ''maintenance ratio approaching liquidation level''"

definition send_margin_alert ::
  "'x environment \<Rightarrow> price_event \<Rightarrow> margin_alert_cooldowns \<Rightarrow> margin_alert
    \<Rightarrow> ('x, margin_alert_cooldowns) io" where
  "send_margin_alert env e last_sent alert =
     (let key = (al_account_id alert, alert_level_as_str (al_level alert)) in
      bindE (askW (\<lambda>w. env_instant env (w_out w))) (\<lambda>now.
      let should_send = (case last_sent key of
            None \<Rightarrow> True | Some sent_at \<Rightarrow> max 0 (now - sent_at) > MARGIN_ALERT_COOLDOWN) in
      if \<not> should_send then returnE last_sent
      else bindE (spawn_notification (margin_alert_event e alert)) (\<lambda>_.
        returnE (last_sent(key \<mapsto> now)))))"

definition send_margin_alerts ::
  "rounding \<Rightarrow> 'x environment \<Rightarrow> liquidation_context \<Rightarrow> open_trade_with_account list \<Rightarrow> price_event
    \<Rightarrow> margin_alert_cooldowns \<Rightarrow> ('x, margin_alert_cooldowns) io" where
  "send_margin_alerts rnd env lc open_trades e last_sent =
     bindE (detect_margin_alerts rnd env lc open_trades e) (\<lambda>margin_alerts.
     foldE (send_margin_alert env e) last_sent margin_alerts)"

definition detect_exit_reason ::
  "direction \<Rightarrow> decimal \<Rightarrow> decimal \<Rightarrow> decimal option \<Rightarrow> datetime option \<Rightarrow> datetime
    \<Rightarrow> exit_reason option" where
  "detect_exit_reason direction current_price stop_loss take_profit max_hold_until now =
     (let time_limit_hit = (case max_hold_until of None \<Rightarrow> False | Some deadline \<Rightarrow> now \<ge> deadline);
          hit = (case direction of
            Long \<Rightarrow>
              (if current_price \<le> stop_loss then Some SlHit
               else if (case take_profit of None \<Rightarrow> False | Some tp \<Rightarrow> current_price \<ge> tp) then Some TpHit
               else None)
          | Short \<Rightarrow>
              (if current_price \<ge> stop_loss then Some SlHit
               else if (case take_profit of None \<Rightarrow> False | Some tp \<Rightarrow> current_price \<le> tp) then Some TpHit
               else None))
      in case hit of Some r \<Rightarrow> Some r
         | None \<Rightarrow> if time_limit_hit then Some StrategyTimeLimit else None)"

definition close_trade_if_exit_due ::
  "rounding \<Rightarrow> 'x environment \<Rightarrow> 'x close_context \<Rightarrow> bool \<Rightarrow> price_event \<Rightarrow> decimal
    \<Rightarrow> open_trade_with_account \<Rightarrow> ('x, unit) io" where
  "close_trade_if_exit_due rnd env cx live_forces_dry_run e current_price owned =
     (let t = ot_trade owned in
      if t_exchange t \<noteq> e_exchange e \<or> t_pair t \<noteq> e_pair e then returnE ()
      else case resolve_trade_account (env_uuid_text env) owned of
        None \<Rightarrow> returnE ()
      | Some account \<Rightarrow>
          let dry_run = effective_dry_run (ta_account_type account) live_forces_dry_run in
          bindE (utc_now env) (\<lambda>now.
          case detect_exit_reason (t_direction t) current_price (t_stop_loss t) (t_take_profit t)
                 (t_max_hold_until t) now of
            None \<Rightarrow> returnE ()
          | Some reason \<Rightarrow>
              close_trade rnd env cx t (ta_account_name account) (ta_account_type account) dry_run
                reason current_price))"

definition process_price_event ::
  "rounding \<Rightarrow> 'x environment \<Rightarrow> 'x close_context \<Rightarrow> liquidation_context \<Rightarrow> bool
    \<Rightarrow> margin_alert_cooldowns \<Rightarrow> price_event \<Rightarrow> ('x, margin_alert_cooldowns) io" where
  "process_price_event rnd env cx lc live_forces_dry_run last_sent e =
     (let current_price = c_close (e_candle e) in
      bindE (attempt (dbE env list_open_with_account_name)) (\<lambda>r.
      case r of
        Inl _ \<Rightarrow> returnE last_sent
      | Inr open_trades \<Rightarrow>
          bindE (close_liquidation_targets rnd env cx lc open_trades e current_price) (\<lambda>_.
          bindE (send_margin_alerts rnd env lc open_trades e last_sent) (\<lambda>last_sent.
          bindE (forE open_trades
            (close_trade_if_exit_due rnd env cx live_forces_dry_run e current_price)) (\<lambda>_.
          returnE last_sent)))))"

text \<open>\<open>run\<close> over the events received until the channel closes.\<close>

definition run_position_monitor ::
  "rounding \<Rightarrow> 'x environment \<Rightarrow> 'x close_context \<Rightarrow> bool \<Rightarrow> (uuid list \<Rightarrow> uuid list) \<Rightarrow> price_event list
    \<Rightarrow> ('x, margin_alert_cooldowns) io" where
  "run_position_monitor rnd env cx live_forces_dry_run bucket_order price_rx =
     (let lc = \<lparr>lc_exchange_liquidation_levels = cx_liquidation_levels cx,
                lc_live_forces_dry_run = live_forces_dry_run, lc_bucket_order = bucket_order\<rparr> in
      foldE (process_price_event rnd env cx lc live_forces_dry_run) Map.empty price_rx)"

section \<open>The executor of strategy exits\<close>

definition load_exit_target ::
  "'x environment \<Rightarrow> exit_signal \<Rightarrow> ('x, (trade \<times> trade_account) option) io" where
  "load_exit_target env x =
     bindE (attempt (dbE env (get_open_trade_with_account (x_trade_id x)))) (\<lambda>r.
     case r of
       Inr (Some owned) \<Rightarrow>
         returnE (map_option (\<lambda>account. (ot_trade owned, account))
           (resolve_trade_account (env_uuid_text env) owned))
     | Inr None \<Rightarrow> returnE None
     | Inl _ \<Rightarrow> returnE None)"

definition build_exit_trader ::
  "'x close_context \<Rightarrow> trade \<Rightarrow> string \<Rightarrow> 'x exchange_api \<Rightarrow> bool \<Rightarrow> 'x trader option" where
  "build_exit_trader cx t account_name api dry_run =
     map_option (\<lambda>level. trader_new (t_exchange t) (t_account_id t) account_name api
         (cx_position_sizer cx) level dry_run)
       (liquidation_level_or_log (cx_liquidation_levels cx) (t_exchange t))"

definition publish_strategy_exit_close ::
  "'x environment \<Rightarrow> trade \<Rightarrow> string \<Rightarrow> exit_signal \<Rightarrow> exit_reason \<Rightarrow> ('x, unit) io" where
  "publish_strategy_exit_close env c account_type x reason =
     (let exit_price = unwrap_or (t_exit_price c) (x_close_price x) in
      bindE (attempt (send_trade_event env
        \<lparr>te_trade = c, te_action = ClosedAt exit_price reason,
         te_account_type = Some account_type\<rparr>)) (\<lambda>_. returnE ()))"

definition handle_close_position_result ::
  "rounding \<Rightarrow> 'x environment \<Rightarrow> trade \<Rightarrow> string \<Rightarrow> 'x trader \<Rightarrow> exit_signal \<Rightarrow> ('x, unit) io" where
  "handle_close_position_result rnd env t account_type tr x =
     (let reason = to_exit_reason (x_reason x) in
      bindE (attempt (close_position rnd env tr (t_id t) reason)) (\<lambda>r.
      case r of
        Inr c \<Rightarrow> publish_strategy_exit_close env c account_type x reason
      | Inl _ \<Rightarrow> returnE ()))"

definition process_exit ::
  "rounding \<Rightarrow> 'x environment \<Rightarrow> 'x close_context \<Rightarrow> bool \<Rightarrow> exit_signal \<Rightarrow> ('x, unit) io" where
  "process_exit rnd env cx live_forces_dry_run x =
     bindE (load_exit_target env x) (\<lambda>target.
     case target of
       None \<Rightarrow> returnE ()
     | Some (t, account) \<Rightarrow>
         let dry_run = effective_dry_run (ta_account_type account) live_forces_dry_run in
         (case resolve_close_api cx t dry_run of
            None \<Rightarrow> returnE ()
          | Some api \<Rightarrow>
              (case build_exit_trader cx t (ta_account_name account) api dry_run of
                 None \<Rightarrow> returnE ()
               | Some tr \<Rightarrow> handle_close_position_result rnd env t (ta_account_type account) tr x)))"

definition run_exit_executor ::
  "rounding \<Rightarrow> 'x environment \<Rightarrow> 'x close_context \<Rightarrow> bool \<Rightarrow> exit_signal list \<Rightarrow> ('x, unit) io" where
  "run_exit_executor rnd env cx live_forces_dry_run exit_rx =
     forE exit_rx (process_exit rnd env cx live_forces_dry_run)"

section \<open>Executed stop orders\<close>

definition is_stop_detection_target :: "open_trade_with_account \<Rightarrow> bool \<Rightarrow> bool" where
  "is_stop_detection_target t live_forces_dry_run =
     (let dry_run = effective_dry_run (unwrap_or (ot_account_type t) ''paper'') live_forces_dry_run in
      \<not> dry_run \<and> t_stop_order_id (ot_trade t) \<noteq> None)"

definition close_executed_stop ::
  "rounding \<Rightarrow> 'x environment \<Rightarrow> 'x close_context \<Rightarrow> open_trade_with_account \<Rightarrow> ('x, unit) io" where
  "close_executed_stop rnd env cx owned =
     (let t = ot_trade owned in
      bindE (askW (\<lambda>w. store_bid_ask (env_prices env (w_out w)) (feed_key_of t))) (\<lambda>q.
      close_trade rnd env cx t (unwrap_or (ot_account_name owned) ''unknown'')
        (unwrap_or (ot_account_type owned) ''live'') False SlHit
        (case q of Some (bid, _) \<Rightarrow> bid | None \<Rightarrow> t_stop_loss t)))"

definition check_stop_fill ::
  "rounding \<Rightarrow> 'x environment \<Rightarrow> 'x close_context \<Rightarrow> open_trade_with_account \<Rightarrow> ('x, unit) io" where
  "check_stop_fill rnd env cx owned =
     (let t = ot_trade owned in
      case t_stop_order_id t of
        None \<Rightarrow> returnE ()
      | Some stop_id \<Rightarrow>
          (case cx_apis cx (t_exchange t) of
             None \<Rightarrow> returnE ()
           | Some api \<Rightarrow>
               bindE (attempt (call env (\<lambda>r. ReadStop (t_pair t) stop_id (ok_value r))
                 (api_stop_order_status api (t_pair t) stop_id))) (\<lambda>r.
               case r of
                 Inr (StopExecuted price commission) \<Rightarrow> close_executed_stop rnd env cx owned
               | Inr StopActive \<Rightarrow> returnE ()
               | Inr StopGone \<Rightarrow> returnE ()
               | Inl _ \<Rightarrow> returnE ())))"

definition detect_and_close_stop_fills ::
  "rounding \<Rightarrow> 'x environment \<Rightarrow> 'x close_context \<Rightarrow> open_trade_with_account list \<Rightarrow> bool \<Rightarrow> ('x, unit) io" where
  "detect_and_close_stop_fills rnd env cx open_trades live_forces_dry_run =
     forE (filter (\<lambda>t. is_stop_detection_target t live_forces_dry_run) open_trades)
       (check_stop_fill rnd env cx)"

text \<open>One round of the loop of \<open>runtime/stop_fill_loop.rs\<close>.\<close>

definition stop_fill_round ::
  "rounding \<Rightarrow> 'x environment \<Rightarrow> 'x close_context \<Rightarrow> bool \<Rightarrow> ('x, unit) io" where
  "stop_fill_round rnd env cx live_forces_dry_run =
     bindE (attempt (dbE env list_open_with_account_name)) (\<lambda>r.
     case r of
       Inr open_trades \<Rightarrow> detect_and_close_stop_fills rnd env cx open_trades live_forces_dry_run
     | Inl _ \<Rightarrow> returnE ())"

end
