(* ===== verification/Executor_Loop.thy ===== *)
theory Executor_Loop
  imports Startup Trader Strategy_Engine
begin

text \<open>
  The executor of signals (\<open>app/src/runtime/executor_loop.rs\<close>): every signal is dispatched to
  the active accounts of its strategy that pass the gates. Log lines are not modelled. The task
  that records the entry indicators is spawned; the write and the knowledge store it talks to
  are outside the model, the document it writes is \<open>entry_indicators\<close>.
\<close>

record 'x executor_loop_context =
  ec_exchange_apis :: "exchange \<rightharpoonup> 'x exchange_api"
  ec_exchange_pairs :: "exchange \<rightharpoonup> string set"
  ec_position_sizer :: position_sizer
  ec_exchange_liquidation_levels :: "exchange \<rightharpoonup> decimal"
  ec_live_forces_dry_run :: bool
  ec_live_enabled :: bool
  ec_price_freshness_secs :: nat

definition U64_MAX :: nat where "U64_MAX = 2 ^ 64 - 1"

section \<open>Gates\<close>

definition live_order_blocked_when_live_disabled_leaving_close_paths_unaffected ::
  "string \<Rightarrow> bool \<Rightarrow> bool" where
  "live_order_blocked_when_live_disabled_leaving_close_paths_unaffected account_type live_enabled \<longleftrightarrow>
     account_type = ''live'' \<and> \<not> live_enabled"

definition check_static_account_gates ::
  "'x executor_loop_context \<Rightarrow> trading_account \<Rightarrow> signal \<Rightarrow> exchange option" where
  "check_static_account_gates cx pac sig =
     (case resolve_account_exchange pac of
        None \<Rightarrow> None
      | Some ex \<Rightarrow>
          if \<not> fx_new_dispatch_allowed (s_strategy_name sig) ex then None
          else if \<not> (case ec_exchange_pairs cx ex of None \<Rightarrow> False | Some pairs \<Rightarrow> s_pair sig \<in> pairs) then None
          else if live_order_blocked_when_live_disabled_leaving_close_paths_unaffected
                    (a_account_type pac) (ec_live_enabled cx) then None
          else Some ex)"

definition resolve_exchange_api ::
  "'x executor_loop_context \<Rightarrow> exchange \<Rightarrow> bool \<Rightarrow> 'x exchange_api option" where
  "resolve_exchange_api cx ex dry_run =
     (case ec_exchange_apis cx ex of
        Some a \<Rightarrow> Some a
      | None \<Rightarrow> if \<not> dry_run then None else Some null_exchange_api)"

definition check_price_freshness ::
  "'x environment \<Rightarrow> 'x executor_loop_context \<Rightarrow> exchange \<Rightarrow> signal \<Rightarrow> ('x, bool) io" where
  "check_price_freshness env cx ex sig =
     bindE (utc_now env) (\<lambda>now.
     bindE (askW (\<lambda>w. last_tick_age_for now (env_prices env (w_out w))
              \<lparr>fk_exchange = ex, fk_pair = s_pair sig\<rparr>)) (\<lambda>age.
     let last_tick_age = (case age of None \<Rightarrow> U64_MAX | Some a \<Rightarrow> nat a) in
     returnE (case eval_price_freshness (ec_price_freshness_secs cx) last_tick_age of
        Pass \<Rightarrow> True | Reject _ \<Rightarrow> False)))"

definition build_trader ::
  "'x executor_loop_context \<Rightarrow> trading_account \<Rightarrow> exchange \<Rightarrow> 'x exchange_api \<Rightarrow> bool \<Rightarrow> 'x trader option" where
  "build_trader cx pac ex api dry_run =
     map_option (\<lambda>level. trader_new ex (a_id pac) (a_name pac) api (ec_position_sizer cx) level dry_run)
       (liquidation_level_or_log (ec_exchange_liquidation_levels cx) ex)"

definition account_still_tradable :: "trading_account option \<Rightarrow> bool" where
  "account_still_tradable account = (case account of None \<Rightarrow> False | Some a \<Rightarrow> a_active a)"

definition reconfirm_account_active_before_marking_dispatched ::
  "'x environment \<Rightarrow> trading_account \<Rightarrow> ('x, bool) io" where
  "reconfirm_account_active_before_marking_dispatched env pac =
     bindE (dbE env (get_account (a_id pac))) (\<lambda>account_now.
     returnE (account_still_tradable account_now))"

section \<open>Execution\<close>

definition account_has_open_position ::
  "'x environment \<Rightarrow> 'x trader \<Rightarrow> signal \<Rightarrow> ('x, bool) io" where
  "account_has_open_position env tr sig =
     bindE (attempt (open_positions env tr)) (\<lambda>r.
     let positions = (case r of Inr ps \<Rightarrow> ps | Inl _ \<Rightarrow> []) in
     returnE (list_ex (\<lambda>p. t_strategy_name p = s_strategy_name sig \<and> t_pair p = s_pair sig) positions))"

text \<open>The JSON object with every indicator in its printed form (\<open>dec_text\<close>) and the regime.\<close>

definition entry_indicators :: "(decimal \<Rightarrow> string) \<Rightarrow> (string \<rightharpoonup> decimal) \<Rightarrow> (string \<rightharpoonup> string)" where
  "entry_indicators dec_text indicators =
     (\<lambda>k. map_option dec_text (indicators k))(''regime'' \<mapsto> regime_as_str (classify_regime indicators))"

definition publish_opened_trade ::
  "'x environment \<Rightarrow> trading_account \<Rightarrow> signal_event \<Rightarrow> trade \<Rightarrow> ('x, unit) io" where
  "publish_opened_trade env pac se t =
     bindE (spawn_trade_open_recording t (se_indicators se) (s_allocation_pct (se_signal se))) (\<lambda>_.
     bindE (attempt (send_trade_event env
       \<lparr>te_trade = t, te_action = Opened, te_account_type = Some (a_account_type pac)\<rparr>)) (\<lambda>_.
     returnE ()))"

definition execute_and_record ::
  "rounding \<Rightarrow> 'x environment \<Rightarrow> trading_account \<Rightarrow> signal_event \<Rightarrow> 'x trader \<Rightarrow> ('x, unit) io" where
  "execute_and_record rnd env pac se tr =
     bindE (account_has_open_position env tr (se_signal se)) (\<lambda>has_position.
     if has_position then returnE ()
     else bindE (attempt (execute rnd env tr (se_signal se))) (\<lambda>r.
       case r of
         Inr t \<Rightarrow> publish_opened_trade env pac se t
       | Inl _ \<Rightarrow> returnE ()))"

section \<open>Dispatch\<close>

definition dispatch_to_account ::
  "rounding \<Rightarrow> 'x environment \<Rightarrow> 'x executor_loop_context \<Rightarrow> trading_account \<Rightarrow> signal_event
    \<Rightarrow> ('x, bool) io" where
  "dispatch_to_account rnd env cx pac se =
     (let sig = se_signal se in
      case check_static_account_gates cx pac sig of
        None \<Rightarrow> returnE False
      | Some ex \<Rightarrow>
          let dry_run = effective_dry_run (a_account_type pac) (ec_live_forces_dry_run cx) in
          (case resolve_exchange_api cx ex dry_run of
             None \<Rightarrow> returnE False
           | Some api \<Rightarrow>
               bindE (check_price_freshness env cx ex sig) (\<lambda>fresh.
               if \<not> fresh then returnE False
               else case build_trader cx pac ex api dry_run of
                 None \<Rightarrow> returnE False
               | Some tr \<Rightarrow>
                   bindE (attempt (reconfirm_account_active_before_marking_dispatched env pac)) (\<lambda>r.
                   case r of
                     Inr True \<Rightarrow> bindE (execute_and_record rnd env pac se tr) (\<lambda>_. returnE True)
                   | Inr False \<Rightarrow> returnE False
                   | Inl _ \<Rightarrow> returnE False))))"

definition dispatch_step ::
  "rounding \<Rightarrow> 'x environment \<Rightarrow> 'x executor_loop_context \<Rightarrow> signal_event \<Rightarrow> bool \<times> bool
    \<Rightarrow> trading_account \<Rightarrow> ('x, bool \<times> bool) io" where
  "dispatch_step rnd env cx se = (\<lambda>(matched_strategy, dispatched) pac.
     if a_strategy pac \<noteq> s_strategy_name (se_signal se) then returnE (matched_strategy, dispatched)
     else bindE (dispatch_to_account rnd env cx pac se) (\<lambda>b. returnE (True, dispatched \<or> b)))"

definition dispatch_to_matching_accounts ::
  "rounding \<Rightarrow> 'x environment \<Rightarrow> 'x executor_loop_context \<Rightarrow> trading_account list \<Rightarrow> signal_event
    \<Rightarrow> ('x, bool \<times> bool) io" where
  "dispatch_to_matching_accounts rnd env cx accts se =
     foldE (dispatch_step rnd env cx se) (False, False) accts"

definition process_signal ::
  "rounding \<Rightarrow> 'x environment \<Rightarrow> 'x executor_loop_context \<Rightarrow> signal_event \<Rightarrow> ('x, unit) io" where
  "process_signal rnd env cx se =
     bindE (attempt (dbE env list_active)) (\<lambda>r.
     case r of
       Inl _ \<Rightarrow> returnE ()
     | Inr accts \<Rightarrow>
         bindE (dispatch_to_matching_accounts rnd env cx accts se) (\<lambda>_. returnE ()))"

definition run_executor ::
  "rounding \<Rightarrow> 'x environment \<Rightarrow> 'x executor_loop_context \<Rightarrow> signal_event list \<Rightarrow> ('x, unit) io" where
  "run_executor rnd env cx signal_rx = forE signal_rx (process_signal rnd env cx)"

end
