(* ===== verification/Runtime_Refinement.thy ===== *)
theory Runtime_Refinement
  imports Trader_Refinement Monitors Executor_Loop
begin

text \<open>
  The running tasks refine the ledger: the position monitor, the executors of exits and of
  signals and the stop-fill detection change the database by steps of the ledger transition
  system only, so that its invariants hold for the whole process, whatever the interleaving.
\<close>

section \<open>Loops, events and reads\<close>

lemma keeps_forE [keeps_rules]: "(\<And>x. keeps rnd (f x)) \<Longrightarrow> keeps rnd (forE xs f)"
  by (induction xs) (auto intro!: keeps_rules)

lemma keeps_foldE [keeps_rules]: "(\<And>s x. keeps rnd (f s x)) \<Longrightarrow> keeps rnd (foldE f s xs)"
  by (induction xs arbitrary: s) (auto intro!: keeps_rules)

lemma keeps_step [keeps_rules]:
  "(\<And>u v. keeps rnd (d u v x)) \<Longrightarrow> keeps rnd ((case y of (u, v) \<Rightarrow> d u v) x)"
  by (cases y) simp

lemma keeps_bool [keeps_rules]:
  "keeps rnd m \<Longrightarrow> keeps rnd n \<Longrightarrow> keeps rnd (case b of True \<Rightarrow> m | False \<Rightarrow> n)"
  by (simp split: bool.splits)

lemma keeps_recording [keeps_rules]: "keeps rnd (spawn_trade_open_recording t ind pct)"
  by (auto simp: refines_def spawn_trade_open_recording_def run_simps intro: ledger_run_refl)

lemma keeps_send [keeps_rules]:
  assumes "tasks_are_steps rnd env"
  shows "keeps rnd (send_trade_event env ev)"
proof (rule refinesI)
  fix w ts r w' assume run: "send_trade_event env ev w = (r, w')"
  show "\<exists>ts'. ledger_run rnd (w_db w) ts (w_db w') ts' \<and> (\<forall>x. r = Inr x \<longrightarrow> True)"
  proof (cases "env_trade_channel env (w_out w)")
    case True
    then have "w' = let_tasks_run env (w\<lparr>w_events := w_events w @ [TradeSent ev]\<rparr>)"
      using run by (simp add: send_trade_event_def)
    then show ?thesis
      using run_let_tasks [OF assms, of "w\<lparr>w_events := w_events w @ [TradeSent ev]\<rparr>" ts] by simp
  next
    case False
    then show ?thesis using run ledger_run_refl by (auto simp: send_trade_event_def)
  qed
qed

text \<open>A statement that only reads, followed by a pure conversion.\<close>

definition reads_only :: "'a db_prog \<Rightarrow> bool" where
  "reads_only m \<longleftrightarrow> (\<forall>db. \<exists>fs. snd (m db) = db\<lparr>faults := fs\<rparr>)"

lemma reads_only_stmt: "reads_only (stmt (askW f))"
  unfolding reads_only_def
proof
  fix db :: database
  show "\<exists>fs. snd (stmt (askW f) db) = db\<lparr>faults := fs\<rparr>"
    by (cases "faults db") (auto simp: stmt_def run_simps intro: exI [of _ "[]"] faults_self [symmetric])
qed

lemma reads_only_bind:
  assumes "reads_only m" and "\<And>x db. snd (f x db) = db"
  shows "reads_only (bindE m f)"
  unfolding reads_only_def
proof
  fix db
  obtain r db1 where m: "m db = (r, db1)" by fastforce
  then obtain fs where "db1 = db\<lparr>faults := fs\<rparr>" using assms(1) unfolding reads_only_def by (metis snd_conv)
  then show "\<exists>fs. snd (bindE m f db) = db\<lparr>faults := fs\<rparr>"
    using m assms(2) by (cases r) (auto simp: run_simps)
qed

lemma reads_only_queries:
  "reads_only (get_account aid)" "reads_only list_active" "reads_only list_active_or_with_open_trades"
  "reads_only (select_trades p)" "reads_only list_open_with_account_name"
  "reads_only (get_open_trade_with_account tid)" "reads_only (get_open_trades_by_account aid)"
  unfolding get_account_def list_active_def list_active_or_with_open_trades_def select_trades_def
    list_open_with_account_name_def get_open_trade_with_account_def get_open_trades_by_account_def
  by (intro reads_only_stmt reads_only_bind; auto simp: run_simps split: list.splits sum.splits)+

lemma keeps_reads [keeps_rules]:
  assumes "tasks_are_steps rnd env" and "reads_only m"
  shows "keeps rnd (dbE env m)"
proof (rule keeps_dbE [OF assms(1)])
  fix db ts
  obtain fs where "snd (m db) = db\<lparr>faults := fs\<rparr>" using assms(2) unfolding reads_only_def by blast
  then show "ledger_run rnd db ts (snd (m db)) ts" by (intro ledger_run_tables) simp_all
qed

section \<open>The tasks\<close>

lemma keeps_build_positions [keeps_rules]: "keeps rnd (build_close_side_positions env ts cache)"
proof (induction ts arbitrary: cache)
  case (Cons t ts)
  then show ?case by (auto simp: cached_bid_ask_def split: option.splits intro!: keeps_rules)
qed (auto intro: keeps_rules)

lemma keeps_ratio [keeps_rules]:
  assumes "tasks_are_steps rnd env"
  shows "keeps rnd (liquidation_ratio_for_account rnd' env aid ts cache)"
  unfolding liquidation_ratio_for_account_def
  by (intro keeps_rules assms reads_only_queries)

lemma keeps_detect [keeps_rules]:
  assumes "tasks_are_steps rnd env"
  shows "keeps rnd (detect_liquidation_targets rnd' env lc ots e)"
    and "keeps rnd (detect_margin_alerts rnd' env lc ots e)"
  unfolding detect_liquidation_targets_def detect_margin_alerts_def detect_bucket_def alert_bucket_def
    maintenance_ratio_for_account_def
  by (intro keeps_rules assms)+

lemma keeps_close_trade [keeps_rules]:
  assumes "tasks_are_steps rnd env"
  shows "keeps rnd (close_trade rnd env cx t name ty dry x p)"
  unfolding close_trade_def publish_closed_trade_def Let_def
  by (intro keeps_rules assms keeps_close_position)

lemma keeps_price_event:
  assumes "tasks_are_steps rnd env"
  shows "keeps rnd (process_price_event rnd env cx lc lf sent e)"
  unfolding process_price_event_def close_liquidation_targets_def close_one_target_def
    send_margin_alerts_def send_margin_alert_def close_trade_if_exit_due_def Let_def
  by (intro keeps_rules assms reads_only_queries)

lemma keeps_exit:
  assumes "tasks_are_steps rnd env"
  shows "keeps rnd (process_exit rnd env cx lf x)"
  unfolding process_exit_def load_exit_target_def handle_close_position_result_def
    publish_strategy_exit_close_def Let_def
  by (intro keeps_rules assms reads_only_queries keeps_close_position)

lemma keeps_stop_fills:
  assumes "tasks_are_steps rnd env"
  shows "keeps rnd (stop_fill_round rnd env cx lf)"
proof -
  have "keeps rnd (check_stop_fill rnd env cx owned)" for owned
  proof -
    have "keeps rnd (case st of StopActive \<Rightarrow> returnE () | StopExecuted p c \<Rightarrow> close_executed_stop rnd env cx owned
        | StopGone \<Rightarrow> returnE ())" for st
      by (cases st) (auto simp: close_executed_stop_def Let_def intro!: keeps_rules assms)
    then show ?thesis
      unfolding check_stop_fill_def Let_def by (intro keeps_rules assms)
  qed
  then show ?thesis
    unfolding stop_fill_round_def detect_and_close_stop_fills_def
    by (intro keeps_rules assms reads_only_queries)
qed

lemma keeps_signal:
  assumes "tasks_are_steps rnd env"
  shows "keeps rnd (process_signal rnd env cx se)"
  unfolding process_signal_def dispatch_to_matching_accounts_def dispatch_step_def dispatch_to_account_def
    check_price_freshness_def reconfirm_account_active_before_marking_dispatched_def
    execute_and_record_def account_has_open_position_def open_positions_def publish_opened_trade_def Let_def
  by (intro keeps_rules assms reads_only_queries keeps_execute)

text \<open>
  C31. Refinement: every run of the handlers of the running tasks, of any length, with any
  answers of the exchange, any database failure and any interleaving with other tasks that keep
  to the ledger steps, leads from a reachable ledger state to a reachable ledger state.
\<close>

theorem tasks_refine_ledger:
  assumes "tasks_are_steps rnd env"
    and "reachable ledger_init (ledger_step rnd) \<lparr>ldb = w_db w, snapshots = ts\<rparr>"
    and "w' \<in> {snd (run_position_monitor rnd env cx lf order prices w), snd (run_exit_executor rnd env cx lf exits w),
      snd (stop_fill_round rnd env cx lf w), snd (run_executor rnd env ex signals w)}"
  shows "\<exists>ts'. reachable ledger_init (ledger_step rnd) \<lparr>ldb = w_db w', snapshots = ts'\<rparr>"
proof -
  note k = keeps_price_event [OF assms(1)] keeps_exit [OF assms(1)] keeps_stop_fills [OF assms(1)]
    keeps_signal [OF assms(1)]
  have m: "keeps rnd (run_position_monitor rnd env cx lf order prices)"
    unfolding run_position_monitor_def Let_def by (intro keeps_foldE k)
  have x: "keeps rnd (run_exit_executor rnd env cx lf exits)"
    unfolding run_exit_executor_def by (intro keeps_forE k)
  have s: "keeps rnd (run_executor rnd env ex signals)"
    unfolding run_executor_def by (intro keeps_forE k)
  note r = keeps_reachable [OF _ assms(2)]
  from assms(3) show ?thesis
    using r [OF m] r [OF x] r [OF k(3)] r [OF s] by (elim insertE emptyE) simp_all
qed

end
