(* ===== verification/Task_Calls.thy ===== *)
theory Task_Calls
  imports Trader_Theorems Runtime_Refinement
begin

text \<open>
  When the running tasks reach the exchange: never in dry-run mode, and for a signal only when
  every gate is passed. With the runs that witness the theorems on the tasks.
\<close>

section \<open>Dry-run mode\<close>

lemma only_forE [only_rules]: "(\<And>x. x \<in> set xs \<Longrightarrow> only p (f x)) \<Longrightarrow> only p (forE xs f)"
  by (induction xs) (auto intro!: only_rules)

lemma only_foldE [only_rules]: "(\<And>s x. only p (f s x)) \<Longrightarrow> only p (foldE f s xs)"
  by (induction xs arbitrary: s) (auto intro!: only_rules)

lemma only_step [only_rules]: "(\<And>u v. only p (d u v x)) \<Longrightarrow> only p ((case y of (u, v) \<Rightarrow> d u v) x)"
  by (cases y) simp

lemma only_bool [only_rules]: "only p m \<Longrightarrow> only p n \<Longrightarrow> only p (case b of True \<Rightarrow> m | False \<Rightarrow> n)"
  by (simp split: bool.splits)

lemma only_outputs [only_rules]:
  "only p (send_trade_event env ev)" "only p (spawn_trade_open_recording t ind pct)"
  by (auto simp: only_def logs_def send_trade_event_def spawn_trade_open_recording_def run_simps)

lemma silentD:
  assumes "only (\<lambda>_. False) m"
  shows "w_calls (snd (m w)) = w_calls w"
  using logsD [OF assms [unfolded only_def] surjective_pairing [of "m w"]] by (auto simp: only_False)

lemma silent_close_trade [only_rules]: "only (\<lambda>_. False) (close_trade rnd env cx t name ty True x p)"
  unfolding close_trade_def publish_closed_trade_def Let_def
  by (intro only_rules dry_close_silent) (simp add: trader_new_def)

lemma silent_positions [only_rules]: "only p (build_close_side_positions env ts cache)"
  by (induction ts arbitrary: cache) (auto simp: cached_bid_ask_def split: option.splits intro!: only_rules)

lemma silent_detect [only_rules]:
  "only p (detect_liquidation_targets rnd env lc ots e)" "only p (detect_margin_alerts rnd env lc ots e)"
  unfolding detect_liquidation_targets_def detect_margin_alerts_def detect_bucket_def alert_bucket_def
    maintenance_ratio_for_account_def liquidation_ratio_for_account_def
  by (intro only_rules)+

lemma silent_liquidation [only_rules]:
  "only (\<lambda>_. False) (close_liquidation_targets rnd env cx lc ots e p)"
  unfolding close_liquidation_targets_def close_one_target_def by (intro only_rules)

lemma silent_price_event [only_rules]:
  "only (\<lambda>_. False) (process_price_event rnd env cx lc True sent e)"
  unfolding process_price_event_def send_margin_alerts_def send_margin_alert_def close_trade_if_exit_due_def
    effective_dry_run_def Let_def
  by (simp only: simp_thms) (intro only_rules)

lemma silent_exit [only_rules]: "only (\<lambda>_. False) (process_exit rnd env cx True x)"
  unfolding process_exit_def load_exit_target_def handle_close_position_result_def
    publish_strategy_exit_close_def effective_dry_run_def Let_def
  by (simp only: simp_thms) (intro only_rules dry_close_silent, auto simp: build_exit_trader_def trader_new_def)

lemma no_stop_targets [simp]: "\<not> is_stop_detection_target t True"
  by (simp add: is_stop_detection_target_def effective_dry_run_def)

lemma silent_stop_fills [only_rules]: "only (\<lambda>_. False) (stop_fill_round rnd env cx True)"
  unfolding stop_fill_round_def detect_and_close_stop_fills_def by (intro only_rules) simp_all

lemma silent_dispatch [only_rules]:
  assumes "effective_dry_run (a_account_type pac) (ec_live_forces_dry_run cx)"
  shows "only (\<lambda>_. False) (dispatch_to_account rnd env cx pac se)"
  using assms
  unfolding dispatch_to_account_def check_price_freshness_def
    reconfirm_account_active_before_marking_dispatched_def execute_and_record_def
    account_has_open_position_def open_positions_def publish_opened_trade_def Let_def
  by (simp only: simp_thms) (intro only_rules dry_execute_silent, auto simp: build_trader_def trader_new_def)

lemma silent_signal [only_rules]:
  "only (\<lambda>_. False) (process_signal rnd env (cx\<lparr>ec_live_forces_dry_run := True\<rparr>) se)"
  unfolding process_signal_def dispatch_to_matching_accounts_def dispatch_step_def
  by (intro only_rules) (simp add: effective_dry_run_def)

text \<open>
  C32. In dry-run mode no task ever calls an exchange: not the position monitor, not the
  executors of exits and signals, not the stop-fill detection, for any input, any answers of the
  database and any interleaving. Force-closing an account for its margin makes no call in any mode.
\<close>

theorem dry_run_mode_never_calls:
  "w_calls (snd (run_position_monitor rnd env cx True order prices w)) = w_calls w
   \<and> w_calls (snd (run_exit_executor rnd env cx True exits w)) = w_calls w
   \<and> w_calls (snd (stop_fill_round rnd env cx True w)) = w_calls w
   \<and> w_calls (snd (run_executor rnd env (ex\<lparr>ec_live_forces_dry_run := True\<rparr>) signals w)) = w_calls w
   \<and> w_calls (snd (close_liquidation_targets rnd env cx lc ots e p w)) = w_calls w"
  unfolding run_position_monitor_def run_exit_executor_def run_executor_def Let_def
  by (intro conjI silentD only_rules)

section \<open>Gates of a signal\<close>

definition outputs :: "'x world \<Rightarrow> api_call list \<times> notify_event list \<times> runtime_event list" where
  "outputs w = (w_calls w, w_notes w, w_events w)"

lemma outputs_tasks [simp]: "outputs (let_tasks_run env w) = outputs w"
  by (auto simp: outputs_def let_tasks_run_def split: prod.splits)

lemma outputs_dbE: "dbE env m w = (r, w') \<Longrightarrow> outputs w' = outputs w"
  by (auto simp: dbE_def split: prod.splits) (simp add: outputs_def)

text \<open>What must hold for a signal to reach an account, at the moment it is dispatched.\<close>

definition gates_passed ::
  "'x environment \<Rightarrow> 'x executor_loop_context \<Rightarrow> trading_account \<Rightarrow> signal \<Rightarrow> exchange \<Rightarrow> 'x world \<Rightarrow> bool" where
  "gates_passed env cx pac sig ex w \<longleftrightarrow>
     exchange_from_str (a_exchange pac) = Inr ex
     \<and> fx_new_dispatch_allowed (s_strategy_name sig) ex
     \<and> (\<exists>pairs. ec_exchange_pairs cx ex = Some pairs \<and> s_pair sig \<in> pairs)
     \<and> (a_account_type pac = ''live'' \<longrightarrow> ec_live_enabled cx)
     \<and> (\<exists>level. ec_exchange_liquidation_levels cx ex = Some level \<and> 0 < level)
     \<and> (case last_tick_age_for (env_utc_now env (w_out w)) (env_prices env (w_out w))
              \<lparr>fk_exchange = ex, fk_pair = s_pair sig\<rparr> of
          None \<Rightarrow> U64_MAX | Some age \<Rightarrow> nat age) \<le> ec_price_freshness_secs cx
     \<and> (\<exists>a db. get_account (a_id pac) (w_db w) = (Inr (Some a), db) \<and> a_active a)"

lemma fresh_result:
  "check_price_freshness env cx ex sig w = (Inr ((case last_tick_age_for (env_utc_now env (w_out w))
      (env_prices env (w_out w)) \<lparr>fk_exchange = ex, fk_pair = s_pair sig\<rparr> of
      None \<Rightarrow> U64_MAX | Some age \<Rightarrow> nat age) \<le> ec_price_freshness_secs cx), w)"
  by (auto simp: check_price_freshness_def run_simps utc_now_def eval_price_freshness_def Let_def)

lemma reconfirm_result:
  assumes "attempt (reconfirm_account_active_before_marking_dispatched env pac) w = (r, w1)"
  shows "outputs w1 = outputs w
    \<and> (r = Inr (Inr True) \<longrightarrow> (\<exists>a db. get_account (a_id pac) (w_db w) = (Inr (Some a), db) \<and> a_active a))"
proof -
  obtain q w2 where q: "dbE env (get_account (a_id pac)) w = (q, w2)" by fastforce
  have "outputs w2 = outputs w" by (rule outputs_dbE [OF q])
  moreover have "fst (get_account (a_id pac) (w_db w)) = q"
    using q by (auto simp: dbE_def split: prod.splits)
  ultimately show ?thesis
    using assms q
    by (cases "get_account (a_id pac) (w_db w)")
      (auto simp: reconfirm_account_active_before_marking_dispatched_def account_still_tradable_def run_simps
        split: sum.splits error.splits option.splits)
qed

lemma dispatch_cases:
  assumes "dispatch_to_account rnd env cx pac se w = (r, w')"
  shows "r = Inr False \<and> outputs w' = outputs w \<or> (\<exists>e. r = Inl e \<and> outputs w' = outputs w)
    \<or> (\<exists>ex. gates_passed env cx pac (se_signal se) ex w)"
proof (cases "check_static_account_gates cx pac (se_signal se)")
  case None
  then show ?thesis using assms by (simp add: dispatch_to_account_def run_simps)
next
  case gate: (Some ex)
  let ?dry = "effective_dry_run (a_account_type pac) (ec_live_forces_dry_run cx)"
  consider "resolve_exchange_api cx ex ?dry = None"
    | api where "resolve_exchange_api cx ex ?dry = Some api" "fst (check_price_freshness env cx ex (se_signal se) w) = Inr False"
    | api where "resolve_exchange_api cx ex ?dry = Some api" "build_trader cx pac ex api ?dry = None"
    | api tr where "resolve_exchange_api cx ex ?dry = Some api" "fst (check_price_freshness env cx ex (se_signal se) w) = Inr True"
        "build_trader cx pac ex api ?dry = Some tr"
    by (cases "resolve_exchange_api cx ex ?dry"; auto simp: fresh_result)
  then show ?thesis
  proof cases
    case (4 api tr)
    obtain q w1 where q: "attempt (reconfirm_account_active_before_marking_dispatched env pac) w = (q, w1)"
      by fastforce
    note rc = reconfirm_result [OF q]
    show ?thesis
    proof (cases "q = Inr (Inr True)")
      case True
      have "gates_passed env cx pac (se_signal se) ex w"
        using gate 4 rc True unfolding gates_passed_def
        by (auto simp: check_static_account_gates_def resolve_account_exchange_def fresh_result
            build_trader_def liquidation_level_or_log_def
            live_order_blocked_when_live_disabled_leaving_close_paths_unaffected_def
            split: option.splits sum.splits if_splits)
      then show ?thesis by blast
    next
      case False
      then show ?thesis
        using assms gate 4 q False rc
        by (cases q rule: sum.exhaust)
          (auto simp: dispatch_to_account_def Let_def bindE_run fresh_result returnE_run split: sum.splits bool.splits error.splits)
    qed
  qed (use assms gate in \<open>auto simp: dispatch_to_account_def Let_def run_simps fresh_result split: if_splits\<close>)
qed

text \<open>
  C33. A signal reaches an account only through every gate. When the dispatch to an account calls
  the exchange, notifies, hands on a trade or reports success, then its exchange is known, the
  strategy may trade there, the pair is fed, live trading is enabled if the account is live, the
  liquidation level is positive, the last price is fresh enough and the account was still active;
  and when it calls the exchange the account is not dry run.
\<close>

theorem dispatch_passes_gates:
  assumes "dispatch_to_account rnd env cx pac se w = (r, w')"
    and "r = Inr True \<or> outputs w' \<noteq> outputs w"
  shows "(\<exists>ex. gates_passed env cx pac (se_signal se) ex w)
    \<and> (w_calls w' \<noteq> w_calls w \<longrightarrow> a_account_type pac \<noteq> ''paper'' \<and> \<not> ec_live_forces_dry_run cx)"
proof -
  have "w_calls w' = w_calls w" if "effective_dry_run (a_account_type pac) (ec_live_forces_dry_run cx)"
    using silentD [OF silent_dispatch [OF that], of rnd env se w] assms(1) by simp
  then show ?thesis
    using dispatch_cases [OF assms(1)] assms(2) by (auto simp: effective_dry_run_def)
qed

section \<open>Runs of the tasks\<close>

definition demo_close_context :: "int close_context" where
  "demo_close_context = \<lparr>cx_apis = [GmoFx \<mapsto> demo_api], cx_position_sizer = demo_sizer,
     cx_liquidation_levels = [GmoFx \<mapsto> 1/2]\<rparr>"

definition demo_executor :: "int executor_loop_context" where
  "demo_executor = \<lparr>ec_exchange_apis = [GmoFx \<mapsto> demo_api],
     ec_exchange_pairs = [GmoFx \<mapsto> {''USD_JPY''}], ec_position_sizer = demo_sizer,
     ec_exchange_liquidation_levels = [GmoFx \<mapsto> 1/2], ec_live_forces_dry_run = True,
     ec_live_enabled = False, ec_price_freshness_secs = 60\<rparr>"

definition demo_signal_event :: signal_event where
  "demo_signal_event = \<lparr>se_signal = demo_signal, se_indicators = Map.empty\<rparr>"

definition demo_exit :: exit_signal where
  "demo_exit = \<lparr>x_trade_id = 7, x_reason = TrailingChannel, x_close_price = 150\<rparr>"

theorem tasks_refine_ledger_witness:
  "\<exists>ts'. reachable ledger_init (ledger_step exact)
     \<lparr>ldb = w_db (snd (run_exit_executor exact demo_env demo_close_context False [demo_exit] (demo_world demo_stop_db))),
      snapshots = ts'\<rparr>"
proof -
  have "reachable ledger_init (ledger_step exact) \<lparr>ldb = w_db (demo_world demo_stop_db), snapshots = []\<rparr>"
    using demo_stop_reachable by (simp add: demo_world_def)
  from tasks_refine_ledger [OF demo_tasks this] show ?thesis by blast
qed

theorem dispatch_passes_gates_witness:
  "\<exists>ex. gates_passed demo_env demo_executor demo_gmo_account demo_signal ex (demo_world demo_stop_db)"
proof -
  have "fst (dispatch_to_account exact demo_env demo_executor demo_gmo_account demo_signal_event
      (demo_world demo_stop_db)) = Inr True" by code_simp
  then obtain w' where "dispatch_to_account exact demo_env demo_executor demo_gmo_account demo_signal_event
      (demo_world demo_stop_db) = (Inr True, w')" by (metis prod.collapse)
  from dispatch_passes_gates [OF this] show ?thesis by (simp add: demo_signal_event_def)
qed

end
