(* ===== verification/Margin_Theorems.thy ===== *)
theory Margin_Theorems
  imports Task_Calls
begin

text \<open>
  The detection of liquidation targets and margin alerts against a declarative specification:
  no cache, no loop, the ratio of every account computed from the trades and the latest prices.
\<close>

section \<open>Still environments\<close>

text \<open>No other task moves the database or the prices.\<close>

definition still :: "'x environment \<Rightarrow> bool" where
  "still env \<longleftrightarrow> quiet env \<and> (\<forall>x db. env_prices env (fst (env_tasks env x db)) = env_prices env x)"

definition prices_of :: "'x environment \<Rightarrow> 'x world \<Rightarrow> price_store" where
  "prices_of env w = env_prices env (w_out w)"

lemma still_tasks:
  assumes "still env"
  shows "w_db (let_tasks_run env w) = w_db w" and "prices_of env (let_tasks_run env w) = prices_of env w"
  using assms quiet_tasks [of env w]
  by (auto simp: still_def prices_of_def let_tasks_run_def split: prod.splits) (metis fst_conv)

definition same_view :: "'x environment \<Rightarrow> 'x world \<Rightarrow> 'x world \<Rightarrow> bool" where
  "same_view env w w' \<longleftrightarrow> w_db w' = w_db w \<and> prices_of env w' = prices_of env w"

lemma same_view_refl [simp]: "same_view env w w"
  by (simp add: same_view_def)

lemma same_view_trans: "same_view env w w1 \<Longrightarrow> same_view env w1 w2 \<Longrightarrow> same_view env w w2"
  by (simp add: same_view_def)

lemma still_get_account:
  assumes "still env" and "faults (w_db w) = []"
  shows "\<exists>w'. dbE env (get_account aid) w = (Inr (find_account aid (w_db w)), w') \<and> same_view env w w'"
  using assms still_tasks [of env w]
  by (auto simp: dbE_def get_account_def stmt_def run_simps same_view_def still_tasks prices_of_def)

section \<open>The specification\<close>

definition positions_at :: "price_store \<Rightarrow> trade list \<Rightarrow> open_position list option" where
  "positions_at ps ts =
     those (map (\<lambda>t. map_option (close_side_position t) (store_bid_ask ps (feed_key_of t))) ts)"

definition account_bucket :: "open_trade_with_account list \<Rightarrow> exchange \<Rightarrow> uuid \<Rightarrow> open_trade_with_account list" where
  "account_bucket ots ex aid =
     filter (\<lambda>t. t_exchange (ot_trade t) = ex \<and> t_account_id (ot_trade t) = aid) ots"

definition account_ratio ::
  "rounding \<Rightarrow> database \<Rightarrow> price_store \<Rightarrow> trade list \<Rightarrow> uuid \<Rightarrow> decimal option result" where
  "account_ratio rnd db ps ts aid =
     (case (find_account aid db, positions_at ps ts) of
        (Some a, Some positions) \<Rightarrow> compute_maintenance_ratio rnd (a_current_balance a) positions
      | _ \<Rightarrow> Inr None)"

definition must_liquidate ::
  "rounding \<Rightarrow> database \<Rightarrow> price_store \<Rightarrow> bool \<Rightarrow> decimal \<Rightarrow> open_trade_with_account list \<Rightarrow> uuid \<Rightarrow> bool" where
  "must_liquidate rnd db ps live_forces_dry_run threshold bucket aid \<longleftrightarrow>
     is_dry_run_bucket bucket live_forces_dry_run
     \<and> (\<exists>r. account_ratio rnd db ps (map ot_trade bucket) aid = Inr (Some r) \<and> r < threshold)"

section \<open>The cache\<close>

definition cache_ok :: "price_store \<Rightarrow> price_cache \<Rightarrow> bool" where
  "cache_ok ps cache \<longleftrightarrow> (\<forall>k v. cache k = Some v \<longrightarrow> v = store_bid_ask ps k)"

lemma cache_ok_empty [simp]: "cache_ok ps Map.empty"
  by (simp add: cache_ok_def)

lemma cached_bid_ask_exact:
  assumes "cache_ok (prices_of env w) cache"
  shows "\<exists>cache'. cached_bid_ask env key cache w = (Inr (store_bid_ask (prices_of env w) key, cache'), w)
    \<and> cache_ok (prices_of env w) cache'"
  using assms by (cases "cache key") (auto simp: cached_bid_ask_def cache_ok_def prices_of_def run_simps)

lemma build_positions_exact:
  assumes "cache_ok (prices_of env w) cache"
  shows "\<exists>cache'. build_close_side_positions env ts cache w = (Inr (positions_at (prices_of env w) ts, cache'), w)
    \<and> cache_ok (prices_of env w) cache'"
  using assms
proof (induction ts arbitrary: cache)
  case (Cons t ts)
  obtain c1 where 1: "cached_bid_ask env (feed_key_of t) cache w
      = (Inr (store_bid_ask (prices_of env w) (feed_key_of t), c1), w)" "cache_ok (prices_of env w) c1"
    using cached_bid_ask_exact [OF Cons.prems] by blast
  show ?case
  proof (cases "store_bid_ask (prices_of env w) (feed_key_of t)")
    case (Some q)
    obtain c2 where "build_close_side_positions env ts c1 w = (Inr (positions_at (prices_of env w) ts, c2), w)"
      "cache_ok (prices_of env w) c2" using Cons.IH [OF 1(2)] by blast
    then show ?thesis using 1 Some by (auto simp: positions_at_def run_simps split: option.splits)
  qed (use 1 in \<open>auto simp: positions_at_def run_simps\<close>)
qed (simp add: positions_at_def run_simps)

lemma ratio_exact:
  assumes "still env" and "faults (w_db w) = []" and "cache_ok (prices_of env w) cache"
    and "liquidation_ratio_for_account rnd env aid bucket cache w = (Inr (r, cache'), w')"
  shows "account_ratio rnd (w_db w) (prices_of env w) (map ot_trade bucket) aid = Inr r
    \<and> same_view env w w' \<and> cache_ok (prices_of env w) cache'"
proof -
  obtain w1 where 1: "dbE env (get_account aid) w = (Inr (find_account aid (w_db w)), w1)" "same_view env w w1"
    using still_get_account [OF assms(1,2)] by blast
  have ps: "prices_of env w1 = prices_of env w" using 1(2) by (simp add: same_view_def)
  obtain c1 where "build_close_side_positions env (map ot_trade bucket) cache w1
      = (Inr (positions_at (prices_of env w) (map ot_trade bucket), c1), w1)" "cache_ok (prices_of env w) c1"
    using build_positions_exact [of env w1 cache "map ot_trade bucket"] assms(3) ps by auto
  then show ?thesis
    using assms(3,4) 1 unfolding liquidation_ratio_for_account_def account_ratio_def
    by (auto simp: run_simps split: option.splits sum.splits)
qed

section \<open>The scan\<close>

text \<open>Both detections scan the buckets the same way; \<open>out\<close> is what a bucket adds.\<close>

definition scan_step ::
  "rounding \<Rightarrow> 'x environment \<Rightarrow> (open_trade_with_account list \<Rightarrow> bool)
    \<Rightarrow> (uuid \<Rightarrow> open_trade_with_account list \<Rightarrow> decimal \<Rightarrow> 'b option)
    \<Rightarrow> price_cache \<times> 'b list \<Rightarrow> uuid \<times> open_trade_with_account list \<Rightarrow> ('x, price_cache \<times> 'b list) io" where
  "scan_step rnd env p out = (\<lambda>(cache, results) (aid, bucket).
     if \<not> p bucket then returnE (cache, results)
     else bindE (liquidation_ratio_for_account rnd env aid bucket cache) (\<lambda>(r, cache).
       returnE (cache, results @ (case r of None \<Rightarrow> [] | Some ratio \<Rightarrow>
         (case out aid bucket ratio of None \<Rightarrow> [] | Some y \<Rightarrow> [y])))))"

lemma detect_bucket_scan:
  "detect_bucket rnd env lc threshold = scan_step rnd env (\<lambda>b. is_dry_run_bucket b (lc_live_forces_dry_run lc))
     (\<lambda>aid b ratio. if ratio < threshold then Some (aid, map (\<lambda>t. t_id (ot_trade t)) b) else None)"
  by (intro ext) (auto simp: detect_bucket_def scan_step_def is_below_liquidation_threshold_def bindE_def
      returnE_def split: prod.splits sum.splits option.splits)

lemma alert_bucket_scan:
  "alert_bucket rnd env lc threshold = scan_step rnd env (\<lambda>b. \<not> is_dry_run_bucket b (lc_live_forces_dry_run lc))
     (\<lambda>aid b ratio. build_margin_alert rnd env aid b ratio threshold)"
  by (intro ext) (auto simp: alert_bucket_def scan_step_def maintenance_ratio_for_account_def bindE_def
      returnE_def split: prod.splits sum.splits option.splits)

definition scanned ::
  "rounding \<Rightarrow> database \<Rightarrow> price_store \<Rightarrow> (open_trade_with_account list \<Rightarrow> bool)
    \<Rightarrow> (uuid \<Rightarrow> open_trade_with_account list \<Rightarrow> decimal \<Rightarrow> 'b option)
    \<Rightarrow> uuid \<times> open_trade_with_account list \<Rightarrow> 'b list" where
  "scanned rnd db ps p out = (\<lambda>(aid, bucket).
     if p bucket then (case account_ratio rnd db ps (map ot_trade bucket) aid of
        Inr (Some ratio) \<Rightarrow> (case out aid bucket ratio of None \<Rightarrow> [] | Some y \<Rightarrow> [y]) | _ \<Rightarrow> []) else [])"

lemma in_scanned:
  assumes "y \<in> set (scanned rnd db ps p out (aid, b))"
  shows "p b \<and> (case account_ratio rnd db ps (map ot_trade b) aid of
     Inr (Some r) \<Rightarrow> out aid b r = Some y | _ \<Rightarrow> False)"
proof -
  have p: "p b" using assms by (cases "p b") (simp_all add: scanned_def)
  obtain r where r: "account_ratio rnd db ps (map ot_trade b) aid = Inr (Some r)"
  proof (cases "account_ratio rnd db ps (map ot_trade b) aid")
    case (Inr q)
    then show ?thesis using assms that by (cases q) (simp_all add: scanned_def p)
  qed (use assms in \<open>simp add: scanned_def p\<close>)
  from assms have "y \<in> set (case out aid b r of None \<Rightarrow> [] | Some u \<Rightarrow> [u])"
    by (simp add: scanned_def p r)
  then have "out aid b r = Some y" by (cases "out aid b r") simp_all
  with p r show ?thesis by simp
qed

lemma scan_step_exact:
  assumes "still env" and "faults (w_db w) = []" and "cache_ok (prices_of env w) cache"
    and "scan_step rnd env p out (cache, results) entry w = (Inr (cache', results'), w')"
  shows "results' = results @ scanned rnd (w_db w) (prices_of env w) p out entry
    \<and> same_view env w w' \<and> cache_ok (prices_of env w) cache'"
proof (cases entry)
  case (Pair aid bucket)
  show ?thesis
  proof (cases "p bucket")
    case True
    then obtain r c1 where "liquidation_ratio_for_account rnd env aid bucket cache w = (Inr (r, c1), w')"
      "cache' = c1" "results' = results @ (case r of None \<Rightarrow> [] | Some ratio \<Rightarrow>
         (case out aid bucket ratio of None \<Rightarrow> [] | Some y \<Rightarrow> [y]))"
      using assms(4) Pair by (auto simp: scan_step_def run_simps split: prod.splits sum.splits)
    then show ?thesis using ratio_exact [OF assms(1-3)] Pair True
      by (auto simp: scanned_def split: option.splits)
  qed (use assms(3,4) Pair in \<open>auto simp: scan_step_def scanned_def run_simps\<close>)
qed

lemma scan_exact:
  assumes "still env" and "faults (w_db w) = []" and "cache_ok (prices_of env w) cache"
    and "foldE (scan_step rnd env p out) (cache, results) entries w = (Inr (cache', results'), w')"
  shows "results' = results @ concat (map (scanned rnd (w_db w) (prices_of env w) p out) entries)
    \<and> same_view env w w'"
  using assms
proof (induction entries arbitrary: w cache results)
  case (Cons x xs)
  obtain c1 r1 w1 where 1: "scan_step rnd env p out (cache, results) x w = (Inr (c1, r1), w1)"
    and rest: "foldE (scan_step rnd env p out) (c1, r1) xs w1 = (Inr (cache', results'), w')"
    using Cons.prems(4) by (auto simp: run_simps split: prod.splits sum.splits)
  note s = scan_step_exact [OF Cons.prems(1-3) 1]
  then have view: "w_db w1 = w_db w" "prices_of env w1 = prices_of env w" by (simp_all add: same_view_def)
  with s Cons.prems(2) have "faults (w_db w1) = []" "cache_ok (prices_of env w1) c1" by simp_all
  from Cons.IH [OF Cons.prems(1) this rest] s view show ?case
    by (auto intro: same_view_trans)
qed (simp add: run_simps)

section \<open>The buckets\<close>

lemma push_bucket_bucket:
  "foldl push_bucket m ts aid =
   (if \<exists>t \<in> set ts. t_account_id (ot_trade t) = aid
    then Some ((case m aid of None \<Rightarrow> [] | Some b \<Rightarrow> b) @ filter (\<lambda>t. t_account_id (ot_trade t) = aid) ts)
    else m aid)"
  by (induction ts arbitrary: m) (auto simp: push_bucket_def Let_def filter_empty_conv split: option.splits)

lemma group_bucket:
  "group_open_trades_by_account ots ex aid =
   (if account_bucket ots ex aid = [] then None else Some (account_bucket ots ex aid))"
  by (auto simp: group_open_trades_by_account_def push_bucket_bucket account_bucket_def filter_empty_conv
      conj_commute intro!: filter_cong)

definition account_order :: "liquidation_context \<Rightarrow> open_trade_with_account list \<Rightarrow> exchange \<Rightarrow> uuid list" where
  "account_order lc ots ex = lc_bucket_order lc (remdups (map (\<lambda>t. t_account_id (ot_trade t))
     (filter (\<lambda>t. t_exchange (ot_trade t) = ex) ots)))"

lemma bucket_entries_eq:
  "bucket_entries lc ots ex = concat (map (\<lambda>aid. if account_bucket ots ex aid = [] then []
     else [(aid, account_bucket ots ex aid)]) (account_order lc ots ex))"
  by (auto simp: bucket_entries_def Let_def group_bucket account_order_def intro!: arg_cong [where f = concat])

lemma empty_bucket_ratio: "account_ratio rnd db ps [] aid = Inr None"
  by (auto simp: account_ratio_def positions_at_def compute_maintenance_ratio_def dsum_def Let_def split: option.splits)

lemma concat_entries:
  "(\<And>a. b a = [] \<Longrightarrow> f (a, b a) = []) \<Longrightarrow>
   concat (map f (concat (map (\<lambda>a. if b a = [] then [] else [(a, b a)]) as))) = concat (map (\<lambda>a. f (a, b a)) as)"
  by (induction as) auto

lemma concat_if_filter: "concat (map (\<lambda>a. if q a then [g a] else []) as) = map g (filter q as)"
  by (induction as) auto

lemma concat_scanned:
  "concat (map (scanned rnd db ps p out) (bucket_entries lc ots ex)) =
   concat (map (\<lambda>aid. scanned rnd db ps p out (aid, account_bucket ots ex aid)) (account_order lc ots ex))"
  unfolding bucket_entries_eq
  by (rule concat_entries) (simp add: scanned_def empty_bucket_ratio)

section \<open>The detections\<close>

text \<open>
  C34. The detection of liquidation targets, with its buckets, its loop and its price cache, returns
  exactly what the specification says: in the iteration order of the accounts, those that are dry
  run and whose maintenance ratio, over the latest close-side prices of their trades on the
  exchange of the event, is below the level of the exchange, each with all its trades there. It
  changes neither the database nor the prices (no other task interfering, no database failure).
\<close>

theorem liquidation_detection_exact:
  assumes "still env" and "faults (w_db w) = []"
    and "lc_exchange_liquidation_levels lc (e_exchange e) = Some threshold"
    and "detect_liquidation_targets rnd env lc ots e w = (Inr targets, w')"
  shows "targets = map (\<lambda>aid. (aid, map (\<lambda>t. t_id (ot_trade t)) (account_bucket ots (e_exchange e) aid)))
      (filter (\<lambda>aid. must_liquidate rnd (w_db w) (prices_of env w) (lc_live_forces_dry_run lc) threshold
         (account_bucket ots (e_exchange e) aid) aid) (account_order lc ots (e_exchange e)))
    \<and> w_db w' = w_db w \<and> prices_of env w' = prices_of env w"
proof -
  let ?p = "\<lambda>b. is_dry_run_bucket b (lc_live_forces_dry_run lc)"
  let ?out = "\<lambda>aid b ratio. if ratio < threshold then Some (aid, map (\<lambda>t. t_id (ot_trade t)) b) else None"
  let ?b = "account_bucket ots (e_exchange e)"
  obtain cache where "foldE (scan_step rnd env ?p ?out) (Map.empty, []) (bucket_entries lc ots (e_exchange e)) w
      = (Inr (cache, targets), w')"
    using assms(3,4) unfolding detect_liquidation_targets_def detect_bucket_scan
    by (auto simp: run_simps split: prod.splits sum.splits)
  from scan_exact [OF assms(1,2) cache_ok_empty this]
  have t: "targets = concat (map (\<lambda>aid. scanned rnd (w_db w) (prices_of env w) ?p ?out (aid, ?b aid))
      (account_order lc ots (e_exchange e)))" and v: "same_view env w w'"
    by (simp_all add: concat_scanned)
  have "scanned rnd (w_db w) (prices_of env w) ?p ?out (aid, b) =
      (if must_liquidate rnd (w_db w) (prices_of env w) (lc_live_forces_dry_run lc) threshold b aid
       then [(aid, map (\<lambda>t. t_id (ot_trade t)) b)] else [])" for aid b
    by (auto simp: scanned_def must_liquidate_def split: sum.splits option.splits)
  then have "targets = map (\<lambda>aid. (aid, map (\<lambda>t. t_id (ot_trade t)) (?b aid)))
      (filter (\<lambda>aid. must_liquidate rnd (w_db w) (prices_of env w) (lc_live_forces_dry_run lc) threshold (?b aid) aid)
        (account_order lc ots (e_exchange e)))"
    unfolding t by (simp add: concat_if_filter)
  then show ?thesis using v by (simp add: same_view_def)
qed

text \<open>The alerts follow the same specification, on the accounts that are not dry run.\<close>

lemma margin_alerts_exact:
  assumes "still env" and "faults (w_db w) = []"
    and "lc_exchange_liquidation_levels lc (e_exchange e) = Some threshold"
    and "detect_margin_alerts rnd env lc ots e w = (Inr alerts, w')" and "alert \<in> set alerts"
  shows "\<exists>aid r. al_account_id alert = aid \<and> al_ratio alert = r \<and> al_threshold alert = threshold
    \<and> \<not> is_dry_run_bucket (account_bucket ots (e_exchange e) aid) (lc_live_forces_dry_run lc)
    \<and> account_ratio rnd (w_db w) (prices_of env w) (map ot_trade (account_bucket ots (e_exchange e) aid)) aid = Inr (Some r)
    \<and> classify_alert_level rnd r threshold = Some (al_level alert)"
proof -
  let ?p = "\<lambda>b. \<not> is_dry_run_bucket b (lc_live_forces_dry_run lc)"
  let ?out = "\<lambda>aid b ratio. build_margin_alert rnd env aid b ratio threshold"
  obtain cache where "foldE (scan_step rnd env ?p ?out) (Map.empty, []) (bucket_entries lc ots (e_exchange e)) w
      = (Inr (cache, alerts), w')"
    using assms(3,4) unfolding detect_margin_alerts_def alert_bucket_scan
    by (auto simp: run_simps split: prod.splits sum.splits)
  from scan_exact [OF assms(1,2) cache_ok_empty this] assms(5)
  obtain aid where "alert \<in> set (scanned rnd (w_db w) (prices_of env w) ?p ?out
      (aid, account_bucket ots (e_exchange e) aid))"
    by (auto simp: concat_scanned)
  then obtain r where p: "?p (account_bucket ots (e_exchange e) aid)"
    and r: "account_ratio rnd (w_db w) (prices_of env w) (map ot_trade (account_bucket ots (e_exchange e) aid)) aid
        = Inr (Some r)"
    and b: "build_margin_alert rnd env aid (account_bucket ots (e_exchange e) aid) r threshold = Some alert"
    by (rule in_scanned [THEN conjE]) (simp split: sum.splits option.splits)
  from b have "al_account_id alert = aid" "al_ratio alert = r" "al_threshold alert = threshold"
    "classify_alert_level rnd r threshold = Some (al_level alert)"
    by (auto simp: build_margin_alert_def Let_def split: option.splits)
  then show ?thesis using p r by blast
qed

section \<open>A run\<close>

definition demo_owned :: open_trade_with_account where
  "demo_owned = \<lparr>ot_trade = demo_trade, ot_account_name = Some ''demo'', ot_account_type = Some ''paper''\<rparr>"

definition demo_levels :: liquidation_context where
  "demo_levels = \<lparr>lc_exchange_liquidation_levels = [GmoFx \<mapsto> 7], lc_live_forces_dry_run = False,
     lc_bucket_order = (\<lambda>ids. ids)\<rparr>"

definition demo_price :: "decimal \<Rightarrow> price_event" where
  "demo_price p = \<lparr>e_pair = ''USD_JPY'', e_exchange = GmoFx,
     e_candle = \<lparr>c_pair = ''USD_JPY'', c_exchange = GmoFx, c_timeframe = ''M1'', c_open = p, c_high = p,
       c_low = p, c_close = p, c_volume = None, c_best_bid = None, c_best_ask = None, c_timestamp = 0\<rparr>,
     e_indicators = Map.empty, e_timestamp = 0\<rparr>"

lemma demo_still: "still demo_env"
  by (simp add: still_def demo_quiet)

theorem liquidation_detection_exact_witness:
  "must_liquidate exact demo_stop_db (prices_of demo_env (demo_world demo_stop_db)) False 7 [demo_owned] 1"
proof -
  have "faults demo_stop_db = []" by code_simp
  then have f: "faults (w_db (demo_world demo_stop_db)) = []" by (simp add: demo_world_def)
  have "fst (detect_liquidation_targets exact demo_env demo_levels [demo_owned] (demo_price 149)
      (demo_world demo_stop_db)) = Inr [(1, [7])]" by code_simp
  then obtain w' where run: "detect_liquidation_targets exact demo_env demo_levels [demo_owned] (demo_price 149)
      (demo_world demo_stop_db) = (Inr [(1, [7])], w')" by (metis prod.collapse)
  have "account_order demo_levels [demo_owned] GmoFx = [1]" "account_bucket [demo_owned] GmoFx 1 = [demo_owned]"
    by (simp_all add: account_order_def account_bucket_def demo_levels_def demo_owned_def demo_trade_def)
  with liquidation_detection_exact [OF demo_still f _ run, of 7] show ?thesis
    by (auto simp: demo_levels_def demo_price_def demo_world_def split: if_splits)
qed

end
