(* ===== verification/Paper_Exit.thy ===== *)
theory Paper_Exit
  imports Margin_Theorems
begin

text \<open>
  A due exit of a paper trade is carried out: with a price, no other task interfering and no
  database failure, the monitor closes the trade, and nothing on the way can fail.
\<close>

section \<open>Statements that cannot fail\<close>

lemma find_filter: "find p xs = None \<longleftrightarrow> filter p xs = []"
  by (induction xs) auto

lemma update_balance_ok:
  assumes "faults db = []" and "aid \<in> set (map a_id (accounts db))"
  shows "\<exists>b. update_balance_returning aid f db = (Inr b, db\<lparr>accounts := update_rows (\<lambda>a. a_id a = aid)
      (\<lambda>a. a\<lparr>a_current_balance := f (a_current_balance a)\<rparr>) (accounts db)\<rparr>)"
proof -
  have "filter (\<lambda>a. a_id a = aid) (accounts db) \<noteq> []" using assms(2) by (auto simp: filter_empty_conv)
  then obtain a as where "filter (\<lambda>a. a_id a = aid) (accounts db) = a # as" by (cases "filter (\<lambda>a. a_id a = aid) (accounts db)") auto
  then show ?thesis using assms(1) by (simp add: update_balance_returning_def stmt_ok)
qed

lemma keys_update_rows: "(\<And>r. k (f r) = k r) \<Longrightarrow> k ` set (update_rows p f rows) = k ` set rows"
  by (metis list.set_map map_update_rows)

lemma ids_update_accounts [simp]:
  "a_id ` set (update_rows p (\<lambda>a. a\<lparr>a_current_balance := g a\<rparr>) as) = a_id ` set as"
  by (rule keys_update_rows) simp

lemma release_margin_ok:
  assumes "faults db = []" and "aid \<in> set (map a_id (accounts db))" and "tid \<in> set (map r_id (trades db))"
  shows "\<exists>db'. release_margin rnd aid tid m p db = (Inr (), db') \<and> faults db' = [] \<and> trades db' = trades db
    \<and> a_id ` set (accounts db') = a_id ` set (accounts db)"
proof -
  obtain b where "update_balance_returning aid (\<lambda>b. b + m + p) db = (Inr b, db\<lparr>accounts := update_rows (\<lambda>a. a_id a = aid)
      (\<lambda>a. a\<lparr>a_current_balance := a_current_balance a + m + p\<rparr>) (accounts db)\<rparr>)"
    using update_balance_ok [OF assms(1,2)] by blast
  then show ?thesis
    using assms by (simp add: release_margin_def run_simps insert_event_def stmt_ok)
qed

lemma persist_closed_ok:
  assumes "faults db = []" and "q \<in> set (trades db)" and "r_id q = t_id c" and "unsettled q"
    and "aid \<in> set (map a_id (accounts db))" and "t_account_id c = aid"
    and "t_exit_price c = Some ep" and "t_pnl_amount c = Some pnl" and "t_exit_reason c = Some x"
  shows "\<exists>db'. persist_closed_tx rnd aid c m pnl ep ea x db = (Inr (), db')"
proof -
  let ?p = "\<lambda>r. r_id r = t_id c \<and> unsettled r"
  let ?f = "\<lambda>r. r\<lparr>r_exit_price := Some ep, r_exit_at := Some ea, r_pnl_amount := Some pnl,
      r_exit_reason := Some (exit_reason_as_str x), r_fees := t_fees c, r_status := ''closed'',
      r_closing_started_at := None\<rparr>"
  let ?db1 = "db\<lparr>trades := update_rows ?p ?f (trades db)\<rparr>"
  have "filter ?p (trades db) \<noteq> []" using assms(2-4) by (auto simp: filter_empty_conv)
  then have 1: "update_trade_closed (t_id c) ep ea pnl x (t_fees c) db = (Inr (), ?db1)"
    using assms(1) by (simp add: update_trade_closed_def stmt_ok run_simps Let_def)
  have tid: "t_id c \<in> set (map r_id (trades ?db1))"
    using assms(2) keys_update_rows [of r_id ?f ?p "trades db"] by (simp add: imageI flip: assms(3))
  obtain db2 where 2: "release_margin rnd aid (t_id c) m pnl ?db1 = (Inr (), db2)" "faults db2 = []"
      "trades db2 = trades ?db1" "a_id ` set (accounts db2) = a_id ` set (accounts db)"
    using release_margin_ok [of ?db1 aid "t_id c" rnd m pnl] tid assms(1,5) by auto
  have "\<exists>db3. insert_trade_closed c db2 = (Inr (), db3) \<and> faults db3 = []"
    using assms(5-9) 2 tid by (auto simp: insert_trade_closed_def run_simps insert_notification_def stmt_ok)
  then obtain db3 where "insert_trade_closed c db2 = (Inr (), db3)" "faults db3 = []" by blast
  then show ?thesis
    unfolding persist_closed_tx_def using assms(1) 1 2
    by (intro exI [of _ db3] transaction_ok) (simp_all add: run_simps)
qed

section \<open>A dry-run close\<close>

lemma still_dbE:
  assumes "still env" and "m (w_db w) = (r, db')"
  shows "\<exists>w'. dbE env m w = (r, w') \<and> w_db w' = db' \<and> prices_of env w' = prices_of env w
    \<and> w_calls w' = w_calls w \<and> w_events w' = w_events w"
  using assms still_tasks [of env "w\<lparr>w_db := db'\<rparr>"] outputs_tasks [of env "w\<lparr>w_db := db'\<rparr>"]
  by (auto simp: dbE_def prices_of_def outputs_def)

lemma acquire_ok:
  assumes "faults db = []" and "distinct (map r_id (trades db))" and "r \<in> set (trades db)"
    and "r_status r = ''open''" and "trade_of_row r = Inr t"
  shows "\<exists>stale. acquire_close_lock now (r_id r) (r_account_id r) db =
    (Inr (Some \<lparr>lock_trade = t\<lparr>t_status := Closing\<rparr>, was_stale_recovery = stale\<rparr>),
     db\<lparr>trades := update_rows (lockable now (r_id r) (r_account_id r))
       (\<lambda>q. q\<lparr>r_status := ''closing'', r_closing_started_at := Some now\<rparr>) (trades db)\<rparr>)"
proof -
  have "lockable now (r_id r) (r_account_id r) r" using assms(4) by (simp add: lockable_def)
  moreover have "filter (\<lambda>q. r_id q = r_id r) (trades db) = [r]"
    using assms(2,3) by (rule filter_unique)
  moreover have "filter (lockable now (r_id r) (r_account_id r)) (trades db) =
      filter (lockable now (r_id r) (r_account_id r)) (filter (\<lambda>q. r_id q = r_id r) (trades db))"
    unfolding filter_filter by (rule filter_cong) (auto simp: lockable_def)
  ultimately have f: "filter (lockable now (r_id r) (r_account_id r)) (trades db) = [r]" by simp
  have "trade_of_row (r\<lparr>r_status := ''closing'', r_closing_started_at := Some now\<rparr>) = Inr (t\<lparr>t_status := Closing\<rparr>)"
    using assms(5) trade_status_roundtrip [of Closing] unfolding trade_of_row_def by (auto simp: bindR_eq_Inr)
  then show ?thesis
    using assms(1) f by (simp add: acquire_close_lock_def stmt_ok run_simps Let_def)
qed

text \<open>What a dry-run fill takes from the quote.\<close>

definition close_side_price :: "trade \<Rightarrow> decimal \<times> decimal \<Rightarrow> decimal" where
  "close_side_price t q = (case t_direction t of Long \<Rightarrow> fst q | Short \<Rightarrow> snd q)"

lemma dry_close_locked:
  assumes "still env" and "faults (w_db w) = []" and "tr_dry_run tr" and "tr_exchange tr = t_exchange t"
    and "store_bid_ask (prices_of env w) (feed_key_of t) = Some q" and "t_leverage t \<noteq> 0"
    and "r \<in> set (trades (w_db w))" and "r_id r = t_id t" and "unsettled r" and "trade_of_row r = Inr t"
    and "tr_account_id tr = t_account_id t" and "t_account_id t \<in> set (map a_id (accounts (w_db w)))"
  shows "\<exists>c w'. close_locked rnd env tr tid x (t, stale) w = (Inr c, w') \<and> t_exit_price c = Some (close_side_price t q)
    \<and> t_id c = t_id t \<and> t_status c = Closed \<and> t_exit_reason c = Some x \<and> w_calls w' = w_calls w \<and> w_events w' = w_events w
    \<and> (\<exists>r' \<in> set (trades (w_db w')). r_id r' = t_id t \<and> trade_of_row r' = Inr c)"
proof -
  let ?ep = "close_side_price t q"
  have fill: "close_and_release_lock_on_error rnd env tr tid t stale w =
      (Inr (?ep, commission_estimate ActionClose (tr_exchange tr) ?ep (t_quantity t), False), w)"
    using assms(3-5) by (cases q; cases "t_direction t")
      (simp_all add: close_and_release_lock_on_error_def fill_close_def latest_bid_ask_def prices_of_def feed_key_of_def
        close_side_price_def run_simps Let_def)
  let ?c = "closed_copy rnd t ?ep (commission_estimate ActionClose (tr_exchange tr) ?ep (t_quantity t))
      (sfd_estimate (tr_exchange tr) ?ep (t_quantity t)) (trade_pnl rnd t ?ep) (env_utc_now env (w_out w)) x"
  let ?m = "rnd (rnd (t_entry_price t * t_quantity t) / t_leverage t)"
  have m: "ddiv rnd (dmul rnd (t_entry_price t) (t_quantity t)) (t_leverage t) = Inr ?m"
    using assms(6) by (simp add: ddiv_def dmul_def)
  obtain db' where tx: "persist_closed_tx rnd (tr_account_id tr) ?c (truncate_yen ?m) (trade_pnl rnd t ?ep) ?ep
      (env_utc_now env (w_out w)) x (w_db w) = (Inr (), db')"
    using persist_closed_ok [of "w_db w" r ?c "tr_account_id tr" ?ep "trade_pnl rnd t ?ep" x rnd "truncate_yen ?m"
        "env_utc_now env (w_out w)"] assms by (auto simp: closed_copy_def)
  from still_dbE [where m = "persist_closed_tx rnd (tr_account_id tr) ?c (truncate_yen ?m) (trade_pnl rnd t ?ep) ?ep
      (env_utc_now env (w_out w)) x", OF assms(1) tx] obtain w1 where w1: "dbE env (persist_closed_tx rnd (tr_account_id tr) ?c
      (truncate_yen ?m) (trade_pnl rnd t ?ep) ?ep (env_utc_now env (w_out w)) x) w = (Inr (), w1)"
    "w_db w1 = db'" "w_calls w1 = w_calls w" "w_events w1 = w_events w" by blast
  let ?w' = "snd (notify_close_result tr ?c (trade_pnl rnd t ?ep) x False w1)"
  have "close_locked rnd env tr tid x (t, stale) w = (Inr ?c, ?w')"
    using assms(3) by (simp add: close_locked_def run_simps fill Let_def utc_now_def m unwrap_or_def
        persist_closed_trade_def w1(1) notify_close_result_def spawn_notification_def)
  moreover have "w_db ?w' = db'" "w_calls ?w' = w_calls w" "w_events ?w' = w_events w"
    by (simp_all add: notify_close_result_def spawn_notification_def run_simps w1)
  moreover have "\<exists>r' \<in> set (trades db'). r_id r' = r_id r \<and> trade_of_row r' = Inr ?c"
    using settled_row [OF tx refl assms(10,7,9)] .
  ultimately show ?thesis using assms(8) by (auto simp: closed_copy_def)
qed

lemma dry_close_position:
  assumes env: "still env" and f: "faults (w_db w) = []" and wf: "wf_db (w_db w)"
    and r: "r \<in> set (trades (w_db w))" "r_status r = ''open''" "trade_of_row r = Inr t"
    and tr: "tr_dry_run tr" "tr_exchange tr = t_exchange t" "tr_account_id tr = t_account_id t"
    and q: "store_bid_ask (prices_of env w) (feed_key_of t) = Some q"
  shows "\<exists>c w'. close_position rnd env tr (t_id t) x w = (Inr c, w') \<and> t_exit_price c = Some (close_side_price t q)
    \<and> t_id c = t_id t \<and> t_status c = Closed \<and> t_exit_reason c = Some x \<and> w_calls w' = w_calls w \<and> w_events w' = w_events w
    \<and> (\<exists>r' \<in> set (trades (w_db w')). r_id r' = t_id t \<and> trade_of_row r' = Inr c)"
proof -
  let ?t = "t\<lparr>t_status := Closing\<rparr>"
  let ?now = "env_utc_now env (w_out w)"
  let ?lock = "\<lambda>q. q\<lparr>r_status := ''closing'', r_closing_started_at := Some ?now\<rparr>"
  let ?p = "lockable ?now (r_id r) (r_account_id r)"
  let ?db1 = "w_db w\<lparr>trades := update_rows ?p ?lock (trades (w_db w))\<rparr>"
  note id = trade_of_row_fields [OF r(3)]
  have dist: "distinct (map r_id (trades (w_db w)))" and row: "r_leverage r \<noteq> 0"
    and acc: "r_account_id r \<in> set (map a_id (accounts (w_db w)))"
    using wf r(1) by (auto simp: wf_db_def wf_row_def)
  obtain stale where acq: "acquire_close_lock ?now (r_id r) (r_account_id r) (w_db w) =
      (Inr (Some \<lparr>lock_trade = ?t, was_stale_recovery = stale\<rparr>), ?db1)"
    using acquire_ok [OF f dist r] by blast
  from still_dbE [where m = "acquire_close_lock ?now (r_id r) (r_account_id r)", OF env acq]
  obtain w1 where w1: "dbE env (acquire_close_lock ?now (r_id r) (r_account_id r)) w =
      (Inr (Some \<lparr>lock_trade = ?t, was_stale_recovery = stale\<rparr>), w1)"
    "w_db w1 = ?db1" "prices_of env w1 = prices_of env w" "w_calls w1 = w_calls w" "w_events w1 = w_events w"
    by blast
  have load: "load_trade_for_close env tr (t_id t) w = (Inr (?t, stale), w1)"
    using w1(1) by (simp add: load_trade_for_close_def run_simps utc_now_def id tr(3))
  have "?p r" using r(2) by (simp add: lockable_def)
  then have locked: "?lock r \<in> set (trades (w_db w1))" using r(1) by (auto simp: w1(2) intro: updated_row)
  have conv: "trade_of_row (?lock r) = Inr ?t"
    using r(3) trade_status_roundtrip [of Closing] unfolding trade_of_row_def by (auto simp: bindR_eq_Inr)
  have "\<exists>c w'. close_locked rnd env tr (t_id t) x (?t, stale) w1 = (Inr c, w') \<and> t_exit_price c = Some (close_side_price ?t q)
    \<and> t_id c = t_id ?t \<and> t_status c = Closed \<and> t_exit_reason c = Some x \<and> w_calls w' = w_calls w1 \<and> w_events w' = w_events w1
    \<and> (\<exists>r' \<in> set (trades (w_db w')). r_id r' = t_id ?t \<and> trade_of_row r' = Inr c)"
    by (rule dry_close_locked [OF env _ tr(1) _ _ _ locked _ _ conv])
      (use f w1 tr q id row acc in \<open>simp_all add: feed_key_of_def unsettled_def\<close>)
  then show ?thesis using load w1(4,5) by (simp add: close_position_split bindE_run close_side_price_def)
qed

text \<open>
  C35. A due exit of a dry-run trade is carried out by the price event that makes it due: with a
  bid and ask in the price store, no other task interfering and no database failure, from every
  reachable ledger state the monitor returns normally with the trade closed in the database for
  the detected reason at the close side of the quote, having called no exchange, and hands the
  closed trade on exactly once.
\<close>

theorem due_paper_exit_closes:
  assumes "still env" and "\<forall>x. env_trade_channel env x" and "faults (w_db w) = []"
    and "reachable ledger_init (ledger_step rnd) \<lparr>ldb = w_db w, snapshots = ts\<rparr>"
    and "r \<in> set (trades (w_db w))" and "r_status r = ''open''" and "with_account (w_db w) r = Inr owned"
    and "ot_account_type owned = Some ty" and "effective_dry_run ty lf"
    and "t_exchange (ot_trade owned) = e_exchange e" and "t_pair (ot_trade owned) = e_pair e"
    and "detect_exit_reason (t_direction (ot_trade owned)) price (t_stop_loss (ot_trade owned))
      (t_take_profit (ot_trade owned)) (t_max_hold_until (ot_trade owned)) (env_utc_now env (w_out w)) = Some x"
    and "cx_liquidation_levels cx (e_exchange e) = Some level" and "0 < level"
    and "store_bid_ask (prices_of env w) (feed_key_of (ot_trade owned)) = Some q"
  shows "\<exists>c w'. close_trade_if_exit_due rnd env cx lf e price owned w = (Inr (), w')
    \<and> (\<exists>r' \<in> set (trades (w_db w')). r_id r' = r_id r \<and> trade_of_row r' = Inr c)
    \<and> t_status c = Closed \<and> t_exit_reason c = Some x
    \<and> t_exit_price c = Some (close_side_price (ot_trade owned) q) \<and> w_calls w' = w_calls w
    \<and> w_events w' = w_events w @ [TradeSent \<lparr>te_trade = c,
         te_action = ClosedAt (close_side_price (ot_trade owned) q) x, te_account_type = Some ty\<rparr>]"
proof -
  let ?t = "ot_trade owned"
  have t: "trade_of_row r = Inr ?t" using assms(7) by (auto simp: with_account_def bindR_eq_Inr)
  have wf: "wf_db (w_db w)"
    using ledger.reachable_inv [OF assms(4)] by (simp add: system_inv_def ledger_inv_def)
  obtain api where api: "resolve_close_api cx ?t True = Some api"
    by (cases "cx_apis cx (t_exchange ?t)") (simp_all add: resolve_close_api_def)
  define tr where "tr = trader_new (t_exchange ?t) (t_account_id ?t)
      (name_or_id (env_uuid_text env) (ot_account_name owned) (t_account_id ?t)) api (cx_position_sizer cx) level True"
  have "tr_dry_run tr" "tr_exchange tr = t_exchange ?t" "tr_account_id tr = t_account_id ?t"
    by (simp_all add: tr_def trader_new_def)
  from dry_close_position [OF assms(1,3) wf assms(5,6) t this assms(15)]
  obtain c w1 where close: "close_position rnd env tr (t_id ?t) x w = (Inr c, w1)"
    and c: "t_exit_price c = Some (close_side_price ?t q)" "t_id c = t_id ?t" "t_status c = Closed" "t_exit_reason c = Some x"
    and w1: "w_calls w1 = w_calls w" "w_events w1 = w_events w"
    and row: "\<exists>r' \<in> set (trades (w_db w1)). r_id r' = t_id ?t \<and> trade_of_row r' = Inr c"
    by blast
  let ?ev = "\<lparr>te_trade = c, te_action = ClosedAt (close_side_price ?t q) x, te_account_type = Some ty\<rparr>"
  let ?w' = "let_tasks_run env (w1\<lparr>w_events := w_events w1 @ [TradeSent ?ev]\<rparr>)"
  have "close_trade_if_exit_due rnd env cx lf e price owned w = (Inr (), ?w')"
    using assms(2,8-14) api close c
    by (simp add: close_trade_if_exit_due_def resolve_trade_account_def utc_now_def run_simps Let_def close_trade_def
        liquidation_level_or_log_def tr_def publish_closed_trade_def unwrap_or_def send_trade_event_def)
  moreover have "w_db ?w' = w_db w1" using still_tasks [OF assms(1)] by simp
  moreover have "w_calls ?w' = w_calls w" "w_events ?w' = w_events w @ [TradeSent ?ev]"
    using outputs_tasks [of env "w1\<lparr>w_events := w_events w1 @ [TradeSent ?ev]\<rparr>"] w1 by (simp_all add: outputs_def)
  ultimately show ?thesis using row c trade_of_row_fields(1) [OF t] by (intro exI [of _ c] exI [of _ ?w']) auto
qed

text \<open>The stop of the demo trade, at 147, is hit by a price of 146.\<close>

definition demo_open_row :: trade_row where
  "demo_open_row = hd (trades demo_stop_db)"

theorem due_paper_exit_closes_witness:
  "\<exists>w'. close_trade_if_exit_due exact demo_env demo_close_context False (demo_price 146) 146
      (demo_owned\<lparr>ot_trade := demo_trade\<lparr>t_stop_order_id := Some ''s''\<rparr>\<rparr>) (demo_world demo_stop_db) = (Inr (), w')
    \<and> (\<exists>r' \<in> set (trades (w_db w')). r_id r' = 7 \<and> r_status r' = ''closed'')"
proof -
  let ?owned = "demo_owned\<lparr>ot_trade := demo_trade\<lparr>t_stop_order_id := Some ''s''\<rparr>\<rparr>"
  have db: "faults demo_stop_db = []" "length (trades demo_stop_db) = 1" "r_status demo_open_row = ''open''"
    "r_id demo_open_row = 7" "with_account demo_stop_db demo_open_row = Inr ?owned"
    by code_simp+
  then have row: "demo_open_row \<in> set (trades demo_stop_db)"
    unfolding demo_open_row_def by (metis One_nat_def hd_in_set length_greater_0_conv zero_less_one)
  have reach: "reachable ledger_init (ledger_step exact) \<lparr>ldb = w_db (demo_world demo_stop_db), snapshots = []\<rparr>"
    using demo_stop_reachable by (simp add: demo_world_def)
  have quote: "store_bid_ask (prices_of demo_env (demo_world demo_stop_db)) (feed_key_of (ot_trade ?owned)) = Some (149, 150)"
    by code_simp
  have "detect_exit_reason (t_direction (ot_trade ?owned)) 146 (t_stop_loss (ot_trade ?owned))
      (t_take_profit (ot_trade ?owned)) (t_max_hold_until (ot_trade ?owned)) (env_utc_now demo_env (w_out (demo_world demo_stop_db))) = Some SlHit"
    by (simp add: detect_exit_reason_def demo_trade_def)
  from due_paper_exit_closes [OF demo_still _ _ reach _ _ _ _ _ _ _ this _ _ quote, of demo_open_row "''paper''" False
      "demo_price 146" demo_close_context "1/2"]
  obtain c w' where w': "close_trade_if_exit_due exact demo_env demo_close_context False (demo_price 146) 146 ?owned
      (demo_world demo_stop_db) = (Inr (), w')" "\<exists>r' \<in> set (trades (w_db w')). r_id r' = 7 \<and> trade_of_row r' = Inr c"
    "t_status c = Closed"
    using db row by (auto simp: demo_env_def demo_world_def demo_owned_def demo_trade_def demo_price_def
        demo_close_context_def effective_dry_run_def)
  then show ?thesis using trade_of_row_fields(7) by fastforce
qed

end
