(* ===== verification/Feed_Watchdog.thy ===== *)
theory Feed_Watchdog
  imports Startup
begin

text \<open>
  The feed watchdog (\<open>app/src/feed_watchdog.rs\<close>) and the notification retries
  (\<open>app/src/lib.rs\<close>): detection of suspends, the grace period after one, the freshness state of
  every feed and the supervision of the feed tasks. Alert texts carry their fixed part, with the
  exchange and the pair. The \<open>u64\<close> settings are naturals, read as \<open>i64\<close> where the code casts them.
\<close>

definition as_i64 :: "nat \<Rightarrow> int" where "as_i64 n = sint (word_of_nat n :: 64 word)"

lemma as_i64_small: "n < 2 ^ 63 \<Longrightarrow> as_i64 n = int n"
  by (simp add: as_i64_def signed_of_nat signed_take_bit_int_eq_self)

section \<open>Suspends\<close>

record suspend_gap =
  sg_started_at :: datetime
  sg_resumed_at :: datetime
  sg_gap_secs :: int

definition wall_clock_backward_secs :: "datetime \<Rightarrow> datetime \<Rightarrow> int option" where
  "wall_clock_backward_secs previous now =
     (if now < previous then Some (num_seconds (previous - now)) else None)"

definition detect_suspend_gap :: "datetime \<Rightarrow> datetime \<Rightarrow> nat \<Rightarrow> suspend_gap option" where
  "detect_suspend_gap previous_wall_clock now_wall_clock suspend_gap_secs =
     (let gap_secs = num_seconds (now_wall_clock - previous_wall_clock) in
      if gap_secs < as_i64 suspend_gap_secs then None
      else Some \<lparr>sg_started_at = previous_wall_clock, sg_resumed_at = now_wall_clock, sg_gap_secs = gap_secs\<rparr>)"

text \<open>\<open>chrono::Duration::seconds\<close> panics beyond \<open>i64::MAX / 1000\<close> seconds.\<close>

definition duration_seconds :: "int \<Rightarrow> int result" where
  "duration_seconds s =
     (if \<bar>s\<bar> > 9223372036854775 then Inl (Panic ''Duration::seconds out of bounds'') else Inr (secs s))"

type_synonym suspend_grace_tracker = "datetime option"

definition note_suspend_resumed :: "datetime \<Rightarrow> nat \<Rightarrow> suspend_grace_tracker result" where
  "note_suspend_resumed resumed_at stale_after_secs =
     bindR (duration_seconds (as_i64 stale_after_secs)) (\<lambda>d. Inr (Some (resumed_at + d)))"

definition in_grace_period :: "suspend_grace_tracker \<Rightarrow> datetime \<Rightarrow> bool" where
  "in_grace_period grace_until now = (case grace_until of None \<Rightarrow> False | Some until \<Rightarrow> now < until)"

section \<open>Freshness\<close>

type_synonym feed_id = "string \<times> string"

record feed_observation =
  ob_key :: feed_id
  ob_market_closed :: bool
  ob_last_tick_at :: "datetime option"

definition is_effectively_market_closed :: "bool \<Rightarrow> datetime option \<Rightarrow> datetime \<Rightarrow> nat \<Rightarrow> bool" where
  "is_effectively_market_closed status_is_closed market_closed_at now stale_after_secs \<longleftrightarrow>
     status_is_closed \<and>
     (case market_closed_at of None \<Rightarrow> False | Some t \<Rightarrow> num_seconds (now - t) < as_i64 stale_after_secs)"

record stale_state =
  ss_since :: datetime
  ss_last_alert_at :: datetime

datatype freshness_event =
    NewlyStale datetime
  | StillStale datetime
  | Recovered datetime datetime

type_synonym feed_freshness_tracker = "feed_id \<rightharpoonup> stale_state"

definition evaluate ::
  "feed_freshness_tracker \<Rightarrow> feed_observation \<Rightarrow> datetime \<Rightarrow> datetime \<Rightarrow> nat \<Rightarrow> nat \<Rightarrow> bool
    \<Rightarrow> freshness_event option \<times> feed_freshness_tracker" where
  "evaluate states obs now watchdog_started_at stale_after_secs realert_interval_secs suppress =
     (if suppress then (None, states)
      else if ob_market_closed obs then (None, states(ob_key obs := None))
      else
        let is_stale_now = (case ob_last_tick_at obs of
              Some ts \<Rightarrow> num_seconds (now - ts) \<ge> as_i64 stale_after_secs
            | None \<Rightarrow> num_seconds (now - watchdog_started_at) \<ge> as_i64 stale_after_secs)
        in case (states (ob_key obs), is_stale_now) of
             (None, False) \<Rightarrow> (None, states)
           | (None, True) \<Rightarrow>
               (Some (NewlyStale now), states(ob_key obs \<mapsto> \<lparr>ss_since = now, ss_last_alert_at = now\<rparr>))
           | (Some st, True) \<Rightarrow>
               if num_seconds (now - ss_last_alert_at st) \<ge> as_i64 realert_interval_secs
               then (Some (StillStale (ss_since st)),
                     states(ob_key obs \<mapsto> \<lparr>ss_since = ss_since st, ss_last_alert_at = now\<rparr>))
               else (None, states)
           | (Some st, False) \<Rightarrow>
               (Some (Recovered (ss_since st) now), states(ob_key obs := None)))"

section \<open>The watchdog\<close>

definition parse_feed_exchange :: "feed_health \<Rightarrow> exchange option" where
  "parse_feed_exchange h = (case exchange_from_str (fh_exchange h) of Inr ex \<Rightarrow> Some ex | Inl _ \<Rightarrow> None)"

definition observe_feed :: "feed_health \<Rightarrow> datetime \<Rightarrow> nat \<Rightarrow> feed_observation result" where
  "observe_feed h now stale_after_secs =
     bindR (case fh_last_tick_age_secs h of
              None \<Rightarrow> Inr None
            | Some age \<Rightarrow> bindR (duration_seconds age) (\<lambda>d. Inr (Some (now - d)))) (\<lambda>last_tick_at.
     Inr \<lparr>ob_key = (fh_exchange h, fh_pair h),
       ob_market_closed = is_effectively_market_closed (fh_status h = MarketClosed)
         (fh_market_closed_at h) now stale_after_secs,
       ob_last_tick_at = last_tick_at\<rparr>)"

definition build_freshness_alert :: "exchange \<Rightarrow> pair \<Rightarrow> freshness_event \<Rightarrow> string \<times> string \<times> bool" where
  "build_freshness_alert ex pair event =
     (let feed = ''feed '' @ exchange_as_str ex @ '' '' @ pair in
      case event of
        NewlyStale since \<Rightarrow> (''feed stale'', feed @ '' has stopped receiving ticks'', True)
      | StillStale since \<Rightarrow> (''feed stale'', feed @ '' has stopped receiving ticks'', True)
      | Recovered since recovered_at \<Rightarrow> (''feed recovered'', feed @ '' recovered'', False))"

definition check_one_feed ::
  "'x environment \<Rightarrow> feed_watchdog_config \<Rightarrow> suspend_grace_tracker \<Rightarrow> datetime \<Rightarrow> datetime
    \<Rightarrow> feed_freshness_tracker \<Rightarrow> feed_health \<Rightarrow> ('x, feed_freshness_tracker) io" where
  "check_one_feed env cfg grace now started states h =
     bindE (liftR (observe_feed h now (fw_stale_after_secs cfg))) (\<lambda>obs.
     case evaluate states obs now started (fw_stale_after_secs cfg) (fw_realert_interval_secs cfg)
            (in_grace_period grace now) of
       (None, states) \<Rightarrow> returnE states
     | (Some event, states) \<Rightarrow>
         (case parse_feed_exchange h of
            None \<Rightarrow> returnE states
          | Some ex \<Rightarrow>
              (case build_freshness_alert ex (fh_pair h) event of (title, body, _) \<Rightarrow>
                 bindE (spawn_notification (SystemAlert title ''(system)'' ex body)) (\<lambda>_.
                 returnE states))))"

definition check_feed_freshness ::
  "'x environment \<Rightarrow> feed_watchdog_config \<Rightarrow> feed_freshness_tracker \<Rightarrow> suspend_grace_tracker \<Rightarrow> datetime
    \<Rightarrow> datetime \<Rightarrow> ('x, feed_freshness_tracker) io" where
  "check_feed_freshness env cfg states grace now started =
     bindE (askW (\<lambda>w. health_at now (env_prices env (w_out w)))) (\<lambda>health.
     foldE (check_one_feed env cfg grace now started) states
       (filter (\<lambda>h. fh_exchange h \<notin> set (fw_exclude_exchanges cfg)) health))"

definition alert_suspend_resumed ::
  "feed_watchdog_config \<Rightarrow> datetime \<Rightarrow> ('x, suspend_grace_tracker) io" where
  "alert_suspend_resumed cfg now =
     bindE (liftR (note_suspend_resumed now (fw_stale_after_secs cfg))) (\<lambda>grace.
     bindE (spawn_notification (ProcessAlert ''process suspend detected''
       ''process appears to have been unresponsive'')) (\<lambda>_. returnE grace))"

record watchdog_state =
  wd_previous_wall_clock :: datetime
  wd_freshness :: feed_freshness_tracker
  wd_suspend_grace :: suspend_grace_tracker

text \<open>One round of the loop of \<open>run\<close>.\<close>

definition watchdog_round ::
  "'x environment \<Rightarrow> feed_watchdog_config \<Rightarrow> datetime \<Rightarrow> watchdog_state \<Rightarrow> ('x, watchdog_state) io" where
  "watchdog_round env cfg started st =
     bindE (utc_now env) (\<lambda>now.
     case wall_clock_backward_secs (wd_previous_wall_clock st) now of
       Some _ \<Rightarrow> returnE (st\<lparr>wd_previous_wall_clock := now\<rparr>)
     | None \<Rightarrow>
         let suspend_gap = detect_suspend_gap (wd_previous_wall_clock st) now (fw_suspend_gap_secs cfg) in
         bindE (case suspend_gap of None \<Rightarrow> returnE (wd_suspend_grace st)
                | Some _ \<Rightarrow> alert_suspend_resumed cfg now) (\<lambda>grace.
         bindE (check_feed_freshness env cfg (wd_freshness st) grace now started) (\<lambda>freshness.
         returnE \<lparr>wd_previous_wall_clock = now, wd_freshness = freshness, wd_suspend_grace = grace\<rparr>)))"

fun watchdog_rounds ::
  "nat \<Rightarrow> 'x environment \<Rightarrow> feed_watchdog_config \<Rightarrow> datetime \<Rightarrow> watchdog_state \<Rightarrow> ('x, watchdog_state) io" where
  "watchdog_rounds 0 env cfg started st = returnE st"
| "watchdog_rounds (Suc n) env cfg started st =
     bindE (watchdog_round env cfg started st) (\<lambda>st.
     bindE (sleep env (secs (int (fw_check_interval_secs cfg)))) (\<lambda>_.
     watchdog_rounds n env cfg started st))"

text \<open>\<open>run\<close> for a number of rounds; the first tick of the interval comes at once.\<close>

definition run_watchdog :: "nat \<Rightarrow> 'x environment \<Rightarrow> feed_watchdog_config \<Rightarrow> ('x, watchdog_state) io" where
  "run_watchdog n env cfg =
     bindE (utc_now env) (\<lambda>started.
     watchdog_rounds n env cfg started
       \<lparr>wd_previous_wall_clock = started, wd_freshness = Map.empty, wd_suspend_grace = None\<rparr>)"

section \<open>Ended feed tasks\<close>

datatype feed_task_result = FeedReturned "unit result" | FeedCancelled | FeedPanicked string

definition classify_feed_task_result :: "exchange \<Rightarrow> feed_task_result \<Rightarrow> (string \<times> string) option" where
  "classify_feed_task_result ex r =
     (let feed = ''market feed for '' @ exchange_as_str ex in
      case r of
        FeedReturned (Inr _) \<Rightarrow> Some (''feed task exited'', feed @ '' exited normally'')
      | FeedReturned (Inl _) \<Rightarrow> Some (''feed task exited'', feed @ '' exited with an error'')
      | FeedCancelled \<Rightarrow> None
      | FeedPanicked _ \<Rightarrow> Some (''feed task exited'', feed @ '' PANICKED''))"

definition feed_supervisor :: "exchange \<Rightarrow> feed_task_result \<Rightarrow> ('x, unit) io" where
  "feed_supervisor ex r =
     (case classify_feed_task_result ex r of
        None \<Rightarrow> returnE ()
      | Some (title, body) \<Rightarrow> spawn_notification (SystemAlert title ''(system)'' ex body))"

section \<open>Retries of a notification\<close>

definition u64_saturating_mul :: "nat \<Rightarrow> nat \<Rightarrow> nat" where
  "u64_saturating_mul a b = min (a * b) (2 ^ 64 - 1)"

definition notify_retry_delay_secs :: "nat \<Rightarrow> nat \<Rightarrow> nat" where
  "notify_retry_delay_secs attempt_no initial_secs =
     (let exponent = min (attempt_no - 1) 63 in u64_saturating_mul initial_secs (2 ^ exponent))"

text \<open>The loop over the attempts; \<open>send\<close> is the delivery to Slack.\<close>

fun retry_attempts ::
  "'x environment \<Rightarrow> ('x, unit) io \<Rightarrow> nat \<Rightarrow> nat list \<Rightarrow> string \<Rightarrow> ('x, unit) io" where
  "retry_attempts env send initial_secs [] last_err = failE (Anyhow last_err)"
| "retry_attempts env send initial_secs (a # as) last_err =
     bindE (sleep env (secs (int (notify_retry_delay_secs a initial_secs)))) (\<lambda>_.
     bindE (attempt send) (\<lambda>r.
     case r of Inr _ \<Rightarrow> returnE () | Inl e \<Rightarrow> retry_attempts env send initial_secs as e))"

definition retry_send :: "'x environment \<Rightarrow> ('x, unit) io \<Rightarrow> nat \<Rightarrow> nat \<Rightarrow> ('x, unit) io" where
  "retry_send env send attempts initial_secs =
     bindE (attempt send) (\<lambda>r.
     case r of Inr _ \<Rightarrow> returnE ()
     | Inl e \<Rightarrow> retry_attempts env send initial_secs [1..<attempts + 1] e)"

end
