(* ===== verification/Watchdog_Theorems.thy ===== *)
theory Watchdog_Theorems
  imports Feed_Watchdog
begin

text \<open>
  The alerts of the feed watchdog over any run: every repeated or recovery alert belongs to the
  stale period it names, and the configuration check makes sure that the retries of one alert are
  over before the feed is alerted again.
\<close>

section \<open>Runs of the freshness tracker\<close>

type_synonym tracker_input = "feed_observation \<times> datetime \<times> bool"

type_synonym feed_event = "feed_id \<times> datetime \<times> freshness_event"

fun tracker_run ::
  "feed_watchdog_config \<Rightarrow> datetime \<Rightarrow> tracker_input list \<Rightarrow> feed_freshness_tracker \<Rightarrow> feed_event list" where
  "tracker_run cfg started [] states = []"
| "tracker_run cfg started ((obs, now, suppress) # inputs) states =
     (case evaluate states obs now started (fw_stale_after_secs cfg) (fw_realert_interval_secs cfg) suppress of
        (event, states') \<Rightarrow>
          (case event of None \<Rightarrow> [] | Some e \<Rightarrow> [(ob_key obs, now, e)]) @ tracker_run cfg started inputs states')"

text \<open>
  The specification looks at the events only. The history of a feed is the stale period its
  earlier events leave open; a repeated alert comes more than \<open>gap\<close> seconds after the last one.
\<close>

fun events_ok :: "int \<Rightarrow> (feed_id \<rightharpoonup> stale_state) \<Rightarrow> feed_event list \<Rightarrow> bool" where
  "events_ok gap h [] = True"
| "events_ok gap h ((k, now, NewlyStale s) # es) =
     (s = now \<and> events_ok gap (h(k \<mapsto> \<lparr>ss_since = now, ss_last_alert_at = now\<rparr>)) es)"
| "events_ok gap h ((k, now, StillStale s) # es) =
     (\<exists>l. h k = Some \<lparr>ss_since = s, ss_last_alert_at = l\<rparr> \<and> gap < num_seconds (now - l)
        \<and> events_ok gap (h(k \<mapsto> \<lparr>ss_since = s, ss_last_alert_at = now\<rparr>)) es)"
| "events_ok gap h ((k, now, Recovered s r) # es) =
     (r = now \<and> (\<exists>l. h k = Some \<lparr>ss_since = s, ss_last_alert_at = l\<rparr>) \<and> events_ok gap (h(k := None)) es)"

lemma evaluate_cases:
  assumes "evaluate states obs now started stale realert suppress = (event, states')"
  shows "event = None \<and> states' \<subseteq>\<^sub>m states
    \<or> event = Some (NewlyStale now) \<and> states' = states(ob_key obs \<mapsto> \<lparr>ss_since = now, ss_last_alert_at = now\<rparr>)
    \<or> (\<exists>s l. states (ob_key obs) = Some \<lparr>ss_since = s, ss_last_alert_at = l\<rparr> \<and> event = Some (StillStale s)
        \<and> as_i64 realert \<le> num_seconds (now - l)
        \<and> states' = states(ob_key obs \<mapsto> \<lparr>ss_since = s, ss_last_alert_at = now\<rparr>))
    \<or> (\<exists>s l. states (ob_key obs) = Some \<lparr>ss_since = s, ss_last_alert_at = l\<rparr> \<and> event = Some (Recovered s now)
        \<and> states' = states(ob_key obs := None))"
proof (cases "suppress \<or> ob_market_closed obs")
  case True
  then have "event = None \<and> states' \<subseteq>\<^sub>m states"
    using assms by (auto simp: evaluate_def map_le_def split: if_splits)
  then show ?thesis by blast
next
  case False
  let ?stale = "case ob_last_tick_at obs of
      Some ts \<Rightarrow> num_seconds (now - ts) \<ge> as_i64 stale | None \<Rightarrow> num_seconds (now - started) \<ge> as_i64 stale"
  show ?thesis
  proof (cases "states (ob_key obs)")
    case None
    then show ?thesis
      using assms False by (cases ?stale) (simp_all add: evaluate_def Let_def)
  next
    case (Some st)
    obtain s l where st: "st = \<lparr>ss_since = s, ss_last_alert_at = l\<rparr>" by (cases st)
    show ?thesis
      using assms False Some by (cases ?stale) (auto simp: evaluate_def Let_def st split: if_splits)
  qed
qed

lemma tracker_run_ok:
  assumes "gap < as_i64 (fw_realert_interval_secs cfg)" and "states \<subseteq>\<^sub>m h"
  shows "events_ok gap h (tracker_run cfg started inputs states)"
  using assms(2)
proof (induction inputs arbitrary: states h)
  case (Cons i inputs)
  obtain obs now suppress where i: "i = (obs, now, suppress)" by (cases i)
  obtain event states' where e: "evaluate states obs now started (fw_stale_after_secs cfg)
      (fw_realert_interval_secs cfg) suppress = (event, states')" by fastforce
  have known: "h k = Some v" if "states k = Some v" for k v
    using Cons.prems that unfolding map_le_def by (metis domI)
  consider "event = None" "states' \<subseteq>\<^sub>m states"
    | "event = Some (NewlyStale now)" "states' = states(ob_key obs \<mapsto> \<lparr>ss_since = now, ss_last_alert_at = now\<rparr>)"
    | s l where "states (ob_key obs) = Some \<lparr>ss_since = s, ss_last_alert_at = l\<rparr>" "event = Some (StillStale s)"
        "as_i64 (fw_realert_interval_secs cfg) \<le> num_seconds (now - l)"
        "states' = states(ob_key obs \<mapsto> \<lparr>ss_since = s, ss_last_alert_at = now\<rparr>)"
    | s l where "states (ob_key obs) = Some \<lparr>ss_since = s, ss_last_alert_at = l\<rparr>" "event = Some (Recovered s now)"
        "states' = states(ob_key obs := None)"
    using evaluate_cases [OF e] by blast
  then show ?case
  proof cases
    case 1
    then show ?thesis using Cons.IH [of states' h] map_le_trans [OF _ Cons.prems] by (simp add: i e)
  next
    case 2
    then show ?thesis
      using Cons.IH [OF map_le_upd [OF Cons.prems, of "ob_key obs" "Some \<lparr>ss_since = now, ss_last_alert_at = now\<rparr>"]]
      by (simp add: i e del: fun_upd_apply)
  next
    case 3
    then show ?thesis
      using Cons.IH [OF map_le_upd [OF Cons.prems, of "ob_key obs" "Some \<lparr>ss_since = s, ss_last_alert_at = now\<rparr>"]]
        known assms(1)
      by (auto simp: i e simp del: fun_upd_apply)
  next
    case 4
    have "states' \<subseteq>\<^sub>m h(ob_key obs := None)" using Cons.prems by (auto simp: 4 map_le_def)
    then show ?thesis using Cons.IH 4 known by (auto simp: i e)
  qed
qed simp

section \<open>Retries\<close>

definition retry_waits :: "feed_watchdog_config \<Rightarrow> nat list" where
  "retry_waits cfg = map (\<lambda>a. notify_retry_delay_secs a (fw_notify_retry_initial_secs cfg))
     [1..<fw_notify_retry_attempts cfg + 1]"

lemma sum_doubling: "(\<Sum>a\<leftarrow>[1..<n + 1]. i * 2 ^ (a - 1)) = (2 ^ n - 1) * (i :: nat)"
proof (induction n)
  case (Suc n)
  have "(\<Sum>a\<leftarrow>[1..<Suc n + 1]. i * 2 ^ (a - 1)) = (2 ^ n - 1) * i + i * 2 ^ n"
    using Suc by simp
  also have "\<dots> = (2 ^ Suc n - 1) * i" by (simp add: algebra_simps)
  finally show ?case .
qed simp

lemma retry_waits_total:
  assumes "fw_notify_retry_attempts cfg \<le> 10" and "total_wait_secs cfg < 2 ^ 64"
  shows "sum_list (retry_waits cfg) = total_wait_secs cfg"
proof -
  let ?i = "fw_notify_retry_initial_secs cfg" and ?n = "fw_notify_retry_attempts cfg"
  have "notify_retry_delay_secs a ?i = ?i * 2 ^ (a - 1)" if "a \<in> set [1..<?n + 1]" for a
  proof -
    have a: "1 \<le> a" "a \<le> ?n" using that by auto
    then have "(2 :: nat) ^ (a - 1) < 2 ^ ?n" by (intro power_strict_increasing) auto
    then have "2 ^ (a - 1) \<le> (2 :: nat) ^ ?n - 1" by linarith
    then have "?i * 2 ^ (a - 1) \<le> total_wait_secs cfg"
      unfolding total_wait_secs_def by (simp add: mult.commute mult_le_mono2)
    then have "?i * 2 ^ (a - 1) \<le> 2 ^ 64 - 1" using assms(2) by simp
    moreover have "min (a - 1) 63 = a - 1" using a assms(1) by auto
    ultimately show ?thesis
      unfolding notify_retry_delay_secs_def u64_saturating_mul_def Let_def by (simp only: min_absorb1)
  qed
  then have "sum_list (retry_waits cfg) = (\<Sum>a\<leftarrow>[1..<?n + 1]. ?i * 2 ^ (a - 1))"
    unfolding retry_waits_def by (intro arg_cong [where f = sum_list] map_cong) simp_all
  then show ?thesis unfolding sum_doubling total_wait_secs_def .
qed

text \<open>
  C36. Under a validated configuration the alerts of the watchdog are consistent over any run: a
  recovery or repeated alert names the start of a stale period that an earlier alert of that feed
  opened, and a repeated alert comes only after the time that the sends and retries of the previous
  one can take, all retry waits and one send timeout per attempt included.
\<close>

theorem watchdog_alerts_consistent:
  assumes "feed_watchdog_validate cfg = Inr ()" and "fw_realert_interval_secs cfg < 2 ^ 63"
  shows "events_ok (int ((fw_notify_retry_attempts cfg + 1) * NOTIFY_SEND_TIMEOUT_SECS + sum_list (retry_waits cfg)))
    Map.empty (tracker_run cfg started inputs Map.empty)"
proof -
  have n: "fw_notify_retry_attempts cfg \<le> 10" and w: "worst_case_secs cfg < fw_realert_interval_secs cfg"
    using assms(1) by (auto simp: feed_watchdog_validate_def bindR_eq_Inr MAX_NOTIFY_RETRY_ATTEMPTS_def)
  have "total_wait_secs cfg < 2 ^ 64" using w assms(2) by (simp add: worst_case_secs_def)
  from retry_waits_total [OF n this]
  have "(fw_notify_retry_attempts cfg + 1) * NOTIFY_SEND_TIMEOUT_SECS + sum_list (retry_waits cfg)
      < fw_realert_interval_secs cfg"
    using w by (simp add: worst_case_secs_def)
  then have "int ((fw_notify_retry_attempts cfg + 1) * NOTIFY_SEND_TIMEOUT_SECS + sum_list (retry_waits cfg))
      < as_i64 (fw_realert_interval_secs cfg)"
    unfolding as_i64_small [OF assms(2)] by (simp only: of_nat_less_iff)
  from tracker_run_ok [OF this map_le_refl] show ?thesis .
qed

text \<open>The default configuration: a feed goes silent, is alerted again after an hour, and recovers.\<close>

definition demo_observation :: "datetime \<Rightarrow> feed_observation" where
  "demo_observation tick = \<lparr>ob_key = (''gmo_fx'', ''USD_JPY''), ob_market_closed = False, ob_last_tick_at = Some tick\<rparr>"

definition demo_inputs_watchdog :: "tracker_input list" where
  "demo_inputs_watchdog = [(demo_observation 0, secs 900, False), (demo_observation 0, secs 4000, False),
     (demo_observation 0, secs 4500, False), (demo_observation (secs 4550), secs 4560, False)]"

theorem watchdog_alerts_consistent_witness:
  "tracker_run feed_watchdog_default 0 demo_inputs_watchdog Map.empty =
     [((''gmo_fx'', ''USD_JPY''), secs 900, NewlyStale (secs 900)),
      ((''gmo_fx'', ''USD_JPY''), secs 4500, StillStale (secs 900)),
      ((''gmo_fx'', ''USD_JPY''), secs 4560, Recovered (secs 900) (secs 4560))]
   \<and> events_ok (int ((fw_notify_retry_attempts feed_watchdog_default + 1) * NOTIFY_SEND_TIMEOUT_SECS
       + sum_list (retry_waits feed_watchdog_default))) Map.empty
     (tracker_run feed_watchdog_default 0 demo_inputs_watchdog Map.empty)"
proof
  show "tracker_run feed_watchdog_default 0 demo_inputs_watchdog Map.empty =
     [((''gmo_fx'', ''USD_JPY''), secs 900, NewlyStale (secs 900)),
      ((''gmo_fx'', ''USD_JPY''), secs 4500, StillStale (secs 900)),
      ((''gmo_fx'', ''USD_JPY''), secs 4560, Recovered (secs 900) (secs 4560))]"
    by code_simp
  have "feed_watchdog_validate feed_watchdog_default = Inr ()" by code_simp
  from watchdog_alerts_consistent [OF this, of 0 demo_inputs_watchdog]
  show "events_ok (int ((fw_notify_retry_attempts feed_watchdog_default + 1) * NOTIFY_SEND_TIMEOUT_SECS
       + sum_list (retry_waits feed_watchdog_default))) Map.empty
     (tracker_run feed_watchdog_default 0 demo_inputs_watchdog Map.empty)"
    by (simp add: feed_watchdog_default_def)
qed

end
