(* ===== verification/Sim_Types.thy ===== *)
theory Sim_Types
  imports Prelude
begin

text \<open>
  The types of the simulator (\<open>sim/src/types.rs\<close>, \<open>error.rs\<close>, \<open>config.rs\<close>): M5 bars in milli yen,
  the error values and the validated settings.

  Prices, profits and times of bars are \<open>i64\<close> fields that stay far from the ends of the type, so
  their sums and differences are integers here. The settings come from a file without an upper
  bound, so arithmetic on them wraps (\<open>i64_wrap\<close>, the release profile) or saturates as in the code.
  An \<open>f64\<close> is the rational it denotes, \<open>fl\<close> is the rounding of an exact result to a double, and
  \<open>NaN\<close> is \<open>None\<close> where the code uses it as a marker; runs with infinities are not described.
\<close>

type_synonym f64 = rat

type_synonym float_rounding = "rat \<Rightarrow> rat"

section \<open>Errors\<close>

datatype sim_error =
    ConfigError string
  | ArgsError string
  | MissingTables "string list"
  | InvalidScript string
  | FetchIncomplete "string list"
  | BatchFailed string
  | DbError string
  | OtherError string

type_synonym 'a sim_result = "sim_error + 'a"

definition bindS :: "('e + 'a) \<Rightarrow> ('a \<Rightarrow> 'e + 'b) \<Rightarrow> 'e + 'b" where
  "bindS r f = (case r of Inl e \<Rightarrow> Inl e | Inr x \<Rightarrow> f x)"

lemma bindS_simps [simp]: "bindS (Inl e) f = Inl e" "bindS (Inr x) f = f x"
  by (simp_all add: bindS_def)

lemma bindS_eq_Inr: "bindS r f = Inr y \<longleftrightarrow> (\<exists>x. r = Inr x \<and> f x = Inr y)"
  by (cases r) auto

definition guardS :: "bool \<Rightarrow> 'e \<Rightarrow> 'e + unit" where
  "guardS failing e = (if failing then Inl e else Inr ())"

lemma guardS_eq_Inr [simp]: "guardS b e = Inr u \<longleftrightarrow> \<not> b"
  by (simp add: guardS_def)

lemma bindS_guard [simp]: "bindS (guardS b e) f = Inr y \<longleftrightarrow> \<not> b \<and> f () = Inr y"
  by (simp add: guardS_def)

section \<open>Integers\<close>

definition I64_MAX :: int where "I64_MAX = 2 ^ 63 - 1"

definition i64_wrap :: "int \<Rightarrow> int" where
  "i64_wrap x = (x + 2 ^ 63) mod 2 ^ 64 - 2 ^ 63"

definition i64_saturating_mul :: "int \<Rightarrow> int \<Rightarrow> int" where
  "i64_saturating_mul a b = max (- (2 ^ 63)) (min I64_MAX (a * b))"

lemma i64_wrap_id: "- (2 ^ 63) \<le> x \<Longrightarrow> x < 2 ^ 63 \<Longrightarrow> i64_wrap x = x"
  by (simp add: i64_wrap_def)

section \<open>Bars\<close>

definition PIP_MILLI :: int where "PIP_MILLI = 10"
definition PIP_MID2 :: int where "PIP_MID2 = 20"
definition M5_SECS :: int where "M5_SECS = 300"
definition FLOAT_GRID_TOLERANCE :: f64 where "FLOAT_GRID_TOLERANCE = 1 / 1000000000"

definition REQUIRED_TABLES :: "string list" where
  "REQUIRED_TABLES = [''sim_candles'', ''sim_scripts'', ''sim_batches'', ''sim_runs'']"

record bar =
  br_open_time :: int
  br_bid_open :: int
  br_bid_high :: int
  br_bid_low :: int
  br_bid_close :: int
  br_ask_open :: int
  br_ask_high :: int
  br_ask_low :: int
  br_ask_close :: int

definition mid2_open :: "bar \<Rightarrow> int" where "mid2_open b = br_bid_open b + br_ask_open b"
definition mid2_high :: "bar \<Rightarrow> int" where "mid2_high b = br_bid_high b + br_ask_high b"
definition mid2_low :: "bar \<Rightarrow> int" where "mid2_low b = br_bid_low b + br_ask_low b"
definition mid2_close :: "bar \<Rightarrow> int" where "mid2_close b = br_bid_close b + br_ask_close b"

definition milli_to_pips :: "float_rounding \<Rightarrow> int \<Rightarrow> f64" where
  "milli_to_pips fl v = fl (fl (of_int v) / of_int PIP_MILLI)"

definition mid2_to_pips :: "float_rounding \<Rightarrow> int \<Rightarrow> f64" where
  "mid2_to_pips fl v = fl (fl (of_int v) / of_int PIP_MID2)"

definition mid2_to_yen :: "float_rounding \<Rightarrow> int \<Rightarrow> f64" where
  "mid2_to_yen fl v = fl (fl (of_int v) / 2000)"

section \<open>Settings\<close>

record sim_config =
  sc_gmo_public_base_url :: string
  sc_warmup_bars :: nat
  sc_protective_stop_pips :: int
  sc_thetas_pips :: "int list"
  sc_jobs :: nat
  sc_max_operations_per_bar :: nat
  sc_max_operations_per_run :: nat
  sc_indicator_cache_mb :: nat

definition sim_config_default :: sim_config where
  "sim_config_default =
     \<lparr>sc_gmo_public_base_url = ''https://forex-api.coin.z.com/public'', sc_warmup_bars = 3000,
      sc_protective_stop_pips = 100, sc_thetas_pips = [20, 50, 100], sc_jobs = 1,
      sc_max_operations_per_bar = 200000, sc_max_operations_per_run = 1000000000,
      sc_indicator_cache_mb = 512\<rparr>"

definition has_duplicate :: "int list \<Rightarrow> bool" where
  "has_duplicate xs = (let sorted = sort xs in list_ex (\<lambda>(a, b). a = b) (zip sorted (tl sorted)))"

definition sim_config_validate :: "sim_config \<Rightarrow> unit sim_result" where
  "sim_config_validate c =
     bindS (guardS (sc_warmup_bars c < 1)
       (ConfigError ''invalid option sim.warmup_bars: must be >= 1'')) (\<lambda>_.
     bindS (guardS (sc_protective_stop_pips c < 1)
       (ConfigError ''invalid option sim.protective_stop_pips: must be >= 1'')) (\<lambda>_.
     bindS (guardS (sc_thetas_pips c = [])
       (ConfigError ''invalid option sim.thetas_pips: must not be empty'')) (\<lambda>_.
     bindS (guardS (list_ex (\<lambda>v. v < 1) (sc_thetas_pips c))
       (ConfigError ''invalid option sim.thetas_pips: values must be >= 1'')) (\<lambda>_.
     bindS (guardS (has_duplicate (sc_thetas_pips c))
       (ConfigError ''invalid option sim.thetas_pips: must not contain duplicates'')) (\<lambda>_.
     bindS (guardS (sc_jobs c < 1)
       (ConfigError ''invalid option sim.jobs: must be >= 1'')) (\<lambda>_.
     bindS (guardS (sc_max_operations_per_bar c < 1)
       (ConfigError ''invalid option sim.max_operations_per_bar: must be >= 1'')) (\<lambda>_.
     bindS (guardS (sc_max_operations_per_run c < 1)
       (ConfigError ''invalid option sim.max_operations_per_run: must be >= 1'')) (\<lambda>_.
     guardS (sc_indicator_cache_mb c < 1)
       (ConfigError ''invalid option sim.indicator_cache_mb: must be >= 1'')))))))))"

definition resolve_config_path :: "string option \<Rightarrow> string" where
  "resolve_config_path value = (case value of None \<Rightarrow> ''config/default.toml'' | Some p \<Rightarrow> p)"

lemma sorted_adjacent_distinct:
  fixes xs :: "int list"
  assumes "sorted xs"
  shows "list_ex (\<lambda>(a, b). a = b) (zip xs (tl xs)) \<longleftrightarrow> \<not> distinct xs"
  using assms
proof (induction xs rule: induct_list012)
  case (3 x y zs)
  then have "x \<notin> set (y # zs) \<longleftrightarrow> x \<noteq> y" by (cases "x = y") auto
  then show ?case using 3 by simp
qed simp_all

lemma has_duplicate_iff: "has_duplicate xs \<longleftrightarrow> \<not> distinct xs"
  by (simp add: has_duplicate_def Let_def sorted_adjacent_distinct)

lemma validated_config:
  assumes "sim_config_validate c = Inr ()"
  shows "1 \<le> sc_warmup_bars c" "1 \<le> sc_protective_stop_pips c" "sc_thetas_pips c \<noteq> []"
    "distinct (sc_thetas_pips c)" "\<And>v. v \<in> set (sc_thetas_pips c) \<Longrightarrow> 1 \<le> v"
    "1 \<le> sc_jobs c" "1 \<le> sc_indicator_cache_mb c"
proof -
  note v = assms [unfolded sim_config_validate_def, simplified bindS_guard guardS_eq_Inr has_duplicate_iff list_ex_iff not_less]
  show "1 \<le> sc_warmup_bars c" "1 \<le> sc_protective_stop_pips c" "sc_thetas_pips c \<noteq> []"
    "distinct (sc_thetas_pips c)" "1 \<le> sc_jobs c" "1 \<le> sc_indicator_cache_mb c"
    using v by auto
  show "1 \<le> x" if "x \<in> set (sc_thetas_pips c)" for x using v that by force
qed

lemma sim_config_default_valid: "sim_config_validate sim_config_default = Inr ()"
  by (simp add: sim_config_validate_def sim_config_default_def guardS_def has_duplicate_iff)

end
