(* ===== verification/Sim_Series.thy ===== *)
theory Sim_Series
  imports Sim_Types
begin

text \<open>
  Aggregated series and the dataset of a simulation (\<open>sim/src/series.rs\<close>): the bars of a period
  with their warm-up, the bars of each timeframe, and how many of them have ended at each M5 bar.
  Dates are day numbers since 1970-01-01.
\<close>

datatype tf = M5 | M15 | H1 | H4

definition ALL_TFS :: "tf list" where "ALL_TFS = [M5, M15, H1, H4]"

fun tf_secs :: "tf \<Rightarrow> int" where
  "tf_secs M5 = M5_SECS"
| "tf_secs M15 = 900"
| "tf_secs H1 = 3600"
| "tf_secs H4 = 14400"

definition tf_parse :: "string \<Rightarrow> tf option" where
  "tf_parse s =
     (if s = ''M5'' then Some M5
      else if s = ''M15'' then Some M15
      else if s = ''H1'' then Some H1
      else if s = ''H4'' then Some H4
      else None)"

lemma tf_secs_pos [simp]: "0 < tf_secs tf"
  by (cases tf) (simp_all add: M5_SECS_def)

lemma M5_le_tf_secs: "M5_SECS \<le> tf_secs tf"
  by (cases tf) (simp_all add: M5_SECS_def)

section \<open>Aggregation\<close>

record tf_series =
  ts_open :: "f64 list"
  ts_high :: "f64 list"
  ts_low :: "f64 list"
  ts_close :: "f64 list"
  ts_end_time :: "int list"

definition bucket_of :: "int \<Rightarrow> bar \<Rightarrow> int" where "bucket_of width b = br_open_time b div width"

text \<open>The inner loop over the bars of one bucket; it returns the maxima and the remaining bars.\<close>

fun bucket_loop :: "int \<Rightarrow> int \<Rightarrow> int \<Rightarrow> int \<Rightarrow> int \<Rightarrow> bar list \<Rightarrow> int \<times> int \<times> int \<times> bar list" where
  "bucket_loop width bucket hi lo cl [] = (hi, lo, cl, [])"
| "bucket_loop width bucket hi lo cl (b # bs) =
     (if bucket_of width b = bucket
      then bucket_loop width bucket (max hi (mid2_high b)) (min lo (mid2_low b)) (mid2_close b) bs
      else (hi, lo, cl, b # bs))"

lemma bucket_loop_length: "bucket_loop width k hi lo cl bs = (h, l, c, rest) \<Longrightarrow> length rest \<le> length bs"
  by (induction bs arbitrary: hi lo cl) (fastforce split: if_splits)+

text \<open>One element per aggregated bar: open, high, low and close in mid2 units and the end time.\<close>

type_synonym mid2_bar = "int \<times> int \<times> int \<times> int \<times> int"

function aggregate_mid2 :: "int \<Rightarrow> bar list \<Rightarrow> mid2_bar list" where
  "aggregate_mid2 width [] = []"
| "aggregate_mid2 width (b # bs) =
     (let bucket = bucket_of width b in
      case bucket_loop width bucket (mid2_high b) (mid2_low b) (mid2_close b) bs of
        (hi, lo, cl, rest) \<Rightarrow> (mid2_open b, hi, lo, cl, (bucket + 1) * width) # aggregate_mid2 width rest)"
  by pat_completeness auto
termination
  by (relation "measure (\<lambda>(width, bs). length bs)") (auto dest: bucket_loop_length [OF sym])

definition aggregate :: "float_rounding \<Rightarrow> bar list \<Rightarrow> tf \<Rightarrow> tf_series" where
  "aggregate fl bars tf =
     (let ms = aggregate_mid2 (tf_secs tf) bars in
      \<lparr>ts_open = map (\<lambda>(p, _). mid2_to_yen fl p) ms,
       ts_high = map (\<lambda>(_, h, _). mid2_to_yen fl h) ms,
       ts_low = map (\<lambda>(_, _, l, _). mid2_to_yen fl l) ms,
       ts_close = map (\<lambda>(_, _, _, c, _). mid2_to_yen fl c) ms,
       ts_end_time = map (\<lambda>(_, _, _, _, e). e) ms\<rparr>)"

definition bucket_end_time_has_arrived :: "int \<Rightarrow> int \<Rightarrow> bool" where
  "bucket_end_time_has_arrived end_time bar_open_time \<longleftrightarrow> end_time \<le> bar_open_time + M5_SECS"

text \<open>The pointer only moves forward; \<open>rest\<close> are the end times from \<open>ptr\<close> on.\<close>

fun completed_counts :: "bar list \<Rightarrow> int list \<Rightarrow> nat \<Rightarrow> nat list" where
  "completed_counts [] rest ptr = []"
| "completed_counts (b # bs) rest ptr =
     (let arrived = takeWhile (\<lambda>e. bucket_end_time_has_arrived e (br_open_time b)) rest;
          ptr = ptr + length arrived
      in ptr # completed_counts bs (drop (length arrived) rest) ptr)"

section \<open>The dataset\<close>

definition SECS_PER_DAY :: int where "SECS_PER_DAY = 86400"

definition truncate_to_midnight :: "int \<Rightarrow> int" where
  "truncate_to_midnight t = t div SECS_PER_DAY * SECS_PER_DAY"

definition advance_to_next_midnight :: "int \<Rightarrow> int" where
  "advance_to_next_midnight t = (t div SECS_PER_DAY + 1) * SECS_PER_DAY"

definition earliest_from :: "bar list \<Rightarrow> nat \<Rightarrow> int option" where
  "earliest_from all_bars warmup_bars =
     (if warmup_bars = 0
      then (case all_bars of [] \<Rightarrow> None | b # _ \<Rightarrow> Some (truncate_to_midnight (br_open_time b)))
      else if warmup_bars - 1 < length all_bars
        then Some (advance_to_next_midnight (br_open_time (all_bars ! (warmup_bars - 1))))
        else None)"

text \<open>The range of \<open>chrono::DateTime\<close> in Unix seconds.\<close>

definition representable_ts :: "int \<Rightarrow> bool" where
  "representable_ts t \<longleftrightarrow> - 8334601228800 \<le> t \<and> t \<le> 8210266876799"

definition epoch_secs_to_date :: "int \<Rightarrow> int sim_result" where
  "epoch_secs_to_date t =
     (if representable_ts t then Inr (t div SECS_PER_DAY)
      else Inl (OtherError ''invalid epoch seconds: not a representable UTC instant''))"

text \<open>\<open>partition_point\<close> on bars in ascending open time: how many of them satisfy the predicate.\<close>

definition opened_before :: "bar list \<Rightarrow> int \<Rightarrow> nat" where
  "opened_before bars t = length (takeWhile (\<lambda>b. br_open_time b < t) bars)"

record dataset =
  ds_bars :: "bar list"
  ds_eval_start :: nat
  ds_start_date :: int
  ds_end_date :: int
  ds_series :: "tf \<Rightarrow> tf_series"
  ds_completed :: "tf \<Rightarrow> nat list"

definition dataset_of :: "float_rounding \<Rightarrow> bar list \<Rightarrow> nat \<Rightarrow> int \<Rightarrow> int \<Rightarrow> dataset" where
  "dataset_of fl bars eval_start start_date end_date =
     (let series = aggregate fl bars in
      \<lparr>ds_bars = bars, ds_eval_start = eval_start, ds_start_date = start_date, ds_end_date = end_date,
       ds_series = series,
       ds_completed = (\<lambda>tf. completed_counts bars (ts_end_time (series tf)) 0)\<rparr>)"

definition dataset_new ::
  "float_rounding \<Rightarrow> bar list \<Rightarrow> int \<Rightarrow> int \<Rightarrow> nat \<Rightarrow> dataset sim_result" where
  "dataset_new fl all_bars from_ts to_ts warmup_bars =
     bindS (epoch_secs_to_date from_ts) (\<lambda>start_date.
     bindS (guardS (to_ts = - (2 ^ 63)) (ArgsError ''invalid to: no predecessor in i64'')) (\<lambda>_.
     bindS (epoch_secs_to_date (to_ts - 1)) (\<lambda>end_date.
     let eval_start_in_all = opened_before all_bars from_ts;
         eval_end_in_all = opened_before all_bars to_ts in
     bindS (guardS (eval_end_in_all \<le> eval_start_in_all)
       (ArgsError ''invalid evaluation period: no bars'')) (\<lambda>_.
     bindS (guardS (eval_start_in_all < warmup_bars)
       (ArgsError (case earliest_from all_bars warmup_bars of
          Some ts \<Rightarrow> ''invalid from: earliest possible from is later''
        | None \<Rightarrow> ''invalid from: not enough historical bars in total''))) (\<lambda>_.
     let window_start = eval_start_in_all - warmup_bars;
         bars = drop window_start (take eval_end_in_all all_bars) in
     Inr (dataset_of fl bars warmup_bars start_date end_date))))))"

definition eval_bars :: "dataset \<Rightarrow> bar list" where
  "eval_bars d = drop (ds_eval_start d) (ds_bars d)"

definition completed :: "dataset \<Rightarrow> tf \<Rightarrow> nat \<Rightarrow> nat result" where
  "completed d tf t =
     (if t < length (ds_completed d tf) then Inr (ds_completed d tf ! t)
      else Inl (Panic ''index out of bounds''))"

section \<open>Missing weekdays\<close>

definition num_days_from_monday :: "int \<Rightarrow> int" where
  "num_days_from_monday day = (day + 3) mod 7"

definition is_weekend :: "int \<Rightarrow> bool" where
  "is_weekend day \<longleftrightarrow> num_days_from_monday day = 5 \<or> num_days_from_monday day = 6"

text \<open>The last day \<open>chrono::NaiveDate\<close> can hold; \<open>succ_opt\<close> of it is \<open>None\<close>.\<close>

definition MAX_DAY :: int where "MAX_DAY = 95026236"

function weekday_loop :: "int \<Rightarrow> int \<Rightarrow> (int \<Rightarrow> bool) \<Rightarrow> int list" where
  "weekday_loop date end_date present =
     (let here = (if \<not> is_weekend date \<and> \<not> present date then [date] else []) in
      if end_date \<le> date \<or> MAX_DAY \<le> date then here
      else here @ weekday_loop (date + 1) end_date present)"
  by pat_completeness auto
termination
  by (relation "measure (\<lambda>(date, end_date, present). nat (end_date - date))") auto

definition missing_weekdays_in_range :: "int \<Rightarrow> int \<Rightarrow> (int \<Rightarrow> bool) \<Rightarrow> int list" where
  "missing_weekdays_in_range start_date end_date present =
     (if start_date > end_date then [] else weekday_loop start_date end_date present)"

definition missing_weekdays :: "dataset \<Rightarrow> int list" where
  "missing_weekdays d =
     (let present = (\<lambda>day. list_ex (\<lambda>b. representable_ts (br_open_time b)
                          \<and> br_open_time b div SECS_PER_DAY = day) (eval_bars d))
      in missing_weekdays_in_range (ds_start_date d) (ds_end_date d) present)"

declare weekday_loop.simps [simp del]

lemma missing_weekdays_in_range_set:
  assumes "end_date \<le> MAX_DAY"
  shows "set (missing_weekdays_in_range start_date end_date present) =
    {day. start_date \<le> day \<and> day \<le> end_date \<and> \<not> is_weekend day \<and> \<not> present day}"
proof -
  have *: "set (weekday_loop date end_date present) =
      {day. date \<le> day \<and> day \<le> end_date \<and> \<not> is_weekend day \<and> \<not> present day}" if "date \<le> end_date" for date
    using that assms
  proof (induction date end_date present rule: weekday_loop.induct)
    case (1 date end_date present)
    show ?case
    proof (cases "end_date \<le> date \<or> MAX_DAY \<le> date")
      case True
      then have "end_date = date" using 1(2,3) by linarith
      then show ?thesis by (subst weekday_loop.simps) (auto simp: Let_def)
    next
      case False
      have rest: "set (weekday_loop (date + 1) end_date present) =
          {day. date + 1 \<le> day \<and> day \<le> end_date \<and> \<not> is_weekend day \<and> \<not> present day}"
        using 1 False by auto
      have step: "weekday_loop date end_date present =
          (if \<not> is_weekend date \<and> \<not> present date then [date] else []) @ weekday_loop (date + 1) end_date present"
        using False by (subst weekday_loop.simps) (simp add: Let_def)
      show ?thesis
        unfolding step set_append rest
      proof (rule set_eqI)
        fix day
        show "day \<in> set (if \<not> is_weekend date \<and> \<not> present date then [date] else [])
            \<union> {day. date + 1 \<le> day \<and> day \<le> end_date \<and> \<not> is_weekend day \<and> \<not> present day}
          \<longleftrightarrow> day \<in> {day. date \<le> day \<and> day \<le> end_date \<and> \<not> is_weekend day \<and> \<not> present day}"
          using False by (cases "day = date") auto
      qed
    qed
  qed
  show ?thesis
  proof (cases "start_date > end_date")
    case True
    then have "{day. start_date \<le> day \<and> day \<le> end_date \<and> \<not> is_weekend day \<and> \<not> present day} = {}"
      by fastforce
    then show ?thesis using True by (simp only: missing_weekdays_in_range_def if_True list.set)
  next
    case False
    then show ?thesis using * [of start_date] by (simp add: missing_weekdays_in_range_def)
  qed
qed

end
