(* ===== verification/Sim_Indicators.thy ===== *)
theory Sim_Indicators
  imports Sim_Series
begin

text \<open>
  The indicators of the simulator (\<open>sim/src/indicators\<close>): each is computed for all bars of a series
  in one pass. An entry is \<open>None\<close> where the code leaves \<open>NaN\<close>. Loops over the bars are \<open>scan\<close>s:
  the step for index \<open>i\<close> updates the local variables and yields the entry of bar \<open>i\<close>.
\<close>

type_synonym entry = "f64 option"

fun scan :: "('i \<Rightarrow> 's \<Rightarrow> 's \<times> 'o) \<Rightarrow> 's \<Rightarrow> 'i list \<Rightarrow> 'o list" where
  "scan step s [] = []"
| "scan step s (i # is) = (case step i s of (s', out) \<Rightarrow> out # scan step s' is)"

datatype indicator_kind = Sma | Ema | Rsi | Atr | Adx | Bb | Donchian | Keltner

record indicator_key =
  ik_tf :: tf
  ik_kind :: indicator_kind
  ik_period :: nat
  ik_mult_x100 :: nat

datatype indicator_series =
    Single "entry list"
  | Band "entry list" "entry list" "entry list"
  | Channel "entry list" "entry list"

section \<open>Floating-point operations\<close>

abbreviation (input) fadd :: "float_rounding \<Rightarrow> f64 \<Rightarrow> f64 \<Rightarrow> f64" where "fadd fl a b \<equiv> fl (a + b)"
abbreviation (input) fsub :: "float_rounding \<Rightarrow> f64 \<Rightarrow> f64 \<Rightarrow> f64" where "fsub fl a b \<equiv> fl (a - b)"
abbreviation (input) fmul :: "float_rounding \<Rightarrow> f64 \<Rightarrow> f64 \<Rightarrow> f64" where "fmul fl a b \<equiv> fl (a * b)"
abbreviation (input) fdiv :: "float_rounding \<Rightarrow> f64 \<Rightarrow> f64 \<Rightarrow> f64" where "fdiv fl a b \<equiv> fl (a / b)"

definition fsum :: "float_rounding \<Rightarrow> f64 list \<Rightarrow> f64" where
  "fsum fl xs = foldl (fadd fl) 0 xs"

section \<open>Moving averages\<close>

definition sma_step :: "float_rounding \<Rightarrow> f64 list \<Rightarrow> nat \<Rightarrow> nat \<Rightarrow> f64 \<Rightarrow> f64 \<times> entry" where
  "sma_step fl closes period i acc =
     (let acc = fadd fl acc (closes ! i);
          acc = (if i \<ge> period then fsub fl acc (closes ! (i - period)) else acc)
      in (acc, if i + 1 \<ge> period then Some (fdiv fl acc (of_nat period)) else None))"

definition sma_series :: "float_rounding \<Rightarrow> f64 list \<Rightarrow> nat \<Rightarrow> entry list" where
  "sma_series fl closes period =
     (if period = 0 then replicate (length closes) None
      else scan (sma_step fl closes period) 0 [0..<length closes])"

definition ema_step :: "float_rounding \<Rightarrow> f64 list \<Rightarrow> f64 \<Rightarrow> nat \<Rightarrow> f64 \<Rightarrow> f64 \<times> entry" where
  "ema_step fl closes multiplier i ema_val =
     (let v = fadd fl (fmul fl (fsub fl (closes ! i) ema_val) multiplier) ema_val in (v, Some v))"

definition ema_series :: "float_rounding \<Rightarrow> f64 list \<Rightarrow> nat \<Rightarrow> entry list" where
  "ema_series fl closes period =
     (let n = length closes in
      if period = 0 \<or> n < period then replicate n None
      else
        let multiplier = fdiv fl 2 (fadd fl (of_nat period) 1);
            seed = fdiv fl (fsum fl (take period closes)) (of_nat period)
        in replicate (period - 1) None @ [Some seed]
           @ scan (ema_step fl closes multiplier) seed [period..<n])"

section \<open>RSI\<close>

definition zero_sum_when_count_zero :: "f64 \<Rightarrow> nat \<Rightarrow> f64" where
  "zero_sum_when_count_zero s count = (if count = 0 then 0 else s)"

record rsi_state =
  rs_gain_sum :: f64
  rs_loss_sum :: f64
  rs_gain_count :: nat
  rs_loss_count :: nat

definition rsi_add :: "float_rounding \<Rightarrow> f64 \<Rightarrow> rsi_state \<Rightarrow> rsi_state" where
  "rsi_add fl d s =
     (if d > 0 then s\<lparr>rs_gain_sum := fadd fl (rs_gain_sum s) d, rs_gain_count := rs_gain_count s + 1\<rparr>
      else s\<lparr>rs_loss_sum := fadd fl (rs_loss_sum s) (- d),
             rs_loss_count := (if d < 0 then rs_loss_count s + 1 else rs_loss_count s)\<rparr>)"

definition rsi_drop :: "float_rounding \<Rightarrow> f64 \<Rightarrow> rsi_state \<Rightarrow> rsi_state" where
  "rsi_drop fl old s =
     (if old > 0 then s\<lparr>rs_gain_sum := fsub fl (rs_gain_sum s) old, rs_gain_count := rs_gain_count s - 1\<rparr>
      else s\<lparr>rs_loss_sum := fsub fl (rs_loss_sum s) (- old),
             rs_loss_count := (if old < 0 then rs_loss_count s - 1 else rs_loss_count s)\<rparr>)"

definition rsi_zero :: "rsi_state \<Rightarrow> rsi_state" where
  "rsi_zero s = s\<lparr>rs_gain_sum := zero_sum_when_count_zero (rs_gain_sum s) (rs_gain_count s),
                  rs_loss_sum := zero_sum_when_count_zero (rs_loss_sum s) (rs_loss_count s)\<rparr>"

definition rsi_value :: "float_rounding \<Rightarrow> nat \<Rightarrow> rsi_state \<Rightarrow> f64" where
  "rsi_value fl period s =
     (let avg_gain = fdiv fl (rs_gain_sum s) (of_nat period);
          avg_loss = fdiv fl (rs_loss_sum s) (of_nat period)
      in if avg_loss = 0 then 100
         else let rs = fdiv fl avg_gain avg_loss
              in fsub fl 100 (fdiv fl 100 (fadd fl 1 rs)))"

text \<open>\<open>diffs[k]\<close> is the move from bar \<open>k\<close> to bar \<open>k + 1\<close>, so step \<open>k\<close> yields the entry of bar \<open>k + 1\<close>.\<close>

definition rsi_diff :: "float_rounding \<Rightarrow> f64 list \<Rightarrow> nat \<Rightarrow> f64" where
  "rsi_diff fl closes k = fsub fl (closes ! (k + 1)) (closes ! k)"

definition rsi_step :: "float_rounding \<Rightarrow> f64 list \<Rightarrow> nat \<Rightarrow> nat \<Rightarrow> rsi_state \<Rightarrow> rsi_state \<times> entry" where
  "rsi_step fl closes period k s =
     (let s = rsi_add fl (rsi_diff fl closes k) s;
          s = (if k \<ge> period then rsi_drop fl (rsi_diff fl closes (k - period)) s else s);
          s = rsi_zero s
      in (s, if k + 1 \<ge> period then Some (rsi_value fl period s) else None))"

definition rsi_series :: "float_rounding \<Rightarrow> f64 list \<Rightarrow> nat \<Rightarrow> entry list" where
  "rsi_series fl closes period =
     (let n = length closes in
      if period = 0 \<or> n < period + 1 then replicate n None
      else None # scan (rsi_step fl closes period)
             \<lparr>rs_gain_sum = 0, rs_loss_sum = 0, rs_gain_count = 0, rs_loss_count = 0\<rparr> [0..<n - 1])"

section \<open>ATR and ADX\<close>

definition true_range_at :: "float_rounding \<Rightarrow> f64 list \<Rightarrow> f64 list \<Rightarrow> f64 list \<Rightarrow> nat \<Rightarrow> f64" where
  "true_range_at fl highs lows closes k =
     (let hl = fsub fl (highs ! k) (lows ! k);
          hc = \<bar>fsub fl (highs ! k) (closes ! (k - 1))\<bar>;
          lc = \<bar>fsub fl (lows ! k) (closes ! (k - 1))\<bar>
      in max (max hl hc) lc)"

definition atr_step ::
  "float_rounding \<Rightarrow> f64 list \<Rightarrow> f64 list \<Rightarrow> f64 list \<Rightarrow> nat \<Rightarrow> nat \<Rightarrow> f64 \<Rightarrow> f64 \<times> entry" where
  "atr_step fl highs lows closes period i atr_val =
     (let p = of_nat period;
          tr = true_range_at fl highs lows closes i;
          v = fdiv fl (fadd fl (fmul fl atr_val (fsub fl p 1)) tr) p
      in (v, Some v))"

definition atr_series ::
  "float_rounding \<Rightarrow> f64 list \<Rightarrow> f64 list \<Rightarrow> f64 list \<Rightarrow> nat \<Rightarrow> entry list" where
  "atr_series fl highs lows closes period =
     (let n = length closes in
      if period = 0 \<or> n < period + 1 then replicate n None
      else
        let seed = fdiv fl (fsum fl (map (true_range_at fl highs lows closes) [1..<period + 1])) (of_nat period)
        in replicate period None @ [Some seed]
           @ scan (atr_step fl highs lows closes period) seed [period + 1..<n])"

definition plus_dm :: "float_rounding \<Rightarrow> f64 list \<Rightarrow> f64 list \<Rightarrow> nat \<Rightarrow> f64" where
  "plus_dm fl highs lows j =
     (let k = j + 1;
          high_diff = fsub fl (highs ! k) (highs ! (k - 1));
          low_diff = fsub fl (lows ! (k - 1)) (lows ! k)
      in if high_diff > low_diff \<and> high_diff > 0 then high_diff else 0)"

definition minus_dm :: "float_rounding \<Rightarrow> f64 list \<Rightarrow> f64 list \<Rightarrow> nat \<Rightarrow> f64" where
  "minus_dm fl highs lows j =
     (let k = j + 1;
          high_diff = fsub fl (highs ! k) (highs ! (k - 1));
          low_diff = fsub fl (lows ! (k - 1)) (lows ! k)
      in if low_diff > high_diff \<and> low_diff > 0 then low_diff else 0)"

record adx_state =
  ad_plus :: f64
  ad_minus :: f64
  ad_tr :: f64
  ad_dx_vals :: "f64 list"
  ad_adx_val :: "f64 option"
  ad_consumed :: nat

definition dx_value :: "float_rounding \<Rightarrow> f64 \<Rightarrow> f64 \<Rightarrow> f64 \<Rightarrow> f64" where
  "dx_value fl smooth_plus smooth_minus smooth_tr =
     (let plus_di = fmul fl (fdiv fl smooth_plus smooth_tr) 100;
          minus_di = fmul fl (fdiv fl smooth_minus smooth_tr) 100;
          di_sum = fadd fl plus_di minus_di
      in if di_sum = 0 then 0
         else fmul fl (fdiv fl \<bar>fsub fl plus_di minus_di\<bar> di_sum) 100)"

text \<open>The \<open>while\<close> loop smooths every value of \<open>dx_vals\<close> not consumed yet.\<close>

definition adx_consume :: "float_rounding \<Rightarrow> nat \<Rightarrow> f64 \<Rightarrow> f64 list \<Rightarrow> nat \<Rightarrow> f64" where
  "adx_consume fl period smoothed dx_vals consumed =
     (let p = of_nat period in
      foldl (\<lambda>sm next. fdiv fl (fadd fl (fmul fl sm (fsub fl p 1)) next) p) smoothed (drop consumed dx_vals))"

definition adx_step ::
  "float_rounding \<Rightarrow> f64 list \<Rightarrow> f64 list \<Rightarrow> f64 list \<Rightarrow> nat \<Rightarrow> nat \<Rightarrow> adx_state \<Rightarrow> adx_state \<times> entry" where
  "adx_step fl highs lows closes period j s =
     (let p = of_nat period;
          smooth = (\<lambda>v d. fadd fl (fsub fl v (fdiv fl v p)) d);
          s = s\<lparr>ad_plus := smooth (ad_plus s) (plus_dm fl highs lows j),
                ad_minus := smooth (ad_minus s) (minus_dm fl highs lows j),
                ad_tr := smooth (ad_tr s) (true_range_at fl highs lows closes (j + 1))\<rparr>;
          s = (if ad_tr s \<noteq> 0
               then s\<lparr>ad_dx_vals := ad_dx_vals s @ [dx_value fl (ad_plus s) (ad_minus s) (ad_tr s)]\<rparr>
               else s);
          s = (case ad_adx_val s of
                 None \<Rightarrow>
                   if length (ad_dx_vals s) \<ge> period
                   then s\<lparr>ad_adx_val := Some (fdiv fl (fsum fl (take period (ad_dx_vals s))) p),
                          ad_consumed := period\<rparr>
                   else s
               | Some smoothed \<Rightarrow>
                   s\<lparr>ad_adx_val := Some (adx_consume fl period smoothed (ad_dx_vals s) (ad_consumed s)),
                     ad_consumed := max (ad_consumed s) (length (ad_dx_vals s))\<rparr>)
      in (s, ad_adx_val s))"

definition adx_series ::
  "float_rounding \<Rightarrow> f64 list \<Rightarrow> f64 list \<Rightarrow> f64 list \<Rightarrow> nat \<Rightarrow> entry list" where
  "adx_series fl highs lows closes period =
     (let n = length closes in
      if period = 0 \<or> n < period * 2 + 1 then replicate n None
      else
        let init = \<lparr>ad_plus = fsum fl (map (plus_dm fl highs lows) [0..<period]),
                    ad_minus = fsum fl (map (minus_dm fl highs lows) [0..<period]),
                    ad_tr = fsum fl (map (\<lambda>j. true_range_at fl highs lows closes (j + 1)) [0..<period]),
                    ad_dx_vals = [], ad_adx_val = None, ad_consumed = 0\<rparr>
        in replicate (period + 1) None @ scan (adx_step fl highs lows closes period) init [period..<n - 1])"

section \<open>Bands and channels\<close>

definition window_variance :: "float_rounding \<Rightarrow> f64 list \<Rightarrow> f64 \<Rightarrow> f64 \<Rightarrow> f64" where
  "window_variance fl window mean p =
     fdiv fl (fsum fl (map (\<lambda>x. let diff = fsub fl x mean in fmul fl diff diff) window)) p"

text \<open>\<open>fsqrt\<close> is the square root of \<open>f64\<close>.\<close>

definition bb_step ::
  "float_rounding \<Rightarrow> (f64 \<Rightarrow> f64) \<Rightarrow> f64 list \<Rightarrow> nat \<Rightarrow> f64 \<Rightarrow> nat \<Rightarrow> f64 \<Rightarrow> f64 \<times> (entry \<times> entry \<times> entry)" where
  "bb_step fl fsqrt closes period mult i acc =
     (let p = of_nat period;
          acc = fadd fl acc (closes ! i);
          acc = (if i \<ge> period then fsub fl acc (closes ! (i - period)) else acc)
      in if i + 1 \<ge> period then
           let mean = fdiv fl acc p;
               window = map (\<lambda>k. closes ! k) [i + 1 - period..<i + 1];
               band = fmul fl (fsqrt (window_variance fl window mean p)) mult
           in (acc, Some (fsub fl mean band), Some mean, Some (fadd fl mean band))
         else (acc, None, None, None))"

definition bb_series ::
  "float_rounding \<Rightarrow> (f64 \<Rightarrow> f64) \<Rightarrow> f64 list \<Rightarrow> nat \<Rightarrow> f64 \<Rightarrow> (entry \<times> entry \<times> entry) list" where
  "bb_series fl fsqrt closes period mult =
     (if period = 0 then replicate (length closes) (None, None, None)
      else scan (bb_step fl fsqrt closes period mult) 0 [0..<length closes])"

text \<open>A deque of indices, its front first. The loops drop from the back and from the front.\<close>

definition pop_back_while :: "(nat \<Rightarrow> bool) \<Rightarrow> nat list \<Rightarrow> nat list" where
  "pop_back_while p dq = rev (dropWhile p (rev dq))"

definition donchian_step ::
  "f64 list \<Rightarrow> f64 list \<Rightarrow> nat \<Rightarrow> nat \<Rightarrow> nat list \<times> nat list \<Rightarrow> (nat list \<times> nat list) \<times> (entry \<times> entry)" where
  "donchian_step highs lows period i = (\<lambda>(max_dq, min_dq).
     (let max_dq = pop_back_while (\<lambda>back. highs ! back \<le> highs ! i) max_dq @ [i];
          min_dq = pop_back_while (\<lambda>back. lows ! back \<ge> lows ! i) min_dq @ [i];
          max_dq = dropWhile (\<lambda>front. front + period \<le> i) max_dq;
          min_dq = dropWhile (\<lambda>front. front + period \<le> i) min_dq
      in ((max_dq, min_dq),
          if i + 1 \<ge> period then (Some (lows ! hd min_dq), Some (highs ! hd max_dq)) else (None, None))))"

definition donchian_series :: "f64 list \<Rightarrow> f64 list \<Rightarrow> nat \<Rightarrow> (entry \<times> entry) list" where
  "donchian_series highs lows period =
     (if period = 0 then replicate (length highs) (None, None)
      else scan (donchian_step highs lows period) ([], []) [0..<length highs])"

definition keltner_entry :: "float_rounding \<Rightarrow> f64 \<Rightarrow> entry \<Rightarrow> entry \<Rightarrow> entry \<times> entry \<times> entry" where
  "keltner_entry fl mult ema atr =
     (case (ema, atr) of
        (Some e, Some a) \<Rightarrow> let band = fmul fl a mult in (Some (fsub fl e band), Some e, Some (fadd fl e band))
      | _ \<Rightarrow> (None, None, None))"

definition keltner_series ::
  "float_rounding \<Rightarrow> f64 list \<Rightarrow> f64 list \<Rightarrow> f64 list \<Rightarrow> nat \<Rightarrow> f64 \<Rightarrow> (entry \<times> entry \<times> entry) list" where
  "keltner_series fl highs lows closes period mult =
     map2 (keltner_entry fl mult) (ema_series fl closes period) (atr_series fl highs lows closes period)"

definition band_of :: "(entry \<times> entry \<times> entry) list \<Rightarrow> indicator_series" where
  "band_of es = Band (map fst es) (map (fst \<circ> snd) es) (map (snd \<circ> snd) es)"

definition compute :: "float_rounding \<Rightarrow> (f64 \<Rightarrow> f64) \<Rightarrow> tf_series \<Rightarrow> indicator_key \<Rightarrow> indicator_series" where
  "compute fl fsqrt series key =
     (let period = ik_period key;
          mult = fdiv fl (of_nat (ik_mult_x100 key)) 100
      in case ik_kind key of
           Sma \<Rightarrow> Single (sma_series fl (ts_close series) period)
         | Ema \<Rightarrow> Single (ema_series fl (ts_close series) period)
         | Rsi \<Rightarrow> Single (rsi_series fl (ts_close series) period)
         | Atr \<Rightarrow> Single (atr_series fl (ts_high series) (ts_low series) (ts_close series) period)
         | Adx \<Rightarrow> Single (adx_series fl (ts_high series) (ts_low series) (ts_close series) period)
         | Bb \<Rightarrow> band_of (bb_series fl fsqrt (ts_close series) period mult)
         | Donchian \<Rightarrow>
             (let es = donchian_series (ts_high series) (ts_low series) period
              in Channel (map fst es) (map snd es))
         | Keltner \<Rightarrow> band_of (keltner_series fl (ts_high series) (ts_low series) (ts_close series) period mult))"

end
