(* ===== verification/Sim_Cache.thy ===== *)
theory Sim_Cache
  imports Sim_Indicators
begin

text \<open>
  The indicator cache (\<open>sim/src/indicators/cache.rs\<close>), shared by the threads of a sweep. Slots are
  shared cells that are initialised once (\<open>Arc<OnceLock>\<close>), named by numbers. The two critical
  sections, and the initialisation of a slot, are the atomic steps of a request.
\<close>

record cache_entry =
  ce_slot :: nat
  ce_bytes :: nat
  ce_last_used :: nat

record cache =
  ch_budget :: nat
  ch_map :: "(indicator_key \<times> cache_entry) list"
  ch_used_bytes :: nat
  ch_clock :: nat
  ch_slots :: "indicator_series option list"

text \<open>\<open>new\<close>; \<open>usize\<close> has 64 bits.\<close>

definition cache_new :: "nat \<Rightarrow> cache" where
  "cache_new budget_mb =
     \<lparr>ch_budget = min (budget_mb * (1024 * 1024)) (2 ^ 64 - 1), ch_map = [], ch_used_bytes = 0,
      ch_clock = 0, ch_slots = []\<rparr>"

definition estimate_bytes :: "indicator_series \<Rightarrow> nat" where
  "estimate_bytes s = (case s of
     Single v \<Rightarrow> length v * 8
   | Band lower middle upper \<Rightarrow> (length lower + length middle + length upper) * 8
   | Channel lower upper \<Rightarrow> (length lower + length upper) * 8)"

definition put_entry :: "indicator_key \<Rightarrow> cache_entry \<Rightarrow> cache \<Rightarrow> cache" where
  "put_entry key e c = c\<lparr>ch_map := (key, e) # filter (\<lambda>(k, _). k \<noteq> key) (ch_map c)\<rparr>"

definition remove_entry :: "indicator_key \<Rightarrow> cache \<Rightarrow> cache" where
  "remove_entry key c = c\<lparr>ch_map := filter (\<lambda>(k, _). k \<noteq> key) (ch_map c)\<rparr>"

section \<open>Claiming\<close>

datatype slot_claim = Hit indicator_series | Miss nat

definition claim_slot :: "indicator_key \<Rightarrow> cache \<Rightarrow> slot_claim \<times> cache" where
  "claim_slot key c =
     (let now = ch_clock c + 1;
          c = c\<lparr>ch_clock := now\<rparr>;
          (e, c) = (case map_of (ch_map c) key of
             Some e \<Rightarrow> (e, c)
           | None \<Rightarrow> (\<lparr>ce_slot = length (ch_slots c), ce_bytes = 0, ce_last_used = now\<rparr>,
                      c\<lparr>ch_slots := ch_slots c @ [None]\<rparr>));
          c = put_entry key (e\<lparr>ce_last_used := now\<rparr>) c
      in case ch_slots c ! ce_slot e of
           Some series \<Rightarrow> (Hit series, c)
         | None \<Rightarrow> (Miss (ce_slot e), c))"

section \<open>Initialising\<close>

text \<open>\<open>get_or_init\<close> of the slot with the value that \<open>compute_fn\<close> returns.\<close>

definition init_slot :: "indicator_series \<Rightarrow> nat \<Rightarrow> cache \<Rightarrow> indicator_series \<times> cache" where
  "init_slot computed slot c =
     (case ch_slots c ! slot of
        Some series \<Rightarrow> (series, c)
      | None \<Rightarrow> (computed, c\<lparr>ch_slots := (ch_slots c)[slot := Some computed]\<rparr>))"

section \<open>Registering and evicting\<close>

definition evictable :: "cache \<Rightarrow> indicator_key \<Rightarrow> indicator_key \<times> cache_entry \<Rightarrow> bool" where
  "evictable c protected = (\<lambda>(k, e). k \<noteq> protected \<and> ce_bytes e > 0 \<and> ch_slots c ! ce_slot e \<noteq> None)"

text \<open>\<open>min_by_key\<close>: the first of the least recently used entries.\<close>

fun least_recent :: "(indicator_key \<times> cache_entry) list \<Rightarrow> (indicator_key \<times> cache_entry) option" where
  "least_recent [] = None"
| "least_recent (x # xs) = (case least_recent xs of
     None \<Rightarrow> Some x
   | Some y \<Rightarrow> Some (if ce_last_used (snd x) \<le> ce_last_used (snd y) then x else y))"

lemma least_recent_in: "least_recent xs = Some x \<Longrightarrow> x \<in> set xs"
  by (induction xs arbitrary: x) (auto split: option.splits if_splits)

lemma least_recent_None: "least_recent xs = None \<longleftrightarrow> xs = []"
  by (cases xs) (auto split: option.splits)

function evict_over_budget :: "indicator_key \<Rightarrow> cache \<Rightarrow> cache" where
  "evict_over_budget protected c =
     (if ch_used_bytes c \<le> ch_budget c then c
      else case least_recent (filter (evictable c protected) (ch_map c)) of
        None \<Rightarrow> c
      | Some (victim, e) \<Rightarrow>
          evict_over_budget protected
            ((remove_entry victim c)\<lparr>ch_used_bytes := ch_used_bytes c - ce_bytes e\<rparr>))"
  by pat_completeness auto
termination
  by (relation "measure (\<lambda>(protected, c). length (ch_map c))")
    (auto simp: remove_entry_def dest!: sym [of "Some _"] least_recent_in intro!: length_filter_less)

declare evict_over_budget.simps [simp del]

definition register_bytes :: "indicator_key \<Rightarrow> nat \<Rightarrow> indicator_series \<Rightarrow> cache \<Rightarrow> cache" where
  "register_bytes key slot series c =
     (let (registered_bytes, c) = (case map_of (ch_map c) key of
        Some e \<Rightarrow>
          if ce_slot e = slot \<and> ce_bytes e = 0
          then (estimate_bytes series, put_entry key (e\<lparr>ce_bytes := estimate_bytes series\<rparr>) c)
          else (0, c)
      | None \<Rightarrow> (0, c));
      c = c\<lparr>ch_used_bytes := ch_used_bytes c + registered_bytes\<rparr>
      in if registered_bytes = 0 then c
         else
           let c = evict_over_budget key c in
           if \<not> (ch_used_bytes c > ch_budget c \<and> registered_bytes > ch_budget c) then c
           else case map_of (ch_map c) key of
             Some e \<Rightarrow>
               if ce_slot e = slot
               then (remove_entry key c)\<lparr>ch_used_bytes := ch_used_bytes c - ce_bytes e\<rparr>
               else c
           | None \<Rightarrow> c)"

section \<open>Requests\<close>

text \<open>\<open>get_or_compute\<close> by one thread without interference.\<close>

definition get_or_compute :: "indicator_key \<Rightarrow> indicator_series \<Rightarrow> cache \<Rightarrow> indicator_series \<times> cache" where
  "get_or_compute key computed c =
     (case claim_slot key c of
        (Hit series, c) \<Rightarrow> (series, c)
      | (Miss slot, c) \<Rightarrow>
          (case init_slot computed slot c of
             (series, c) \<Rightarrow> (series, register_bytes key slot series c)))"

text \<open>The threads: what each does next, as a step relation.\<close>

datatype request =
    Claiming indicator_key
  | Initialising indicator_key nat
  | Registering indicator_key nat indicator_series
  | Answered indicator_key indicator_series

type_synonym cache_system = "cache \<times> request list"

inductive cache_step :: "(indicator_key \<Rightarrow> indicator_series) \<Rightarrow> cache_system \<Rightarrow> cache_system \<Rightarrow> bool"
  for computed where
  NewRequest: "cache_step computed (c, rs) (c, rs @ [Claiming key])"
| ClaimHit: "\<lbrakk>i < length rs; rs ! i = Claiming key; claim_slot key c = (Hit series, c')\<rbrakk>
    \<Longrightarrow> cache_step computed (c, rs) (c', rs[i := Answered key series])"
| ClaimMiss: "\<lbrakk>i < length rs; rs ! i = Claiming key; claim_slot key c = (Miss slot, c')\<rbrakk>
    \<Longrightarrow> cache_step computed (c, rs) (c', rs[i := Initialising key slot])"
| Initialise: "\<lbrakk>i < length rs; rs ! i = Initialising key slot; init_slot (computed key) slot c = (series, c')\<rbrakk>
    \<Longrightarrow> cache_step computed (c, rs) (c', rs[i := Registering key slot series])"
| Register: "\<lbrakk>i < length rs; rs ! i = Registering key slot series\<rbrakk>
    \<Longrightarrow> cache_step computed (c, rs) (register_bytes key slot series c, rs[i := Answered key series])"

inductive cache_reachable :: "(indicator_key \<Rightarrow> indicator_series) \<Rightarrow> nat \<Rightarrow> cache_system \<Rightarrow> bool"
  for computed budget_mb where
  Start: "cache_reachable computed budget_mb (cache_new budget_mb, [])"
| Step: "\<lbrakk>cache_reachable computed budget_mb s; cache_step computed s s'\<rbrakk>
    \<Longrightarrow> cache_reachable computed budget_mb s'"

end
