(* ===== verification/Sim_Cache_Theorems.thy ===== *)
theory Sim_Cache_Theorems
  imports Sim_Cache
begin

text \<open>
  The indicator cache under any interleaving of threads: every request is answered with the series
  of its key, the byte count is the sum of the registered entries, and it never exceeds the budget.
\<close>

section \<open>The invariant\<close>

text \<open>\<open>own\<close> gives the key each slot was created for.\<close>

definition slots_ok :: "(indicator_key \<Rightarrow> indicator_series) \<Rightarrow> indicator_key list \<Rightarrow> cache \<Rightarrow> bool" where
  "slots_ok computed own c \<longleftrightarrow> length own = length (ch_slots c)
     \<and> (\<forall>i < length own. ch_slots c ! i = None \<or> ch_slots c ! i = Some (computed (own ! i)))"

definition entry_ok :: "(indicator_key \<Rightarrow> indicator_series) \<Rightarrow> indicator_key list \<Rightarrow> cache \<Rightarrow> indicator_key \<times> cache_entry \<Rightarrow> bool" where
  "entry_ok computed own c = (\<lambda>(k, e). ce_slot e < length own \<and> own ! ce_slot e = k
     \<and> (ce_bytes e > 0 \<longrightarrow> ch_slots c ! ce_slot e = Some (computed k)))"

definition entry_bytes :: "(indicator_key \<times> cache_entry) list \<Rightarrow> nat" where
  "entry_bytes es = sum_list (map (\<lambda>(k, e). ce_bytes e) es)"

definition cache_ok :: "(indicator_key \<Rightarrow> indicator_series) \<Rightarrow> indicator_key list \<Rightarrow> cache \<Rightarrow> bool" where
  "cache_ok computed own c \<longleftrightarrow> slots_ok computed own c \<and> distinct (map fst (ch_map c))
     \<and> list_all (entry_ok computed own c) (ch_map c) \<and> ch_used_bytes c = entry_bytes (ch_map c)"

fun request_ok :: "(indicator_key \<Rightarrow> indicator_series) \<Rightarrow> indicator_key list \<Rightarrow> cache \<Rightarrow> request \<Rightarrow> bool" where
  "request_ok computed own c (Claiming k) = True"
| "request_ok computed own c (Initialising k slot) = (slot < length own \<and> own ! slot = k)"
| "request_ok computed own c (Registering k slot series) =
     (slot < length own \<and> own ! slot = k \<and> series = computed k \<and> ch_slots c ! slot = Some series)"
| "request_ok computed own c (Answered k series) = (series = computed k)"

text \<open>What a step of one thread leaves to the others: slots are only added or filled.\<close>

definition grows :: "indicator_key list \<Rightarrow> cache \<Rightarrow> indicator_key list \<Rightarrow> cache \<Rightarrow> bool" where
  "grows own c own' c' \<longleftrightarrow> length own \<le> length own' \<and> (\<forall>i < length own. own' ! i = own ! i
     \<and> (ch_slots c ! i \<noteq> None \<longrightarrow> ch_slots c' ! i = ch_slots c ! i)) \<and> ch_budget c' = ch_budget c"

lemma request_ok_grows: "grows own c own' c' \<Longrightarrow> request_ok computed own c r \<Longrightarrow> request_ok computed own' c' r"
  by (cases r) (auto simp: grows_def)

section \<open>Entries\<close>

lemma entry_bytes_simps [simp]:
  "entry_bytes [] = 0" "entry_bytes ((k, e) # es) = ce_bytes e + entry_bytes es"
  by (simp_all add: entry_bytes_def)

lemma entry_bytes_remove:
  assumes "distinct (map fst es)" and "map_of es k = Some e"
  shows "entry_bytes es = ce_bytes e + entry_bytes (filter (\<lambda>(k', _). k' \<noteq> k) es)"
  using assms
proof (induction es)
  case (Cons x es)
  obtain k' e' where x: "x = (k', e')" by (cases x)
  show ?case
  proof (cases "k' = k")
    case True
    have "filter (\<lambda>(k'', _). k'' \<noteq> k) es = es"
      using Cons.prems(1) True x by (auto simp: filter_id_conv) (metis fst_conv image_eqI)
    then show ?thesis using Cons.prems(2) True x by simp
  next
    case False
    then show ?thesis using Cons x by simp
  qed
qed simp

lemma entry_bytes_remove_absent:
  "map_of es k = None \<Longrightarrow> filter (\<lambda>(k', _). k' \<noteq> k) es = es"
  by (auto simp: filter_id_conv map_of_eq_None_iff image_iff)

lemma distinct_fst_filter: "distinct (map fst es) \<Longrightarrow> distinct (map fst (filter P es))"
  by (rule distinct_map_filter)

lemma list_all_filter: "list_all P xs \<Longrightarrow> list_all P (filter Q xs)"
  by (simp add: list_all_iff)

lemma fields_put_remove [simp]:
  "ch_slots (put_entry k e c) = ch_slots c" "ch_used_bytes (put_entry k e c) = ch_used_bytes c"
  "ch_budget (put_entry k e c) = ch_budget c"
  "ch_slots (remove_entry k c) = ch_slots c" "ch_used_bytes (remove_entry k c) = ch_used_bytes c"
  "ch_budget (remove_entry k c) = ch_budget c"
  by (simp_all add: put_entry_def remove_entry_def)

lemma entry_ok_cong: "ch_slots c' = ch_slots c \<Longrightarrow> entry_ok computed own c' = entry_ok computed own c"
  by (simp add: entry_ok_def)

lemma cache_ok_entry: "cache_ok computed own c \<Longrightarrow> map_of (ch_map c) k = Some e \<Longrightarrow> entry_ok computed own c (k, e)"
  unfolding cache_ok_def by (metis list_all_iff map_of_SomeD)

text \<open>Replacing the entry of a key.\<close>

lemma cache_ok_put:
  assumes "cache_ok computed own c" and "entry_ok computed own c (k, e)"
    and "ch_used_bytes c' + (case map_of (ch_map c) k of None \<Rightarrow> 0 | Some old \<Rightarrow> ce_bytes old) = ch_used_bytes c + ce_bytes e"
    and "ch_map c' = ch_map (put_entry k e c)" and "ch_slots c' = ch_slots c"
  shows "cache_ok computed own c'"
proof -
  have "entry_bytes (ch_map c) = (case map_of (ch_map c) k of None \<Rightarrow> 0 | Some old \<Rightarrow> ce_bytes old)
      + entry_bytes (filter (\<lambda>(k', _). k' \<noteq> k) (ch_map c))"
    using assms(1) entry_bytes_remove [of "ch_map c" k]
    by (cases "map_of (ch_map c) k") (auto simp: cache_ok_def entry_bytes_remove_absent)
  then show ?thesis
    using assms entry_ok_cong [OF assms(5)]
    by (auto simp: cache_ok_def slots_ok_def put_entry_def distinct_map_filter list_all_filter)
qed

lemma cache_ok_remove:
  assumes "cache_ok computed own c" and "map_of (ch_map c) k = Some e"
  shows "cache_ok computed own ((remove_entry k c)\<lparr>ch_used_bytes := ch_used_bytes c - ce_bytes e\<rparr>)"
proof -
  have "entry_ok computed own ((remove_entry k c)\<lparr>ch_used_bytes := u\<rparr>) = entry_ok computed own c" for u
    by (intro entry_ok_cong) simp
  then show ?thesis
    using assms entry_bytes_remove [of "ch_map c" k e]
    by (simp add: cache_ok_def slots_ok_def remove_entry_def distinct_map_filter list_all_filter)
qed

section \<open>Eviction\<close>

lemma evict_ok:
  assumes "cache_ok computed own c" and "map_of (ch_map c) key = Some e"
  shows "let c' = evict_over_budget key c in
    cache_ok computed own c' \<and> map_of (ch_map c') key = Some e \<and> ch_slots c' = ch_slots c
    \<and> ch_budget c' = ch_budget c \<and> (ch_used_bytes c' \<le> ch_budget c' \<or> ch_used_bytes c' = ce_bytes e)"
  using assms
proof (induction key c rule: evict_over_budget.induct)
  case (1 key c)
  show ?case
  proof (cases "ch_used_bytes c \<le> ch_budget c")
    case True
    then show ?thesis using 1 by (subst evict_over_budget.simps) simp
  next
    case over: False
    show ?thesis
    proof (cases "least_recent (filter (evictable c key) (ch_map c))")
      case None
      then have none: "\<not> evictable c key x" if "x \<in> set (ch_map c)" for x
        using that by (auto simp: least_recent_None filter_empty_conv)
      have "entry_bytes (filter (\<lambda>(k', _). k' \<noteq> key) (ch_map c)) = 0"
      proof -
        have "ce_bytes e' = 0" if "(k', e') \<in> set (ch_map c)" "k' \<noteq> key" for k' e'
          using that none [OF that(1)] 1(2) by (auto simp: evictable_def cache_ok_def list_all_iff entry_ok_def)
        then show ?thesis by (auto simp: entry_bytes_def sum_list_0)
      qed
      then have "ch_used_bytes c = ce_bytes e"
        using 1(2,3) entry_bytes_remove [of "ch_map c" key e] by (simp add: cache_ok_def)
      then show ?thesis using over None 1(2,3) by (subst evict_over_budget.simps) simp
    next
      case (Some v)
      obtain victim e' where v: "v = (victim, e')" by (cases v)
      have "v \<in> set (filter (evictable c key) (ch_map c))" using least_recent_in [OF Some] .
      then have "victim \<noteq> key" and "(victim, e') \<in> set (ch_map c)" by (auto simp: v evictable_def)
      then have entry: "map_of (ch_map c) victim = Some e'" using 1(2) by (simp add: cache_ok_def)
      let ?c = "(remove_entry victim c)\<lparr>ch_used_bytes := ch_used_bytes c - ce_bytes e'\<rparr>"
      have "map_of (filter (\<lambda>(k, _). k \<noteq> victim) es) key = map_of es key" for es :: "(indicator_key \<times> cache_entry) list"
        using \<open>victim \<noteq> key\<close> by (induction es) auto
      then have "map_of (ch_map ?c) key = Some e" using 1(3) by (simp add: remove_entry_def)
      moreover have "cache_ok computed own ?c" using 1(2) entry by (rule cache_ok_remove)
      ultimately have "let c' = evict_over_budget key ?c in
          cache_ok computed own c' \<and> map_of (ch_map c') key = Some e \<and> ch_slots c' = ch_slots ?c
          \<and> ch_budget c' = ch_budget ?c \<and> (ch_used_bytes c' \<le> ch_budget c' \<or> ch_used_bytes c' = ce_bytes e)"
        using 1(1) [OF over Some v [symmetric]] by blast
      then show ?thesis using over Some v by (subst evict_over_budget.simps) simp
    qed
  qed
qed

section \<open>The steps of a request\<close>

lemma claim_ok:
  assumes "cache_ok computed own c" and "ch_used_bytes c \<le> ch_budget c" and "claim_slot key c = (answer, c')"
  obtains own' where "cache_ok computed own' c'" "grows own c own' c'" "ch_used_bytes c' \<le> ch_budget c'"
    "case answer of Hit s \<Rightarrow> s = computed key | Miss slot \<Rightarrow> slot < length own' \<and> own' ! slot = key"
proof (cases "map_of (ch_map c) key")
  case (Some e)
  let ?c = "put_entry key (e\<lparr>ce_last_used := ch_clock c + 1\<rparr>) (c\<lparr>ch_clock := ch_clock c + 1\<rparr>)"
  have e: "entry_ok computed own c (key, e)" using assms(1) Some by (rule cache_ok_entry)
  have "claim_slot key c = (case ch_slots c ! ce_slot e of Some s \<Rightarrow> (Hit s, ?c) | None \<Rightarrow> (Miss (ce_slot e), ?c))"
    by (simp add: claim_slot_def Some Let_def split: option.split)
  then have c': "c' = ?c"
    and answer: "answer = (case ch_slots c ! ce_slot e of Some s \<Rightarrow> Hit s | None \<Rightarrow> Miss (ce_slot e))"
    using assms(3) by (cases "ch_slots c ! ce_slot e"; simp)+
  have "cache_ok computed own c'"
    unfolding c'
    by (rule cache_ok_put [OF assms(1), where k = key and e = "e\<lparr>ce_last_used := ch_clock c + 1\<rparr>"])
      (use e Some in \<open>auto simp: entry_ok_def put_entry_def\<close>)
  moreover have "grows own c own c'" by (simp add: grows_def c')
  moreover have "case answer of Hit s \<Rightarrow> s = computed key | Miss slot \<Rightarrow> slot < length own \<and> own ! slot = key"
    using assms(1) e answer
    by (cases "ch_slots c ! ce_slot e") (auto simp: entry_ok_def cache_ok_def slots_ok_def)
  ultimately show thesis using that [of own] assms(2) c' by simp
next
  case None
  let ?n = "length (ch_slots c)"
  let ?e = "\<lparr>ce_slot = ?n, ce_bytes = 0, ce_last_used = ch_clock c + 1\<rparr>"
  let ?c = "c\<lparr>ch_clock := ch_clock c + 1, ch_slots := ch_slots c @ [None]\<rparr>"
  have res: "c' = put_entry key ?e ?c" "answer = Miss ?n"
    using assms(3) None by (auto simp: claim_slot_def Let_def)
  have len: "length own = ?n" using assms(1) by (simp add: cache_ok_def slots_ok_def)
  have entries: "list_all (entry_ok computed (own @ [key]) ?c) (ch_map c)"
    using assms(1) len
    by (auto simp: cache_ok_def list_all_iff entry_ok_def nth_append)
  have "slots_ok computed (own @ [key]) ?c"
    using assms(1) len by (auto simp: cache_ok_def slots_ok_def nth_append)
  then have c_ok: "cache_ok computed (own @ [key]) ?c" using assms(1) entries by (simp add: cache_ok_def)
  have "cache_ok computed (own @ [key]) c'"
    unfolding res by (rule cache_ok_put [OF c_ok, where k = key and e = ?e]) (use None len in \<open>auto simp: entry_ok_def nth_append\<close>)
  moreover have "grows own c (own @ [key]) c'" using len by (auto simp: grows_def res nth_append)
  ultimately show thesis using that [of "own @ [key]"] assms(2) len by (simp add: res nth_append)
qed

lemma init_ok:
  assumes "cache_ok computed own c" and "slot < length own" and "own ! slot = key"
    and "init_slot (computed key) slot c = (series, c')"
  shows "cache_ok computed own c' \<and> grows own c own c' \<and> ch_used_bytes c' = ch_used_bytes c
    \<and> series = computed key \<and> ch_slots c' ! slot = Some series"
proof (cases "ch_slots c ! slot")
  case (Some s)
  then show ?thesis using assms by (auto simp: init_slot_def cache_ok_def slots_ok_def grows_def)
next
  case None
  then have c': "c' = c\<lparr>ch_slots := (ch_slots c)[slot := Some (computed key)]\<rparr>" "series = computed key"
    using assms(4) by (auto simp: init_slot_def)
  have "list_all (entry_ok computed own c') (ch_map c)"
    using assms(1-3) unfolding list_all_iff c' cache_ok_def
    by (auto simp: entry_ok_def slots_ok_def nth_list_update)
  then show ?thesis
    using assms(1-3) None by (auto simp: c' cache_ok_def slots_ok_def grows_def nth_list_update)
qed

lemma register_ok:
  assumes "cache_ok computed own c" and "ch_used_bytes c \<le> ch_budget c"
    and "slot < length own" and "own ! slot = key" and "ch_slots c ! slot = Some (computed key)"
  shows "cache_ok computed own (register_bytes key slot (computed key) c)
    \<and> grows own c own (register_bytes key slot (computed key) c)
    \<and> ch_used_bytes (register_bytes key slot (computed key) c) \<le> ch_budget (register_bytes key slot (computed key) c)"
proof (cases "\<exists>e. map_of (ch_map c) key = Some e \<and> ce_slot e = slot \<and> ce_bytes e = 0")
  case False
  then have "register_bytes key slot (computed key) c = c"
    by (cases "map_of (ch_map c) key") (auto simp: register_bytes_def)
  then show ?thesis using assms by (simp add: grows_def)
next
  case True
  then obtain e where e: "map_of (ch_map c) key = Some e" "ce_slot e = slot" "ce_bytes e = 0" by blast
  let ?n = "estimate_bytes (computed key)"
  let ?c = "(put_entry key (e\<lparr>ce_bytes := ?n\<rparr>) c)\<lparr>ch_used_bytes := ch_used_bytes c + ?n\<rparr>"
  have ok: "cache_ok computed own ?c"
    by (rule cache_ok_put [OF assms(1), where k = key and e = "e\<lparr>ce_bytes := ?n\<rparr>"])
      (use assms e in \<open>auto simp: entry_ok_def put_entry_def\<close>)
  have mine: "map_of (ch_map ?c) key = Some (e\<lparr>ce_bytes := ?n\<rparr>)" by (simp add: put_entry_def)
  show ?thesis
  proof (cases "?n = 0")
    case True
    then have "register_bytes key slot (computed key) c = ?c"
      using e by (simp add: register_bytes_def Let_def)
    then show ?thesis using ok assms(2) True by (simp add: grows_def)
  next
    case False
    let ?d = "evict_over_budget key ?c"
    have d: "cache_ok computed own ?d" "map_of (ch_map ?d) key = Some (e\<lparr>ce_bytes := ?n\<rparr>)"
        "ch_slots ?d = ch_slots c" "ch_budget ?d = ch_budget c"
        "ch_used_bytes ?d \<le> ch_budget c \<or> ch_used_bytes ?d = ?n"
      using evict_ok [OF ok mine] by (auto simp: Let_def)
    have run: "register_bytes key slot (computed key) c =
        (if \<not> (ch_used_bytes ?d > ch_budget c \<and> ?n > ch_budget c) then ?d
         else (remove_entry key ?d)\<lparr>ch_used_bytes := ch_used_bytes ?d - ?n\<rparr>)"
      using e False d by (simp add: register_bytes_def Let_def)
    show ?thesis
    proof (cases "ch_used_bytes ?d > ch_budget c \<and> ?n > ch_budget c")
      case True
      then show ?thesis
        using run d cache_ok_remove [OF d(1,2)] by (auto simp: grows_def)
    next
      case False
      then show ?thesis using run d by (auto simp: grows_def)
    qed
  qed
qed

section \<open>All interleavings\<close>

definition system_ok :: "(indicator_key \<Rightarrow> indicator_series) \<Rightarrow> cache_system \<Rightarrow> bool" where
  "system_ok computed = (\<lambda>(c, rs). \<exists>own. cache_ok computed own c \<and> ch_used_bytes c \<le> ch_budget c
     \<and> list_all (request_ok computed own c) rs)"

lemma system_ok_update:
  assumes "list_all (request_ok computed own c) rs" and "grows own c own' c'" and "cache_ok computed own' c'"
    and "ch_used_bytes c' \<le> ch_budget c'" and "request_ok computed own' c' r"
  shows "system_ok computed (c', rs[i := r])"
proof -
  have "list_all (request_ok computed own' c') (rs[i := r])"
    using assms request_ok_grows [OF assms(2)] unfolding list_all_iff
    by (auto dest!: set_update_subset_insert [THEN subsetD])
  then show ?thesis using assms by (auto simp: system_ok_def)
qed

lemma system_ok_step:
  assumes "cache_step computed s s'" and "system_ok computed s"
  shows "system_ok computed s'"
  using assms
proof cases
  case (NewRequest c rs key)
  then show ?thesis using assms(2) by (auto simp: system_ok_def)
next
  case (ClaimHit i rs key c series c')
  obtain own where own: "cache_ok computed own c" "ch_used_bytes c \<le> ch_budget c" "list_all (request_ok computed own c) rs"
    using assms(2) ClaimHit by (auto simp: system_ok_def)
  obtain own' where o: "cache_ok computed own' c'" "grows own c own' c'" "ch_used_bytes c' \<le> ch_budget c'"
      "case Hit series of Hit s \<Rightarrow> s = computed key | Miss slot \<Rightarrow> slot < length own' \<and> own' ! slot = key"
    by (rule claim_ok [OF own(1,2) ClaimHit(5)]) blast
  have "request_ok computed own' c' (Answered key series)" using o(4) by simp
  from system_ok_update [OF own(3) o(2,1,3) this] show ?thesis unfolding ClaimHit(2) .
next
  case (ClaimMiss i rs key c slot c')
  obtain own where own: "cache_ok computed own c" "ch_used_bytes c \<le> ch_budget c" "list_all (request_ok computed own c) rs"
    using assms(2) ClaimMiss by (auto simp: system_ok_def)
  obtain own' where o: "cache_ok computed own' c'" "grows own c own' c'" "ch_used_bytes c' \<le> ch_budget c'"
      "case Miss slot of Hit s \<Rightarrow> s = computed key | Miss slot \<Rightarrow> slot < length own' \<and> own' ! slot = key"
    by (rule claim_ok [OF own(1,2) ClaimMiss(5)]) blast
  have "request_ok computed own' c' (Initialising key slot)" using o(4) by simp
  from system_ok_update [OF own(3) o(2,1,3) this] show ?thesis unfolding ClaimMiss(2) .
next
  case (Initialise i rs key slot c series c')
  obtain own where own: "cache_ok computed own c" "ch_used_bytes c \<le> ch_budget c" "list_all (request_ok computed own c) rs"
    using assms(2) Initialise by (auto simp: system_ok_def)
  have r: "slot < length own" "own ! slot = key"
    using own(3) Initialise(3,4) unfolding list_all_length by (metis request_ok.simps(2))+
  note i = init_ok [OF own(1) r Initialise(5)]
  then have g: "grows own c own c'" "cache_ok computed own c'" "ch_used_bytes c' \<le> ch_budget c'"
      "request_ok computed own c' (Registering key slot series)"
    using own(2) r by (auto simp: grows_def)
  from system_ok_update [OF own(3) g] show ?thesis unfolding Initialise(2) .
next
  case (Register i rs key slot series c)
  obtain own where own: "cache_ok computed own c" "ch_used_bytes c \<le> ch_budget c" "list_all (request_ok computed own c) rs"
    using assms(2) Register by (auto simp: system_ok_def)
  have r: "slot < length own" "own ! slot = key" "series = computed key" "ch_slots c ! slot = Some (computed key)"
    using own(3) Register(3,4) unfolding list_all_length by (metis request_ok.simps(3))+
  let ?c = "register_bytes key slot (computed key) c"
  have g: "grows own c own ?c" "cache_ok computed own ?c" "ch_used_bytes ?c \<le> ch_budget ?c"
      "request_ok computed own ?c (Answered key (computed key))"
    using register_ok [OF own(1,2) r(1,2,4)] by simp_all
  from system_ok_update [OF own(3) g] show ?thesis unfolding Register(2) r(3) .
qed

lemma system_ok_reachable: "cache_reachable computed budget_mb s \<Longrightarrow> system_ok computed s"
proof (induction rule: cache_reachable.induct)
  case Start
  show ?case by (auto simp: system_ok_def cache_ok_def slots_ok_def cache_new_def intro: exI [of _ "[]"])
next
  case (Step s s')
  then show ?case by (blast intro: system_ok_step)
qed

section \<open>The store of series as an interface\<close>

text \<open>What the scripts rely on: a lookup returns the series of its key and keeps the store sound.\<close>

locale series_store =
  fixes find :: "indicator_key \<Rightarrow> 'c \<Rightarrow> indicator_series \<times> 'c" and sound :: "'c \<Rightarrow> bool"
    and series_of :: "indicator_key \<Rightarrow> indicator_series"
  assumes find_value: "sound c \<Longrightarrow> fst (find k c) = series_of k"
    and find_sound: "sound c \<Longrightarrow> sound (snd (find k c))"
begin

fun find_all :: "indicator_key list \<Rightarrow> 'c \<Rightarrow> indicator_series list \<times> 'c" where
  "find_all [] c = ([], c)"
| "find_all (k # ks) c = (case find k c of (s, c) \<Rightarrow> case find_all ks c of (ss, c) \<Rightarrow> (s # ss, c))"

lemma find_all_values: "sound c \<Longrightarrow> fst (find_all ks c) = map series_of ks \<and> sound (snd (find_all ks c))"
proof (induction ks arbitrary: c)
  case (Cons k ks)
  obtain s c1 where found: "find k c = (s, c1)" by fastforce
  then have "s = series_of k" "sound c1" using find_value [OF Cons.prems, of k] find_sound [OF Cons.prems, of k] by simp_all
  then show ?case using Cons.IH [of c1] found by (cases "find_all ks c1") simp
qed simp

end

definition cache_sound :: "(indicator_key \<Rightarrow> indicator_series) \<Rightarrow> cache \<Rightarrow> bool" where
  "cache_sound computed c \<longleftrightarrow> (\<exists>own. cache_ok computed own c) \<and> ch_used_bytes c \<le> ch_budget c"

lemma cache_sound_new: "cache_sound computed (cache_new budget_mb)"
  by (auto simp: cache_sound_def cache_ok_def slots_ok_def cache_new_def intro: exI [of _ "[]"])

lemma get_or_compute_sound:
  assumes "cache_sound computed c"
  shows "fst (get_or_compute key (computed key) c) = computed key \<and> cache_sound computed (snd (get_or_compute key (computed key) c))"
proof -
  obtain own where ok: "cache_ok computed own c" "ch_used_bytes c \<le> ch_budget c"
    using assms by (auto simp: cache_sound_def)
  obtain answer c1 where claim: "claim_slot key c = (answer, c1)" by fastforce
  obtain own1 where o: "cache_ok computed own1 c1" "grows own c own1 c1" "ch_used_bytes c1 \<le> ch_budget c1"
      "case answer of Hit s \<Rightarrow> s = computed key | Miss slot \<Rightarrow> slot < length own1 \<and> own1 ! slot = key"
    by (rule claim_ok [OF ok claim])
  show ?thesis
  proof (cases answer)
    case (Hit s)
    then show ?thesis using claim o by (auto simp: get_or_compute_def cache_sound_def)
  next
    case (Miss slot)
    obtain s c2 where init: "init_slot (computed key) slot c1 = (s, c2)" by fastforce
    have r: "slot < length own1" "own1 ! slot = key" using o(4) Miss by simp_all
    note i = init_ok [OF o(1) r init]
    then have "ch_used_bytes c2 \<le> ch_budget c2" using o(3) by (auto simp: grows_def)
    with register_ok [of computed own1 c2 slot key] i r show ?thesis
      using claim Miss init by (auto simp: get_or_compute_def cache_sound_def)
  qed
qed

interpretation cached: series_store "\<lambda>k c. get_or_compute k (computed k) c" "cache_sound computed" computed for computed
  using get_or_compute_sound by unfold_locales simp_all

section \<open>The property\<close>

text \<open>
  C40. The indicator cache is sound in every interleaving of the threads of a sweep: each request
  that has been answered got the series of its own key, whoever computed it; the byte count is the
  sum of the sizes of the registered entries; and after every step it is within the budget.
\<close>

theorem indicator_cache_sound:
  assumes "cache_reachable computed budget_mb (c, rs)"
  shows "(\<forall>key series. Answered key series \<in> set rs \<longrightarrow> series = computed key)
    \<and> ch_used_bytes c = entry_bytes (ch_map c) \<and> distinct (map fst (ch_map c))
    \<and> ch_used_bytes c \<le> ch_budget c"
  using system_ok_reachable [OF assms]
  by (fastforce simp: system_ok_def cache_ok_def list_all_iff)

text \<open>
  A budget of zero: two threads miss the same key, the first fills the slot, the second finds it
  filled, and the entry that alone exceeds the budget is dropped.
\<close>

definition demo_key :: indicator_key where
  "demo_key = \<lparr>ik_tf = M5, ik_kind = Sma, ik_period = 2, ik_mult_x100 = 0\<rparr>"

definition demo_computed :: "indicator_key \<Rightarrow> indicator_series" where
  "demo_computed key = Single [None, Some (of_nat (ik_period key))]"

definition demo_cache :: "nat \<Rightarrow> bool \<Rightarrow> cache" where
  "demo_cache clock filled = \<lparr>ch_budget = 0, ch_map = [(demo_key, \<lparr>ce_slot = 0, ce_bytes = 0, ce_last_used = clock\<rparr>)],
     ch_used_bytes = 0, ch_clock = clock, ch_slots = [if filled then Some (demo_computed demo_key) else None]\<rparr>"

lemma demo_cache_run:
  "cache_reachable demo_computed 0
    ((demo_cache 2 True)\<lparr>ch_map := []\<rparr>, [Answered demo_key (demo_computed demo_key), Answered demo_key (demo_computed demo_key)])"
proof -
  let ?s = "demo_computed demo_key"
  note go = cache_reachable.Step
  have 1: "cache_reachable demo_computed 0 (cache_new 0, [Claiming demo_key])"
    using go [OF cache_reachable.Start NewRequest [of _ _ "[]"]] by simp
  have 2: "cache_reachable demo_computed 0 (cache_new 0, [Claiming demo_key, Claiming demo_key])"
    using go [OF 1 NewRequest [of _ _ _ demo_key]] by simp
  have "claim_slot demo_key (cache_new 0) = (Miss 0, demo_cache 1 False)"
    by (simp add: claim_slot_def cache_new_def demo_cache_def put_entry_def)
  from go [OF 2 ClaimMiss [OF _ _ this, of 0]]
  have 3: "cache_reachable demo_computed 0 (demo_cache 1 False, [Initialising demo_key 0, Claiming demo_key])" by simp
  have "claim_slot demo_key (demo_cache 1 False) = (Miss 0, demo_cache 2 False)"
    by (simp add: claim_slot_def demo_cache_def put_entry_def)
  from go [OF 3 ClaimMiss [OF _ _ this, of 1]]
  have 4: "cache_reachable demo_computed 0 (demo_cache 2 False, [Initialising demo_key 0, Initialising demo_key 0])" by simp
  have "init_slot ?s 0 (demo_cache 2 False) = (?s, demo_cache 2 True)"
    by (simp add: init_slot_def demo_cache_def)
  from go [OF 4 Initialise [where computed = demo_computed and key = demo_key, OF _ _ this, of 0]]
  have 5: "cache_reachable demo_computed 0 (demo_cache 2 True, [Registering demo_key 0 ?s, Initialising demo_key 0])" by simp
  have "init_slot ?s 0 (demo_cache 2 True) = (?s, demo_cache 2 True)"
    by (simp add: init_slot_def demo_cache_def)
  from go [OF 5 Initialise [where computed = demo_computed and key = demo_key, OF _ _ this, of 1]]
  have 6: "cache_reachable demo_computed 0 (demo_cache 2 True, [Registering demo_key 0 ?s, Registering demo_key 0 ?s])" by simp
  have "register_bytes demo_key 0 ?s (demo_cache 2 True) = (demo_cache 2 True)\<lparr>ch_map := []\<rparr>"
    by (simp add: register_bytes_def demo_cache_def put_entry_def remove_entry_def estimate_bytes_def demo_computed_def
        evict_over_budget.simps evictable_def)
  with go [OF 6 Register [of 0 _ demo_key 0 ?s]]
  have 7: "cache_reachable demo_computed 0 ((demo_cache 2 True)\<lparr>ch_map := []\<rparr>, [Answered demo_key ?s, Registering demo_key 0 ?s])" by simp
  have "register_bytes demo_key 0 ?s ((demo_cache 2 True)\<lparr>ch_map := []\<rparr>) = (demo_cache 2 True)\<lparr>ch_map := []\<rparr>"
    by (simp add: register_bytes_def demo_cache_def)
  with go [OF 7 Register [of 1 _ demo_key 0 ?s]] show ?thesis by simp
qed

theorem indicator_cache_sound_witness:
  "ch_used_bytes ((demo_cache 2 True)\<lparr>ch_map := []\<rparr>) \<le> ch_budget ((demo_cache 2 True)\<lparr>ch_map := []\<rparr>)
   \<and> ch_used_bytes ((demo_cache 2 True)\<lparr>ch_map := []\<rparr>) = entry_bytes (ch_map ((demo_cache 2 True)\<lparr>ch_map := []\<rparr>))"
  using indicator_cache_sound [OF demo_cache_run] by (elim conjE) (intro conjI)

end
