(* ===== verification/Sim_Engine.thy ===== *)
theory Sim_Engine
  imports Sim_Series
begin

text \<open>
  The simulation loop (\<open>sim/src/engine.rs\<close>, with the decider of \<open>script/types.rs\<close>): a signal of one
  bar is executed at the open of the next, the protective stop may trigger on every bar, and an
  open position is closed at the end. A decider is a function on its own state.
\<close>

section \<open>Data\<close>

datatype sim_exit_reason = SignalExit | ProtectiveStopExit | EndOfData

record sim_trade =
  st_direction :: int
  st_entry_idx :: nat
  st_exit_idx :: nat
  st_entry_milli :: int
  st_exit_milli :: int
  st_pnl_milli :: int
  st_reason :: sim_exit_reason

datatype run_status = RunOk | ScriptError int string

record sim_outcome =
  so_status :: run_status
  so_trades :: "sim_trade list"
  so_positions :: "int list"

record bar_state =
  bs_t :: nat
  bs_position :: int
  bs_entry_price_milli :: int
  bs_bars_held :: nat

datatype decider_error = ScriptFailure string | Fatal sim_error

type_synonym 'd decider = "bar_state \<Rightarrow> 'd \<Rightarrow> (decider_error + int) \<times> 'd"

section \<open>Prices\<close>

definition pnl_milli :: "int \<Rightarrow> int \<Rightarrow> int \<Rightarrow> int" where
  "pnl_milli direction entry exit = (if direction = 1 then exit - entry else entry - exit)"

definition closed_trade :: "int \<Rightarrow> nat \<Rightarrow> nat \<Rightarrow> int \<Rightarrow> int \<Rightarrow> sim_exit_reason \<Rightarrow> sim_trade" where
  "closed_trade direction entry_idx exit_idx entry_milli exit_milli reason =
     \<lparr>st_direction = direction, st_entry_idx = entry_idx, st_exit_idx = exit_idx,
      st_entry_milli = entry_milli, st_exit_milli = exit_milli,
      st_pnl_milli = pnl_milli direction entry_milli exit_milli, st_reason = reason\<rparr>"

definition closing_price :: "int \<Rightarrow> int \<Rightarrow> int \<Rightarrow> int" where
  "closing_price position bid_open ask_open = (if position = 1 then bid_open else ask_open)"

definition opening_price :: "int \<Rightarrow> int \<Rightarrow> int \<Rightarrow> int" where
  "opening_price signal bid_open ask_open = (if signal = 1 then ask_open else bid_open)"

section \<open>The steps of one bar\<close>

text \<open>The local variables of the loop.\<close>

record sim_state =
  sm_position :: int
  sm_entry_price_milli :: int
  sm_entry_idx :: nat
  sm_trades :: "sim_trade list"

definition apply_signal_pending_from_previous_bar :: "int \<Rightarrow> nat \<Rightarrow> bar \<Rightarrow> sim_state \<Rightarrow> sim_state" where
  "apply_signal_pending_from_previous_bar signal t bar s =
     (if signal = sm_position s then s
      else
        let s = (if sm_position s \<noteq> 0
                 then s\<lparr>sm_trades := sm_trades s @ [closed_trade (sm_position s) (sm_entry_idx s) t
                          (sm_entry_price_milli s)
                          (closing_price (sm_position s) (br_bid_open bar) (br_ask_open bar)) SignalExit],
                        sm_position := 0\<rparr>
                 else s)
        in if signal \<noteq> 0
           then s\<lparr>sm_entry_price_milli := opening_price signal (br_bid_open bar) (br_ask_open bar),
                  sm_entry_idx := t, sm_position := signal\<rparr>
           else s)"

definition apply_protective_stop :: "int \<Rightarrow> nat \<Rightarrow> bar \<Rightarrow> sim_state \<Rightarrow> sim_state" where
  "apply_protective_stop stop_offset_milli t bar s =
     (if sm_position s = 0 then s
      else
        let stop_price = (if sm_position s = 1 then i64_wrap (sm_entry_price_milli s - stop_offset_milli)
                          else i64_wrap (sm_entry_price_milli s + stop_offset_milli));
            hit = (if sm_position s = 1 then br_bid_low bar \<le> stop_price else br_ask_high bar \<ge> stop_price)
        in if \<not> hit then s
           else s\<lparr>sm_trades := sm_trades s @ [closed_trade (sm_position s) (sm_entry_idx s) t
                     (sm_entry_price_milli s)
                     (if sm_position s = 1 then min stop_price (br_bid_open bar)
                      else max stop_price (br_ask_open bar)) ProtectiveStopExit],
                  sm_position := 0\<rparr>)"

definition build_bar_state :: "nat \<Rightarrow> nat \<Rightarrow> sim_state \<Rightarrow> bar_state" where
  "build_bar_state offset t s =
     \<lparr>bs_t = offset + t, bs_position = sm_position s, bs_entry_price_milli = sm_entry_price_milli s,
      bs_bars_held = (if sm_position s = 0 then 0 else t - sm_entry_idx s)\<rparr>"

definition close_at_period_end :: "bar list \<Rightarrow> sim_state \<Rightarrow> sim_trade list" where
  "close_at_period_end bars s =
     (if sm_position s = 0 then sm_trades s
      else let n = length bars; final = bars ! (n - 1) in
        sm_trades s @ [closed_trade (sm_position s) (sm_entry_idx s) (n - 1) (sm_entry_price_milli s)
          (if sm_position s = 1 then br_bid_close final else br_ask_close final) EndOfData])"

definition step_bar :: "int \<Rightarrow> int option \<Rightarrow> nat \<Rightarrow> bar \<Rightarrow> sim_state \<Rightarrow> sim_state" where
  "step_bar stop_offset_milli pending t bar s =
     apply_protective_stop stop_offset_milli t bar
       (case pending of None \<Rightarrow> s | Some signal \<Rightarrow> apply_signal_pending_from_previous_bar signal t bar s)"

section \<open>The loop\<close>

text \<open>How the loop ended: at the end of the bars, at a script error, or at a fatal error.\<close>

datatype loop_end = RanThrough sim_state | Stopped int string "sim_trade list" | Aborted sim_error

fun sim_loop ::
  "int \<Rightarrow> nat \<Rightarrow> nat \<Rightarrow> 'd decider \<Rightarrow> nat \<Rightarrow> bar list \<Rightarrow> int option \<Rightarrow> sim_state \<Rightarrow> 'd
    \<Rightarrow> loop_end \<times> int list" where
  "sim_loop stop_offset n offset dec t [] pending s d = (RanThrough s, [])"
| "sim_loop stop_offset n offset dec t (bar # bars) pending s d =
     (let s = step_bar stop_offset pending t bar s in
      case dec (build_bar_state offset t s) d of
        (Inr signal, d) \<Rightarrow>
          if -1 \<le> signal \<and> signal \<le> 1
          then (let pending = (if t + 1 < n then Some signal else None) in
                case sim_loop stop_offset n offset dec (t + 1) bars pending s d of
                  (e, ps) \<Rightarrow> (e, sm_position s # ps))
          else (Stopped (br_open_time bar) ''on_bar returned an unexpected value'' (sm_trades s), [sm_position s])
      | (Inl (ScriptFailure message), d) \<Rightarrow>
          (Stopped (br_open_time bar) message (sm_trades s), [sm_position s])
      | (Inl (Fatal err), d) \<Rightarrow> (Aborted err, [sm_position s]))"

definition initial_state :: sim_state where
  "initial_state = \<lparr>sm_position = 0, sm_entry_price_milli = 0, sm_entry_idx = 0, sm_trades = []\<rparr>"

definition stop_offset_of :: "sim_config \<Rightarrow> int" where
  "stop_offset_of cfg = i64_wrap (sc_protective_stop_pips cfg * PIP_MILLI)"

definition simulate :: "dataset \<Rightarrow> 'd decider \<Rightarrow> 'd \<Rightarrow> sim_config \<Rightarrow> sim_outcome sim_result" where
  "simulate dataset dec d cfg =
     (let bars = eval_bars dataset in
      case sim_loop (stop_offset_of cfg) (length bars) (ds_eval_start dataset) dec 0 bars None initial_state d of
        (RanThrough s, ps) \<Rightarrow>
          Inr \<lparr>so_status = RunOk, so_trades = close_at_period_end bars s, so_positions = ps\<rparr>
      | (Stopped open_time message trades, ps) \<Rightarrow>
          Inr \<lparr>so_status = ScriptError open_time message, so_trades = trades, so_positions = ps\<rparr>
      | (Aborted err, ps) \<Rightarrow> Inl err)"

end
