(* ===== verification/Sim_Script.thy ===== *)
theory Sim_Script
  imports Sim_Indicators Sim_Engine
begin

text \<open>
  Scripts (\<open>sim/src/script\<close>): the context a script reads (\<open>ctx.rs\<close>), the run of a script over a
  dataset (\<open>run.rs\<close>) with the limits of operations (\<open>host.rs\<close>), and the parameters (\<open>params.rs\<close>).
  The Rhai engine is not part of the repository. What it makes of a script on one bar is a tree:
  the operation counts it reports, the queries it sends to the context, each with a continuation
  for every answer, and the value it finally returns.
\<close>

section \<open>The context\<close>

datatype ohlc_field = OpenField | HighField | LowField | CloseField

datatype dynamic = DUnit | DInt int | DFloat f64 | DMap "(string \<times> f64) list" | DOther string

datatype eval_error =
    ErrorSystem string "sim_error option"
  | ErrorTerminated "string option" "string option"
  | ErrorRuntime string

record rhai_ctx =
  cx_dataset :: dataset
  cx_t :: nat
  cx_position :: int
  cx_entry_price_milli :: int
  cx_bars_held :: nat

definition ctx_bar :: "rhai_ctx \<Rightarrow> bar" where
  "ctx_bar cx = ds_bars (cx_dataset cx) ! cx_t cx"

definition unrealized_pips :: "float_rounding \<Rightarrow> rhai_ctx \<Rightarrow> f64" where
  "unrealized_pips fl cx =
     (if cx_position cx = 0 then 0
      else milli_to_pips fl (if cx_position cx = 1
        then br_bid_close (ctx_bar cx) - cx_entry_price_milli cx
        else cx_entry_price_milli cx - br_ask_close (ctx_bar cx)))"

definition bar_end_time :: "int \<Rightarrow> eval_error + int" where
  "bar_end_time open_time =
     (if open_time + M5_SECS > I64_MAX
      then Inl (ErrorRuntime ''invalid ctx.time: open_time plus the bar length overflows i64'')
      else Inr (open_time + M5_SECS))"

definition end_time_to_utc :: "int \<Rightarrow> eval_error + int" where
  "end_time_to_utc end_time =
     (if representable_ts end_time then Inr end_time
      else Inl (ErrorRuntime ''invalid epoch seconds: not a representable UTC instant''))"

definition ctx_end_time :: "rhai_ctx \<Rightarrow> eval_error + int" where
  "ctx_end_time cx = bar_end_time (br_open_time (ctx_bar cx))"

definition ctx_hour :: "rhai_ctx \<Rightarrow> eval_error + int" where
  "ctx_hour cx = bindS (ctx_end_time cx) (\<lambda>e. bindS (end_time_to_utc e) (\<lambda>t. Inr (t mod SECS_PER_DAY div 3600)))"

definition ctx_weekday :: "rhai_ctx \<Rightarrow> eval_error + int" where
  "ctx_weekday cx =
     bindS (ctx_end_time cx) (\<lambda>e. bindS (end_time_to_utc e) (\<lambda>t. Inr (num_days_from_monday (t div SECS_PER_DAY))))"

definition spread_pips :: "float_rounding \<Rightarrow> rhai_ctx \<Rightarrow> f64" where
  "spread_pips fl cx = milli_to_pips fl (br_ask_close (ctx_bar cx) - br_bid_close (ctx_bar cx))"

section \<open>Checks of arguments\<close>

definition parse_tf :: "string \<Rightarrow> eval_error + tf" where
  "parse_tf s = (case tf_parse s of Some tf \<Rightarrow> Inr tf | None \<Rightarrow> Inl (ErrorRuntime ''unsupported timeframe''))"

definition check_period :: "int \<Rightarrow> eval_error + nat" where
  "check_period period =
     (if 1 \<le> period \<and> period \<le> 1000 then Inr (nat period)
      else Inl (ErrorRuntime ''invalid period: must be between 1 and 1000''))"

definition check_shift :: "int \<Rightarrow> eval_error + nat" where
  "check_shift shift =
     (if 0 \<le> shift \<and> shift \<le> 1000 then Inr (nat shift)
      else Inl (ErrorRuntime ''invalid shift: must be between 0 and 1000''))"

text \<open>\<open>f64::round\<close>: half away from zero.\<close>

definition fround :: "f64 \<Rightarrow> f64" where
  "fround x = (if 0 \<le> x then of_int \<lfloor>x + 1 / 2\<rfloor> else - of_int \<lfloor>- x + 1 / 2\<rfloor>)"

definition check_mult :: "float_rounding \<Rightarrow> f64 \<Rightarrow> eval_error + nat" where
  "check_mult fl mult =
     (let mult_x100 = fround (fl (mult * 100)) in
      if 10 \<le> mult_x100 \<and> mult_x100 \<le> 1000 then Inr (nat \<lfloor>mult_x100\<rfloor>)
      else Inl (ErrorRuntime ''invalid mult: must round to between 0.1 and 10.0''))"

text \<open>The panic of an index beyond the bars is not reached: \<open>t\<close> is an index of \<open>bars\<close>.\<close>

definition resolve_index :: "rhai_ctx \<Rightarrow> tf \<Rightarrow> nat \<Rightarrow> nat option" where
  "resolve_index cx tf shift =
     (let done_bars = ds_completed (cx_dataset cx) tf ! cx_t cx in
      if shift \<ge> done_bars then None else Some (done_bars - 1 - shift))"

definition MAX_INDICATOR_KEYS_PER_RUN :: nat where "MAX_INDICATOR_KEYS_PER_RUN = 64"

definition track_key :: "indicator_key list \<Rightarrow> indicator_key \<Rightarrow> eval_error + indicator_key list" where
  "track_key keys key =
     (if key \<notin> set keys \<and> length keys \<ge> MAX_INDICATOR_KEYS_PER_RUN
      then Inl (ErrorRuntime ''invalid indicator key count: already at the maximum'')
      else Inr (if key \<in> set keys then keys else key # keys))"

section \<open>Queries of series\<close>

definition ohlc :: "rhai_ctx \<Rightarrow> string \<Rightarrow> int \<Rightarrow> ohlc_field \<Rightarrow> eval_error + dynamic" where
  "ohlc cx tf shift field =
     bindS (parse_tf tf) (\<lambda>tf.
     bindS (check_shift shift) (\<lambda>shift.
     case resolve_index cx tf shift of
       None \<Rightarrow> Inr DUnit
     | Some idx \<Rightarrow>
         let series = ds_series (cx_dataset cx) tf in
         Inr (DFloat (case field of
           OpenField \<Rightarrow> ts_open series ! idx
         | HighField \<Rightarrow> ts_high series ! idx
         | LowField \<Rightarrow> ts_low series ! idx
         | CloseField \<Rightarrow> ts_close series ! idx))))"

text \<open>
  \<open>get\<close> is the cache of the dataset: the series of a key, or the error of a poisoned lock. The
  queries return the tracked keys with their answer, as the keys stay tracked on an error.
\<close>

type_synonym indicator_source = "indicator_key \<Rightarrow> indicator_series sim_result"

definition with_indicator ::
  "indicator_source \<Rightarrow> rhai_ctx \<Rightarrow> indicator_key list \<Rightarrow> (eval_error + indicator_key) \<Rightarrow> int
    \<Rightarrow> (indicator_series \<Rightarrow> nat \<Rightarrow> dynamic) \<Rightarrow> (eval_error + dynamic) \<times> indicator_key list" where
  "with_indicator get cx keys checked_key shift answer =
     (case checked_key of
        Inl e \<Rightarrow> (Inl e, keys)
      | Inr key \<Rightarrow>
          (case track_key keys key of
             Inl e \<Rightarrow> (Inl e, keys)
           | Inr keys \<Rightarrow>
               (case resolve_index cx (ik_tf key) (nat shift) of
                  None \<Rightarrow> (Inr DUnit, keys)
                | Some idx \<Rightarrow>
                    (case get key of
                       Inl err \<Rightarrow> (Inl (ErrorSystem ''failed to lock indicator cache'' (Some err)), keys)
                     | Inr series \<Rightarrow> (Inr (answer series idx), keys)))))"

definition key_of :: "string \<Rightarrow> indicator_kind \<Rightarrow> int \<Rightarrow> int \<Rightarrow> (eval_error + nat) \<Rightarrow> eval_error + indicator_key" where
  "key_of tf kind period shift mult =
     bindS (parse_tf tf) (\<lambda>tf.
     bindS (check_period period) (\<lambda>period.
     bindS (check_shift shift) (\<lambda>_.
     bindS mult (\<lambda>mult_x100.
     Inr \<lparr>ik_tf = tf, ik_kind = kind, ik_period = period, ik_mult_x100 = mult_x100\<rparr>))))"

definition single_answer :: "indicator_series \<Rightarrow> nat \<Rightarrow> dynamic" where
  "single_answer series idx = (case series of
     Single values \<Rightarrow> (case values ! idx of None \<Rightarrow> DUnit | Some v \<Rightarrow> DFloat v)
   | _ \<Rightarrow> DUnit)"

definition channel_answer :: "indicator_series \<Rightarrow> nat \<Rightarrow> dynamic" where
  "channel_answer series idx = (case series of
     Channel lower upper \<Rightarrow>
       (case (lower ! idx, upper ! idx) of
          (Some l, Some u) \<Rightarrow> DMap [(''upper'', u), (''lower'', l)]
        | _ \<Rightarrow> DUnit)
   | _ \<Rightarrow> DUnit)"

definition band_answer :: "indicator_series \<Rightarrow> nat \<Rightarrow> dynamic" where
  "band_answer series idx = (case series of
     Band lower middle upper \<Rightarrow>
       (case (lower ! idx, middle ! idx, upper ! idx) of
          (Some l, Some m, Some u) \<Rightarrow> DMap [(''upper'', u), (''middle'', m), (''lower'', l)]
        | _ \<Rightarrow> DUnit)
   | _ \<Rightarrow> DUnit)"

definition single_indicator ::
  "indicator_source \<Rightarrow> rhai_ctx \<Rightarrow> indicator_key list \<Rightarrow> string \<Rightarrow> indicator_kind \<Rightarrow> int \<Rightarrow> int
    \<Rightarrow> (eval_error + dynamic) \<times> indicator_key list" where
  "single_indicator get cx keys tf kind period shift =
     with_indicator get cx keys (key_of tf kind period shift (Inr 0)) shift single_answer"

definition channel_indicator ::
  "indicator_source \<Rightarrow> rhai_ctx \<Rightarrow> indicator_key list \<Rightarrow> string \<Rightarrow> int \<Rightarrow> int
    \<Rightarrow> (eval_error + dynamic) \<times> indicator_key list" where
  "channel_indicator get cx keys tf period shift =
     with_indicator get cx keys (key_of tf Donchian period shift (Inr 0)) shift channel_answer"

definition band_indicator ::
  "float_rounding \<Rightarrow> indicator_source \<Rightarrow> rhai_ctx \<Rightarrow> indicator_key list \<Rightarrow> string \<Rightarrow> indicator_kind \<Rightarrow> int
    \<Rightarrow> f64 \<Rightarrow> int \<Rightarrow> (eval_error + dynamic) \<times> indicator_key list" where
  "band_indicator fl get cx keys tf kind period mult shift =
     with_indicator get cx keys (key_of tf kind period shift (check_mult fl mult)) shift band_answer"

section \<open>The functions a script can call\<close>

datatype ctx_query =
    QPosition | QEntryPrice | QBarsHeld | QUnrealizedPips | QTime | QHour | QWeekday | QSpread
  | QOhlc ohlc_field string int
  | QSingle indicator_kind string int int
  | QDonchian string int int
  | QBand indicator_kind string int f64 int

definition scalar_query :: "float_rounding \<Rightarrow> rhai_ctx \<Rightarrow> ctx_query \<Rightarrow> eval_error + dynamic" where
  "scalar_query fl cx q = (case q of
     QPosition \<Rightarrow> Inr (DInt (cx_position cx))
   | QEntryPrice \<Rightarrow> Inr (DFloat (if cx_position cx = 0 then 0 else fl (fl (of_int (cx_entry_price_milli cx)) / 1000)))
   | QBarsHeld \<Rightarrow> Inr (DInt (int (cx_bars_held cx)))
   | QUnrealizedPips \<Rightarrow> Inr (DFloat (unrealized_pips fl cx))
   | QTime \<Rightarrow> map_sum id DInt (ctx_end_time cx)
   | QHour \<Rightarrow> map_sum id DInt (ctx_hour cx)
   | QWeekday \<Rightarrow> map_sum id DInt (ctx_weekday cx)
   | QSpread \<Rightarrow> Inr (DFloat (spread_pips fl cx))
   | QOhlc field tf shift \<Rightarrow> ohlc cx tf shift field
   | _ \<Rightarrow> Inr DUnit)"

definition answer_query ::
  "float_rounding \<Rightarrow> indicator_source \<Rightarrow> rhai_ctx \<Rightarrow> indicator_key list \<Rightarrow> ctx_query
    \<Rightarrow> (eval_error + dynamic) \<times> indicator_key list" where
  "answer_query fl get cx keys q = (case q of
     QSingle kind tf period shift \<Rightarrow> single_indicator get cx keys tf kind period shift
   | QDonchian tf period shift \<Rightarrow> channel_indicator get cx keys tf period shift
   | QBand kind tf period mult shift \<Rightarrow> band_indicator fl get cx keys tf kind period mult shift
   | _ \<Rightarrow> (scalar_query fl cx q, keys))"

section \<open>Operation limits\<close>

record ops_relay =
  or_run_total_before_call :: nat
  or_run_max_total :: nat
  or_bar_max :: nat
  or_last_call_ops :: nat

definition reset_ops_relay :: "nat \<Rightarrow> nat \<Rightarrow> nat \<Rightarrow> ops_relay" where
  "reset_ops_relay run_total run_max bar_max =
     \<lparr>or_run_total_before_call = run_total, or_run_max_total = run_max, or_bar_max = bar_max, or_last_call_ops = 0\<rparr>"

definition u64_saturating_add :: "nat \<Rightarrow> nat \<Rightarrow> nat" where
  "u64_saturating_add a b = min (a + b) (2 ^ 64 - 1)"

definition check_progress :: "nat \<Rightarrow> ops_relay \<Rightarrow> string option \<times> ops_relay" where
  "check_progress ops r =
     (let r = r\<lparr>or_last_call_ops := ops\<rparr> in
      if ops > or_bar_max r
      then (Some ''invalid operation count max_operations_per_bar: exceeds the limit'', r)
      else if u64_saturating_add (or_run_total_before_call r) ops > or_run_max_total r
      then (Some ''invalid operation count max_operations_per_run: exceeds the limit'', r)
      else (None, r))"

definition describe_rhai_error :: "eval_error \<Rightarrow> string" where
  "describe_rhai_error e = (case e of
     ErrorTerminated token pos \<Rightarrow>
       (let detail = (case token of Some s \<Rightarrow> s | None \<Rightarrow> ''invalid operation count: limit exceeded'')
        in case pos of None \<Rightarrow> detail | Some p \<Rightarrow> detail @ '' ('' @ p @ '')'')
   | ErrorSystem message source \<Rightarrow> message
   | ErrorRuntime message \<Rightarrow> message)"

section \<open>The run of a script\<close>

text \<open>\<open>pos\<close> of \<open>Progress\<close> is the source position the engine attaches when it stops there.\<close>

datatype 'this script_tree =
    Progress nat "string option" "'this script_tree"
  | Query ctx_query "(eval_error + dynamic) \<Rightarrow> 'this script_tree"
  | Finish "eval_error + dynamic" 'this

primrec run_tree ::
  "'this script_tree \<Rightarrow> float_rounding \<Rightarrow> indicator_source \<Rightarrow> rhai_ctx \<Rightarrow> indicator_key list \<Rightarrow> ops_relay
    \<Rightarrow> (eval_error + dynamic) \<times> 'this option \<times> indicator_key list \<times> ops_relay" where
  "run_tree (Progress ops pos k) fl get cx keys r =
     (case check_progress ops r of
        (Some token, r) \<Rightarrow> (Inl (ErrorTerminated (Some token) pos), None, keys, r)
      | (None, r) \<Rightarrow> run_tree k fl get cx keys r)"
| "run_tree (Query q k) fl get cx keys r =
     (case answer_query fl get cx keys q of (a, keys) \<Rightarrow> run_tree (k a) fl get cx keys r)"
| "run_tree (Finish v this) fl get cx keys r = (v, Some this, keys, r)"

record 'this script_run =
  sr_this :: 'this
  sr_requested_keys :: "indicator_key list"
  sr_run_total_ops :: nat

definition classify_error :: "eval_error \<Rightarrow> decider_error" where
  "classify_error e = (case e of
     ErrorSystem message (Some err) \<Rightarrow> Fatal err
   | _ \<Rightarrow> ScriptFailure (describe_rhai_error e))"

definition decision_of :: "eval_error + dynamic \<Rightarrow> decider_error + int" where
  "decision_of r = (case r of
     Inr (DInt n) \<Rightarrow>
       if -1 \<le> n \<and> n \<le> 1 then Inr n
       else Inl (ScriptFailure ''unsupported on_bar return value (expected 1, -1, or 0)'')
   | Inr _ \<Rightarrow> Inl (ScriptFailure ''unsupported on_bar return type'')
   | Inl err \<Rightarrow> Inl (classify_error err))"

definition script_decider ::
  "float_rounding \<Rightarrow> indicator_source \<Rightarrow> dataset \<Rightarrow> sim_config \<Rightarrow> ('this \<Rightarrow> 'this script_tree) \<Rightarrow> 'this script_run decider" where
  "script_decider fl get dataset cfg on_bar state run =
     (let cx = \<lparr>cx_dataset = dataset, cx_t = bs_t state, cx_position = bs_position state,
                cx_entry_price_milli = bs_entry_price_milli state, cx_bars_held = bs_bars_held state\<rparr>;
          relay = reset_ops_relay (sr_run_total_ops run) (sc_max_operations_per_run cfg) (sc_max_operations_per_bar cfg)
      in case run_tree (on_bar (sr_this run)) fl get cx (sr_requested_keys run) relay of
           (result, this, keys, relay) \<Rightarrow>
             (decision_of result,
              \<lparr>sr_this = (case this of Some v \<Rightarrow> v | None \<Rightarrow> sr_this run), sr_requested_keys = keys,
               sr_run_total_ops = u64_saturating_add (sr_run_total_ops run) (or_last_call_ops relay)\<rparr>))"

definition script_run_new :: "'this \<Rightarrow> 'this script_run" where
  "script_run_new this = \<lparr>sr_this = this, sr_requested_keys = [], sr_run_total_ops = 0\<rparr>"

definition dataset_indicator :: "float_rounding \<Rightarrow> (f64 \<Rightarrow> f64) \<Rightarrow> dataset \<Rightarrow> indicator_source" where
  "dataset_indicator fl fsqrt d key = Inr (compute fl fsqrt (ds_series d (ik_tf key)) key)"

end
