(* ===== verification/Sim_Params.thy ===== *)
theory Sim_Params
  imports Sim_Script
begin

text \<open>
  The parameters of a script (\<open>sim/src/script/params.rs\<close>): their declaration and its checks, the
  defaults, and the values given by a caller. A JSON or Rhai number is an integer or a float.
\<close>

section \<open>Numbers\<close>

text \<open>\<open>as i64\<close> and \<open>as u64\<close> of a float truncate toward zero and saturate.\<close>

definition ftrunc :: "f64 \<Rightarrow> int" where
  "ftrunc x = (if 0 \<le> x then \<lfloor>x\<rfloor> else \<lceil>x\<rceil>)"

definition f64_as_i64 :: "f64 \<Rightarrow> int" where
  "f64_as_i64 x = max (- (2 ^ 63)) (min I64_MAX (ftrunc x))"

definition f64_as_u64 :: "f64 \<Rightarrow> nat" where
  "f64_as_u64 x = nat (max 0 (min (2 ^ 64 - 1) (ftrunc x)))"

lemma f64_as_i64_of_int [simp]: "- (2 ^ 63) \<le> n \<Longrightarrow> n < 2 ^ 63 \<Longrightarrow> f64_as_i64 (of_int n) = n"
  by (simp add: f64_as_i64_def ftrunc_def I64_MAX_def)

section \<open>Declarations\<close>

datatype param_kind = IntParam | FloatParam

record param_spec =
  ps_name :: string
  ps_kind :: param_kind
  ps_min :: f64
  ps_max :: f64
  ps_step :: f64
  ps_default :: f64

datatype param_value = IntValue int | FloatValue f64

type_synonym param_set = "(string \<times> param_value) list"

definition MAX_PARAM_COUNT :: nat where "MAX_PARAM_COUNT = 12"

definition is_on_float_grid :: "float_rounding \<Rightarrow> f64 \<Rightarrow> f64 \<Rightarrow> f64 \<Rightarrow> bool" where
  "is_on_float_grid fl value min_v step =
     (let k = fround (fl (fl (value - min_v) / step)) in
      0 \<le> k \<and> \<bar>fl (value - fl (min_v + fl (k * step)))\<bar> \<le> FLOAT_GRID_TOLERANCE)"

definition is_on_integer_grid :: "int \<Rightarrow> int \<Rightarrow> int \<Rightarrow> bool" where
  "is_on_integer_grid value min_v step \<longleftrightarrow> trem (value - min_v) step = 0"

definition validate_int_param :: "float_rounding \<Rightarrow> int \<Rightarrow> int \<Rightarrow> int \<Rightarrow> int \<Rightarrow> (f64 \<times> f64 \<times> f64 \<times> f64) sim_result" where
  "validate_int_param fl min_i max_i step_i default_i =
     bindS (guardS (\<not> (min_i \<le> default_i \<and> default_i \<le> max_i))
       (InvalidScript ''invalid parameter: must satisfy min <= default <= max'')) (\<lambda>_.
     bindS (guardS (step_i \<le> 0) (InvalidScript ''invalid parameter: step must be > 0'')) (\<lambda>_.
     bindS (guardS (\<not> is_on_integer_grid default_i min_i step_i)
       (InvalidScript ''invalid parameter: default must equal min + k*step'')) (\<lambda>_.
     Inr (fl (of_int min_i), fl (of_int max_i), fl (of_int step_i), fl (of_int default_i)))))"

text \<open>The check that the four floats are finite holds of rationals.\<close>

definition validate_float_param :: "float_rounding \<Rightarrow> f64 \<Rightarrow> f64 \<Rightarrow> f64 \<Rightarrow> f64 \<Rightarrow> (f64 \<times> f64 \<times> f64 \<times> f64) sim_result" where
  "validate_float_param fl min_f max_f step_f default_f =
     bindS (guardS (\<not> (min_f \<le> default_f \<and> default_f \<le> max_f))
       (InvalidScript ''invalid parameter: must satisfy min <= default <= max'')) (\<lambda>_.
     bindS (guardS (step_f \<le> 0) (InvalidScript ''invalid parameter: step must be > 0'')) (\<lambda>_.
     bindS (guardS (\<not> is_on_float_grid fl default_f min_f step_f)
       (InvalidScript ''invalid parameter: default must equal min + k*step'')) (\<lambda>_.
     Inr (min_f, max_f, step_f, default_f))))"

text \<open>The value a script declares for a parameter: a map of numbers, or something else.\<close>

datatype rhai_number = RInt int | RFloat f64 | ROther

type_synonym rhai_decl = "(string \<times> rhai_number) list option"

definition decl_field :: "(string \<times> rhai_number) list \<Rightarrow> string \<Rightarrow> rhai_number sim_result" where
  "decl_field spec_map key =
     (case map_of spec_map key of Some v \<Rightarrow> Inr v | None \<Rightarrow> Inl (InvalidScript ''invalid parameter: missing field''))"

definition extract_int_fields :: "rhai_number \<Rightarrow> rhai_number \<Rightarrow> rhai_number \<Rightarrow> rhai_number \<Rightarrow> (int \<times> int \<times> int \<times> int) option" where
  "extract_int_fields a b c d = (case (a, b, c, d) of
     (RInt w, RInt x, RInt y, RInt z) \<Rightarrow> Some (w, x, y, z) | _ \<Rightarrow> None)"

definition extract_float_fields :: "rhai_number \<Rightarrow> rhai_number \<Rightarrow> rhai_number \<Rightarrow> rhai_number \<Rightarrow> (f64 \<times> f64 \<times> f64 \<times> f64) option" where
  "extract_float_fields a b c d = (case (a, b, c, d) of
     (RFloat w, RFloat x, RFloat y, RFloat z) \<Rightarrow> Some (w, x, y, z) | _ \<Rightarrow> None)"

definition parse_one_param_spec :: "float_rounding \<Rightarrow> string \<Rightarrow> rhai_decl \<Rightarrow> param_spec sim_result" where
  "parse_one_param_spec fl name value = (case value of
     None \<Rightarrow> Inl (InvalidScript ''invalid parameter: must be a map with min/max/step/default'')
   | Some spec_map \<Rightarrow>
       bindS (decl_field spec_map ''min'') (\<lambda>min_d.
       bindS (decl_field spec_map ''max'') (\<lambda>max_d.
       bindS (decl_field spec_map ''step'') (\<lambda>step_d.
       bindS (decl_field spec_map ''default'') (\<lambda>default_d.
       bindS (case extract_int_fields min_d max_d step_d default_d of
          Some (a, b, c, d) \<Rightarrow>
            bindS (validate_int_param fl a b c d) (\<lambda>v. Inr (IntParam, v))
        | None \<Rightarrow>
            (case extract_float_fields min_d max_d step_d default_d of
               Some (a, b, c, d) \<Rightarrow> bindS (validate_float_param fl a b c d) (\<lambda>v. Inr (FloatParam, v))
             | None \<Rightarrow> Inl (InvalidScript ''invalid parameter: all integers or all floats''))) (\<lambda>(kind, min_v, max_v, step, default_v).
       Inr \<lparr>ps_name = name, ps_kind = kind, ps_min = min_v, ps_max = max_v, ps_step = step, ps_default = default_v\<rparr>))))))"

fun collectS :: "('a \<Rightarrow> 'e + 'b) \<Rightarrow> 'a list \<Rightarrow> 'e + 'b list" where
  "collectS f [] = Inr []"
| "collectS f (x # xs) = bindS (f x) (\<lambda>y. bindS (collectS f xs) (\<lambda>ys. Inr (y # ys)))"

text \<open>\<open>decls\<close> is the map in the order of its iteration; \<open>leq\<close> is the order of strings.\<close>

definition parse_param_specs ::
  "float_rounding \<Rightarrow> (string \<Rightarrow> string \<Rightarrow> bool) \<Rightarrow> (string \<times> rhai_decl) list \<Rightarrow> param_spec list sim_result" where
  "parse_param_specs fl leq decls =
     bindS (guardS (length decls > MAX_PARAM_COUNT)
       (InvalidScript ''invalid parameter count: exceeds the limit'')) (\<lambda>_.
     bindS (collectS (\<lambda>(name, value). parse_one_param_spec fl name value) decls) (\<lambda>specs.
     Inr (foldr (\<lambda>x ys. takeWhile (\<lambda>y. \<not> leq (ps_name x) (ps_name y)) ys @ x
                      # dropWhile (\<lambda>y. \<not> leq (ps_name x) (ps_name y)) ys) specs [])))"

section \<open>Values\<close>

definition resolve_default :: "param_spec \<Rightarrow> param_value" where
  "resolve_default spec = (case ps_kind spec of
     IntParam \<Rightarrow> IntValue (f64_as_i64 (fround (ps_default spec)))
   | FloatParam \<Rightarrow> FloatValue (ps_default spec))"

definition default_params :: "param_spec list \<Rightarrow> param_set" where
  "default_params specs = map (\<lambda>s. (ps_name s, resolve_default s)) specs"

text \<open>\<open>as_i64\<close> and \<open>as_f64\<close> of a JSON value.\<close>

datatype json_number = JInt int | JFloat f64 | JOther

definition resolve_one_param :: "float_rounding \<Rightarrow> param_spec \<Rightarrow> json_number \<Rightarrow> param_value sim_result" where
  "resolve_one_param fl spec json_value = (case ps_kind spec of
     IntParam \<Rightarrow>
       (case json_value of
          JInt n \<Rightarrow>
            (let min_v = f64_as_i64 (ps_min spec); max_v = f64_as_i64 (ps_max spec); step = f64_as_i64 (ps_step spec) in
             bindS (guardS (n < min_v \<or> n > max_v) (ArgsError ''invalid parameter: out of range'')) (\<lambda>_.
             bindS (guardS (step \<noteq> 0 \<and> \<not> is_on_integer_grid n min_v step)
               (ArgsError ''invalid parameter: not on the step grid'')) (\<lambda>_.
             Inr (IntValue n))))
        | _ \<Rightarrow> Inl (ArgsError ''invalid parameter: must be an integer''))
   | FloatParam \<Rightarrow>
       (case (case json_value of JInt n \<Rightarrow> Some (fl (of_int n)) | JFloat f \<Rightarrow> Some f | JOther \<Rightarrow> None) of
          None \<Rightarrow> Inl (ArgsError ''invalid parameter: must be a number'')
        | Some f \<Rightarrow>
            bindS (guardS (f < fl (ps_min spec - FLOAT_GRID_TOLERANCE) \<or> f > fl (ps_max spec + FLOAT_GRID_TOLERANCE))
              (ArgsError ''invalid parameter: out of range'')) (\<lambda>_.
            bindS (guardS (\<not> is_on_float_grid fl f (ps_min spec) (ps_step spec))
              (ArgsError ''invalid parameter: not on the step grid'')) (\<lambda>_.
            Inr (FloatValue f)))))"

definition resolve_params ::
  "float_rounding \<Rightarrow> param_spec list \<Rightarrow> (string \<times> json_number) list \<Rightarrow> param_set sim_result" where
  "resolve_params fl specs given =
     bindS (guardS (\<not> list_all (\<lambda>(key, _). key \<in> set (map ps_name specs)) given)
       (ArgsError ''invalid parameter: unknown'')) (\<lambda>_.
     collectS (\<lambda>spec. bindS (case map_of given (ps_name spec) of
                   None \<Rightarrow> Inr (resolve_default spec)
                 | Some v \<Rightarrow> resolve_one_param fl spec v) (\<lambda>v. Inr (ps_name spec, v))) specs)"

end
