(* ===== verification/Sim_Benchmark.thy ===== *)
theory Sim_Benchmark
  imports Sim_Series
begin

text \<open>
  The benchmark of a swing size (\<open>sim/src/benchmark.rs\<close>): the turning points of the mid closes, the
  legs between them and the direction of the leg each bar belongs to.
\<close>

record leg =
  lg_a :: nat
  lg_b :: nat
  lg_direction :: int
  lg_ideal_milli :: int
  lg_realizable_milli :: int

record benchmark =
  bm_theta_pips :: int
  bm_legs :: "leg list"
  bm_ideal_milli :: int
  bm_realizable_milli :: int
  bm_labels :: "int list"

datatype turn_kind = LowTurn | HighTurn

record turn =
  tn_pos :: nat
  tn_kind :: turn_kind

datatype swing_direction = Up | Down

definition strictly_exceeds :: "int \<Rightarrow> int \<Rightarrow> bool \<Rightarrow> bool" where
  "strictly_exceeds candidate recorded_extreme direction_is_up =
     (if direction_is_up then candidate > recorded_extreme else candidate < recorded_extreme)"

record turn_state =
  tu_direction :: "swing_direction option"
  tu_hi_val :: int
  tu_hi_pos :: nat
  tu_lo_val :: int
  tu_lo_pos :: nat
  tu_extreme_val :: int
  tu_extreme_pos :: nat
  tu_turns :: "turn list"

definition turn_step :: "int \<Rightarrow> (nat \<Rightarrow> int) \<Rightarrow> turn_state \<Rightarrow> nat \<Rightarrow> turn_state" where
  "turn_step theta mid2 s t =
     (let v = mid2 t in
      case tu_direction s of
        None \<Rightarrow>
          (let s = (if strictly_exceeds v (tu_hi_val s) True then s\<lparr>tu_hi_val := v, tu_hi_pos := t\<rparr> else s);
               s = (if strictly_exceeds v (tu_lo_val s) False then s\<lparr>tu_lo_val := v, tu_lo_pos := t\<rparr> else s)
           in if v - tu_lo_val s \<ge> theta
              then s\<lparr>tu_turns := tu_turns s @ [\<lparr>tn_pos = tu_lo_pos s, tn_kind = LowTurn\<rparr>],
                     tu_direction := Some Up, tu_extreme_val := v, tu_extreme_pos := t\<rparr>
              else if tu_hi_val s - v \<ge> theta
              then s\<lparr>tu_turns := tu_turns s @ [\<lparr>tn_pos = tu_hi_pos s, tn_kind = HighTurn\<rparr>],
                     tu_direction := Some Down, tu_extreme_val := v, tu_extreme_pos := t\<rparr>
              else s)
      | Some Up \<Rightarrow>
          if strictly_exceeds v (tu_extreme_val s) True
          then s\<lparr>tu_extreme_val := v, tu_extreme_pos := t\<rparr>
          else if tu_extreme_val s - v \<ge> theta
          then s\<lparr>tu_turns := tu_turns s @ [\<lparr>tn_pos = tu_extreme_pos s, tn_kind = HighTurn\<rparr>],
                 tu_direction := Some Down, tu_extreme_val := v, tu_extreme_pos := t\<rparr>
          else s
      | Some Down \<Rightarrow>
          if strictly_exceeds v (tu_extreme_val s) False
          then s\<lparr>tu_extreme_val := v, tu_extreme_pos := t\<rparr>
          else if v - tu_extreme_val s \<ge> theta
          then s\<lparr>tu_turns := tu_turns s @ [\<lparr>tn_pos = tu_extreme_pos s, tn_kind = LowTurn\<rparr>],
                 tu_direction := Some Up, tu_extreme_val := v, tu_extreme_pos := t\<rparr>
          else s)"

definition turn_init :: "(nat \<Rightarrow> int) \<Rightarrow> turn_state" where
  "turn_init mid2 =
     \<lparr>tu_direction = None, tu_hi_val = mid2 0, tu_hi_pos = 0, tu_lo_val = mid2 0, tu_lo_pos = 0,
      tu_extreme_val = 0, tu_extreme_pos = 0, tu_turns = []\<rparr>"

definition extract_turns :: "bar list \<Rightarrow> int \<Rightarrow> turn list" where
  "extract_turns bars theta =
     (let n = length bars; mid2 = (\<lambda>t. mid2_close (bars ! t)) in
      if n = 0 then [] else tu_turns (foldl (turn_step theta mid2) (turn_init mid2) [1..<n]))"

definition excludes_candidate_wave :: "nat \<Rightarrow> nat \<Rightarrow> bool" where
  "excludes_candidate_wave b n \<longleftrightarrow> b + 1 \<ge> n"

text \<open>One pair of successive turns.\<close>

definition leg_of :: "bar list \<Rightarrow> turn \<Rightarrow> turn \<Rightarrow> leg" where
  "leg_of bars start_turn end_turn =
     (let a = tn_pos start_turn; b = tn_pos end_turn;
          direction = (case tn_kind start_turn of LowTurn \<Rightarrow> 1 | HighTurn \<Rightarrow> -1);
          (ideal, realizable) =
            (if direction = 1
             then (br_bid_close (bars ! b) - br_ask_close (bars ! a),
                   br_bid_open (bars ! (b + 1)) - br_ask_open (bars ! (a + 1)))
             else (br_bid_close (bars ! a) - br_ask_close (bars ! b),
                   br_bid_open (bars ! (a + 1)) - br_ask_open (bars ! (b + 1))))
      in \<lparr>lg_a = a, lg_b = b, lg_direction = direction, lg_ideal_milli = ideal, lg_realizable_milli = realizable\<rparr>)"

definition label_leg :: "leg \<Rightarrow> int list \<Rightarrow> int list" where
  "label_leg l labels = map2 (\<lambda>i x. if lg_a l + 1 \<le> i \<and> i < lg_b l + 1 then lg_direction l else x)
     [0..<length labels] labels"

definition leg_step :: "bar list \<Rightarrow> leg list \<times> int list \<Rightarrow> turn \<times> turn \<Rightarrow> leg list \<times> int list" where
  "leg_step bars = (\<lambda>(legs, labels) (start_turn, end_turn).
     if excludes_candidate_wave (tn_pos end_turn) (length bars) then (legs, labels)
     else let l = leg_of bars start_turn end_turn in (legs @ [l], label_leg l labels))"

definition build_legs :: "bar list \<Rightarrow> turn list \<Rightarrow> leg list \<times> int list" where
  "build_legs bars turns =
     foldl (leg_step bars) ([], replicate (length bars) 0) (zip turns (tl turns))"

definition theta_mid2 :: "int \<Rightarrow> int" where
  "theta_mid2 theta_pips = i64_saturating_mul theta_pips PIP_MID2"

definition benchmark_compute :: "bar list \<Rightarrow> int \<Rightarrow> benchmark" where
  "benchmark_compute bars theta_pips =
     (let turns = extract_turns bars (theta_mid2 theta_pips);
          (legs, labels) = build_legs bars turns
      in \<lparr>bm_theta_pips = theta_pips, bm_legs = legs,
          bm_ideal_milli = sum_list (map lg_ideal_milli legs),
          bm_realizable_milli = sum_list (map lg_realizable_milli legs), bm_labels = labels\<rparr>)"

end
