(* ===== verification/Sim_Eval.thy ===== *)
theory Sim_Eval
  imports Sim_Engine Sim_Benchmark
begin

text \<open>
  The metrics of a run and its comparison with the benchmarks (\<open>sim/src/eval.rs\<close>). An index
  beyond a list and an instant that cannot be printed are panics. \<open>rfc3339\<close> is the printing of an
  instant; the map by swing size is an association list, and the swing sizes are distinct.
\<close>

record missed_leg =
  ml_start_time :: string
  ml_end_time :: string
  ml_direction :: int
  ml_realizable_pips :: f64
  ml_flat_bars :: nat
  ml_opposite_bars :: nat

record theta_metrics =
  tm_leg_count :: nat
  tm_ideal_pips :: f64
  tm_realizable_pips :: f64
  tm_capture_rate :: "f64 option"
  tm_correct_side_ratio :: "f64 option"
  tm_mean_lag_bars :: "f64 option"
  tm_mean_lag_pips :: "f64 option"
  tm_missed_legs :: "missed_leg list"

record metrics =
  mt_total_pips :: f64
  mt_trade_count :: nat
  mt_win_rate :: f64
  mt_max_drawdown_pips :: f64
  mt_time_in_market :: f64
  mt_protective_stop_count :: nat
  mt_segments :: "f64 list"
  mt_by_theta :: "(int \<times> theta_metrics) list"

section \<open>Metrics of the trades\<close>

definition drawdown_step :: "int \<times> int \<times> int \<Rightarrow> sim_trade \<Rightarrow> int \<times> int \<times> int" where
  "drawdown_step = (\<lambda>(peak, cumulative, max_dd) trade.
     (let cumulative = cumulative + st_pnl_milli trade;
          peak = max peak cumulative
      in (peak, cumulative, max max_dd (peak - cumulative))))"

definition max_drawdown_milli :: "sim_trade list \<Rightarrow> int" where
  "max_drawdown_milli trades = snd (snd (foldl drawdown_step (0, 0, 0) trades))"

definition max_drawdown :: "float_rounding \<Rightarrow> sim_trade list \<Rightarrow> f64" where
  "max_drawdown fl trades = milli_to_pips fl (max_drawdown_milli trades)"

definition segment_boundaries :: "nat \<Rightarrow> nat list" where
  "segment_boundaries n =
     (let base = n div 6; remainder = n mod 6 in
      foldl (\<lambda>bs i. bs @ [bs ! i + (if i < 5 then base else base + remainder)]) [0] [0..<6])"

fun find_segment :: "nat \<Rightarrow> nat \<Rightarrow> nat list \<Rightarrow> nat" where
  "find_segment exit_idx i (b # b' # bs) = (if exit_idx < b' then i else find_segment exit_idx (i + 1) (b' # bs))"
| "find_segment exit_idx i bs = 5"

definition segment_index :: "nat \<Rightarrow> nat list \<Rightarrow> nat" where
  "segment_index exit_idx boundaries = find_segment exit_idx 0 boundaries"

definition segments_milli :: "nat \<Rightarrow> sim_trade list \<Rightarrow> int list" where
  "segments_milli n trades =
     foldl (\<lambda>segs t. let idx = segment_index (st_exit_idx t) (segment_boundaries n)
                     in segs[idx := segs ! idx + st_pnl_milli t]) (replicate 6 0) trades"

definition compute_segments :: "float_rounding \<Rightarrow> nat \<Rightarrow> sim_trade list \<Rightarrow> f64 list" where
  "compute_segments fl n trades = map (milli_to_pips fl) (segments_milli n trades)"

section \<open>Comparison with a benchmark\<close>

record leg_eval =
  le_leg :: leg
  le_matched :: nat
  le_total :: nat
  le_flat_bars :: nat
  le_opposite_bars :: nat
  le_first_match_idx :: "nat option"

definition leg_eval_step :: "int \<Rightarrow> leg_eval \<Rightarrow> nat \<times> int \<Rightarrow> leg_eval" where
  "leg_eval_step direction e = (\<lambda>(i, p).
     if p = direction
     then e\<lparr>le_matched := le_matched e + 1,
            le_first_match_idx := (case le_first_match_idx e of None \<Rightarrow> Some i | Some j \<Rightarrow> Some j)\<rparr>
     else if p = 0 then e\<lparr>le_flat_bars := le_flat_bars e + 1\<rparr>
     else e\<lparr>le_opposite_bars := le_opposite_bars e + 1\<rparr>)"

definition evaluate_leg :: "leg \<Rightarrow> int list \<Rightarrow> leg_eval" where
  "evaluate_leg l positions =
     (let start = lg_a l + 1; stop = lg_b l in
      foldl (leg_eval_step (lg_direction l))
        \<lparr>le_leg = l, le_matched = 0, le_total = stop - start + 1, le_flat_bars = 0, le_opposite_bars = 0,
         le_first_match_idx = None\<rparr>
        (drop start (take (stop + 1) (zip [0..<length positions] positions))))"

definition checked_nth :: "'a list \<Rightarrow> nat \<Rightarrow> 'a result" where
  "checked_nth xs i = (if i < length xs then Inr (xs ! i) else Inl (Panic ''index out of bounds''))"

definition lag_pips :: "float_rounding \<Rightarrow> bar list \<Rightarrow> leg_eval \<times> nat \<Rightarrow> f64 result" where
  "lag_pips fl bars = (\<lambda>(e, idx).
     bindR (checked_nth bars idx) (\<lambda>b.
     bindR (checked_nth bars (lg_a (le_leg e))) (\<lambda>b0.
     Inr (mid2_to_pips fl \<bar>mid2_close b - mid2_close b0\<bar>))))"

definition mean_lag ::
  "float_rounding \<Rightarrow> bar list \<Rightarrow> leg_eval list \<Rightarrow> (f64 option \<times> f64 option) result" where
  "mean_lag fl bars leg_evals =
     (let lagged = List.map_filter (\<lambda>e. map_option (\<lambda>idx. (e, idx)) (le_first_match_idx e)) leg_evals in
      if lagged = [] then Inr (None, None)
      else
        let bars_sum = sum_list (map (\<lambda>(e, idx). idx - (lg_a (le_leg e) + 1)) lagged) in
        bindR (collectR (lag_pips fl bars) lagged) (\<lambda>lags.
        let pips_sum = foldl (\<lambda>s x. fl (s + x)) 0 lags;
            count = fl (of_nat (length lagged)) in
        Inr (Some (fl (fl (of_nat bars_sum) / count)), Some (fl (pips_sum / count)))))"

definition leg_before :: "leg_eval \<Rightarrow> leg_eval \<Rightarrow> bool" where
  "leg_before x y \<longleftrightarrow>
     lg_realizable_milli (le_leg y) < lg_realizable_milli (le_leg x)
     \<or> lg_realizable_milli (le_leg x) = lg_realizable_milli (le_leg y) \<and> lg_a (le_leg x) \<le> lg_a (le_leg y)"

text \<open>\<open>sort_by\<close> is stable.\<close>

fun insert_by :: "('a \<Rightarrow> 'a \<Rightarrow> bool) \<Rightarrow> 'a \<Rightarrow> 'a list \<Rightarrow> 'a list" where
  "insert_by before x [] = [x]"
| "insert_by before x (y # ys) = (if before x y then x # y # ys else y # insert_by before x ys)"

definition stable_sort_by :: "('a \<Rightarrow> 'a \<Rightarrow> bool) \<Rightarrow> 'a list \<Rightarrow> 'a list" where
  "stable_sort_by before xs = foldr (insert_by before) xs []"

definition rfc3339 :: "(int \<Rightarrow> string) \<Rightarrow> int \<Rightarrow> string result" where
  "rfc3339 print t =
     (if representable_ts t then Inr (print t) else Inl (Panic ''not a representable UTC instant''))"

definition missed_leg_of :: "float_rounding \<Rightarrow> (int \<Rightarrow> string) \<Rightarrow> bar list \<Rightarrow> leg_eval \<Rightarrow> missed_leg result" where
  "missed_leg_of fl print bars e =
     bindR (checked_nth bars (lg_a (le_leg e) + 1)) (\<lambda>b1.
     bindR (rfc3339 print (br_open_time b1)) (\<lambda>start_time.
     bindR (checked_nth bars (lg_b (le_leg e))) (\<lambda>b2.
     bindR (rfc3339 print (br_open_time b2)) (\<lambda>end_time.
     Inr \<lparr>ml_start_time = start_time, ml_end_time = end_time, ml_direction = lg_direction (le_leg e),
          ml_realizable_pips = milli_to_pips fl (lg_realizable_milli (le_leg e)),
          ml_flat_bars = le_flat_bars e, ml_opposite_bars = le_opposite_bars e\<rparr>))))"

definition missed_legs ::
  "float_rounding \<Rightarrow> (int \<Rightarrow> string) \<Rightarrow> bar list \<Rightarrow> leg_eval list \<Rightarrow> missed_leg list result" where
  "missed_legs fl print bars leg_evals =
     collectR (missed_leg_of fl print bars)
       (take 20 (stable_sort_by leg_before (filter (\<lambda>e. le_matched e * 2 < le_total e) leg_evals)))"

definition label_matches :: "int list \<Rightarrow> int list \<Rightarrow> nat \<Rightarrow> bool result" where
  "label_matches labels positions i =
     (if labels ! i = 0 then Inr False
      else bindR (checked_nth positions i) (\<lambda>p. Inr (p = labels ! i)))"

definition theta_metrics_of ::
  "float_rounding \<Rightarrow> (int \<Rightarrow> string) \<Rightarrow> bar list \<Rightarrow> int list \<Rightarrow> benchmark \<Rightarrow> int \<Rightarrow> theta_metrics result" where
  "theta_metrics_of fl print bars positions bm total_milli =
     (let labeled_count = length (filter (\<lambda>l. l \<noteq> 0) (bm_labels bm));
          leg_evals = map (\<lambda>l. evaluate_leg l positions) (bm_legs bm) in
      bindR (if labeled_count = 0 then Inr None
             else bindR (collectR (label_matches (bm_labels bm) positions) [0..<length (bm_labels bm)]) (\<lambda>ms.
                  Inr (Some (fl (fl (of_nat (length (filter id ms))) / fl (of_nat labeled_count))))))
        (\<lambda>correct_side_ratio.
      bindR (mean_lag fl bars leg_evals) (\<lambda>(mean_lag_bars, mean_lag_pips).
      bindR (missed_legs fl print bars leg_evals) (\<lambda>missed.
      Inr \<lparr>tm_leg_count = length (bm_legs bm),
           tm_ideal_pips = milli_to_pips fl (bm_ideal_milli bm),
           tm_realizable_pips = milli_to_pips fl (bm_realizable_milli bm),
           tm_capture_rate = (if bm_realizable_milli bm > 0
             then Some (fl (fl (of_int total_milli) / fl (of_int (bm_realizable_milli bm)))) else None),
           tm_correct_side_ratio = correct_side_ratio, tm_mean_lag_bars = mean_lag_bars,
           tm_mean_lag_pips = mean_lag_pips, tm_missed_legs = missed\<rparr>))))"

definition total_pnl :: "sim_trade list \<Rightarrow> int" where
  "total_pnl trades = sum_list (map st_pnl_milli trades)"

definition eval_metrics ::
  "float_rounding \<Rightarrow> (int \<Rightarrow> string) \<Rightarrow> bar list \<Rightarrow> sim_outcome \<Rightarrow> benchmark list \<Rightarrow> metrics result" where
  "eval_metrics fl print bars outcome benchmarks =
     (let trades = so_trades outcome; positions = so_positions outcome;
          total_milli = total_pnl trades;
          trade_count = length trades in
      bindR (collectR (\<lambda>bm. bindR (theta_metrics_of fl print bars positions bm total_milli) (\<lambda>m.
               Inr (bm_theta_pips bm, m))) benchmarks) (\<lambda>by_theta.
      Inr \<lparr>mt_total_pips = milli_to_pips fl total_milli,
           mt_trade_count = trade_count,
           mt_win_rate = (if trade_count = 0 then 0
             else fl (fl (of_nat (length (filter (\<lambda>t. st_pnl_milli t > 0) trades))) / fl (of_nat trade_count))),
           mt_max_drawdown_pips = max_drawdown fl trades,
           mt_time_in_market = fl (fl (of_nat (length (filter (\<lambda>p. p \<noteq> 0) positions))) / fl (of_nat (length bars))),
           mt_protective_stop_count = length (filter (\<lambda>t. st_reason t = ProtectiveStopExit) trades),
           mt_segments = compute_segments fl (length bars) trades,
           mt_by_theta = by_theta\<rparr>))"

end
