(* ===== verification/Sim_Sweep.thy ===== *)
theory Sim_Sweep
  imports Sim_Params Sim_Eval
begin

text \<open>
  The parameter grid of a sweep and one run (\<open>sim/src/sweep.rs\<close>). The index of a combination is a
  mixed-radix number with one digit per parameter, the last parameter being the least significant.
  A step that truncates to zero is a division by zero; \<open>sample\<close> is the sampling of the \<open>rand\<close> crate.
\<close>

definition MAX_TOTAL_COMBINATIONS :: nat where "MAX_TOTAL_COMBINATIONS = 2 ^ 63"
definition MAX_FLOAT_K_ADJUSTMENTS :: nat where "MAX_FLOAT_K_ADJUSTMENTS = 4"

definition sat_succ :: "nat \<Rightarrow> nat" where "sat_succ k = min (k + 1) (2 ^ 64 - 1)"

text \<open>A quotient of \<open>i128\<close> values, cast to \<open>u64\<close>.\<close>

definition span_steps :: "int \<Rightarrow> int \<Rightarrow> nat result" where
  "span_steps width step =
     (if step = 0 then Inl (Panic ''attempt to divide by zero'') else Inr (nat (tdiv width step mod 2 ^ 64)))"

section \<open>Candidates of a parameter\<close>

definition float_fits :: "float_rounding \<Rightarrow> param_spec \<Rightarrow> nat \<Rightarrow> bool" where
  "float_fits fl spec k \<longleftrightarrow>
     fl (ps_min spec + fl (fl (of_nat k) * ps_step spec)) \<le> fl (ps_max spec + FLOAT_GRID_TOLERANCE)"

fun adjust_down :: "nat \<Rightarrow> (nat \<Rightarrow> bool) \<Rightarrow> nat \<Rightarrow> nat" where
  "adjust_down 0 fits k = k"
| "adjust_down (Suc n) fits k = (if k > 0 \<and> \<not> fits k then adjust_down n fits (k - 1) else k)"

fun adjust_up :: "nat \<Rightarrow> (nat \<Rightarrow> bool) \<Rightarrow> nat \<Rightarrow> nat" where
  "adjust_up 0 fits k = k"
| "adjust_up (Suc n) fits k = (if k + 1 < 2 ^ 64 \<and> fits (k + 1) then adjust_up n fits (k + 1) else k)"

definition candidate_count :: "float_rounding \<Rightarrow> param_spec \<Rightarrow> nat result" where
  "candidate_count fl spec = (case ps_kind spec of
     IntParam \<Rightarrow>
       bindR (span_steps (f64_as_i64 (ps_max spec) - f64_as_i64 (ps_min spec)) (f64_as_i64 (ps_step spec))) (\<lambda>q.
       Inr (sat_succ q))
   | FloatParam \<Rightarrow>
       (let k = f64_as_u64 (of_int \<lfloor>fl (fl (ps_max spec - ps_min spec) / ps_step spec)\<rfloor>);
            k = adjust_down MAX_FLOAT_K_ADJUSTMENTS (float_fits fl spec) k;
            k = adjust_up MAX_FLOAT_K_ADJUSTMENTS (float_fits fl spec) k
        in Inr (sat_succ k)))"

definition default_k :: "float_rounding \<Rightarrow> param_spec \<Rightarrow> nat result" where
  "default_k fl spec = (case ps_kind spec of
     IntParam \<Rightarrow> span_steps (f64_as_i64 (ps_default spec) - f64_as_i64 (ps_min spec)) (f64_as_i64 (ps_step spec))
   | FloatParam \<Rightarrow> Inr (f64_as_u64 (fround (fl (fl (ps_default spec - ps_min spec) / ps_step spec)))))"

definition param_value_at :: "float_rounding \<Rightarrow> param_spec \<Rightarrow> nat \<Rightarrow> param_value" where
  "param_value_at fl spec k = (case ps_kind spec of
     IntParam \<Rightarrow> IntValue (i64_wrap (f64_as_i64 (ps_min spec) + int k * f64_as_i64 (ps_step spec)))
   | FloatParam \<Rightarrow> FloatValue (fl (ps_min spec + fl (fl (of_nat k) * ps_step spec))))"

section \<open>Indices of combinations\<close>

definition sim_panic :: "'a result \<Rightarrow> 'a sim_result result" where
  "sim_panic r = (case r of Inl e \<Rightarrow> Inl e | Inr x \<Rightarrow> Inr (Inr x))"

text \<open>\<open>checked_mul\<close> on \<open>u128\<close> cannot overflow below the bound of the filter.\<close>

definition times_count :: "float_rounding \<Rightarrow> nat sim_result result \<Rightarrow> param_spec \<Rightarrow> nat sim_result result" where
  "times_count fl acc spec =
     bindR acc (\<lambda>combos. case combos of
       Inl e \<Rightarrow> Inr (Inl e)
     | Inr combos \<Rightarrow>
         bindR (candidate_count fl spec) (\<lambda>count.
         if combos * count \<le> MAX_TOTAL_COMBINATIONS then Inr (Inr (combos * count))
         else Inr (Inl (ArgsError ''invalid sweep: too many parameter combinations''))))"

definition total_combinations :: "float_rounding \<Rightarrow> param_spec list \<Rightarrow> nat sim_result result" where
  "total_combinations fl specs = foldl (times_count fl) (Inr (Inr 1)) specs"

definition index_step :: "float_rounding \<Rightarrow> nat result \<Rightarrow> param_spec \<Rightarrow> nat result" where
  "index_step fl acc spec =
     bindR acc (\<lambda>result.
     bindR (candidate_count fl spec) (\<lambda>radix.
     bindR (default_k fl spec) (\<lambda>k.
     Inr (result * radix + k))))"

definition default_index :: "float_rounding \<Rightarrow> param_spec list \<Rightarrow> nat sim_result result" where
  "default_index fl specs =
     bindR (total_combinations fl specs) (\<lambda>combos. case combos of
       Inl e \<Rightarrow> Inr (Inl e)
     | Inr _ \<Rightarrow> sim_panic (foldl (index_step fl) (Inr 0) specs))"

text \<open>The digits, from the last parameter to the first.\<close>

fun digits_rev :: "nat list \<Rightarrow> nat \<Rightarrow> nat list" where
  "digits_rev [] remaining = []"
| "digits_rev (radix # radices) remaining = (remaining mod radix) # digits_rev radices (remaining div radix)"

definition combination_at :: "float_rounding \<Rightarrow> param_spec list \<Rightarrow> nat \<Rightarrow> param_set result" where
  "combination_at fl specs index =
     bindR (collectR (candidate_count fl) (rev specs)) (\<lambda>radices.
     let ks = rev (digits_rev radices index) in
     Inr (map2 (\<lambda>spec k. (ps_name spec, param_value_at fl spec k)) specs ks))"

definition select_indices ::
  "float_rounding \<Rightarrow> (nat \<Rightarrow> nat \<Rightarrow> nat \<Rightarrow> nat list) \<Rightarrow> param_spec list \<Rightarrow> nat \<Rightarrow> nat \<Rightarrow> nat list sim_result result" where
  "select_indices fl sample specs max_runs seed =
     bindR (total_combinations fl specs) (\<lambda>combos. case combos of
       Inl e \<Rightarrow> Inr (Inl e)
     | Inr combos \<Rightarrow>
         bindR (default_index fl specs) (\<lambda>default_idx. case default_idx of
           Inl e \<Rightarrow> Inr (Inl e)
         | Inr default_idx \<Rightarrow>
             if max_runs = 0 then Inr (Inr [])
             else if combos \<le> max_runs
             then Inr (Inr (default_idx # filter (\<lambda>i. i \<noteq> default_idx) [0..<combos]))
             else Inr (Inr (default_idx # map (\<lambda>j. if j < default_idx then j else j + 1)
                              (sample seed (combos - 1) (max_runs - 1))))))"

section \<open>One run\<close>

record run_record =
  rr_params :: param_set
  rr_status :: run_status
  rr_metrics :: "metrics option"

text \<open>\<open>on_bar\<close> is what the engine makes of the script with these parameters.\<close>

definition run_one ::
  "float_rounding \<Rightarrow> (f64 \<Rightarrow> f64) \<Rightarrow> (int \<Rightarrow> string) \<Rightarrow> dataset \<Rightarrow> (param_set \<Rightarrow> 'this \<Rightarrow> 'this script_tree)
    \<Rightarrow> 'this \<Rightarrow> param_set \<Rightarrow> benchmark list \<Rightarrow> sim_config \<Rightarrow> run_record sim_result result" where
  "run_one fl fsqrt print dataset on_bar this params benchmarks cfg =
     (case simulate dataset (script_decider fl (dataset_indicator fl fsqrt dataset) dataset cfg (on_bar params))
             (script_run_new this) cfg of
        Inl err \<Rightarrow> Inr (Inl err)
      | Inr outcome \<Rightarrow>
          bindR (case so_status outcome of
             RunOk \<Rightarrow> bindR (eval_metrics fl print (eval_bars dataset) outcome benchmarks) (\<lambda>m. Inr (Some m))
           | ScriptError _ _ \<Rightarrow> Inr None) (\<lambda>metrics.
          Inr (Inr \<lparr>rr_params = params, rr_status = so_status outcome, rr_metrics = metrics\<rparr>)))"

end
