(* ===== verification/Sim_Causal.thy ===== *)
theory Sim_Causal
  imports Sim_Script
begin

text \<open>
  No look-ahead. The entries of an indicator for the first \<open>k\<close> bars depend on these bars only, the
  aggregated bars that have ended at an M5 bar depend on the bars up to it only, and so does every
  answer the context gives to a script there.
\<close>

named_theorems causal \<open>series whose first entries depend on the first bars only\<close>

section \<open>Scans\<close>

lemma length_scan [simp]: "length (scan step s is) = length is"
  by (induction "is" arbitrary: s) (auto split: prod.splits)

lemma take_scan: "take k (scan step s is) = scan step s (take k is)"
proof (induction "is" arbitrary: s k)
  case (Cons i "is")
  then show ?case by (cases k) (auto split: prod.splits)
qed simp

lemma scan_cong: "(\<And>i. i \<in> set is \<Longrightarrow> step i = step' i) \<Longrightarrow> scan step s is = scan step' s is"
  by (induction "is" arbitrary: s) (auto split: prod.splits)

lemma take_upt_min: "take k [m..<n] = [m..<min (m + k) n]"
  by (simp add: min_def)

lemma take_replicate_scan_ge:
  assumes "a < k"
  shows "take k (replicate a x @ [y] @ scan step s [a + 1..<n]) = replicate a x @ [y] @ scan step s [a + 1..<min k n]"
  using assms by (auto simp: take_scan take_upt_min take_Cons' min_def)

lemma take_replicate_scan:
  "take k (replicate a x @ [y] @ scan step s [a + 1..<n]) =
     (if k \<le> a then replicate k x else replicate a x @ [y] @ scan step s [a + 1..<min k n])"
  by (auto simp: take_scan take_upt_min take_Cons' min_def)

section \<open>Indicators\<close>

lemma sma_causal [causal]: "sma_series fl (take k closes) period = take k (sma_series fl closes period)"
proof -
  have "scan (sma_step fl (take k closes) period) 0 [0..<min k (length closes)] =
      scan (sma_step fl closes period) 0 [0..<min k (length closes)]"
    by (rule scan_cong) (auto simp: sma_step_def Let_def fun_eq_iff)
  then show ?thesis by (simp add: sma_series_def take_scan take_upt_min min.commute)
qed

lemma bb_causal [causal]:
  "bb_series fl fsqrt (take k closes) period mult = take k (bb_series fl fsqrt closes period mult)"
proof -
  have "bb_step fl fsqrt (take k closes) period mult i = bb_step fl fsqrt closes period mult i"
    if "i < k" for i
  proof -
    have window: "map ((!) (take k closes)) [j..<Suc i] = map ((!) closes) [j..<Suc i]" for j
      using that by (intro map_cong) auto
    show ?thesis using that by (simp add: bb_step_def Let_def fun_eq_iff window cong: if_cong del: upt_Suc)
  qed
  then have "scan (bb_step fl fsqrt (take k closes) period mult) 0 [0..<min k (length closes)] =
      scan (bb_step fl fsqrt closes period mult) 0 [0..<min k (length closes)]"
    by (intro scan_cong) simp
  then show ?thesis by (simp add: bb_series_def take_scan take_upt_min min.commute)
qed

lemma donchian_causal [causal]:
  assumes "length lows = length highs"
  shows "donchian_series (take k highs) (take k lows) period = take k (donchian_series highs lows period)"
proof (cases "period = 0")
  case False
  have bounded: "(\<forall>j \<in> set (fst s). j < k) \<and> (\<forall>j \<in> set (snd s). j < k) \<Longrightarrow> (\<forall>i \<in> set is. i < k) \<Longrightarrow>
      scan (donchian_step (take k highs) (take k lows) period) s is = scan (donchian_step highs lows period) s is"
    for s "is"
  proof (induction "is" arbitrary: s)
    case (Cons i "is")
    obtain a b where s: "s = (a, b)" by (cases s)
    have pop: "pop_back_while (\<lambda>j. take k xs ! j \<le> take k xs ! i) dq = pop_back_while (\<lambda>j. xs ! j \<le> xs ! i) dq"
        "pop_back_while (\<lambda>j. take k xs ! j \<ge> take k xs ! i) dq = pop_back_while (\<lambda>j. xs ! j \<ge> xs ! i) dq"
      if "\<forall>j \<in> set dq. j < k" for xs :: "f64 list" and dq
      using that Cons.prems(2) unfolding pop_back_while_def
      by (auto intro!: arg_cong [where f = rev] dropWhile_cong)
    have sub: "set (pop_back_while p dq) \<subseteq> set dq" for p dq
      unfolding pop_back_while_def by (metis set_dropWhileD set_rev subsetI)
    let ?a = "dropWhile (\<lambda>f. f + period \<le> i) (pop_back_while (\<lambda>j. highs ! j \<le> highs ! i) a @ [i])"
    let ?b = "dropWhile (\<lambda>f. f + period \<le> i) (pop_back_while (\<lambda>j. lows ! j \<ge> lows ! i) b @ [i])"
    have a: "\<forall>j \<in> set ?a. j < k" and b: "\<forall>j \<in> set ?b. j < k"
      using Cons.prems sub by (auto simp: s dest!: set_dropWhileD; blast)+
    have ne: "?a \<noteq> []" "?b \<noteq> []" using False by (auto simp: dropWhile_eq_Nil_conv)
    have hd: "hd ?a < k" "hd ?b < k" using a b ne hd_in_set by blast+
    have "donchian_step (take k highs) (take k lows) period i s = donchian_step highs lows period i s"
      using Cons.prems hd pop by (simp add: s donchian_step_def Let_def)
    moreover have "fst (donchian_step highs lows period i s) = (?a, ?b)"
      by (simp add: s donchian_step_def Let_def)
    ultimately show ?case
      using Cons.IH [of "(?a, ?b)"] a b Cons.prems(2) by (auto split: prod.splits)
  qed simp
  show ?thesis
    using False bounded [of "([], [])" "[0..<min k (length highs)]"]
    by (simp add: donchian_series_def take_scan take_upt_min min.commute)
qed (simp add: donchian_series_def min.commute)

lemma ema_causal [causal]: "ema_series fl (take k closes) period = take k (ema_series fl closes period)"
proof (cases "period = 0 \<or> length closes < period")
  case True
  then show ?thesis by (auto simp: ema_series_def Let_def min.commute)
next
  case False
  show ?thesis
  proof (cases "k < period")
    case True
    then show ?thesis
      using False take_replicate_scan [of k "period - 1"] by (auto simp: ema_series_def Let_def min_def)
  next
    case k: False
    have len: "\<not> min k (length closes) < period" using False k by auto
    have "scan (ema_step fl (take k closes) m) s [period..<min k (length closes)] =
        scan (ema_step fl closes m) s [period..<min k (length closes)]" for m s
      by (rule scan_cong) (auto simp: ema_step_def Let_def fun_eq_iff)
    moreover have "take period (take k closes) = take period closes" using k by (simp add: min_def)
    ultimately have "ema_series fl (take k closes) period =
        replicate (period - 1) None @ [Some (fl (fsum fl (take period closes) / of_nat period))]
        @ scan (ema_step fl closes (fl (2 / fl (of_nat period + 1))))
            (fl (fsum fl (take period closes) / of_nat period)) [period - 1 + 1..<min k (length closes)]"
      using False k len by (simp add: ema_series_def Let_def min.commute)
    also have "\<dots> = take k (replicate (period - 1) None @ [Some (fl (fsum fl (take period closes) / of_nat period))]
        @ scan (ema_step fl closes (fl (2 / fl (of_nat period + 1))))
            (fl (fsum fl (take period closes) / of_nat period)) [period - 1 + 1..<length closes])"
      using False k by (intro take_replicate_scan_ge [symmetric]) auto
    also have "\<dots> = take k (ema_series fl closes period)"
      using False by (simp only: ema_series_def Let_def) simp
    finally show ?thesis .
  qed
qed

lemma rsi_causal [causal]: "rsi_series fl (take k closes) period = take k (rsi_series fl closes period)"
proof (cases "period = 0 \<or> length closes < period + 1")
  case True
  then show ?thesis by (auto simp: rsi_series_def Let_def min.commute)
next
  case False
  let ?init = "\<lparr>rs_gain_sum = 0, rs_loss_sum = 0, rs_gain_count = 0, rs_loss_count = 0\<rparr>"
  show ?thesis
  proof (cases "k < period + 1")
    case True
    have none: "scan (rsi_step fl closes period) s [j..<m] = replicate (m - j) None" if "m < period" for s j m
      using that
    proof (induction "m - j" arbitrary: j s)
      case (Suc d)
      then have "[j..<m] = j # [j + 1..<m]" by (simp add: upt_conv_Cons)
      moreover have "m - j = Suc (m - (j + 1))" using Suc(2) by simp
      ultimately show ?case using Suc(1) [of "j + 1"] Suc(2,3) by (simp add: rsi_step_def Let_def)
    qed simp
    have "take k (None # scan (rsi_step fl closes period) ?init [0..<length closes - 1]) = replicate k None"
    proof (cases k)
      case (Suc j)
      then show ?thesis using True False none [of j ?init 0] by (simp add: take_scan take_upt_min min_def)
    qed simp
    then show ?thesis using True False by (auto simp: rsi_series_def Let_def min_def)
  next
    case k: False
    have "scan (rsi_step fl (take k closes) period) s [0..<min k (length closes) - 1] =
        scan (rsi_step fl closes period) s [0..<min k (length closes) - 1]" for s
      by (rule scan_cong) (auto simp: rsi_step_def rsi_diff_def Let_def fun_eq_iff)
    moreover have "take k (x # scan st s [0..<length closes - 1]) = x # scan st s [0..<min k (length closes) - 1]"
      for x :: entry and st :: "nat \<Rightarrow> rsi_state \<Rightarrow> rsi_state \<times> entry" and s
      using k by (cases k) (auto simp: take_scan take_upt_min min_def)
    ultimately show ?thesis using False k by (auto simp: rsi_series_def Let_def min.commute)
  qed
qed

lemma true_range_take: "i < k \<Longrightarrow> true_range_at fl (take k h) (take k l) (take k c) i = true_range_at fl h l c i"
  by (simp add: true_range_at_def)

lemma atr_causal [causal]:
  "atr_series fl (take k highs) (take k lows) (take k closes) period = take k (atr_series fl highs lows closes period)"
proof (cases "period = 0 \<or> length closes < period + 1")
  case True
  then show ?thesis by (auto simp: atr_series_def Let_def min.commute)
next
  case False
  show ?thesis
  proof (cases "k < period + 1")
    case True
    then show ?thesis
      using False take_replicate_scan [of k period] by (auto simp: atr_series_def Let_def min_def)
  next
    case k: False
    have len: "\<not> min k (length closes) < period + 1" using False k by auto
    have steps: "scan (atr_step fl (take k highs) (take k lows) (take k closes) period) s [period + 1..<min k (length closes)] =
        scan (atr_step fl highs lows closes period) s [period + 1..<min k (length closes)]" for s
      by (rule scan_cong) (auto simp: atr_step_def Let_def fun_eq_iff true_range_take)
    have ranges: "map (true_range_at fl (take k highs) (take k lows) (take k closes)) [1..<period + 1] =
        map (true_range_at fl highs lows closes) [1..<period + 1]"
      using k by (intro map_cong) (auto simp: true_range_take)
    have "atr_series fl (take k highs) (take k lows) (take k closes) period =
        replicate period None @ [Some (fl (fsum fl (map (true_range_at fl highs lows closes) [1..<period + 1]) / of_nat period))]
        @ scan (atr_step fl highs lows closes period)
            (fl (fsum fl (map (true_range_at fl highs lows closes) [1..<period + 1]) / of_nat period))
            [period + 1..<min k (length closes)]"
      using False len unfolding atr_series_def Let_def length_take
      by (simp only: min.commute [of "length closes"] steps ranges if_False de_Morgan_disj simp_thms)
    also have "\<dots> = take k (replicate period None
        @ [Some (fl (fsum fl (map (true_range_at fl highs lows closes) [1..<period + 1]) / of_nat period))]
        @ scan (atr_step fl highs lows closes period)
            (fl (fsum fl (map (true_range_at fl highs lows closes) [1..<period + 1]) / of_nat period))
            [period + 1..<length closes])"
      using k by (intro take_replicate_scan_ge [symmetric]) simp
    also have "\<dots> = take k (atr_series fl highs lows closes period)"
      using False by (simp only: atr_series_def Let_def) simp
    finally show ?thesis .
  qed
qed

lemma adx_warming_up:
  assumes "ad_adx_val s = None" and "length (ad_dx_vals s) + (m - j) < period"
  shows "scan (adx_step fl highs lows closes period) s [j..<m] = replicate (m - j) None"
  using assms
proof (induction "m - j" arbitrary: j s)
  case (Suc d)
  then have "j < m" by simp
  then have upt: "[j..<m] = j # [j + 1..<m]" and len: "m - j = Suc (m - (j + 1))"
    by (simp_all add: upt_conv_Cons)
  obtain s' out where step: "adx_step fl highs lows closes period j s = (s', out)" by fastforce
  have "out = None" "ad_adx_val s' = None" "length (ad_dx_vals s') \<le> Suc (length (ad_dx_vals s))"
    using step Suc.prems len by (auto simp: adx_step_def Let_def split: if_splits)
  moreover from this Suc have "scan (adx_step fl highs lows closes period) s' [j + 1..<m] = replicate (m - (j + 1)) None"
    by (intro Suc.hyps) auto
  ultimately show ?case by (simp add: upt step len)
qed simp

lemma adx_causal [causal]:
  "adx_series fl (take k highs) (take k lows) (take k closes) period = take k (adx_series fl highs lows closes period)"
proof (cases "period = 0 \<or> length closes < period * 2 + 1")
  case True
  then show ?thesis by (auto simp: adx_series_def Let_def min.commute)
next
  case False
  define init where "init = \<lparr>ad_plus = fsum fl (map (plus_dm fl highs lows) [0..<period]),
    ad_minus = fsum fl (map (minus_dm fl highs lows) [0..<period]),
    ad_tr = fsum fl (map (\<lambda>j. true_range_at fl highs lows closes (j + 1)) [0..<period]),
    ad_dx_vals = [], ad_adx_val = None, ad_consumed = 0\<rparr>"
  have full: "adx_series fl highs lows closes period =
      replicate (period + 1) None @ scan (adx_step fl highs lows closes period) init [period..<length closes - 1]"
    using False by (simp add: adx_series_def Let_def init_def)
  have front: "take k (adx_series fl highs lows closes period) = replicate (min k (period + 1)) None
      @ scan (adx_step fl highs lows closes period) init [period..<min (k - 1) (length closes - 1)]"
  proof -
    have "[period..<min (period + (k - (period + 1))) (length closes - 1)] =
        [period..<min (k - 1) (length closes - 1)]"
      by (cases "k \<le> period + 1") auto
    then show ?thesis
      unfolding full take_append take_replicate take_scan take_upt_min length_replicate by (simp only:)
  qed
  show ?thesis
  proof (cases "k < period * 2 + 1")
    case True
    have "scan (adx_step fl highs lows closes period) init [period..<min (k - 1) (length closes - 1)] =
        replicate (min (k - 1) (length closes - 1) - period) None"
      using True False by (intro adx_warming_up) (auto simp: init_def)
    then show ?thesis
      using True False unfolding front by (auto simp: adx_series_def Let_def min_def replicate_add [symmetric])
  next
    case k: False
    have dm: "plus_dm fl (take k highs) (take k lows) j = plus_dm fl highs lows j"
        "minus_dm fl (take k highs) (take k lows) j = minus_dm fl highs lows j"
        "true_range_at fl (take k highs) (take k lows) (take k closes) (j + 1) =
          true_range_at fl highs lows closes (j + 1)" if "j + 1 < k" for j
      using that by (simp_all add: plus_dm_def minus_dm_def true_range_take)
    have maps: "map (plus_dm fl (take k highs) (take k lows)) [0..<period] = map (plus_dm fl highs lows) [0..<period]"
        "map (minus_dm fl (take k highs) (take k lows)) [0..<period] = map (minus_dm fl highs lows) [0..<period]"
        "map (\<lambda>j. true_range_at fl (take k highs) (take k lows) (take k closes) (j + 1)) [0..<period] =
          map (\<lambda>j. true_range_at fl highs lows closes (j + 1)) [0..<period]"
      using k False dm by (auto intro!: map_cong simp: true_range_take)
    have steps: "scan (adx_step fl (take k highs) (take k lows) (take k closes) period) s [period..<min k (length closes) - 1] =
        scan (adx_step fl highs lows closes period) s [period..<min k (length closes) - 1]" for s
    proof (rule scan_cong)
      fix j assume "j \<in> set [period..<min k (length closes) - 1]"
      then have "j + 1 < k" by auto
      from dm [OF this]
      show "adx_step fl (take k highs) (take k lows) (take k closes) period j = adx_step fl highs lows closes period j"
        unfolding adx_step_def by simp
    qed
    have len: "\<not> min k (length closes) < period * 2 + 1" using False k by auto
    have "adx_series fl (take k highs) (take k lows) (take k closes) period =
        replicate (period + 1) None @ scan (adx_step fl highs lows closes period) init [period..<min k (length closes) - 1]"
      using False len unfolding adx_series_def Let_def length_take init_def
      by (simp only: min.commute [of "length closes"] steps maps if_False de_Morgan_disj simp_thms)
    moreover have "min k (length closes) - 1 = min (k - 1) (length closes - 1)" "min k (period + 1) = period + 1"
      using k False by auto
    ultimately show ?thesis unfolding front by simp
  qed
qed

lemma keltner_causal [causal]:
  "keltner_series fl (take k highs) (take k lows) (take k closes) period mult =
     take k (keltner_series fl highs lows closes period mult)"
  by (simp add: keltner_series_def causal take_map take_zip)

section \<open>Aggregated bars\<close>

definition end_of :: "mid2_bar \<Rightarrow> int" where "end_of = (\<lambda>(_, _, _, _, e). e)"

definition ended_by :: "int \<Rightarrow> mid2_bar \<Rightarrow> bool" where "ended_by T m \<longleftrightarrow> end_of m \<le> T"

lemma bucket_loop_append:
  "bucket_loop w k hi lo cl (xs @ ys) =
     (case bucket_loop w k hi lo cl xs of
        (h, l, c, []) \<Rightarrow> bucket_loop w k h l c ys
      | (h, l, c, r # rs) \<Rightarrow> (h, l, c, (r # rs) @ ys))"
  by (induction xs arbitrary: hi lo cl) auto

lemma bucket_end_after: "0 < w \<Longrightarrow> t < (t div w + 1) * (w :: int)"
  using pos_mod_bound [of w t] div_mult_mod_eq [of t w] unfolding distrib_right mult_1 by linarith

text \<open>Bars that open at \<open>T\<close> or later do not change the aggregated bars that end by \<open>T\<close>.\<close>

lemma ended_prefix:
  assumes "0 < w" and "\<And>b. b \<in> set ys \<Longrightarrow> T \<le> br_open_time b"
  shows "takeWhile (ended_by T) (aggregate_mid2 w (xs @ ys)) = takeWhile (ended_by T) (aggregate_mid2 w xs)"
proof -
  have late: "\<not> ended_by T (p, h, l, c, (bucket_of w y + 1) * w)" if "y \<in> set ys" for y p h l c
    using bucket_end_after [OF assms(1), of "br_open_time y"] assms(2) [OF that]
    by (simp add: ended_by_def end_of_def bucket_of_def)
  have later: "takeWhile (ended_by T) (aggregate_mid2 w ys) = []"
    using late by (cases ys) (auto simp: Let_def split: prod.splits)
  show ?thesis
  proof (induction xs rule: measure_induct_rule [where f = length])
    case (less xs)
    show ?case
    proof (cases xs)
      case (Cons b bs)
      let ?k = "bucket_of w b" and ?m = "\<lambda>h l c. (mid2_open b, h, l, c, (bucket_of w b + 1) * w)"
      obtain h l c rest where loop: "bucket_loop w ?k (mid2_high b) (mid2_low b) (mid2_close b) bs = (h, l, c, rest)"
        by (metis prod_cases4)
      then have alone: "aggregate_mid2 w xs = ?m h l c # aggregate_mid2 w rest"
        by (simp add: Cons Let_def)
      show ?thesis
      proof (cases rest)
        case (Cons r rs)
        have "length rest < length xs" using bucket_loop_length [OF loop] \<open>xs = b # bs\<close> by simp
        moreover have "aggregate_mid2 w (xs @ ys) = ?m h l c # aggregate_mid2 w (rest @ ys)"
          using loop \<open>xs = b # bs\<close> Cons by (simp add: Let_def bucket_loop_append)
        ultimately show ?thesis using less alone by simp
      next
        case Nil
        obtain h' l' c' rest' where on: "bucket_loop w ?k h l c ys = (h', l', c', rest')" by (metis prod_cases4)
        then have both: "aggregate_mid2 w (xs @ ys) = ?m h' l' c' # aggregate_mid2 w rest'"
          using loop Nil \<open>xs = b # bs\<close> by (simp add: Let_def bucket_loop_append)
        show ?thesis
        proof (cases ys)
          case (Cons y ys')
          show ?thesis
          proof (cases "bucket_of w y = ?k")
            case True
            then have "\<not> ended_by T (?m h l c)" "\<not> ended_by T (?m h' l' c')"
              using late [of y] Cons by auto
            then show ?thesis by (simp add: both alone)
          next
            case False
            then have "(h', l', c', rest') = (h, l, c, ys)" using on Cons by simp
            then show ?thesis using later by (simp add: both alone Nil)
          qed
        qed simp
      qed
    qed (simp add: later)
  qed
qed

section \<open>Completed bars\<close>

text \<open>M5 bars open at least five minutes apart.\<close>

definition spaced :: "bar list \<Rightarrow> bool" where
  "spaced bars \<longleftrightarrow> sorted_wrt (\<lambda>a b. br_open_time a + M5_SECS \<le> br_open_time b) bars"

lemma takeWhile_more:
  assumes "\<And>x. P x \<Longrightarrow> Q x"
  shows "takeWhile Q xs = takeWhile P xs @ takeWhile Q (drop (length (takeWhile P xs)) xs)"
  using assms by (induction xs) auto

lemma length_completed_counts [simp]: "length (completed_counts bars rest ptr) = length bars"
  by (induction bars arbitrary: rest ptr) (auto simp: Let_def)

lemma completed_counts_eq:
  assumes "sorted_wrt (\<lambda>a b. br_open_time a \<le> br_open_time b) bars" and "i < length bars"
  shows "completed_counts bars rest ptr ! i =
    ptr + length (takeWhile (\<lambda>e. bucket_end_time_has_arrived e (br_open_time (bars ! i))) rest)"
  using assms
proof (induction bars arbitrary: rest ptr i)
  case (Cons b bs)
  let ?P = "\<lambda>e. bucket_end_time_has_arrived e (br_open_time b)"
  show ?case
  proof (cases i)
    case (Suc j)
    have "br_open_time b \<le> br_open_time (bs ! j)" using Cons.prems Suc by simp
    then have "takeWhile (\<lambda>e. bucket_end_time_has_arrived e (br_open_time (bs ! j))) rest = takeWhile ?P rest
        @ takeWhile (\<lambda>e. bucket_end_time_has_arrived e (br_open_time (bs ! j))) (drop (length (takeWhile ?P rest)) rest)"
      by (intro takeWhile_more) (simp add: bucket_end_time_has_arrived_def)
    from arg_cong [where f = length, OF this] show ?thesis
      using Cons Suc by (simp add: Let_def)
  qed (simp add: Let_def)
qed simp

lemma spaced_sorted: "spaced bars \<Longrightarrow> sorted_wrt (\<lambda>a b. br_open_time a \<le> br_open_time b) bars"
  unfolding spaced_def by (erule sorted_wrt_mono_rel [rotated]) (simp add: M5_SECS_def)

lemma take_length_takeWhile: "take (length (takeWhile P xs)) xs = takeWhile P xs"
  by (metis append_eq_conv_conj takeWhile_dropWhile_id)

section \<open>What a script sees\<close>

text \<open>The bars up to index \<open>t\<close> of a dataset, as a dataset of their own.\<close>

definition seen_at :: "float_rounding \<Rightarrow> bar list \<Rightarrow> nat \<Rightarrow> dataset" where
  "seen_at fl bars t = dataset_of fl (take (t + 1) bars) 0 0 0"

lemma ended_same:
  assumes "spaced bars" and "t < length bars"
  shows "takeWhile (ended_by (br_open_time (bars ! t) + M5_SECS)) (aggregate_mid2 (tf_secs tf) (take (t + 1) bars)) =
    takeWhile (ended_by (br_open_time (bars ! t) + M5_SECS)) (aggregate_mid2 (tf_secs tf) bars)"
proof -
  have late: "br_open_time (bars ! t) + M5_SECS \<le> br_open_time b" if "b \<in> set (drop (t + 1) bars)" for b
  proof -
    from that obtain j where "j < length bars - (t + 1)" "b = bars ! (t + 1 + j)"
      by (auto simp: in_set_conv_nth)
    then show ?thesis
      using sorted_wrt_nth_less [OF assms(1) [unfolded spaced_def], of t "t + 1 + j"] by simp
  qed
  from ended_prefix [where xs = "take (t + 1) bars" and ys = "drop (t + 1) bars", OF tf_secs_pos late]
  show ?thesis unfolding append_take_drop_id by (rule sym)
qed

text \<open>The number of completed bars of a timeframe at bar \<open>t\<close>.\<close>

definition ended_count :: "bar list \<Rightarrow> nat \<Rightarrow> tf \<Rightarrow> nat" where
  "ended_count bars t tf =
     length (takeWhile (ended_by (br_open_time (bars ! t) + M5_SECS)) (aggregate_mid2 (tf_secs tf) bars))"

lemma completed_is_ended_count:
  assumes "spaced bars" and "t < length bars"
  shows "ds_completed (dataset_of fl bars es sd ed) tf ! t = ended_count bars t tf"
proof -
  have "ts_end_time (aggregate fl bars tf) = map end_of (aggregate_mid2 (tf_secs tf) bars)"
    by (simp add: aggregate_def Let_def end_of_def)
  moreover have "(\<lambda>e. end_of e \<le> T) = ended_by T" for T by (simp add: ended_by_def fun_eq_iff)
  ultimately show ?thesis
    using assms
    by (simp add: dataset_of_def Let_def completed_counts_eq [OF spaced_sorted] ended_count_def takeWhile_map
        comp_def bucket_end_time_has_arrived_def)
qed

lemma ended_count_seen:
  assumes "spaced bars" and "t < length bars"
  shows "ended_count (take (t + 1) bars) t tf = ended_count bars t tf"
  using ended_same [OF assms] by (simp add: ended_count_def)

lemma spaced_take: "spaced bars \<Longrightarrow> spaced (take k bars)"
  by (simp add: spaced_def sorted_wrt_take)

definition take_series :: "nat \<Rightarrow> tf_series \<Rightarrow> tf_series" where
  "take_series k s = \<lparr>ts_open = take k (ts_open s), ts_high = take k (ts_high s), ts_low = take k (ts_low s),
     ts_close = take k (ts_close s), ts_end_time = take k (ts_end_time s)\<rparr>"

lemma take_aggregate:
  assumes "take k (aggregate_mid2 (tf_secs tf) xs) = take k (aggregate_mid2 (tf_secs tf) ys)"
  shows "take_series k (aggregate fl xs tf) = take_series k (aggregate fl ys tf)"
  using assms by (simp add: take_series_def aggregate_def Let_def take_map)

lemma series_seen:
  assumes "spaced bars" and "t < length bars"
  shows "take_series (ended_count bars t tf) (aggregate fl (take (t + 1) bars) tf) =
    take_series (ended_count bars t tf) (aggregate fl bars tf)"
proof (rule take_aggregate)
  have "length (takeWhile (ended_by (br_open_time (bars ! t) + M5_SECS))
      (aggregate_mid2 (tf_secs tf) (take (t + 1) bars))) = ended_count bars t tf"
    unfolding ended_same [OF assms] ended_count_def ..
  then show "take (ended_count bars t tf) (aggregate_mid2 (tf_secs tf) (take (t + 1) bars)) =
      take (ended_count bars t tf) (aggregate_mid2 (tf_secs tf) bars)"
    using take_length_takeWhile ended_same [OF assms] unfolding ended_count_def by metis
qed

fun take_indicator :: "nat \<Rightarrow> indicator_series \<Rightarrow> indicator_series" where
  "take_indicator k (Single v) = Single (take k v)"
| "take_indicator k (Band l m u) = Band (take k l) (take k m) (take k u)"
| "take_indicator k (Channel l u) = Channel (take k l) (take k u)"

lemma compute_causal:
  assumes "length (ts_low s) = length (ts_high s)"
  shows "compute fl fsqrt (take_series k s) key = take_indicator k (compute fl fsqrt s key)"
  using assms
  by (cases "ik_kind key") (simp_all add: compute_def take_series_def band_of_def causal Let_def take_map)

lemma single_answer_causal: "idx < k \<Longrightarrow> single_answer (take_indicator k x) idx = single_answer x idx"
  by (cases x) (simp_all add: single_answer_def)

lemma channel_answer_causal: "idx < k \<Longrightarrow> channel_answer (take_indicator k x) idx = channel_answer x idx"
  by (cases x) (simp_all add: channel_answer_def split: option.split)

lemma band_answer_causal: "idx < k \<Longrightarrow> band_answer (take_indicator k x) idx = band_answer x idx"
  by (cases x) (simp_all add: band_answer_def split: option.split)

lemmas answer_causal = single_answer_causal channel_answer_causal band_answer_causal

lemma lengths_aggregate:
  "length (ts_low (aggregate fl bars tf)) = length (ts_high (aggregate fl bars tf))"
  by (simp add: aggregate_def Let_def)

text \<open>Every query at bar \<open>t\<close> has the same answer on the dataset of the bars up to \<open>t\<close>.\<close>

lemma answer_seen:
  fixes es :: nat and sd ed :: int
  assumes "spaced bars" and "t < length bars" and "cx_dataset cx = dataset_of fl bars es sd ed" and "cx_t cx = t"
  defines "d \<equiv> seen_at fl bars t"
  shows "answer_query fl (dataset_indicator fl fsqrt (cx_dataset cx)) cx keys q =
    answer_query fl (dataset_indicator fl fsqrt d) (cx\<lparr>cx_dataset := d\<rparr>) keys q"
proof -
  have bar: "ctx_bar (cx\<lparr>cx_dataset := d\<rparr>) = ctx_bar cx"
    using assms by (simp add: ctx_bar_def d_def seen_at_def dataset_of_def Let_def)
  have idx: "resolve_index (cx\<lparr>cx_dataset := d\<rparr>) tf shift = resolve_index cx tf shift" for tf shift
    using assms completed_is_ended_count [OF assms(1,2)] ended_count_seen [OF assms(1,2)]
      completed_is_ended_count [OF spaced_take [OF assms(1)], of t "t + 1"]
    by (simp add: resolve_index_def d_def seen_at_def)
  have less: "i < ended_count bars t tf" if "resolve_index cx tf shift = Some i" for tf shift i
    using that completed_is_ended_count [OF assms(1,2)] assms(3,4)
    by (auto simp: resolve_index_def Let_def split: if_splits)
  have series: "take_series (ended_count bars t tf) (ds_series d tf) =
      take_series (ended_count bars t tf) (ds_series (cx_dataset cx) tf)" for tf
    using series_seen [OF assms(1,2)] by (simp add: assms(3) d_def seen_at_def dataset_of_def Let_def)
  have indicator: "with_indicator (dataset_indicator fl fsqrt (cx_dataset cx)) cx keys ck shift answer =
      with_indicator (dataset_indicator fl fsqrt d) (cx\<lparr>cx_dataset := d\<rparr>) keys ck shift answer"
    if causal_answer: "\<And>k x i. i < k \<Longrightarrow> answer (take_indicator k x) i = answer x i" for keys ck shift answer
  proof -
    have "answer (compute fl fsqrt (ds_series (cx_dataset cx) (ik_tf key)) key) i =
        answer (compute fl fsqrt (ds_series d (ik_tf key)) key) i"
      if "resolve_index cx (ik_tf key) sh = Some i" for key sh i
    proof -
      let ?c = "ended_count bars t (ik_tf key)"
      have "answer (take_indicator ?c (compute fl fsqrt (ds_series (cx_dataset cx) (ik_tf key)) key)) i =
          answer (take_indicator ?c (compute fl fsqrt (ds_series d (ik_tf key)) key)) i"
        using compute_causal [of "ds_series d (ik_tf key)" fl fsqrt ?c key]
          compute_causal [of "ds_series (cx_dataset cx) (ik_tf key)" fl fsqrt ?c key] series
        by (simp add: assms(3) d_def seen_at_def dataset_of_def Let_def lengths_aggregate)
      then show ?thesis using causal_answer [OF less [OF that]] by simp
    qed
    then show ?thesis
      by (simp add: with_indicator_def idx dataset_indicator_def split: sum.splits option.splits)
  qed
  have fields: "ts_open (ds_series d tf) ! i = ts_open (ds_series (cx_dataset cx) tf) ! i"
      "ts_high (ds_series d tf) ! i = ts_high (ds_series (cx_dataset cx) tf) ! i"
      "ts_low (ds_series d tf) ! i = ts_low (ds_series (cx_dataset cx) tf) ! i"
      "ts_close (ds_series d tf) ! i = ts_close (ds_series (cx_dataset cx) tf) ! i"
    if "resolve_index cx tf sh = Some i" for tf sh i
    using series [of tf] less [OF that] by (simp_all add: take_series_def) (metis nth_take)+
  have ohlc: "ohlc (cx\<lparr>cx_dataset := d\<rparr>) tf sh f = ohlc cx tf sh f" for tf sh f
    using fields by (simp add: ohlc_def idx bindS_def Let_def split: sum.splits option.splits ohlc_field.splits)
  show ?thesis
    by (cases q) (simp_all add: answer_query_def scalar_query_def single_indicator_def channel_indicator_def
        band_indicator_def indicator answer_causal bar ohlc unrealized_pips_def spread_pips_def ctx_end_time_def
        ctx_hour_def ctx_weekday_def)
qed

end
