(* ===== verification/Sim_Backtest.thy ===== *)
theory Sim_Backtest
  imports Sim_Causal "HOL-Library.Code_Target_Nat"
begin

text \<open>
  The simulation loop with scripts: what it decides up to a bar depends on the bars up to it only,
  and what the closed trades and the held positions have to do with each other.
\<close>

section \<open>Scripts\<close>

lemma run_tree_seen:
  assumes "spaced bars" and "t < length bars" and "cx_dataset cx = dataset_of fl bars es sd ed" and "cx_t cx = t"
  shows "run_tree tree fl (dataset_indicator fl fsqrt (cx_dataset cx)) cx keys r =
    run_tree tree fl (dataset_indicator fl fsqrt (seen_at fl bars t)) (cx\<lparr>cx_dataset := seen_at fl bars t\<rparr>) keys r"
proof (induction tree arbitrary: keys r)
  case (Progress ops pos k)
  then show ?case by (simp split: prod.splits option.splits)
next
  case (Query q k)
  then show ?case using answer_seen [OF assms] by (simp split: prod.splits)
qed simp

lemma script_decider_seen:
  assumes "spaced bars" and "bs_t state < length bars"
  shows "script_decider fl (dataset_indicator fl fsqrt (dataset_of fl bars es sd ed)) (dataset_of fl bars es sd ed) cfg on_bar state run =
    script_decider fl (dataset_indicator fl fsqrt (seen_at fl bars (bs_t state))) (seen_at fl bars (bs_t state)) cfg on_bar state run"
proof -
  let ?cx = "\<lparr>cx_dataset = dataset_of fl bars es sd ed, cx_t = bs_t state, cx_position = bs_position state,
    cx_entry_price_milli = bs_entry_price_milli state, cx_bars_held = bs_bars_held state\<rparr>"
  show ?thesis
    using run_tree_seen [OF assms, where tree = "on_bar (sr_this run)" and cx = ?cx and fl = fl and fsqrt = fsqrt
        and es = es and sd = sd and ed = ed]
    by (simp add: script_decider_def Let_def)
qed

section \<open>The loop\<close>

fun loop_trades :: "loop_end \<Rightarrow> sim_trade list option" where
  "loop_trades (RanThrough s) = Some (sm_trades s)"
| "loop_trades (Stopped _ _ trades) = Some trades"
| "loop_trades (Aborted _) = None"

lemma step_bar_trades:
  "\<exists>new. sm_trades (step_bar so pending t b s) = sm_trades s @ new \<and> (\<forall>x \<in> set new. st_exit_idx x = t)"
proof -
  have stop: "\<exists>new. sm_trades (apply_protective_stop so t b s) = sm_trades s @ new \<and> (\<forall>x \<in> set new. st_exit_idx x = t)" for s
    by (auto simp: apply_protective_stop_def Let_def closed_trade_def)
  have sig: "\<exists>new. sm_trades (apply_signal_pending_from_previous_bar g t b s) = sm_trades s @ new
      \<and> (\<forall>x \<in> set new. st_exit_idx x = t)" for g
    by (auto simp: apply_signal_pending_from_previous_bar_def Let_def closed_trade_def)
  show ?thesis
  proof (cases pending)
    case (Some g)
    obtain new where 1: "sm_trades (apply_signal_pending_from_previous_bar g t b s) = sm_trades s @ new"
      "\<forall>x \<in> set new. st_exit_idx x = t" using sig by blast
    obtain new' where 2: "sm_trades (apply_protective_stop so t b (apply_signal_pending_from_previous_bar g t b s)) =
        sm_trades (apply_signal_pending_from_previous_bar g t b s) @ new'" "\<forall>x \<in> set new'. st_exit_idx x = t"
      using stop by blast
    show ?thesis using 1 2 by (auto simp: step_bar_def Some intro!: exI [of _ "new @ new'"])
  qed (simp add: step_bar_def stop)
qed

lemma loop_trades_grow:
  "sim_loop so n offset dec t bars pend s d = (e, ps) \<Longrightarrow> loop_trades e = Some trades \<Longrightarrow>
    \<exists>new. trades = sm_trades s @ new \<and> (\<forall>x \<in> set new. t \<le> st_exit_idx x)"
proof (induction bars arbitrary: t pend s d e ps)
  case (Cons b bars)
  let ?s = "step_bar so pend t b s"
  obtain new where new: "sm_trades ?s = sm_trades s @ new" "\<forall>x \<in> set new. st_exit_idx x = t"
    using step_bar_trades by blast
  obtain answer d' where dec: "dec (build_bar_state offset t ?s) d = (answer, d')" by fastforce
  show ?case
  proof (cases "\<exists>g. answer = Inr g \<and> -1 \<le> g \<and> g \<le> 1")
    case True
    then obtain g where g: "answer = Inr g" "-1 \<le> g" "g \<le> 1" by blast
    obtain e' ps' where rest: "sim_loop so n offset dec (t + 1) bars (if t + 1 < n then Some g else None) ?s d' = (e', ps')"
      by fastforce
    then have "e' = e" using Cons.prems(1) dec g by (simp add: Let_def)
    with Cons.IH [OF rest] Cons.prems(2) obtain new' where "trades = sm_trades ?s @ new'"
      "\<forall>x \<in> set new'. t + 1 \<le> st_exit_idx x" by blast
    then show ?thesis using new by (intro exI [of _ "new @ new'"]) auto
  next
    case False
    then have "trades = sm_trades ?s"
      using Cons.prems dec by (auto simp: Let_def split: sum.splits decider_error.splits)
    then show ?thesis using new by (intro exI [of _ new]) auto
  qed
qed auto

text \<open>Two runs over bars with a common beginning, with deciders that agree on it.\<close>

lemma sim_loop_prefix:
  assumes "\<And>state d. offset + t \<le> bs_t state \<Longrightarrow> bs_t state < offset + t + length xs \<Longrightarrow> dec1 state d = dec2 state d"
    and "xs \<noteq> [] \<Longrightarrow> pend1 = pend2"
    and "n1 = t + length xs + length ys1" and "n2 = t + length xs + length ys2"
    and "sim_loop so n1 offset dec1 t (xs @ ys1) pend1 s d = (e1, ps1)"
    and "sim_loop so n2 offset dec2 t (xs @ ys2) pend2 s d = (e2, ps2)"
    and "\<forall>x \<in> set (sm_trades s). st_exit_idx x < t + length xs"
  shows "take (length xs) ps1 = take (length xs) ps2
    \<and> (\<forall>t1 t2. loop_trades e1 = Some t1 \<longrightarrow> loop_trades e2 = Some t2 \<longrightarrow>
        filter (\<lambda>x. st_exit_idx x < t + length xs) t1 = filter (\<lambda>x. st_exit_idx x < t + length xs) t2)"
  using assms
proof (induction xs arbitrary: t pend1 pend2 s d e1 e2 ps1 ps2)
  case Nil
  have "filter (\<lambda>x. st_exit_idx x < t) tr = sm_trades s"
    if grow: "\<exists>new. tr = sm_trades s @ new \<and> (\<forall>x \<in> set new. t \<le> st_exit_idx x)" for tr
    using grow Nil.prems(7) by (fastforce simp: filter_id_conv filter_empty_conv)
  with loop_trades_grow [OF Nil.prems(5)] loop_trades_grow [OF Nil.prems(6)] show ?case by simp
next
  case (Cons b xs)
  let ?s = "step_bar so pend1 t b s"
  have pend: "pend2 = pend1" using Cons.prems(2) by simp
  obtain answer d' where dec1: "dec1 (build_bar_state offset t ?s) d = (answer, d')" by fastforce
  then have dec2: "dec2 (build_bar_state offset t ?s) d = (answer, d')"
    using Cons.prems(1) [of "build_bar_state offset t ?s" d] by (simp add: build_bar_state_def)
  have old: "\<forall>x \<in> set (sm_trades ?s). st_exit_idx x < t + length (b # xs)"
    using step_bar_trades [of so pend1 t b s] Cons.prems(7) by auto
  show ?case
  proof (cases "\<exists>g. answer = Inr g \<and> -1 \<le> g \<and> g \<le> 1")
    case True
    then obtain g where g: "answer = Inr g" "-1 \<le> g" "g \<le> 1" by blast
    let ?p = "\<lambda>n. if t + 1 < n then Some g else None"
    obtain e1' ps1' where r1: "sim_loop so n1 offset dec1 (t + 1) (xs @ ys1) (?p n1) ?s d' = (e1', ps1')" by fastforce
    obtain e2' ps2' where r2: "sim_loop so n2 offset dec2 (t + 1) (xs @ ys2) (?p n2) ?s d' = (e2', ps2')" by fastforce
    have "e1 = e1'" "ps1 = sm_position ?s # ps1'" "e2 = e2'" "ps2 = sm_position ?s # ps2'"
      using Cons.prems(5,6) dec1 dec2 g r1 r2 pend by (simp_all add: Let_def)
    moreover have "xs \<noteq> [] \<Longrightarrow> ?p n1 = ?p n2" using Cons.prems(3,4) by (cases xs) auto
    ultimately show ?thesis
      using Cons.IH [of "t + 1" "?p n1" "?p n2" ?s d' e1' ps1' e2' ps2'] r1 r2 Cons.prems(1,3,4) old by simp
  next
    case False
    then have "e1 = e2 \<and> ps1 = ps2"
      using Cons.prems(5,6) dec1 dec2 pend by (auto simp: Let_def split: sum.splits decider_error.splits)
    then show ?thesis by auto
  qed
qed

lemma take_agree: "take k xs = take k ys \<Longrightarrow> j \<le> k \<Longrightarrow> take j xs = take j ys"
  by (metis min.absorb1 take_take)

lemma script_decider_agree:
  assumes "spaced bars1" and "spaced bars2" and "bs_t state < length bars1" and "bs_t state < length bars2"
    and "take (bs_t state + 1) bars1 = take (bs_t state + 1) bars2"
  shows "script_decider fl (dataset_indicator fl fsqrt (dataset_of fl bars1 e1 s1 d1)) (dataset_of fl bars1 e1 s1 d1) cfg on_bar state =
    script_decider fl (dataset_indicator fl fsqrt (dataset_of fl bars2 e2 s2 d2)) (dataset_of fl bars2 e2 s2 d2) cfg on_bar state"
proof
  fix run
  show "script_decider fl (dataset_indicator fl fsqrt (dataset_of fl bars1 e1 s1 d1)) (dataset_of fl bars1 e1 s1 d1) cfg on_bar state run =
    script_decider fl (dataset_indicator fl fsqrt (dataset_of fl bars2 e2 s2 d2)) (dataset_of fl bars2 e2 s2 d2) cfg on_bar state run"
    unfolding script_decider_seen [OF assms(1,3)] script_decider_seen [OF assms(2,4)]
    by (simp only: seen_at_def assms(5))
qed

section \<open>The dataset of a period\<close>

text \<open>The bars of a dataset whose period goes beyond \<open>T\<close>: those before \<open>T\<close>, and later ones.\<close>

lemma dataset_new_bars:
  assumes "dataset_new fl all from_ts to_ts warmup = Inr d" and "spaced all" and "from_ts \<le> T" and "T \<le> to_ts"
  obtains later sd ed where
    "d = dataset_of fl (drop (opened_before all from_ts - warmup) (takeWhile (\<lambda>b. br_open_time b < T) all) @ later) warmup sd ed"
    "\<forall>b \<in> set later. T \<le> br_open_time b"
    "warmup \<le> opened_before all from_ts"
    "opened_before all from_ts \<le> length (takeWhile (\<lambda>b. br_open_time b < T) all)"
    "spaced (drop (opened_before all from_ts - warmup) (takeWhile (\<lambda>b. br_open_time b < T) all) @ later)"
proof -
  let ?e = "opened_before all from_ts" and ?P = "takeWhile (\<lambda>b. br_open_time b < T) all"
  let ?to = "opened_before all to_ts"
  obtain sd ed where warm: "warmup \<le> ?e"
    and d: "d = dataset_of fl (drop (?e - warmup) (take ?to all)) warmup sd ed"
    using assms(1) by (auto simp: dataset_new_def bindS_eq_Inr Let_def not_less)
  have e: "?e \<le> length ?P"
    using takeWhile_more [of "\<lambda>b. br_open_time b < from_ts" "\<lambda>b. br_open_time b < T" all] assms(3)
    by (metis le_add1 length_append opened_before_def order_less_le_trans)
  have "take ?to all = takeWhile (\<lambda>b. br_open_time b < to_ts) all"
    by (simp add: opened_before_def take_length_takeWhile)
  also have "\<dots> = ?P @ takeWhile (\<lambda>b. br_open_time b < to_ts) (drop (length ?P) all)"
    using assms(4) by (intro takeWhile_more) simp
  finally have split: "take ?to all = ?P @ takeWhile (\<lambda>b. br_open_time b < to_ts) (dropWhile (\<lambda>b. br_open_time b < T) all)"
    by (simp add: dropWhile_eq_drop)
  let ?later = "takeWhile (\<lambda>b. br_open_time b < to_ts) (dropWhile (\<lambda>b. br_open_time b < T) all)"
  have "T \<le> br_open_time b" if "b \<in> set (dropWhile (\<lambda>b. br_open_time b < T) all)" for b
    using that spaced_sorted [OF assms(2)]
    by (induction all) (auto split: if_splits)
  then have later: "\<forall>b \<in> set ?later. T \<le> br_open_time b" using set_takeWhileD by fast
  have bars: "drop (?e - warmup) (take ?to all) = drop (?e - warmup) ?P @ ?later"
    using e unfolding split by simp
  have "spaced (drop (?e - warmup) (take ?to all))"
    using assms(2) by (simp add: spaced_def sorted_wrt_take sorted_wrt_drop)
  then show thesis using that [of ?later sd ed] d later warm e unfolding bars by blast
qed

section \<open>No look-ahead\<close>

definition run_backtest ::
  "float_rounding \<Rightarrow> (f64 \<Rightarrow> f64) \<Rightarrow> dataset \<Rightarrow> sim_config \<Rightarrow> ('this \<Rightarrow> 'this script_tree) \<Rightarrow> 'this \<Rightarrow> sim_outcome sim_result" where
  "run_backtest fl fsqrt d cfg on_bar this =
     simulate d (script_decider fl (dataset_indicator fl fsqrt d) d cfg on_bar) (script_run_new this) cfg"

text \<open>The trades that a run closed by a signal or a stop before evaluation bar \<open>k\<close>.\<close>

definition closed_before :: "nat \<Rightarrow> sim_trade list \<Rightarrow> sim_trade list" where
  "closed_before k trades = filter (\<lambda>x. st_exit_idx x < k \<and> st_reason x \<noteq> EndOfData) trades"

lemma simulate_Inr:
  assumes "simulate d dec s cfg = Inr out"
  obtains e where
    "sim_loop (stop_offset_of cfg) (length (eval_bars d)) (ds_eval_start d) dec 0 (eval_bars d) None initial_state s = (e, so_positions out)"
    "\<exists>tr. loop_trades e = Some tr \<and> closed_before k (so_trades out) = closed_before k tr"
proof -
  obtain e ps where run: "sim_loop (stop_offset_of cfg) (length (eval_bars d)) (ds_eval_start d) dec 0
      (eval_bars d) None initial_state s = (e, ps)" by fastforce
  then have "ps = so_positions out \<and> (\<exists>tr. loop_trades e = Some tr \<and> closed_before k (so_trades out) = closed_before k tr)"
    using assms
    by (cases e) (auto simp: simulate_def Let_def close_at_period_end_def closed_before_def closed_trade_def)
  then show thesis using that run by blast
qed

text \<open>
  C39. A backtest never looks ahead. Take two price histories with five-minute bars that agree before
  the time \<open>T\<close>, the period of each going beyond it. Whatever script is run, with whatever indicators
  and timeframes it asks for, the two runs hold the same positions at every evaluation bar that
  opens before \<open>T\<close>, and close the same trades there.
\<close>

theorem backtest_never_looks_ahead:
  assumes "spaced all1" and "spaced all2"
    and "takeWhile (\<lambda>b. br_open_time b < T) all1 = takeWhile (\<lambda>b. br_open_time b < T) all2"
    and "dataset_new fl all1 from_ts to1 warmup = Inr d1" and "dataset_new fl all2 from_ts to2 warmup = Inr d2"
    and "from_ts \<le> T" and "T \<le> to1" and "T \<le> to2"
    and "run_backtest fl fsqrt d1 cfg on_bar this = Inr out1"
    and "run_backtest fl fsqrt d2 cfg on_bar this = Inr out2"
  shows "take (opened_before (eval_bars d1) T) (so_positions out1) =
      take (opened_before (eval_bars d1) T) (so_positions out2)
    \<and> closed_before (opened_before (eval_bars d1) T) (so_trades out1) =
      closed_before (opened_before (eval_bars d1) T) (so_trades out2)"
proof -
  let ?P = "takeWhile (\<lambda>b. br_open_time b < T) all1"
  have same: "opened_before all2 from_ts = opened_before all1 from_ts"
  proof -
    have "takeWhile (\<lambda>b. br_open_time b < from_ts) all = takeWhile (\<lambda>b. br_open_time b < from_ts) (takeWhile (\<lambda>b. br_open_time b < T) all)" for all
      using assms(6) by (induction all) auto
    then show ?thesis using assms(3) unfolding opened_before_def by metis
  qed
  obtain l1 s1 e1 l2 s2 e2 where d1: "d1 = dataset_of fl (drop (opened_before all1 from_ts - warmup) ?P @ l1) warmup s1 e1"
    and d2: "d2 = dataset_of fl (drop (opened_before all1 from_ts - warmup) ?P @ l2) warmup s2 e2"
    and l1: "\<forall>b \<in> set l1. T \<le> br_open_time b"
    and w: "warmup \<le> opened_before all1 from_ts" "opened_before all1 from_ts \<le> length ?P"
    and sp: "spaced (drop (opened_before all1 from_ts - warmup) ?P @ l1)" "spaced (drop (opened_before all1 from_ts - warmup) ?P @ l2)"
    using dataset_new_bars [OF assms(4,1,6,7)] dataset_new_bars [OF assms(5,2,6,8)] same assms(3) by metis
  define B where "B = drop (opened_before all1 from_ts - warmup) ?P"
  have wB: "warmup \<le> length B" using w by (simp add: B_def)
  have ev: "eval_bars d1 = drop warmup B @ l1" "eval_bars d2 = drop warmup B @ l2"
      "ds_eval_start d1 = warmup" "ds_eval_start d2 = warmup"
    using wB by (simp_all add: d1 d2 eval_bars_def dataset_of_def Let_def B_def [symmetric])
  have "\<forall>b \<in> set (drop warmup B). br_open_time b < T" unfolding B_def by (meson in_set_dropD set_takeWhileD)
  moreover have "takeWhile (\<lambda>b. br_open_time b < T) l1 = []" using l1 by (cases l1) auto
  ultimately have k: "opened_before (eval_bars d1) T = length (drop warmup B)"
    unfolding ev opened_before_def by (simp add: takeWhile_append)
  obtain x1 where x1: "sim_loop (stop_offset_of cfg) (length (eval_bars d1)) warmup
      (script_decider fl (dataset_indicator fl fsqrt d1) d1 cfg on_bar) 0 (drop warmup B @ l1) None initial_state
      (script_run_new this) = (x1, so_positions out1)"
    and t1: "\<exists>tr. loop_trades x1 = Some tr \<and> closed_before (length (drop warmup B)) (so_trades out1) = closed_before (length (drop warmup B)) tr"
    using simulate_Inr [OF assms(9) [unfolded run_backtest_def], of "length (drop warmup B)"] ev by metis
  obtain x2 where x2: "sim_loop (stop_offset_of cfg) (length (eval_bars d2)) warmup
      (script_decider fl (dataset_indicator fl fsqrt d2) d2 cfg on_bar) 0 (drop warmup B @ l2) None initial_state
      (script_run_new this) = (x2, so_positions out2)"
    and t2: "\<exists>tr. loop_trades x2 = Some tr \<and> closed_before (length (drop warmup B)) (so_trades out2) = closed_before (length (drop warmup B)) tr"
    using simulate_Inr [OF assms(10) [unfolded run_backtest_def], of "length (drop warmup B)"] ev by metis
  have agree: "script_decider fl (dataset_indicator fl fsqrt d1) d1 cfg on_bar state s =
      script_decider fl (dataset_indicator fl fsqrt d2) d2 cfg on_bar state s"
    if "bs_t state < warmup + length (drop warmup B)" for state s
    using script_decider_agree [of "B @ l1" "B @ l2" state fl fsqrt warmup s1 e1 cfg on_bar warmup s2 e2] that wB sp
    unfolding d1 d2 B_def [symmetric] by simp
  have "take (length (drop warmup B)) (so_positions out1) = take (length (drop warmup B)) (so_positions out2)
    \<and> (\<forall>t1 t2. loop_trades x1 = Some t1 \<longrightarrow> loop_trades x2 = Some t2 \<longrightarrow>
        filter (\<lambda>x. st_exit_idx x < 0 + length (drop warmup B)) t1 = filter (\<lambda>x. st_exit_idx x < 0 + length (drop warmup B)) t2)"
    using x1 x2 agree
    by (intro sim_loop_prefix [where offset = warmup and t = 0 and ?ys1.0 = l1 and ?ys2.0 = l2]) (auto simp: ev initial_state_def)
  then show ?thesis using t1 t2 unfolding k closed_before_def by (auto simp: filter_filter [symmetric] simp del: filter_filter)
qed

text \<open>Two futures after the same three bars: the price goes on, or falls through the stop.\<close>

definition flat_bar :: "int \<Rightarrow> int \<Rightarrow> bar" where
  "flat_bar t p = \<lparr>br_open_time = t, br_bid_open = p - 1, br_bid_high = p - 1, br_bid_low = p - 1, br_bid_close = p - 1,
     br_ask_open = p + 1, br_ask_high = p + 1, br_ask_low = p + 1, br_ask_close = p + 1\<rparr>"

definition demo_history :: "int \<Rightarrow> bar list" where
  "demo_history p = [flat_bar 0 1000, flat_bar 300 1010, flat_bar 600 1020, flat_bar 900 p]"

definition demo_dataset :: "int \<Rightarrow> dataset" where
  "demo_dataset p = dataset_of id (demo_history p) 1 0 0"

text \<open>A script that is long while the last close is above half a yen, and short otherwise.\<close>

definition demo_script :: "unit \<Rightarrow> unit script_tree" where
  "demo_script = (\<lambda>_. Query (QOhlc CloseField ''M5'' 0) (\<lambda>a. Finish (Inr (DInt
     (case a of Inr (DFloat v) \<Rightarrow> if v > 1 / 2 then 1 else -1 | _ \<Rightarrow> 0))) ()))"

definition demo_sim_config :: sim_config where
  "demo_sim_config = sim_config_default\<lparr>sc_protective_stop_pips := 10\<rparr>"

definition demo_outcome :: "int \<Rightarrow> sim_exit_reason \<Rightarrow> int \<Rightarrow> sim_outcome" where
  "demo_outcome exit_milli reason final_position = \<lparr>so_status = RunOk,
     so_trades = [closed_trade 1 1 2 1021 exit_milli reason], so_positions = [0, 1, final_position]\<rparr>"

lemma demo_dataset_new: "dataset_new id (demo_history p) 300 1200 1 = Inr (demo_dataset p)"
  by (simp add: dataset_new_def epoch_secs_to_date_def representable_ts_def guardS_def opened_before_def
      demo_history_def demo_dataset_def flat_bar_def SECS_PER_DAY_def Let_def)

lemma demo_spaced: "spaced (demo_history p)"
  by (simp add: spaced_def demo_history_def flat_bar_def M5_SECS_def)

lemma demo_runs:
  "run_backtest id id (demo_dataset 1030) demo_sim_config demo_script () = Inr (demo_outcome 1029 EndOfData 1)"
  "run_backtest id id (demo_dataset 900) demo_sim_config demo_script () = Inr (demo_outcome 899 ProtectiveStopExit 0)"
  by code_simp+

theorem backtest_never_looks_ahead_witness:
  "take (opened_before (eval_bars (demo_dataset 1030)) 900) (so_positions (demo_outcome 1029 EndOfData 1)) =
     take (opened_before (eval_bars (demo_dataset 1030)) 900) (so_positions (demo_outcome 899 ProtectiveStopExit 0))
   \<and> opened_before (eval_bars (demo_dataset 1030)) 900 = 2
   \<and> so_positions (demo_outcome 1029 EndOfData 1) \<noteq> so_positions (demo_outcome 899 ProtectiveStopExit 0)"
proof (intro conjI)
  have "takeWhile (\<lambda>b. br_open_time b < 900) (demo_history 1030) = takeWhile (\<lambda>b. br_open_time b < 900) (demo_history 900)"
    by (simp add: demo_history_def flat_bar_def)
  from backtest_never_looks_ahead [OF demo_spaced demo_spaced this demo_dataset_new demo_dataset_new _ _ _ demo_runs]
  show "take (opened_before (eval_bars (demo_dataset 1030)) 900) (so_positions (demo_outcome 1029 EndOfData 1)) =
      take (opened_before (eval_bars (demo_dataset 1030)) 900) (so_positions (demo_outcome 899 ProtectiveStopExit 0))"
    by simp
  show "opened_before (eval_bars (demo_dataset 1030)) 900 = 2" by code_simp
  show "so_positions (demo_outcome 1029 EndOfData 1) \<noteq> so_positions (demo_outcome 899 ProtectiveStopExit 0)"
    by (simp add: demo_outcome_def)
qed

end
