(* ===== verification/Startup_Reconcile.thy ===== *)
theory Startup_Reconcile
  imports Margin_Monitor
begin

text \<open>
  The reconciliation of the live accounts with their exchanges before the tasks start
  (\<open>app/src/startup_reconcile.rs\<close>). The positions of the pairs are fetched one after the other
  here; the code starts the fetches together. \<open>hm_pairs\<close> and \<open>hm_groups\<close> are the orders in
  which its hash set of pairs and its hash map of groups are iterated. Log lines are not
  modelled; error values carry the fixed part of the message.
\<close>

record hash_orders =
  hm_pairs :: "pair list \<Rightarrow> pair list"
  hm_groups :: "(pair \<times> direction) list \<Rightarrow> (pair \<times> direction) list"

section \<open>Positions of the exchange\<close>

text \<open>\<open>remaining\<close> is the number of attempts left after the current one.\<close>

fun positions_attempts ::
  "nat \<Rightarrow> int \<Rightarrow> 'x environment \<Rightarrow> 'x exchange_api \<Rightarrow> pair \<Rightarrow> ('x, exchange_position list) io" where
  "positions_attempts remaining delay env api pair =
     bindE (attempt (call env (\<lambda>_. ReadPositions pair) (api_get_positions api pair))) (\<lambda>r.
     case r of
       Inr ps \<Rightarrow> returnE ps
     | Inl e \<Rightarrow>
         (case remaining of
            0 \<Rightarrow> failE (Anyhow e)
          | Suc n \<Rightarrow> bindE (sleep env delay) (\<lambda>_. positions_attempts n (delay * 2) env api pair)))"

definition get_positions_with_retry ::
  "'x environment \<Rightarrow> 'x exchange_api \<Rightarrow> pair \<Rightarrow> ('x, exchange_position list) io" where
  "get_positions_with_retry = positions_attempts 2 (secs 2)"

definition collect_distinct_pairs :: "hash_orders \<Rightarrow> trade list \<Rightarrow> pair list" where
  "collect_distinct_pairs ho db_trades = hm_pairs ho (remdups (map t_pair db_trades))"

definition fetch_exchange_positions ::
  "'x environment \<Rightarrow> 'x exchange_api \<Rightarrow> pair list \<Rightarrow> ('x, pair \<rightharpoonup> exchange_position list) io" where
  "fetch_exchange_positions env api pairs =
     foldE (\<lambda>m pair.
       bindE (attempt (get_positions_with_retry env api pair)) (\<lambda>r.
       case r of
         Inr ps \<Rightarrow> returnE (m(pair \<mapsto> ps))
       | Inl e \<Rightarrow> failE (Anyhow ''failed to get_positions: retries exhausted''))) Map.empty pairs"

definition matches_direction :: "string \<Rightarrow> direction \<Rightarrow> bool option" where
  "matches_direction sd direction =
     (let u = to_ascii_uppercase (trim sd) in
      if u = ''BUY'' then Some (direction = Long)
      else if u = ''SELL'' then Some (direction = Short) else None)"

definition add_matching :: "rounding \<Rightarrow> direction \<Rightarrow> decimal \<times> bool \<Rightarrow> exchange_position \<Rightarrow> decimal \<times> bool" where
  "add_matching rnd direction = (\<lambda>(matching_size, conflicting) p.
     if xp_size p \<le> 0 then (matching_size, conflicting)
     else case matches_direction (xp_side p) direction of
       Some True \<Rightarrow> (dadd rnd matching_size (xp_size p), conflicting)
     | Some False \<Rightarrow> (matching_size, True)
     | None \<Rightarrow> (matching_size, True))"

definition sum_matching_exchange_size ::
  "rounding \<Rightarrow> exchange_position list \<Rightarrow> direction \<Rightarrow> decimal \<times> bool" where
  "sum_matching_exchange_size rnd pair_positions direction =
     foldl (add_matching rnd direction) (0, False) pair_positions"

definition reject_aggregate_mismatch :: "decimal \<Rightarrow> decimal \<Rightarrow> bool \<Rightarrow> unit result" where
  "reject_aggregate_mismatch db_total_qty matching_exchange_size exchange_has_conflicting =
     (if exchange_has_conflicting
      then Inl (Anyhow ''failed to reconcile: conflicting exchange position; manual intervention required'')
      else if matching_exchange_size > 0 \<and> matching_exchange_size \<noteq> db_total_qty
      then Inl (Anyhow ''failed to reconcile: size mismatch; manual intervention required'')
      else Inr ())"

section \<open>Groups of trades\<close>

type_synonym trade_groups = "pair \<times> direction \<rightharpoonup> decimal \<times> trade list"

definition push_group :: "rounding \<Rightarrow> trade_groups \<Rightarrow> trade \<Rightarrow> trade_groups" where
  "push_group rnd m t =
     (let key = (t_pair t, t_direction t);
          (total, ts) = (case m key of None \<Rightarrow> (0, []) | Some g \<Rightarrow> g)
      in m(key \<mapsto> (dadd rnd total (t_quantity t), ts @ [t])))"

definition group_trades_for_aggregate_comparison :: "rounding \<Rightarrow> trade list \<Rightarrow> trade_groups" where
  "group_trades_for_aggregate_comparison rnd db_trades = foldl (push_group rnd) Map.empty db_trades"

text \<open>The entries of the map in its iteration order.\<close>

definition group_entries ::
  "rounding \<Rightarrow> hash_orders \<Rightarrow> trade list \<Rightarrow> ((pair \<times> direction) \<times> decimal \<times> trade list) list" where
  "group_entries rnd ho db_trades =
     (let m = group_trades_for_aggregate_comparison rnd db_trades in
      concat (map (\<lambda>key. case m key of None \<Rightarrow> [] | Some g \<Rightarrow> [(key, g)])
        (hm_groups ho (remdups (map (\<lambda>t. (t_pair t, t_direction t)) db_trades)))))"

section \<open>One trade\<close>

definition reconciled_pnl :: "rounding \<Rightarrow> trade \<Rightarrow> decimal \<Rightarrow> decimal" where
  "reconciled_pnl rnd t exit_price = trunc (case t_direction t of
       Long \<Rightarrow> dmul rnd (dsub rnd exit_price (t_entry_price t)) (t_quantity t)
     | Short \<Rightarrow> dmul rnd (dsub rnd (t_entry_price t) exit_price) (t_quantity t))"

text \<open>The day number of an instant.\<close>

definition day_of :: "datetime \<Rightarrow> int" where "day_of t = t div hours 24"

definition account_type_of :: "uuid \<Rightarrow> string option db_prog" where
  "account_type_of aid = stmt (askW (\<lambda>db. map_option a_account_type (find_account aid db)))"

definition backfill_daily_summary_for_reconciled_close ::
  "'x environment \<Rightarrow> trade \<Rightarrow> decimal \<Rightarrow> ('x, unit) io" where
  "backfill_daily_summary_for_reconciled_close env t pnl =
     bindE (utc_now env) (\<lambda>now.
     let exit_date = day_of now; win = (if pnl > 0 then 1 else 0) in
     bindE (dbE env (account_type_of (t_account_id t))) (\<lambda>ty.
     let account_type = unwrap_or ty ''paper'' in
     bindE (attempt (dbE env (upsert_daily_summary exit_date (t_strategy_name t) (t_pair t) account_type
       (exchange_as_str (t_exchange t)) (Some (t_account_id t)) 1 win pnl))) (\<lambda>_.
     returnE ())))"

definition close_reconciled_with ::
  "rounding \<Rightarrow> 'x environment \<Rightarrow> trade \<Rightarrow> decimal \<Rightarrow> exit_reason \<Rightarrow> decimal \<Rightarrow> ('x, unit) io" where
  "close_reconciled_with rnd env t exit_price exit_reason extra_fees =
     (let pnl = reconciled_pnl rnd t exit_price in
      bindE (if extra_fees \<noteq> 0 then dbE env (add_fees (t_id t) extra_fees) else returnE ()) (\<lambda>_.
      bindE (utc_now env) (\<lambda>exit_at.
      bindE (dbE env (close_trade_reconciled rnd exit_at (t_id t) exit_price pnl exit_reason)) (\<lambda>_.
      backfill_daily_summary_for_reconciled_close env t pnl))))"

definition best_effort_exit_price :: "rounding \<Rightarrow> 'x environment \<Rightarrow> trade \<Rightarrow> ('x, decimal) io" where
  "best_effort_exit_price rnd env t =
     bindE (askW (\<lambda>w. store_bid_ask (env_prices env (w_out w)) (feed_key_of t))) (\<lambda>q.
     case q of
       Some (bid, ask) \<Rightarrow> returnE (rnd (dadd rnd bid ask / 2))
     | None \<Rightarrow> returnE (t_entry_price t))"

definition force_close_at_best_effort_price :: "rounding \<Rightarrow> 'x environment \<Rightarrow> trade \<Rightarrow> ('x, unit) io" where
  "force_close_at_best_effort_price rnd env t =
     bindE (best_effort_exit_price rnd env t) (\<lambda>exit_price.
     close_reconciled_with rnd env t exit_price Reconciled 0)"

definition stop_status ::
  "'x environment \<Rightarrow> 'x exchange_api \<Rightarrow> trade \<Rightarrow> string \<Rightarrow> ('x, string + stop_order_status) io" where
  "stop_status env api t stop_id =
     attempt (call env (\<lambda>r. ReadStop (t_pair t) stop_id (ok_value r))
       (api_stop_order_status api (t_pair t) stop_id))"

definition stop_executed_fill ::
  "'x environment \<Rightarrow> 'x exchange_api \<Rightarrow> trade \<Rightarrow> ('x, (decimal \<times> decimal) option) io" where
  "stop_executed_fill env api t =
     (case t_stop_order_id t of
        None \<Rightarrow> returnE None
      | Some stop_id \<Rightarrow>
          bindE (stop_status env api t stop_id) (\<lambda>r.
          case r of
            Inr (StopExecuted price commission) \<Rightarrow> returnE (Some (price, commission))
          | _ \<Rightarrow> returnE None))"

definition stop_order_lost_event :: "trading_account \<Rightarrow> trade \<Rightarrow> notify_event" where
  "stop_order_lost_event account t =
     SystemAlert ''stop order lost'' (a_name account) (t_exchange t)
       ''trade has an open exchange position but its SL stop order is gone''"

text \<open>\<open>Notifier::send\<close>, awaited; a failure is only logged.\<close>

definition send_notification :: "'x environment \<Rightarrow> notify_event \<Rightarrow> ('x, unit) io" where
  "send_notification env ev = (\<lambda>w. (Inr (), let_tasks_run env (w\<lparr>w_notes := w_notes w @ [ev]\<rparr>)))"

definition alert_if_protective_stop_is_gone ::
  "'x environment \<Rightarrow> 'x exchange_api \<Rightarrow> trading_account \<Rightarrow> trade \<Rightarrow> string \<Rightarrow> ('x, unit) io" where
  "alert_if_protective_stop_is_gone env api account t stop_id =
     bindE (stop_status env api t stop_id) (\<lambda>r.
     case r of
       Inr StopGone \<Rightarrow> send_notification env (stop_order_lost_event account t)
     | _ \<Rightarrow> returnE ())"

definition reconcile_open_matching ::
  "'x environment \<Rightarrow> 'x exchange_api \<Rightarrow> trading_account \<Rightarrow> trade \<Rightarrow> ('x, unit) io" where
  "reconcile_open_matching env api account t =
     (case t_stop_order_id t of
        Some stop_id \<Rightarrow> alert_if_protective_stop_is_gone env api account t stop_id
      | None \<Rightarrow> returnE ())"

definition reconcile_open_orphan ::
  "rounding \<Rightarrow> 'x environment \<Rightarrow> 'x exchange_api \<Rightarrow> trade \<Rightarrow> ('x, unit) io" where
  "reconcile_open_orphan rnd env api t =
     bindE (stop_executed_fill env api t) (\<lambda>fill.
     case fill of
       Some (price, commission) \<Rightarrow> close_reconciled_with rnd env t price SlHit commission
     | None \<Rightarrow> force_close_at_best_effort_price rnd env t)"

definition reconcile_trade ::
  "rounding \<Rightarrow> 'x environment \<Rightarrow> 'x exchange_api \<Rightarrow> trading_account \<Rightarrow> bool \<Rightarrow> trade \<Rightarrow> ('x, unit) io" where
  "reconcile_trade rnd env api account exchange_has_matching t =
     (case (t_status t, exchange_has_matching) of
        (Open, True) \<Rightarrow> reconcile_open_matching env api account t
      | (Open, False) \<Rightarrow> reconcile_open_orphan rnd env api t
      | (Closing, True) \<Rightarrow> dbE env (release_close_lock (t_id t))
      | (Closing, False) \<Rightarrow> force_close_at_best_effort_price rnd env t
      | (Closed, _) \<Rightarrow> failE (Anyhow ''unsupported trade_status''))"

section \<open>Accounts\<close>

definition reconcile_group ::
  "rounding \<Rightarrow> 'x environment \<Rightarrow> 'x exchange_api \<Rightarrow> trading_account \<Rightarrow> (pair \<rightharpoonup> exchange_position list)
    \<Rightarrow> (pair \<times> direction) \<times> decimal \<times> trade list \<Rightarrow> ('x, unit) io" where
  "reconcile_group rnd env api account exchange_positions = (\<lambda>((pair, direction), db_total_qty, ts).
     let pair_positions = unwrap_or (exchange_positions pair) [];
         (matching_size, conflicting) = sum_matching_exchange_size rnd pair_positions direction in
     bindE (liftR (reject_aggregate_mismatch db_total_qty matching_size conflicting)) (\<lambda>_.
     forE ts (reconcile_trade rnd env api account (matching_size > 0))))"

definition reconcile_one_account ::
  "rounding \<Rightarrow> 'x environment \<Rightarrow> hash_orders \<Rightarrow> trading_account \<Rightarrow> 'x exchange_api \<Rightarrow> ('x, unit) io" where
  "reconcile_one_account rnd env ho account api =
     bindE (dbE env (list_open_or_closing_by_account (a_id account))) (\<lambda>db_trades.
     if db_trades = [] then returnE ()
     else
     bindE (fetch_exchange_positions env api (collect_distinct_pairs ho db_trades)) (\<lambda>exchange_positions.
     forE (group_entries rnd ho db_trades) (reconcile_group rnd env api account exchange_positions)))"

definition reconcile_live_accounts_at_startup ::
  "rounding \<Rightarrow> 'x environment \<Rightarrow> hash_orders \<Rightarrow> trading_account list \<Rightarrow> (exchange \<rightharpoonup> 'x exchange_api)
    \<Rightarrow> ('x, unit) io" where
  "reconcile_live_accounts_at_startup rnd env ho accs apis =
     forE (filter (\<lambda>a. a_account_type a = ''live'') accs) (\<lambda>account.
       bindE (attempt (liftR (exchange_from_str (a_exchange account)))) (\<lambda>r.
       case r of
         Inl _ \<Rightarrow> failE (Anyhow ''failed to parse exchange for live account'')
       | Inr exchange \<Rightarrow>
           (case apis exchange of
              None \<Rightarrow> failE (Anyhow ''failed to find a registered ExchangeApi for exchange'')
            | Some api \<Rightarrow> reconcile_one_account rnd env ho account api)))"

end
