(* ===== verification/Fee_Jobs.thy ===== *)
theory Fee_Jobs
  imports Margin_Monitor
begin

text \<open>
  The two jobs that charge fees to paper accounts: the hourly SFD accrual
  (\<open>app/src/runtime/sfd_accrual.rs\<close>) and the overnight fee or swap at every change of date
  (\<open>runtime/overnight.rs\<close>). Both are loops that never end: the model runs the first \<open>n\<close> rounds.
  Log lines are not modelled; a failure that the code only logs is a normal return here.
\<close>

section \<open>Hours\<close>

definition SFD_MAX_CATCH_UP_HOURS :: int where "SFD_MAX_CATCH_UP_HOURS = 24"
definition SFD_STALE_THRESHOLD_SECS :: int where "SFD_STALE_THRESHOLD_SECS = 300"

definition SFD_PAIR :: pair where "SFD_PAIR = ''FX_BTC_JPY''"
definition SPOT_PAIR :: pair where "SPOT_PAIR = ''BTC_JPY''"

text \<open>\<open>duration_trunc\<close> fails for a time whose nanoseconds do not fit an \<open>i64\<close>.\<close>

definition truncate_to_hour :: "datetime \<Rightarrow> datetime option" where
  "truncate_to_hour now =
     (if - (2 ^ 63) \<le> now \<and> now < 2 ^ 63 then Some (now - now mod hours 1) else None)"

definition clamp_catch_up :: "datetime \<Rightarrow> datetime \<Rightarrow> datetime \<times> int" where
  "clamp_catch_up lh current_hour =
     (let pending = num_hours (current_hour - lh) in
      if pending \<le> SFD_MAX_CATCH_UP_HOURS then (lh, pending)
      else (current_hour - hours SFD_MAX_CATCH_UP_HOURS, SFD_MAX_CATCH_UP_HOURS))"

definition has_paper_bitflyer_account :: "trading_account list \<Rightarrow> bool" where
  "has_paper_bitflyer_account accs \<longleftrightarrow> (\<exists>pac \<in> set accs.
     a_account_type pac = ''paper'' \<and> resolve_account_exchange pac = Some BitflyerCfd)"

section \<open>Prices\<close>

definition both_feeds_fresh :: "int option \<Rightarrow> int option \<Rightarrow> bool" where
  "both_feeds_fresh fx_age spot_age \<longleftrightarrow>
     (case fx_age of None \<Rightarrow> False | Some a \<Rightarrow> a \<le> SFD_STALE_THRESHOLD_SECS) \<and>
     (case spot_age of None \<Rightarrow> False | Some a \<Rightarrow> a \<le> SFD_STALE_THRESHOLD_SECS)"

definition mid_price :: "rounding \<Rightarrow> decimal \<Rightarrow> decimal \<Rightarrow> decimal" where
  "mid_price rnd bid ask = rnd (dadd rnd bid ask / 2)"

definition fetch_fresh_mid_prices :: "rounding \<Rightarrow> 'x environment \<Rightarrow> ('x, (decimal \<times> decimal) option) io" where
  "fetch_fresh_mid_prices rnd env =
     (let fx_key = \<lparr>fk_exchange = BitflyerCfd, fk_pair = SFD_PAIR\<rparr>;
          spot_key = \<lparr>fk_exchange = BitflyerCfd, fk_pair = SPOT_PAIR\<rparr>;
          age = (\<lambda>key w. last_tick_age_for (env_utc_now env (w_out w)) (env_prices env (w_out w)) key);
          quote = (\<lambda>key w. store_bid_ask (env_prices env (w_out w)) key) in
      bindE (askW (age fx_key)) (\<lambda>fx_age.
      bindE (askW (age spot_key)) (\<lambda>spot_age.
      if \<not> both_feeds_fresh fx_age spot_age then returnE None
      else
      bindE (askW (quote fx_key)) (\<lambda>fx_ba.
      bindE (askW (quote spot_key)) (\<lambda>spot_ba.
      case (fx_ba, spot_ba) of
        (Some (b1, a1), Some (b2, a2)) \<Rightarrow> returnE (Some (mid_price rnd b1 a1, mid_price rnd b2 a2))
      | _ \<Rightarrow> returnE None)))))"

section \<open>The hourly SFD\<close>

definition count_open_bitflyer_paper_fx_btc_jpy_trades :: "nat db_prog" where
  "count_open_bitflyer_paper_fx_btc_jpy_trades = stmt (askW (\<lambda>db.
     length (filter (\<lambda>r. r_pair r = SFD_PAIR \<and> r_status r = ''open'' \<and>
       (\<exists>a \<in> set (accounts db). a_id a = r_account_id r \<and> a_account_type a = ''paper''
          \<and> a_exchange a = ''bitflyer_cfd'')) (trades db))))"

definition trade_is_subject_to_bitflyer_sfd :: "pair \<Rightarrow> bool" where
  "trade_is_subject_to_bitflyer_sfd p \<longleftrightarrow> p = SFD_PAIR"

definition trade_was_not_yet_open_at_event_time :: "datetime \<Rightarrow> datetime \<Rightarrow> bool" where
  "trade_was_not_yet_open_at_event_time entry_at event_at \<longleftrightarrow> entry_at > event_at"

definition apply_sfd_to_trade ::
  "rounding \<Rightarrow> 'x environment \<Rightarrow> uuid \<Rightarrow> datetime \<Rightarrow> decimal \<Rightarrow> decimal \<Rightarrow> trade \<Rightarrow> ('x, unit) io" where
  "apply_sfd_to_trade rnd env account_id lh fx_mid spot_mid t =
     (if \<not> trade_is_subject_to_bitflyer_sfd (t_pair t) then returnE ()
      else
      let notional = dmul rnd (t_entry_price t) (t_quantity t) in
      bindE (liftR (compute_hourly_sfd rnd \<lparr>fx_price = fx_mid, spot_price = spot_mid,
               position_notional = notional, sfd_direction = t_direction t\<rparr>)) (\<lambda>fee.
      if fee = 0 then returnE ()
      else
      let event_at = lh + hours 1 in
      if trade_was_not_yet_open_at_event_time (t_entry_at t) event_at then returnE ()
      else
      bindE (attempt (dbE env (charge_fee_tx account_id (t_id t) fee ''sfd_fee'' (Some event_at)))) (\<lambda>_.
      returnE ())))"

definition apply_sfd_to_account ::
  "rounding \<Rightarrow> 'x environment \<Rightarrow> datetime \<Rightarrow> decimal \<Rightarrow> decimal \<Rightarrow> trading_account \<Rightarrow> ('x, unit) io" where
  "apply_sfd_to_account rnd env lh fx_mid spot_mid pac =
     (if a_account_type pac \<noteq> ''paper'' then returnE ()
      else case resolve_account_exchange pac of
        None \<Rightarrow> returnE ()
      | Some ex \<Rightarrow>
          if ex \<noteq> BitflyerCfd then returnE ()
          else
          bindE (attempt (dbE env (get_open_trades_by_account (a_id pac)))) (\<lambda>r.
          case r of
            Inl _ \<Rightarrow> returnE ()
          | Inr open_trades \<Rightarrow>
              forE open_trades (apply_sfd_to_trade rnd env (a_id pac) lh fx_mid spot_mid)))"

fun apply_pending_hours ::
  "nat \<Rightarrow> rounding \<Rightarrow> 'x environment \<Rightarrow> trading_account list \<Rightarrow> datetime \<Rightarrow> decimal \<Rightarrow> decimal
    \<Rightarrow> ('x, datetime) io" where
  "apply_pending_hours 0 rnd env accs lh fx_mid spot_mid = returnE lh"
| "apply_pending_hours (Suc n) rnd env accs lh fx_mid spot_mid =
     bindE (forE accs (apply_sfd_to_account rnd env lh fx_mid spot_mid)) (\<lambda>_.
     apply_pending_hours n rnd env accs (lh + hours 1) fx_mid spot_mid)"

definition process_sfd_tick ::
  "rounding \<Rightarrow> 'x environment \<Rightarrow> datetime option \<Rightarrow> ('x, datetime option) io" where
  "process_sfd_tick rnd env last_hour =
     bindE (utc_now env) (\<lambda>now.
     case truncate_to_hour now of
       None \<Rightarrow> returnE last_hour
     | Some current_hour \<Rightarrow>
     (case last_hour of
        None \<Rightarrow> returnE (Some current_hour)
      | Some lh0 \<Rightarrow>
          if lh0 + hours 1 > current_hour then returnE last_hour
          else
          let (lh, pending) = clamp_catch_up lh0 current_hour in
          bindE (attempt (dbE env list_active_or_with_open_trades)) (\<lambda>accs.
          case accs of
            Inl _ \<Rightarrow> returnE last_hour
          | Inr accs \<Rightarrow>
              if \<not> has_paper_bitflyer_account accs then returnE (Some current_hour)
              else
              bindE (attempt (dbE env count_open_bitflyer_paper_fx_btc_jpy_trades)) (\<lambda>cnt.
              case cnt of
                Inl _ \<Rightarrow> returnE last_hour
              | Inr open_target_count \<Rightarrow>
                  if open_target_count = 0 then returnE (Some current_hour)
                  else
                  bindE (fetch_fresh_mid_prices rnd env) (\<lambda>mids.
                  case mids of
                    None \<Rightarrow> returnE last_hour
                  | Some (fx_mid, spot_mid) \<Rightarrow>
                      bindE (apply_pending_hours (nat pending) rnd env accs lh fx_mid spot_mid)
                        (\<lambda>lh. returnE (Some lh)))))))"

text \<open>The loop of \<open>run\<close>: a tick every 60 seconds, the first one at once.\<close>

fun run_sfd :: "nat \<Rightarrow> rounding \<Rightarrow> 'x environment \<Rightarrow> datetime option \<Rightarrow> ('x, datetime option) io" where
  "run_sfd 0 rnd env last_hour = returnE last_hour"
| "run_sfd (Suc n) rnd env last_hour =
     bindE (process_sfd_tick rnd env last_hour) (\<lambda>last_hour.
     bindE (sleep env (secs 60)) (\<lambda>_.
     run_sfd n rnd env last_hour))"

section \<open>Overnight fees and swaps\<close>

definition BITFLYER_OVERNIGHT_FEE_RATE :: decimal where "BITFLYER_OVERNIGHT_FEE_RATE = 4 / 10000"

definition resolve_overnight_fee_exchange :: "trading_account \<Rightarrow> exchange option" where
  "resolve_overnight_fee_exchange pac =
     (if a_account_type pac \<noteq> ''paper'' then None
      else case resolve_account_exchange pac of
        None \<Rightarrow> None
      | Some ex \<Rightarrow> (case ex of BitflyerCfd \<Rightarrow> Some ex | GmoFx \<Rightarrow> Some ex | Oanda \<Rightarrow> None))"

definition compute_overnight_fee ::
  "rounding \<Rightarrow> exchange \<Rightarrow> trade \<Rightarrow> gmo_fx_swap_config \<Rightarrow> decimal option result" where
  "compute_overnight_fee rnd ex t swap_config =
     (case ex of
        BitflyerCfd \<Rightarrow> Inr (Some (trunc (dmul rnd (dmul rnd (t_entry_price t) (t_quantity t))
                                         BITFLYER_OVERNIGHT_FEE_RATE)))
      | GmoFx \<Rightarrow>
          (case map_of (sw_rates swap_config) (t_pair t) of
             None \<Rightarrow> Inr None
           | Some rate \<Rightarrow>
               bindR (compute_daily_swap rnd rate (t_direction t) (t_quantity t)) (\<lambda>fee. Inr (Some fee)))
      | Oanda \<Rightarrow> Inl (Panic ''unreachable''))"

definition apply_overnight ::
  "'x environment \<Rightarrow> exchange \<Rightarrow> uuid \<Rightarrow> uuid \<Rightarrow> decimal \<Rightarrow> datetime \<Rightarrow> ('x, decimal option) io" where
  "apply_overnight env ex account_id trade_id fee event_at =
     (case ex of
        BitflyerCfd \<Rightarrow> dbE env (charge_fee_tx account_id trade_id fee ''overnight_fee'' None)
      | GmoFx \<Rightarrow> dbE env (charge_fee_tx account_id trade_id fee ''swap_fee'' (Some event_at))
      | Oanda \<Rightarrow> failE (Panic ''unreachable''))"

text \<open>The result tells whether a fee was applied; the caller only counts it for its log.\<close>

definition apply_fee_to_trade ::
  "rounding \<Rightarrow> 'x environment \<Rightarrow> exchange \<Rightarrow> gmo_fx_swap_config \<Rightarrow> datetime \<Rightarrow> uuid \<Rightarrow> trade \<Rightarrow> ('x, bool) io" where
  "apply_fee_to_trade rnd env ex swap_config event_at account_id t =
     bindE (liftR (compute_overnight_fee rnd ex t swap_config)) (\<lambda>fee.
     case fee of
       None \<Rightarrow> returnE False
     | Some fee \<Rightarrow>
         if fee = 0 then returnE False
         else
         bindE (attempt (apply_overnight env ex account_id (t_id t) fee event_at)) (\<lambda>r.
         case r of
           Inr (Some _) \<Rightarrow> returnE True
         | Inr None \<Rightarrow> returnE False
         | Inl _ \<Rightarrow> returnE False))"

definition apply_fees_to_account ::
  "rounding \<Rightarrow> 'x environment \<Rightarrow> gmo_fx_swap_config \<Rightarrow> datetime \<Rightarrow> trading_account \<Rightarrow> ('x, unit) io" where
  "apply_fees_to_account rnd env swap_config event_at pac =
     (case resolve_overnight_fee_exchange pac of
        None \<Rightarrow> returnE ()
      | Some ex \<Rightarrow>
          bindE (attempt (dbE env (get_open_trades_by_account (a_id pac)))) (\<lambda>r.
          case r of
            Inl _ \<Rightarrow> returnE ()
          | Inr open_trades \<Rightarrow>
              bindE (foldE (\<lambda>applied_count t.
                  bindE (apply_fee_to_trade rnd env ex swap_config event_at (a_id pac) t) (\<lambda>applied.
                  returnE (if applied then applied_count + 1 else applied_count)))
                (0 :: nat) open_trades) (\<lambda>_. returnE ())))"

definition swap_alert_event :: "string \<Rightarrow> notify_event" where
  "swap_alert_event body = SystemAlert ''swap rates freshness'' ''(config)'' GmoFx body"

definition send_swap_freshness_alert ::
  "(string \<Rightarrow> int option) \<Rightarrow> gmo_fx_swap_config \<Rightarrow> int \<Rightarrow> trading_account list \<Rightarrow> ('x, unit) io" where
  "send_swap_freshness_alert parse_ymd swap_config today accs =
     (let has_gmo_paper = (\<exists>a \<in> set accs. a_exchange a = ''gmo_fx'' \<and> a_account_type a = ''paper'') in
      case swap_freshness_alert parse_ymd swap_config today has_gmo_paper of
        None \<Rightarrow> returnE ()
      | Some body \<Rightarrow> spawn_notification (swap_alert_event body))"

definition date_of :: "datetime \<Rightarrow> int" where "date_of t = t div hours 24"

definition midnight :: "int \<Rightarrow> datetime" where "midnight day = day * hours 24"

definition process_date_change ::
  "rounding \<Rightarrow> 'x environment \<Rightarrow> (string \<Rightarrow> int option) \<Rightarrow> gmo_fx_swap_config \<Rightarrow> int \<Rightarrow> ('x, bool) io" where
  "process_date_change rnd env parse_ymd swap_config today =
     bindE (attempt (dbE env list_active_or_with_open_trades)) (\<lambda>r.
     case r of
       Inl _ \<Rightarrow> returnE False
     | Inr accs \<Rightarrow>
         bindE (send_swap_freshness_alert parse_ymd swap_config today accs) (\<lambda>_.
         let event_at = midnight today in
         bindE (forE accs (apply_fees_to_account rnd env swap_config event_at)) (\<lambda>_.
         returnE True)))"

definition overnight_tick ::
  "rounding \<Rightarrow> 'x environment \<Rightarrow> (string \<Rightarrow> int option) \<Rightarrow> gmo_fx_swap_config \<Rightarrow> int \<Rightarrow> ('x, int) io" where
  "overnight_tick rnd env parse_ymd swap_config last_date =
     bindE (utc_now env) (\<lambda>now.
     let today = date_of now in
     if today \<noteq> last_date
     then bindE (process_date_change rnd env parse_ymd swap_config today) (\<lambda>done.
       returnE (if done then today else last_date))
     else returnE last_date)"

fun run_overnight ::
  "nat \<Rightarrow> rounding \<Rightarrow> 'x environment \<Rightarrow> (string \<Rightarrow> int option) \<Rightarrow> gmo_fx_swap_config \<Rightarrow> int \<Rightarrow> ('x, int) io" where
  "run_overnight 0 rnd env parse_ymd swap_config last_date = returnE last_date"
| "run_overnight (Suc n) rnd env parse_ymd swap_config last_date =
     bindE (overnight_tick rnd env parse_ymd swap_config last_date) (\<lambda>last_date.
     bindE (sleep env (secs 60)) (\<lambda>_.
     run_overnight n rnd env parse_ymd swap_config last_date))"

end
