(* ===== verification/Fee_Theorems.thy ===== *)
theory Fee_Theorems
  imports Fee_Jobs Task_Calls
begin

text \<open>
  The fee jobs refine the ledger, and the SFD accrual charges a trade at most once for an hour:
  a run of the job charges each pair of a trade and an hour at most once, whatever the other
  tasks do to the database as long as they charge no SFD and a trade keeps its account.
\<close>

section \<open>Refinement of the ledger\<close>

lemma keeps_charge [keeps_rules]:
  assumes "tasks_are_steps rnd env" and "ty \<in> {''overnight_fee'', ''sfd_fee'', ''swap_fee''}"
  shows "keeps rnd (dbE env (charge_fee_tx aid tid fee ty occ))"
  by (intro keeps_dbE [OF assms(1)] ledger_run_op) (auto intro: ledger_step.charge [OF assms(2)])

lemma keeps_fetch_mids [keeps_rules]: "keeps rnd (fetch_fresh_mid_prices rnd' env)"
  unfolding fetch_fresh_mid_prices_def Let_def by (intro keeps_rules)

lemma reads_only_count: "reads_only count_open_bitflyer_paper_fx_btc_jpy_trades"
  unfolding count_open_bitflyer_paper_fx_btc_jpy_trades_def by (rule reads_only_stmt)

lemma keeps_pending [keeps_rules]:
  assumes "tasks_are_steps rnd env"
  shows "keeps rnd (apply_pending_hours n rnd' env accs lh fx spot)"
proof (induction n arbitrary: lh)
  case (Suc n)
  then show ?case
    unfolding apply_pending_hours.simps apply_sfd_to_account_def apply_sfd_to_trade_def Let_def
    by (intro keeps_rules assms reads_only_queries) auto
qed (simp add: keeps_rules)

lemma keeps_sfd:
  assumes "tasks_are_steps rnd env"
  shows "keeps rnd (run_sfd n rnd' env lh)"
proof (induction n arbitrary: lh)
  case (Suc n)
  then show ?case
    unfolding run_sfd.simps process_sfd_tick_def Let_def
    by (intro keeps_rules assms reads_only_queries reads_only_count)
qed (simp add: keeps_rules)

lemma keeps_overnight:
  assumes "tasks_are_steps rnd env"
  shows "keeps rnd (run_overnight n rnd' env ymd sw d)"
proof -
  have "keeps rnd (apply_overnight env ex aid tid fee at')" for ex aid tid fee at'
    by (cases ex) (auto simp: apply_overnight_def intro!: keeps_rules assms)
  then have "keeps rnd (overnight_tick rnd' env ymd sw d)" for d
    unfolding overnight_tick_def process_date_change_def apply_fees_to_account_def apply_fee_to_trade_def
      send_swap_freshness_alert_def Let_def
    by (intro keeps_rules assms reads_only_queries)
  then show ?thesis
    by (induction n arbitrary: d) (auto intro!: keeps_rules assms)
qed

section \<open>Charges\<close>

definition charged :: "uuid \<Rightarrow> datetime \<Rightarrow> database \<Rightarrow> nat" where
  "charged tid h db = length (filter (\<lambda>e. ev_type e = ''sfd_fee'' \<and> ev_trade_id e = tid
     \<and> ev_occurred_at e = Some h) (events db))"

definition owners :: "database \<Rightarrow> (uuid \<times> uuid) set" where
  "owners db = (\<lambda>r. (r_id r, r_account_id r)) ` set (trades db)"

definition keyed :: "database \<Rightarrow> bool" where
  "keyed db \<longleftrightarrow> distinct (map r_id (trades db)) \<and> distinct (map a_id (accounts db))"

lemma owner_unique: "keyed db \<Longrightarrow> (tid, a) \<in> owners db \<Longrightarrow> (tid, b) \<in> owners db \<Longrightarrow> a = b"
  unfolding keyed_def owners_def by (auto simp: distinct_map dest: inj_onD)

text \<open>
  \<open>charges S db db'\<close>: keys stay unique, no trade changes its account, and at most one charge is
  added for each pair of a trade and an hour in \<open>S\<close>, none for the others.
\<close>

definition charges :: "(uuid \<times> datetime) set \<Rightarrow> database \<Rightarrow> database \<Rightarrow> bool" where
  "charges S db db' \<longleftrightarrow> (keyed db \<longrightarrow> keyed db') \<and> owners db \<subseteq> owners db' \<and>
     (\<forall>tid h. charged tid h db \<le> charged tid h db' \<and>
        charged tid h db' \<le> charged tid h db + (if (tid, h) \<in> S then 1 else 0))"

lemma charges_refl [simp]: "charges S db db"
  by (simp add: charges_def)

lemma charges_mono: "charges S db db' \<Longrightarrow> S \<subseteq> T \<Longrightarrow> charges T db db'"
  unfolding charges_def by (fastforce split: if_splits)

lemma charges_trans:
  assumes "charges S db db1" and "charges T db1 db2" and "S \<inter> T = {}"
  shows "charges (S \<union> T) db db2"
proof -
  have "charged tid h db \<le> charged tid h db2
      \<and> charged tid h db2 \<le> charged tid h db + (if (tid, h) \<in> S \<union> T then 1 else 0)" for tid h
  proof -
    have "charged tid h db \<le> charged tid h db1" "charged tid h db1 \<le> charged tid h db2"
      "charged tid h db1 \<le> charged tid h db + (if (tid, h) \<in> S then 1 else 0)"
      "charged tid h db2 \<le> charged tid h db1 + (if (tid, h) \<in> T then 1 else 0)"
      using assms(1,2) unfolding charges_def by blast+
    moreover have "\<not> ((tid, h) \<in> S \<and> (tid, h) \<in> T)" using assms(3) by blast
    ultimately show ?thesis by (auto split: if_splits)
  qed
  then show ?thesis using assms(1,2) unfolding charges_def by blast
qed

lemma charges_none: "charges {} db db1 \<Longrightarrow> charges S db1 db2 \<Longrightarrow> charges S db db2"
  "charges S db db1 \<Longrightarrow> charges {} db1 db2 \<Longrightarrow> charges S db db2"
  using charges_trans by fastforce+

lemma charges_keyed: "charges S db db' \<Longrightarrow> keyed db \<Longrightarrow> keyed db'"
  and charges_owners: "charges S db db' \<Longrightarrow> owners db \<subseteq> owners db'"
  by (simp_all add: charges_def)

text \<open>The other tasks charge no SFD.\<close>

definition no_other_sfd :: "'x environment \<Rightarrow> bool" where
  "no_other_sfd env \<longleftrightarrow> (\<forall>x db. charges {} db (snd (env_tasks env x db)))"

lemma charges_tasks: "no_other_sfd env \<Longrightarrow> charges {} (w_db w) (w_db (let_tasks_run env w))"
  by (cases "env_tasks env (w_out w) (w_db w)") (auto simp: let_tasks_run_def no_other_sfd_def, metis snd_conv)

lemma charges_reads:
  assumes "no_other_sfd env" and "reads_only m" and "dbE env m w = (r, w')"
  shows "charges {} (w_db w) (w_db w')"
proof -
  obtain q db where q: "m (w_db w) = (q, db)" by fastforce
  then obtain fs where "db = (w_db w)\<lparr>faults := fs\<rparr>" using assms(2) unfolding reads_only_def by (metis snd_conv)
  then have "charges {} (w_db w) db" by (simp add: charges_def keyed_def owners_def charged_def)
  moreover have "w' = let_tasks_run env (w\<lparr>w_db := db\<rparr>)" using assms(3) q by (simp add: dbE_def)
  ultimately show ?thesis using charges_none(1) charges_tasks [OF assms(1), of "w\<lparr>w_db := db\<rparr>"] by fastforce
qed

lemma charge_fee_charges:
  assumes "charge_fee_tx aid tid fee ''sfd_fee'' (Some h) db = (r, db')"
  shows "charges (if (tid, aid) \<in> owners db' then {(tid, h)} else {}) db db'"
proof (cases r)
  case (Inl e)
  then obtain fs where "db' = db\<lparr>faults := fs\<rparr>"
    using assms transaction_Inl unfolding charge_fee_tx_def by blast
  then show ?thesis by (simp add: charges_def keyed_def owners_def charged_def)
next
  case (Inr x)
  let ?p = "\<lambda>r. r_id r = tid \<and> r_account_id r = aid \<and> r_status r = ''open''"
  let ?f = "\<lambda>r. r\<lparr>r_fees := r_fees r + fee\<rparr>"
  obtain fs d fs' where d: "apply_fee_inner aid tid fee ''sfd_fee'' (Some h) (db\<lparr>faults := fs\<rparr>) = (Inr x, d)"
    and db': "db' = d\<lparr>faults := fs'\<rparr>"
    using transaction_Inr [OF assms [unfolded charge_fee_tx_def Inr]] by blast
  then obtain n d1 where 1: "stmt (\<lambda>db. (Inr (length (filter ?p (trades db))),
      db\<lparr>trades := update_rows ?p ?f (trades db)\<rparr>)) (db\<lparr>faults := fs\<rparr>) = (Inr n, d1)"
    and 2: "(if n = 0 then returnE None else
         bindE (update_balance_returning aid (\<lambda>b. b - fee)) (\<lambda>new_balance.
         bindE (insert_event aid tid ''sfd_fee'' (- fee) new_balance (Some h)) (\<lambda>_.
         returnE (Some new_balance)))) d1 = (Inr x, d)"
    by (auto simp: apply_fee_inner_def bindE_run Let_def split: prod.splits sum.splits)
  have t1: "trades d1 = update_rows ?p ?f (trades db)" "accounts d1 = accounts db" "events d1 = events db"
    "n = length (filter ?p (trades db))"
    using stmt_Inr [OF 1] by auto
  have keep: "map r_id (trades d1) = map r_id (trades db)" "owners d1 = owners db"
    using map_update_rows [of r_id ?f ?p] map_update_rows [of "\<lambda>r. (r_id r, r_account_id r)" ?f ?p "trades db"]
    by (simp_all add: t1 owners_def del: set_map flip: set_map)
  show ?thesis
  proof (cases "n = 0")
    case True
    then have "d = d1" using 2 by (simp add: run_simps)
    then show ?thesis using keep t1 by (auto simp: db' charges_def keyed_def owners_def charged_def)
  next
    case False
    then have own: "(tid, aid) \<in> owners db"
      using t1(4) by (force simp: owners_def filter_empty_conv)
    obtain a where "trades d = trades d1" "map a_id (accounts d) = map a_id (accounts d1)"
      "events d = events d1 @ [\<lparr>ev_account_id = aid, ev_trade_id = tid, ev_type = ''sfd_fee'', ev_amount = - fee,
        ev_balance_after = a, ev_occurred_at = Some h\<rparr>]"
      using 2 False by (auto simp: run_simps map_update_rows split: prod.splits sum.splits
          dest!: update_balance_returning_Inr insert_event_Inr)
    then show ?thesis using keep t1 own
      by (auto simp: db' charges_def keyed_def owners_def charged_def)
  qed
qed

section \<open>Programs that cannot panic\<close>

definition no_panic :: "('w, 'a) prog \<Rightarrow> bool" where
  "no_panic m \<longleftrightarrow> (\<forall>w p. fst (m w) \<noteq> Inl (Panic p))"

lemma no_panicD: "no_panic m \<Longrightarrow> m w = (Inl e, w') \<Longrightarrow> \<exists>s. e = Anyhow s"
  unfolding no_panic_def by (cases e) (auto, metis fst_conv)

lemma no_panic_attempt: "no_panic m \<Longrightarrow> \<exists>r w'. attempt m w = (Inr r, w') \<and> w' = snd (m w)"
  by (cases "m w") (auto simp: run_simps split: sum.splits error.splits dest: no_panicD)

lemma no_panic_stmt: "no_panic m \<Longrightarrow> no_panic (stmt m)"
  by (auto simp: no_panic_def stmt_def db_error_def split: list.splits)

lemma no_panic_bind: "no_panic m \<Longrightarrow> (\<And>x. no_panic (f x)) \<Longrightarrow> no_panic (bindE m f)"
  unfolding no_panic_def by (auto simp: run_simps split: prod.splits sum.splits) (metis fst_conv)

lemma no_panic_pure:
  "no_panic (returnE x)" "no_panic (failE (Anyhow s))" "no_panic (askW g)"
  "(\<And>p. v \<noteq> Inl (Panic p)) \<Longrightarrow> no_panic (liftR v)"
  by (simp_all add: no_panic_def run_simps)

lemma no_panic_transaction: "no_panic m \<Longrightarrow> no_panic (transaction m)"
proof -
  assume "no_panic m"
  then have "no_panic (bindE (stmt (returnE ())) (\<lambda>_. bindE m (\<lambda>x. bindE (stmt (returnE ())) (\<lambda>_. returnE x))))"
    by (intro no_panic_bind no_panic_stmt no_panic_pure)
  then show ?thesis by (auto simp: no_panic_def transaction_def split: prod.splits sum.splits) (metis fst_conv)
qed

lemma no_panic_dbE: "no_panic m \<Longrightarrow> no_panic (dbE env m)"
  unfolding no_panic_def by (auto simp: dbE_def split: prod.splits) (metis fst_conv)

lemma collectR_no_panic: "(\<And>x p. f x \<noteq> Inl (Panic p)) \<Longrightarrow> collectR f xs \<noteq> Inl (Panic p)"
  by (induction xs) (auto simp: bindR_def split: sum.splits)

lemma row_no_panic: "trade_of_row r \<noteq> Inl (Panic p)"
proof -
  note s = exchange_from_str_def direction_from_str_def trade_status_from_str_def exit_reason_from_str_def
  show ?thesis unfolding trade_of_row_def s by (auto simp: bindR_def split: sum.splits option.splits if_splits)
qed

lemma no_panic_queries:
  "no_panic (get_open_trades_by_account aid)" "no_panic list_active_or_with_open_trades"
  "no_panic count_open_bitflyer_paper_fx_btc_jpy_trades" "no_panic (charge_fee_tx aid tid fee ty occ)"
proof -
  show "no_panic (get_open_trades_by_account aid)"
    unfolding get_open_trades_by_account_def select_trades_def
    by (intro no_panic_bind no_panic_stmt no_panic_pure collectR_no_panic row_no_panic)
  show "no_panic list_active_or_with_open_trades" "no_panic count_open_bitflyer_paper_fx_btc_jpy_trades"
    unfolding list_active_or_with_open_trades_def count_open_bitflyer_paper_fx_btc_jpy_trades_def
    by (intro no_panic_stmt no_panic_pure)+
  have s: "no_panic (stmt (\<lambda>db. (Inr (g db), h db)))" for g :: "database \<Rightarrow> nat" and h
    by (rule no_panic_stmt) (simp add: no_panic_def)
  have b: "no_panic (update_balance_returning aid f)" for f
    unfolding update_balance_returning_def by (rule no_panic_stmt) (simp add: no_panic_def db_error_def split: list.splits)
  have i: "no_panic (insert_event aid tid ty am af occ)" for am af
    unfolding insert_event_def by (rule no_panic_stmt) (simp add: no_panic_def db_error_def)
  have "no_panic (apply_fee_inner aid tid fee ty occ)"
    unfolding apply_fee_inner_def Let_def
    by (intro no_panic_bind s) (auto intro!: no_panic_bind no_panic_pure b i)
  then show "no_panic (charge_fee_tx aid tid fee ty occ)"
    unfolding charge_fee_tx_def by (rule no_panic_transaction)
qed

section \<open>One hour\<close>

lemma sfd_trade_charges:
  assumes "no_other_sfd env"
  shows "\<exists>w'. apply_sfd_to_trade rnd env aid lh fx spot t w = (Inr (), w') \<and>
    charges (if (t_id t, aid) \<in> owners (w_db w') then {(t_id t, lh + hours 1)} else {}) (w_db w) (w_db w')"
proof -
  obtain fee where fee: "compute_hourly_sfd rnd \<lparr>fx_price = fx, spot_price = spot,
      position_notional = dmul rnd (t_entry_price t) (t_quantity t), sfd_direction = t_direction t\<rparr> = Inr fee"
    using compute_hourly_sfd_total by blast
  let ?m = "charge_fee_tx aid (t_id t) fee ''sfd_fee'' (Some (lh + hours 1))"
  obtain r db where m: "?m (w_db w) = (r, db)" by fastforce
  let ?w = "let_tasks_run env (w\<lparr>w_db := db\<rparr>)"
  have c: "charges (if (t_id t, aid) \<in> owners db then {(t_id t, lh + hours 1)} else {}) (w_db w) db"
    by (rule charge_fee_charges [OF m])
  have tk: "charges {} db (w_db ?w)" using charges_tasks [OF assms, of "w\<lparr>w_db := db\<rparr>"] by simp
  have "charges (if (t_id t, aid) \<in> owners (w_db ?w) then {(t_id t, lh + hours 1)} else {}) (w_db w) (w_db ?w)"
    by (rule charges_mono [OF charges_none(2) [OF c tk]]) (use charges_owners [OF tk] in auto)
  moreover have "\<exists>q. attempt (dbE env ?m) w = (Inr q, ?w)"
    using no_panic_attempt [OF no_panic_dbE [OF no_panic_queries(4)], of env aid "t_id t" fee "''sfd_fee''"
        "Some (lh + hours 1)" w] m by (auto simp: dbE_def)
  ultimately show ?thesis
    using fee by (auto simp: apply_sfd_to_trade_def bindE_run liftR_run returnE_run Let_def)
qed


definition owned :: "uuid set \<Rightarrow> datetime \<Rightarrow> database \<Rightarrow> (uuid \<times> datetime) set" where
  "owned A e db = {(tid, h). h = e \<and> (\<exists>a \<in> A. (tid, a) \<in> owners db)}"

lemma owned_mono: "owners db \<subseteq> owners db' \<Longrightarrow> A \<subseteq> B \<Longrightarrow> owned A e db \<subseteq> owned B e db'"
  by (auto simp: owned_def)

lemma owned_disjoint: "keyed db \<Longrightarrow> A \<inter> B = {} \<Longrightarrow> owned A e db \<inter> owned B e db = {}"
  by (auto simp: owned_def dest: owner_unique)

lemma sfd_trades_charge:
  assumes "no_other_sfd env" and "distinct (map t_id ts)"
  shows "\<exists>w'. forE ts (apply_sfd_to_trade rnd env aid lh fx spot) w = (Inr (), w') \<and>
    charges {(tid, h) \<in> owned {aid} (lh + hours 1) (w_db w'). tid \<in> t_id ` set ts} (w_db w) (w_db w')"
  using assms(2)
proof (induction ts arbitrary: w)
  case (Cons t ts)
  obtain w1 where w1: "apply_sfd_to_trade rnd env aid lh fx spot t w = (Inr (), w1)"
    and c1: "charges (if (t_id t, aid) \<in> owners (w_db w1) then {(t_id t, lh + hours 1)} else {}) (w_db w) (w_db w1)"
    using sfd_trade_charges [OF assms(1)] by blast
  obtain w2 where w2: "forE ts (apply_sfd_to_trade rnd env aid lh fx spot) w1 = (Inr (), w2)"
    and c2: "charges {(tid, h) \<in> owned {aid} (lh + hours 1) (w_db w2). tid \<in> t_id ` set ts} (w_db w1) (w_db w2)"
    using Cons by fastforce
  have "charges ((if (t_id t, aid) \<in> owners (w_db w1) then {(t_id t, lh + hours 1)} else {}) \<union>
      {(tid, h) \<in> owned {aid} (lh + hours 1) (w_db w2). tid \<in> t_id ` set ts}) (w_db w) (w_db w2)"
    by (rule charges_trans [OF c1 c2]) (use Cons.prems in auto)
  then have "charges {(tid, h) \<in> owned {aid} (lh + hours 1) (w_db w2). tid \<in> t_id ` set (t # ts)} (w_db w) (w_db w2)"
    by (rule charges_mono) (use charges_owners [OF c2] in \<open>auto simp: owned_def\<close>)
  then show ?case using w1 w2 by (simp add: run_simps)
qed (simp add: run_simps)

lemma open_trades_distinct:
  assumes "get_open_trades_by_account aid db = (Inr ts, db')" and "keyed db"
  shows "distinct (map t_id ts)"
proof -
  let ?p = "\<lambda>r. r_account_id r = aid \<and> r_status r = ''open''"
  have "collectR trade_of_row (newest_first (filter ?p (trades db))) = Inr ts"
    using assms(1) unfolding get_open_trades_by_account_def select_trades_def
    by (auto simp: run_simps split: prod.splits sum.splits dest!: stmt_Inr)
  from collectR_Inr_nth [OF this] have "map t_id ts = map r_id (newest_first (filter ?p (trades db)))"
    by (induction rule: list_all2_induct) (auto dest: trade_of_row_fields(1))
  moreover have "distinct (map r_id (newest_first (filter ?p (trades db))))"
    using assms(2) by (auto simp: keyed_def newest_first_def distinct_map intro: inj_on_subset)
  ultimately show ?thesis by simp
qed

lemma sfd_account_charges:
  assumes "no_other_sfd env" and "keyed (w_db w)"
  shows "\<exists>w'. apply_sfd_to_account rnd env lh fx spot pac w = (Inr (), w') \<and>
    charges (owned {a_id pac} (lh + hours 1) (w_db w')) (w_db w) (w_db w')"
proof -
  let ?m = "get_open_trades_by_account (a_id pac)"
  obtain q w1 where q: "attempt (dbE env ?m) w = (Inr q, w1)" and w1: "w1 = snd (dbE env ?m w)"
    using no_panic_attempt [OF no_panic_dbE [OF no_panic_queries(1)]] by blast
  have c1: "charges {} (w_db w) (w_db w1)"
    using charges_reads [OF assms(1) reads_only_queries(7)] w1 by (metis surjective_pairing)
  show ?thesis
  proof (cases q)
    case (Inl e)
    then show ?thesis using q charges_mono [OF c1] charges_refl
      by (auto simp: apply_sfd_to_account_def run_simps simp del: attempt_run split: option.splits)
  next
    case (Inr ts)
    then have "\<exists>db. ?m (w_db w) = (Inr ts, db)"
      using q by (cases "?m (w_db w)") (auto simp: run_simps dbE_def split: sum.splits error.splits)
    then have "distinct (map t_id ts)" using open_trades_distinct assms(2) by blast
    from sfd_trades_charge [OF assms(1) this] obtain w2
      where w2: "forE ts (apply_sfd_to_trade rnd env (a_id pac) lh fx spot) w1 = (Inr (), w2)"
        and c2: "charges {(tid, h) \<in> owned {a_id pac} (lh + hours 1) (w_db w2). tid \<in> t_id ` set ts} (w_db w1) (w_db w2)"
      by blast
    have "charges (owned {a_id pac} (lh + hours 1) (w_db w2)) (w_db w) (w_db w2)"
      by (rule charges_mono [OF charges_none(1) [OF c1 c2]]) auto
    then show ?thesis using q w2 Inr charges_refl
      by (auto simp: apply_sfd_to_account_def bindE_run returnE_run split: option.splits)
  qed
qed

lemma sfd_accounts_charge:
  assumes "no_other_sfd env" and "distinct (map a_id accs)" and "keyed (w_db w)"
  shows "\<exists>w'. forE accs (apply_sfd_to_account rnd env lh fx spot) w = (Inr (), w') \<and>
    charges (owned (a_id ` set accs) (lh + hours 1) (w_db w')) (w_db w) (w_db w')"
  using assms(2,3)
proof (induction accs arbitrary: w)
  case (Cons a accs)
  obtain w1 where w1: "apply_sfd_to_account rnd env lh fx spot a w = (Inr (), w1)"
    and c1: "charges (owned {a_id a} (lh + hours 1) (w_db w1)) (w_db w) (w_db w1)"
    using sfd_account_charges [OF assms(1) Cons.prems(2)] by blast
  have k1: "keyed (w_db w1)" using charges_keyed [OF c1 Cons.prems(2)] .
  obtain w2 where w2: "forE accs (apply_sfd_to_account rnd env lh fx spot) w1 = (Inr (), w2)"
    and c2: "charges (owned (a_id ` set accs) (lh + hours 1) (w_db w2)) (w_db w1) (w_db w2)"
    using Cons.IH [OF _ k1] Cons.prems(1) by auto
  have "charges (owned {a_id a} (lh + hours 1) (w_db w2)) (w_db w) (w_db w1)"
    by (rule charges_mono [OF c1 owned_mono [OF charges_owners [OF c2] subset_refl]])
  from charges_trans [OF this c2 owned_disjoint [OF charges_keyed [OF c2 k1]]] Cons.prems(1)
  have "charges (owned (a_id ` set (a # accs)) (lh + hours 1) (w_db w2)) (w_db w) (w_db w2)"
    by (auto simp: owned_def elim!: charges_mono)
  then show ?case using w1 w2 by (simp add: run_simps)
qed (simp add: run_simps)

section \<open>The run\<close>

definition hours_in :: "datetime \<Rightarrow> datetime \<Rightarrow> (uuid \<times> datetime) set" where
  "hours_in lo hi = {(tid, h). lo < h \<and> h \<le> hi}"

lemma charges_chain:
  assumes "charges (hours_in lo mid) db db1" and "charges (hours_in mid hi) db1 db2" and "lo \<le> mid" and "mid \<le> hi"
  shows "charges (hours_in lo hi) db db2"
proof -
  have "hours_in lo mid \<inter> hours_in mid hi = {}" "hours_in lo mid \<union> hours_in mid hi = hours_in lo hi"
    using assms(3,4) by (auto simp: hours_in_def)
  then show ?thesis using charges_trans [OF assms(1,2)] by simp
qed

lemma one_hour_pos [simp]: "0 < hours 1" "0 \<le> hours 1"
  by (simp_all add: hours_def secs_def nanos_per_sec_def)

lemma pending_hours_charge:
  assumes "no_other_sfd env" and "distinct (map a_id accs)" and "keyed (w_db w)"
  shows "\<exists>w'. apply_pending_hours n rnd env accs lh fx spot w = (Inr (lh + int n * hours 1), w') \<and>
    charges (hours_in lh (lh + int n * hours 1)) (w_db w) (w_db w')"
  using assms(3)
proof (induction n arbitrary: w lh)
  case (Suc n)
  obtain w1 where w1: "forE accs (apply_sfd_to_account rnd env lh fx spot) w = (Inr (), w1)"
    and c1: "charges (owned (a_id ` set accs) (lh + hours 1) (w_db w1)) (w_db w) (w_db w1)"
    using sfd_accounts_charge [OF assms(1,2) Suc.prems] by blast
  obtain w2 where w2: "apply_pending_hours n rnd env accs (lh + hours 1) fx spot w1 =
      (Inr (lh + hours 1 + int n * hours 1), w2)"
    and c2: "charges (hours_in (lh + hours 1) (lh + hours 1 + int n * hours 1)) (w_db w1) (w_db w2)"
    using Suc.IH [OF charges_keyed [OF c1 Suc.prems]] by blast
  have "charges (hours_in lh (lh + hours 1)) (w_db w) (w_db w1)"
    by (rule charges_mono [OF c1]) (auto simp: owned_def hours_in_def)
  from charges_chain [OF this c2]
  have "charges (hours_in lh (lh + hours 1 + int n * hours 1)) (w_db w) (w_db w2)" by simp
  then show ?case using w1 w2 by (simp add: run_simps algebra_simps)
qed (simp add: run_simps)

lemma clamp_forward:
  assumes "clamp_catch_up lh0 cur = (lh, pending)" and "lh0 + hours 1 \<le> cur"
  shows "lh0 \<le> lh"
proof (cases "num_hours (cur - lh0) \<le> SFD_MAX_CATCH_UP_HOURS")
  case False
  have "0 < hours 1" by simp
  then have "0 \<le> cur - lh0" using assms(2) by linarith
  then have "num_hours (cur - lh0) = (cur - lh0) div hours 1" by (rule num_hours_nonneg)
  then have "SFD_MAX_CATCH_UP_HOURS \<le> (cur - lh0) div hours 1" using False by simp
  then have "SFD_MAX_CATCH_UP_HOURS * hours 1 \<le> cur - lh0" by (simp add: le_div_iff_mult_le)
  moreover have "SFD_MAX_CATCH_UP_HOURS * hours 1 = hours SFD_MAX_CATCH_UP_HOURS" by (simp add: hours_def secs_def)
  ultimately show ?thesis using assms(1) False by (auto simp: clamp_catch_up_def Let_def)
qed (use assms in \<open>auto simp: clamp_catch_up_def Let_def\<close>)

text \<open>A program that reads the database and whose failure is only logged.\<close>

lemma attempted_read:
  assumes "no_other_sfd env" and "reads_only m" and "no_panic m"
  obtains q w' where "attempt (dbE env m) w = (Inr q, w')" and "charges {} (w_db w) (w_db w')"
    and "\<And>x. q = Inr x \<Longrightarrow> \<exists>db. m (w_db w) = (Inr x, db)"
proof -
  obtain q where q: "attempt (dbE env m) w = (Inr q, snd (dbE env m w))"
    using no_panic_attempt [OF no_panic_dbE [OF assms(3)], of env w] by metis
  have "charges {} (w_db w) (w_db (snd (dbE env m w)))"
    using charges_reads [OF assms(1,2)] by (metis surjective_pairing)
  moreover have "\<exists>db. m (w_db w) = (Inr x, db)" if "q = Inr x" for x
    using q that by (cases "m (w_db w)") (auto simp: run_simps dbE_def split: sum.splits error.splits)
  ultimately show thesis using that q by blast
qed

lemma listed_distinct:
  assumes "list_active_or_with_open_trades db = (Inr accs, db')" and "keyed db"
  shows "distinct (map a_id accs)"
proof -
  obtain fs where "accs = oldest_first (filter (\<lambda>a. a_active a \<or> has_unsettled (a_id a) (db\<lparr>faults := fs\<rparr>)) (accounts db))"
    using stmt_Inr [OF assms(1) [unfolded list_active_or_with_open_trades_def]] by (auto simp: run_simps)
  then show ?thesis
    using assms(2) by (auto simp: keyed_def oldest_first_def distinct_map intro: inj_on_subset)
qed

lemma fetch_mids_run: "\<exists>r. fetch_fresh_mid_prices rnd env w = (Inr r, w)"
  by (auto simp: fetch_fresh_mid_prices_def run_simps Let_def split: option.splits prod.splits)

lemma sfd_tick_charges:
  assumes "no_other_sfd env" and "keyed (w_db w)"
  shows "\<exists>l' w'. process_sfd_tick rnd env (Some l) w = (Inr (Some l'), w') \<and> l \<le> l' \<and>
    charges (hours_in l l') (w_db w) (w_db w')"
proof (cases "truncate_to_hour (env_utc_now env (w_out w))")
  case None
  then show ?thesis by (auto simp: process_sfd_tick_def utc_now_def run_simps)
next
  case (Some cur)
  note tick = process_sfd_tick_def utc_now_def bindE_run askW_run returnE_run Some
  show ?thesis
  proof (cases "l + hours 1 > cur")
    case True
    then show ?thesis by (auto simp: tick)
  next
    case False
    obtain lh pending where cl: "clamp_catch_up l cur = (lh, pending)" by fastforce
    have fwd: "l \<le> lh" "l \<le> cur" using clamp_forward [OF cl] False one_hour_pos by linarith+
    obtain q1 w1 where q1: "attempt (dbE env list_active_or_with_open_trades) w = (Inr q1, w1)"
      and c1: "charges {} (w_db w) (w_db w1)"
      and m1: "\<And>x. q1 = Inr x \<Longrightarrow> \<exists>db. list_active_or_with_open_trades (w_db w) = (Inr x, db)"
      using attempted_read [OF assms(1) reads_only_queries(3) no_panic_queries(2)] by blast
    obtain q2 w2 where q2: "attempt (dbE env count_open_bitflyer_paper_fx_btc_jpy_trades) w1 = (Inr q2, w2)"
      and c2: "charges {} (w_db w1) (w_db w2)"
      using attempted_read [OF assms(1) reads_only_count no_panic_queries(3)] by blast
    have c12: "charges {} (w_db w) (w_db w2)" using charges_none(1) [OF c1 c2] .
    note idle = charges_mono [OF c1 empty_subsetI] charges_mono [OF c12 empty_subsetI]
    show ?thesis
    proof (cases "\<exists>accs k fx spot. q1 = Inr accs \<and> has_paper_bitflyer_account accs \<and> q2 = Inr k \<and> k \<noteq> 0
        \<and> fetch_fresh_mid_prices rnd env w2 = (Inr (Some (fx, spot)), w2)")
      case True
      then obtain accs k fx spot where r: "q1 = Inr accs" "has_paper_bitflyer_account accs" "q2 = Inr k" "k \<noteq> 0"
        "fetch_fresh_mid_prices rnd env w2 = (Inr (Some (fx, spot)), w2)" by blast
      have "distinct (map a_id accs)" using m1 [OF r(1)] listed_distinct assms(2) by blast
      from pending_hours_charge [OF assms(1) this charges_keyed [OF c12 assms(2)]]
      obtain w3 where w3: "apply_pending_hours (nat pending) rnd env accs lh fx spot w2 =
          (Inr (lh + int (nat pending) * hours 1), w3)"
        and c3: "charges (hours_in lh (lh + int (nat pending) * hours 1)) (w_db w2) (w_db w3)" by blast
      have "charges (hours_in l (lh + int (nat pending) * hours 1)) (w_db w) (w_db w3)"
        by (rule charges_chain [OF charges_mono [OF c12 empty_subsetI] c3 fwd(1)]) (simp add: order_less_imp_le)
      moreover have "l \<le> lh + int (nat pending) * hours 1" using fwd(1) one_hour_pos by (simp add: add_increasing2 order_less_imp_le)
      ultimately show ?thesis using False r cl q1 q2 w3 by (simp add: tick)
    next
      case no: False
      obtain ms where ms: "fetch_fresh_mid_prices rnd env w2 = (Inr ms, w2)" using fetch_mids_run by blast
      have "process_sfd_tick rnd env (Some l) w \<in> {(Inr (Some l), w1), (Inr (Some cur), w1), (Inr (Some l), w2), (Inr (Some cur), w2)}"
        using False cl no q1 q2 ms by (cases q1; cases q2; cases ms) (auto simp: tick)
      then show ?thesis using fwd(2) idle by (elim insertE emptyE) auto
    qed
  qed
qed

lemma sfd_run_charges:
  assumes "no_other_sfd env"
  shows "keyed (w_db w) \<Longrightarrow> \<exists>l' w'. run_sfd n rnd env (Some l) w = (Inr (Some l'), w') \<and> l \<le> l' \<and>
    charges (hours_in l l') (w_db w) (w_db w')"
proof (induction n arbitrary: l w)
  case (Suc n)
  obtain l1 w1 where 1: "process_sfd_tick rnd env (Some l) w = (Inr (Some l1), w1)" "l \<le> l1"
    and c1: "charges (hours_in l l1) (w_db w) (w_db w1)"
    using sfd_tick_charges [OF assms Suc.prems] by blast
  obtain w2 where 2: "sleep env (secs 60) w1 = (Inr (), w2)" and c2: "charges {} (w_db w1) (w_db w2)"
    using charges_tasks [OF assms, of "w1\<lparr>w_out := env_sleep env (secs 60) (w_out w1)\<rparr>"] by (auto simp: sleep_def)
  have c12: "charges (hours_in l l1) (w_db w) (w_db w2)" by (rule charges_none(2) [OF c1 c2])
  obtain l3 w3 where 3: "run_sfd n rnd env (Some l1) w2 = (Inr (Some l3), w3)" "l1 \<le> l3"
    and c3: "charges (hours_in l1 l3) (w_db w2) (w_db w3)"
    using Suc.IH [OF charges_keyed [OF c12 Suc.prems]] by blast
  show ?case
    using 1 2 3 charges_chain [OF c12 c3 1(2) 3(2)] by (auto simp: run_simps)
qed (simp add: run_simps)

text \<open>The hour the job starts from: later hours only are charged.\<close>

definition start_hour :: "'x environment \<Rightarrow> datetime option \<Rightarrow> 'x world \<Rightarrow> datetime option" where
  "start_hour env last_hour w =
     (case last_hour of Some l \<Rightarrow> Some l | None \<Rightarrow> truncate_to_hour (env_utc_now env (w_out w)))"

lemma sfd_start_charges:
  assumes "no_other_sfd env"
  shows "keyed (w_db w) \<Longrightarrow> \<exists>lh w'. run_sfd n rnd env None w = (Inr lh, w') \<and>
    (case lh of None \<Rightarrow> charges {} (w_db w) (w_db w')
     | Some l' \<Rightarrow> \<exists>l. (\<forall>s. start_hour env None w = Some s \<longrightarrow> s \<le> l) \<and> charges (hours_in l l') (w_db w) (w_db w'))"
proof (induction n arbitrary: w)
  case (Suc n)
  let ?w = "let_tasks_run env (w\<lparr>w_out := env_sleep env (secs 60) (w_out w)\<rparr>)"
  have c: "charges {} (w_db w) (w_db ?w)"
    using charges_tasks [OF assms, of "w\<lparr>w_out := env_sleep env (secs 60) (w_out w)\<rparr>"] by simp
  note k = charges_keyed [OF c Suc.prems]
  show ?case
  proof (cases "truncate_to_hour (env_utc_now env (w_out w))")
    case None
    from Suc.IH [OF k] obtain lh w' where run: "run_sfd n rnd env None ?w = (Inr lh, w')"
      and r: "case lh of None \<Rightarrow> charges {} (w_db ?w) (w_db w')
       | Some l' \<Rightarrow> \<exists>l. (\<forall>s. start_hour env None ?w = Some s \<longrightarrow> s \<le> l) \<and> charges (hours_in l l') (w_db ?w) (w_db w')"
      by blast
    have "case lh of None \<Rightarrow> charges {} (w_db w) (w_db w')
       | Some l' \<Rightarrow> \<exists>l. (\<forall>s. start_hour env None w = Some s \<longrightarrow> s \<le> l) \<and> charges (hours_in l l') (w_db w) (w_db w')"
      using r charges_none(1) [OF c] None by (cases lh) (auto simp: start_hour_def)
    then show ?thesis
      using run None by (simp add: process_sfd_tick_def utc_now_def sleep_def run_simps)
  next
    case (Some s)
    obtain l' w' where run: "run_sfd n rnd env (Some s) ?w = (Inr (Some l'), w')"
      and c': "charges (hours_in s l') (w_db ?w) (w_db w')"
      using sfd_run_charges [OF assms k] by blast
    show ?thesis
      using run Some charges_none(1) [OF c c']
      by (auto simp: process_sfd_tick_def utc_now_def sleep_def run_simps start_hour_def)
  qed
qed (simp add: run_simps)

text \<open>
  C37. The SFD job never stops and charges a trade at most once for an hour. For any number of
  ticks, any clock, any prices, any failures of the database and any other tasks that charge no
  SFD and leave each trade with its account, the loop returns normally; for every trade and every
  hour the journal gains at most one SFD event and loses none; and an hour that is charged lies
  after the hour the job started from and not after the hour the job has reached.
\<close>

theorem sfd_charged_once_per_hour:
  assumes "no_other_sfd env" and "keyed (w_db w)"
  shows "\<exists>lh w'. run_sfd n rnd env last_hour w = (Inr lh, w') \<and>
    (\<forall>tid h. charged tid h (w_db w) \<le> charged tid h (w_db w')
       \<and> charged tid h (w_db w') \<le> charged tid h (w_db w) + 1
       \<and> (charged tid h (w_db w') \<noteq> charged tid h (w_db w) \<longrightarrow>
            (\<exists>l'. lh = Some l' \<and> h \<le> l') \<and> (\<forall>s. start_hour env last_hour w = Some s \<longrightarrow> s < h)))"
proof -
  let ?ok = "\<lambda>lh h. (\<exists>l'. lh = Some l' \<and> h \<le> l') \<and> (\<forall>s. start_hour env last_hour w = Some s \<longrightarrow> s < h)"
  obtain lh w' S where run: "run_sfd n rnd env last_hour w = (Inr lh, w')"
    and c: "charges S (w_db w) (w_db w')" and S: "\<And>tid h. (tid, h) \<in> S \<Longrightarrow> ?ok lh h"
  proof (cases last_hour)
    case None
    obtain lh w' where r: "run_sfd n rnd env last_hour w = (Inr lh, w')" and "case lh of None \<Rightarrow> charges {} (w_db w) (w_db w')
       | Some l' \<Rightarrow> \<exists>l. (\<forall>s. start_hour env None w = Some s \<longrightarrow> s \<le> l) \<and> charges (hours_in l l') (w_db w) (w_db w')"
      using None sfd_start_charges [OF assms, of n rnd] by blast
    then consider "charges {} (w_db w) (w_db w')" | l l' where "lh = Some l'"
        "\<And>s. start_hour env None w = Some s \<Longrightarrow> s \<le> l" "charges (hours_in l l') (w_db w) (w_db w')"
      by (cases lh) auto
    then show ?thesis
    proof cases
      case 1
      show ?thesis by (rule that [OF r 1]) simp
    next
      case (2 l l')
      show ?thesis by (rule that [OF r 2(3)]) (use None 2(1,2) in \<open>fastforce simp: hours_in_def\<close>)
    qed
  next
    case (Some l)
    obtain l' w' where r: "run_sfd n rnd env last_hour w = (Inr (Some l'), w')"
      and c: "charges (hours_in l l') (w_db w) (w_db w')"
      using Some sfd_run_charges [OF assms, of n rnd l] by blast
    show ?thesis by (rule that [OF r c]) (simp add: Some hours_in_def start_hour_def)
  qed
  have "charged tid h (w_db w) \<le> charged tid h (w_db w')
       \<and> charged tid h (w_db w') \<le> charged tid h (w_db w) + 1
       \<and> (charged tid h (w_db w') \<noteq> charged tid h (w_db w) \<longrightarrow> ?ok lh h)" for tid h
  proof -
    have b: "charged tid h (w_db w) \<le> charged tid h (w_db w')"
      "charged tid h (w_db w') \<le> charged tid h (w_db w) + (if (tid, h) \<in> S then 1 else 0)"
      using c unfolding charges_def by blast+
    show ?thesis
    proof (cases "(tid, h) \<in> S")
      case True
      then show ?thesis using b S [OF True] by auto
    next
      case False
      then have "charged tid h (w_db w') = charged tid h (w_db w)" using b by simp
      then show ?thesis by simp
    qed
  qed
  then show ?thesis using run by blast
qed

text \<open>A paper trade of 1.2 BTC, 10 percent above the spot price, at the first full hour.\<close>

definition sfd_db :: database where
  "sfd_db = \<lparr>trades = [row_of_trade (demo_trade\<lparr>t_pair := ''FX_BTC_JPY'', t_exchange := BitflyerCfd,
       t_entry_price := 1000000, t_quantity := 6 / 5\<rparr>)],
     accounts = [\<lparr>a_id = 1, a_name = ''demo'', a_account_type = ''paper'', a_exchange = ''bitflyer_cfd'',
       a_strategy = ''s'', a_initial_balance = 100000, a_current_balance = 100000, a_leverage = 2,
       a_currency = ''JPY'', a_created_at = 0, a_active = True\<rparr>],
     events = [], notifications = [], summaries = [], strategies = [''s''], faults = []\<rparr>"

definition sfd_env :: "int environment" where
  "sfd_env = demo_env\<lparr>env_prices := (\<lambda>x.
     price_store_update \<lparr>fk_exchange = BitflyerCfd, fk_pair = SPOT_PAIR\<rparr>
       \<lparr>tk_price = 1000000, tk_best_bid = Some 1000000, tk_best_ask = Some 1000000, tk_ts = x\<rparr>
     (price_store_update \<lparr>fk_exchange = BitflyerCfd, fk_pair = SFD_PAIR\<rparr>
       \<lparr>tk_price = 1100000, tk_best_bid = Some 1100000, tk_best_ask = Some 1100000, tk_ts = x\<rparr>
     (price_store_new [])))\<rparr>"

definition sfd_world :: "int world" where
  "sfd_world = (demo_world sfd_db)\<lparr>w_out := hours 1\<rparr>"

theorem sfd_charged_once_per_hour_witness:
  "\<exists>lh w'. run_sfd 3 exact sfd_env (Some 0) sfd_world = (Inr lh, w')
    \<and> charged 7 (hours 1) (w_db w') \<le> 1 \<and> charged 7 0 (w_db w') = 0
    \<and> charged 7 (hours 1) (w_db (snd (run_sfd 1 exact sfd_env (Some 0) sfd_world))) = 1"
proof -
  have env: "no_other_sfd sfd_env" by (simp add: no_other_sfd_def sfd_env_def demo_env_def)
  have key: "keyed (w_db sfd_world)" by (simp add: keyed_def sfd_world_def demo_world_def sfd_db_def)
  obtain lh w' where run: "run_sfd 3 exact sfd_env (Some 0) sfd_world = (Inr lh, w')"
    and r: "charged tid h (w_db w') \<le> charged tid h (w_db sfd_world) + 1
       \<and> (charged tid h (w_db w') \<noteq> charged tid h (w_db sfd_world) \<longrightarrow>
            (\<forall>s. start_hour sfd_env (Some 0) sfd_world = Some s \<longrightarrow> s < h))" for tid h
    using sfd_charged_once_per_hour [OF env key, of 3 exact "Some 0"] by (elim exE conjE) (metis (no_types, lifting))
  have "charged tid h (w_db sfd_world) = 0" for tid h
    by (simp add: charged_def sfd_world_def demo_world_def sfd_db_def)
  then have "charged 7 (hours 1) (w_db w') \<le> 1" "charged 7 0 (w_db w') = 0"
    using r [of 7 "hours 1"] r [of 7 0] by (auto simp: start_hour_def)
  moreover have "charged 7 (hours 1) (w_db (snd (run_sfd 1 exact sfd_env (Some 0) sfd_world))) = 1"
    by code_simp
  ultimately show ?thesis using run by blast
qed

end
