(* ===== verification/Reconcile_Theorems.thy ===== *)
theory Reconcile_Theorems
  imports Startup_Reconcile Fee_Theorems
begin

text \<open>
  The reconciliation at startup refines the ledger, and when it succeeds the trades of the
  account agree with the positions of the exchange.
\<close>

section \<open>Refinement of the ledger\<close>

lemma keeps_send_notification [keeps_rules]:
  "tasks_are_steps rnd env \<Longrightarrow> keeps rnd (send_notification env ev)"
  unfolding send_notification_def by (rule keeps_then_tasks) simp_all

lemma keeps_add_fees [keeps_rules]: "tasks_are_steps rnd env \<Longrightarrow> keeps rnd (dbE env (add_fees tid d))"
  by (intro keeps_dbE ledger_run_op) (auto intro: ledger_step.book_fees)

lemma keeps_release [keeps_rules]: "tasks_are_steps rnd env \<Longrightarrow> keeps rnd (dbE env (release_close_lock tid))"
  by (intro keeps_dbE ledger_run_op) (auto intro: ledger_step.drop_lock)

lemma keeps_upsert [keeps_rules]:
  "tasks_are_steps rnd env \<Longrightarrow> keeps rnd (dbE env (upsert_daily_summary d s p ty e a n win pnl))"
  by (intro keeps_dbE ledger_run_tables)
    (auto simp: upsert_daily_summary_def stmt_def Let_def split: list.splits)

lemma reads_only_account_queries:
  "reads_only (account_type_of aid)" "reads_only (list_open_or_closing_by_account aid)"
  unfolding account_type_of_def list_open_or_closing_by_account_def
  by (intro reads_only_stmt reads_only_queries)+

text \<open>Closing a reconciled trade reads the row and commits in two ledger steps.\<close>

lemma reconciled_cases:
  assumes "close_trade_reconciled rnd ea tid ep pnl x db = (r, db')"
  shows "(\<exists>fs. db' = db\<lparr>faults := fs\<rparr>) \<and> (\<exists>e. r = Inl e) \<or> (\<exists>fs row t m. row \<in> set (trades db) \<and> trade_of_row row = Inr t
    \<and> t_id t = tid \<and> unsettled row \<and> required_margin rnd (entry_position t) = Inr m
    \<and> reconciled_tx rnd ea tid ep pnl x (t_account_id t) m (db\<lparr>faults := fs\<rparr>) = (r, db'))"
proof -
  let ?rows = "\<lambda>db. filter (\<lambda>r. r_id r = tid \<and> unsettled r) (trades db)"
  obtain q d where q: "stmt (askW ?rows) db = (q, d)" by fastforce
  obtain fs where d: "d = db\<lparr>faults := fs\<rparr>"
    using reads_only_stmt [of ?rows] q unfolding reads_only_def by (metis snd_conv)
  show ?thesis
  proof (cases q)
    case (Inl e)
    then show ?thesis using assms q d by (auto simp: close_trade_reconciled_def run_simps)
  next
    case (Inr rows)
    then have rows: "rows = ?rows db" using stmt_Inr [OF q [unfolded Inr]] by (auto simp: run_simps)
    show ?thesis
    proof (cases rows)
      case Nil
      then show ?thesis using assms q d Inr by (auto simp: close_trade_reconciled_def run_simps)
    next
      case (Cons row rest)
      then have row: "row \<in> set (trades db)" "r_id row = tid" "unsettled row"
        using rows by (auto simp: filter_eq_Cons_iff)
      show ?thesis
        using assms q d Inr Cons row trade_of_row_fields(1) [of row]
        by (auto simp: close_trade_reconciled_def run_simps split: sum.splits)
    qed
  qed
qed

lemma keeps_reconciled [keeps_rules]:
  assumes "tasks_are_steps rnd env"
  shows "keeps rnd (dbE env (close_trade_reconciled rnd ea tid ep pnl x))"
proof (rule refines_dbE [OF assms])
  fix db :: database and ts r db' assume run: "close_trade_reconciled rnd ea tid ep pnl x db = (r, db')"
  from reconciled_cases [OF run]
  show "\<exists>ts'. ledger_run rnd db ts db' ts' \<and> (\<forall>x. r = Inr x \<longrightarrow> True)"
  proof (elim disjE exE conjE)
    fix fs assume "db' = db\<lparr>faults := fs\<rparr>"
    then show ?thesis using ledger_run_tables [of db' db rnd ts] by auto
  next
    fix fs row t m
    assume row: "row \<in> set (trades db)" "trade_of_row row = Inr t" "t_id t = tid"
      and m: "required_margin rnd (entry_position t) = Inr m"
      and tx: "reconciled_tx rnd ea tid ep pnl x (t_account_id t) m (db\<lparr>faults := fs\<rparr>) = (r, db')"
    let ?d = "db\<lparr>faults := fs\<rparr>"
    have 1: "ledger_run rnd db ts ?d ts" by (rule ledger_run_tables) simp_all
    have 2: "ledger_run rnd ?d ts ?d (t # ts)"
      using ledger_step.reconcile_read [of row "\<lparr>ldb = ?d, snapshots = ts\<rparr>" t rnd] row(1,2)
      by (intro ledger_run_step) auto
    have 3: "ledger_run rnd ?d (t # ts) db' (t # ts)"
      using ledger_step.reconcile_commit [of t "\<lparr>ldb = ?d, snapshots = t # ts\<rparr>" rnd m ea ep pnl x] m tx row(3)
      by (intro ledger_run_step) auto
    show ?thesis using ledger_run_trans [OF ledger_run_trans [OF 1 2] 3] by blast
  qed
qed simp

lemma keeps_positions [keeps_rules]:
  assumes "tasks_are_steps rnd env"
  shows "keeps rnd (positions_attempts n delay env api pair)"
proof (induction n arbitrary: delay)
  case 0
  show ?case by (subst positions_attempts.simps, simp only: nat.case) (intro keeps_rules assms)
next
  case (Suc n)
  show ?case by (subst positions_attempts.simps, simp only: nat.case) (intro keeps_rules assms Suc)
qed

lemma keeps_stop_option [keeps_rules]:
  "keeps rnd a \<Longrightarrow> (\<And>u v. keeps rnd (b u v)) \<Longrightarrow> keeps rnd c \<Longrightarrow>
   keeps rnd (case st of StopActive \<Rightarrow> a | StopExecuted u v \<Rightarrow> b u v | StopGone \<Rightarrow> c)"
  by (cases st) auto

lemma keeps_close_reconciled_with [keeps_rules]:
  assumes "tasks_are_steps rnd env"
  shows "keeps rnd (close_reconciled_with rnd env t ep x fees)"
    and "keeps rnd (force_close_at_best_effort_price rnd env t)"
  unfolding close_reconciled_with_def backfill_daily_summary_for_reconciled_close_def
    force_close_at_best_effort_price_def best_effort_exit_price_def Let_def
  by (intro keeps_rules assms reads_only_account_queries)+

lemma keeps_reconcile_trade [keeps_rules]:
  assumes "tasks_are_steps rnd env"
  shows "keeps rnd (reconcile_trade rnd env api account b t)"
proof -
  have "keeps rnd (reconcile_open_matching env api account t)" "keeps rnd (reconcile_open_orphan rnd env api t)"
    unfolding reconcile_open_matching_def alert_if_protective_stop_is_gone_def reconcile_open_orphan_def
      stop_executed_fill_def stop_status_def
    by (intro keeps_rules assms)+
  then show ?thesis
    by (cases "t_status t"; cases b) (simp_all add: reconcile_trade_def keeps_rules assms)
qed

lemma keeps_reconcile:
  assumes "tasks_are_steps rnd env"
  shows "keeps rnd (reconcile_live_accounts_at_startup rnd env ho accs apis)"
proof -
  have "keeps rnd (reconcile_group rnd env api account ps g)" for api account ps g
    by (cases g) (auto simp: reconcile_group_def Let_def split: prod.splits intro!: keeps_rules assms)
  then show ?thesis
    unfolding reconcile_live_accounts_at_startup_def reconcile_one_account_def fetch_exchange_positions_def
      get_positions_with_retry_def
    by (intro keeps_rules assms reads_only_account_queries)
qed

section \<open>What reconciling leaves in the trades\<close>

text \<open>
  \<open>settles T db db'\<close>: the trades named by \<open>T\<close> have got the status given there, the other rows
  are as before.
\<close>

definition settles :: "(uuid \<rightharpoonup> string) \<Rightarrow> database \<Rightarrow> database \<Rightarrow> bool" where
  "settles T db db' \<longleftrightarrow> (\<exists>g. (\<forall>r. r_id (g r) = r_id r) \<and> trades db' = map g (trades db) \<and>
     (\<forall>r \<in> set (trades db). case T (r_id r) of None \<Rightarrow> g r = r | Some s \<Rightarrow> r_status (g r) = s))"

lemma settles_same: "trades db' = trades db \<Longrightarrow> settles Map.empty db db'"
  unfolding settles_def by (intro exI [of _ id]) simp

lemma settles_ids: "settles T db db' \<Longrightarrow> map r_id (trades db') = map r_id (trades db)"
  unfolding settles_def by auto

lemma settles_trans:
  assumes "settles S db db1" and "settles T db1 db2" and "dom S \<inter> dom T = {}"
  shows "settles (S ++ T) db db2"
proof -
  obtain f where f: "\<forall>r. r_id (f r) = r_id r" "trades db1 = map f (trades db)"
    "\<forall>r \<in> set (trades db). case S (r_id r) of None \<Rightarrow> f r = r | Some s \<Rightarrow> r_status (f r) = s"
    using assms(1) unfolding settles_def by blast
  obtain g where g: "\<forall>r. r_id (g r) = r_id r" "trades db2 = map g (trades db1)"
    "\<forall>r \<in> set (trades db1). case T (r_id r) of None \<Rightarrow> g r = r | Some s \<Rightarrow> r_status (g r) = s"
    using assms(2) unfolding settles_def by blast
  have "case (S ++ T) (r_id r) of None \<Rightarrow> g (f r) = r | Some s \<Rightarrow> r_status (g (f r)) = s" if r: "r \<in> set (trades db)" for r
  proof (cases "T (r_id r)")
    case None
    then have "g (f r) = f r" using f(1,2) g(3) r by force
    then show ?thesis using None f(3) r by (auto simp: map_add_def split: option.splits)
  next
    case (Some s)
    then have "r_status (g (f r)) = s" using f(1,2) g(3) r by force
    then show ?thesis using Some by (simp add: map_add_def)
  qed
  then show ?thesis
    unfolding settles_def by (intro exI [of _ "\<lambda>r. g (f r)"] conjI) (use f(1,2) g(1,2) in simp_all)
qed

lemma settles_update:
  assumes "trades db' = update_rows p f (trades db)" and "\<And>r. r_id (f r) = r_id r"
    and "\<And>r. p r \<Longrightarrow> r_id r = tid"
    and "\<And>r. r \<in> set (trades db) \<Longrightarrow> r_id r = tid \<Longrightarrow> r_status (if p r then f r else r) = s"
  shows "settles [tid \<mapsto> s] db db'"
  unfolding settles_def
  by (intro exI [of _ "\<lambda>r. if p r then f r else r"]) (use assms in \<open>auto simp: update_rows_def\<close>)

text \<open>The rows of a trade have the status that the trade was read with.\<close>

definition as_read :: "database \<Rightarrow> trade \<Rightarrow> bool" where
  "as_read db t \<longleftrightarrow> (\<forall>r \<in> set (trades db). r_id r = t_id t \<longrightarrow> r_status r = trade_status_as_str (t_status t))"

lemma as_read_settles: "as_read db t \<Longrightarrow> settles T db db' \<Longrightarrow> T (t_id t) = None \<Longrightarrow> as_read db' t"
  unfolding as_read_def settles_def by fastforce

lemma as_read_trades: "trades db' = trades db \<Longrightarrow> as_read db' t = as_read db t"
  by (simp add: as_read_def)

section \<open>One trade\<close>

lemma undisturbed_dbE: "quiet env \<Longrightarrow> dbE env m w = (r, w') \<Longrightarrow> \<exists>db. m (w_db w) = (r, db) \<and> w_db w' = db"
  by (auto simp: dbE_def quiet_tasks split: prod.splits)

lemma quiet_call: "quiet env \<Longrightarrow> attempt (call env entry f) w = (r, w') \<Longrightarrow> w_db w' = w_db w"
  by (auto simp: call_def run_simps quiet_tasks split: prod.splits sum.splits)

lemma close_reconciled_settles:
  assumes "close_trade_reconciled rnd ea tid ep pnl x db = (Inr u, db')" and "as_read db t" and "t_id t = tid"
    and "t_status t = Open \<or> t_status t = Closing"
  shows "settles [tid \<mapsto> ''closed''] db db'"
proof -
  let ?p = "\<lambda>r. r_id r = tid \<and> unsettled r"
  let ?f = "\<lambda>r. r\<lparr>r_exit_price := Some ep, r_exit_at := Some ea, r_pnl_amount := Some pnl,
      r_exit_reason := Some (exit_reason_as_str x), r_status := ''closed'', r_closing_started_at := None\<rparr>"
  obtain fs aid m where "reconciled_tx rnd ea tid ep pnl x aid m (db\<lparr>faults := fs\<rparr>) = (Inr u, db')"
    using reconciled_cases [OF assms(1)] by blast
  then obtain fs' d fs'' where d: "bindE (stmt (\<lambda>db. (Inr (length (filter ?p (trades db))),
        db\<lparr>trades := update_rows ?p ?f (trades db)\<rparr>)))
      (\<lambda>n. if n = 0 then failE (Anyhow ''failed to close trade: not found or already closed'')
           else release_margin rnd aid tid m pnl) (db\<lparr>faults := fs'\<rparr>) = (Inr u, d)" and db': "db' = d\<lparr>faults := fs''\<rparr>"
    unfolding reconciled_tx_def by (fastforce dest: transaction_Inr)
  then obtain n d1 where 1: "stmt (\<lambda>db. (Inr (length (filter ?p (trades db))),
        db\<lparr>trades := update_rows ?p ?f (trades db)\<rparr>)) (db\<lparr>faults := fs'\<rparr>) = (Inr n, d1)"
    and 2: "release_margin rnd aid tid m pnl d1 = (Inr u, d)"
    by (auto simp: run_simps split: prod.splits sum.splits if_splits)
  have "trades db' = update_rows ?p ?f (trades db)"
    using stmt_Inr [OF 1] release_margin_Inr [OF 2] by (auto simp: db' posted_def)
  then show ?thesis
    by (rule settles_update) (use assms(2-4) in \<open>auto simp: as_read_def unsettled_def\<close>)
qed

lemma trades_after_add:
  "add_fees tid d db = (Inr u, db') \<Longrightarrow>
   trades db' = update_rows (\<lambda>r. r_id r = tid) (\<lambda>r. r\<lparr>r_fees := r_fees r + d\<rparr>) (trades db)"
  by (auto simp: add_fees_def run_simps split: prod.splits sum.splits if_splits dest!: stmt_Inr)

lemma trades_after_release:
  "release_close_lock tid db = (Inr u, db') \<Longrightarrow>
   trades db' = update_rows (\<lambda>r. r_id r = tid \<and> r_status r = ''closing'')
     (\<lambda>r. r\<lparr>r_status := ''open'', r_closing_started_at := None\<rparr>) (trades db)"
  by (auto simp: release_close_lock_def dest!: stmt_Inr)

definition same_trades :: "'x world \<Rightarrow> 'x world \<Rightarrow> bool" where
  "same_trades w w' \<longleftrightarrow> trades (w_db w') = trades (w_db w)"

lemma quiet_same_trades: "quiet env \<Longrightarrow> awaiting env same_trades"
  by unfold_locales (auto simp: same_trades_def quiet_tasks)

lemmas calm_rules = awaiting.r_rules [OF quiet_same_trades]

lemma calm_dbE:
  assumes "quiet env" and "\<And>db. trades (snd (m db)) = trades db"
  shows "along same_trades (dbE env m)"
  using assms(2) quiet_tasks [OF assms(1)]
  by (auto simp: along_def same_trades_def dbE_def split: prod.splits) (metis snd_conv)

lemma backfill_trades:
  assumes "quiet env"
  shows "along same_trades (backfill_daily_summary_for_reconciled_close env t pnl)"
proof -
  have "trades (snd (upsert_daily_summary d s p ty e a n win q db)) = trades db" for d s p ty e a n win q db
    by (auto simp: upsert_daily_summary_def stmt_def Let_def split: list.splits)
  then show ?thesis
    unfolding backfill_daily_summary_for_reconciled_close_def Let_def
    by (intro calm_rules [OF assms] calm_dbE [OF assms]) (auto simp: account_type_of_def stmt_def run_simps split: list.splits)
qed

lemma settles_after_touch:
  assumes "trades db1 = update_rows (\<lambda>r. r_id r = tid) f (trades db)" and "\<And>r. r_id (f r) = r_id r"
    and "settles [tid \<mapsto> s] db1 db2"
  shows "settles [tid \<mapsto> s] db db2"
proof -
  let ?f = "\<lambda>r. if r_id r = tid then f r else r"
  obtain g where g: "\<forall>r. r_id (g r) = r_id r" "trades db2 = map g (trades db1)"
    "\<forall>r \<in> set (trades db1). case [tid \<mapsto> s] (r_id r) of None \<Rightarrow> g r = r | Some s \<Rightarrow> r_status (g r) = s"
    using assms(3) unfolding settles_def by blast
  have "case [tid \<mapsto> s] (r_id r) of None \<Rightarrow> g (?f r) = r | Some s \<Rightarrow> r_status (g (?f r)) = s" if "r \<in> set (trades db)" for r
  proof -
    have "?f r \<in> set (trades db1)" using that by (simp add: assms(1) update_rows_def)
    then show ?thesis using g(3) assms(2) by force
  qed
  then show ?thesis
    unfolding settles_def by (intro exI [of _ "\<lambda>r. g (?f r)"] conjI) (use g(1,2) assms(1,2) in \<open>simp_all add: update_rows_def\<close>)
qed

lemma settles_same_after: "settles T db db1 \<Longrightarrow> trades db2 = trades db1 \<Longrightarrow> settles T db db2"
  by (simp add: settles_def)

lemma close_with_settles:
  assumes "quiet env" and "close_reconciled_with rnd env t ep x fees w = (Inr u, w')" and "as_read (w_db w) t"
    and "t_status t = Open \<or> t_status t = Closing"
  shows "settles [t_id t \<mapsto> ''closed''] (w_db w) (w_db w')"
proof -
  let ?f = "\<lambda>r. if fees = 0 then r else r\<lparr>r_fees := r_fees r + fees\<rparr>"
  obtain w1 w2 where 1: "(if fees \<noteq> 0 then dbE env (add_fees (t_id t) fees) else returnE ()) w = (Inr (), w1)"
    and 2: "dbE env (close_trade_reconciled rnd (env_utc_now env (w_out w1)) (t_id t) ep (reconciled_pnl rnd t ep) x) w1 = (Inr (), w2)"
    and 3: "backfill_daily_summary_for_reconciled_close env t (reconciled_pnl rnd t ep) w2 = (Inr u, w')"
    using assms(2) by (auto simp: close_reconciled_with_def bindE_run utc_now_def askW_run Let_def split: prod.splits sum.splits)
  have touch: "trades (w_db w1) = update_rows (\<lambda>r. r_id r = t_id t) ?f (trades (w_db w))"
  proof (cases "fees = 0")
    case True
    then show ?thesis using 1 by (simp add: run_simps update_rows_def)
  next
    case False
    then have "add_fees (t_id t) fees (w_db w) = (Inr (), w_db w1)" using 1 undisturbed_dbE [OF assms(1)] by fastforce
    then show ?thesis using False trades_after_add by simp
  qed
  have "as_read (w_db w1) t"
    using assms(3) by (auto simp: as_read_def touch update_rows_def)
  moreover have "close_trade_reconciled rnd (env_utc_now env (w_out w1)) (t_id t) ep (reconciled_pnl rnd t ep) x (w_db w1)
      = (Inr (), w_db w2)"
    using undisturbed_dbE [OF assms(1) 2] by blast
  ultimately have "settles [t_id t \<mapsto> ''closed''] (w_db w1) (w_db w2)"
    using close_reconciled_settles assms(4) by blast
  then have "settles [t_id t \<mapsto> ''closed''] (w_db w) (w_db w2)"
    by (intro settles_after_touch [OF touch]) simp_all
  moreover have "trades (w_db w') = trades (w_db w2)"
    using alongD [OF backfill_trades [OF assms(1)] 3] by (simp add: same_trades_def)
  ultimately show ?thesis by (rule settles_same_after)
qed

text \<open>What the reconciliation makes of a trade.\<close>

definition matched_status :: "bool \<Rightarrow> string" where
  "matched_status b = (if b then ''open'' else ''closed'')"

lemma force_close_settles:
  assumes "quiet env" and "force_close_at_best_effort_price rnd env t w = (Inr u, w')" and "as_read (w_db w) t"
    and "t_status t = Open \<or> t_status t = Closing"
  shows "settles [t_id t \<mapsto> ''closed''] (w_db w) (w_db w')"
proof -
  obtain ep where "close_reconciled_with rnd env t ep Reconciled 0 w = (Inr u, w')"
    using assms(2) by (auto simp: force_close_at_best_effort_price_def best_effort_exit_price_def run_simps
        split: option.splits prod.splits)
  then show ?thesis using close_with_settles assms by blast
qed

lemma reconcile_trade_settles:
  assumes "quiet env" and "reconcile_trade rnd env api account b t w = (Inr u, w')" and "as_read (w_db w) t"
  shows "settles [t_id t \<mapsto> matched_status b] (w_db w) (w_db w')"
proof (cases "t_status t"; cases b)
  assume t: "t_status t = Open" and b
  have "along same_trades (reconcile_open_matching env api account t)"
    unfolding reconcile_open_matching_def alert_if_protective_stop_is_gone_def stop_status_def
    by (intro calm_rules [OF assms(1)]) (auto simp: along_def same_trades_def send_notification_def quiet_tasks [OF assms(1)])
  then have "trades (w_db w') = trades (w_db w)"
    using assms(2) t \<open>b\<close> alongD by (fastforce simp: reconcile_trade_def same_trades_def)
  then show ?thesis
    using assms(3) t \<open>b\<close> unfolding settles_def
    by (intro exI [of _ id]) (auto simp: as_read_def matched_status_def)
next
  assume t: "t_status t = Open" and b: "\<not> b"
  obtain fill w1 where 1: "stop_executed_fill env api t w = (Inr fill, w1)"
    and 2: "(case fill of Some (price, commission) \<Rightarrow> close_reconciled_with rnd env t price SlHit commission
      | None \<Rightarrow> force_close_at_best_effort_price rnd env t) w1 = (Inr u, w')"
    using assms(2) t b by (auto simp: reconcile_trade_def reconcile_open_orphan_def bindE_run split: prod.splits sum.splits)
  have calm: "along same_trades (stop_executed_fill env api t)"
    unfolding stop_executed_fill_def stop_status_def by (intro calm_rules [OF assms(1)])
  then have same: "trades (w_db w1) = trades (w_db w)" using alongD [OF calm 1] by (simp add: same_trades_def)
  then have "settles [t_id t \<mapsto> ''closed''] (w_db w1) (w_db w')"
    using 2 t assms(3) close_with_settles [OF assms(1)] force_close_settles [OF assms(1)] as_read_trades [OF same, of t]
    by (auto split: option.splits prod.splits)
  then show ?thesis using b same by (simp add: settles_def matched_status_def)
next
  assume t: "t_status t = Closing" and b
  then have "release_close_lock (t_id t) (w_db w) = (Inr u, w_db w')"
    using assms(2) undisturbed_dbE [OF assms(1)] by (fastforce simp: reconcile_trade_def)
  then have "trades (w_db w') = update_rows (\<lambda>r. r_id r = t_id t \<and> r_status r = ''closing'')
        (\<lambda>r. r\<lparr>r_status := ''open'', r_closing_started_at := None\<rparr>) (trades (w_db w))"
    by (rule trades_after_release)
  then show ?thesis
    by (rule settles_update) (use assms(3) t \<open>b\<close> in \<open>auto simp: as_read_def matched_status_def\<close>)
next
  assume t: "t_status t = Closing" and b: "\<not> b"
  then show ?thesis
    using assms force_close_settles [OF assms(1)] by (simp add: reconcile_trade_def matched_status_def)
qed (use assms(2) in \<open>auto simp: reconcile_trade_def run_simps\<close>)

section \<open>A group\<close>

lemma reconcile_trades_settle:
  assumes "quiet env"
  shows "forE ts (reconcile_trade rnd env api account b) w = (Inr u, w') \<Longrightarrow> \<forall>t \<in> set ts. as_read (w_db w) t \<Longrightarrow>
    distinct (map t_id ts) \<Longrightarrow>
    settles (\<lambda>i. if i \<in> t_id ` set ts then Some (matched_status b) else None) (w_db w) (w_db w')"
proof (induction ts arbitrary: w)
  case Nil
  then show ?case using settles_same [of "w_db w'" "w_db w"] by (simp add: run_simps)
next
  case (Cons t ts)
  obtain w1 where 1: "reconcile_trade rnd env api account b t w = (Inr (), w1)"
    and 2: "forE ts (reconcile_trade rnd env api account b) w1 = (Inr u, w')"
    using Cons.prems(1) by (auto simp: run_simps split: prod.splits sum.splits)
  have s1: "settles [t_id t \<mapsto> matched_status b] (w_db w) (w_db w1)"
    using reconcile_trade_settles [OF assms 1] Cons.prems(2) by simp
  have "as_read (w_db w1) t'" if t': "t' \<in> set ts" for t'
  proof (rule as_read_settles [OF _ s1])
    have "t_id t' \<noteq> t_id t" using Cons.prems(3) imageI [OF t', of t_id] by auto
    then show "[t_id t \<mapsto> matched_status b] (t_id t') = None" by simp
  qed (use Cons.prems(2) t' in simp)
  then have s2: "settles (\<lambda>i. if i \<in> t_id ` set ts then Some (matched_status b) else None) (w_db w1) (w_db w')"
    using Cons.IH [OF 2] Cons.prems(3) by simp
  have "settles ([t_id t \<mapsto> matched_status b] ++ (\<lambda>i. if i \<in> t_id ` set ts then Some (matched_status b) else None))
      (w_db w) (w_db w')"
    by (rule settles_trans [OF s1 s2]) (use Cons.prems(3) in \<open>auto split: if_splits\<close>)
  moreover have "[t_id t \<mapsto> matched_status b] ++ (\<lambda>i. if i \<in> t_id ` set ts then Some (matched_status b) else None)
      = (\<lambda>i. if i \<in> t_id ` set (t # ts) then Some (matched_status b) else None)"
    by (auto simp: map_add_def fun_eq_iff)
  ultimately show ?case by simp
qed

text \<open>The group of a trade, and what the exchange shows for it.\<close>

abbreviation group_key :: "trade \<Rightarrow> pair \<times> direction" where
  "group_key t \<equiv> (t_pair t, t_direction t)"

definition group_total :: "rounding \<Rightarrow> trade list \<Rightarrow> pair \<times> direction \<Rightarrow> decimal" where
  "group_total rnd ts k = foldl (dadd rnd) 0 (map t_quantity (filter (\<lambda>t. group_key t = k) ts))"

lemma push_group_at:
  "push_group rnd m t k = (if k = group_key t
     then Some (dadd rnd (fst (unwrap_or (m k) (0, []))) (t_quantity t), snd (unwrap_or (m k) (0, [])) @ [t]) else m k)"
  by (auto simp: push_group_def unwrap_or_def split: option.splits prod.splits)

lemma groups_exact:
  "group_trades_for_aggregate_comparison rnd ts k =
     (if \<exists>t \<in> set ts. group_key t = k then Some (group_total rnd ts k, filter (\<lambda>t. group_key t = k) ts) else None)"
  unfolding group_trades_for_aggregate_comparison_def
proof (induction ts rule: rev_induct)
  case (snoc t ts)
  show ?case
  proof (cases "k = group_key t")
    case True
    have "filter (\<lambda>t. group_key t = k) ts = []" if "\<not> (\<exists>t \<in> set ts. group_key t = k)"
      using that by (auto simp: filter_empty_conv)
    then show ?thesis
      using snoc True by (cases "\<exists>t \<in> set ts. group_key t = k") (simp_all add: push_group_at group_total_def unwrap_or_def)
  next
    case False
    then have "\<not> group_key t = k" by auto
    then show ?thesis using snoc False by (simp add: push_group_at [of rnd _ t k] group_total_def del: prod.inject)
  qed
qed simp

lemma entries_exact:
  assumes "iteration_order (hm_groups ho)"
  obtains ks where "distinct ks" and "set ks = group_key ` set ts"
    and "group_entries rnd ho ts = map (\<lambda>k. (k, group_total rnd ts k, filter (\<lambda>t. group_key t = k) ts)) ks"
proof
  let ?ks = "hm_groups ho (remdups (map group_key ts))"
  show "distinct ?ks" "set ?ks = group_key ` set ts"
    using assms by (auto simp: iteration_order_def)
  have "concat (map (\<lambda>k. case group_trades_for_aggregate_comparison rnd ts k of None \<Rightarrow> [] | Some g \<Rightarrow> [(k, g)]) ks) =
      map (\<lambda>k. (k, group_total rnd ts k, filter (\<lambda>t. group_key t = k) ts)) ks" if "set ks \<subseteq> group_key ` set ts" for ks
    using that by (induction ks) (auto simp: groups_exact)
  then show "group_entries rnd ho ts = map (\<lambda>k. (k, group_total rnd ts k, filter (\<lambda>t. group_key t = k) ts)) ?ks"
    using \<open>set ?ks = _\<close> by (simp add: group_entries_def Let_def)
qed

text \<open>The exchange answers each request for positions with \<open>pos\<close>.\<close>

definition shows_positions :: "'x exchange_api \<Rightarrow> (pair \<Rightarrow> exchange_position list) \<Rightarrow> bool" where
  "shows_positions api pos \<longleftrightarrow> (\<forall>p x. fst (api_get_positions api p x) = Inr (pos p))"

lemma fetched_positions:
  assumes "quiet env" and "shows_positions api pos"
  shows "\<exists>w'. fetch_exchange_positions env api pairs w = (Inr (\<lambda>p. if p \<in> set pairs then Some (pos p) else None), w')
    \<and> w_db w' = w_db w"
proof -
  have get: "\<exists>w'. attempt (get_positions_with_retry env api p) w = (Inr (Inr (pos p)), w') \<and> w_db w' = w_db w" for p w
    using assms(2) quiet_tasks [OF assms(1)]
    by (auto simp: get_positions_with_retry_def positions_attempts.simps [of 2] run_simps call_def shows_positions_def
        split: prod.splits sum.splits) (metis fst_conv sum.inject(2) Inl_Inr_False)+
  let ?b = "\<lambda>m pair. bindE (attempt (get_positions_with_retry env api pair)) (\<lambda>r.
       case r of Inr ps \<Rightarrow> returnE (m(pair \<mapsto> ps))
       | Inl e \<Rightarrow> failE (Anyhow ''failed to get_positions: retries exhausted''))"
  have "\<exists>w'. foldE ?b m pairs w = (Inr (\<lambda>p. if p \<in> set pairs then Some (pos p) else m p), w') \<and> w_db w' = w_db w" for m
  proof (induction pairs arbitrary: m w)
    case (Cons p ps)
    obtain w1 where w1: "attempt (get_positions_with_retry env api p) w = (Inr (Inr (pos p)), w1)" "w_db w1 = w_db w"
      using get by blast
    have "foldE ?b m (p # ps) w = foldE ?b (m(p \<mapsto> pos p)) ps w1"
      using w1(1) by (simp add: bindE_def returnE_def)
    moreover have "(\<lambda>q. if q \<in> set ps then Some (pos q) else (m(p \<mapsto> pos p)) q) =
        (\<lambda>q. if q \<in> set (p # ps) then Some (pos q) else m q)"
      by (auto simp: fun_eq_iff)
    ultimately show ?case using Cons.IH [of "m(p \<mapsto> pos p)" w1] w1(2) by metis
  qed (simp add: run_simps)
  from this [of Map.empty] show ?thesis by (simp add: fetch_exchange_positions_def)
qed

section \<open>All groups\<close>

definition group_target :: "(pair \<times> direction \<Rightarrow> bool) \<Rightarrow> trade list \<Rightarrow> pair \<times> direction \<Rightarrow> uuid \<rightharpoonup> string" where
  "group_target held ts k = (\<lambda>i. if i \<in> t_id ` set (filter (\<lambda>t. group_key t = k) ts)
     then Some (matched_status (held k)) else None)"

fun targets :: "(pair \<times> direction \<Rightarrow> bool) \<Rightarrow> trade list \<Rightarrow> (pair \<times> direction) list \<Rightarrow> uuid \<rightharpoonup> string" where
  "targets held ts [] = Map.empty"
| "targets held ts (k # ks) = group_target held ts k ++ targets held ts ks"

lemma same_id: "distinct (map t_id ts) \<Longrightarrow> t \<in> set ts \<Longrightarrow> t' \<in> set ts \<Longrightarrow> t_id t' = t_id t \<Longrightarrow> t' = t"
  by (auto simp: distinct_map dest: inj_onD)

lemma dom_targets: "dom (targets held ts ks) = t_id ` {t \<in> set ts. group_key t \<in> set ks}"
  by (induction ks) (auto simp: group_target_def split: if_splits)

lemma targets_at:
  assumes "distinct (map t_id ts)" and "t \<in> set ts" and "group_key t \<in> set ks"
  shows "targets held ts ks (t_id t) = Some (matched_status (held (group_key t)))"
  using assms(3)
proof (induction ks)
  case (Cons k ks)
  show ?case
  proof (cases "group_key t \<in> set ks")
    case True
    then show ?thesis using Cons.IH by (simp add: map_add_def)
  next
    case False
    then have "t_id t \<notin> dom (targets held ts ks)"
      using same_id [OF assms(1,2)] by (auto simp: dom_targets)
    moreover have "group_key t = k" using Cons.prems False by simp
    ultimately show ?thesis
      using assms(2) by (auto simp: map_add_def group_target_def domIff)
  qed
qed simp

definition exchange_size :: "rounding \<Rightarrow> (pair \<Rightarrow> exchange_position list) \<Rightarrow> pair \<times> direction \<Rightarrow> decimal \<times> bool" where
  "exchange_size rnd pos k = sum_matching_exchange_size rnd (pos (fst k)) (snd k)"

lemma reconcile_groups_settle:
  fixes pos :: "pair \<Rightarrow> exchange_position list" and rnd :: rounding
  defines "held \<equiv> \<lambda>k. 0 < fst (exchange_size rnd pos k)"
  assumes "quiet env" and "distinct (map t_id ts)" and ps: "\<And>t. t \<in> set ts \<Longrightarrow> ps (t_pair t) = Some (pos (t_pair t))"
  shows "forE (map (\<lambda>k. (k, group_total rnd ts k, filter (\<lambda>t. group_key t = k) ts)) ks)
      (reconcile_group rnd env api account ps) w = (Inr u, w') \<Longrightarrow> distinct ks \<Longrightarrow> set ks \<subseteq> group_key ` set ts \<Longrightarrow>
    \<forall>t \<in> set ts. group_key t \<in> set ks \<longrightarrow> as_read (w_db w) t \<Longrightarrow>
    settles (targets held ts ks) (w_db w) (w_db w') \<and> (\<forall>k \<in> set ks. \<not> snd (exchange_size rnd pos k) \<and>
      (0 < fst (exchange_size rnd pos k) \<longrightarrow> fst (exchange_size rnd pos k) = group_total rnd ts k))"
proof (induction ks arbitrary: w)
  case Nil
  then show ?case using settles_same [of "w_db w'" "w_db w"] by (simp add: run_simps)
next
  case (Cons k ks)
  obtain p d where k: "k = (p, d)" by fastforce
  have "p \<in> t_pair ` set ts" using Cons.prems(3) k by auto
  then have pp: "unwrap_or (ps p) [] = pos p" using ps by (auto simp: unwrap_or_def)
  obtain sz cf where sz: "exchange_size rnd pos k = (sz, cf)" by fastforce
  let ?g = "filter (\<lambda>t. group_key t = k) ts"
  obtain w1 where 0: "reject_aggregate_mismatch (group_total rnd ts k) sz cf = Inr ()"
    and 1: "forE ?g (reconcile_trade rnd env api account (held k)) w = (Inr (), w1)"
    and 2: "forE (map (\<lambda>k. (k, group_total rnd ts k, filter (\<lambda>t. group_key t = k) ts)) ks)
      (reconcile_group rnd env api account ps) w1 = (Inr u, w')"
    using Cons.prems(1) pp sz k
    by (auto simp: reconcile_group_def exchange_size_def held_def bindE_run liftR_run split: prod.splits sum.splits)
  have agree: "\<not> cf \<and> (0 < sz \<longrightarrow> sz = group_total rnd ts k)"
    using 0 by (auto simp: reject_aggregate_mismatch_def split: if_splits)
  have g: "\<forall>t \<in> set ?g. as_read (w_db w) t" "distinct (map t_id ?g)"
    using Cons.prems(4) assms(3) by (auto simp: distinct_map intro: inj_on_subset)
  have s1: "settles (group_target held ts k) (w_db w) (w_db w1)"
    using reconcile_trades_settle [OF assms(2) 1 g] by (simp add: group_target_def)
  have "as_read (w_db w1) t" if "t \<in> set ts" "group_key t \<in> set ks" for t
  proof (rule as_read_settles [OF _ s1])
    show "as_read (w_db w) t" using Cons.prems(4) that by simp
    have "group_key t \<noteq> k" using Cons.prems(2) that(2) by auto
    then show "group_target held ts k (t_id t) = None"
      using same_id [OF assms(3) that(1)] by (auto simp: group_target_def)
  qed
  then have s2: "settles (targets held ts ks) (w_db w1) (w_db w') \<and> (\<forall>k \<in> set ks. \<not> snd (exchange_size rnd pos k) \<and>
      (0 < fst (exchange_size rnd pos k) \<longrightarrow> fst (exchange_size rnd pos k) = group_total rnd ts k))"
    using Cons.IH [OF 2] Cons.prems(2,3) by simp
  have "dom (group_target held ts k) \<inter> dom (targets held ts ks) = {}"
  proof -
    have False if in1: "i \<in> dom (group_target held ts k)" and in2: "i \<in> dom (targets held ts ks)" for i
    proof -
      obtain t where t: "t \<in> set ts" "group_key t = k" "t_id t = i"
        using in1 unfolding group_target_def dom_def by (force split: if_splits)
      obtain t' where t': "t' \<in> set ts" "group_key t' \<in> set ks" "t_id t' = i"
        using in2 unfolding dom_targets by blast
      then have "t' = t" using same_id [OF assms(3) t(1)] t(3) by simp
      then show False using t(2) t'(2) Cons.prems(2) by simp
    qed
    then show ?thesis by blast
  qed
  from settles_trans [OF s1 conjunct1 [OF s2] this] show ?case using s2 sz agree by simp
qed

section \<open>An account\<close>

lemma listed_trades:
  assumes "list_open_or_closing_by_account aid db = (Inr ts, db')"
  shows "list_all2 (\<lambda>r t. trade_of_row r = Inr t) (newest_first (filter (\<lambda>r. r_account_id r = aid \<and> unsettled r) (trades db))) ts"
    and "trades db' = trades db"
proof -
  have "collectR trade_of_row (newest_first (filter (\<lambda>r. r_account_id r = aid \<and> unsettled r) (trades db))) = Inr ts"
    using assms unfolding list_open_or_closing_by_account_def select_trades_def
    by (auto simp: run_simps split: prod.splits sum.splits dest!: stmt_Inr)
  then show "list_all2 (\<lambda>r t. trade_of_row r = Inr t) (newest_first (filter (\<lambda>r. r_account_id r = aid \<and> unsettled r) (trades db))) ts"
    by (rule collectR_Inr_nth)
  obtain fs where "db' = db\<lparr>faults := fs\<rparr>"
    using reads_only_account_queries(2) assms unfolding reads_only_def by (metis snd_conv)
  then show "trades db' = trades db" by simp
qed

lemma list_all2_right: "list_all2 P xs ys \<Longrightarrow> y \<in> set ys \<Longrightarrow> \<exists>x \<in> set xs. P x y"
  by (induction rule: list_all2_induct) auto

lemma listed_as_read:
  assumes "list_open_or_closing_by_account aid db = (Inr ts, db')" and "keyed db"
  shows "distinct (map t_id ts)"
    and "t \<in> set ts \<Longrightarrow> as_read db t \<and> (\<exists>r \<in> set (trades db). r_id r = t_id t)"
proof -
  let ?rows = "newest_first (filter (\<lambda>r. r_account_id r = aid \<and> unsettled r) (trades db))"
  note l = listed_trades(1) [OF assms(1)]
  then have "map t_id ts = map r_id ?rows"
    by (induction rule: list_all2_induct) (auto dest: trade_of_row_fields(1))
  then show "distinct (map t_id ts)"
    using assms(2) by (auto simp: keyed_def newest_first_def distinct_map intro: inj_on_subset)
  show "as_read db t \<and> (\<exists>r \<in> set (trades db). r_id r = t_id t)" if t: "t \<in> set ts"
  proof -
    obtain r where "r \<in> set ?rows" "trade_of_row r = Inr t"
      using list_all2_right [OF l t] by blast
    then have r: "r \<in> set (trades db)" "trade_of_row r = Inr t" by (auto simp: newest_first_def)
    have "r' = r" if "r' \<in> set (trades db)" "r_id r' = t_id t" for r'
      using assms(2) that r trade_of_row_fields(1) [OF r(2)] by (auto simp: keyed_def distinct_map dest: inj_onD)
    then show ?thesis using r(1) trade_of_row_fields(1,7) [OF r(2)] by (auto simp: as_read_def)
  qed
qed

text \<open>
  C38. After a successful reconciliation the trades of the account agree with the exchange. When
  the exchange answers with \<open>pos\<close> and no other task touches the database, for every open or
  closing trade of the account: the positions of its pair show no size on the other side; if they
  show a size on its side, that size is the total of all trades of its pair and direction, and the
  trade is open; otherwise it is closed. Every other row is as before. So a run that meets a
  conflict or another size fails.
\<close>

theorem reconcile_agrees_with_exchange:
  assumes "quiet env" and "keyed (w_db w)" and "shows_positions api pos"
    and "iteration_order (hm_pairs ho)" and "iteration_order (hm_groups ho)"
    and "reconcile_one_account rnd env ho account api w = (Inr (), w')"
  shows "\<exists>ts db. list_open_or_closing_by_account (a_id account) (w_db w) = (Inr ts, db) \<and>
    map r_id (trades (w_db w')) = map r_id (trades (w_db w)) \<and>
    (\<forall>t \<in> set ts. \<forall>sz conflicting. exchange_size rnd pos (group_key t) = (sz, conflicting) \<longrightarrow>
       \<not> conflicting \<and> (0 < sz \<longrightarrow> sz = group_total rnd ts (group_key t)) \<and>
       (\<exists>r \<in> set (trades (w_db w')). r_id r = t_id t \<and> r_status r = (if 0 < sz then ''open'' else ''closed''))) \<and>
    (\<forall>r \<in> set (trades (w_db w)). r_id r \<notin> t_id ` set ts \<longrightarrow> r \<in> set (trades (w_db w')))"
proof -
  obtain ts w1 where 1: "dbE env (list_open_or_closing_by_account (a_id account)) w = (Inr ts, w1)"
    and 2: "(if ts = [] then returnE () else bindE (fetch_exchange_positions env api (collect_distinct_pairs ho ts))
      (\<lambda>ps. forE (group_entries rnd ho ts) (reconcile_group rnd env api account ps))) w1 = (Inr (), w')"
    using assms(6) by (auto simp: reconcile_one_account_def bindE_run split: prod.splits sum.splits)
  have read: "list_open_or_closing_by_account (a_id account) (w_db w) = (Inr ts, w_db w1)"
    using undisturbed_dbE [OF assms(1) 1] by blast
  note l = listed_trades(2) [OF read] listed_as_read [OF read assms(2)]
  let ?held = "\<lambda>k. 0 < fst (exchange_size rnd pos k)"
  obtain T where T: "settles T (w_db w) (w_db w')" "dom T = t_id ` set ts"
    and agree: "\<And>t. t \<in> set ts \<Longrightarrow> T (t_id t) = Some (matched_status (?held (group_key t))) \<and> \<not> snd (exchange_size rnd pos (group_key t))
      \<and> (?held (group_key t) \<longrightarrow> fst (exchange_size rnd pos (group_key t)) = group_total rnd ts (group_key t))"
  proof (cases "ts = []")
    case True
    then have "settles Map.empty (w_db w) (w_db w')" using 2 l(1) by (intro settles_same) (auto simp: run_simps)
    then show thesis by (rule that) (simp_all add: True)
  next
    case False
    obtain w2 where ps: "fetch_exchange_positions env api (collect_distinct_pairs ho ts) w1 =
        (Inr (\<lambda>p. if p \<in> set (collect_distinct_pairs ho ts) then Some (pos p) else None), w2)" "w_db w2 = w_db w1"
      using fetched_positions [OF assms(1,3)] by blast
    have pairs: "set (collect_distinct_pairs ho ts) = t_pair ` set ts"
      using assms(4) by (auto simp: collect_distinct_pairs_def iteration_order_def)
    obtain ks where ks: "distinct ks" "set ks = group_key ` set ts"
      "group_entries rnd ho ts = map (\<lambda>k. (k, group_total rnd ts k, filter (\<lambda>t. group_key t = k) ts)) ks"
      by (rule entries_exact [OF assms(5)])
    have run: "forE (map (\<lambda>k. (k, group_total rnd ts k, filter (\<lambda>t. group_key t = k) ts)) ks)
        (reconcile_group rnd env api account (\<lambda>p. if p \<in> t_pair ` set ts then Some (pos p) else None)) w2 = (Inr (), w')"
      using 2 False ps(1) unfolding pairs ks(3) by (simp add: bindE_run)
    have "settles (targets ?held ts ks) (w_db w2) (w_db w') \<and> (\<forall>k \<in> set ks. \<not> snd (exchange_size rnd pos k) \<and>
      (0 < fst (exchange_size rnd pos k) \<longrightarrow> fst (exchange_size rnd pos k) = group_total rnd ts k))"
      by (rule reconcile_groups_settle [OF assms(1) l(2) _ run ks(1)])
        (use ks(2) l(3) as_read_trades [OF l(1)] ps(2) in auto)
    then show thesis
      using ks(2) l(1) ps(2) targets_at [OF l(2)] dom_targets [of ?held ts ks]
      by (intro that [of "targets ?held ts ks"]) (auto simp: settles_def)
  qed
  have ids: "map r_id (trades (w_db w')) = map r_id (trades (w_db w))" by (rule settles_ids [OF T(1)])
  obtain g where g: "trades (w_db w') = map g (trades (w_db w))" "\<And>r. r_id (g r) = r_id r"
    and at: "\<And>r. r \<in> set (trades (w_db w)) \<Longrightarrow> case T (r_id r) of None \<Rightarrow> g r = r | Some s \<Rightarrow> r_status (g r) = s"
    using T(1) unfolding settles_def by blast
  have kept: "r \<in> set (trades (w_db w'))" if "r \<in> set (trades (w_db w))" "r_id r \<notin> t_id ` set ts" for r
  proof -
    have "T (r_id r) = None" using that(2) T(2) by (metis domIff)
    then have "g r = r" using at [OF that(1)] by simp
    then show ?thesis using g(1) imageI [OF that(1), of g] by simp
  qed
  have got: "\<exists>r \<in> set (trades (w_db w')). r_id r = t_id t \<and> r_status r = matched_status (?held (group_key t))"
    if t: "t \<in> set ts" for t
  proof -
    obtain r where r: "r \<in> set (trades (w_db w))" "r_id r = t_id t" using l(3) [OF t] by blast
    then have "r_status (g r) = matched_status (?held (group_key t))" using at [OF r(1)] agree [OF t] by simp
    then show ?thesis using g r by (intro bexI [of _ "g r"]) simp_all
  qed
  have "\<not> cf \<and> (0 < sz \<longrightarrow> sz = group_total rnd ts (group_key t)) \<and>
      (\<exists>r \<in> set (trades (w_db w')). r_id r = t_id t \<and> r_status r = (if 0 < sz then ''open'' else ''closed''))"
    if "t \<in> set ts" and "exchange_size rnd pos (group_key t) = (sz, cf)" for t sz cf
    using agree [OF that(1)] got [OF that(1)] that(2) by (simp add: matched_status_def)
  then show ?thesis using read ids kept by blast
qed

text \<open>The exchange shows no position for the open trade of the demo account: it is closed.\<close>

definition flat_api :: "int exchange_api" where
  "flat_api = demo_api\<lparr>api_get_positions := (\<lambda>_ x. (Inr [], x + 1))\<rparr>"

definition list_order :: hash_orders where
  "list_order = \<lparr>hm_pairs = (\<lambda>ks. ks), hm_groups = (\<lambda>ks. ks)\<rparr>"

theorem reconcile_agrees_with_exchange_witness:
  "\<exists>w'. reconcile_one_account exact demo_env list_order demo_gmo_account flat_api (demo_world demo_stop_db) = (Inr (), w')
    \<and> (\<exists>r \<in> set (trades (w_db w')). r_id r = 7 \<and> r_status r = ''closed'')"
proof -
  have env: "quiet demo_env" by (simp add: quiet_def)
  have key: "keyed (w_db (demo_world demo_stop_db))" by (simp add: keyed_def) code_simp
  have api: "shows_positions flat_api (\<lambda>_. [])" by (simp add: shows_positions_def flat_api_def)
  have ord: "iteration_order (hm_pairs list_order)" "iteration_order (hm_groups list_order)"
    by (simp_all add: iteration_order_def list_order_def)
  have "fst (reconcile_one_account exact demo_env list_order demo_gmo_account flat_api (demo_world demo_stop_db)) = Inr ()"
    by code_simp
  then obtain w' where run: "reconcile_one_account exact demo_env list_order demo_gmo_account flat_api
      (demo_world demo_stop_db) = (Inr (), w')" by (metis prod.collapse)
  have ids: "map t_id (case fst (list_open_or_closing_by_account (a_id demo_gmo_account) (w_db (demo_world demo_stop_db))) of
      Inr ts \<Rightarrow> ts | Inl _ \<Rightarrow> []) = [7]" by code_simp
  obtain ts where read: "fst (list_open_or_closing_by_account (a_id demo_gmo_account) (w_db (demo_world demo_stop_db))) = Inr ts"
    and agree: "\<And>t sz cf. t \<in> set ts \<Longrightarrow> exchange_size exact (\<lambda>_. []) (group_key t) = (sz, cf) \<Longrightarrow>
      \<exists>r \<in> set (trades (w_db w')). r_id r = t_id t \<and> r_status r = (if 0 < sz then ''open'' else ''closed'')"
    using reconcile_agrees_with_exchange [OF env key api ord run] by (elim exE conjE) (metis fst_conv)
  have "map t_id ts = [7]" using ids read by simp
  then obtain t where "t \<in> set ts" "t_id t = 7" by (cases ts) auto
  then show ?thesis
    using run agree [of t 0 False] by (auto simp: exchange_size_def sum_matching_exchange_size_def)
qed

end
