(* ===== verification/Wire.thy ===== *)
theory Wire
  imports Exchange_Api
begin

text \<open>
  What the exchange clients of \<open>market/src/*_private\<close> share: integers as text, JSON values, the
  HTTP requests they send and the network they send them on. The HTTP library, the clock, the
  request limiters, the hash function, the URL encoding and the text forms of decimals, times and
  JSON values are parameters: the records \<open>wire\<close> and \<open>codec\<close>. A \<open>net\<close> is the outside state
  together with all requests sent so far.
\<close>

section \<open>Integers as text\<close>

definition digit :: "nat \<Rightarrow> char" where
  "digit d = char_of (48 + d)"

definition digit_value :: "char \<Rightarrow> nat option" where
  "digit_value c = (let n = of_char c in if 48 \<le> n \<and> n \<le> 57 then Some (n - 48) else None)"

fun nat_text :: "nat \<Rightarrow> string" where
  "nat_text n = (if n < 10 then [digit n] else nat_text (n div 10) @ [digit (n mod 10)])"

declare nat_text.simps [simp del]

definition int_text :: "int \<Rightarrow> string" where
  "int_text i = (if i < 0 then CHR ''-'' # nat_text (nat (- i)) else nat_text (nat i))"

fun parse_digits :: "nat \<Rightarrow> string \<Rightarrow> nat option" where
  "parse_digits acc [] = Some acc"
| "parse_digits acc (c # cs) =
     (case digit_value c of None \<Rightarrow> None | Some d \<Rightarrow> parse_digits (10 * acc + d) cs)"

definition parse_nat :: "string \<Rightarrow> nat option" where
  "parse_nat s = (if s = [] then None else parse_digits 0 s)"

text \<open>\<open>str::parse\<close> for \<open>u64\<close> and \<open>i64\<close>: an optional sign, then digits, within the range.\<close>

definition parse_u64 :: "string \<Rightarrow> nat option" where
  "parse_u64 s =
     (case parse_nat (case s of CHR ''+'' # r \<Rightarrow> r | _ \<Rightarrow> s) of
        Some n \<Rightarrow> if n < 2 ^ 64 then Some n else None
      | None \<Rightarrow> None)"

definition in_i64 :: "int \<Rightarrow> bool" where
  "in_i64 i \<longleftrightarrow> - (2 ^ 63) \<le> i \<and> i < 2 ^ 63"

definition signed_value :: "string \<Rightarrow> int option" where
  "signed_value s = (case s of
     CHR ''-'' # r \<Rightarrow> map_option (\<lambda>n. - int n) (parse_nat r)
   | CHR ''+'' # r \<Rightarrow> map_option int (parse_nat r)
   | _ \<Rightarrow> map_option int (parse_nat s))"

definition parse_i64 :: "string \<Rightarrow> int option" where
  "parse_i64 s = (case signed_value s of Some i \<Rightarrow> if in_i64 i then Some i else None | None \<Rightarrow> None)"

lemma digit_value_digit: "d < 10 \<Longrightarrow> digit_value (digit d) = Some d"
  by (simp add: digit_value_def digit_def)

lemma parse_digits_append:
  "parse_digits acc (s @ [c]) =
     (case parse_digits acc s of None \<Rightarrow> None | Some n \<Rightarrow> map_option (\<lambda>d. 10 * n + d) (digit_value c))"
  by (induction s arbitrary: acc) (auto split: option.split)

lemma parse_nat_text: "parse_digits 0 (nat_text n) = Some n"
proof (induction n rule: nat_text.induct)
  case (1 n)
  show ?case
    by (subst nat_text.simps) (use 1 in \<open>simp add: digit_value_digit parse_digits_append\<close>)
qed

lemma nat_text_starts: "\<exists>d cs. nat_text n = digit d # cs \<and> d < 10"
proof (induction n rule: nat_text.induct)
  case (1 n)
  show ?case
  proof (cases "n < 10")
    case False
    then obtain d cs where "nat_text (n div 10) = digit d # cs" "d < 10" using 1 by blast
    then show ?thesis using False by (subst nat_text.simps) auto
  qed (subst nat_text.simps, auto)
qed

lemma digit_no_sign: "d < 10 \<Longrightarrow> digit d \<noteq> CHR ''+'' \<and> digit d \<noteq> CHR ''-''"
  using digit_value_digit [of d] by (auto simp: digit_value_def)

lemma parse_nat_of_text: "parse_nat (nat_text n) = Some n"
  using nat_text_starts [of n] parse_nat_text [of n] by (auto simp: parse_nat_def)

lemma sign_split:
  "c \<noteq> CHR ''+'' \<Longrightarrow> (case c # cs of CHR ''+'' # r \<Rightarrow> f r | _ \<Rightarrow> g) = g"
  "c \<noteq> CHR ''+'' \<Longrightarrow> c \<noteq> CHR ''-'' \<Longrightarrow>
     (case c # cs of CHR ''-'' # r \<Rightarrow> h r | CHR ''+'' # r \<Rightarrow> f r | _ \<Rightarrow> g) = g"
  by (auto split: char.splits bool.splits)

lemma u64_roundtrip: "n < 2 ^ 64 \<Longrightarrow> parse_u64 (nat_text n) = Some n"
proof -
  assume n: "n < 2 ^ 64"
  obtain d cs where t: "nat_text n = digit d # cs" "d < 10" using nat_text_starts by blast
  have "(case nat_text n of CHR ''+'' # r \<Rightarrow> r | _ \<Rightarrow> nat_text n) = nat_text n"
    unfolding t(1) by (rule sign_split) (use digit_no_sign [OF t(2)] in simp)
  then show ?thesis using n by (simp only: parse_u64_def parse_nat_of_text option.case if_True)
qed

lemma signed_text: "signed_value (int_text i) = Some i"
proof (cases "i < 0")
  case True
  then show ?thesis by (simp add: signed_value_def int_text_def parse_nat_of_text)
next
  case False
  obtain d cs where t: "nat_text (nat i) = digit d # cs" "d < 10" using nat_text_starts by blast
  have "signed_value (nat_text (nat i)) = map_option int (parse_nat (nat_text (nat i)))"
    unfolding signed_value_def t(1)
    by (rule sign_split) (use digit_no_sign [OF t(2)] in simp_all)
  then show ?thesis using False by (simp add: int_text_def parse_nat_of_text)
qed

lemma i64_roundtrip: "in_i64 i \<Longrightarrow> parse_i64 (int_text i) = Some i"
  by (simp add: parse_i64_def signed_text)

section \<open>JSON values\<close>

datatype json = JNull | JBool bool | JNumber rat | JString string | JArray "json list"
  | JObject "(string \<times> json) list"

fun json_get :: "string \<Rightarrow> json \<Rightarrow> json option" where
  "json_get key (JObject kvs) = map_of kvs key"
| "json_get key _ = None"

fun as_str :: "json \<Rightarrow> string option" where
  "as_str (JString s) = Some s"
| "as_str _ = None"

fun as_array :: "json \<Rightarrow> json list option" where
  "as_array (JArray xs) = Some xs"
| "as_array _ = None"

definition get_str :: "string \<Rightarrow> json \<Rightarrow> string option" where
  "get_str key j = (case json_get key j of None \<Rightarrow> None | Some v \<Rightarrow> as_str v)"

section \<open>The network\<close>

record http_request =
  hq_method :: string
  hq_url :: string
  hq_headers :: "string \<rightharpoonup> string"
  hq_body :: "string option"

text \<open>The body of a response may fail to arrive.\<close>

record http_response =
  hr_status :: nat
  hr_headers :: "string \<rightharpoonup> string"
  hr_text :: "string + string"

definition is_success :: "http_response \<Rightarrow> bool" where
  "is_success resp \<longleftrightarrow> 200 \<le> hr_status resp \<and> hr_status resp < 300"

record 'x net =
  nt_out :: 'x
  nt_sent :: "http_request list"

record 'x wire =
  wr_http :: "http_request \<Rightarrow> ('x, http_response) outcall"
  wr_now :: "'x \<Rightarrow> datetime"
  wr_wait :: "string \<Rightarrow> 'x \<Rightarrow> 'x"

record codec =
  cd_sign :: "string \<Rightarrow> string \<Rightarrow> string"
  cd_url_encode :: "string \<Rightarrow> string"
  cd_dec_text :: "decimal \<Rightarrow> string"
  cd_dec_parse :: "string \<Rightarrow> string + decimal"
  cd_time_parse :: "string \<Rightarrow> datetime option"
  cd_json_text :: "json \<Rightarrow> string"
  cd_json_parse :: "string \<Rightarrow> string + json"

text \<open>Calls on the network with an error type \<open>'e\<close> of their own.\<close>

type_synonym ('x, 'e, 'a) netcall = "'x net \<Rightarrow> ('e + 'a) \<times> 'x net"

definition okN :: "'a \<Rightarrow> ('x, 'e, 'a) netcall" where
  "okN a = (\<lambda>n. (Inr a, n))"

definition failN :: "'e \<Rightarrow> ('x, 'e, 'a) netcall" where
  "failN e = (\<lambda>n. (Inl e, n))"

definition liftN :: "'e + 'a \<Rightarrow> ('x, 'e, 'a) netcall" where
  "liftN r = (\<lambda>n. (r, n))"

definition bindN :: "('x, 'e, 'a) netcall \<Rightarrow> ('a \<Rightarrow> ('x, 'e, 'b) netcall) \<Rightarrow> ('x, 'e, 'b) netcall" where
  "bindN m f = (\<lambda>n. case m n of (Inl e, n') \<Rightarrow> (Inl e, n') | (Inr a, n') \<Rightarrow> f a n')"

definition map_errN :: "('e \<Rightarrow> 'd) \<Rightarrow> ('x, 'e, 'a) netcall \<Rightarrow> ('x, 'd, 'a) netcall" where
  "map_errN h m = (\<lambda>n. case m n of (Inl e, n') \<Rightarrow> (Inl (h e), n') | (Inr a, n') \<Rightarrow> (Inr a, n'))"

definition attemptN :: "('x, 'e, 'a) netcall \<Rightarrow> ('x, 'd, 'e + 'a) netcall" where
  "attemptN m = (\<lambda>n. case m n of (r, n') \<Rightarrow> (Inr r, n'))"

fun mapN :: "('a \<Rightarrow> ('x, 'e, 'b) netcall) \<Rightarrow> 'a list \<Rightarrow> ('x, 'e, 'b list) netcall" where
  "mapN f [] = okN []"
| "mapN f (a # as) = bindN (f a) (\<lambda>b. bindN (mapN f as) (\<lambda>bs. okN (b # bs)))"

definition ok_orN :: "'e \<Rightarrow> 'a option \<Rightarrow> 'e + 'a" where
  "ok_orN e a = (case a of None \<Rightarrow> Inl e | Some v \<Rightarrow> Inr v)"

definition map_left :: "('e \<Rightarrow> 'd) \<Rightarrow> 'e + 'a \<Rightarrow> 'd + 'a" where
  "map_left h r = (case r of Inl e \<Rightarrow> Inl (h e) | Inr a \<Rightarrow> Inr a)"

definition send_http :: "'x wire \<Rightarrow> http_request \<Rightarrow> ('x, string, http_response) netcall" where
  "send_http wire rq = (\<lambda>n. case wr_http wire rq (nt_out n) of
     (r, x) \<Rightarrow> (r, n\<lparr>nt_out := x, nt_sent := nt_sent n @ [rq]\<rparr>))"

definition nowN :: "'x wire \<Rightarrow> ('x, 'e, datetime) netcall" where
  "nowN wire = (\<lambda>n. (Inr (wr_now wire (nt_out n)), n))"

definition waitN :: "'x wire \<Rightarrow> string \<Rightarrow> ('x, 'e, unit) netcall" where
  "waitN wire limiter = (\<lambda>n. (Inr (), n\<lparr>nt_out := wr_wait wire limiter (nt_out n)\<rparr>))"

definition unix_secs :: "datetime \<Rightarrow> int" where
  "unix_secs t = t div nanos_per_sec"

definition unix_millis :: "datetime \<Rightarrow> int" where
  "unix_millis t = t div 1000000"

lemma netcall_run [run_simps]:
  "okN a n = (Inr a, n)"
  "failN e n = (Inl e, n)"
  "liftN r n = (r, n)"
  "bindN m f n = (case m n of (Inl e, n') \<Rightarrow> (Inl e, n') | (Inr a, n') \<Rightarrow> f a n')"
  "map_errN h m n = (case m n of (Inl e, n') \<Rightarrow> (Inl (h e), n') | (Inr a, n') \<Rightarrow> (Inr a, n'))"
  "attemptN m n = (case m n of (r, n') \<Rightarrow> (Inr r, n'))"
  "nowN wire n = (Inr (wr_now wire (nt_out n)), n)"
  "waitN wire limiter n = (Inr (), n\<lparr>nt_out := wr_wait wire limiter (nt_out n)\<rparr>)"
  by (simp_all add: okN_def failN_def liftN_def bindN_def map_errN_def attemptN_def nowN_def waitN_def)

section \<open>What a call sends\<close>

text \<open>\<open>sends P m\<close>: every run of \<open>m\<close> only appends requests that satisfy \<open>P\<close>.\<close>

definition sends :: "(http_request \<Rightarrow> bool) \<Rightarrow> ('x net \<Rightarrow> 'r \<times> 'x net) \<Rightarrow> bool" where
  "sends P m \<longleftrightarrow> (\<forall>n. \<exists>new. nt_sent (snd (m n)) = nt_sent n @ new \<and> list_all P new)"

named_theorems sends_rules

lemma sendsD: "sends P m \<Longrightarrow> m n = (r, n') \<Longrightarrow> \<exists>new. nt_sent n' = nt_sent n @ new \<and> list_all P new"
  unfolding sends_def by (metis snd_conv)

lemma sendsI:
  "(\<And>n r n'. m n = (r, n') \<Longrightarrow> \<exists>new. nt_sent n' = nt_sent n @ new \<and> list_all P new) \<Longrightarrow> sends P m"
  unfolding sends_def by (metis prod.collapse)

lemma sends_weaken: "sends P m \<Longrightarrow> (\<And>rq. P rq \<Longrightarrow> Q rq) \<Longrightarrow> sends Q m"
  unfolding sends_def list_all_iff by metis

lemma sends_pure [sends_rules]:
  "sends P (okN a)" "sends P (failN e)" "sends P (liftN r)" "sends P (nowN wire)" "sends P (waitN wire l)"
  by (auto simp: sends_def run_simps)

lemma sends_http [sends_rules]: "P rq \<Longrightarrow> sends P (send_http wire rq)"
  by (auto simp: sends_def send_http_def split: prod.splits)

lemma sends_bind [sends_rules]:
  assumes "sends P m" and "\<And>a. sends P (f a)"
  shows "sends P (bindN m f)"
proof (rule sendsI)
  fix n r n' assume run: "bindN m f n = (r, n')"
  obtain r1 n1 where m: "m n = (r1, n1)" by fastforce
  from sendsD [OF assms(1) m] obtain a where a: "nt_sent n1 = nt_sent n @ a" "list_all P a" by blast
  show "\<exists>new. nt_sent n' = nt_sent n @ new \<and> list_all P new"
  proof (cases r1)
    case (Inl e)
    then show ?thesis using run m a by (auto simp: run_simps)
  next
    case (Inr x)
    then have "f x n1 = (r, n')" using run m by (simp add: run_simps)
    from sendsD [OF assms(2) this] a show ?thesis by auto
  qed
qed

lemma sends_map_err [sends_rules]: "sends P m \<Longrightarrow> sends P (map_errN h m)"
  unfolding sends_def by (auto simp: run_simps split: prod.splits sum.splits) (metis snd_conv)+

lemma sends_attempt [sends_rules]: "sends P m \<Longrightarrow> sends P (attemptN m)"
  unfolding sends_def by (auto simp: run_simps split: prod.splits) (metis snd_conv)

lemma sends_map [sends_rules]: "(\<And>a. sends P (f a)) \<Longrightarrow> sends P (mapN f as)"
  by (induction as) (simp_all add: sends_rules)

lemma sends_cases [sends_rules]:
  "(c \<Longrightarrow> sends P a) \<Longrightarrow> (\<not> c \<Longrightarrow> sends P b) \<Longrightarrow> sends P (if c then a else b)"
  by simp

lemma sends_option [sends_rules]:
  "(x = None \<Longrightarrow> sends P f) \<Longrightarrow> (\<And>v. x = Some v \<Longrightarrow> sends P (g v)) \<Longrightarrow>
   sends P (case x of None \<Rightarrow> f | Some v \<Rightarrow> g v)"
  by (cases x) auto

lemma sends_sum [sends_rules]:
  "(\<And>a. r = Inl a \<Longrightarrow> sends P (f a)) \<Longrightarrow> (\<And>b. r = Inr b \<Longrightarrow> sends P (g b)) \<Longrightarrow>
   sends P (case r of Inl a \<Rightarrow> f a | Inr b \<Rightarrow> g b)"
  by (cases r) auto

lemma sends_list [sends_rules]:
  "sends P f \<Longrightarrow> (\<And>y ys. sends P (g y ys)) \<Longrightarrow> sends P (case xs of [] \<Rightarrow> f | y # ys \<Rightarrow> g y ys)"
  by (cases xs) auto

lemma sends_prod [sends_rules]: "(\<And>a b. x = (a, b) \<Longrightarrow> sends P (f a b)) \<Longrightarrow> sends P (case x of (a, b) \<Rightarrow> f a b)"
  by (cases x) auto

end
