(* ===== verification/Bitflyer_Client.thy ===== *)
theory Bitflyer_Client
  imports Wire
begin

text \<open>
  The bitFlyer client: \<open>market/src/bitflyer_private\<close>. Requests are signed and sent by
  \<open>bitflyer_request\<close>; the operations build the path or the body, and read the response with the
  derived decoders, which are the parameter \<open>bitflyer_decoders\<close>. The last definition collects the
  operations into the \<open>ExchangeApi\<close> of the trader.
\<close>

section \<open>Errors\<close>

datatype bitflyer_error =
    InsufficientFunds string
  | InvalidApiKey
  | InvalidSignature
  | RateLimited "nat option"
  | OrderNotFound string
  | ApiError int string
  | HttpError string
  | InvalidResponse string

record bitflyer_error_body =
  eb_status :: int
  eb_error_message :: string
  eb_data :: json

definition from_body :: "bitflyer_error_body \<Rightarrow> bitflyer_error" where
  "from_body body =
     (if eb_status body = -200 \<or> eb_status body = -205 then InsufficientFunds (eb_error_message body)
      else if eb_status body = -201 then InvalidApiKey
      else if eb_status body = -207 then InvalidSignature
      else if eb_status body = -208 then OrderNotFound (eb_error_message body)
      else ApiError (eb_status body) (eb_error_message body))"

fun bitflyer_error_text :: "bitflyer_error \<Rightarrow> string" where
  "bitflyer_error_text (InsufficientFunds m) = ''invalid order: insufficient funds: '' @ m"
| "bitflyer_error_text InvalidApiKey = ''invalid api key''"
| "bitflyer_error_text InvalidSignature = ''invalid signature''"
| "bitflyer_error_text (RateLimited d) = ''failed to send request: rate limited, retry after '' @
     (case d of None \<Rightarrow> ''None'' | Some s \<Rightarrow> ''Some('' @ nat_text s @ ''s)'')"
| "bitflyer_error_text (OrderNotFound m) = ''invalid order: not found: '' @ m"
| "bitflyer_error_text (ApiError st m) =
     ''failed to call bitflyer api: status='' @ int_text st @ '' message='' @ m"
| "bitflyer_error_text (HttpError e) = ''failed to send http request: '' @ e"
| "bitflyer_error_text (InvalidResponse e) = ''invalid response: '' @ e"

section \<open>Requests\<close>

record bitflyer_client =
  bf_base_url :: string
  bf_api_key :: string
  bf_api_secret :: string
  bf_rate_limiter :: bool

definition bitflyer_sign :: "codec \<Rightarrow> string \<Rightarrow> string \<Rightarrow> string \<Rightarrow> string \<Rightarrow> string \<Rightarrow> string" where
  "bitflyer_sign cd api_secret timestamp meth path body =
     cd_sign cd api_secret (timestamp @ meth @ path @ body)"

definition auth_headers :: "codec \<Rightarrow> bitflyer_client \<Rightarrow> string \<Rightarrow> string \<Rightarrow> string \<Rightarrow> string \<Rightarrow> (string \<rightharpoonup> string)" where
  "auth_headers cd c timestamp meth path body =
     (let sig = bitflyer_sign cd (bf_api_secret c) timestamp meth path body in
      [''ACCESS-KEY'' \<mapsto> bf_api_key c, ''ACCESS-TIMESTAMP'' \<mapsto> timestamp, ''ACCESS-SIGN'' \<mapsto> sig])"

definition parse_retry_after :: "http_response \<Rightarrow> nat option" where
  "parse_retry_after resp = (case hr_headers resp ''retry-after'' of None \<Rightarrow> None | Some h \<Rightarrow> parse_u64 h)"

definition MAX_ERROR_BODY_CHARS :: nat where "MAX_ERROR_BODY_CHARS = 512"

definition truncate_body :: "string \<Rightarrow> string" where
  "truncate_body = take MAX_ERROR_BODY_CHARS"

definition bitflyer_response ::
  "(string \<Rightarrow> string + bitflyer_error_body) \<Rightarrow> http_response \<Rightarrow> bitflyer_error + string" where
  "bitflyer_response decode_error resp =
     (if hr_status resp = 429 then Inl (RateLimited (parse_retry_after resp))
      else case hr_text resp of
        Inl e \<Rightarrow> Inl (HttpError e)
      | Inr txt \<Rightarrow>
          if \<not> is_success resp
          then (case decode_error txt of
                  Inr body \<Rightarrow> Inl (from_body body)
                | Inl _ \<Rightarrow> Inl (InvalidResponse (''failed to parse error response: non-2xx status '' @
                    nat_text (hr_status resp) @ '' body (truncated to '' @ nat_text MAX_ERROR_BODY_CHARS @
                    '' chars): '' @ truncate_body txt)))
          else (case decode_error txt of
                  Inr body \<Rightarrow> if eb_status body < 0 then Inl (from_body body) else Inr txt
                | Inl _ \<Rightarrow> Inr txt))"

definition bitflyer_http_request ::
  "codec \<Rightarrow> bitflyer_client \<Rightarrow> datetime \<Rightarrow> string \<Rightarrow> string \<Rightarrow> string \<Rightarrow> http_request" where
  "bitflyer_http_request cd c now meth path body =
     (let headers = auth_headers cd c (int_text (unix_secs now)) meth path body in
      \<lparr>hq_method = meth, hq_url = bf_base_url c @ path,
       hq_headers = (if meth = ''POST'' then headers(''Content-Type'' \<mapsto> ''application/json'') else headers),
       hq_body = (if meth = ''POST'' then Some body else None)\<rparr>)"

definition bitflyer_request ::
  "'x wire \<Rightarrow> codec \<Rightarrow> (string \<Rightarrow> string + bitflyer_error_body) \<Rightarrow> bitflyer_client \<Rightarrow> string \<Rightarrow> string \<Rightarrow> string
    \<Rightarrow> ('x, bitflyer_error, string) netcall" where
  "bitflyer_request wire cd decode_error c meth path body =
     bindN (if bf_rate_limiter c then waitN wire ''bitflyer'' else okN ()) (\<lambda>_.
     bindN (nowN wire) (\<lambda>now.
     if meth \<noteq> ''GET'' \<and> meth \<noteq> ''POST'' then failN (InvalidResponse (''unsupported method: '' @ meth))
     else
     bindN (map_errN HttpError (send_http wire (bitflyer_http_request cd c now meth path body))) (\<lambda>resp.
     liftN (bitflyer_response decode_error resp))))"

section \<open>Decoders\<close>

datatype parent_order_state = ParentActive | ParentCompleted | ParentCanceled | ParentExpired | ParentRejected

record parent_order =
  po_parent_order_id :: string
  po_parent_order_state :: "parent_order_state option"

record bitflyer_decoders =
  bd_error :: "string \<Rightarrow> string + bitflyer_error_body"
  bd_acceptance :: "string \<Rightarrow> string + string"
  bd_parent_acceptance :: "string \<Rightarrow> string + string"
  bd_child_orders :: "string \<Rightarrow> string + child_order list"
  bd_executions :: "string \<Rightarrow> string + execution list"
  bd_positions :: "string \<Rightarrow> string + exchange_position list"
  bd_collateral :: "string \<Rightarrow> string + collateral"
  bd_parent_order :: "string \<Rightarrow> string + parent_order"

definition decoded :: "(string \<Rightarrow> string + 'a) \<Rightarrow> string \<Rightarrow> bitflyer_error + 'a" where
  "decoded decode txt =
     map_left (\<lambda>e. InvalidResponse (''failed to parse response body: '' @ e @ '': '' @ truncate_body txt)) (decode txt)"

text \<open>The client with everything its operations use.\<close>

record 'x bitflyer =
  by_wire :: "'x wire"
  by_codec :: codec
  by_decoders :: bitflyer_decoders
  by_client :: bitflyer_client

definition bitflyer_call :: "'x bitflyer \<Rightarrow> string \<Rightarrow> string \<Rightarrow> string \<Rightarrow> ('x, bitflyer_error, string) netcall" where
  "bitflyer_call b = bitflyer_request (by_wire b) (by_codec b) (bd_error (by_decoders b)) (by_client b)"

section \<open>Orders\<close>

fun child_order_type_text :: "child_order_type \<Rightarrow> string" where
  "child_order_type_text Market = ''MARKET''"
| "child_order_type_text Limit = ''LIMIT''"

fun side_text :: "side \<Rightarrow> string" where
  "side_text Buy = ''BUY''"
| "side_text Sell = ''SELL''"

fun time_in_force_text :: "time_in_force \<Rightarrow> string" where
  "time_in_force_text Gtc = ''GTC''"
| "time_in_force_text Ioc = ''IOC''"
| "time_in_force_text Fok = ''FOK''"

definition optional_field :: "string \<Rightarrow> ('a \<Rightarrow> json) \<Rightarrow> 'a option \<Rightarrow> (string \<times> json) list" where
  "optional_field key f v = (case v of None \<Rightarrow> [] | Some a \<Rightarrow> [(key, f a)])"

definition dec_json :: "codec \<Rightarrow> decimal \<Rightarrow> json" where
  "dec_json cd d = JString (cd_dec_text cd d)"

text \<open>The derived \<open>Serialize\<close>: absent options are skipped, and so is \<open>close_position_id\<close>.\<close>

definition child_order_request_json :: "codec \<Rightarrow> send_child_order_request \<Rightarrow> json" where
  "child_order_request_json cd rq = JObject
     ([(''product_code'', JString (rq_product_code rq)),
       (''child_order_type'', JString (child_order_type_text (rq_child_order_type rq))),
       (''side'', JString (side_text (rq_side rq))),
       (''size'', dec_json cd (rq_size rq))] @
      optional_field ''price'' (dec_json cd) (rq_price rq) @
      optional_field ''minute_to_expire'' (\<lambda>m. JNumber (of_nat m)) (rq_minute_to_expire rq) @
      optional_field ''time_in_force'' (\<lambda>t. JString (time_in_force_text t)) (rq_time_in_force rq))"

definition bitflyer_send_child_order :: "'x bitflyer \<Rightarrow> send_child_order_request \<Rightarrow> ('x, bitflyer_error, string) netcall" where
  "bitflyer_send_child_order b rq =
     bindN (bitflyer_call b ''POST'' ''/v1/me/sendchildorder''
              (cd_json_text (by_codec b) (child_order_request_json (by_codec b) rq))) (\<lambda>txt.
     liftN (decoded (bd_acceptance (by_decoders b)) txt))"

definition bitflyer_get_child_orders :: "'x bitflyer \<Rightarrow> string \<Rightarrow> string \<Rightarrow> ('x, bitflyer_error, child_order list) netcall" where
  "bitflyer_get_child_orders b product_code acceptance_id =
     bindN (bitflyer_call b ''GET'' (''/v1/me/getchildorders?product_code='' @ cd_url_encode (by_codec b) product_code @
              ''&child_order_acceptance_id='' @ cd_url_encode (by_codec b) acceptance_id) '''') (\<lambda>txt.
     liftN (decoded (bd_child_orders (by_decoders b)) txt))"

definition bitflyer_get_executions :: "'x bitflyer \<Rightarrow> string \<Rightarrow> string \<Rightarrow> ('x, bitflyer_error, execution list) netcall" where
  "bitflyer_get_executions b product_code acceptance_id =
     bindN (bitflyer_call b ''GET'' (''/v1/me/getexecutions?product_code='' @ cd_url_encode (by_codec b) product_code @
              ''&child_order_acceptance_id='' @ cd_url_encode (by_codec b) acceptance_id) '''') (\<lambda>txt.
     liftN (decoded (bd_executions (by_decoders b)) txt))"

definition bitflyer_cancel_child_order :: "'x bitflyer \<Rightarrow> string \<Rightarrow> string \<Rightarrow> ('x, bitflyer_error, unit) netcall" where
  "bitflyer_cancel_child_order b product_code acceptance_id =
     bindN (bitflyer_call b ''POST'' ''/v1/me/cancelchildorder'' (cd_json_text (by_codec b) (JObject
              [(''product_code'', JString product_code), (''child_order_acceptance_id'', JString acceptance_id)]))) (\<lambda>_.
     okN ())"

section \<open>Stop orders\<close>

definition parent_order_request_json :: "codec \<Rightarrow> string \<Rightarrow> side \<Rightarrow> decimal \<Rightarrow> decimal \<Rightarrow> json" where
  "parent_order_request_json cd product_code close_side sz trigger_price = JObject
     [(''order_method'', JString ''SIMPLE''),
      (''parameters'', JArray [JObject
        [(''product_code'', JString product_code), (''condition_type'', JString ''STOP''),
         (''side'', JString (side_text close_side)), (''size'', dec_json cd sz),
         (''trigger_price'', dec_json cd trigger_price)]])]"

definition send_parent_order_stop ::
  "'x bitflyer \<Rightarrow> string \<Rightarrow> side \<Rightarrow> decimal \<Rightarrow> decimal \<Rightarrow> ('x, bitflyer_error, string) netcall" where
  "send_parent_order_stop b product_code close_side sz trigger_price =
     bindN (bitflyer_call b ''POST'' ''/v1/me/sendparentorder'' (cd_json_text (by_codec b)
              (parent_order_request_json (by_codec b) product_code close_side sz trigger_price))) (\<lambda>txt.
     liftN (decoded (bd_parent_acceptance (by_decoders b)) txt))"

definition cancel_parent_order :: "'x bitflyer \<Rightarrow> string \<Rightarrow> string \<Rightarrow> ('x, bitflyer_error, unit) netcall" where
  "cancel_parent_order b product_code acceptance_id =
     bindN (bitflyer_call b ''POST'' ''/v1/me/cancelparentorder'' (cd_json_text (by_codec b) (JObject
              [(''product_code'', JString product_code), (''parent_order_acceptance_id'', JString acceptance_id)]))) (\<lambda>_.
     okN ())"

definition get_parent_order :: "'x bitflyer \<Rightarrow> string \<Rightarrow> ('x, bitflyer_error, parent_order) netcall" where
  "get_parent_order b acceptance_id =
     bindN (bitflyer_call b ''GET'' (''/v1/me/getparentorder?parent_order_acceptance_id='' @
              cd_url_encode (by_codec b) acceptance_id) '''') (\<lambda>txt.
     liftN (decoded (bd_parent_order (by_decoders b)) txt))"

definition get_child_orders_by_parent :: "'x bitflyer \<Rightarrow> string \<Rightarrow> string \<Rightarrow> ('x, bitflyer_error, child_order list) netcall" where
  "get_child_orders_by_parent b product_code parent_order_id =
     bindN (bitflyer_call b ''GET'' (''/v1/me/getchildorders?product_code='' @ cd_url_encode (by_codec b) product_code @
              ''&parent_order_id='' @ cd_url_encode (by_codec b) parent_order_id) '''') (\<lambda>txt.
     liftN (decoded (bd_child_orders (by_decoders b)) txt))"

definition executed_stop ::
  "rounding \<Rightarrow> child_order \<Rightarrow> execution list \<Rightarrow> bitflyer_error + stop_order_status" where
  "executed_stop rnd child execs =
     (case weighted_avg_fills rnd (map (\<lambda>e. (xc_price e, xc_size e, xc_commission e)) execs) of
        Inr (p, _, comm) \<Rightarrow> Inr (StopExecuted p comm)
      | Inl _ \<Rightarrow>
          if co_average_price child > 0 then Inr (StopExecuted (co_average_price child) 0)
          else Inl (InvalidResponse ''failed to determine stop order fill price''))"

definition finished_stop_status ::
  "rounding \<Rightarrow> 'x bitflyer \<Rightarrow> string \<Rightarrow> parent_order \<Rightarrow> ('x, bitflyer_error, stop_order_status) netcall" where
  "finished_stop_status rnd b product_code parent =
     bindN (get_child_orders_by_parent b product_code (po_parent_order_id parent)) (\<lambda>children.
     case find (\<lambda>c. co_executed_size c > 0) children of
       Some child \<Rightarrow>
         bindN (bitflyer_get_executions b product_code (co_child_order_acceptance_id child)) (\<lambda>execs.
         liftN (executed_stop rnd child execs))
     | None \<Rightarrow> okN (if po_parent_order_state parent = None then StopActive else StopGone))"

definition bitflyer_stop_order_status ::
  "rounding \<Rightarrow> 'x bitflyer \<Rightarrow> string \<Rightarrow> string \<Rightarrow> ('x, bitflyer_error, stop_order_status) netcall" where
  "bitflyer_stop_order_status rnd b product_code acceptance_id =
     bindN (attemptN (get_parent_order b acceptance_id)) (\<lambda>found.
     case found of
       Inl (OrderNotFound _) \<Rightarrow> okN StopGone
     | Inl e \<Rightarrow> failN e
     | Inr parent \<Rightarrow>
         (case po_parent_order_state parent of
            Some ParentActive \<Rightarrow> okN StopActive
          | Some ParentCanceled \<Rightarrow> okN StopGone
          | Some ParentExpired \<Rightarrow> okN StopGone
          | Some ParentRejected \<Rightarrow> okN StopGone
          | _ \<Rightarrow> finished_stop_status rnd b product_code parent))"

section \<open>Positions\<close>

definition bitflyer_get_positions :: "'x bitflyer \<Rightarrow> string \<Rightarrow> ('x, bitflyer_error, exchange_position list) netcall" where
  "bitflyer_get_positions b product_code =
     bindN (bitflyer_call b ''GET'' (''/v1/me/getpositions?product_code='' @ cd_url_encode (by_codec b) product_code) '''') (\<lambda>txt.
     liftN (decoded (bd_positions (by_decoders b)) txt))"

definition bitflyer_get_collateral :: "'x bitflyer \<Rightarrow> ('x, bitflyer_error, collateral) netcall" where
  "bitflyer_get_collateral b =
     bindN (bitflyer_call b ''GET'' ''/v1/me/getcollateral'' '''') (\<lambda>txt.
     liftN (decoded (bd_collateral (by_decoders b)) txt))"

definition bitflyer_fetch_close_sfd :: "rounding \<Rightarrow> 'x bitflyer \<Rightarrow> string \<Rightarrow> ('x, bitflyer_error, decimal) netcall" where
  "bitflyer_fetch_close_sfd rnd b product_code =
     bindN (bitflyer_get_positions b product_code) (\<lambda>positions. okN (dsum rnd (map xp_sfd positions)))"

section \<open>The interface of the trader\<close>

definition bitflyer_exchange_api :: "rounding \<Rightarrow> 'x bitflyer \<Rightarrow> 'x net exchange_api" where
  "bitflyer_exchange_api rnd b =
     \<lparr>api_send_child_order = (\<lambda>rq. map_errN bitflyer_error_text (bitflyer_send_child_order b rq)),
      api_get_child_orders = (\<lambda>p i. map_errN bitflyer_error_text (bitflyer_get_child_orders b p i)),
      api_get_executions = (\<lambda>p i. map_errN bitflyer_error_text (bitflyer_get_executions b p i)),
      api_get_positions = (\<lambda>p. map_errN bitflyer_error_text (bitflyer_get_positions b p)),
      api_get_collateral = map_errN bitflyer_error_text (bitflyer_get_collateral b),
      api_cancel_child_order = (\<lambda>p i. map_errN bitflyer_error_text (bitflyer_cancel_child_order b p i)),
      api_resolve_position_id = (\<lambda>_ _ _ _. okN None),
      api_requires_close_position_id = False,
      api_fetch_close_sfd = (\<lambda>p. map_errN bitflyer_error_text (bitflyer_fetch_close_sfd rnd b p)),
      api_place_stop_order = (\<lambda>p sd sz trigger _. map_errN bitflyer_error_text (send_parent_order_stop b p sd sz trigger)),
      api_cancel_stop_order = (\<lambda>p i. map_errN bitflyer_error_text (cancel_parent_order b p i)),
      api_stop_order_status = (\<lambda>p i. map_errN bitflyer_error_text (bitflyer_stop_order_status rnd b p i))\<rparr>"

end
