(* ===== verification/Gmo_Client.thy ===== *)
theory Gmo_Client
  imports Bitflyer_Client
begin

text \<open>
  The GMO FX client: \<open>market/src/gmo_fx_private\<close>. Orders that close a position go to another path
  than orders that open one and name the position; the signature covers the path without its
  query. The derived decoders of the responses are the parameter \<open>gmo_decoders\<close>.
\<close>

section \<open>Data\<close>

datatype gmo_side = GmoBuy | GmoSell

datatype gmo_execution_type = GmoMarket | GmoLimit | GmoStop

record gmo_order_request =
  gq_symbol :: string
  gq_side :: gmo_side
  gq_execution_type :: gmo_execution_type
  gq_size :: string

record gmo_settle_position =
  gs_position_id :: nat
  gs_size :: string

record gmo_close_request =
  gc_symbol :: string
  gc_side :: gmo_side
  gc_execution_type :: gmo_execution_type
  gc_settle_position :: "gmo_settle_position list"

record gmo_stop_close_request =
  gt_symbol :: string
  gt_side :: gmo_side
  gt_execution_type :: gmo_execution_type
  gt_price :: string
  gt_settle_position :: "gmo_settle_position list"

record gmo_api_message =
  ms_message_code :: string
  ms_message_string :: string

record 'a gmo_api_response =
  gr_status :: int
  gr_messages :: "gmo_api_message list"
  gr_data :: "'a option"

record gmo_open_position =
  gp_position_id :: nat
  gp_symbol :: string
  gp_side :: string
  gp_size :: decimal
  gp_price :: decimal
  gp_timestamp :: string

record gmo_execution =
  ge_execution_id :: nat
  ge_order_id :: nat
  ge_position_id :: "nat option"
  ge_symbol :: string
  ge_side :: string
  ge_settle_type :: string
  ge_size :: decimal
  ge_price :: decimal
  ge_loss_gain :: decimal
  ge_fee :: decimal
  ge_timestamp :: string

record gmo_account_assets =
  ga_equity :: decimal
  ga_available_amount :: decimal
  ga_balance :: decimal
  ga_estimated_trade_fee :: decimal
  ga_margin :: decimal
  ga_margin_call_status :: string
  ga_margin_ratio :: decimal
  ga_position_loss_gain :: decimal
  ga_total_swap :: decimal
  ga_transferable_amount :: decimal

record gmo_order =
  go_order_id :: nat
  go_symbol :: string
  go_side :: string
  go_execution_type :: string
  go_size :: decimal
  go_executed_size :: decimal
  go_price :: decimal
  go_status :: string
  go_timestamp :: string

fun side_to_gmo :: "side \<Rightarrow> gmo_side" where
  "side_to_gmo Buy = GmoBuy"
| "side_to_gmo Sell = GmoSell"

text \<open>The derived \<open>Serialize\<close>; a JSON value keeps its keys in order.\<close>

fun gmo_side_text :: "gmo_side \<Rightarrow> string" where
  "gmo_side_text GmoBuy = ''BUY''"
| "gmo_side_text GmoSell = ''SELL''"

fun gmo_execution_type_text :: "gmo_execution_type \<Rightarrow> string" where
  "gmo_execution_type_text GmoMarket = ''MARKET''"
| "gmo_execution_type_text GmoLimit = ''LIMIT''"
| "gmo_execution_type_text GmoStop = ''STOP''"

definition settle_position_json :: "gmo_settle_position \<Rightarrow> json" where
  "settle_position_json s = JObject
     [(''positionId'', JNumber (of_nat (gs_position_id s))), (''size'', JString (gs_size s))]"

definition gmo_order_json :: "gmo_order_request \<Rightarrow> json" where
  "gmo_order_json q = JObject
     [(''executionType'', JString (gmo_execution_type_text (gq_execution_type q))),
      (''side'', JString (gmo_side_text (gq_side q))), (''size'', JString (gq_size q)),
      (''symbol'', JString (gq_symbol q))]"

definition gmo_close_json :: "gmo_close_request \<Rightarrow> json" where
  "gmo_close_json q = JObject
     [(''executionType'', JString (gmo_execution_type_text (gc_execution_type q))),
      (''settlePosition'', JArray (map settle_position_json (gc_settle_position q))),
      (''side'', JString (gmo_side_text (gc_side q))), (''symbol'', JString (gc_symbol q))]"

definition gmo_stop_close_json :: "gmo_stop_close_request \<Rightarrow> json" where
  "gmo_stop_close_json q = JObject
     [(''executionType'', JString (gmo_execution_type_text (gt_execution_type q))),
      (''price'', JString (gt_price q)),
      (''settlePosition'', JArray (map settle_position_json (gt_settle_position q))),
      (''side'', JString (gmo_side_text (gt_side q))), (''symbol'', JString (gt_symbol q))]"

definition order_id_json :: "nat \<Rightarrow> json" where
  "order_id_json i = JObject [(''orderId'', JNumber (of_nat i))]"

section \<open>Requests\<close>

record gmo_client =
  gm_api_url :: string
  gm_api_key :: string
  gm_api_secret :: string

definition sign_path_for :: "string \<Rightarrow> string" where
  "sign_path_for path = takeWhile (\<lambda>c. c \<noteq> CHR ''?'') path"

definition gmo_sign :: "codec \<Rightarrow> string \<Rightarrow> int \<Rightarrow> string \<Rightarrow> string \<Rightarrow> string \<Rightarrow> string" where
  "gmo_sign cd api_secret timestamp_ms meth path body =
     bitflyer_sign cd api_secret (int_text timestamp_ms) meth path body"

definition gmo_http_request ::
  "codec \<Rightarrow> gmo_client \<Rightarrow> datetime \<Rightarrow> string \<Rightarrow> string \<Rightarrow> json option \<Rightarrow> http_request" where
  "gmo_http_request cd c now meth path body =
     (let body_str = (case body of Some v \<Rightarrow> cd_json_text cd v | None \<Rightarrow> '''');
          ts = unix_millis now;
          sig = gmo_sign cd (gm_api_secret c) ts meth (sign_path_for path) body_str;
          headers = [''API-KEY'' \<mapsto> gm_api_key c, ''API-TIMESTAMP'' \<mapsto> int_text ts, ''API-SIGN'' \<mapsto> sig] in
      \<lparr>hq_method = meth, hq_url = gm_api_url c @ ''/private'' @ path,
       hq_headers = (if meth = ''POST'' then headers(''Content-Type'' \<mapsto> ''application/json'') else headers),
       hq_body = (if meth = ''POST'' then Some body_str else None)\<rparr>)"

definition gmo_response :: "(string \<Rightarrow> string + 'a gmo_api_response) \<Rightarrow> http_response \<Rightarrow> string + 'a" where
  "gmo_response decode resp =
     (case hr_text resp of
        Inl e \<Rightarrow> Inl (''failed to read response body: '' @ e)
      | Inr txt \<Rightarrow>
          if \<not> is_success resp
          then Inl (''failed to call gmo api: status='' @ nat_text (hr_status resp) @ '' body='' @ truncate_body txt)
          else case decode txt of
            Inl e \<Rightarrow> Inl (''failed to parse response body: '' @ e @ '': '' @ truncate_body txt)
          | Inr r \<Rightarrow>
              if gr_status r \<noteq> 0 then Inl (''failed to call gmo api: status='' @ int_text (gr_status r))
              else ok_orN (''invalid response: data is null: '' @ truncate_body txt) (gr_data r))"

record gmo_decoders =
  gd_order_response :: "string \<Rightarrow> string + nat gmo_api_response"
  gd_value :: "string \<Rightarrow> string + json gmo_api_response"
  gd_orders :: "string \<Rightarrow> string + (gmo_order list) gmo_api_response"
  gd_executions :: "string \<Rightarrow> string + (gmo_execution list) gmo_api_response"
  gd_open_positions :: "string \<Rightarrow> string + (gmo_open_position list) gmo_api_response"
  gd_assets :: "string \<Rightarrow> string + gmo_account_assets gmo_api_response"

record 'x gmo =
  gy_wire :: "'x wire"
  gy_codec :: codec
  gy_decoders :: gmo_decoders
  gy_client :: gmo_client

definition signed_request ::
  "'x gmo \<Rightarrow> (string \<Rightarrow> string + 'a gmo_api_response) \<Rightarrow> string \<Rightarrow> string \<Rightarrow> json option
    \<Rightarrow> ('x, string, 'a) netcall" where
  "signed_request g decode meth path body =
     bindN (waitN (gy_wire g) (if meth = ''POST'' then ''gmo post'' else ''gmo get'')) (\<lambda>_.
     bindN (nowN (gy_wire g)) (\<lambda>now.
     bindN (map_errN (\<lambda>e. ''failed to send http request: '' @ e)
              (send_http (gy_wire g) (gmo_http_request (gy_codec g) (gy_client g) now meth path body))) (\<lambda>resp.
     liftN (gmo_response decode resp))))"

section \<open>Orders\<close>

definition ensure_market_order :: "send_child_order_request \<Rightarrow> string + unit" where
  "ensure_market_order rq =
     (if rq_child_order_type rq \<noteq> Market then Inl ''unsupported order type: LIMIT''
      else if rq_price rq \<noteq> None then Inl ''invalid price: must be none for a market order''
      else Inr ())"

definition post_open_order :: "'x gmo \<Rightarrow> send_child_order_request \<Rightarrow> ('x, string, string) netcall" where
  "post_open_order g rq =
     bindN (liftN (ensure_market_order rq)) (\<lambda>_.
     let body = gmo_order_json \<lparr>gq_symbol = rq_product_code rq, gq_side = side_to_gmo (rq_side rq),
           gq_execution_type = GmoMarket, gq_size = cd_dec_text (gy_codec g) (rq_size rq)\<rparr> in
     bindN (signed_request g (gd_order_response (gy_decoders g)) ''POST'' ''/v1/order'' (Some body)) (\<lambda>root_order_id.
     okN (nat_text root_order_id)))"

definition post_close_order :: "'x gmo \<Rightarrow> send_child_order_request \<Rightarrow> string \<Rightarrow> ('x, string, string) netcall" where
  "post_close_order g rq position_id_str =
     bindN (liftN (ensure_market_order rq)) (\<lambda>_.
     bindN (liftN (ok_orN ''invalid close_position_id: not a u64'' (parse_u64 position_id_str))) (\<lambda>position_id.
     let body = gmo_close_json \<lparr>gc_symbol = rq_product_code rq, gc_side = side_to_gmo (rq_side rq),
           gc_execution_type = GmoMarket,
           gc_settle_position = [\<lparr>gs_position_id = position_id, gs_size = cd_dec_text (gy_codec g) (rq_size rq)\<rparr>]\<rparr> in
     bindN (signed_request g (gd_order_response (gy_decoders g)) ''POST'' ''/v1/closeOrder'' (Some body)) (\<lambda>root_order_id.
     okN (nat_text root_order_id))))"

definition gmo_send_child_order :: "'x gmo \<Rightarrow> send_child_order_request \<Rightarrow> ('x, string, string) netcall" where
  "gmo_send_child_order g rq =
     (case rq_close_position_id rq of None \<Rightarrow> post_open_order g rq | Some pid \<Rightarrow> post_close_order g rq pid)"

definition gmo_status_to_state :: "string \<Rightarrow> child_order_state" where
  "gmo_status_to_state s =
     (if s = ''EXECUTED'' then Completed else if s = ''CANCELED'' then Canceled
      else if s = ''EXPIRED'' then Expired else if s = ''REJECTED'' then Rejected else Active)"

definition child_order_of_gmo :: "rounding \<Rightarrow> gmo_order \<Rightarrow> child_order" where
  "child_order_of_gmo rnd ord =
     \<lparr>co_id = go_order_id ord, co_child_order_id = nat_text (go_order_id ord), co_product_code = go_symbol ord,
      co_side = go_side ord, co_child_order_type = go_execution_type ord, co_price = go_price ord,
      co_average_price = go_price ord, co_size = go_size ord,
      co_child_order_state = gmo_status_to_state (go_status ord), co_expire_date = '''',
      co_child_order_date = go_timestamp ord, co_child_order_acceptance_id = nat_text (go_order_id ord),
      co_outstanding_size = dsub rnd (go_size ord) (go_executed_size ord), co_cancel_size = 0,
      co_executed_size = go_executed_size ord, co_total_commission = 0\<rparr>"

definition gmo_orders :: "'x gmo \<Rightarrow> string \<Rightarrow> ('x, string, gmo_order list) netcall" where
  "gmo_orders g i = signed_request g (gd_orders (gy_decoders g)) ''GET'' (''/v1/orders?orderId='' @ i) None"

definition gmo_executions :: "'x gmo \<Rightarrow> string \<Rightarrow> ('x, string, gmo_execution list) netcall" where
  "gmo_executions g i = signed_request g (gd_executions (gy_decoders g)) ''GET'' (''/v1/executions?orderId='' @ i) None"

definition gmo_open_positions :: "'x gmo \<Rightarrow> string \<Rightarrow> ('x, string, gmo_open_position list) netcall" where
  "gmo_open_positions g product_code =
     signed_request g (gd_open_positions (gy_decoders g)) ''GET'' (''/v1/openPositions?symbol='' @ product_code) None"

definition gmo_get_child_orders :: "rounding \<Rightarrow> 'x gmo \<Rightarrow> string \<Rightarrow> ('x, string, child_order list) netcall" where
  "gmo_get_child_orders rnd g i = bindN (gmo_orders g i) (\<lambda>orders. okN (map (child_order_of_gmo rnd) orders))"

definition execution_of_gmo :: "gmo_execution \<Rightarrow> execution" where
  "execution_of_gmo e =
     \<lparr>xc_id = ge_execution_id e, xc_child_order_id = nat_text (ge_order_id e), xc_side = ge_side e,
      xc_price = ge_price e, xc_size = ge_size e, xc_commission = ge_fee e, xc_exec_date = ge_timestamp e,
      xc_child_order_acceptance_id = nat_text (ge_order_id e)\<rparr>"

definition gmo_get_executions :: "'x gmo \<Rightarrow> string \<Rightarrow> ('x, string, execution list) netcall" where
  "gmo_get_executions g i = bindN (gmo_executions g i) (\<lambda>execs. okN (map execution_of_gmo execs))"

definition position_of_gmo :: "gmo_open_position \<Rightarrow> exchange_position" where
  "position_of_gmo p =
     \<lparr>xp_product_code = gp_symbol p, xp_side = gp_side p, xp_price = gp_price p, xp_size = gp_size p,
      xp_commission = 0, xp_swap_point_accumulate = 0, xp_require_collateral = 0,
      xp_open_date = gp_timestamp p, xp_leverage = 0, xp_pnl = 0, xp_sfd = 0\<rparr>"

definition gmo_get_positions :: "'x gmo \<Rightarrow> string \<Rightarrow> ('x, string, exchange_position list) netcall" where
  "gmo_get_positions g product_code =
     bindN (gmo_open_positions g product_code) (\<lambda>ps. okN (map position_of_gmo ps))"

definition gmo_get_collateral :: "'x gmo \<Rightarrow> ('x, string, collateral) netcall" where
  "gmo_get_collateral g =
     bindN (signed_request g (gd_assets (gy_decoders g)) ''GET'' ''/v1/account/assets'' None) (\<lambda>a.
     okN \<lparr>cl_collateral = ga_balance a, cl_open_position_pnl = ga_position_loss_gain a,
          cl_require_collateral = ga_margin a, cl_keep_rate = ga_margin_ratio a\<rparr>)"

definition gmo_cancel_order :: "'x gmo \<Rightarrow> string \<Rightarrow> string \<Rightarrow> ('x, string, unit) netcall" where
  "gmo_cancel_order g what i =
     bindN (liftN (ok_orN (''invalid '' @ what @ '': not a u64'') (parse_u64 i))) (\<lambda>order_id.
     bindN (signed_request g (gd_value (gy_decoders g)) ''POST'' ''/v1/cancelOrder'' (Some (order_id_json order_id))) (\<lambda>_.
     okN ()))"

section \<open>The position of a filled order\<close>

text \<open>One pass of the loop of \<open>resolve_position_id\<close>; only a strictly later position replaces the newest.\<close>

definition newer_position ::
  "codec \<Rightarrow> string \<Rightarrow> decimal \<Rightarrow> datetime \<Rightarrow> (datetime \<times> nat) option \<Rightarrow> gmo_open_position \<Rightarrow> (datetime \<times> nat) option" where
  "newer_position cd expected_side_str expected_size after best p =
     (if gp_side p \<noteq> expected_side_str then best
      else if gp_size p \<noteq> expected_size then best
      else case cd_time_parse cd (gp_timestamp p) of
        None \<Rightarrow> best
      | Some ts \<Rightarrow>
          if ts < after then best
          else (case best of
                  None \<Rightarrow> Some (ts, gp_position_id p)
                | Some (cur_ts, _) \<Rightarrow> if ts > cur_ts then Some (ts, gp_position_id p) else best))"

definition gmo_resolve_position_id ::
  "'x gmo \<Rightarrow> string \<Rightarrow> datetime \<Rightarrow> side \<Rightarrow> decimal \<Rightarrow> ('x, string, string option) netcall" where
  "gmo_resolve_position_id g product_code after expected_side expected_size =
     bindN (gmo_open_positions g product_code) (\<lambda>ps.
     okN (map_option (\<lambda>(_, pid). nat_text pid)
       (foldl (newer_position (gy_codec g) (side_text expected_side) expected_size after) None ps)))"

section \<open>Stop orders\<close>

definition gmo_place_stop_order ::
  "'x gmo \<Rightarrow> string \<Rightarrow> side \<Rightarrow> decimal \<Rightarrow> decimal \<Rightarrow> string option \<Rightarrow> ('x, string, string) netcall" where
  "gmo_place_stop_order g product_code close_side sz trigger_price position_id =
     bindN (liftN (ok_orN ''invalid position_id: required for a netting close'' position_id)) (\<lambda>position_id_str.
     bindN (liftN (ok_orN ''invalid position_id: not a u64'' (parse_u64 position_id_str))) (\<lambda>position_id.
     let body = gmo_stop_close_json \<lparr>gt_symbol = product_code, gt_side = side_to_gmo close_side,
           gt_execution_type = GmoStop, gt_price = cd_dec_text (gy_codec g) trigger_price,
           gt_settle_position = [\<lparr>gs_position_id = position_id, gs_size = cd_dec_text (gy_codec g) sz\<rparr>]\<rparr> in
     bindN (signed_request g (gd_order_response (gy_decoders g)) ''POST'' ''/v1/closeOrder'' (Some body)) (\<lambda>root_order_id.
     okN (nat_text root_order_id))))"

definition gmo_executed_stop :: "rounding \<Rightarrow> gmo_order \<Rightarrow> gmo_execution list \<Rightarrow> stop_order_status" where
  "gmo_executed_stop rnd ord execs =
     (case weighted_avg_fills rnd (map (\<lambda>e. (ge_price e, ge_size e, ge_fee e)) execs) of
        Inr (avg_price, _, total_fee) \<Rightarrow> StopExecuted avg_price total_fee
      | Inl _ \<Rightarrow> StopExecuted (go_price ord) (dsum rnd (map ge_fee execs)))"

definition gmo_stop_order_status :: "rounding \<Rightarrow> 'x gmo \<Rightarrow> string \<Rightarrow> ('x, string, stop_order_status) netcall" where
  "gmo_stop_order_status rnd g i =
     bindN (gmo_orders g i) (\<lambda>orders.
     case orders of
       [] \<Rightarrow> okN StopGone
     | ord # _ \<Rightarrow>
         if go_status ord = ''EXECUTED''
         then bindN (gmo_executions g i) (\<lambda>execs. okN (gmo_executed_stop rnd ord execs))
         else if go_status ord = ''CANCELED'' \<or> go_status ord = ''EXPIRED'' \<or> go_status ord = ''REJECTED''
         then okN StopGone
         else okN StopActive)"

section \<open>The interface of the trader\<close>

definition gmo_exchange_api :: "rounding \<Rightarrow> 'x gmo \<Rightarrow> 'x net exchange_api" where
  "gmo_exchange_api rnd g =
     \<lparr>api_send_child_order = gmo_send_child_order g,
      api_get_child_orders = (\<lambda>_. gmo_get_child_orders rnd g),
      api_get_executions = (\<lambda>_. gmo_get_executions g),
      api_get_positions = gmo_get_positions g,
      api_get_collateral = gmo_get_collateral g,
      api_cancel_child_order = (\<lambda>_. gmo_cancel_order g ''child_order_acceptance_id''),
      api_resolve_position_id = gmo_resolve_position_id g,
      api_requires_close_position_id = True,
      api_fetch_close_sfd = (\<lambda>_. okN 0),
      api_place_stop_order = gmo_place_stop_order g,
      api_cancel_stop_order = (\<lambda>_. gmo_cancel_order g ''stop_order_id''),
      api_stop_order_status = (\<lambda>_. gmo_stop_order_status rnd g)\<rparr>"

end
