(* ===== verification/Oanda_Client.thy ===== *)
theory Oanda_Client
  imports Bitflyer_Client
begin

text \<open>
  The OANDA client: \<open>market/src/oanda_private\<close>. Orders carry a signed number of units; a fill is
  read in two steps, the order and then each of its transactions, out of JSON values. Error texts
  carry their fixed part.
\<close>

record oanda_client =
  oa_base_url :: string
  oa_account_id :: string
  oa_api_key :: string

record 'x oanda =
  oy_wire :: "'x wire"
  oy_codec :: codec
  oy_client :: oanda_client

section \<open>Requests\<close>

definition authed :: "'x oanda \<Rightarrow> string \<Rightarrow> string \<Rightarrow> json option \<Rightarrow> http_request" where
  "authed oa meth path body =
     \<lparr>hq_method = meth, hq_url = oa_base_url (oy_client oa) @ path,
      hq_headers = [''Authorization'' \<mapsto> ''Bearer '' @ oa_api_key (oy_client oa),
        ''Accept-Datetime-Format'' \<mapsto> ''RFC3339'', ''Content-Type'' \<mapsto> ''application/json''],
      hq_body = map_option (cd_json_text (oy_codec oa)) body\<rparr>"

definition send_json :: "'x oanda \<Rightarrow> http_request \<Rightarrow> ('x, string, json) netcall" where
  "send_json oa rq =
     bindN (map_errN (\<lambda>e. ''failed to send http request: '' @ e) (send_http (oy_wire oa) rq)) (\<lambda>resp.
     liftN (case hr_text resp of
        Inl e \<Rightarrow> Inl (''failed to send http request: '' @ e)
      | Inr txt \<Rightarrow>
          if \<not> is_success resp then Inl ''failed to call oanda api''
          else map_left (\<lambda>e. ''failed to parse response body: '' @ e) (cd_json_parse (oy_codec oa) txt)))"

definition account_path :: "'x oanda \<Rightarrow> string \<Rightarrow> string" where
  "account_path oa rest = ''/v3/accounts/'' @ cd_url_encode (oy_codec oa) (oa_account_id (oy_client oa)) @ rest"

definition order_path :: "'x oanda \<Rightarrow> string \<Rightarrow> string" where
  "order_path oa i = account_path oa (''/orders/'' @ cd_url_encode (oy_codec oa) i)"

definition read_order :: "'x oanda \<Rightarrow> string \<Rightarrow> ('x, string, json) netcall" where
  "read_order oa i =
     bindN (send_json oa (authed oa ''GET'' (order_path oa i) None)) (\<lambda>body.
     liftN (ok_orN ''missing order field in response'' (json_get ''order'' body)))"

section \<open>Sending an order\<close>

definition oanda_units :: "send_child_order_request \<Rightarrow> string + int" where
  "oanda_units rq =
     (if rq_child_order_type rq \<noteq> Market then Inl ''unsupported order type: LIMIT''
      else if rq_size rq \<le> 0 then Inl ''invalid size: must be positive non-zero''
      else if rq_size rq \<noteq> trunc (rq_size rq) then Inl ''invalid size: must be an integer number of units''
      else if \<not> in_i64 \<lfloor>rq_size rq\<rfloor> then Inl ''invalid size: does not fit in i64''
      else Inr ((case rq_side rq of Buy \<Rightarrow> 1 | Sell \<Rightarrow> -1) * \<lfloor>rq_size rq\<rfloor>))"

definition market_order_json :: "string \<Rightarrow> int \<Rightarrow> json" where
  "market_order_json instrument signed_units = JObject [(''order'', JObject
     [(''instrument'', JString instrument), (''positionFill'', JString ''DEFAULT''),
      (''timeInForce'', JString ''FOK''), (''type'', JString ''MARKET''),
      (''units'', JString (int_text signed_units))])]"

definition created_order_id :: "json \<Rightarrow> string + string" where
  "created_order_id body =
     (case json_get ''orderCreateTransaction'' body of
        None \<Rightarrow> Inl ''missing orderCreateTransaction in response''
      | Some tx \<Rightarrow>
          (case get_str ''orderID'' tx of
             Some i \<Rightarrow> Inr i
           | None \<Rightarrow> ok_orN ''orderCreateTransaction missing both orderID and id'' (get_str ''id'' tx)))"

definition oanda_send_child_order :: "'x oanda \<Rightarrow> send_child_order_request \<Rightarrow> ('x, string, string) netcall" where
  "oanda_send_child_order oa rq =
     bindN (liftN (oanda_units rq)) (\<lambda>signed_units.
     bindN (send_json oa (authed oa ''POST'' (account_path oa ''/orders'')
              (Some (market_order_json (rq_product_code rq) signed_units)))) (\<lambda>body.
     liftN (created_order_id body)))"

section \<open>Reading an order\<close>

definition oanda_state :: "string \<Rightarrow> child_order_state" where
  "oanda_state s =
     (if s = ''FILLED'' then Completed else if s = ''CANCELLED'' then Canceled
      else if s = ''EXPIRED'' then Expired else if s = ''REJECTED'' then Rejected else Active)"

definition non_empty :: "string option \<Rightarrow> string option" where
  "non_empty s = (case s of Some (c # cs) \<Rightarrow> Some (c # cs) | _ \<Rightarrow> None)"

definition decimal_or_zero :: "codec \<Rightarrow> string \<Rightarrow> json \<Rightarrow> decimal" where
  "decimal_or_zero cd key j =
     (case get_str key j of
        None \<Rightarrow> 0
      | Some s \<Rightarrow> (case cd_dec_parse cd s of Inr d \<Rightarrow> d | Inl _ \<Rightarrow> 0))"

definition text_or_empty :: "string \<Rightarrow> json \<Rightarrow> string" where
  "text_or_empty key j = (case get_str key j of Some s \<Rightarrow> s | None \<Rightarrow> '''')"

definition child_order_of_oanda :: "codec \<Rightarrow> json \<Rightarrow> string \<Rightarrow> string \<Rightarrow> int \<Rightarrow> child_order" where
  "child_order_of_oanda cd ord i instrument units =
     (let state = oanda_state (case get_str ''state'' ord of Some s \<Rightarrow> s | None \<Rightarrow> ''PENDING'');
          sz = of_int \<bar>units\<bar> in
      \<lparr>co_id = 0, co_child_order_id = i, co_product_code = instrument,
       co_side = (if 0 \<le> units then ''BUY'' else ''SELL''), co_child_order_type = ''MARKET'', co_price = 0,
       co_average_price = decimal_or_zero cd ''averagePrice'' ord, co_size = sz,
       co_child_order_state = state, co_expire_date = '''',
       co_child_order_date = text_or_empty ''createTime'' ord, co_child_order_acceptance_id = i,
       co_outstanding_size = 0, co_cancel_size = 0,
       co_executed_size = (if state = Completed then sz else 0), co_total_commission = 0\<rparr>)"

definition order_json_to_child :: "codec \<Rightarrow> json \<Rightarrow> string + child_order" where
  "order_json_to_child cd ord =
     (case non_empty (get_str ''id'' ord) of
        None \<Rightarrow> Inl ''order missing id''
      | Some i \<Rightarrow>
     (case non_empty (get_str ''instrument'' ord) of
        None \<Rightarrow> Inl ''order missing instrument''
      | Some instrument \<Rightarrow>
     (case get_str ''units'' ord of
        None \<Rightarrow> Inl ''order missing units''
      | Some units_str \<Rightarrow>
     (case parse_i64 units_str of
        None \<Rightarrow> Inl ''invalid units''
      | Some units \<Rightarrow> Inr (child_order_of_oanda cd ord i instrument units)))))"

definition oanda_get_child_orders :: "'x oanda \<Rightarrow> string \<Rightarrow> ('x, string, child_order list) netcall" where
  "oanda_get_child_orders oa i =
     bindN (read_order oa i) (\<lambda>ord.
     bindN (liftN (order_json_to_child (oy_codec oa) ord)) (\<lambda>c. okN [c]))"

section \<open>Executions\<close>

definition fetch_filled_order :: "'x oanda \<Rightarrow> string \<Rightarrow> ('x, string, json option) netcall" where
  "fetch_filled_order oa i =
     bindN (read_order oa i) (\<lambda>ord.
     let state = text_or_empty ''state'' ord in
     if state = ''FILLED'' then okN (Some ord)
     else if state = ''CANCELLED'' \<or> state = ''REJECTED'' \<or> state = ''EXPIRED''
     then failN (''invalid order '' @ i @ '': reached terminal state '' @ state)
     else okN None)"

definition fill_ids_from_array :: "json \<Rightarrow> string list" where
  "fill_ids_from_array ord =
     (case json_get ''fillingTransactionIDs'' ord of
        None \<Rightarrow> []
      | Some v \<Rightarrow> (case as_array v of None \<Rightarrow> [] | Some arr \<Rightarrow> List.map_filter as_str arr))"

definition resolve_fill_transaction_ids :: "json \<Rightarrow> string + string list" where
  "resolve_fill_transaction_ids ord =
     (if fill_ids_from_array ord \<noteq> [] then Inr (fill_ids_from_array ord)
      else case non_empty (get_str ''fillingTransactionID'' ord) of
        Some i \<Rightarrow> Inr [i]
      | None \<Rightarrow> Inl ''filled order missing fillingTransactionIDs / fillingTransactionID'')"

definition execution_of_fill :: "codec \<Rightarrow> string \<Rightarrow> json \<Rightarrow> string + execution" where
  "execution_of_fill cd i tx =
     (case get_str ''price'' tx of
        None \<Rightarrow> Inl ''missing price in fill''
      | Some price_str \<Rightarrow>
     (case cd_dec_parse cd price_str of
        Inl _ \<Rightarrow> Inl ''failed to parse price in fill''
      | Inr price \<Rightarrow>
     (case get_str ''units'' tx of
        None \<Rightarrow> Inl ''missing units in fill''
      | Some units_str \<Rightarrow>
     (case parse_i64 units_str of
        None \<Rightarrow> Inl ''failed to parse units in fill''
      | Some units_signed \<Rightarrow>
          Inr \<lparr>xc_id = 0, xc_child_order_id = i, xc_side = (if units_signed > 0 then ''BUY'' else ''SELL''),
               xc_price = price, xc_size = of_int \<bar>units_signed\<bar>,
               xc_commission = decimal_or_zero cd ''commission'' tx,
               xc_exec_date = text_or_empty ''time'' tx, xc_child_order_acceptance_id = i\<rparr>))))"

definition fetch_execution :: "'x oanda \<Rightarrow> string \<Rightarrow> string \<Rightarrow> ('x, string, execution) netcall" where
  "fetch_execution oa i tx_id =
     bindN (send_json oa (authed oa ''GET''
              (account_path oa (''/transactions/'' @ cd_url_encode (oy_codec oa) tx_id)) None)) (\<lambda>tx_body.
     bindN (liftN (ok_orN ''missing transaction field in response'' (json_get ''transaction'' tx_body))) (\<lambda>tx.
     liftN (execution_of_fill (oy_codec oa) i tx)))"

definition oanda_get_executions :: "'x oanda \<Rightarrow> string \<Rightarrow> ('x, string, execution list) netcall" where
  "oanda_get_executions oa i =
     bindN (fetch_filled_order oa i) (\<lambda>filled.
     case filled of
       None \<Rightarrow> okN []
     | Some ord \<Rightarrow>
         bindN (liftN (resolve_fill_transaction_ids ord)) (\<lambda>fill_ids. mapN (fetch_execution oa i) fill_ids))"

section \<open>Positions and collateral\<close>

definition position_of_oanda :: "string \<Rightarrow> string \<Rightarrow> decimal \<Rightarrow> decimal \<Rightarrow> exchange_position" where
  "position_of_oanda product_code side_str avg_price units =
     \<lparr>xp_product_code = product_code, xp_side = side_str, xp_price = avg_price, xp_size = \<bar>units\<bar>,
      xp_commission = 0, xp_swap_point_accumulate = 0, xp_require_collateral = 0, xp_open_date = '''',
      xp_leverage = 0, xp_pnl = 0, xp_sfd = 0\<rparr>"

definition side_position :: "codec \<Rightarrow> string \<Rightarrow> json \<Rightarrow> string \<times> string \<Rightarrow> string + exchange_position list" where
  "side_position cd product_code pos = (\<lambda>(side_str, key).
     case json_get key pos of
       None \<Rightarrow> Inr []
     | Some side_obj \<Rightarrow>
         (case cd_dec_parse cd (case get_str ''units'' side_obj of Some s \<Rightarrow> s | None \<Rightarrow> ''0'') of
            Inl e \<Rightarrow> Inl (''invalid units: '' @ e)
          | Inr units \<Rightarrow>
              if units = 0 then Inr []
              else Inr [position_of_oanda product_code side_str (decimal_or_zero cd ''averagePrice'' side_obj) units]))"

definition oanda_positions :: "codec \<Rightarrow> string \<Rightarrow> json \<Rightarrow> string + exchange_position list" where
  "oanda_positions cd product_code pos =
     (case side_position cd product_code pos (''BUY'', ''long'') of
        Inl e \<Rightarrow> Inl e
      | Inr longs \<Rightarrow> map_sum id (append longs) (side_position cd product_code pos (''SELL'', ''short'')))"

definition oanda_get_positions :: "'x oanda \<Rightarrow> string \<Rightarrow> ('x, string, exchange_position list) netcall" where
  "oanda_get_positions oa product_code =
     bindN (send_json oa (authed oa ''GET''
              (account_path oa (''/positions/'' @ cd_url_encode (oy_codec oa) product_code)) None)) (\<lambda>body.
     bindN (liftN (ok_orN ''missing position field in response'' (json_get ''position'' body))) (\<lambda>pos.
     liftN (oanda_positions (oy_codec oa) product_code pos)))"

definition account_decimal :: "codec \<Rightarrow> json \<Rightarrow> string \<Rightarrow> string + decimal" where
  "account_decimal cd account key =
     (case json_get key account of
        None \<Rightarrow> Inl (''missing required account field '' @ key)
      | Some v \<Rightarrow>
     (case as_str v of
        None \<Rightarrow> Inl (''account field is not a string: '' @ key)
      | Some s \<Rightarrow> map_left (\<lambda>e. ''invalid decimal in account field '' @ key @ '': '' @ e) (cd_dec_parse cd s)))"

definition oanda_get_collateral :: "'x oanda \<Rightarrow> ('x, string, collateral) netcall" where
  "oanda_get_collateral oa =
     bindN (send_json oa (authed oa ''GET'' (account_path oa ''/summary'') None)) (\<lambda>body.
     bindN (liftN (ok_orN ''missing account field in response'' (json_get ''account'' body))) (\<lambda>account.
     bindN (liftN (account_decimal (oy_codec oa) account ''balance'')) (\<lambda>balance.
     bindN (liftN (account_decimal (oy_codec oa) account ''unrealizedPL'')) (\<lambda>pl.
     bindN (liftN (account_decimal (oy_codec oa) account ''marginUsed'')) (\<lambda>margin.
     okN \<lparr>cl_collateral = balance, cl_open_position_pnl = pl, cl_require_collateral = margin,
          cl_keep_rate = 0\<rparr>)))))"

definition oanda_cancel_child_order :: "'x oanda \<Rightarrow> string \<Rightarrow> ('x, string, unit) netcall" where
  "oanda_cancel_child_order oa i =
     bindN (send_json oa (authed oa ''PUT'' (order_path oa i @ ''/cancel'') None)) (\<lambda>_. okN ())"

section \<open>The interface of the trader\<close>

definition oanda_exchange_api :: "'x oanda \<Rightarrow> 'x net exchange_api" where
  "oanda_exchange_api oa =
     \<lparr>api_send_child_order = oanda_send_child_order oa,
      api_get_child_orders = (\<lambda>_. oanda_get_child_orders oa),
      api_get_executions = (\<lambda>_. oanda_get_executions oa),
      api_get_positions = oanda_get_positions oa,
      api_get_collateral = oanda_get_collateral oa,
      api_cancel_child_order = (\<lambda>_. oanda_cancel_child_order oa),
      api_resolve_position_id = (\<lambda>_ _ _ _. okN None),
      api_requires_close_position_id = False,
      api_fetch_close_sfd = (\<lambda>_. okN 0),
      api_place_stop_order = (\<lambda>_ _ _ _ _. unsupported ''place_stop_order''),
      api_cancel_stop_order = (\<lambda>_ _. unsupported ''cancel_stop_order''),
      api_stop_order_status = (\<lambda>_ _. unsupported ''stop_order_status'')\<rparr>"

end
