(* ===== verification/Client_Theorems.thy ===== *)
theory Client_Theorems
  imports Trader_Orders Gmo_Client Oanda_Client
begin

text \<open>
  What the exchange clients send. A client is the provider of the interface \<open>ExchangeApi\<close>: the
  locale \<open>http_client\<close> states that every operation only sends requests of one form, and lifts this
  to all sequences of operations; it is interpreted on the three clients. Then the orders: the
  closing orders of the trader on GMO FX, and the unit encoding of OANDA.
\<close>

section \<open>Sequences of operations\<close>

text \<open>One operation of a client, or a move of the outside world.\<close>

inductive api_step :: "'x net exchange_api \<Rightarrow> 'x net \<Rightarrow> 'x net \<Rightarrow> bool" for api where
  Send: "api_step api n (snd (api_send_child_order api rq n))"
| Orders: "api_step api n (snd (api_get_child_orders api p i n))"
| Executions: "api_step api n (snd (api_get_executions api p i n))"
| Positions: "api_step api n (snd (api_get_positions api p n))"
| Collateral: "api_step api n (snd (api_get_collateral api n))"
| Cancel: "api_step api n (snd (api_cancel_child_order api p i n))"
| Resolve: "api_step api n (snd (api_resolve_position_id api p after sd sz n))"
| Sfd: "api_step api n (snd (api_fetch_close_sfd api p n))"
| PlaceStop: "api_step api n (snd (api_place_stop_order api p sd sz trigger pid n))"
| CancelStop: "api_step api n (snd (api_cancel_stop_order api p i n))"
| StopStatus: "api_step api n (snd (api_stop_order_status api p i n))"
| Outside: "api_step api n (n\<lparr>nt_out := x\<rparr>)"

definition api_run :: "'x net exchange_api \<Rightarrow> 'x net \<Rightarrow> 'x net \<Rightarrow> bool" where
  "api_run api = (api_step api)\<^sup>*\<^sup>*"

locale http_client =
  fixes api :: "'x net exchange_api" and ok :: "http_request \<Rightarrow> bool"
  assumes sends_order: "sends ok (api_send_child_order api rq)"
    and sends_reads: "sends ok (api_get_child_orders api p i)" "sends ok (api_get_executions api p i)"
      "sends ok (api_get_positions api p)" "sends ok (api_get_collateral api)"
    and sends_cancel: "sends ok (api_cancel_child_order api p i)"
    and sends_resolve: "sends ok (api_resolve_position_id api p after sd sz)"
    and sends_sfd: "sends ok (api_fetch_close_sfd api p)"
    and sends_stops: "sends ok (api_place_stop_order api p sd sz trigger pid)"
      "sends ok (api_cancel_stop_order api p i)" "sends ok (api_stop_order_status api p i)"
begin

lemma step_sends:
  assumes "api_step api n n'"
  shows "\<exists>new. nt_sent n' = nt_sent n @ new \<and> list_all ok new"
  using assms sends_order sends_reads sends_cancel sends_resolve sends_sfd sends_stops
  by cases (simp_all add: sends_def)

lemma run_sends:
  assumes "api_run api n n'"
  shows "\<exists>new. nt_sent n' = nt_sent n @ new \<and> list_all ok new"
  using assms unfolding api_run_def
proof (induction rule: rtranclp_induct)
  case (step a b)
  then obtain new1 new2 where "nt_sent a = nt_sent n @ new1" "list_all ok new1"
      "nt_sent b = nt_sent a @ new2" "list_all ok new2" using step_sends by blast
  then show ?case by simp
qed simp

end

section \<open>Signed requests\<close>

definition body_text :: "http_request \<Rightarrow> string" where
  "body_text rq = (case hq_body rq of None \<Rightarrow> '''' | Some b \<Rightarrow> b)"

text \<open>The signature is over the time, method, path and body of this very request.\<close>

definition bitflyer_signed :: "codec \<Rightarrow> bitflyer_client \<Rightarrow> http_request \<Rightarrow> bool" where
  "bitflyer_signed cd c rq \<longleftrightarrow> (\<exists>ts path. hq_url rq = bf_base_url c @ path \<and>
     hq_headers rq ''ACCESS-KEY'' = Some (bf_api_key c) \<and> hq_headers rq ''ACCESS-TIMESTAMP'' = Some ts \<and>
     hq_headers rq ''ACCESS-SIGN'' = Some (cd_sign cd (bf_api_secret c) (ts @ hq_method rq @ path @ body_text rq)))"

text \<open>On GMO FX it is over the path without its query.\<close>

definition gmo_signed :: "codec \<Rightarrow> gmo_client \<Rightarrow> http_request \<Rightarrow> bool" where
  "gmo_signed cd c rq \<longleftrightarrow> (\<exists>ts path query. hq_url rq = gm_api_url c @ ''/private'' @ path @ query \<and>
     CHR ''?'' \<notin> set path \<and> (query = [] \<or> hd query = CHR ''?'') \<and>
     hq_headers rq ''API-KEY'' = Some (gm_api_key c) \<and> hq_headers rq ''API-TIMESTAMP'' = Some ts \<and>
     hq_headers rq ''API-SIGN'' = Some (cd_sign cd (gm_api_secret c) (ts @ hq_method rq @ path @ body_text rq)))"

definition oanda_authorized :: "codec \<Rightarrow> oanda_client \<Rightarrow> http_request \<Rightarrow> bool" where
  "oanda_authorized cd c rq \<longleftrightarrow>
     (\<exists>rest. hq_url rq = oa_base_url c @ ''/v3/accounts/'' @ cd_url_encode cd (oa_account_id c) @ rest) \<and>
     hq_headers rq ''Authorization'' = Some (''Bearer '' @ oa_api_key c)"

lemma bitflyer_request_signed:
  assumes "meth = ''POST'' \<or> body = []"
  shows "bitflyer_signed cd c (bitflyer_http_request cd c now meth path body)"
  using assms
  by (auto simp: bitflyer_signed_def bitflyer_http_request_def auth_headers_def bitflyer_sign_def body_text_def Let_def)

lemma gmo_request_signed:
  assumes "meth = ''POST'' \<or> body = None"
  shows "gmo_signed cd c (gmo_http_request cd c now meth path body)"
proof -
  let ?rq = "gmo_http_request cd c now meth path body"
  let ?q = "dropWhile (\<lambda>c. c \<noteq> CHR ''?'') path"
  have "hq_url ?rq = gm_api_url c @ ''/private'' @ sign_path_for path @ ?q"
    by (simp add: gmo_http_request_def Let_def sign_path_for_def)
  moreover have "CHR ''?'' \<notin> set (sign_path_for path)"
    unfolding sign_path_for_def using set_takeWhileD [of "CHR ''?''" "\<lambda>c. c \<noteq> CHR ''?''" path] by blast
  moreover have "?q = [] \<or> hd ?q = CHR ''?''"
    using hd_dropWhile [of "\<lambda>c. c \<noteq> CHR ''?''" path] by blast
  moreover have "hq_headers ?rq ''API-KEY'' = Some (gm_api_key c)"
    "hq_headers ?rq ''API-TIMESTAMP'' = Some (int_text (unix_millis now))"
    by (simp_all add: gmo_http_request_def Let_def)
  moreover have "hq_headers ?rq ''API-SIGN'' = Some (cd_sign cd (gm_api_secret c)
      (int_text (unix_millis now) @ hq_method ?rq @ sign_path_for path @ body_text ?rq))"
    using assms by (auto simp: gmo_http_request_def Let_def gmo_sign_def bitflyer_sign_def body_text_def split: option.split)
  ultimately show ?thesis unfolding gmo_signed_def by blast
qed

lemma bitflyer_call_signed [sends_rules]:
  "meth = ''POST'' \<or> body = [] \<Longrightarrow> sends (bitflyer_signed (by_codec b) (by_client b)) (bitflyer_call b meth path body)"
  unfolding bitflyer_call_def bitflyer_request_def by (intro sends_rules bitflyer_request_signed)

lemma signed_request_signed [sends_rules]:
  "meth = ''POST'' \<or> body = None \<Longrightarrow> sends (gmo_signed (gy_codec g) (gy_client g)) (signed_request g decode meth path body)"
  unfolding signed_request_def by (intro sends_rules gmo_request_signed)

lemma authed_authorized: "oanda_authorized (oy_codec oa) (oy_client oa) (authed oa meth (account_path oa rest) body)"
  by (simp add: oanda_authorized_def authed_def account_path_def)

lemma send_json_authorized [sends_rules]:
  "sends (oanda_authorized (oy_codec oa) (oy_client oa)) (send_json oa (authed oa meth (account_path oa rest) body))"
  unfolding send_json_def by (intro sends_rules authed_authorized)

lemma sends_bitflyer_error [sends_rules]:
  "(\<And>m. sends P (f m)) \<Longrightarrow> (\<And>e. sends P (g e)) \<Longrightarrow> sends P (case e of OrderNotFound m \<Rightarrow> f m | _ \<Rightarrow> g e)"
  by (cases e) auto

lemmas bitflyer_operations = bitflyer_send_child_order_def bitflyer_get_child_orders_def bitflyer_get_executions_def
  bitflyer_cancel_child_order_def send_parent_order_stop_def cancel_parent_order_def get_parent_order_def
  get_child_orders_by_parent_def bitflyer_get_positions_def bitflyer_get_collateral_def

lemma bitflyer_stop_signed [sends_rules]:
  "sends (bitflyer_signed (by_codec b) (by_client b)) (bitflyer_stop_order_status rnd b p i)"
  unfolding bitflyer_stop_order_status_def
proof (rule sends_bind)
  fix found :: "bitflyer_error + parent_order"
  have finish: "sends (bitflyer_signed (by_codec b) (by_client b)) (finished_stop_status rnd b p parent)" for parent
    unfolding finished_stop_status_def bitflyer_operations by (intro sends_rules) auto
  show "sends (bitflyer_signed (by_codec b) (by_client b)) (case found of
       Inl (OrderNotFound _) \<Rightarrow> okN StopGone
     | Inl e \<Rightarrow> failN e
     | Inr parent \<Rightarrow>
         (case po_parent_order_state parent of
            Some ParentActive \<Rightarrow> okN StopActive
          | Some ParentCanceled \<Rightarrow> okN StopGone
          | Some ParentExpired \<Rightarrow> okN StopGone
          | Some ParentRejected \<Rightarrow> okN StopGone
          | _ \<Rightarrow> finished_stop_status rnd b p parent))"
    by (auto simp: sends_rules finish split: sum.split bitflyer_error.split option.split parent_order_state.split)
qed (unfold bitflyer_operations, (intro sends_rules, auto)[1])

interpretation bitflyer: http_client "bitflyer_exchange_api rnd b" "bitflyer_signed (by_codec b) (by_client b)" for rnd b
  by unfold_locales (simp_all add: bitflyer_exchange_api_def bitflyer_operations bitflyer_fetch_close_sfd_def sends_rules)

lemmas gmo_operations = gmo_send_child_order_def post_open_order_def post_close_order_def gmo_orders_def
  gmo_executions_def gmo_open_positions_def gmo_get_child_orders_def gmo_get_executions_def gmo_get_positions_def
  gmo_get_collateral_def gmo_cancel_order_def gmo_resolve_position_id_def gmo_place_stop_order_def
  gmo_stop_order_status_def

interpretation gmo: http_client "gmo_exchange_api rnd g" "gmo_signed (gy_codec g) (gy_client g)" for rnd g
  by unfold_locales (simp_all add: gmo_exchange_api_def gmo_operations sends_rules Let_def)

lemma sends_unsupported [sends_rules]: "sends P (unsupported op)"
  by (simp add: sends_def unsupported_def)

lemmas oanda_operations = oanda_send_child_order_def oanda_get_child_orders_def oanda_get_executions_def
  oanda_get_positions_def oanda_get_collateral_def oanda_cancel_child_order_def read_order_def
  fetch_filled_order_def fetch_execution_def order_path_def

lemma account_path_append: "account_path oa a @ b = account_path oa (a @ b)"
  by (simp add: account_path_def)

interpretation oanda: http_client "oanda_exchange_api oa" "oanda_authorized (oy_codec oa) (oy_client oa)" for oa
  by unfold_locales (simp_all add: oanda_exchange_api_def oanda_operations account_path_append sends_rules Let_def)

section \<open>Closing orders on GMO FX\<close>

text \<open>
  The only request a closing order of \<open>t\<close> makes: it goes to \<open>closeOrder\<close>, names the position
  of the trade, and is for the closing side.
\<close>

definition gmo_closes :: "'x gmo \<Rightarrow> trade \<Rightarrow> decimal \<Rightarrow> http_request \<Rightarrow> bool" where
  "gmo_closes g t sz hr \<longleftrightarrow> hq_method hr = ''POST'' \<and>
     hq_url hr = gm_api_url (gy_client g) @ ''/private/v1/closeOrder'' \<and>
     (\<exists>pid position_id. t_exchange_position_id t = Some pid \<and> parse_u64 pid = Some position_id \<and>
        hq_body hr = Some (cd_json_text (gy_codec g) (gmo_close_json
          \<lparr>gc_symbol = t_pair t, gc_side = side_to_gmo (closing_side (t_direction t)),
           gc_execution_type = GmoMarket,
           gc_settle_position = [\<lparr>gs_position_id = position_id, gs_size = cd_dec_text (gy_codec g) sz\<rparr>]\<rparr>)))"

lemma gmo_close_order_sends:
  assumes "t_exchange_position_id t \<noteq> None"
  shows "sends (gmo_closes g t sz) (gmo_send_child_order g (close_request t sz))"
proof -
  obtain pid where pid: "t_exchange_position_id t = Some pid" using assms by blast
  show ?thesis
    unfolding gmo_send_child_order_def post_close_order_def signed_request_def Let_def
    by (cases "parse_u64 pid")
      (auto simp: pid close_request_def ok_orN_def ensure_market_order_def gmo_closes_def gmo_http_request_def Let_def
        run_simps sends_def send_http_def okN_def liftN_def bindN_def split: prod.splits sum.splits)
qed

lemma gmo_requires: "tr_api tr = gmo_exchange_api rnd g \<Longrightarrow> api_requires_close_position_id (tr_api tr)"
  by (simp add: gmo_exchange_api_def)

lemma safe_close_order:
  assumes "safe_close_log tr t new" and "SentOrder rq i \<in> set new" and "api_requires_close_position_id (tr_api tr)"
  shows "\<exists>sz. rq = close_request t sz \<and> sz \<le> t_quantity t \<and> t_exchange_position_id t \<noteq> None"
proof -
  have no: "SentOrder rq i \<notin> set cs" if "list_all harmless cs" for cs
    using that by (auto simp: list_all_iff)
  then show ?thesis using assms unfolding safe_close_log_def one_close_order_def by fastforce
qed

text \<open>
  C3. Closing on GMO FX never opens a position. When the trader closes a trade through the GMO
  client, it sends at most one order; that order is for a trade whose close lock was taken, and
  whatever state the network is in, all the client posts for it are requests to \<open>closeOrder\<close> that
  name the position of the trade, for its closing side and at most its quantity.
\<close>

theorem gmo_close_never_opens:
  assumes "tr_api tr = gmo_exchange_api rnd' g" and "close_position rnd env tr tid x w = (r, w')"
  shows "\<exists>new. w_calls w' = w_calls w @ new \<and> length (filter is_order new) \<le> 1 \<and>
    (\<forall>rq i. SentOrder rq i \<in> set new \<longrightarrow>
       (\<exists>l db' sz. acquire_close_lock (env_utc_now env (w_out w)) tid (tr_account_id tr) (w_db w) = (Inr (Some l), db')
          \<and> rq = close_request (lock_trade l) sz \<and> sz \<le> t_quantity (lock_trade l)
          \<and> sends (gmo_closes g (lock_trade l) sz) (api_send_child_order (tr_api tr) rq)))"
proof -
  obtain new where new: "w_calls w' = w_calls w @ new"
    and c: "new = [] \<or> (\<exists>l db'. acquire_close_lock (env_utc_now env (w_out w)) tid (tr_account_id tr) (w_db w)
        = (Inr (Some l), db') \<and> safe_close_log tr (lock_trade l) new)"
    using close_position_log [OF assms(2)] by blast
  show ?thesis
  proof (cases "new = []")
    case False
    then obtain l db' where lock: "acquire_close_lock (env_utc_now env (w_out w)) tid (tr_account_id tr) (w_db w)
        = (Inr (Some l), db')" and safe: "safe_close_log tr (lock_trade l) new" using c by blast
    have order: "\<exists>sz. rq = close_request (lock_trade l) sz \<and> sz \<le> t_quantity (lock_trade l)
        \<and> sends (gmo_closes g (lock_trade l) sz) (api_send_child_order (tr_api tr) rq)"
      if "SentOrder rq i \<in> set new" for rq i
      using safe_close_order [OF safe that gmo_requires [OF assms(1)]] gmo_close_order_sends [of "lock_trade l" g]
      unfolding assms(1) by (auto simp: gmo_exchange_api_def)
    have "length (filter is_order new) \<le> 1"
      using safe unfolding safe_close_log_def one_close_order_def
      by (auto simp: list_all_iff filter_empty_conv)
    then show ?thesis using new lock order by blast
  qed (use new in simp)
qed

section \<open>Orders on OANDA\<close>

definition oanda_accepts :: "send_child_order_request \<Rightarrow> bool" where
  "oanda_accepts rq \<longleftrightarrow> rq_child_order_type rq = Market \<and> 0 < rq_size rq \<and> rq_size rq = trunc (rq_size rq)
     \<and> in_i64 \<lfloor>rq_size rq\<rfloor>"

definition order_units :: "send_child_order_request \<Rightarrow> int" where
  "order_units rq = (case rq_side rq of Buy \<Rightarrow> \<lfloor>rq_size rq\<rfloor> | Sell \<Rightarrow> - \<lfloor>rq_size rq\<rfloor>)"

lemma oanda_units_cases:
  "oanda_units rq = (if oanda_accepts rq then Inr (order_units rq) else oanda_units rq)"
  "\<not> oanda_accepts rq \<Longrightarrow> \<exists>e. oanda_units rq = Inl e"
  by (auto simp: oanda_units_def oanda_accepts_def order_units_def split: side.split)

lemma order_units_facts:
  assumes "oanda_accepts rq"
  shows "in_i64 (order_units rq)" "of_int \<bar>order_units rq\<bar> = rq_size rq" "0 < order_units rq \<longleftrightarrow> rq_side rq = Buy"
    "0 \<le> order_units rq \<longleftrightarrow> rq_side rq = Buy"
proof -
  have w: "rq_size rq = of_int \<lfloor>rq_size rq\<rfloor>" and pos: "0 < rq_size rq" and i: "in_i64 \<lfloor>rq_size rq\<rfloor>"
    using assms by (auto simp: oanda_accepts_def trunc_def split: if_splits)
  then have f: "0 < \<lfloor>rq_size rq\<rfloor>" by (metis of_int_0_less_iff)
  have "in_i64 (- k)" if "in_i64 k" "0 < k" for k using that by (simp add: in_i64_def)
  then show "in_i64 (order_units rq)" using i f by (cases "rq_side rq") (simp_all add: order_units_def)
  show "of_int \<bar>order_units rq\<bar> = rq_size rq" using w f by (cases "rq_side rq") (simp_all add: order_units_def)
  show "0 < order_units rq \<longleftrightarrow> rq_side rq = Buy" "0 \<le> order_units rq \<longleftrightarrow> rq_side rq = Buy"
    using f by (cases "rq_side rq"; simp add: order_units_def)+
qed

lemma order_reads_back:
  assumes "oanda_accepts rq" and "non_empty (get_str ''id'' ord) = Some i"
    and "non_empty (get_str ''instrument'' ord) = Some instrument"
    and "get_str ''units'' ord = Some (int_text (order_units rq))"
  shows "\<exists>c. order_json_to_child cd ord = Inr c \<and> co_product_code c = instrument
      \<and> co_side c = side_text (rq_side rq) \<and> co_size c = rq_size rq"
proof -
  have "order_json_to_child cd ord = Inr (child_order_of_oanda cd ord i instrument (order_units rq))"
    by (simp add: order_json_to_child_def assms(2-) i64_roundtrip order_units_facts(1) [OF assms(1)])
  then show ?thesis using order_units_facts(2,4) [OF assms(1)]
    by (cases "rq_side rq") (simp_all add: child_order_of_oanda_def Let_def)
qed

lemma fill_reads_back:
  assumes "oanda_accepts rq" and "get_str ''price'' tx = Some p" and "cd_dec_parse cd p = Inr price"
    and "get_str ''units'' tx = Some (int_text (order_units rq))"
  shows "\<exists>e. execution_of_fill cd i tx = Inr e \<and> xc_price e = price
      \<and> xc_side e = side_text (rq_side rq) \<and> xc_size e = rq_size rq"
  using order_units_facts [OF assms(1)] i64_roundtrip [OF order_units_facts(1) [OF assms(1)]]
  by (cases "rq_side rq") (simp_all add: execution_of_fill_def assms(2-))

lemma send_json_sends: "nt_sent (snd (send_json oa rq n)) = nt_sent n @ [rq]"
  by (auto simp: send_json_def run_simps send_http_def split: prod.splits sum.splits)

lemma oanda_order_accepted:
  assumes "oanda_accepts rq" and "oanda_send_child_order oa rq n = (r, n')"
  shows "nt_sent n' = nt_sent n @ [authed oa ''POST'' (account_path oa ''/orders'')
      (Some (market_order_json (rq_product_code rq) (order_units rq)))]"
proof -
  have u: "oanda_units rq = Inr (order_units rq)" using oanda_units_cases(1) [of rq] assms(1) by simp
  show ?thesis
    using assms(2) send_json_sends [of oa "authed oa ''POST'' (account_path oa ''/orders'')
        (Some (market_order_json (rq_product_code rq) (order_units rq)))" n]
    by (auto simp: oanda_send_child_order_def run_simps u split: prod.splits sum.splits)
qed

lemma oanda_order_rejected:
  assumes "\<not> oanda_accepts rq" and "oanda_send_child_order oa rq n = (r, n')"
  shows "n' = n \<and> (\<exists>e. r = Inl e)"
  using oanda_units_cases(2) [OF assms(1)] assms(2) by (auto simp: oanda_send_child_order_def run_simps)

text \<open>An order JSON that carries the instrument and the units of the order that was sent.\<close>

definition echoes :: "json \<Rightarrow> json \<Rightarrow> bool" where
  "echoes body ord \<longleftrightarrow> (\<exists>sent. json_get ''order'' body = Some sent \<and>
     get_str ''instrument'' ord = get_str ''instrument'' sent \<and> get_str ''units'' ord = get_str ''units'' sent)"

lemma echoes_market: "echoes (market_order_json p u) ord \<longleftrightarrow>
    get_str ''instrument'' ord = Some p \<and> get_str ''units'' ord = Some (int_text u)"
  by (simp add: echoes_def market_order_json_def get_str_def)

text \<open>
  C20. OANDA orders survive the encoding of their side in the sign of the units. A request that is
  not a market order for a positive whole number of units in the 64-bit range fails and sends
  nothing. Any other request is sent once, and whenever the exchange later shows the order, or a
  fill of it, with the instrument and units that were sent, the client reads back the product, the
  side and the size of the request.
\<close>

theorem oanda_order_roundtrip:
  assumes "oanda_send_child_order oa rq n = (r, n')" and "rq_product_code rq \<noteq> []"
  shows "if \<not> oanda_accepts rq then n' = n \<and> (\<exists>e. r = Inl e)
    else \<exists>body. nt_sent n' = nt_sent n @ [authed oa ''POST'' (account_path oa ''/orders'') (Some body)] \<and>
      (\<forall>cd ord i. non_empty (get_str ''id'' ord) = Some i \<and> echoes body ord \<longrightarrow>
         (\<exists>c. order_json_to_child cd ord = Inr c \<and> co_product_code c = rq_product_code rq
            \<and> co_side c = side_text (rq_side rq) \<and> co_size c = rq_size rq)) \<and>
      (\<forall>cd tx i p price. get_str ''price'' tx = Some p \<and> cd_dec_parse cd p = Inr price \<and> echoes body tx \<longrightarrow>
         (\<exists>e. execution_of_fill cd i tx = Inr e \<and> xc_price e = price
            \<and> xc_side e = side_text (rq_side rq) \<and> xc_size e = rq_size rq))"
proof (cases "oanda_accepts rq")
  case True
  let ?body = "market_order_json (rq_product_code rq) (order_units rq)"
  have inst: "non_empty (Some (rq_product_code rq)) = Some (rq_product_code rq)"
    using assms(2) by (cases "rq_product_code rq") (simp_all add: non_empty_def)
  have "nt_sent n' = nt_sent n @ [authed oa ''POST'' (account_path oa ''/orders'') (Some ?body)]"
    by (rule oanda_order_accepted [OF True assms(1)])
  moreover have "\<forall>cd ord i. non_empty (get_str ''id'' ord) = Some i \<and> echoes ?body ord \<longrightarrow>
         (\<exists>c. order_json_to_child cd ord = Inr c \<and> co_product_code c = rq_product_code rq
            \<and> co_side c = side_text (rq_side rq) \<and> co_size c = rq_size rq)"
    using order_reads_back [OF True] inst by (simp add: echoes_market)
  moreover have "\<forall>cd tx i p price. get_str ''price'' tx = Some p \<and> cd_dec_parse cd p = Inr price \<and> echoes ?body tx \<longrightarrow>
         (\<exists>e. execution_of_fill cd i tx = Inr e \<and> xc_price e = price
            \<and> xc_side e = side_text (rq_side rq) \<and> xc_size e = rq_size rq)"
    using fill_reads_back [OF True] by (simp add: echoes_market)
  ultimately show ?thesis using True by (simp only: not_True_eq_False if_False) blast
qed (use oanda_order_rejected [OF _ assms(1)] in simp)

section \<open>The newest position\<close>

text \<open>The positions \<open>resolve_position_id\<close> may answer with, as times and identifiers.\<close>

definition candidates :: "codec \<Rightarrow> string \<Rightarrow> decimal \<Rightarrow> datetime \<Rightarrow> gmo_open_position list \<Rightarrow> (datetime \<times> nat) list" where
  "candidates cd sd sz after ps = List.map_filter (\<lambda>p.
     if gp_side p = sd \<and> gp_size p = sz
     then (case cd_time_parse cd (gp_timestamp p) of
             Some ts \<Rightarrow> if after \<le> ts then Some (ts, gp_position_id p) else None | None \<Rightarrow> None)
     else None) ps"

definition later :: "(datetime \<times> nat) option \<Rightarrow> datetime \<times> nat \<Rightarrow> (datetime \<times> nat) option" where
  "later best x = (case best of None \<Rightarrow> Some x | Some b \<Rightarrow> if fst x > fst b then Some x else best)"

lemma foldl_newer:
  "foldl (newer_position cd sd sz after) best ps = foldl later best (candidates cd sd sz after ps)"
proof (induction ps arbitrary: best)
  case (Cons p ps)
  have "newer_position cd sd sz after best p = foldl later best (candidates cd sd sz after [p])"
    by (auto simp: newer_position_def candidates_def List.map_filter_def later_def split: option.splits)
  moreover have "candidates cd sd sz after (p # ps) = candidates cd sd sz after [p] @ candidates cd sd sz after ps"
    by (simp add: candidates_def List.map_filter_def)
  ultimately show ?case using Cons by simp
qed (simp add: candidates_def List.map_filter_def)

lemma find_snoc: "find p (xs @ [x]) = (case find p xs of Some y \<Rightarrow> Some y | None \<Rightarrow> if p x then Some x else None)"
  by (induction xs) auto

lemma foldl_later:
  "foldl later None xs = find (\<lambda>x. \<forall>y \<in> set xs. fst y \<le> fst x) xs"
proof (induction xs rule: rev_induct)
  case (snoc x xs)
  show ?case
  proof (cases "find (\<lambda>z. \<forall>y \<in> set xs. fst y \<le> fst z) xs")
    case None
    have "xs = []"
    proof (rule ccontr)
      assume "xs \<noteq> []"
      then obtain z where "z \<in> set xs" "\<forall>y \<in> set xs. fst y \<le> fst z"
        using Max_in [of "fst ` set xs"] Max_ge [of "fst ` set xs"] by fastforce
      then show False using None unfolding find_None_iff by blast
    qed
    then show ?thesis by (simp add: later_def)
  next
    case (Some b)
    then have b: "b \<in> set xs" "\<forall>y \<in> set xs. fst y \<le> fst b" by (auto simp: find_Some_iff)
    have "find (\<lambda>z. (\<forall>y \<in> set xs. fst y \<le> fst z) \<and> fst x \<le> fst z) xs = (if fst x > fst b then None else Some b)"
    proof (cases "fst x > fst b")
      case True
      then show ?thesis using b by (auto simp: find_None_iff)
    next
      case False
      have "find (\<lambda>z. (\<forall>y \<in> set xs. fst y \<le> fst z) \<and> fst x \<le> fst z) xs
          = find (\<lambda>z. \<forall>y \<in> set xs. fst y \<le> fst z) xs"
        using False b(1) by (intro find_cong) (auto intro: order.trans [of "fst x" "fst b"])
      then show ?thesis using False Some by simp
    qed
    then show ?thesis using Some snoc b by (auto simp: find_snoc later_def conj_commute)
  qed
qed simp

lemma gmo_resolve_newest:
  "gmo_resolve_position_id g p after sd sz = bindN (gmo_open_positions g p) (\<lambda>ps.
     let cs = candidates (gy_codec g) (side_text sd) sz after ps in
     okN (map_option (\<lambda>(_, i). nat_text i) (find (\<lambda>x. \<forall>y \<in> set cs. fst y \<le> fst x) cs)))"
  by (simp add: gmo_resolve_position_id_def foldl_newer foldl_later Let_def)

end
