(* ===== verification/Client_Witnesses.thy ===== *)
theory Client_Witnesses
  imports Client_Theorems Trader_Theorems
begin

text \<open>
  The signatures of all client requests as a property of any sequence of operations, and small
  networks on which the properties of the clients are applied.
\<close>

section \<open>All requests are signed\<close>

text \<open>
  C10. Whatever sequence of operations the program calls on a client, and whatever the network
  answers, every request is authorized. On bitFlyer it carries the key and a signature over the
  time stamp, method, path and body of that very request; on GMO FX over the path without its
  query; on OANDA it goes to the path of the account and carries the token.
\<close>

theorem client_requests_signed:
  assumes "api_run (bitflyer_exchange_api rnd b) n1 n1'"
    and "api_run (gmo_exchange_api rnd g) n2 n2'"
    and "api_run (oanda_exchange_api oa) n3 n3'"
  shows "(\<exists>new. nt_sent n1' = nt_sent n1 @ new \<and> list_all (bitflyer_signed (by_codec b) (by_client b)) new)
    \<and> (\<exists>new. nt_sent n2' = nt_sent n2 @ new \<and> list_all (gmo_signed (gy_codec g) (gy_client g)) new)
    \<and> (\<exists>new. nt_sent n3' = nt_sent n3 @ new \<and> list_all (oanda_authorized (oy_codec oa) (oy_client oa)) new)"
  using bitflyer.run_sends [OF assms(1)] gmo.run_sends [OF assms(2)] oanda.run_sends [OF assms(3)] by blast

section \<open>Small networks\<close>

text \<open>Every POST request fails, every other one is answered with \<open>ok\<close>.\<close>

definition demo_wire :: "int wire" where
  "demo_wire = \<lparr>wr_http = (\<lambda>rq x. (if hq_method rq = ''POST'' then Inl ''down''
        else Inr \<lparr>hr_status = 200, hr_headers = Map.empty, hr_text = Inr ''ok''\<rparr>, x + 1)),
     wr_now = (\<lambda>x. x), wr_wait = (\<lambda>_ x. x)\<rparr>"

definition demo_codec :: codec where
  "demo_codec = \<lparr>cd_sign = (\<lambda>key msg. key @ msg), cd_url_encode = (\<lambda>s. s),
     cd_dec_text = (\<lambda>d. int_text \<lfloor>d\<rfloor>),
     cd_dec_parse = (\<lambda>s. case parse_i64 s of Some i \<Rightarrow> Inr (of_int i) | None \<Rightarrow> Inl ''invalid''),
     cd_time_parse = (\<lambda>s. map_option int (parse_u64 s)), cd_json_text = (\<lambda>_. ''{}''),
     cd_json_parse = (\<lambda>_. Inr (JObject []))\<rparr>"

definition demo_bitflyer :: "int bitflyer" where
  "demo_bitflyer = \<lparr>by_wire = demo_wire, by_codec = demo_codec,
     by_decoders = \<lparr>bd_error = (\<lambda>_. Inl ''no error''), bd_acceptance = Inr, bd_parent_acceptance = Inr,
        bd_child_orders = (\<lambda>_. Inr []), bd_executions = (\<lambda>_. Inr []), bd_positions = (\<lambda>_. Inr []),
        bd_collateral = (\<lambda>_. Inl ''none''),
        bd_parent_order = (\<lambda>_. Inr \<lparr>po_parent_order_id = ''p'', po_parent_order_state = None\<rparr>)\<rparr>,
     by_client = \<lparr>bf_base_url = ''b'', bf_api_key = ''k'', bf_api_secret = ''s'', bf_rate_limiter = True\<rparr>\<rparr>"

definition demo_answer :: "'a \<Rightarrow> string \<Rightarrow> string + 'a gmo_api_response" where
  "demo_answer a _ = Inr \<lparr>gr_status = 0, gr_messages = [], gr_data = Some a\<rparr>"

definition demo_gmo :: "int gmo" where
  "demo_gmo = \<lparr>gy_wire = demo_wire, gy_codec = demo_codec,
     gy_decoders = \<lparr>gd_order_response = demo_answer 5, gd_value = demo_answer JNull, gd_orders = demo_answer [],
        gd_executions = demo_answer [], gd_open_positions = demo_answer [],
        gd_assets = demo_answer \<lparr>ga_equity = 1, ga_available_amount = 1, ga_balance = 1,
          ga_estimated_trade_fee = 0, ga_margin = 0, ga_margin_call_status = ''NORMAL'', ga_margin_ratio = 0,
          ga_position_loss_gain = 0, ga_total_swap = 0, ga_transferable_amount = 1\<rparr>\<rparr>,
     gy_client = \<lparr>gm_api_url = ''g'', gm_api_key = ''k'', gm_api_secret = ''s''\<rparr>\<rparr>"

definition demo_oanda :: "int oanda" where
  "demo_oanda = \<lparr>oy_wire = demo_wire, oy_codec = demo_codec,
     oy_client = \<lparr>oa_base_url = ''o'', oa_account_id = ''1'', oa_api_key = ''t''\<rparr>\<rparr>"

definition demo_net :: "int net" where
  "demo_net = \<lparr>nt_out = 0, nt_sent = []\<rparr>"

lemma api_run_step: "api_step api n n' \<Longrightarrow> api_run api n n'"
  unfolding api_run_def by (rule r_into_rtranclp)

lemma demo_sent:
  "nt_sent (snd (api_get_executions (bitflyer_exchange_api exact demo_bitflyer) ''P'' ''7'' demo_net)) \<noteq> []"
  "nt_sent (snd (api_get_executions (gmo_exchange_api exact demo_gmo) ''P'' ''7'' demo_net)) \<noteq> []"
  "nt_sent (snd (api_get_positions (oanda_exchange_api demo_oanda) ''P'' demo_net)) \<noteq> []"
  by (simp_all add: bitflyer_exchange_api_def bitflyer_get_executions_def bitflyer_call_def bitflyer_request_def
      gmo_exchange_api_def gmo_get_executions_def gmo_executions_def signed_request_def
      oanda_exchange_api_def oanda_get_positions_def send_json_def run_simps send_http_def
      demo_bitflyer_def demo_gmo_def demo_oanda_def demo_wire_def demo_net_def
      split: prod.splits sum.splits)

theorem client_requests_signed_witness:
  "\<exists>rq rq' rq''. nt_sent (snd (api_get_executions (bitflyer_exchange_api exact demo_bitflyer) ''P'' ''7'' demo_net)) = rq
     \<and> rq \<noteq> [] \<and> list_all (bitflyer_signed demo_codec (by_client demo_bitflyer)) rq
     \<and> nt_sent (snd (api_get_executions (gmo_exchange_api exact demo_gmo) ''P'' ''7'' demo_net)) = rq'
     \<and> rq' \<noteq> [] \<and> list_all (gmo_signed demo_codec (gy_client demo_gmo)) rq'
     \<and> nt_sent (snd (api_get_positions (oanda_exchange_api demo_oanda) ''P'' demo_net)) = rq''
     \<and> rq'' \<noteq> [] \<and> list_all (oanda_authorized demo_codec (oy_client demo_oanda)) rq''"
proof -
  have "api_run (bitflyer_exchange_api exact demo_bitflyer) demo_net
      (snd (api_get_executions (bitflyer_exchange_api exact demo_bitflyer) ''P'' ''7'' demo_net))"
    "api_run (gmo_exchange_api exact demo_gmo) demo_net
      (snd (api_get_executions (gmo_exchange_api exact demo_gmo) ''P'' ''7'' demo_net))"
    "api_run (oanda_exchange_api demo_oanda) demo_net
      (snd (api_get_positions (oanda_exchange_api demo_oanda) ''P'' demo_net))"
    by (intro api_run_step Executions Positions)+
  from client_requests_signed [OF this] show ?thesis
    using demo_sent by (simp add: demo_net_def demo_bitflyer_def demo_gmo_def demo_oanda_def)
qed

text \<open>The encoding of an order for 1000 units on the selling side.\<close>

definition demo_sell :: send_child_order_request where
  "demo_sell = \<lparr>rq_product_code = ''USD_JPY'', rq_child_order_type = Market, rq_side = Sell, rq_size = 1000,
     rq_price = None, rq_minute_to_expire = None, rq_time_in_force = None, rq_close_position_id = None\<rparr>"

lemma demo_sell_accepted: "oanda_accepts demo_sell"
  by (simp add: oanda_accepts_def demo_sell_def trunc_def in_i64_def)

theorem oanda_order_roundtrip_witness:
  "\<exists>body. nt_sent (snd (oanda_send_child_order demo_oanda demo_sell demo_net)) =
       [authed demo_oanda ''POST'' (account_path demo_oanda ''/orders'') (Some body)] \<and>
     (\<forall>ord. get_str ''id'' ord = Some ''9'' \<and> echoes body ord \<longrightarrow>
        (\<exists>c. order_json_to_child demo_codec ord = Inr c \<and> co_side c = ''SELL'' \<and> co_size c = 1000))"
proof -
  have side: "side_text (rq_side demo_sell) = ''SELL''" "rq_size demo_sell = 1000" "rq_product_code demo_sell \<noteq> []"
    by (simp_all add: demo_sell_def)
  obtain body where body: "nt_sent (snd (oanda_send_child_order demo_oanda demo_sell demo_net)) =
       nt_sent demo_net @ [authed demo_oanda ''POST'' (account_path demo_oanda ''/orders'') (Some body)]"
    and reads: "\<forall>cd ord i. non_empty (get_str ''id'' ord) = Some i \<and> echoes body ord \<longrightarrow>
       (\<exists>c. order_json_to_child cd ord = Inr c \<and> co_product_code c = rq_product_code demo_sell
          \<and> co_side c = side_text (rq_side demo_sell) \<and> co_size c = rq_size demo_sell)"
    using oanda_order_roundtrip [OF surjective_pairing side(3), of demo_oanda demo_net] demo_sell_accepted
    by (simp only: not_True_eq_False if_False) blast
  have "non_empty (Some ''9'') = Some ''9''" by (simp add: non_empty_def)
  then have "\<forall>ord. get_str ''id'' ord = Some ''9'' \<and> echoes body ord \<longrightarrow>
      (\<exists>c. order_json_to_child demo_codec ord = Inr c \<and> co_side c = ''SELL'' \<and> co_size c = 1000)"
    using reads side by metis
  then show ?thesis using body by (intro exI [of _ body]) (simp add: demo_net_def)
qed

section \<open>A close on the small GMO network\<close>

definition demo_net_env :: "int net environment" where
  "demo_net_env = \<lparr>env_utc_now = nt_out, env_instant = nt_out, env_sleep = (\<lambda>d x. x\<lparr>nt_out := nt_out x + d\<rparr>),
     env_new_uuid = (\<lambda>x. (7, x)), env_prices = (\<lambda>_. price_store_new []),
     env_tasks = (\<lambda>x db. (x, db)), env_trade_channel = (\<lambda>_. True), env_uuid_text = (\<lambda>_. ''id'')\<rparr>"

definition demo_gmo_trader :: "int net trader" where
  "demo_gmo_trader = trader_new GmoFx 1 ''demo'' (gmo_exchange_api exact demo_gmo) demo_sizer (1/2) False"

definition demo_position_db :: database where
  "demo_position_db = snd (persist_open_tx 1 (demo_trade\<lparr>t_exchange_position_id := Some ''42''\<rparr>) 15000 demo_account_db)"

definition demo_net_world :: "int net world" where
  "demo_net_world = \<lparr>w_db = demo_position_db, w_out = demo_net, w_calls = [], w_notes = [], w_events = []\<rparr>"

abbreviation demo_position_trade :: trade where
  "demo_position_trade \<equiv> demo_trade\<lparr>t_exchange_position_id := Some ''42'', t_status := Closing\<rparr>"

lemma demo_position_lock:
  "fst (acquire_close_lock 0 7 1 demo_position_db) =
     Inr (Some \<lparr>lock_trade = demo_position_trade, was_stale_recovery = False\<rparr>)"
  by code_simp

lemma demo_net_facts:
  "env_utc_now demo_net_env n = nt_out n" "env_tasks demo_net_env n db = (n, db)"
  "tr_dry_run demo_gmo_trader = False" "tr_account_id demo_gmo_trader = 1"
  "tr_api demo_gmo_trader = gmo_exchange_api exact demo_gmo"
  "w_db demo_net_world = demo_position_db" "nt_out (w_out demo_net_world) = 0" "w_calls demo_net_world = []"
  by (simp_all add: demo_net_env_def demo_gmo_trader_def trader_new_def demo_net_world_def demo_net_def)

lemma demo_position_load:
  "load_trade_for_close demo_net_env demo_gmo_trader 7 demo_net_world =
   (Inr (demo_position_trade, False), demo_net_world\<lparr>w_db := snd (acquire_close_lock 0 7 1 demo_position_db)\<rparr>)"
  using demo_position_lock
  by (cases "acquire_close_lock 0 7 1 demo_position_db")
    (simp add: load_trade_for_close_def eval_run demo_net_facts cong: eval_congs)

lemma demo_post_down: "\<exists>e n'. signed_request demo_gmo decode ''POST'' path body n = (Inl e, n')"
  by (simp add: signed_request_def run_simps demo_gmo_def demo_wire_def gmo_http_request_def send_http_def Let_def)

lemma demo_gmo_down:
  "\<exists>e n'. gmo_send_child_order demo_gmo (close_request demo_position_trade 1000) n = (Inl e, n')"
proof (cases "parse_u64 ''42''")
  case (Some a)
  then obtain decode body where send: "gmo_send_child_order demo_gmo (close_request demo_position_trade 1000) n =
      bindN (signed_request demo_gmo decode ''POST'' ''/v1/closeOrder'' (Some body)) (\<lambda>i. okN (nat_text i)) n"
    by (simp add: gmo_send_child_order_def post_close_order_def ensure_market_order_def ok_orN_def
        close_request_def bindN_def liftN_def Let_def)
  obtain e n' where "signed_request demo_gmo decode ''POST'' ''/v1/closeOrder'' (Some body) n = (Inl e, n')"
    using demo_post_down by blast
  then show ?thesis by (simp add: send run_simps)
qed (simp add: gmo_send_child_order_def post_close_order_def ensure_market_order_def ok_orN_def close_request_def run_simps)

lemma demo_gmo_api:
  "api_fetch_close_sfd (gmo_exchange_api rnd g) p = okN 0" "api_requires_close_position_id (gmo_exchange_api rnd g)"
  "api_send_child_order (gmo_exchange_api rnd g) = gmo_send_child_order g"
  by (simp_all add: gmo_exchange_api_def)

lemma demo_gmo_close:
  "w_calls (snd (close_position exact demo_net_env demo_gmo_trader 7 TpHit demo_net_world)) =
     [ReadSfd ''USD_JPY'', SentOrder (close_request demo_position_trade 1000) None]"
proof -
  have t: "t_pair demo_trade = ''USD_JPY''" "t_stop_order_id demo_trade = None" "t_quantity demo_trade = 1000"
    by (simp_all add: demo_trade_def)
  obtain e n' where down: "gmo_send_child_order demo_gmo (close_request demo_position_trade 1000) (w_out demo_net_world) = (Inl e, n')"
    using demo_gmo_down by blast
  show ?thesis
    by (simp add: close_position_split run_simps demo_position_load close_locked_def down
     snapshot_live_sfd_before_close_def close_and_release_lock_on_error_def fill_close_def fill_close_live_def
     stop_guard_before_close_def ensure_close_position_id_present_def send_child_order_def call_def let_tasks_run_def
     demo_gmo_api ok_value_def dbE_def demo_net_facts t split: prod.splits sum.splits error.splits cong: eval_congs)
qed

theorem gmo_close_never_opens_witness:
  "sends (gmo_closes demo_gmo demo_position_trade 1000)
     (api_send_child_order (tr_api demo_gmo_trader) (close_request demo_position_trade 1000))"
proof -
  have acq: "acquire_close_lock 0 7 1 demo_position_db =
      (Inr (Some \<lparr>lock_trade = demo_position_trade, was_stale_recovery = False\<rparr>), snd (acquire_close_lock 0 7 1 demo_position_db))"
    using demo_position_lock by (simp add: prod_eq_iff)
  obtain sz where "close_request demo_position_trade 1000 = close_request demo_position_trade sz"
    "sends (gmo_closes demo_gmo demo_position_trade sz)
       (api_send_child_order (tr_api demo_gmo_trader) (close_request demo_position_trade 1000))"
    using gmo_close_never_opens [OF demo_net_facts(5) surjective_pairing,
        of exact demo_net_env 7 TpHit demo_net_world] acq
    by (auto simp: demo_gmo_close demo_net_facts)
  then show ?thesis by (simp add: close_request_def)
qed

end
