(* ===== verification/Backtest_Runner.thy ===== *)
theory Backtest_Runner
  imports Strategy_Engine Sim_Types
begin

text \<open>
  The backtest of the strategies: the stored candles (\<open>db/src/candles.rs\<close>), the simulated trader
  and the replay (\<open>backtest/src/runner.rs\<close>) and the report (\<open>backtest/src/report.rs\<close>). The strategy is
  any record of operations. The n-th identifier drawn is \<open>fresh n\<close>, and \<open>order\<close> is the order in
  which the hash map of open positions shows its values. A value of the report is the rational its
  \<open>f64\<close> denotes, with \<open>fl\<close> the rounding, or infinity.
\<close>

section \<open>Stored candles\<close>

record candle_row =
  kr_exchange :: string
  kr_pair :: string
  kr_timeframe :: string
  kr_open :: decimal
  kr_high :: decimal
  kr_low :: decimal
  kr_close :: decimal
  kr_volume :: "int option"
  kr_timestamp :: datetime

definition candle_of_row :: "candle_row \<Rightarrow> candle result" where
  "candle_of_row r = bindR (exchange_from_str (kr_exchange r)) (\<lambda>x.
     Inr \<lparr>c_pair = kr_pair r, c_exchange = x, c_timeframe = kr_timeframe r, c_open = kr_open r,
          c_high = kr_high r, c_low = kr_low r, c_close = kr_close r,
          c_volume = map_option (\<lambda>v. nat (v mod 2 ^ 64)) (kr_volume r),
          c_best_bid = None, c_best_ask = None, c_timestamp = kr_timestamp r\<rparr>)"

definition row_of_candle :: "candle \<Rightarrow> candle_row" where
  "row_of_candle c =
     \<lparr>kr_exchange = exchange_as_str (c_exchange c), kr_pair = c_pair c, kr_timeframe = c_timeframe c,
      kr_open = c_open c, kr_high = c_high c, kr_low = c_low c, kr_close = c_close c,
      kr_volume = map_option (\<lambda>v. i64_wrap (int v)) (c_volume c), kr_timestamp = c_timestamp c\<rparr>"

definition same_candle_key :: "candle_row \<Rightarrow> candle_row \<Rightarrow> bool" where
  "same_candle_key a b \<longleftrightarrow> kr_exchange a = kr_exchange b \<and> kr_pair a = kr_pair b
     \<and> kr_timeframe a = kr_timeframe b \<and> kr_timestamp a = kr_timestamp b"

definition upsert_candle :: "candle \<Rightarrow> candle_row list \<Rightarrow> candle_row list" where
  "upsert_candle c table =
     (let new = row_of_candle c in
      if \<exists>r \<in> set table. same_candle_key new r
      then map (\<lambda>r. if same_candle_key new r
             then r\<lparr>kr_open := kr_open new, kr_high := kr_high new, kr_low := kr_low new,
                    kr_close := kr_close new, kr_volume := kr_volume new\<rparr> else r) table
      else table @ [new])"

text \<open>\<open>ORDER BY timestamp DESC LIMIT n\<close>.\<close>

definition get_candles :: "candle_row list \<Rightarrow> string \<Rightarrow> string \<Rightarrow> string \<Rightarrow> nat \<Rightarrow> candle list result" where
  "get_candles table exchange pair timeframe limit =
     collectR candle_of_row (take limit (sort_key (\<lambda>r. - kr_timestamp r)
       (filter (\<lambda>r. kr_exchange r = exchange \<and> kr_pair r = pair \<and> kr_timeframe r = timeframe) table)))"

section \<open>The simulated trader\<close>

record sim_trader =
  bt_exchange :: exchange
  bt_leverage :: decimal
  bt_balance :: decimal
  bt_spread_pct :: decimal
  bt_positions :: "trade list"
  bt_issued :: nat

definition sim_trader_new :: "exchange \<Rightarrow> decimal \<Rightarrow> decimal \<Rightarrow> decimal \<Rightarrow> sim_trader" where
  "sim_trader_new exchange initial_balance leverage spread_pct =
     \<lparr>bt_exchange = exchange, bt_leverage = leverage, bt_balance = initial_balance,
      bt_spread_pct = spread_pct, bt_positions = [], bt_issued = 0\<rparr>"

definition apply_spread :: "rounding \<Rightarrow> sim_trader \<Rightarrow> decimal \<Rightarrow> bool \<Rightarrow> decimal" where
  "apply_spread rnd tr price is_buy =
     (if is_buy then dmul rnd price (dadd rnd 1 (bt_spread_pct tr))
      else dmul rnd price (dsub rnd 1 (bt_spread_pct tr)))"

definition BACKTEST_ACCOUNT_ID :: uuid where "BACKTEST_ACCOUNT_ID = 0"

definition opened_trade :: "rounding \<Rightarrow> uuid \<Rightarrow> sim_trader \<Rightarrow> signal \<Rightarrow> decimal \<Rightarrow> decimal \<Rightarrow> datetime \<Rightarrow> trade" where
  "opened_trade rnd new_id tr sig entry_price quantity now =
     (let stop_loss = (case s_direction sig of
            Long \<Rightarrow> dmul rnd entry_price (dsub rnd 1 (s_stop_loss_pct sig))
          | Short \<Rightarrow> dmul rnd entry_price (dadd rnd 1 (s_stop_loss_pct sig)));
          take_profit = map_option (\<lambda>pct. case s_direction sig of
            Long \<Rightarrow> dmul rnd entry_price (dadd rnd 1 pct)
          | Short \<Rightarrow> dmul rnd entry_price (dsub rnd 1 pct)) (s_take_profit_pct sig)
      in \<lparr>t_id = new_id, t_account_id = BACKTEST_ACCOUNT_ID, t_strategy_name = s_strategy_name sig,
          t_pair = s_pair sig, t_exchange = bt_exchange tr, t_direction = s_direction sig,
          t_entry_price = entry_price, t_exit_price = None, t_stop_loss = stop_loss,
          t_take_profit = take_profit, t_quantity = quantity, t_leverage = bt_leverage tr, t_fees = 0,
          t_entry_at = now, t_exit_at = None, t_pnl_amount = None, t_exit_reason = None, t_status = Open,
          t_max_hold_until = s_max_hold_until sig, t_exchange_position_id = None, t_stop_order_id = None\<rparr>)"

definition insert_position :: "trade \<Rightarrow> trade list \<Rightarrow> trade list" where
  "insert_position t ps = filter (\<lambda>p. t_id p \<noteq> t_id t) ps @ [t]"

definition sim_open ::
  "rounding \<Rightarrow> (nat \<Rightarrow> uuid) \<Rightarrow> signal \<Rightarrow> decimal \<Rightarrow> position_sizer \<Rightarrow> decimal \<Rightarrow> datetime \<Rightarrow> sim_trader
    \<Rightarrow> (trade option \<times> sim_trader) result" where
  "sim_open rnd fresh sig raw_price ps liquidation_margin_level now tr =
     (let entry_price = apply_spread rnd tr raw_price (s_direction sig = Long) in
      bindR (calculate_quantity rnd ps (s_pair sig) (bt_balance tr) entry_price (bt_leverage tr)
        (s_allocation_pct sig) (s_stop_loss_pct sig) liquidation_margin_level) (\<lambda>sized.
      case sized of
        None \<Rightarrow> Inr (None, tr)
      | Some quantity \<Rightarrow>
          (let t = opened_trade rnd (fresh (bt_issued tr)) tr sig entry_price quantity now in
           Inr (Some t, tr\<lparr>bt_positions := insert_position t (bt_positions tr), bt_issued := bt_issued tr + 1\<rparr>))))"

definition settled_trade :: "rounding \<Rightarrow> sim_trader \<Rightarrow> trade \<Rightarrow> exit_reason \<Rightarrow> decimal \<Rightarrow> datetime \<Rightarrow> trade" where
  "settled_trade rnd tr t reason raw_exit_price now =
     (let exit_price = apply_spread rnd tr raw_exit_price (t_direction t = Short);
          price_diff = (case t_direction t of
            Long \<Rightarrow> dsub rnd exit_price (t_entry_price t) | Short \<Rightarrow> dsub rnd (t_entry_price t) exit_price);
          pnl_amount = trunc (dmul rnd price_diff (t_quantity t))
      in t\<lparr>t_exit_price := Some exit_price, t_exit_at := Some now, t_pnl_amount := Some pnl_amount,
           t_exit_reason := Some reason, t_status := Closed\<rparr>)"

definition sim_close ::
  "rounding \<Rightarrow> uuid \<Rightarrow> exit_reason \<Rightarrow> decimal \<Rightarrow> datetime \<Rightarrow> sim_trader \<Rightarrow> (trade \<times> sim_trader) result" where
  "sim_close rnd i reason raw_exit_price now tr =
     (case find (\<lambda>p. t_id p = i) (bt_positions tr) of
        None \<Rightarrow> Inl (Anyhow ''invalid position: not found'')
      | Some p \<Rightarrow>
          (let t = settled_trade rnd tr p reason raw_exit_price now in
           Inr (t, tr\<lparr>bt_positions := filter (\<lambda>p. t_id p \<noteq> i) (bt_positions tr),
                      bt_balance := dadd rnd (bt_balance tr) (the (t_pnl_amount t))\<rparr>)))"

section \<open>Indicators of a candle\<close>

definition SMA_SHORT_PERIOD :: nat where "SMA_SHORT_PERIOD = 20"
definition SMA_LONG_PERIOD :: nat where "SMA_LONG_PERIOD = 50"
definition RSI_PERIOD :: nat where "RSI_PERIOD = 14"
definition INDICATOR_LOOKBACK_CANDLES :: nat where "INDICATOR_LOOKBACK_CANDLES = SMA_LONG_PERIOD"

definition recent_closes :: "candle list \<Rightarrow> nat \<Rightarrow> decimal list" where
  "recent_closes candles i = map c_close (drop (i + 1 - INDICATOR_LOOKBACK_CANDLES) (take (i + 1) candles))"

definition indicators_up_to :: "rounding \<Rightarrow> candle list \<Rightarrow> nat \<Rightarrow> (string \<rightharpoonup> decimal) result" where
  "indicators_up_to rnd candles i =
     (let closes = recent_closes candles i in
      bindR (sma rnd closes SMA_SHORT_PERIOD) (\<lambda>short.
      bindR (sma rnd closes SMA_LONG_PERIOD) (\<lambda>long.
      bindR (rsi rnd closes RSI_PERIOD) (\<lambda>r.
      Inr (put ''rsi_14'' r (put ''sma_50'' long (put ''sma_20'' short Map.empty)))))))"

section \<open>The replay\<close>

definition fixed_exit_for :: "trade \<Rightarrow> candle \<Rightarrow> (exit_reason \<times> decimal) option" where
  "fixed_exit_for t c =
     (case t_direction t of
        Long \<Rightarrow> if c_low c \<le> t_stop_loss t then Some (SlHit, t_stop_loss t)
                else (case t_take_profit t of
                        Some tp \<Rightarrow> if c_high c \<ge> tp then Some (TpHit, tp) else None
                      | None \<Rightarrow> None)
      | Short \<Rightarrow> if c_high c \<ge> t_stop_loss t then Some (SlHit, t_stop_loss t)
                else (case t_take_profit t of
                        Some tp \<Rightarrow> if c_low c \<le> tp then Some (TpHit, tp) else None
                      | None \<Rightarrow> None))"

text \<open>The part of the replay's state that a candle changes: trader, trades, failures.\<close>

type_synonym replay = "sim_trader \<times> trade list \<times> nat"

definition close_recorded ::
  "rounding \<Rightarrow> uuid \<Rightarrow> exit_reason \<Rightarrow> decimal \<Rightarrow> datetime \<Rightarrow> replay \<Rightarrow> replay result" where
  "close_recorded rnd i reason price now = (\<lambda>(tr, trades, failures).
     bindR (sim_close rnd i reason price now tr) (\<lambda>(t, tr'). Inr (tr', trades @ [t], failures)))"

definition fixed_exit_step :: "rounding \<Rightarrow> pair \<Rightarrow> candle \<Rightarrow> replay \<Rightarrow> trade \<Rightarrow> replay result" where
  "fixed_exit_step rnd pair c s t =
     (if t_pair t \<noteq> pair then Inr s
      else case fixed_exit_for t c of
        None \<Rightarrow> Inr s
      | Some (reason, price) \<Rightarrow> close_recorded rnd (t_id t) reason price (c_timestamp c) s)"

definition close_hit_fixed_exits ::
  "rounding \<Rightarrow> (trade list \<Rightarrow> trade list) \<Rightarrow> pair \<Rightarrow> candle \<Rightarrow> replay \<Rightarrow> replay result" where
  "close_hit_fixed_exits rnd order pair c s =
     foldR (fixed_exit_step rnd pair c) s (order (bt_positions (fst s)))"

definition try_open_new_entry ::
  "rounding \<Rightarrow> (nat \<Rightarrow> uuid) \<Rightarrow> 'st strategy_ops \<Rightarrow> price_event \<Rightarrow> position_sizer \<Rightarrow> decimal
    \<Rightarrow> 'st \<times> replay \<Rightarrow> ('st \<times> replay) result" where
  "try_open_new_entry rnd fresh ops e ps liquidation_margin_level = (\<lambda>(st, tr, trades, failures).
     case op_on_price ops st e of (answer, st') \<Rightarrow>
     bindR answer (\<lambda>sig.
     case sig of
       None \<Rightarrow> Inr (st', tr, trades, failures)
     | Some sig \<Rightarrow>
         if \<exists>t \<in> set (bt_positions tr). t_strategy_name t = s_strategy_name sig \<and> t_pair t = s_pair sig
         then Inr (st', tr, trades, failures)
         else
           bindR (sim_open rnd fresh sig (c_close (e_candle e)) ps liquidation_margin_level (e_timestamp e) tr)
             (\<lambda>(opened, tr').
           case opened of
             Some t \<Rightarrow> Inr (st', tr', trades @ [t], failures)
           | None \<Rightarrow> Inr (st', tr', trades, failures + 1))))"

definition close_strategy_driven_exits ::
  "rounding \<Rightarrow> (trade list \<Rightarrow> trade list) \<Rightarrow> 'st strategy_ops \<Rightarrow> price_event
    \<Rightarrow> 'st \<times> replay \<Rightarrow> ('st \<times> replay) result" where
  "close_strategy_driven_exits rnd order ops e = (\<lambda>(st, s).
     bindR (op_on_open_positions ops st (order (bt_positions (fst s))) e) (\<lambda>exits.
     bindR (foldR (\<lambda>s x. close_recorded rnd (x_trade_id x) (to_exit_reason (x_reason x)) (x_close_price x)
              (e_timestamp e) s) s exits) (\<lambda>s'.
     Inr (st, s'))))"

definition replay_candle ::
  "rounding \<Rightarrow> (trade list \<Rightarrow> trade list) \<Rightarrow> (nat \<Rightarrow> uuid) \<Rightarrow> 'st strategy_ops \<Rightarrow> exchange \<Rightarrow> pair
    \<Rightarrow> position_sizer \<Rightarrow> decimal \<Rightarrow> candle list \<Rightarrow> 'st \<times> replay \<Rightarrow> nat \<Rightarrow> ('st \<times> replay) result" where
  "replay_candle rnd order fresh ops exchange pair ps liquidation_margin_level candles = (\<lambda>(st, s) i.
     let c = candles ! i in
     bindR (indicators_up_to rnd candles i) (\<lambda>inds.
     let e = \<lparr>e_pair = pair, e_exchange = exchange, e_candle = c, e_indicators = inds, e_timestamp = c_timestamp c\<rparr> in
     bindR (close_hit_fixed_exits rnd order pair c s) (\<lambda>s.
     bindR (try_open_new_entry rnd fresh ops e ps liquidation_margin_level (st, s)) (\<lambda>s.
     close_strategy_driven_exits rnd order ops e s))))"

section \<open>The report\<close>

datatype f64_or_inf = FiniteF64 f64 | InfiniteF64

record backtest_report =
  rp_total_trades :: nat
  rp_wins :: nat
  rp_losses :: nat
  rp_execution_failures :: nat
  rp_win_rate :: f64
  rp_total_pnl :: decimal
  rp_max_drawdown :: decimal
  rp_initial_balance :: decimal
  rp_final_balance :: decimal
  rp_profit_factor :: f64_or_inf
  rp_trades :: "trade list"

definition report_drawdown_step :: "rounding \<Rightarrow> decimal \<times> decimal \<times> decimal \<Rightarrow> trade \<Rightarrow> decimal \<times> decimal \<times> decimal" where
  "report_drawdown_step rnd = (\<lambda>(peak, max_dd, equity) t.
     let equity = dadd rnd equity (unwrap_or (t_pnl_amount t) 0);
         peak = (if equity > peak then equity else peak);
         dd = dsub rnd peak equity
     in (peak, if dd > max_dd then dd else max_dd, equity))"

text \<open>The text of a decimal always parses as the nearest \<open>f64\<close>.\<close>

definition profit_factor :: "rounding \<Rightarrow> float_rounding \<Rightarrow> decimal \<Rightarrow> decimal \<Rightarrow> f64_or_inf result" where
  "profit_factor rnd fl gross_profit gross_loss =
     (if gross_loss > 0 then bindR (ddiv rnd gross_profit gross_loss) (\<lambda>q. Inr (FiniteF64 (fl q)))
      else if gross_profit > 0 then Inr InfiniteF64 else Inr (FiniteF64 0))"

definition from_trades_with_failures ::
  "rounding \<Rightarrow> float_rounding \<Rightarrow> trade list \<Rightarrow> decimal \<Rightarrow> decimal \<Rightarrow> nat \<Rightarrow> backtest_report result" where
  "from_trades_with_failures rnd fl trades initial_balance final_balance execution_failures =
     (let closed_trades = filter (\<lambda>t. t_status t = Closed) trades;
          total_trades = length closed_trades;
          wins = length (filter (\<lambda>t. unwrap_or (t_pnl_amount t) 0 > 0) closed_trades);
          pnls = List.map_filter t_pnl_amount closed_trades
      in bindR (profit_factor rnd fl (dsum rnd (filter (\<lambda>p. p > 0) pnls)) (dsum rnd (map abs (filter (\<lambda>p. p < 0) pnls))))
         (\<lambda>factor.
         Inr \<lparr>rp_total_trades = total_trades, rp_wins = wins, rp_losses = total_trades - wins,
              rp_execution_failures = execution_failures,
              rp_win_rate = (if total_trades > 0 then fl (fl (of_nat wins) / fl (of_nat total_trades)) else 0),
              rp_total_pnl = dsum rnd pnls,
              rp_max_drawdown = fst (snd (foldl (report_drawdown_step rnd) (initial_balance, 0, initial_balance) closed_trades)),
              rp_initial_balance = initial_balance, rp_final_balance = final_balance,
              rp_profit_factor = factor, rp_trades = trades\<rparr>))"

section \<open>The run\<close>

text \<open>\<open>fetched\<close> is what the query of the candle table yields: its rows or the failure.\<close>

definition load_chronological_candles ::
  "candle_row list result \<Rightarrow> exchange \<Rightarrow> pair \<Rightarrow> string \<Rightarrow> candle list result" where
  "load_chronological_candles fetched exchange pair timeframe =
     bindR fetched (\<lambda>table.
     bindR (get_candles table (exchange_as_str exchange) pair timeframe 10000) (\<lambda>newest_first.
     if newest_first = [] then Inl (Anyhow ''failed to load candles: no data'') else Inr (rev newest_first)))"

definition run_replay ::
  "rounding \<Rightarrow> float_rounding \<Rightarrow> (trade list \<Rightarrow> trade list) \<Rightarrow> (nat \<Rightarrow> uuid) \<Rightarrow> 'st strategy_ops \<Rightarrow> 'st
    \<Rightarrow> candle_row list result \<Rightarrow> exchange \<Rightarrow> pair \<Rightarrow> string \<Rightarrow> decimal \<Rightarrow> decimal \<Rightarrow> position_sizer \<Rightarrow> decimal
    \<Rightarrow> decimal \<Rightarrow> backtest_report result" where
  "run_replay rnd fl order fresh ops st fetched exchange pair timeframe initial_balance leverage ps
       liquidation_margin_level spread_pct =
     bindR (load_chronological_candles fetched exchange pair timeframe) (\<lambda>candles.
     bindR (foldR (replay_candle rnd order fresh ops exchange pair ps liquidation_margin_level candles)
              (st, sim_trader_new exchange initial_balance leverage spread_pct, [], 0) [0..<length candles])
       (\<lambda>(_, tr, trades, failures).
     from_trades_with_failures rnd fl trades initial_balance (bt_balance tr) failures))"

end
