(* ===== verification/Daily_Summary.thy ===== *)
theory Daily_Summary
  imports Feed_Watchdog Startup_Reconcile
begin

text \<open>
  The daily summaries: their rebuilding from the closed trades and the maximum drawdown
  (\<open>db/src/summary.rs\<close>), the daily batch that updates them (\<open>app/src/runtime/daily_batch.rs\<close>,
  without the weekly batch and the knowledge store) and the recorder that counts each closed trade
  (\<open>app/src/runtime/recorder.rs\<close>, without the knowledge store). The rows of a join come in the
  order of the trades table, which also breaks ties of \<open>ORDER BY\<close>.
\<close>

section \<open>The closed trades of a day\<close>

text \<open>Strategy, pair, exchange and account of a group.\<close>

type_synonym summary_key = "string \<times> string \<times> string \<times> uuid"

type_synonym drawdown_row = "summary_key \<times> string \<times> decimal option"

definition row_key :: "trade_row \<Rightarrow> summary_key" where
  "row_key r = (r_strategy_name r, r_pair r, r_exchange r, r_account_id r)"

definition closed_on :: "int \<Rightarrow> trade_row \<Rightarrow> bool" where
  "closed_on date r \<longleftrightarrow> r_status r = ''closed'' \<and>
     (case r_exit_at r of None \<Rightarrow> False | Some t \<Rightarrow> date * hours 24 \<le> t \<and> t < (date + 1) * hours 24)"

definition join_account :: "database \<Rightarrow> trade_row \<Rightarrow> drawdown_row option" where
  "join_account db r = map_option (\<lambda>a. (row_key r, a_account_type a, r_pnl_amount r)) (find_account (r_account_id r) db)"

definition decode_drawdown_row :: "drawdown_row \<Rightarrow> (summary_key \<times> string \<times> decimal) result" where
  "decode_drawdown_row = (\<lambda>(key, ty, pnl). case pnl of
     Some p \<Rightarrow> Inr (key, ty, p) | None \<Rightarrow> Inl (Anyhow ''failed to decode column: unexpected null''))"

definition fetch_closed_trades_for_day :: "int \<Rightarrow> (summary_key \<times> string \<times> decimal) list db_prog" where
  "fetch_closed_trades_for_day date =
     bindE (stmt (askW (\<lambda>db. List.map_filter (join_account db)
       (sort_key (\<lambda>r. unwrap_or (r_exit_at r) 0) (filter (closed_on date) (trades db)))))) (\<lambda>rows.
     liftR (collectR decode_drawdown_row rows))"

type_synonym pnl_groups = "summary_key \<rightharpoonup> decimal list \<times> string"

definition push_pnl :: "pnl_groups \<Rightarrow> summary_key \<times> string \<times> decimal \<Rightarrow> pnl_groups" where
  "push_pnl m = (\<lambda>(key, account_type, pnl).
     m(key \<mapsto> (case m key of None \<Rightarrow> ([pnl], account_type) | Some (pnls, ty) \<Rightarrow> (pnls @ [pnl], ty))))"

definition group_pnls_by_strategy_pair_exchange_account :: "(summary_key \<times> string \<times> decimal) list \<Rightarrow> pnl_groups" where
  "group_pnls_by_strategy_pair_exchange_account rows = foldl push_pnl Map.empty rows"

section \<open>The maximum drawdown\<close>

definition pnl_drawdown_step :: "rounding \<Rightarrow> decimal \<times> decimal \<times> decimal \<Rightarrow> decimal \<Rightarrow> decimal \<times> decimal \<times> decimal" where
  "pnl_drawdown_step rnd = (\<lambda>(peak, equity, max_dd) pnl.
     let equity = dadd rnd equity pnl;
         peak = (if equity > peak then equity else peak);
         dd = dsub rnd peak equity
     in (peak, equity, if dd > max_dd then dd else max_dd))"

definition pnl_drawdown :: "rounding \<Rightarrow> decimal list \<Rightarrow> decimal" where
  "pnl_drawdown rnd pnls = snd (snd (foldl (pnl_drawdown_step rnd) (0, 0, 0) pnls))"

definition is_summary_of :: "int \<Rightarrow> summary_key \<Rightarrow> string \<Rightarrow> daily_summary \<Rightarrow> bool" where
  "is_summary_of date = (\<lambda>(strategy, pair, exchange, account_id) account_type d.
     d_date d = date \<and> d_strategy_name d = strategy \<and> d_pair d = pair \<and> d_account_type d = account_type
     \<and> d_exchange d = exchange \<and> d_account_id d = Some account_id)"

definition as_i32 :: "int \<Rightarrow> int" where
  "as_i32 n = sint (word_of_int n :: 32 word)"

definition counts_of :: "rounding \<Rightarrow> decimal list \<Rightarrow> int \<times> int \<times> decimal" where
  "counts_of rnd pnls = foldl (\<lambda>(count, wins, pnl_sum) pnl.
     (count + 1, wins + (if pnl > 0 then 1 else 0), dadd rnd pnl_sum pnl)) (0, 0, 0) pnls"

definition insert_drawdown_row ::
  "rounding \<Rightarrow> int \<Rightarrow> summary_key \<Rightarrow> decimal list \<Rightarrow> string \<Rightarrow> decimal \<Rightarrow> unit db_prog" where
  "insert_drawdown_row rnd date key pnls account_type max_dd = stmt (\<lambda>db.
     let (total_trades, total_wins, total_pnl) = counts_of rnd pnls;
         (strategy, pair, exchange, account_id) = key in
     (Inr (), db\<lparr>summaries :=
        (if \<exists>d \<in> set (summaries db). is_summary_of date key account_type d
         then update_rows (is_summary_of date key account_type) (\<lambda>d. d\<lparr>d_max_drawdown := max_dd\<rparr>) (summaries db)
         else summaries db @ [\<lparr>d_date = date, d_strategy_name = strategy, d_pair = pair,
                d_account_type = account_type, d_exchange = exchange, d_account_id = Some account_id,
                d_trade_count = as_i32 total_trades, d_win_count = as_i32 total_wins,
                d_total_pnl = total_pnl, d_max_drawdown = max_dd\<rparr>])\<rparr>))"

definition persist_max_drawdown ::
  "rounding \<Rightarrow> int \<Rightarrow> summary_key \<Rightarrow> decimal list \<times> string \<Rightarrow> decimal \<Rightarrow> unit db_prog" where
  "persist_max_drawdown rnd date key = (\<lambda>(pnls, account_type) max_dd.
     bindE (stmt (\<lambda>db.
        (Inr (length (filter (is_summary_of date key account_type) (summaries db))),
         db\<lparr>summaries := update_rows (is_summary_of date key account_type)
               (\<lambda>d. d\<lparr>d_max_drawdown := max_dd\<rparr>) (summaries db)\<rparr>))) (\<lambda>rows_affected.
     if rows_affected = 0 then insert_drawdown_row rnd date key pnls account_type max_dd else returnE ()))"

text \<open>The entries of the hash map, in the order \<open>order\<close> it shows its keys.\<close>

definition pnl_group_entries ::
  "(summary_key list \<Rightarrow> summary_key list) \<Rightarrow> (summary_key \<times> string \<times> decimal) list
    \<Rightarrow> (summary_key \<times> decimal list \<times> string) list" where
  "pnl_group_entries order rows =
     (let groups = group_pnls_by_strategy_pair_exchange_account rows in
      List.map_filter (\<lambda>k. map_option (Pair k) (groups k)) (order (remdups (map fst rows))))"

definition update_daily_max_drawdown ::
  "rounding \<Rightarrow> (summary_key list \<Rightarrow> summary_key list) \<Rightarrow> int \<Rightarrow> unit db_prog" where
  "update_daily_max_drawdown rnd order date =
     bindE (fetch_closed_trades_for_day date) (\<lambda>rows.
     forE (pnl_group_entries order rows) (\<lambda>(key, pnls, account_type).
       persist_max_drawdown rnd date key (pnls, account_type) (pnl_drawdown rnd pnls)))"

section \<open>Rebuilding\<close>

definition delete_summaries :: "int \<Rightarrow> unit db_prog" where
  "delete_summaries date = stmt (\<lambda>db.
     (Inr (), db\<lparr>summaries := filter (\<lambda>d. d_date d \<noteq> date) (summaries db)\<rparr>))"

text \<open>One row of \<open>INSERT ... SELECT ... GROUP BY\<close>; the sum leaves out nulls and is 0 without others.\<close>

definition summary_row :: "int \<Rightarrow> drawdown_row list \<Rightarrow> summary_key \<times> string \<Rightarrow> daily_summary" where
  "summary_row date rows = (\<lambda>((strategy, pair, exchange, account_id), account_type).
     let group = filter (\<lambda>(k, ty, _). k = (strategy, pair, exchange, account_id) \<and> ty = account_type) rows;
         pnls = List.map_filter (\<lambda>(_, _, pnl). pnl) group in
     \<lparr>d_date = date, d_strategy_name = strategy, d_pair = pair, d_account_type = account_type,
      d_exchange = exchange, d_account_id = Some account_id, d_trade_count = int (length group),
      d_win_count = int (length (filter (\<lambda>p. p > 0) pnls)), d_total_pnl = sum_list pnls, d_max_drawdown = 0\<rparr>)"

definition insert_summaries :: "int \<Rightarrow> unit db_prog" where
  "insert_summaries date = stmt (\<lambda>db.
     let rows = List.map_filter (join_account db) (filter (closed_on date) (trades db)) in
     (Inr (), db\<lparr>summaries := summaries db @
        map (summary_row date rows) (remdups (map (\<lambda>(k, ty, _). (k, ty)) rows))\<rparr>))"

definition rebuild_daily_summary ::
  "rounding \<Rightarrow> (summary_key list \<Rightarrow> summary_key list) \<Rightarrow> int \<Rightarrow> unit db_prog" where
  "rebuild_daily_summary rnd order date =
     bindE (transaction (bindE (delete_summaries date) (\<lambda>_. insert_summaries date))) (\<lambda>_.
     update_daily_max_drawdown rnd order date)"

definition rebuild_all_daily_summaries :: "rounding \<Rightarrow> (summary_key list \<Rightarrow> summary_key list) \<Rightarrow> unit db_prog" where
  "rebuild_all_daily_summaries rnd order =
     bindE (stmt (askW (\<lambda>db. sort (remdups (List.map_filter (\<lambda>r.
       if r_status r = ''closed'' then map_option day_of (r_exit_at r) else None) (trades db)))))) (\<lambda>dates.
     forE dates (rebuild_daily_summary rnd order))"

section \<open>The recorder\<close>

definition upsert_close_daily_summary ::
  "'x environment \<Rightarrow> trade \<Rightarrow> string option \<Rightarrow> datetime \<Rightarrow> decimal \<Rightarrow> ('x, unit) io" where
  "upsert_close_daily_summary env t account_type exit_at pnl_amount =
     (let date = day_of exit_at; win = (if pnl_amount > 0 then 1 else 0) in
      bindE (attempt (dbE env (upsert_daily_summary date (t_strategy_name t) (t_pair t)
        (unwrap_or account_type ''paper'') (exchange_as_str (t_exchange t)) (Some (t_account_id t)) 1 win pnl_amount)))
      (\<lambda>_. returnE ()))"

definition record_closed_trade :: "'x environment \<Rightarrow> trade_event \<Rightarrow> ('x, unit) io" where
  "record_closed_trade env ev =
     (let t = te_trade ev in
      case (t_exit_price t, t_exit_at t, t_pnl_amount t, t_exit_reason t) of
        (Some _, Some exit_at, Some pnl_amount, Some _) \<Rightarrow>
          upsert_close_daily_summary env t (te_account_type ev) exit_at pnl_amount
      | _ \<Rightarrow> returnE ())"

text \<open>The loop over the events the channel delivers before it closes.\<close>

definition run_recorder :: "'x environment \<Rightarrow> trade_event list \<Rightarrow> ('x, unit) io" where
  "run_recorder env evs = forE evs (\<lambda>ev. case te_action ev of
     Opened \<Rightarrow> returnE () | ClosedAt _ _ \<Rightarrow> record_closed_trade env ev)"

section \<open>The daily batch\<close>

definition JST_OFFSET_HOURS :: int where "JST_OFFSET_HOURS = 9"

definition DEFAULT_BACKFILL_DAYS :: nat where "DEFAULT_BACKFILL_DAYS = 7"

text \<open>Day 0 is a Thursday.\<close>

definition is_jst_sunday :: "datetime \<Rightarrow> bool" where
  "is_jst_sunday now_utc \<longleftrightarrow> (day_of (now_utc + hours JST_OFFSET_HOURS) + 4) mod 7 = 0"

definition backfill_dates :: "int \<Rightarrow> nat option \<Rightarrow> int list" where
  "backfill_dates today backfill_days =
     (let days = as_i64 (unwrap_or backfill_days DEFAULT_BACKFILL_DAYS) in
      map (\<lambda>i. today - i) (rev [1..days]))"

definition run_startup_backfill ::
  "rounding \<Rightarrow> (summary_key list \<Rightarrow> summary_key list) \<Rightarrow> 'x environment \<Rightarrow> int \<Rightarrow> nat option \<Rightarrow> ('x, unit) io" where
  "run_startup_backfill rnd order env today backfill_days =
     forE (backfill_dates today backfill_days) (\<lambda>d.
       bindE (attempt (dbE env (update_daily_max_drawdown rnd order d))) (\<lambda>_. returnE ()))"

end
