(* ===== verification/Summary_Theorems.thy ===== *)
theory Summary_Theorems
  imports Daily_Summary Ledger_Theorems
begin

text \<open>
  The rebuilt summaries of a day are what a declarative specification says: for each group of
  closed trades one row with their number, wins, total and maximum drawdown. The drawdown loop
  finds the largest fall of the running total.
\<close>

section \<open>The largest fall\<close>

definition equity_at :: "decimal list \<Rightarrow> nat \<Rightarrow> decimal" where
  "equity_at pnls i = sum_list (take i pnls)"

definition largest_fall :: "decimal list \<Rightarrow> decimal \<Rightarrow> bool" where
  "largest_fall pnls dd \<longleftrightarrow>
     (\<exists>i j. i \<le> j \<and> j \<le> length pnls \<and> dd = equity_at pnls i - equity_at pnls j) \<and>
     (\<forall>i j. i \<le> j \<and> j \<le> length pnls \<longrightarrow> equity_at pnls i - equity_at pnls j \<le> dd)"

definition highest_equity :: "decimal list \<Rightarrow> decimal \<Rightarrow> bool" where
  "highest_equity pnls peak \<longleftrightarrow> (\<exists>i \<le> length pnls. peak = equity_at pnls i) \<and>
     (\<forall>i \<le> length pnls. equity_at pnls i \<le> peak)"

lemma equity_at_snoc: "i \<le> length pnls \<Longrightarrow> equity_at (pnls @ [p]) i = equity_at pnls i"
  by (simp add: equity_at_def)

lemma equity_at_all: "equity_at pnls (length pnls) = sum_list pnls"
  by (simp add: equity_at_def)

lemma highest_equity_snoc:
  assumes "highest_equity pnls peak"
  shows "highest_equity (pnls @ [p]) (max (sum_list (pnls @ [p])) peak)"
proof -
  let ?q = "pnls @ [p]" and ?n = "length pnls"
  have bound: "equity_at ?q i \<le> max (sum_list ?q) peak" if "i \<le> length ?q" for i
  proof (cases "i \<le> ?n")
    case True
    then show ?thesis using assms by (auto simp: highest_equity_def equity_at_snoc intro: max.coboundedI2)
  next
    case False
    then have "i = length ?q" using that by simp
    then show ?thesis using equity_at_all [of ?q] by simp
  qed
  obtain i where i: "i \<le> ?n" "peak = equity_at pnls i" using assms by (auto simp: highest_equity_def)
  have "\<exists>i \<le> length ?q. max (sum_list ?q) peak = equity_at ?q i"
  proof (cases "peak \<le> sum_list ?q")
    case True
    then show ?thesis using equity_at_all [of ?q] by (intro exI [of _ "length ?q"]) (simp add: max_def)
  next
    case False
    then show ?thesis using i equity_at_snoc [OF i(1), of p] by (intro exI [of _ i]) (simp add: max_def)
  qed
  then show ?thesis using bound by (simp add: highest_equity_def)
qed

lemma largest_fall_snoc:
  assumes "largest_fall pnls dd" and "highest_equity (pnls @ [p]) peak"
  shows "largest_fall (pnls @ [p]) (max (peak - sum_list (pnls @ [p])) dd)"
proof -
  let ?q = "pnls @ [p]" and ?n = "length pnls"
  let ?m = "max (peak - sum_list ?q) dd"
  have bound: "equity_at ?q i - equity_at ?q j \<le> ?m" if "i \<le> j" "j \<le> length ?q" for i j
  proof (cases "j \<le> ?n")
    case True
    then show ?thesis using assms(1) that
      by (auto simp: largest_fall_def equity_at_snoc intro: max.coboundedI2)
  next
    case False
    then have "j = length ?q" using that by simp
    then have "equity_at ?q j = sum_list ?q" using equity_at_all [of ?q] by simp
    moreover have "equity_at ?q i \<le> peak" using assms(2) that by (auto simp: highest_equity_def)
    ultimately show ?thesis by simp
  qed
  have "\<exists>i j. i \<le> j \<and> j \<le> length ?q \<and> ?m = equity_at ?q i - equity_at ?q j"
  proof (cases "dd \<le> peak - sum_list ?q")
    case True
    obtain i where "i \<le> length ?q" "peak = equity_at ?q i" using assms(2) by (auto simp: highest_equity_def)
    then show ?thesis using True equity_at_all [of ?q]
      by (intro exI [of _ i] exI [of _ "length ?q"]) (simp add: max_def)
  next
    case False
    obtain i j where "i \<le> j" "j \<le> ?n" "dd = equity_at pnls i - equity_at pnls j"
      using assms(1) by (auto simp: largest_fall_def)
    then show ?thesis using False
      by (intro exI [of _ i] exI [of _ j]) (simp add: max_def equity_at_snoc)
  qed
  then show ?thesis using bound by (simp add: largest_fall_def)
qed

lemma pnl_drawdown_state:
  "\<exists>peak dd. foldl (pnl_drawdown_step exact) (0, 0, 0) pnls = (peak, sum_list pnls, dd)
     \<and> highest_equity pnls peak \<and> largest_fall pnls dd"
proof (induction pnls rule: rev_induct)
  case Nil
  show ?case by (simp add: highest_equity_def largest_fall_def equity_at_def)
next
  case (snoc p pnls)
  then obtain peak dd where s: "foldl (pnl_drawdown_step exact) (0, 0, 0) pnls = (peak, sum_list pnls, dd)"
    and h: "highest_equity pnls peak" and f: "largest_fall pnls dd" by blast
  let ?peak = "max (sum_list (pnls @ [p])) peak"
  have "pnl_drawdown_step exact (peak, sum_list pnls, dd) p =
      (?peak, sum_list (pnls @ [p]), max (?peak - sum_list (pnls @ [p])) dd)"
    by (auto simp: pnl_drawdown_step_def dec_op_defs Let_def max_def)
  then have "foldl (pnl_drawdown_step exact) (0, 0, 0) (pnls @ [p]) =
      (?peak, sum_list (pnls @ [p]), max (?peak - sum_list (pnls @ [p])) dd)"
    by (simp only: foldl_append foldl_Cons foldl_Nil s)
  then show ?case
    using highest_equity_snoc [OF h, of p] largest_fall_snoc [OF f highest_equity_snoc [OF h, of p]] by blast
qed

lemma pnl_drawdown_is_largest_fall: "largest_fall pnls (pnl_drawdown exact pnls)"
  using pnl_drawdown_state [of pnls] by (auto simp: pnl_drawdown_def)

section \<open>Groups\<close>

lemma remdups_map_inj: "inj_on f (set xs) \<Longrightarrow> remdups (map f xs) = map f (remdups xs)"
  by (induction xs) (auto simp: inj_on_def)

lemma map_filter_Some: "(\<And>x. x \<in> set xs \<Longrightarrow> f x = Some (g x)) \<Longrightarrow> List.map_filter f xs = map g xs"
  by (induction xs) (auto simp: List.map_filter_def)

lemma pnl_groups_exact:
  assumes "\<And>x. x \<in> set rows \<Longrightarrow> fst (snd x) = T (fst x)"
  shows "group_pnls_by_strategy_pair_exchange_account rows k =
    (if k \<in> fst ` set rows then Some (map (snd \<circ> snd) (filter (\<lambda>x. fst x = k) rows), T k) else None)"
  using assms
proof (induction rows rule: rev_induct)
  case (snoc r rows)
  have ih: "foldl push_pnl Map.empty rows k =
    (if k \<in> fst ` set rows then Some (map (snd \<circ> snd) (filter (\<lambda>x. fst x = k) rows), T k) else None)"
    using snoc by (simp add: group_pnls_by_strategy_pair_exchange_account_def)
  have ty: "fst (snd r) = T (fst r)" using snoc.prems by simp
  have none: "filter (\<lambda>x. fst x = k) rows = []" if "k \<notin> fst ` set rows"
    using that by (force simp: filter_empty_conv)
  show ?case
  proof (cases "fst r = k")
    case True
    then show ?thesis using ih none ty
      by (cases "k \<in> fst ` set rows")
        (simp_all add: group_pnls_by_strategy_pair_exchange_account_def push_pnl_def case_prod_unfold)
  next
    case False
    then show ?thesis using ih
      by (auto simp: group_pnls_by_strategy_pair_exchange_account_def push_pnl_def case_prod_unfold)
  qed
qed (simp add: group_pnls_by_strategy_pair_exchange_account_def)

section \<open>Rebuilding a day\<close>

definition day_group :: "database \<Rightarrow> int \<Rightarrow> summary_key \<Rightarrow> trade_row list" where
  "day_group db date k = filter (\<lambda>r. row_key r = k) (filter (closed_on date) (trades db))"

definition key_account_type :: "database \<Rightarrow> summary_key \<Rightarrow> string" where
  "key_account_type db = (\<lambda>(_, _, _, aid). a_account_type (the (find_account aid db)))"

definition row_pnl :: "trade_row \<Rightarrow> decimal" where
  "row_pnl r = the (r_pnl_amount r)"

text \<open>What the summary row of a group should be; the drawdown follows the order of the exits.\<close>

definition expected_summary :: "rounding \<Rightarrow> database \<Rightarrow> int \<Rightarrow> summary_key \<Rightarrow> daily_summary" where
  "expected_summary rnd db date k = (case k of (strategy, pair, exchange, aid) \<Rightarrow>
     \<lparr>d_date = date, d_strategy_name = strategy, d_pair = pair, d_account_type = key_account_type db k,
      d_exchange = exchange, d_account_id = Some aid, d_trade_count = int (length (day_group db date k)),
      d_win_count = int (length (filter (\<lambda>r. row_pnl r > 0) (day_group db date k))),
      d_total_pnl = sum_list (map row_pnl (day_group db date k)),
      d_max_drawdown = pnl_drawdown rnd (map row_pnl
        (sort_key (\<lambda>r. unwrap_or (r_exit_at r) 0) (day_group db date k)))\<rparr>)"

definition day_keys :: "database \<Rightarrow> int \<Rightarrow> summary_key list" where
  "day_keys db date = remdups (map row_key (filter (closed_on date) (trades db)))"

definition day_complete :: "database \<Rightarrow> int \<Rightarrow> bool" where
  "day_complete db date \<longleftrightarrow> (\<forall>r \<in> set (trades db). closed_on date r \<longrightarrow>
     r_pnl_amount r \<noteq> None \<and> find_account (r_account_id r) db \<noteq> None)"

lemma join_complete:
  "find_account (r_account_id r) db \<noteq> None \<Longrightarrow>
    join_account db r = Some (row_key r, key_account_type db (row_key r), r_pnl_amount r)"
  by (auto simp: join_account_def key_account_type_def row_key_def)

lemma expected_is_summary: "is_summary_of date k ty (expected_summary rnd db date k') \<longleftrightarrow>
    k' = k \<and> ty = key_account_type db k'"
  by (cases k; cases k') (auto simp: is_summary_of_def expected_summary_def)

text \<open>One update hits exactly the row of its key.\<close>

lemma persist_one:
  assumes "faults db = []" and "distinct ks" and "k \<in> set ks" and "\<forall>d \<in> set others. d_date d \<noteq> date"
    and "summaries db = others @ map g ks"
    and g: "\<And>k'. is_summary_of date k ty (g k') \<longleftrightarrow> k' = k"
  shows "persist_max_drawdown rnd date k (pnls, ty) dd db =
    (Inr (), db\<lparr>summaries := others @ map (g(k := (g k)\<lparr>d_max_drawdown := dd\<rparr>)) ks\<rparr>)"
proof -
  have o: "\<not> is_summary_of date k ty d" if "d \<in> set others" for d
    using assms(4) that by (cases k) (auto simp: is_summary_of_def)
  have "filter (is_summary_of date k ty) (summaries db) \<noteq> []"
    using assms(3,5) g by (auto simp: filter_empty_conv)
  moreover have "update_rows (is_summary_of date k ty) (\<lambda>d. d\<lparr>d_max_drawdown := dd\<rparr>) (summaries db) =
      others @ map (g(k := (g k)\<lparr>d_max_drawdown := dd\<rparr>)) ks"
    by (auto simp: assms(5) update_rows_def g o intro!: map_idI)
  ultimately show ?thesis
    by (simp add: persist_max_drawdown_def bindE_run stmt_ok assms(1) returnE_def)
qed

lemma persist_all:
  assumes "faults db = []" and "distinct ks" and "set es \<subseteq> set ks" and "\<forall>d \<in> set others. d_date d \<noteq> date"
    and "summaries db = others @ map g ks"
    and g: "\<And>k k'. is_summary_of date k (ty k) (g k') \<longleftrightarrow> k' = k"
  shows "forE (map (\<lambda>k. (k, pnls k, ty k)) es) (\<lambda>(key, pnls, account_type).
       persist_max_drawdown rnd date key (pnls, account_type) (pnl_drawdown rnd pnls)) db =
    (Inr (), db\<lparr>summaries := others @ map (\<lambda>k. if k \<in> set es then (g k)\<lparr>d_max_drawdown := pnl_drawdown rnd (pnls k)\<rparr> else g k) ks\<rparr>)"
  using assms
proof (induction es arbitrary: db g)
  case Nil
  then show ?case by (cases db) (simp add: returnE_def)
next
  case (Cons e es)
  let ?g = "g(e := (g e)\<lparr>d_max_drawdown := pnl_drawdown rnd (pnls e)\<rparr>)"
  let ?db = "db\<lparr>summaries := others @ map ?g ks\<rparr>"
  have keep: "is_summary_of date k t (d\<lparr>d_max_drawdown := x\<rparr>) = is_summary_of date k t d" for k t d x
    by (cases k) (simp add: is_summary_of_def)
  have one: "persist_max_drawdown rnd date e (pnls e, ty e) (pnl_drawdown rnd (pnls e)) db = (Inr (), ?db)"
    using Cons.prems by (intro persist_one) auto
  have rest: "forE (map (\<lambda>k. (k, pnls k, ty k)) es) (\<lambda>(key, pnls, account_type).
       persist_max_drawdown rnd date key (pnls, account_type) (pnl_drawdown rnd pnls)) ?db =
    (Inr (), ?db\<lparr>summaries := others @ map (\<lambda>k. if k \<in> set es then (?g k)\<lparr>d_max_drawdown := pnl_drawdown rnd (pnls k)\<rparr> else ?g k) ks\<rparr>)"
    using Cons.prems by (intro Cons.IH) (auto simp: keep)
  show ?case
    unfolding list.map forE.simps bindE_run prod.case one sum.case rest
    by (auto intro!: map_cong)
qed

lemma joined_rows:
  assumes "\<forall>r \<in> set rs. find_account (r_account_id r) db \<noteq> None"
  shows "List.map_filter (join_account db) rs =
    map (\<lambda>r. (row_key r, key_account_type db (row_key r), r_pnl_amount r)) rs"
  using assms by (intro map_filter_Some) (simp add: join_complete)

lemma summary_row_base:
  assumes "\<forall>r \<in> set rs. r_pnl_amount r \<noteq> None" and "filter (\<lambda>r. row_key r = k) rs = day_group db date k"
  shows "summary_row date (map (\<lambda>r. (row_key r, key_account_type db (row_key r), r_pnl_amount r)) rs) (k, key_account_type db k)
    = (expected_summary rnd db date k)\<lparr>d_max_drawdown := 0\<rparr>"
proof -
  let ?f = "\<lambda>r. (row_key r, key_account_type db (row_key r), r_pnl_amount r)"
  have group: "filter (\<lambda>(k', ty, _). k' = k \<and> ty = key_account_type db k) (map ?f rs) = map ?f (day_group db date k)"
    unfolding assms(2) [symmetric] by (induction rs) auto
  have "\<forall>r \<in> set (day_group db date k). r_pnl_amount r = Some (row_pnl r)"
    using assms(1) unfolding assms(2) [symmetric] row_pnl_def by auto
  then have pnls: "List.map_filter (\<lambda>(_, _, pnl). pnl) (map ?f (day_group db date k)) = map row_pnl (day_group db date k)"
    by (induction "day_group db date k") (auto simp: List.map_filter_def)
  obtain st p ex a where k: "k = (st, p, ex, a)" by (cases k)
  show ?thesis
    unfolding summary_row_def k prod.case Let_def group [unfolded k] pnls [unfolded k]
    by (simp add: expected_summary_def filter_map o_def)
qed

lemma decoded_rows:
  "\<forall>r \<in> set rs. r_pnl_amount r \<noteq> None \<Longrightarrow>
    collectR decode_drawdown_row (map (\<lambda>r. (row_key r, key_account_type db (row_key r), r_pnl_amount r)) rs) =
    Inr (map (\<lambda>r. (row_key r, key_account_type db (row_key r), row_pnl r)) rs)"
  by (induction rs) (auto simp: decode_drawdown_row_def row_pnl_def)

lemma entries_of_rows:
  assumes "iteration_order order"
  shows "pnl_group_entries order (map (\<lambda>r. (row_key r, key_account_type db (row_key r), row_pnl r)) rs) =
    map (\<lambda>k. (k, map row_pnl (filter (\<lambda>r. row_key r = k) rs), key_account_type db k)) (order (remdups (map row_key rs)))"
proof -
  let ?rows = "map (\<lambda>r. (row_key r, key_account_type db (row_key r), row_pnl r)) rs"
  have g: "group_pnls_by_strategy_pair_exchange_account ?rows k =
      Some (map row_pnl (filter (\<lambda>r. row_key r = k) rs), key_account_type db k)" if "k \<in> row_key ` set rs" for k
  proof -
    have "group_pnls_by_strategy_pair_exchange_account ?rows k =
        (if k \<in> fst ` set ?rows then Some (map (snd \<circ> snd) (filter (\<lambda>x. fst x = k) ?rows), key_account_type db k) else None)"
      by (rule pnl_groups_exact) auto
    moreover have "k \<in> fst ` set ?rows" using that by force
    ultimately show ?thesis by (simp add: filter_map o_def)
  qed
  have keys: "set (order (remdups (map row_key rs))) = row_key ` set rs"
    using assms by (simp add: iteration_order_def)
  have keys_of: "map fst ?rows = map row_key rs" by (simp add: o_def)
  show ?thesis
    unfolding pnl_group_entries_def Let_def keys_of by (rule map_filter_Some) (use keys in \<open>simp add: g\<close>)
qed

lemma same_accounts: "find_account aid (db\<lparr>summaries := x\<rparr>) = find_account aid db"
  by (simp add: find_account_def)

lemma join_same: "join_account (db\<lparr>summaries := x\<rparr>) = join_account db"
  by (rule ext) (simp add: join_account_def same_accounts)

text \<open>The transaction leaves the base rows: everything but the drawdown.\<close>

lemma rebuild_base:
  assumes "faults db = []" and "day_complete db date"
  shows "transaction (bindE (delete_summaries date) (\<lambda>_. insert_summaries date)) db =
    (Inr (), db\<lparr>summaries := filter (\<lambda>d. d_date d \<noteq> date) (summaries db) @
       map (\<lambda>k. (expected_summary rnd db date k)\<lparr>d_max_drawdown := 0\<rparr>) (day_keys db date)\<rparr>)"
proof -
  let ?G = "filter (closed_on date) (trades db)"
  let ?rows = "map (\<lambda>r. (row_key r, key_account_type db (row_key r), r_pnl_amount r)) ?G"
  have rows: "List.map_filter (join_account db) ?G = ?rows"
    using assms(2) by (intro joined_rows) (auto simp: day_complete_def)
  have "remdups (map (\<lambda>k. (k, key_account_type db k)) (map row_key ?G)) = map (\<lambda>k. (k, key_account_type db k)) (day_keys db date)"
    unfolding day_keys_def by (rule remdups_map_inj) (simp add: inj_on_def)
  then have keys: "remdups (map (\<lambda>r. (row_key r, key_account_type db (row_key r))) ?G) = map (\<lambda>k. (k, key_account_type db k)) (day_keys db date)"
    by (simp add: o_def)
  have base: "summary_row date ?rows (k, key_account_type db k) = (expected_summary rnd db date k)\<lparr>d_max_drawdown := 0\<rparr>" for k
    using assms(2) by (intro summary_row_base) (auto simp: day_complete_def day_group_def)
  have "bindE (delete_summaries date) (\<lambda>_. insert_summaries date) db =
    (Inr (), db\<lparr>summaries := filter (\<lambda>d. d_date d \<noteq> date) (summaries db) @
       map (\<lambda>k. (expected_summary rnd db date k)\<lparr>d_max_drawdown := 0\<rparr>) (day_keys db date)\<rparr>)"
    unfolding bindE_run delete_summaries_def insert_summaries_def
    by (simp add: stmt_ok assms(1) Let_def join_same rows keys base o_def)
  then show ?thesis by (rule transaction_ok [OF assms(1)]) (simp add: assms(1))
qed

text \<open>The update sets the drawdown of every group of the day.\<close>

lemma update_exact:
  assumes "faults db = []" and "day_complete db date" and "iteration_order order"
    and "summaries db = others @ map (\<lambda>k. (expected_summary rnd db date k)\<lparr>d_max_drawdown := 0\<rparr>) (day_keys db date)"
    and "\<forall>d \<in> set others. d_date d \<noteq> date"
  shows "update_daily_max_drawdown rnd order date db =
    (Inr (), db\<lparr>summaries := others @ map (expected_summary rnd db date) (day_keys db date)\<rparr>)"
proof -
  let ?G = "filter (closed_on date) (trades db)"
  let ?S = "sort_key (\<lambda>r. unwrap_or (r_exit_at r) 0) ?G"
  let ?es = "order (remdups (map row_key ?S))"
  have ok: "\<forall>r \<in> set ?S. r_pnl_amount r \<noteq> None \<and> find_account (r_account_id r) db \<noteq> None"
    using assms(2) by (auto simp: day_complete_def)
  have fetch: "fetch_closed_trades_for_day date db =
      (Inr (map (\<lambda>r. (row_key r, key_account_type db (row_key r), row_pnl r)) ?S), db)"
    using ok by (simp add: fetch_closed_trades_for_day_def run_simps stmt_ok assms(1) joined_rows decoded_rows)
  have sorted: "filter (\<lambda>r. row_key r = k) ?S = sort_key (\<lambda>r. unwrap_or (r_exit_at r) 0) (day_group db date k)" for k
    by (simp add: day_group_def filter_sort)
  have es: "set ?es = set (day_keys db date)"
    using assms(3) by (auto simp: iteration_order_def day_keys_def)
  have upd: "(expected_summary rnd db date k)\<lparr>d_max_drawdown := 0\<rparr>\<lparr>d_max_drawdown :=
      pnl_drawdown rnd (map row_pnl (filter (\<lambda>r. row_key r = k) ?S))\<rparr> = expected_summary rnd db date k" for k
    unfolding sorted by (cases k) (simp add: expected_summary_def)
  have key: "is_summary_of date k ty ((expected_summary rnd db date k')\<lparr>d_max_drawdown := 0\<rparr>) \<longleftrightarrow>
      k' = k \<and> ty = key_account_type db k'" for k ty k'
    using expected_is_summary [of date k ty rnd db k'] by (cases k) (simp add: is_summary_of_def)
  have "forE (map (\<lambda>k. (k, map row_pnl (filter (\<lambda>r. row_key r = k) ?S), key_account_type db k)) ?es)
      (\<lambda>(key, pnls, account_type). persist_max_drawdown rnd date key (pnls, account_type) (pnl_drawdown rnd pnls)) db =
    (Inr (), db\<lparr>summaries := others @ map (\<lambda>k. if k \<in> set ?es
       then (expected_summary rnd db date k)\<lparr>d_max_drawdown := 0\<rparr>\<lparr>d_max_drawdown := pnl_drawdown rnd (map row_pnl (filter (\<lambda>r. row_key r = k) ?S))\<rparr>
       else (expected_summary rnd db date k)\<lparr>d_max_drawdown := 0\<rparr>) (day_keys db date)\<rparr>)"
    by (rule persist_all) (use assms(1,4,5) es key in \<open>auto simp: day_keys_def\<close>)
  then show ?thesis
    unfolding update_daily_max_drawdown_def bindE_run fetch prod.case sum.case entries_of_rows [OF assms(3)]
    by (simp add: upd es cong: map_cong)
qed

text \<open>
  C12. Rebuilding the summaries of a day makes them exact. Without database failures, when each
  trade closed on the day has its result and its account, the rebuild succeeds whatever order the
  hash map shows; the rows of other days stay, and the rows of the day are one for each strategy,
  pair, exchange and account that closed a trade: with the number of its trades, the winning
  ones, the sum of their results, and as maximum drawdown the largest fall of their running total
  in the order of the exits.
\<close>

theorem rebuilt_summaries_exact:
  assumes "faults db = []" and "day_complete db date" and "iteration_order order"
  shows "rebuild_daily_summary exact order date db = (Inr (), db\<lparr>summaries :=
       filter (\<lambda>d. d_date d \<noteq> date) (summaries db) @ map (expected_summary exact db date) (day_keys db date)\<rparr>)
    \<and> (\<forall>k. largest_fall (map row_pnl (sort_key (\<lambda>r. unwrap_or (r_exit_at r) 0) (day_group db date k)))
          (d_max_drawdown (expected_summary exact db date k)))"
proof -
  let ?others = "filter (\<lambda>d. d_date d \<noteq> date) (summaries db)"
  let ?mid = "db\<lparr>summaries := ?others @ map (\<lambda>k. (expected_summary exact db date k)\<lparr>d_max_drawdown := 0\<rparr>) (day_keys db date)\<rparr>"
  have same: "day_complete ?mid date = day_complete db date" "expected_summary exact ?mid date = expected_summary exact db date"
    "day_keys ?mid date = day_keys db date"
    by (auto simp: day_complete_def same_accounts expected_summary_def key_account_type_def day_group_def day_keys_def
        intro!: ext split: prod.split)
  have "update_daily_max_drawdown exact order date ?mid =
      (Inr (), ?mid\<lparr>summaries := ?others @ map (expected_summary exact ?mid date) (day_keys ?mid date)\<rparr>)"
    by (rule update_exact) (use assms in \<open>simp_all add: same\<close>)
  moreover have "largest_fall (map row_pnl (sort_key (\<lambda>r. unwrap_or (r_exit_at r) 0) (day_group db date k)))
      (d_max_drawdown (expected_summary exact db date k))" for k
    using pnl_drawdown_is_largest_fall by (cases k) (simp add: expected_summary_def)
  ultimately show ?thesis
    by (simp add: rebuild_daily_summary_def bindE_run rebuild_base [OF assms(1,2), of exact] same)
qed

text \<open>The day of the closed demonstration trade.\<close>

theorem rebuilt_summaries_exact_witness:
  "summaries (snd (rebuild_daily_summary exact rev 0 (ldb demo_closed))) =
     [\<lparr>d_date = 0, d_strategy_name = ''s'', d_pair = ''USD_JPY'', d_account_type = ''paper'', d_exchange = ''gmo_fx'',
       d_account_id = Some 1, d_trade_count = 1, d_win_count = 1, d_total_pnl = 1000, d_max_drawdown = 0\<rparr>]"
proof -
  have f1: "faults (ldb demo_closed) = []" by code_simp
  have f2: "day_complete (ldb demo_closed) 0" by code_simp
  have f3: "iteration_order (rev :: summary_key list \<Rightarrow> summary_key list)" by (simp add: iteration_order_def)
  have rows: "map (expected_summary exact (ldb demo_closed) 0) (day_keys (ldb demo_closed) 0) =
     [\<lparr>d_date = 0, d_strategy_name = ''s'', d_pair = ''USD_JPY'', d_account_type = ''paper'', d_exchange = ''gmo_fx'',
       d_account_id = Some 1, d_trade_count = 1, d_win_count = 1, d_total_pnl = 1000, d_max_drawdown = 0\<rparr>]"
    by code_simp
  have others: "filter (\<lambda>d. d_date d \<noteq> 0) (summaries (ldb demo_closed)) = []" by code_simp
  show ?thesis
    unfolding conjunct1 [OF rebuilt_summaries_exact [OF f1 f2 f3]] by (simp add: rows others)
qed

end
