(* ===== verification/Backtest_Theorems.thy ===== *)
theory Backtest_Theorems
  imports Sizing Backtest_Runner Summary_Theorems Indicator_Theorems Strategy_Contracts
begin

text \<open>
  The books of a backtest: its trades are opened with new identifiers, closed at most once and at
  the spread's price, the balance is the initial one plus the results of the closed trades, and the
  report repeats these books. The Donchian strategy satisfies what the replay asks of a strategy.
\<close>

section \<open>The books of a replay\<close>

definition opened_in :: "trade list \<Rightarrow> trade list" where
  "opened_in bk = filter (\<lambda>t. t_status t = Open) bk"

definition closed_in :: "trade list \<Rightarrow> trade list" where
  "closed_in bk = filter (\<lambda>t. t_status t = Closed) bk"

definition still_open :: "trade list \<Rightarrow> trade list" where
  "still_open bk = filter (\<lambda>t. t_id t \<notin> t_id ` set (closed_in bk)) (opened_in bk)"

lemma books_append [simp]:
  "opened_in (xs @ ys) = opened_in xs @ opened_in ys" "closed_in (xs @ ys) = closed_in xs @ closed_in ys"
  by (simp_all add: opened_in_def closed_in_def)

lemma books_single [simp]:
  "opened_in [] = []" "closed_in [] = []"
  "t_status t = Open \<Longrightarrow> opened_in [t] = [t]" "t_status t = Open \<Longrightarrow> closed_in [t] = []"
  "t_status t = Closed \<Longrightarrow> opened_in [t] = []" "t_status t = Closed \<Longrightarrow> closed_in [t] = [t]"
  by (simp_all add: opened_in_def closed_in_def)

text \<open>What a closed trade is to the trade it closes.\<close>

definition exit_of :: "decimal \<Rightarrow> trade \<Rightarrow> trade \<Rightarrow> bool" where
  "exit_of spread t c \<longleftrightarrow> (\<exists>reason price now.
     let exit_price = (case t_direction t of Long \<Rightarrow> price * (1 - spread) | Short \<Rightarrow> price * (1 + spread));
         result = (case t_direction t of Long \<Rightarrow> exit_price - t_entry_price t | Short \<Rightarrow> t_entry_price t - exit_price)
     in c = t\<lparr>t_exit_price := Some exit_price, t_exit_at := Some now,
            t_pnl_amount := Some (trunc (result * t_quantity t)), t_exit_reason := Some reason, t_status := Closed\<rparr>)"

definition trade_key :: "trade \<Rightarrow> string \<times> pair" where
  "trade_key t = (t_strategy_name t, t_pair t)"

definition pnl_of :: "trade \<Rightarrow> decimal" where
  "pnl_of t = unwrap_or (t_pnl_amount t) 0"

definition replay_ok :: "decimal \<Rightarrow> decimal \<Rightarrow> (nat \<Rightarrow> uuid) \<Rightarrow> replay \<Rightarrow> bool" where
  "replay_ok spread start fresh = (\<lambda>(tr, bk, failures).
     bt_spread_pct tr = spread \<and> map t_id (opened_in bk) = map fresh [0..<bt_issued tr]
     \<and> distinct (map t_id (closed_in bk)) \<and> bt_positions tr = still_open bk
     \<and> (\<forall>c \<in> set (closed_in bk). \<exists>t \<in> set (opened_in bk). exit_of spread t c)
     \<and> bt_balance tr = start + sum_list (map pnl_of (closed_in bk))
     \<and> distinct (map trade_key (still_open bk)))"

lemma exit_of_fields: "exit_of spread t c \<Longrightarrow> t_id c = t_id t \<and> t_status c = Closed \<and> t_pnl_amount c = Some (pnl_of c)"
  by (auto simp: exit_of_def Let_def pnl_of_def unwrap_or_def)

lemma settled_trade_exit: "bt_spread_pct tr = spread \<Longrightarrow> exit_of spread t (settled_trade exact tr t reason price now)"
  unfolding exit_of_def settled_trade_def apply_spread_def
  by (rule exI [of _ reason], rule exI [of _ price], rule exI [of _ now])
    (cases "t_direction t"; simp add: dec_op_defs Let_def)

lemma replay_start: "replay_ok spread start fresh (sim_trader_new x start lev spread, [], 0)"
  by (simp add: replay_ok_def sim_trader_new_def still_open_def opened_in_def closed_in_def)

lemma open_ids:
  assumes "inj fresh" and "replay_ok spread start fresh (tr, bk, n)"
  shows "distinct (map t_id (opened_in bk))" "distinct (map t_id (bt_positions tr))"
proof -
  have "distinct (map fresh [0..<bt_issued tr])"
    using inj_on_subset [OF assms(1), of "{0..<bt_issued tr}"] by (simp add: distinct_map)
  then show d: "distinct (map t_id (opened_in bk))" using assms(2) by (simp add: replay_ok_def)
  show "distinct (map t_id (bt_positions tr))"
    using assms(2) distinct_map_filter [OF d] by (simp add: replay_ok_def still_open_def)
qed

section \<open>Closing\<close>

lemma still_open_close:
  assumes "t_id c = i" "t_status c = Closed"
  shows "still_open (bk @ [c]) = filter (\<lambda>p. t_id p \<noteq> i) (still_open bk)"
  using assms by (simp add: still_open_def) (rule filter_cong, auto)

lemma close_ok:
  assumes "inj fresh" and ok: "replay_ok spread start fresh (tr, bk, n)" and "i \<in> t_id ` set (bt_positions tr)"
  shows "\<exists>tr' c. close_recorded exact i reason price now (tr, bk, n) = Inr (tr', bk @ [c], n)
    \<and> replay_ok spread start fresh (tr', bk @ [c], n)
    \<and> bt_positions tr' = filter (\<lambda>p. t_id p \<noteq> i) (bt_positions tr)"
proof -
  obtain p where p: "find (\<lambda>p. t_id p = i) (bt_positions tr) = Some p" "p \<in> set (bt_positions tr)" "t_id p = i"
    using assms(3) by (cases "find (\<lambda>p. t_id p = i) (bt_positions tr)") (auto simp: find_None_iff find_Some_iff)
  let ?c = "settled_trade exact tr p reason price now"
  let ?tr = "tr\<lparr>bt_positions := filter (\<lambda>p. t_id p \<noteq> i) (bt_positions tr), bt_balance := bt_balance tr + pnl_of ?c\<rparr>"
  have spread: "bt_spread_pct tr = spread" using ok by (simp add: replay_ok_def)
  note e = settled_trade_exit [OF spread, of p reason price now]
  note f = exit_of_fields [OF e]
  have run: "close_recorded exact i reason price now (tr, bk, n) = Inr (?tr, bk @ [?c], n)"
    using f p(1) by (simp add: close_recorded_def sim_close_def dec_op_defs Let_def)
  have so: "still_open (bk @ [?c]) = filter (\<lambda>p. t_id p \<noteq> i) (still_open bk)"
    by (rule still_open_close) (use f p(3) in auto)
  have pos: "bt_positions tr = still_open bk" using ok by (simp add: replay_ok_def)
  have mem: "p \<in> set (opened_in bk)" "i \<notin> t_id ` set (closed_in bk)"
    using p(2,3) pos by (auto simp: still_open_def)
  have "replay_ok spread start fresh (?tr, bk @ [?c], n)"
    using ok e mem f so p(3) by (auto simp: replay_ok_def intro: distinct_map_filter)
  then show ?thesis using run by auto
qed

text \<open>A loop that closes some of the listed positions, each at most once.\<close>

lemma closes_total:
  assumes "inj fresh"
    and step: "\<And>s x. f s x = Inr s \<or> (\<exists>reason price now. f s x = close_recorded exact (idf x) reason price now s)"
  shows "replay_ok spread start fresh s \<Longrightarrow> distinct (map idf xs) \<Longrightarrow> idf ` set xs \<subseteq> t_id ` set (bt_positions (fst s)) \<Longrightarrow>
    \<exists>s'. foldR f s xs = Inr s' \<and> replay_ok spread start fresh s'"
proof (induction xs arbitrary: s)
  case (Cons x xs)
  obtain tr bk n where s: "s = (tr, bk, n)" by (cases s)
  show ?case
  proof (cases "f s x = Inr s")
    case True
    then show ?thesis using Cons by auto
  next
    case False
    then obtain reason price now where fx: "f s x = close_recorded exact (idf x) reason price now s"
      using step by blast
    have "idf x \<in> t_id ` set (bt_positions tr)" using Cons.prems(3) s by auto
    then obtain tr' c where r: "f s x = Inr (tr', bk @ [c], n)"
      and ok: "replay_ok spread start fresh (tr', bk @ [c], n)"
      and pos: "bt_positions tr' = filter (\<lambda>p. t_id p \<noteq> idf x) (bt_positions tr)"
      using close_ok [OF assms(1), of spread start tr bk n "idf x" reason price now] Cons.prems(1) fx s by auto
    have "idf ` set xs \<subseteq> t_id ` set (bt_positions tr')"
      using Cons.prems(2,3) s pos by force
    then show ?thesis using Cons.IH [OF ok] Cons.prems(2) r by simp
  qed
qed auto

section \<open>Opening\<close>

lemma quantity_total: "0 \<le> margin_buffer ps \<Longrightarrow> \<exists>res. calculate_quantity exact ps pair bal entry lev alloc sl liq = Inr res"
proof (cases "bal \<le> 0 \<or> entry \<le> 0 \<or> lev \<le> 0 \<or> alloc \<le> 0 \<or> 1 < alloc \<or> sl \<le> 0 \<or> liq \<le> 0")
  case False
  assume "0 \<le> margin_buffer ps"
  then have "0 < liq + margin_buffer ps + lev * sl" using False by (simp add: add_pos_pos add_pos_nonneg)
  then show ?thesis using False by (auto simp: calculate_quantity_def dec_op_defs Let_def)
qed (use calculate_quantity_reject in blast)

lemma opened_fields: "t_id (opened_trade rnd i tr sig entry q now) = i" "t_status (opened_trade rnd i tr sig entry q now) = Open"
  "trade_key (opened_trade rnd i tr sig entry q now) = (s_strategy_name sig, s_pair sig)"
  by (simp_all add: opened_trade_def trade_key_def Let_def)

lemma still_open_open:
  assumes "t_status t = Open" "t_id t \<notin> t_id ` set (closed_in bk)"
  shows "still_open (bk @ [t]) = still_open bk @ [t]"
  using assms by (simp add: still_open_def)

lemma open_ok:
  assumes "inj fresh" and ok: "replay_ok spread start fresh (tr, bk, n)"
    and t: "t = opened_trade exact (fresh (bt_issued tr)) tr sig entry q now"
    and new: "\<not> (\<exists>p \<in> set (bt_positions tr). t_strategy_name p = s_strategy_name sig \<and> t_pair p = s_pair sig)"
  shows "replay_ok spread start fresh (tr\<lparr>bt_positions := insert_position t (bt_positions tr), bt_issued := bt_issued tr + 1\<rparr>, bk @ [t], n)"
proof -
  note f = opened_fields [of exact "fresh (bt_issued tr)" tr sig entry q now, folded t]
  have ids: "map t_id (opened_in bk) = map fresh [0..<bt_issued tr]" using ok by (simp add: replay_ok_def)
  have "fresh (bt_issued tr) \<notin> set (map fresh [0..<bt_issued tr])" by (auto simp: inj_eq [OF assms(1)])
  then have fresh_id: "t_id t \<notin> t_id ` set (opened_in bk)" using f(1) ids by (metis list.set_map)
  moreover have "t_id ` set (closed_in bk) \<subseteq> t_id ` set (opened_in bk)"
    using ok exit_of_fields by (fastforce simp: replay_ok_def)
  ultimately have so: "still_open (bk @ [t]) = still_open bk @ [t]"
    using f(2) by (intro still_open_open) auto
  have pos: "bt_positions tr = still_open bk" using ok by (simp add: replay_ok_def)
  have "insert_position t (bt_positions tr) = bt_positions tr @ [t]"
  proof -
    have "\<forall>p \<in> set (bt_positions tr). t_id p \<noteq> t_id t" 
      using fresh_id unfolding pos still_open_def by (metis filter_is_subset imageI subsetD)
    then show ?thesis by (simp add: insert_position_def)
  qed
  moreover have "trade_key t \<notin> trade_key ` set (still_open bk)" using new f(3) pos by (auto simp: trade_key_def)
  moreover have "t_id t = fresh (bt_issued tr)" by (rule f(1))
  ultimately show ?thesis using ok so f(2) by (simp add: replay_ok_def)
qed

text \<open>What the replay asks of a strategy: it does not panic on candles with a price, and its exits
  name positions it was shown, each at most once.\<close>

definition orderly :: "'st strategy_ops \<Rightarrow> bool" where
  "orderly ops \<longleftrightarrow>
     (\<forall>st e. c_close (e_candle e) \<noteq> 0 \<longrightarrow> (\<exists>sig. fst (op_on_price ops st e) = Inr sig)) \<and>
     (\<forall>st ps e. distinct (map t_id ps) \<longrightarrow> (\<exists>xs. op_on_open_positions ops st ps e = Inr xs
        \<and> distinct (map x_trade_id xs) \<and> x_trade_id ` set xs \<subseteq> t_id ` set ps))"

lemma entry_ok:
  assumes "orderly ops" "inj fresh" "0 \<le> margin_buffer ps" "replay_ok spread start fresh s" "c_close (e_candle e) \<noteq> 0"
  shows "\<exists>st' s'. try_open_new_entry exact fresh ops e ps liq (st, s) = Inr (st', s') \<and> replay_ok spread start fresh s'"
proof -
  obtain tr bk n where s: "s = (tr, bk, n)" by (cases s)
  obtain sig st' where a: "op_on_price ops st e = (Inr sig, st')"
    using assms(1,5) by (auto simp: orderly_def) (metis prod.collapse)
  show ?thesis
  proof (cases sig)
    case None
    then show ?thesis using a s assms(4) by (simp add: try_open_new_entry_def)
  next
    case (Some g)
    show ?thesis
    proof (cases "\<exists>t \<in> set (bt_positions tr). t_strategy_name t = s_strategy_name g \<and> t_pair t = s_pair g")
      case True
      then show ?thesis using a s Some assms(4) by (simp add: try_open_new_entry_def)
    next
      case False
      let ?entry = "apply_spread exact tr (c_close (e_candle e)) (s_direction g = Long)"
      obtain res where q: "calculate_quantity exact ps (s_pair g) (bt_balance tr) ?entry (bt_leverage tr)
          (s_allocation_pct g) (s_stop_loss_pct g) liq = Inr res"
        using quantity_total [OF assms(3)] by blast
      have failed: "replay_ok spread start fresh (tr, bk, n + 1)" using assms(4) s by (simp add: replay_ok_def)
      show ?thesis
        using a s Some False q failed open_ok [OF assms(2) assms(4) [unfolded s] refl False]
        by (cases res) (auto simp: try_open_new_entry_def sim_open_def Let_def)
    qed
  qed
qed

section \<open>One candle\<close>

lemma order_positions:
  assumes "iteration_order order" and "distinct (map t_id ps)"
  shows "distinct (map t_id (order ps))" "t_id ` set (order ps) = t_id ` set ps"
  using assms by (auto simp: iteration_order_def distinct_map)

lemma indicators_total: "\<exists>m. indicators_up_to exact candles i = Inr m"
proof -
  let ?c = "recent_closes candles i"
  obtain a b r where "sma exact ?c SMA_SHORT_PERIOD = Inr a" "sma exact ?c SMA_LONG_PERIOD = Inr b"
    "rsi exact ?c RSI_PERIOD = Inr r"
    using sma_total [of SMA_SHORT_PERIOD exact ?c] sma_total [of SMA_LONG_PERIOD exact ?c]
      rsi_total [OF dec_rounding_exact, of RSI_PERIOD ?c]
    by (auto simp: SMA_SHORT_PERIOD_def SMA_LONG_PERIOD_def RSI_PERIOD_def)
  then show ?thesis by (simp add: indicators_up_to_def Let_def)
qed

lemma fixed_exit_closes: "fixed_exit_step rnd pair c s t = Inr s \<or>
    (\<exists>reason price now. fixed_exit_step rnd pair c s t = close_recorded rnd (t_id t) reason price now s)"
  unfolding fixed_exit_step_def by (cases "fixed_exit_for t c") (auto simp del: split_paired_Ex)

lemma candle_ok:
  assumes "orderly ops" "inj fresh" "iteration_order order" "0 \<le> margin_buffer ps" "replay_ok spread start fresh s"
    and "c_close (candles ! i) \<noteq> 0"
  shows "\<exists>st' s'. replay_candle exact order fresh ops x pair ps liq candles (st, s) i = Inr (st', s') \<and> replay_ok spread start fresh s'"
proof -
  let ?c = "candles ! i"
  obtain m where m: "indicators_up_to exact candles i = Inr m" using indicators_total by blast
  let ?e = "\<lparr>e_pair = pair, e_exchange = x, e_candle = ?c, e_indicators = m, e_timestamp = c_timestamp ?c\<rparr>"
  have ids: "distinct (map t_id (bt_positions (fst s)))" if "replay_ok spread start fresh s" for s
    using open_ids(2) [OF assms(2)] that by (cases s) auto
  obtain s1 where s1: "close_hit_fixed_exits exact order pair ?c s = Inr s1" "replay_ok spread start fresh s1"
  proof -
    have "\<exists>s'. foldR (fixed_exit_step exact pair ?c) s (order (bt_positions (fst s))) = Inr s' \<and> replay_ok spread start fresh s'"
      by (rule closes_total [OF assms(2), where idf = t_id])
        (use assms(5) order_positions [OF assms(3) ids [OF assms(5)]] in
          \<open>simp_all add: fixed_exit_closes\<close>)
    then show ?thesis using that by (auto simp: close_hit_fixed_exits_def)
  qed
  obtain st2 s2 where s2: "try_open_new_entry exact fresh ops ?e ps liq (st, s1) = Inr (st2, s2)" "replay_ok spread start fresh s2"
    using entry_ok [OF assms(1,2,4) s1(2), of ?e liq st] assms(6) by auto
  let ?ps = "order (bt_positions (fst s2))"
  note po = order_positions [OF assms(3) ids [OF s2(2)]]
  obtain xs where xs: "op_on_open_positions ops st2 ?ps ?e = Inr xs" "distinct (map x_trade_id xs)"
    "x_trade_id ` set xs \<subseteq> t_id ` set ?ps"
    using assms(1) po(1) unfolding orderly_def by blast
  have "\<exists>s'. foldR (\<lambda>s x. close_recorded exact (x_trade_id x) (to_exit_reason (x_reason x)) (x_close_price x) (e_timestamp ?e) s) s2 xs = Inr s'
      \<and> replay_ok spread start fresh s'"
    by (rule closes_total [OF assms(2), where idf = x_trade_id], blast) (use s2(2) xs po(2) in simp_all)
  then obtain s3 where "close_strategy_driven_exits exact order ops ?e (st2, s2) = Inr (st2, s3)" "replay_ok spread start fresh s3"
    using xs(1) by (auto simp: close_strategy_driven_exits_def)
  then show ?thesis using m s1(1) s2(1) by (simp add: replay_candle_def Let_def)
qed

section \<open>The report\<close>

lemma drawdown_shift:
  "foldl (report_drawdown_step exact) (b + peak, dd, b + equity) ts =
     (case foldl (pnl_drawdown_step exact) (peak, equity, dd) (map pnl_of ts) of (p, q, d) \<Rightarrow> (b + p, d, b + q))"
proof (induction ts arbitrary: peak equity dd)
  case (Cons t ts)
  let ?q = "equity + pnl_of t"
  let ?p = "if ?q > peak then ?q else peak"
  let ?d = "if ?p - ?q > dd then ?p - ?q else dd"
  have "report_drawdown_step exact (b + peak, dd, b + equity) t = (b + ?p, ?d, b + ?q)"
    by (auto simp: report_drawdown_step_def pnl_of_def dec_op_defs Let_def add.assoc)
  moreover have "pnl_drawdown_step exact (peak, equity, dd) (pnl_of t) = (?p, ?q, ?d)"
    by (simp add: pnl_drawdown_step_def dec_op_defs Let_def)
  ultimately show ?case using Cons [of ?p ?d ?q] by (simp only: foldl_Cons list.map)
qed simp

lemma report_drawdown: "largest_fall (map pnl_of ts) (fst (snd (foldl (report_drawdown_step exact) (b, 0, b) ts)))"
  using pnl_drawdown_is_largest_fall [of "map pnl_of ts"] drawdown_shift [of b 0 0 0 ts]
  by (cases "foldl (pnl_drawdown_step exact) (0, 0, 0) (map pnl_of ts)") (simp add: pnl_drawdown_def)

lemma report_exact:
  assumes "\<forall>c \<in> set (closed_in bk). t_pnl_amount c = Some (pnl_of c)"
  shows "\<exists>rp. from_trades_with_failures exact fl bk start final failures = Inr rp
    \<and> rp_trades rp = bk \<and> rp_initial_balance rp = start \<and> rp_final_balance rp = final
    \<and> rp_total_pnl rp = sum_list (map pnl_of (closed_in bk))
    \<and> rp_total_trades rp = length (closed_in bk) \<and> rp_wins rp + rp_losses rp = rp_total_trades rp
    \<and> rp_wins rp = length (filter (\<lambda>t. 0 < pnl_of t) (closed_in bk))
    \<and> largest_fall (map pnl_of (closed_in bk)) (rp_max_drawdown rp)"
proof -
  let ?ts = "filter (\<lambda>t. t_status t = Closed) bk"
  have pnls: "List.map_filter t_pnl_amount ?ts = map pnl_of ?ts"
    using assms by (intro map_filter_Some) (auto simp: closed_in_def)
  have wins: "(\<lambda>t. 0 < unwrap_or (t_pnl_amount t) 0) = (\<lambda>t. 0 < pnl_of t)" by (simp add: pnl_of_def)
  have "\<exists>f. profit_factor exact fl gp gl = Inr f" for gp gl by (auto simp: profit_factor_def ddiv_def)
  then obtain f where "profit_factor exact fl (dsum exact (filter (\<lambda>p. p > 0) (map pnl_of ?ts)))
      (dsum exact (map abs (filter (\<lambda>p. p < 0) (map pnl_of ?ts)))) = Inr f" by blast
  moreover have "length (filter (\<lambda>t. 0 < pnl_of t) ?ts) \<le> length ?ts" by (rule length_filter_le)
  ultimately show ?thesis
    by (simp add: from_trades_with_failures_def pnls Let_def wins dsum_exact closed_in_def report_drawdown)
qed

section \<open>The Donchian strategy is orderly\<close>

lemma map_filter_distinct:
  assumes "distinct (map t_id ps)" and "\<And>p x. f p = Some x \<Longrightarrow> x_trade_id x = t_id p"
  shows "distinct (map x_trade_id (List.map_filter f ps)) \<and> x_trade_id ` set (List.map_filter f ps) \<subseteq> t_id ` set ps"
  using assms by (induction ps) (fastforce simp: List.map_filter_simps split: option.splits)+

lemma trailing_exit_id: "trailing_exit rnd name e lo hi p = Some x \<Longrightarrow> x_trade_id x = t_id p"
  by (auto simp: trailing_exit_def make_exit_def Let_def split: if_splits)

lemma bindR_total: "\<exists>x. m = Inr x \<Longrightarrow> (\<And>x. \<exists>y. f x = Inr y) \<Longrightarrow> \<exists>y. bindR m f = Inr y"
  by auto

lemma bindO_total: "\<exists>x. m = Inr x \<Longrightarrow> (\<And>x. \<exists>y. f x = Inr y) \<Longrightarrow> \<exists>y. bindO m f = Inr y"
  by (auto simp: bindO_def split: option.split)

lemma baseline_total: "\<exists>b. baseline_atr_excluding_current_bar rnd h n 14 = Inr b"
proof -
  define step where "step = (\<lambda>(sum, n) i. if i < 14 + 1 then Inr (sum, n) else
       bindR (atr rnd (take (Suc i) (highs h)) (take (Suc i) (lows h)) (take (Suc i) (closes h)) 14) (\<lambda>v.
       case v of None \<Rightarrow> Inr (sum, n) | Some a \<Rightarrow> Inr (dadd rnd sum a, n + 1)) :: (decimal \<times> nat) result)"
  have "\<exists>s'. step s i = Inr s'" for s i
  proof (cases s)
    case (Pair sum k)
    obtain v where "atr rnd (take (Suc i) (highs h)) (take (Suc i) (lows h)) (take (Suc i) (closes h)) 14 = Inr v"
      using atr_total by fastforce
    then show ?thesis by (auto simp: step_def Pair split: option.split)
  qed
  then obtain sum k where "foldR step (0, 0) [length h - 2 + 1 - n..<Suc (length h - 2)] = Inr (sum, k)"
    using foldR_total [of "\<lambda>_. True" "(0, 0)" _ step] by (metis surj_pair)
  then show ?thesis
    unfolding baseline_atr_excluding_current_bar_def Let_def step_def by (auto simp: ddiv_def)
qed

lemma donchian_decide_total: "c_close (e_candle e) \<noteq> 0 \<Longrightarrow> \<exists>sig. donchian_decide rnd name h e = Inr sig"
proof -
  assume e: "c_close (e_candle e) \<noteq> 0"
  obtain a where a: "atr rnd (highs h) (lows h) (closes h) 14 = Inr a" using atr_total by fastforce
  obtain b where b: "baseline_atr_excluding_current_bar rnd h 20 14 = Inr b" using baseline_total by blast
  obtain ch where ch: "channel_excluding_current_bar (highs h) (lows h) 20 = ch" by simp
  have d: "\<exists>x. stop_distance rnd v 3 (c_close (e_candle e)) cap = Inr x" for v cap
    using e by (simp add: stop_distance_def ddiv_def)
  show ?thesis
    unfolding donchian_decide_def ch a b Let_def
    by (auto intro!: bindO_total bindR_total d split: prod.split)
qed

lemma donchian_orderly: "orderly (donchian_ops rnd)"
  unfolding orderly_def
proof (intro conjI allI impI)
  show "\<exists>sig. fst (op_on_price (donchian_ops rnd) st e) = Inr sig" if "c_close (e_candle e) \<noteq> 0" for st e
    using donchian_decide_total [OF that] by (auto simp: donchian_ops_def donchian_on_price_def Let_def)
  show "\<exists>xs. op_on_open_positions (donchian_ops rnd) st ps e = Inr xs \<and> distinct (map x_trade_id xs) \<and> x_trade_id ` set xs \<subseteq> t_id ` set ps"
    if "distinct (map t_id ps)" for st ps e
    using map_filter_distinct [OF that trailing_exit_id]
    by (auto simp: donchian_ops_def donchian_on_open_positions_def split: option.split)
qed

section \<open>The run\<close>


text \<open>Two candles of the Donchian strategy.\<close>

definition demo_candle_row :: "datetime \<Rightarrow> decimal \<Rightarrow> candle_row" where
  "demo_candle_row t p = \<lparr>kr_exchange = ''gmo_fx'', kr_pair = ''USD_JPY'', kr_timeframe = ''H1'', kr_open = p, kr_high = p,
     kr_low = p, kr_close = p, kr_volume = None, kr_timestamp = t\<rparr>"

definition demo_stored_candles :: "candle list" where
  "demo_stored_candles = map (\<lambda>(t, p). \<lparr>c_pair = ''USD_JPY'', c_exchange = GmoFx, c_timeframe = ''H1'', c_open = p, c_high = p,
     c_low = p, c_close = p, c_volume = None, c_best_bid = None, c_best_ask = None, c_timestamp = t\<rparr>) [(0, 150), (3600, 151)]"


end
