(* ===== verification/Trade_Reads.thy ===== *)
theory Trade_Reads
  imports Database Startup_Reconcile
begin

text \<open>
  The reads of trades that serve the engine and the dashboard (\<open>db/src/trades/reads.rs\<close>, with
  \<open>jst_day_start.rs\<close>): trades by strategy, by identifier and for a pair, pages of trades, and the
  history of a trade made from its journal entries. \<open>by_time\<close> is the order that
  \<open>ORDER BY occurred_at, id\<close> gives journal entries, and \<open>time_of\<close> the stored time of an entry:
  times may come from the default of the column, and identifiers are random.
\<close>

section \<open>Days in Japan\<close>

definition NAIVE_DATE_MIN :: int where "NAIVE_DATE_MIN = -96465292"
definition NAIVE_DATE_MAX :: int where "NAIVE_DATE_MAX = 95026236"

definition jst_day_start_utc :: "int \<Rightarrow> datetime result" where
  "jst_day_start_utc date =
     (if date = NAIVE_DATE_MIN then Inl (Anyhow ''invalid date: out of range'')
      else Inr (date * hours 24 - hours 9))"

definition jst_next_day_start_utc :: "int \<Rightarrow> datetime result" where
  "jst_next_day_start_utc date =
     (if date = NAIVE_DATE_MAX then Inl (Anyhow ''invalid date: out of range'')
      else jst_day_start_utc (date + 1))"

section \<open>Trades\<close>

definition get_open_trades :: "string \<Rightarrow> string \<Rightarrow> trade list db_prog" where
  "get_open_trades strategy_name pair =
     bindE (stmt (askW (\<lambda>db. filter (\<lambda>r. r_strategy_name r = strategy_name \<and> r_pair r = pair
       \<and> r_status r = ''open'') (trades db)))) (\<lambda>rows.
     liftR (collectR trade_of_row rows))"

definition get_trade_by_id :: "uuid \<Rightarrow> trade option db_prog" where
  "get_trade_by_id tid =
     bindE (stmt (askW (\<lambda>db. find (\<lambda>r. r_id r = tid) (trades db)))) (\<lambda>row.
     case row of
       None \<Rightarrow> returnE None
     | Some r \<Rightarrow> bindE (liftR (trade_of_row r)) (\<lambda>t. returnE (Some t)))"

definition list_open_with_account_name_for_pair :: "string \<Rightarrow> string \<Rightarrow> open_trade_with_account list db_prog" where
  "list_open_with_account_name_for_pair exchange pair =
     bindE (stmt (askW (\<lambda>db. (newest_first (filter (\<lambda>r. r_status r = ''open'' \<and> r_exchange r = exchange
       \<and> r_pair r = pair) (trades db)), db))))
     (\<lambda>(rows, db). liftR (collectR (with_account db) rows))"

section \<open>Pages of trades\<close>

definition entered_between :: "datetime option \<Rightarrow> datetime option \<Rightarrow> trade_row \<Rightarrow> bool" where
  "entered_between from_ts to_ts r \<longleftrightarrow> (case from_ts of None \<Rightarrow> True | Some f \<Rightarrow> f \<le> r_entry_at r)
     \<and> (case to_ts of None \<Rightarrow> True | Some t \<Rightarrow> r_entry_at r < t)"

definition transposeR :: "('a \<Rightarrow> 'b result) \<Rightarrow> 'a option \<Rightarrow> 'b option result" where
  "transposeR f x = (case x of None \<Rightarrow> Inr None | Some v \<Rightarrow> bindR (f v) (\<lambda>y. Inr (Some y)))"

text \<open>\<open>ORDER BY entry_at DESC, id DESC LIMIT l OFFSET o\<close>; PostgreSQL rejects negative numbers.\<close>

definition list_trades ::
  "int \<Rightarrow> int \<Rightarrow> int option \<Rightarrow> int option \<Rightarrow> (trade list \<times> int) db_prog" where
  "list_trades limit offset from to =
     bindE (liftR (transposeR jst_day_start_utc from)) (\<lambda>from_ts.
     bindE (liftR (transposeR jst_next_day_start_utc to)) (\<lambda>to_ts.
     bindE (stmt (\<lambda>db.
       if limit < 0 \<or> offset < 0 then (Inl db_error, db)
       else (Inr (take (nat limit) (drop (nat offset)
              (newest_first (sort_key (\<lambda>r. - int (r_id r)) (filter (entered_between from_ts to_ts) (trades db)))))), db)))
       (\<lambda>rows.
     bindE (liftR (collectR trade_of_row rows)) (\<lambda>ts.
     bindE (stmt (askW (\<lambda>db. int (length (filter (entered_between from_ts to_ts) (trades db)))))) (\<lambda>total.
     returnE (ts, total))))))"

section \<open>The history of a trade\<close>

datatype trade_event_kind = HistoryOpen | HistoryOvernightFee | HistorySfdFee | HistorySwapFee | HistoryClose

record history_event =
  he_kind :: trade_event_kind
  he_occurred_at :: datetime
  he_price :: "decimal option"
  he_quantity :: "decimal option"
  he_direction :: "string option"
  he_cash_delta :: "decimal option"
  he_pnl_amount :: "decimal option"

definition fee_kind :: "string \<Rightarrow> trade_event_kind option" where
  "fee_kind ty =
     (if ty = ''overnight_fee'' then Some HistoryOvernightFee
      else if ty = ''sfd_fee'' then Some HistorySfdFee
      else if ty = ''swap_fee'' then Some HistorySwapFee else None)"

definition amount_of :: "string \<Rightarrow> account_event list \<Rightarrow> decimal option" where
  "amount_of ty rows = map_option ev_amount (find (\<lambda>e. ev_type e = ty) rows)"

definition open_entry :: "trade \<Rightarrow> account_event list \<Rightarrow> history_event" where
  "open_entry t rows =
     \<lparr>he_kind = HistoryOpen, he_occurred_at = t_entry_at t, he_price = Some (t_entry_price t),
      he_quantity = Some (t_quantity t), he_direction = Some (direction_as_str (t_direction t)),
      he_cash_delta = amount_of ''margin_lock'' rows, he_pnl_amount = None\<rparr>"

definition fee_entry :: "(account_event \<Rightarrow> datetime) \<Rightarrow> account_event \<Rightarrow> history_event option" where
  "fee_entry time_of e = map_option (\<lambda>kind.
     \<lparr>he_kind = kind, he_occurred_at = time_of e, he_price = None, he_quantity = None, he_direction = None,
      he_cash_delta = Some (ev_amount e), he_pnl_amount = None\<rparr>) (fee_kind (ev_type e))"

definition close_cash_delta :: "rounding \<Rightarrow> decimal option \<Rightarrow> decimal option \<Rightarrow> decimal option" where
  "close_cash_delta rnd refund realized =
     (case (refund, realized) of
        (Some r, Some p) \<Rightarrow> Some (dadd rnd r p)
      | (Some r, None) \<Rightarrow> Some r
      | (None, Some p) \<Rightarrow> Some p
      | (None, None) \<Rightarrow> None)"

definition close_entry :: "rounding \<Rightarrow> trade \<Rightarrow> account_event list \<Rightarrow> history_event list" where
  "close_entry rnd t rows =
     (case (t_exit_at t, t_exit_price t) of
        (Some exit_at, Some exit_price) \<Rightarrow>
          (let realized_pnl = (case amount_of ''trade_close'' rows of Some p \<Rightarrow> Some p | None \<Rightarrow> t_pnl_amount t) in
           [\<lparr>he_kind = HistoryClose, he_occurred_at = exit_at, he_price = Some exit_price,
             he_quantity = Some (t_quantity t), he_direction = Some (direction_as_str (t_direction t)),
             he_cash_delta = close_cash_delta rnd (amount_of ''margin_release'' rows) realized_pnl,
             he_pnl_amount = realized_pnl\<rparr>])
      | _ \<Rightarrow> [])"

definition get_trade_events ::
  "rounding \<Rightarrow> (account_event list \<Rightarrow> account_event list) \<Rightarrow> (account_event \<Rightarrow> datetime) \<Rightarrow> uuid
    \<Rightarrow> history_event list option db_prog" where
  "get_trade_events rnd by_time time_of tid =
     bindE (get_trade_by_id tid) (\<lambda>t.
     case t of
       None \<Rightarrow> returnE None
     | Some t \<Rightarrow>
         bindE (stmt (askW (\<lambda>db. by_time (filter (\<lambda>e. ev_trade_id e = tid) (events db))))) (\<lambda>rows.
         returnE (Some (open_entry t rows # List.map_filter (fee_entry time_of) rows @ close_entry rnd t rows))))"

end
