(* ===== verification/Dashboard.thy ===== *)
theory Dashboard
  imports Backtest_Runner Trade_Reads
begin

text \<open>
  The queries of the dashboard (\<open>db/src/dashboard.rs\<close>). Sums in SQL are exact. Rows without an
  \<open>ORDER BY\<close>, and rows that it does not tell apart, come in table order; \<open>created_at\<close> grows with the
  table order. Dates are UTC days, \<open>today\<close> is \<open>CURRENT_DATE\<close>, and \<open>time_of\<close> the stored time of a
  journal entry.
\<close>

section \<open>Filters\<close>

text \<open>\<open>$n IS NULL OR column = $n\<close>.\<close>

definition matches_opt :: "'a option \<Rightarrow> 'a \<Rightarrow> bool" where
  "matches_opt f x \<longleftrightarrow> (case f of None \<Rightarrow> True | Some v \<Rightarrow> x = v)"

definition from_day :: "int option \<Rightarrow> int \<Rightarrow> bool" where
  "from_day from d \<longleftrightarrow> (case from of None \<Rightarrow> True | Some f \<Rightarrow> f \<le> d)"

definition to_day :: "int option \<Rightarrow> int \<Rightarrow> bool" where
  "to_day to d \<longleftrightarrow> (case to of None \<Rightarrow> True | Some t \<Rightarrow> d \<le> t)"

definition summary_matches ::
  "string option \<Rightarrow> uuid option \<Rightarrow> string option \<Rightarrow> int option \<Rightarrow> int option \<Rightarrow> daily_summary \<Rightarrow> bool" where
  "summary_matches exchange account_id account_type from to d \<longleftrightarrow>
     matches_opt exchange (d_exchange d)
     \<and> (case account_id of None \<Rightarrow> True | Some a \<Rightarrow> d_account_id d = Some a)
     \<and> from_day from (d_date d) \<and> to_day to (d_date d) \<and> matches_opt account_type (d_account_type d)"

text \<open>\<open>GROUP BY key\<close>: the keys in the order of their first rows.\<close>

definition group_keys :: "('r \<Rightarrow> 'k) \<Rightarrow> 'r list \<Rightarrow> 'k list" where
  "group_keys key rows = rev (remdups (rev (map key rows)))"

section \<open>Statistics\<close>

record summary_stats =
  ss_total_trades :: int
  ss_win_count :: int
  ss_total_pnl :: decimal
  ss_total_fees :: decimal
  ss_max_drawdown :: decimal

text \<open>An exit at or after the start of \<open>from\<close> and before the end of \<open>to\<close>; without an exit time a set
  bound fails.\<close>

definition exit_between :: "int option \<Rightarrow> int option \<Rightarrow> datetime option \<Rightarrow> bool" where
  "exit_between from to exit_at \<longleftrightarrow>
     (case from of None \<Rightarrow> True | Some f \<Rightarrow> (case exit_at of None \<Rightarrow> False | Some t \<Rightarrow> f * hours 24 \<le> t))
     \<and> (case to of None \<Rightarrow> True | Some d \<Rightarrow> (case exit_at of None \<Rightarrow> False | Some t \<Rightarrow> t < (d + 1) * hours 24))"

definition fees_of_closed ::
  "database \<Rightarrow> string option \<Rightarrow> uuid option \<Rightarrow> string option \<Rightarrow> int option \<Rightarrow> int option \<Rightarrow> decimal" where
  "fees_of_closed db exchange account_id account_type from to =
     (\<Sum>r\<leftarrow>filter (\<lambda>r. r_status r = ''closed'' \<and> matches_opt exchange (r_exchange r)
        \<and> matches_opt account_id (r_account_id r) \<and> exit_between from to (r_exit_at r)
        \<and> (case find_account (r_account_id r) db of
             None \<Rightarrow> False | Some a \<Rightarrow> matches_opt account_type (a_account_type a))) (trades db). r_fees r)"

definition get_summary ::
  "string option \<Rightarrow> uuid option \<Rightarrow> string option \<Rightarrow> int option \<Rightarrow> int option \<Rightarrow> summary_stats db_prog" where
  "get_summary exchange account_id account_type from to = stmt (askW (\<lambda>db.
     let rows = filter (summary_matches exchange account_id account_type from to) (summaries db) in
     \<lparr>ss_total_trades = sum_list (map d_trade_count rows), ss_win_count = sum_list (map d_win_count rows),
      ss_total_pnl = sum_list (map d_total_pnl rows),
      ss_total_fees = fees_of_closed db exchange account_id account_type from to,
      ss_max_drawdown = (if rows = [] then 0 else Max (set (map d_max_drawdown rows)))\<rparr>))"

record pnl_history_row =
  ph_date :: int
  ph_daily_pnl :: decimal
  ph_cumulative_pnl :: decimal

definition get_pnl_history ::
  "string option \<Rightarrow> uuid option \<Rightarrow> string option \<Rightarrow> int option \<Rightarrow> int option \<Rightarrow> pnl_history_row list db_prog" where
  "get_pnl_history exchange account_id account_type from to = stmt (askW (\<lambda>db.
     let rows = filter (summary_matches exchange account_id account_type from to) (summaries db) in
     map (\<lambda>date. \<lparr>ph_date = date,
         ph_daily_pnl = sum_list (map d_total_pnl (filter (\<lambda>d. d_date d = date) rows)),
         ph_cumulative_pnl = sum_list (map d_total_pnl (filter (\<lambda>d. d_date d \<le> date) rows))\<rparr>)
       (sort (remdups (map d_date rows)))))"

text \<open>The statistics of a strategy or a pair.\<close>

record group_stats =
  gs_name :: string
  gs_trade_count :: int
  gs_win_count :: int
  gs_total_pnl :: decimal

definition stats_by ::
  "(daily_summary \<Rightarrow> string) \<Rightarrow> string option \<Rightarrow> uuid option \<Rightarrow> group_stats list db_prog" where
  "stats_by key exchange account_id = stmt (askW (\<lambda>db.
     let rows = filter (summary_matches exchange account_id None None None) (summaries db) in
     sort_key (\<lambda>g. - gs_total_pnl g) (map (\<lambda>k.
       let group = filter (\<lambda>d. key d = k) rows in
       \<lparr>gs_name = k, gs_trade_count = sum_list (map d_trade_count group),
        gs_win_count = sum_list (map d_win_count group), gs_total_pnl = sum_list (map d_total_pnl group)\<rparr>)
       (group_keys key rows))))"

definition get_strategy_stats :: "string option \<Rightarrow> uuid option \<Rightarrow> group_stats list db_prog" where
  "get_strategy_stats = stats_by d_strategy_name"

definition get_pair_stats :: "string option \<Rightarrow> uuid option \<Rightarrow> group_stats list db_prog" where
  "get_pair_stats = stats_by d_pair"

record hourly_winrate =
  hw_hour :: int
  hw_trade_count :: int
  hw_win_count :: int

definition hour_of :: "datetime \<Rightarrow> int" where
  "hour_of t = (t mod hours 24) div hours 1"

definition get_hourly_winrate :: "string option \<Rightarrow> uuid option \<Rightarrow> hourly_winrate list db_prog" where
  "get_hourly_winrate exchange account_id = stmt (askW (\<lambda>db.
     let rows = filter (\<lambda>r. r_status r = ''closed'' \<and> matches_opt exchange (r_exchange r)
           \<and> matches_opt account_id (r_account_id r)) (trades db) in
     map (\<lambda>h. let group = filter (\<lambda>r. hour_of (r_entry_at r) = h) rows in
         \<lparr>hw_hour = h, hw_trade_count = int (length group),
          hw_win_count = int (length (filter (\<lambda>r. case r_pnl_amount r of None \<Rightarrow> False | Some p \<Rightarrow> p > 0) group))\<rparr>)
       (sort (remdups (map (\<lambda>r. hour_of (r_entry_at r)) rows)))))"

section \<open>Pages of trades\<close>

definition trade_matches ::
  "string option \<Rightarrow> uuid option \<Rightarrow> string option \<Rightarrow> string option \<Rightarrow> string option \<Rightarrow> trade_row \<Rightarrow> bool" where
  "trade_matches exchange account_id strategy_name pair status r \<longleftrightarrow>
     matches_opt exchange (r_exchange r) \<and> matches_opt account_id (r_account_id r)
     \<and> matches_opt strategy_name (r_strategy_name r) \<and> matches_opt pair (r_pair r) \<and> matches_opt status (r_status r)"

text \<open>A page of rows, each with the type of its account, and the number of matching trades. A
  negative limit is an error of the query.\<close>

definition get_trades ::
  "string option \<Rightarrow> uuid option \<Rightarrow> string option \<Rightarrow> string option \<Rightarrow> string option \<Rightarrow> int option \<Rightarrow> int option
    \<Rightarrow> ((trade_row \<times> string) list \<times> int) db_prog" where
  "get_trades exchange account_id strategy_name pair status page per_page =
     (let limit = min (unwrap_or per_page 50) 200;
          offset = (max (unwrap_or page 1) 1 - 1) * limit;
          p = trade_matches exchange account_id strategy_name pair status
      in bindE (stmt (askW (\<lambda>db. int (length (filter p (trades db)))))) (\<lambda>total.
         bindE (stmt (\<lambda>db.
           if limit < 0 \<or> offset < 0 then (Inl db_error, db)
           else (Inr (take (nat limit) (drop (nat offset) (List.map_filter
                  (\<lambda>r. map_option (\<lambda>a. (r, a_account_type a)) (find_account (r_account_id r) db))
                  (filter p (rev (trades db)))))), db))) (\<lambda>rows.
         returnE (rows, total))))"

section \<open>Evaluated balances\<close>

record evaluated_balance =
  eb_current_balance :: decimal
  eb_unrealized_pnl :: decimal
  eb_evaluated_balance :: decimal

text \<open>\<open>DISTINCT ON (pair, exchange) ... ORDER BY timestamp DESC\<close>.\<close>

definition latest_close :: "candle_row list \<Rightarrow> string \<Rightarrow> string \<Rightarrow> decimal option" where
  "latest_close candles pair exchange =
     (case sort_key (\<lambda>c. - kr_timestamp c) (filter (\<lambda>c. kr_pair c = pair \<and> kr_exchange c = exchange) candles) of
        [] \<Rightarrow> None | c # _ \<Rightarrow> Some (kr_close c))"

definition open_pnl_of :: "candle_row list \<Rightarrow> trade_row \<Rightarrow> decimal" where
  "open_pnl_of candles r =
     (let price = unwrap_or (latest_close candles (r_pair r) (r_exchange r)) (r_entry_price r) in
      trunc (if r_direction r = ''long'' then (price - r_entry_price r) * r_quantity r
             else (r_entry_price r - price) * r_quantity r))"

definition locked_margin_of :: "trade_row \<Rightarrow> decimal" where
  "locked_margin_of r = trunc (r_quantity r * r_entry_price r / r_leverage r)"

definition evaluate_account :: "candle_row list \<Rightarrow> database \<Rightarrow> trading_account \<Rightarrow> evaluated_balance" where
  "evaluate_account candles db a =
     (let open_rows = filter (\<lambda>r. r_status r = ''open'' \<and> r_account_id r = a_id a) (trades db);
          unrealized_pnl = sum_list (map (open_pnl_of candles) open_rows);
          locked_margin = sum_list (map locked_margin_of (filter (\<lambda>r. r_leverage r > 0) open_rows))
      in \<lparr>eb_current_balance = a_current_balance a, eb_unrealized_pnl = unrealized_pnl,
          eb_evaluated_balance = a_current_balance a + locked_margin + unrealized_pnl\<rparr>)"

definition get_evaluated_balance :: "candle_row list \<Rightarrow> uuid \<Rightarrow> evaluated_balance db_prog" where
  "get_evaluated_balance candles account_id = stmt (\<lambda>db.
     case find_account account_id db of
       None \<Rightarrow> (Inl db_error, db)
     | Some a \<Rightarrow> (Inr (evaluate_account candles db a), db))"

definition get_all_evaluated_balances :: "candle_row list \<Rightarrow> (uuid \<rightharpoonup> evaluated_balance) db_prog" where
  "get_all_evaluated_balances candles = stmt (askW (\<lambda>db.
     map_of (map (\<lambda>a. (a_id a, evaluate_account candles db a)) (accounts db))))"

section \<open>The history of balances\<close>

record balance_point =
  bp_date :: int
  bp_balance :: decimal

record balance_history =
  bh_account_id :: uuid
  bh_account_name :: string
  bh_data :: "balance_point list"

definition is_realized_event :: "account_event \<Rightarrow> bool" where
  "is_realized_event e \<longleftrightarrow> ev_type e \<in> {''trade_close'', ''overnight_fee'', ''sfd_fee'', ''swap_fee''}"

text \<open>One point for each day from the first journal entry to today; the window sum runs over the
  days of the series.\<close>

definition balance_points ::
  "(account_event \<Rightarrow> datetime) \<Rightarrow> int \<Rightarrow> account_event list \<Rightarrow> decimal \<Rightarrow> balance_point list" where
  "balance_points time_of today own initial_balance =
     (let start_date = (if own = [] then today else Min (set (map (\<lambda>e. day_of (time_of e)) own)));
          realized = filter is_realized_event own
      in map (\<lambda>d. \<lparr>bp_date = d, bp_balance = initial_balance
            + (\<Sum>e\<leftarrow>filter (\<lambda>e. start_date \<le> day_of (time_of e) \<and> day_of (time_of e) \<le> d) realized. ev_amount e)\<rparr>)
         [start_date..today])"

definition get_balance_history ::
  "(account_event \<Rightarrow> datetime) \<Rightarrow> int \<Rightarrow> string option \<Rightarrow> balance_history list db_prog" where
  "get_balance_history time_of today account_type =
     bindE (stmt (askW (\<lambda>db. sort_key a_created_at
       (filter (\<lambda>a. a_active a \<and> matches_opt account_type (a_account_type a)) (accounts db))))) (\<lambda>accs.
     foldE (\<lambda>result a.
       bindE (stmt (askW (\<lambda>db. balance_points time_of today
           (filter (\<lambda>e. ev_account_id e = a_id a) (events db)) (a_initial_balance a)))) (\<lambda>points.
       returnE (result @ [\<lparr>bh_account_id = a_id a, bh_account_name = a_name a, bh_data = points\<rparr>]))) [] accs)"

end
