(* ===== verification/History_Theorems.thy ===== *)
theory History_Theorems
  imports Trade_Reads Ledger_Theorems "HOL-Library.Multiset"
begin

text \<open>
  What the dashboard shows agrees with the ledger: the history of a closed trade accounts for every
  journal entry of the trade. The invariant behind it: the journal has six kinds of entries, and a
  closed trade has its exit.
\<close>

section \<open>Kinds of journal entries\<close>

definition journal_types :: "string set" where
  "journal_types = {''margin_lock'', ''margin_release'', ''trade_close'', ''overnight_fee'', ''sfd_fee'', ''swap_fee''}"

definition exit_known :: "trade_row \<Rightarrow> bool" where
  "exit_known r \<longleftrightarrow> (r_status r = ''closed'' \<longrightarrow> r_exit_at r \<noteq> None \<and> r_exit_price r \<noteq> None)"

definition history_ok :: "database \<Rightarrow> bool" where
  "history_ok db \<longleftrightarrow> (\<forall>e \<in> set (events db). ev_type e \<in> journal_types) \<and> (\<forall>r \<in> set (trades db). exit_known r)"

lemma on_tables_history: "on_tables history_ok"
  by (simp add: on_tables_def history_ok_def)

lemma history_stmt_update:
  assumes "\<And>r. exit_known r \<Longrightarrow> p r \<Longrightarrow> exit_known (f r)"
  shows "preserves history_ok (stmt (\<lambda>db. (Inr (g db), db\<lparr>trades := update_rows p f (trades db)\<rparr>)))"
  using assms
  by (intro preserves_stmt [OF on_tables_history]) (auto simp: triple_def history_ok_def set_update_rows)

lemma history_stmt_other:
  assumes "\<And>db. trades (snd (m db)) = trades db \<and> events (snd (m db)) = events db"
  shows "preserves history_ok (stmt m)"
proof (intro preserves_stmt [OF on_tables_history] tripleI)
  fix w x w' assume "history_ok w" and "m w = (Inl x, w')"
  then show "history_ok w'" using assms [of w] by (simp add: history_ok_def)
next
  fix w x w' assume "history_ok w" and "m w = (Inr x, w')"
  then show "history_ok w'" using assms [of w] by (simp add: history_ok_def)
qed

lemma history_statements:
  "preserves history_ok (update_balance_returning aid f)"
  "preserves history_ok (insert_notification n)"
  "preserves history_ok (insert_account a)"
  "preserves history_ok (update_account_row aid req)"
  "preserves history_ok (delete_account aid)"
  unfolding update_balance_returning_def insert_notification_def insert_account_def update_account_row_def
    delete_account_def
  by (intro history_stmt_other; auto simp: Let_def split: list.splits)+

lemma history_event:
  "ty \<in> journal_types \<Longrightarrow> preserves history_ok (insert_event aid tid ty amt after occ)"
  unfolding insert_event_def
  by (intro preserves_stmt [OF on_tables_history]) (auto simp: triple_def history_ok_def)

lemma history_trade: "t_status t = Open \<Longrightarrow> preserves history_ok (insert_trade t)"
  unfolding insert_trade_def
  by (intro preserves_stmt [OF on_tables_history])
    (auto simp: triple_def history_ok_def exit_known_def row_of_trade_def)

lemmas history_wp = preserves_bindE preserves_returnE preserves_failE preserves_liftR preserves_if
  preserves_transaction [OF on_tables_history] preserves_read [OF on_tables_history]
  history_stmt_update history_statements history_event history_trade

lemma history_operations:
  "t_status t = Open \<Longrightarrow> preserves history_ok (persist_open_tx aid t m)"
  "preserves history_ok (persist_closed_tx rnd aid c m pnl ep ea x)"
  "ty \<in> {''overnight_fee'', ''sfd_fee'', ''swap_fee''} \<Longrightarrow> preserves history_ok (charge_fee_tx aid tid fee ty occ)"
  "preserves history_ok (reconciled_tx rnd ea tid ep pnl x aid m)"
  "preserves history_ok (add_fees tid d)"
  "preserves history_ok (release_close_lock tid)"
  "preserves history_ok (create_account new_id now req)"
  "preserves history_ok (update_account aid' req')"
proof -
  show "preserves history_ok (persist_open_tx aid t m)" if "t_status t = Open"
    unfolding persist_open_tx_def lock_margin_def insert_trade_opened_def
    by (intro history_wp that) (simp add: journal_types_def)
  show "preserves history_ok (persist_closed_tx rnd aid c m pnl ep ea x)"
    unfolding persist_closed_tx_def update_trade_closed_def release_margin_def insert_trade_closed_def Let_def
    by (intro history_wp) (simp_all add: journal_types_def exit_known_def)
  show "preserves history_ok (charge_fee_tx aid tid fee ty occ)" if "ty \<in> {''overnight_fee'', ''sfd_fee'', ''swap_fee''}"
    unfolding charge_fee_tx_def apply_fee_inner_def Let_def
    by (intro history_wp) (use that in \<open>auto simp: journal_types_def exit_known_def\<close>)
  show "preserves history_ok (reconciled_tx rnd ea tid ep pnl x aid m)"
    unfolding reconciled_tx_def release_margin_def
    by (intro history_wp) (simp_all add: journal_types_def exit_known_def)
  show "preserves history_ok (add_fees tid d)"
    unfolding add_fees_def by (intro history_wp) (simp add: exit_known_def)
  show "preserves history_ok (release_close_lock tid)"
    unfolding release_close_lock_def by (intro history_wp) (simp add: exit_known_def)
  show "preserves history_ok (create_account new_id now req)"
    unfolding create_account_def Let_def reject_if_live_account_exists_for_exchange_def
    by (intro history_wp)
  show "preserves history_ok (update_account aid' req')"
    by (intro update_account_preserves_gen on_tables_history history_statements)
qed

lemma history_lock: "preserves history_ok (acquire_close_lock now tid aid)"
  unfolding acquire_close_lock_def Let_def
  by (intro preserves_bindE preserves_stmt [OF on_tables_history])
    (auto simp: triple_def run_simps exit_known_def history_ok_def set_update_rows
      split: list.splits option.splits sum.splits)

interpretation history: inductive_invariant ledger_init "ledger_step rnd" "\<lambda>s. history_ok (ldb s)" for rnd
proof unfold_locales
  fix s assume "ledger_init s"
  then show "history_ok (ldb s)" by (simp add: ledger_init_def history_ok_def)
next
  fix s s' assume inv: "history_ok (ldb s)" and "ledger_step rnd s s'"
  from this(2) show "history_ok (ldb s')"
  proof cases
    case (environment db')
    then show ?thesis using inv by (simp add: history_ok_def)
  next
    case (take_lock now tid aid res db')
    then show ?thesis using inv preserves_snd [OF history_lock, of "ldb s" now tid aid] by simp
  qed (use inv in \<open>auto intro!: preserves_snd [OF history_operations(1)] preserves_snd [OF history_operations(2)]
      preserves_snd [OF history_operations(3)] preserves_snd [OF history_operations(4)]
      preserves_snd [OF history_operations(5)] preserves_snd [OF history_operations(6)]
      preserves_snd [OF history_operations(7)] preserves_snd [OF history_operations(8)]
      preserves_snd [OF history_statements(5)]\<close>)
qed

section \<open>Cash of the history\<close>

definition cash :: "history_event list \<Rightarrow> decimal" where
  "cash hs = (\<Sum>h\<leftarrow>hs. unwrap_or (he_cash_delta h) 0)"

definition sum_of :: "string \<Rightarrow> account_event list \<Rightarrow> decimal" where
  "sum_of ty es = (\<Sum>e\<leftarrow>filter (\<lambda>e. ev_type e = ty) es. ev_amount e)"

lemma found_once:
  "length (filter (\<lambda>e. ev_type e = ty) es) = 1 \<Longrightarrow> amount_of ty es = Some (sum_of ty es)"
  by (induction es) (auto simp: amount_of_def sum_of_def filter_empty_conv)

lemma fees_cash:
  "cash (List.map_filter (fee_entry time_of) es) =
     (\<Sum>e\<leftarrow>filter (\<lambda>e. ev_type e \<in> {''overnight_fee'', ''sfd_fee'', ''swap_fee''}) es. ev_amount e)"
  by (induction es)
    (auto simp: cash_def List.map_filter_simps fee_entry_def fee_kind_def unwrap_or_def split: option.splits)

lemma journal_split:
  assumes "\<forall>e \<in> set es. ev_type e \<in> journal_types"
  shows "(\<Sum>e\<leftarrow>es. ev_amount e) = sum_of ''margin_lock'' es + sum_of ''margin_release'' es + sum_of ''trade_close'' es
    + (\<Sum>e\<leftarrow>filter (\<lambda>e. ev_type e \<in> {''overnight_fee'', ''sfd_fee'', ''swap_fee''}) es. ev_amount e)"
  using assms by (induction es) (auto simp: sum_of_def journal_types_def)

lemma sum_list_mset: "mset xs = mset ys \<Longrightarrow> (\<Sum>x\<leftarrow>xs. f x) = (\<Sum>x\<leftarrow>ys. f x :: 'a::comm_monoid_add)"
  by (metis mset_map sum_mset_sum_list)

lemma find_by_key: "distinct (map k xs) \<Longrightarrow> x \<in> set xs \<Longrightarrow> find (\<lambda>y. k y = k x) xs = Some x"
  by (induction xs) (auto simp: image_iff)

lemma history_cash:
  assumes "\<forall>e \<in> set es. ev_type e \<in> journal_types"
    and "length (filter (\<lambda>e. ev_type e = ''margin_lock'') es) = 1"
    and "length (filter (\<lambda>e. ev_type e = ''margin_release'') es) = 1"
    and "length (filter (\<lambda>e. ev_type e = ''trade_close'') es) = 1"
    and "t_exit_at t \<noteq> None" "t_exit_price t \<noteq> None"
  shows "cash (open_entry t es # List.map_filter (fee_entry time_of) es @ close_entry exact t es) = (\<Sum>e\<leftarrow>es. ev_amount e)"
proof -
  note m = found_once [OF assms(2)] found_once [OF assms(3)] found_once [OF assms(4)]
  have "cash (close_entry exact t es) = sum_of ''margin_release'' es + sum_of ''trade_close'' es"
    using assms(5,6) m by (auto simp: close_entry_def cash_def close_cash_delta_def unwrap_or_def dec_op_defs Let_def)
  moreover have "cash (open_entry t es # hs) = sum_of ''margin_lock'' es + cash hs" for hs
    using m by (simp add: open_entry_def cash_def unwrap_or_def)
  moreover have "cash (xs @ ys) = cash xs + cash ys" for xs ys by (simp add: cash_def)
  ultimately show ?thesis using journal_split [OF assms(1)] fees_cash [of time_of es] by simp
qed

section \<open>The history of a closed trade\<close>

text \<open>
  C26. The history of a closed trade accounts for its money: in every reachable state of the
  ledger, without a database failure and whatever order the entries come in, the history starts
  with the opening and ends with the closing, and its cash deltas add up to the journal entries of
  the trade: no entry is missing and none is counted twice.
\<close>

theorem trade_history_accounts_for_journal:
  assumes reach: "reachable ledger_init (ledger_step rnd) s" and "r \<in> set (trades (ldb s))"
    and "r_status r = ''closed''" and nofault: "faults (ldb s) = []" and perm: "\<And>xs. mset (by_time xs) = mset xs"
  shows "\<exists>hs. get_trade_events exact by_time time_of (r_id r) (ldb s) = (Inr (Some hs), ldb s)
    \<and> he_kind (hd hs) = HistoryOpen \<and> he_kind (List.last hs) = HistoryClose
    \<and> cash hs = (\<Sum>e\<leftarrow>filter (\<lambda>e. ev_trade_id e = r_id r) (events (ldb s)). ev_amount e)"
proof -
  let ?db = "ldb s"
  let ?own = "filter (\<lambda>e. ev_trade_id e = r_id r) (events ?db)"
  let ?es = "by_time ?own"
  have wf: "distinct (map r_id (trades ?db))" "wf_row r"
    using ledger.reachable_inv [OF reach] assms(2) by (simp_all add: system_inv_def ledger_inv_def wf_db_def)
  then obtain t where t: "trade_of_row r = Inr t" by (auto simp: wf_row_def)
  have found: "find (\<lambda>q. r_id q = r_id r) (trades ?db) = Some r"
    using find_by_key [of r_id, OF wf(1) assms(2)] .
  have ok: "history_ok ?db" by (rule history.reachable_inv [OF reach])
  then have exits: "t_exit_at t \<noteq> None" "t_exit_price t \<noteq> None"
    using t assms(2,3) by (auto simp: trade_of_row_def bindR_eq_Inr history_ok_def exit_known_def)
  have sets: "set ?es = set ?own" by (metis perm set_mset_mset)
  have types: "\<forall>e \<in> set ?es. ev_type e \<in> journal_types" using ok sets by (auto simp: history_ok_def)
  have count: "length (filter (\<lambda>e. ev_type e = ty) ?es) = booked ty (r_id r) (events ?db)" for ty
  proof -
    have "mset (filter (\<lambda>e. ev_type e = ty) ?es) = mset (filter (\<lambda>e. ev_type e = ty) ?own)"
      by (metis mset_filter perm)
    then have "length (filter (\<lambda>e. ev_type e = ty) ?es) = length (filter (\<lambda>e. ev_type e = ty) ?own)"
      by (rule mset_eq_length)
    also have "\<dots> = booked ty (r_id r) (events ?db)" by (simp add: booked_def conj_commute)
    finally show ?thesis .
  qed
  have "row_booked (events ?db) r"
    using settlement.reachable_inv [OF reach] assms(2) by (simp add: booked_once_def)
  then have one: "booked ''margin_lock'' (r_id r) (events ?db) = 1" "booked ''margin_release'' (r_id r) (events ?db) = 1"
    "booked ''trade_close'' (r_id r) (events ?db) = 1"
    using assms(3) by (simp_all add: row_booked_def unsettled_def)
  let ?hs = "open_entry t ?es # List.map_filter (fee_entry time_of) ?es @ close_entry exact t ?es"
  have "get_trade_events exact by_time time_of (r_id r) ?db = (Inr (Some ?hs), ?db)"
    by (simp add: get_trade_events_def get_trade_by_id_def run_simps stmt_ok nofault found t)
  moreover have "cash ?hs = (\<Sum>e\<leftarrow>?es. ev_amount e)"
    by (rule history_cash) (use types one count exits in simp_all)
  moreover have "(\<Sum>e\<leftarrow>?es. ev_amount e) = (\<Sum>e\<leftarrow>?own. ev_amount e)" by (rule sum_list_mset [OF perm])
  moreover have "he_kind (List.last ?hs) = HistoryClose" using exits by (auto simp: close_entry_def Let_def)
  ultimately show ?thesis by (auto simp: open_entry_def)
qed

theorem trade_history_accounts_for_journal_witness:
  "\<exists>hs. get_trade_events exact id (\<lambda>_. 0) 7 (ldb demo_closed) = (Inr (Some hs), ldb demo_closed) \<and> cash hs = 1000"
proof -
  have rows: "map (\<lambda>r. (r_id r, r_status r)) (trades (ldb demo_closed)) = [(7, ''closed'')]" by code_simp
  then obtain r where r: "r \<in> set (trades (ldb demo_closed))" "r_status r = ''closed''" "r_id r = 7"
    by auto
  have nofault: "faults (ldb demo_closed) = []" by code_simp
  have sum: "(\<Sum>e\<leftarrow>filter (\<lambda>e. ev_trade_id e = 7) (events (ldb demo_closed)). ev_amount e) = 1000" by code_simp
  have perm: "mset (id xs) = mset xs" for xs :: "account_event list" by simp
  show ?thesis
    using trade_history_accounts_for_journal [OF demo_closed_reachable r(1,2) nofault perm, of "\<lambda>_. 0"]
    unfolding r(3) sum by blast
qed

end
