(* ===== verification/Dashboard_Theorems.thy ===== *)
theory Dashboard_Theorems
  imports Dashboard History_Theorems
begin

text \<open>
  The evaluated balance and the balance history agree with the ledger, and the statistics by
  strategy add up to the summary.
\<close>

section \<open>Evaluated balances\<close>

text \<open>What the closed trades of an account have brought, and what its closing trades hold locked.\<close>

definition closed_results :: "trade_row list \<Rightarrow> uuid \<Rightarrow> decimal" where
  "closed_results rows aid =
     (\<Sum>r\<leftarrow>filter (\<lambda>r. r_account_id r = aid \<and> r_status r = ''closed'') rows. unwrap_or (r_pnl_amount r) 0)"

definition closing_margins :: "trade_row list \<Rightarrow> uuid \<Rightarrow> decimal" where
  "closing_margins rows aid =
     (\<Sum>r\<leftarrow>filter (\<lambda>r. r_account_id r = aid \<and> r_status r = ''closing'') rows. locked_margin_of r)"

lemma locked_margin_row: "locked_margin_of r = row_margin exact r"
  by (simp add: locked_margin_of_def row_margin_def exact_def mult.commute)

lemma pv_sum_split:
  assumes "\<forall>r \<in> set rows. r_status r \<in> {''open'', ''closing'', ''closed''}"
  shows "pv_sum exact rows aid = closed_results rows aid - closing_margins rows aid
    - (\<Sum>r\<leftarrow>filter (\<lambda>r. r_status r = ''open'' \<and> r_account_id r = aid) rows. locked_margin_of r)"
  using assms
  by (induction rows)
    (auto simp: pv_sum_def closed_results_def closing_margins_def position_value_def unsettled_def locked_margin_row)


lemma demo_open_fields:
  "map (\<lambda>a. (a_id a, a_initial_balance a)) (accounts (ldb demo_open)) = [(1, 100000)]"
  "map r_leverage (trades (ldb demo_open)) = [10]" "faults (ldb demo_open) = []"
  "closed_results (trades (ldb demo_open)) 1 = 0" "closing_margins (trades (ldb demo_open)) 1 = 0"
  "fee_sum (events (ldb demo_open)) 1 = 0"
  by code_simp+


section \<open>The history of balances\<close>

definition margin_sum :: "account_event list \<Rightarrow> uuid \<Rightarrow> decimal" where
  "margin_sum es aid = (\<Sum>e\<leftarrow>filter (\<lambda>e. ev_account_id e = aid \<and> \<not> is_realized_event e) es. ev_amount e)"

lemma last_point:
  assumes "\<forall>e \<in> set own. day_of (time_of e) \<le> today"
  shows "balance_points time_of today own b \<noteq> []
    \<and> List.last (balance_points time_of today own b) =
       \<lparr>bp_date = today, bp_balance = b + (\<Sum>e\<leftarrow>filter is_realized_event own. ev_amount e)\<rparr>"
proof -
  let ?start = "if own = [] then today else Min (set (map (\<lambda>e. day_of (time_of e)) own))"
  have le: "?start \<le> today" using assms by (cases own) (auto simp: Min_le_iff)
  then have days: "[?start..today] \<noteq> []" "List.last [?start..today] = today"
    by (simp_all add: upto_rec2)
  have all: "filter (\<lambda>e. ?start \<le> day_of (time_of e) \<and> day_of (time_of e) \<le> today) (filter is_realized_event own)
      = filter is_realized_event own"
    using assms by (auto simp: filter_id_conv filter_filter intro!: filter_cong)
  show ?thesis
    unfolding balance_points_def Let_def using days all by (simp only: last_map list.map_disc_iff simp_thms)
qed

text \<open>Today's point of the history is the running balance with the margin movements undone.\<close>

lemma balance_history_today:
  assumes "reachable ledger_init (ledger_step rnd) s" and "a \<in> set (accounts (ldb s))"
    and "\<forall>e \<in> set (events (ldb s)). day_of (time_of e) \<le> today"
  shows "bp_balance (List.last (balance_points time_of today
      (filter (\<lambda>e. ev_account_id e = a_id a) (events (ldb s))) (a_initial_balance a)))
    = a_current_balance a - margin_sum (events (ldb s)) (a_id a)"
proof -
  let ?own = "filter (\<lambda>e. ev_account_id e = a_id a) (events (ldb s))"
  have "a_current_balance a = a_initial_balance a + journal_sum (events (ldb s)) (a_id a)"
    using ledger.reachable_inv [OF assms(1)] assms(2) by (auto simp: system_inv_def ledger_inv_def ledger_ok_def)
  moreover have "journal_sum (events (ldb s)) (a_id a) =
      (\<Sum>e\<leftarrow>filter is_realized_event ?own. ev_amount e) + margin_sum (events (ldb s)) (a_id a)"
    using sum_list_filter_split [of ev_amount ?own is_realized_event]
    by (simp add: journal_sum_def margin_sum_def conj_commute)
  ultimately show ?thesis using last_point [of ?own time_of today "a_initial_balance a"] assms(3) by simp
qed

section \<open>Statistics\<close>

lemma sum_by_groups:
  "distinct ks \<Longrightarrow> key ` set rows \<subseteq> set ks \<Longrightarrow>
    (\<Sum>k\<leftarrow>ks. \<Sum>d\<leftarrow>filter (\<lambda>d. key d = k) rows. f d) = (\<Sum>d\<leftarrow>rows. f d :: 'a::comm_monoid_add)"
proof (induction rows)
  case (Cons d rows)
  have "(\<Sum>k\<leftarrow>ks. \<Sum>d\<leftarrow>filter (\<lambda>d. key d = k) (d # rows). f d) =
      (\<Sum>k\<leftarrow>ks. (if key d = k then f d else 0) + (\<Sum>d\<leftarrow>filter (\<lambda>d. key d = k) rows. f d))"
    by (intro arg_cong [where f = sum_list] map_cong) auto
  also have "\<dots> = (\<Sum>k\<leftarrow>ks. if key d = k then f d else 0) + (\<Sum>d\<leftarrow>rows. f d)"
    using Cons by (simp add: sum_list_addf)
  also have "(\<Sum>k\<leftarrow>ks. if key d = k then f d else 0) = f d"
    using Cons.prems by (simp add: sum_list_distinct_conv_sum_set)
  finally show ?case by simp
qed simp

lemma group_keys_facts: "distinct (group_keys key rows)" "key ` set rows \<subseteq> set (group_keys key rows)"
  by (simp_all add: group_keys_def)

lemma stats_add_up:
  assumes "stats_by key exchange account_id db = (Inr gs, db1)"
    and "get_summary exchange account_id None None None db = (Inr tot, db2)"
  shows "sum_list (map gs_trade_count gs) = ss_total_trades tot
    \<and> sum_list (map gs_win_count gs) = ss_win_count tot \<and> sum_list (map gs_total_pnl gs) = ss_total_pnl tot"
proof -
  let ?rows = "filter (summary_matches exchange account_id None None None) (summaries db)"
  let ?g = "\<lambda>k. let group = filter (\<lambda>d. key d = k) ?rows in
       \<lparr>gs_name = k, gs_trade_count = sum_list (map d_trade_count group),
        gs_win_count = sum_list (map d_win_count group), gs_total_pnl = sum_list (map d_total_pnl group)\<rparr>"
  let ?ks = "group_keys key ?rows"
  have gs: "mset gs = mset (map ?g ?ks)"
    using assms(1) by (auto simp: stats_by_def stmt_def run_simps Let_def split: list.splits if_splits)
  note ks = group_keys_facts [of key ?rows]
  have tot: "ss_total_trades tot = (\<Sum>d\<leftarrow>?rows. d_trade_count d)" "ss_win_count tot = (\<Sum>d\<leftarrow>?rows. d_win_count d)"
    "ss_total_pnl tot = (\<Sum>d\<leftarrow>?rows. d_total_pnl d)"
    using assms(2) by (auto simp: get_summary_def stmt_def run_simps Let_def split: list.splits if_splits)
  show ?thesis
    unfolding tot sum_list_mset [OF gs] map_map o_def by (simp add: Let_def sum_by_groups [OF ks] del: filter_filter)
qed

end
