(* ===== verification/Spec2Isabelle.thy ===== *)
theory Spec2Isabelle
  imports Sizing Account_Theorems Price_Store Trader_Theorems Indicator_Theorems Strategy_Theorems Roundtrips
    Paper_Exit Watchdog_Theorems Sim_Cache_Theorems Sim_Sweep Sim_Backtest Reconcile_Theorems Client_Witnesses Backtest_Theorems Dashboard_Theorems
begin

text \<open>
  Verification of auto-trader, an automated trading system in Rust (the crates under
  \<open>src/crates\<close>).

  The program.  Market feeds (\<open>crates/market\<close>) write the latest ticks of each exchange and pair
  into a shared price store and candles into histories.  Strategies (\<open>crates/strategy\<close>) turn
  candles and prices into signals.  The executor task (\<open>crates/app\<close>) checks a signal against the
  risk gate, and the trader of the account (\<open>crates/executor\<close>) sizes the order, fills it on the
  exchange or on paper, and persists the trade.  Monitors watch open positions and ask the trader
  to close them.  The database (\<open>crates/db\<close>) holds accounts, trades, the journal of balance
  changes and notifications; it is the only shared mutable state besides the price store.

  Theories, in the order of their imports:

  \<^item> \<open>Prelude\<close>: results and errors (an error is \<open>Anyhow\<close> or a panic), the state-and-error monad of
    the model with its rules for preserved properties, list and association lemmas, reachability
    and the locale \<open>inductive_invariant\<close>.
  \<^item> \<open>Decimals\<close>, \<open>Types\<close>: \<open>rust_decimal\<close> values as rationals with rounding as a parameter
    (\<open>exact\<close> is the identity), time as integer nanoseconds, and the enums and structs of
    \<open>core/src/types.rs\<close>, \<open>strategy.rs\<close> and \<open>event.rs\<close>.
  \<^item> \<open>Pricing\<close>, \<open>Sizing\<close>: margin, SFD, swap and commission functions of \<open>core\<close>, the position sizer
    and the risk gate of \<open>executor\<close>.
  \<^item> \<open>Database\<close>, \<open>Transactions\<close>, \<open>Accounts\<close>: the tables as lists of rows, each statement of
    \<open>db/src/trades\<close>, \<open>db/src/trading_accounts\<close>, \<open>notifications.rs\<close> and \<open>summary.rs\<close> that changes
    them, with constraints and a schedule of failures; a transaction that fails restores the tables.
  \<^item> \<open>Ledger\<close>, \<open>Ledger_Steps\<close>, \<open>Ledger_System\<close>, \<open>Settlement\<close>: the balance equation, its
    preservation by every operation, the step relation \<open>ledger_step\<close> of all interleavings of
    transactions of several tasks, and the single settlement of each trade.
  \<^item> \<open>Ledger_Theorems\<close>, \<open>Account_Theorems\<close>: the properties of the database layer.
  \<^item> \<open>Price_Store\<close>: the price store and feed health of \<open>market/src/price_store.rs\<close>.
  \<^item> \<open>Exchange_Api\<close>: the trait \<open>ExchangeApi\<close> as a record of functions over an unknown exchange
    state, so that every answer is possible; the environment of a task (clock, other tasks, fresh
    identifiers) and the log of exchange calls and notifications.
  \<^item> \<open>Trader\<close>: all of \<open>executor/src/trader\<close>: entry, fill polling and its reconciliation, protective
    stops, the close lock, recovery of stale locks, settlement and notifications.
  \<^item> \<open>Call_Log\<close>, \<open>Trader_Orders\<close>: which orders the trader can send, for every exchange.
  \<^item> \<open>Awaiting\<close>, \<open>Trader_Refinement\<close>: the trader's runs, with other tasks running at each await,
    are runs of \<open>ledger_step\<close>.
  \<^item> \<open>Trader_Poll\<close>, \<open>Trader_Close\<close>, \<open>Trader_Theorems\<close>: termination of the polling loop, the error
    and success paths of closing, and the instances of the properties at a small exchange.

  Fuel and loops.  The polling loop of \<open>poll_executions\<close> is bounded by \<open>poll_fuel\<close>, the number of
  initial delays that fit the timeout plus two; \<open>poll_executions_terminates\<close> shows that it is never
  used up when the clock moves through each sleep.  All other loops are structural.

  Conventions.  A decimal operation takes the rounding \<open>rnd\<close> of \<open>rust_decimal\<close> as a parameter; a
  property either holds for every rounding or says \<open>exact\<close>.  A division by zero, an overflow of
  the decimal range where the code relies on it and a failed \<open>expect\<close> are panics.  Log lines
  (\<open>tracing\<close>) are not part of the model.

  Not modelled: the HTTP and WebSocket clients and the parsing of their messages, Slack delivery,
  the REST layer and the user interface, migrations, the gRPC clients of the learning service, the
  batch programs and the process start-up and shut-down; they are input and output around the
  parts above.
\<close>

end
